(* ===== verification/X52_Prelude.thy ===== *)
theory X52_Prelude
  imports Main "HOL-Library.Word"
begin

text \<open>
  Shared vocabulary of the development: the C integer types, C strings and the string
  functions of the standard library that the sources call, the collections that carry the
  component proofs, and generic lemmas on words and lists.

  C integers. \<open>uint8_t\<close>, \<open>uint16_t\<close>, \<open>uint32_t\<close>, \<open>uint64_t\<close> are words of that width. A C
  \<open>int\<close> is an \<open>int\<close>; a conversion to a narrower type is written out (\<open>c_int\<close> for a
  conversion to a 32-bit \<open>int\<close>, \<open>word_of_int\<close> for one to an unsigned type). \<open>long\<close> has 64
  bits, as on the LP64 platforms the program is built for.

  C strings are lists of characters without the terminating NUL; raw bytes are lists of
  \<open>8 word\<close>.
\<close>

unbundle bit_operations_syntax

section \<open>C integers\<close>

type_synonym u8 = "8 word"
type_synonym u16 = "16 word"
type_synonym u32 = "32 word"
type_synonym u64 = "64 word"

definition c_int :: "int \<Rightarrow> int" where
  "c_int x = signed_take_bit 31 x"

lemma c_int_id: "- (2 ^ 31) \<le> x \<Longrightarrow> x < 2 ^ 31 \<Longrightarrow> c_int x = x"
  unfolding c_int_def by (rule signed_take_bit_int_eq_self) simp_all

text \<open>Division and remainder of C truncate towards zero.\<close>

definition c_div :: "int \<Rightarrow> int \<Rightarrow> int" where
  "c_div a b = (if (a < 0) \<noteq> (b < 0) then - (\<bar>a\<bar> div \<bar>b\<bar>) else \<bar>a\<bar> div \<bar>b\<bar>)"

definition c_mod :: "int \<Rightarrow> int \<Rightarrow> int" where
  "c_mod a b = a - b * c_div a b"

lemma c_div_nonneg: "0 \<le> a \<Longrightarrow> 0 < b \<Longrightarrow> c_div a b = a div b"
  by (simp add: c_div_def)

lemma c_mod_nonneg: "0 \<le> a \<Longrightarrow> 0 < b \<Longrightarrow> c_mod a b = a mod b"
  by (simp add: c_mod_def c_div_nonneg minus_mult_div_eq_mod)

text \<open>A \<open>char\<close> is signed.\<close>

definition c_char :: "char \<Rightarrow> int" where
  "c_char c = (let n = (of_char c :: int) in if n < 128 then n else n - 256)"

section \<open>Leaving the process\<close>

text \<open>A function that may leave the process gives its exit status or its result.\<close>

datatype 'a proc = Exit int | Go 'a

section \<open>Collections\<close>

named_theorems x52_dev_simps \<open>equations of the operations on the libx52 device record\<close>
named_theorems x52_bit_simps \<open>reading single bits of 32-bit masks\<close>
named_theorems cstr_simps \<open>evaluation of the C string functions\<close>

section \<open>Words\<close>

lemma unat_and_mask_less: "unat (w AND mask n) < 2 ^ n" for w :: "'a::len word"
proof -
  have "w AND mask n = take_bit n w" by (simp add: take_bit_eq_mask)
  moreover have "unat (take_bit n w) < 2 ^ n"
    by (simp add: unsigned_take_bit_eq)
  ultimately show ?thesis by simp
qed

lemma uint_and_mask: "uint (w AND mask n) = uint w mod 2 ^ n" for w :: "'a::len word"
proof -
  have "uint (w AND mask n) = uint (take_bit n w)" by (simp add: take_bit_eq_mask)
  also have "\<dots> = take_bit n (uint w)" by (rule unsigned_take_bit_eq)
  finally show ?thesis by (simp only: take_bit_eq_mod)
qed

lemma uint_drop_bit_div: "uint (drop_bit n w) = uint w div 2 ^ n" for w :: "'a::len word"
proof -
  have "uint (drop_bit n w) = drop_bit n (take_bit LENGTH('a) (uint w))"
    by (rule unsigned_drop_bit_eq)
  also have "take_bit LENGTH('a) (uint w) = uint w"
    by (simp add: take_bit_int_eq_self)
  finally show ?thesis by (simp only: drop_bit_eq_div)
qed

section \<open>C strings\<close>

definition tolower :: "char \<Rightarrow> char" where
  "tolower c = (let n = (of_char c :: nat) in
     if 65 \<le> n \<and> n \<le> 90 then char_of (n + 32) else c)"

text \<open>\<open>strcasecmp(s, t) == 0\<close>, in the C locale.\<close>

definition strcaseeq :: "string \<Rightarrow> string \<Rightarrow> bool" where
  "strcaseeq s t \<longleftrightarrow> map tolower s = map tolower t"

lemma strcaseeq_refl [simp]: "strcaseeq s s"
  by (simp add: strcaseeq_def)

lemma strcaseeq_sym: "strcaseeq s t \<Longrightarrow> strcaseeq t s"
  by (simp add: strcaseeq_def)

lemma strcaseeq_trans: "strcaseeq s t \<Longrightarrow> strcaseeq t u \<Longrightarrow> strcaseeq s u"
  by (simp add: strcaseeq_def)

definition isspace :: "char \<Rightarrow> bool" where
  "isspace c = (let n = (of_char c :: nat) in n = 32 \<or> (9 \<le> n \<and> n \<le> 13))"

section \<open>Printing integers\<close>

text \<open>The decimal digits of a number, and \<open>%d\<close> of \<open>printf\<close>.\<close>

fun nat_digits :: "nat \<Rightarrow> string" where
  "nat_digits n = (if n < 10 then [char_of (48 + n)]
     else nat_digits (n div 10) @ [char_of (48 + n mod 10)])"

declare nat_digits.simps [simp del]

definition fmt_d :: "int \<Rightarrow> string" where
  "fmt_d i = (if i < 0 then CHR ''-'' # nat_digits (nat (- i)) else nat_digits (nat i))"

text \<open>The lower case hexadecimal digits, and \<open>%0kx\<close> of \<open>printf\<close>.\<close>

definition hex_digit :: "nat \<Rightarrow> char" where
  "hex_digit n = (if n < 10 then char_of (48 + n) else char_of (87 + n))"

fun fmt_hex :: "nat \<Rightarrow> string" where
  "fmt_hex n = (if n < 16 then [hex_digit n] else fmt_hex (n div 16) @ [hex_digit (n mod 16)])"

declare fmt_hex.simps [simp del]

definition fmt_0x :: "nat \<Rightarrow> nat \<Rightarrow> string" where
  "fmt_0x k n = (let s = fmt_hex n in replicate (k - length s) CHR ''0'' @ s)"

text \<open>\<open>sprintf\<close> of a format whose first directive is \<open>%d\<close>.\<close>

fun sprintf_d :: "string \<Rightarrow> int \<Rightarrow> string" where
  "sprintf_d [] n = []"
| "sprintf_d [c] n = [c]"
| "sprintf_d (c # d # cs) n =
     (if c = CHR ''%'' \<and> d = CHR ''d'' then fmt_d n @ cs else c # sprintf_d (d # cs) n)"

text \<open>\<open>snprintf\<close> into a buffer of \<open>sz\<close> bytes keeps \<open>sz - 1\<close> characters.\<close>

definition snprintf_d :: "nat \<Rightarrow> string \<Rightarrow> int \<Rightarrow> string" where
  "snprintf_d sz fmt n = take (sz - 1) (sprintf_d fmt n)"

section \<open>C enumerations\<close>

text \<open>
  An enumeration is a datatype with the enumerators of the source and a function giving
  their integer codes. A parameter of an enumeration type can hold any \<open>int\<close> in C, and the
  sources check for that; such parameters stay integers and are dispatched with \<open>enum_of\<close>,
  whose \<open>None\<close> is the \<open>default\<close> branch.
\<close>

definition enum_of :: "('a \<Rightarrow> int) \<Rightarrow> 'a list \<Rightarrow> int \<Rightarrow> 'a option" where
  "enum_of code vals n = find (\<lambda>x. code x = n) vals"

locale c_enum =
  fixes code :: "'a \<Rightarrow> int" and vals :: "'a list"
  assumes code_inj: "code x = code y \<Longrightarrow> x = y"
    and vals_all: "x \<in> set vals"
begin

lemma enum_of_code: "enum_of code vals (code x) = Some x"
proof -
  have "find (\<lambda>y. code y = code x) vals \<noteq> None"
    using vals_all [of x] by (auto simp: find_None_iff)
  then obtain y where y: "find (\<lambda>y. code y = code x) vals = Some y" by auto
  then have "code y = code x" by (auto simp: find_Some_iff)
  then have "y = x" by (rule code_inj)
  with y show ?thesis by (simp add: enum_of_def)
qed

lemma enum_of_Some: "enum_of code vals n = Some x \<longleftrightarrow> n = code x"
proof
  assume "enum_of code vals n = Some x"
  then show "n = code x" by (auto simp: enum_of_def find_Some_iff)
next
  assume "n = code x"
  then show "enum_of code vals n = Some x" by (simp add: enum_of_code)
qed

lemma enum_of_None: "enum_of code vals n = None \<longleftrightarrow> n \<notin> range code"
  using vals_all by (auto simp: enum_of_def find_None_iff)

end

end
