(* ===== verification/X52io_Types.thy ===== *)
theory X52io_Types
  imports X52_Prelude
begin

text \<open>
  The enumerations of libx52io (\<open>libx52io/libx52io.h\<close>), the parsed report, and the names of
  axes, buttons and errors (\<open>io_strings.c\<close>). A report keeps its axes and buttons in lists
  indexed by the codes of the enumerators.
\<close>

section \<open>Enumerations\<close>

datatype libx52io_error_code =
    LIBX52IO_SUCCESS | LIBX52IO_ERROR_INIT_FAILURE | LIBX52IO_ERROR_NO_DEVICE
    | LIBX52IO_ERROR_INVALID | LIBX52IO_ERROR_CONN | LIBX52IO_ERROR_IO | LIBX52IO_ERROR_TIMEOUT

fun io_error_code :: "libx52io_error_code \<Rightarrow> int" where
  "io_error_code LIBX52IO_SUCCESS = 0"
| "io_error_code LIBX52IO_ERROR_INIT_FAILURE = 1"
| "io_error_code LIBX52IO_ERROR_NO_DEVICE = 2"
| "io_error_code LIBX52IO_ERROR_INVALID = 3"
| "io_error_code LIBX52IO_ERROR_CONN = 4"
| "io_error_code LIBX52IO_ERROR_IO = 5"
| "io_error_code LIBX52IO_ERROR_TIMEOUT = 6"

datatype libx52io_axis =
    LIBX52IO_AXIS_X | LIBX52IO_AXIS_Y | LIBX52IO_AXIS_RZ | LIBX52IO_AXIS_Z | LIBX52IO_AXIS_RX
    | LIBX52IO_AXIS_RY | LIBX52IO_AXIS_SLIDER | LIBX52IO_AXIS_THUMBX | LIBX52IO_AXIS_THUMBY
    | LIBX52IO_AXIS_HATX | LIBX52IO_AXIS_HATY

fun axis_code :: "libx52io_axis \<Rightarrow> int" where
  "axis_code LIBX52IO_AXIS_X = 0"
| "axis_code LIBX52IO_AXIS_Y = 1"
| "axis_code LIBX52IO_AXIS_RZ = 2"
| "axis_code LIBX52IO_AXIS_Z = 3"
| "axis_code LIBX52IO_AXIS_RX = 4"
| "axis_code LIBX52IO_AXIS_RY = 5"
| "axis_code LIBX52IO_AXIS_SLIDER = 6"
| "axis_code LIBX52IO_AXIS_THUMBX = 7"
| "axis_code LIBX52IO_AXIS_THUMBY = 8"
| "axis_code LIBX52IO_AXIS_HATX = 9"
| "axis_code LIBX52IO_AXIS_HATY = 10"

datatype libx52io_button =
    LIBX52IO_BTN_TRIGGER | LIBX52IO_BTN_TRIGGER_2 | LIBX52IO_BTN_FIRE | LIBX52IO_BTN_PINKY
    | LIBX52IO_BTN_A | LIBX52IO_BTN_B | LIBX52IO_BTN_C | LIBX52IO_BTN_D | LIBX52IO_BTN_E
    | LIBX52IO_BTN_T1_UP | LIBX52IO_BTN_T1_DN | LIBX52IO_BTN_T2_UP | LIBX52IO_BTN_T2_DN
    | LIBX52IO_BTN_T3_UP | LIBX52IO_BTN_T3_DN | LIBX52IO_BTN_POV_1_N | LIBX52IO_BTN_POV_1_E
    | LIBX52IO_BTN_POV_1_S | LIBX52IO_BTN_POV_1_W | LIBX52IO_BTN_POV_2_N | LIBX52IO_BTN_POV_2_E
    | LIBX52IO_BTN_POV_2_S | LIBX52IO_BTN_POV_2_W | LIBX52IO_BTN_CLUTCH
    | LIBX52IO_BTN_MOUSE_PRIMARY | LIBX52IO_BTN_MOUSE_SECONDARY | LIBX52IO_BTN_MOUSE_SCROLL_UP
    | LIBX52IO_BTN_MOUSE_SCROLL_DN | LIBX52IO_BTN_FUNCTION | LIBX52IO_BTN_START_STOP
    | LIBX52IO_BTN_RESET | LIBX52IO_BTN_PG_UP | LIBX52IO_BTN_PG_DN | LIBX52IO_BTN_UP
    | LIBX52IO_BTN_DN | LIBX52IO_BTN_SELECT | LIBX52IO_BTN_MODE_1 | LIBX52IO_BTN_MODE_2
    | LIBX52IO_BTN_MODE_3

fun button_code :: "libx52io_button \<Rightarrow> int" where
  "button_code LIBX52IO_BTN_TRIGGER = 0"
| "button_code LIBX52IO_BTN_TRIGGER_2 = 1"
| "button_code LIBX52IO_BTN_FIRE = 2"
| "button_code LIBX52IO_BTN_PINKY = 3"
| "button_code LIBX52IO_BTN_A = 4"
| "button_code LIBX52IO_BTN_B = 5"
| "button_code LIBX52IO_BTN_C = 6"
| "button_code LIBX52IO_BTN_D = 7"
| "button_code LIBX52IO_BTN_E = 8"
| "button_code LIBX52IO_BTN_T1_UP = 9"
| "button_code LIBX52IO_BTN_T1_DN = 10"
| "button_code LIBX52IO_BTN_T2_UP = 11"
| "button_code LIBX52IO_BTN_T2_DN = 12"
| "button_code LIBX52IO_BTN_T3_UP = 13"
| "button_code LIBX52IO_BTN_T3_DN = 14"
| "button_code LIBX52IO_BTN_POV_1_N = 15"
| "button_code LIBX52IO_BTN_POV_1_E = 16"
| "button_code LIBX52IO_BTN_POV_1_S = 17"
| "button_code LIBX52IO_BTN_POV_1_W = 18"
| "button_code LIBX52IO_BTN_POV_2_N = 19"
| "button_code LIBX52IO_BTN_POV_2_E = 20"
| "button_code LIBX52IO_BTN_POV_2_S = 21"
| "button_code LIBX52IO_BTN_POV_2_W = 22"
| "button_code LIBX52IO_BTN_CLUTCH = 23"
| "button_code LIBX52IO_BTN_MOUSE_PRIMARY = 24"
| "button_code LIBX52IO_BTN_MOUSE_SECONDARY = 25"
| "button_code LIBX52IO_BTN_MOUSE_SCROLL_UP = 26"
| "button_code LIBX52IO_BTN_MOUSE_SCROLL_DN = 27"
| "button_code LIBX52IO_BTN_FUNCTION = 28"
| "button_code LIBX52IO_BTN_START_STOP = 29"
| "button_code LIBX52IO_BTN_RESET = 30"
| "button_code LIBX52IO_BTN_PG_UP = 31"
| "button_code LIBX52IO_BTN_PG_DN = 32"
| "button_code LIBX52IO_BTN_UP = 33"
| "button_code LIBX52IO_BTN_DN = 34"
| "button_code LIBX52IO_BTN_SELECT = 35"
| "button_code LIBX52IO_BTN_MODE_1 = 36"
| "button_code LIBX52IO_BTN_MODE_2 = 37"
| "button_code LIBX52IO_BTN_MODE_3 = 38"

abbreviation (input) LIBX52IO_AXIS_MAX :: nat where "LIBX52IO_AXIS_MAX \<equiv> 11"
abbreviation (input) LIBX52IO_BUTTON_MAX :: nat where "LIBX52IO_BUTTON_MAX \<equiv> 39"

text \<open>The index of an axis or button in the arrays of a report.\<close>

definition ax :: "libx52io_axis \<Rightarrow> nat" where
  "ax a = nat (axis_code a)"

definition bt :: "libx52io_button \<Rightarrow> nat" where
  "bt b = nat (button_code b)"

definition io_error_codes :: "libx52io_error_code list" where
  "io_error_codes = [LIBX52IO_SUCCESS, LIBX52IO_ERROR_INIT_FAILURE, LIBX52IO_ERROR_NO_DEVICE,
     LIBX52IO_ERROR_INVALID, LIBX52IO_ERROR_CONN, LIBX52IO_ERROR_IO, LIBX52IO_ERROR_TIMEOUT]"

definition io_axes :: "libx52io_axis list" where
  "io_axes = [LIBX52IO_AXIS_X, LIBX52IO_AXIS_Y, LIBX52IO_AXIS_RZ, LIBX52IO_AXIS_Z, LIBX52IO_AXIS_RX,
     LIBX52IO_AXIS_RY, LIBX52IO_AXIS_SLIDER, LIBX52IO_AXIS_THUMBX, LIBX52IO_AXIS_THUMBY,
     LIBX52IO_AXIS_HATX, LIBX52IO_AXIS_HATY]"

definition io_buttons :: "libx52io_button list" where
  "io_buttons = [LIBX52IO_BTN_TRIGGER, LIBX52IO_BTN_TRIGGER_2, LIBX52IO_BTN_FIRE, LIBX52IO_BTN_PINKY,
     LIBX52IO_BTN_A, LIBX52IO_BTN_B, LIBX52IO_BTN_C, LIBX52IO_BTN_D, LIBX52IO_BTN_E,
     LIBX52IO_BTN_T1_UP, LIBX52IO_BTN_T1_DN, LIBX52IO_BTN_T2_UP, LIBX52IO_BTN_T2_DN,
     LIBX52IO_BTN_T3_UP, LIBX52IO_BTN_T3_DN, LIBX52IO_BTN_POV_1_N, LIBX52IO_BTN_POV_1_E,
     LIBX52IO_BTN_POV_1_S, LIBX52IO_BTN_POV_1_W, LIBX52IO_BTN_POV_2_N, LIBX52IO_BTN_POV_2_E,
     LIBX52IO_BTN_POV_2_S, LIBX52IO_BTN_POV_2_W, LIBX52IO_BTN_CLUTCH,
     LIBX52IO_BTN_MOUSE_PRIMARY, LIBX52IO_BTN_MOUSE_SECONDARY, LIBX52IO_BTN_MOUSE_SCROLL_UP,
     LIBX52IO_BTN_MOUSE_SCROLL_DN, LIBX52IO_BTN_FUNCTION, LIBX52IO_BTN_START_STOP,
     LIBX52IO_BTN_RESET, LIBX52IO_BTN_PG_UP, LIBX52IO_BTN_PG_DN, LIBX52IO_BTN_UP,
     LIBX52IO_BTN_DN, LIBX52IO_BTN_SELECT, LIBX52IO_BTN_MODE_1, LIBX52IO_BTN_MODE_2,
     LIBX52IO_BTN_MODE_3]"

lemma button_code_nth: "button_code b = int (bt b) \<and> bt b < LIBX52IO_BUTTON_MAX \<and> io_buttons ! bt b = b"
  by (cases b) (simp_all add: bt_def io_buttons_def)

lemma axis_code_nth: "axis_code a = int (ax a) \<and> ax a < LIBX52IO_AXIS_MAX \<and> io_axes ! ax a = a"
  by (cases a) (simp_all add: ax_def io_axes_def)

interpretation io_button: c_enum button_code io_buttons
proof
  show "button_code x = button_code y \<Longrightarrow> x = y" for x y by (metis button_code_nth of_nat_eq_iff)
  show "x \<in> set io_buttons" for x by (cases x) (simp_all add: io_buttons_def)
qed

interpretation io_axis: c_enum axis_code io_axes
proof
  show "axis_code x = axis_code y \<Longrightarrow> x = y" for x y by (metis axis_code_nth of_nat_eq_iff)
  show "x \<in> set io_axes" for x by (cases x) (simp_all add: io_axes_def)
qed

interpretation io_error: c_enum io_error_code io_error_codes
proof
  show "io_error_code x = io_error_code y \<Longrightarrow> x = y" for x y by (cases x; cases y) auto
  show "x \<in> set io_error_codes" for x by (cases x) (simp_all add: io_error_codes_def)
qed

section \<open>Reports\<close>

record libx52io_report =
  rep_axis :: "int list"
  rep_button :: "bool list"
  rep_mode :: u8
  rep_hat :: u8

definition report_wf :: "libx52io_report \<Rightarrow> bool" where
  "report_wf r \<longleftrightarrow> length (rep_axis r) = LIBX52IO_AXIS_MAX \<and> length (rep_button r) = LIBX52IO_BUTTON_MAX"

section \<open>Names\<close>

definition x52io_axis_str :: "string list" where
  "x52io_axis_str = [''ABS_X'', ''ABS_Y'', ''ABS_RZ'', ''ABS_Z'', ''ABS_RX'', ''ABS_RY'', ''ABS_SLIDER'',
     ''ABS_THUMBX'', ''ABS_THUMBY'', ''ABS_HATX'', ''ABS_HATY'']"

definition x52io_button_str :: "string list" where
  "x52io_button_str = [''BTN_TRIGGER'', ''BTN_TRIGGER_2'', ''BTN_FIRE'', ''BTN_PINKY'', ''BTN_A'', ''BTN_B'',
     ''BTN_C'', ''BTN_D'', ''BTN_E'', ''BTN_T1_UP'', ''BTN_T1_DN'', ''BTN_T2_UP'',
     ''BTN_T2_DN'', ''BTN_T3_UP'', ''BTN_T3_DN'', ''BTN_POV_1_N'', ''BTN_POV_1_E'',
     ''BTN_POV_1_S'', ''BTN_POV_1_W'', ''BTN_POV_2_N'', ''BTN_POV_2_E'', ''BTN_POV_2_S'',
     ''BTN_POV_2_W'', ''BTN_CLUTCH'', ''BTN_MOUSE_PRIMARY'', ''BTN_MOUSE_SECONDARY'',
     ''BTN_MOUSE_SCROLL_UP'', ''BTN_MOUSE_SCROLL_DN'', ''BTN_FUNCTION'', ''BTN_START_STOP'',
     ''BTN_RESET'', ''BTN_PG_UP'', ''BTN_PG_DN'', ''BTN_UP'', ''BTN_DN'', ''BTN_SELECT'',
     ''BTN_MODE_1'', ''BTN_MODE_2'', ''BTN_MODE_3'']"

text \<open>\<open>None\<close> is the \<open>NULL\<close> for a value that is not an enumerator.\<close>

definition libx52io_axis_to_str :: "int \<Rightarrow> string option" where
  "libx52io_axis_to_str axis =
     (if 0 \<le> axis \<and> axis < int LIBX52IO_AXIS_MAX then Some (x52io_axis_str ! nat axis) else None)"

definition libx52io_button_to_str :: "int \<Rightarrow> string option" where
  "libx52io_button_to_str button =
     (if 0 \<le> button \<and> button < int LIBX52IO_BUTTON_MAX then Some (x52io_button_str ! nat button) else None)"

definition io_error_string :: "string list" where
  "io_error_string = [''Success'', ''Initialization failure'', ''No device'', ''Invalid arguments'',
     ''Connection failure'', ''I/O error'', ''Read timeout'']"

definition libx52io_strerror :: "(string \<Rightarrow> string) \<Rightarrow> int \<Rightarrow> string" where
  "libx52io_strerror tr code = (case enum_of io_error_code io_error_codes code of
     Some c \<Rightarrow> tr (io_error_string ! nat code)
   | None \<Rightarrow> snprintf_d 256 (tr ''Unknown error %d'') code)"

end
