(* ===== verification/X52io_Parser.thy ===== *)
theory X52io_Parser
  imports X52io_Types
begin

text \<open>
  The report parser of libx52io (\<open>libx52io/io_parser.c\<close>) and the axis ranges
  (\<open>io_axis.c\<close>). The data of a report are bytes; a parser returns its code and the report,
  which a wrong length leaves alone.
\<close>

section \<open>Hat, axes and buttons\<close>

definition hat_to_axis :: "(int \<times> int) list" where
  "hat_to_axis = [(0, 0), (0, -1), (1, -1), (1, 0), (1, 1), (0, 1), (-1, 1), (-1, 0), (-1, -1)]
     @ replicate 7 (0, 0)"

definition set_axis :: "libx52io_axis \<Rightarrow> int \<Rightarrow> libx52io_report \<Rightarrow> libx52io_report" where
  "set_axis a v r = r\<lparr>rep_axis := (rep_axis r)[ax a := v]\<rparr>"

definition map_hat :: "u8 \<Rightarrow> libx52io_report \<Rightarrow> libx52io_report" where
  "map_hat hat r =
     set_axis LIBX52IO_AXIS_HATY (snd (hat_to_axis ! unat hat))
       (set_axis LIBX52IO_AXIS_HATX (fst (hat_to_axis ! unat hat)) r)"

definition map_axis :: "u8 list \<Rightarrow> nat \<Rightarrow> libx52io_report \<Rightarrow> libx52io_report" where
  "map_axis data thumb_pos r =
     (let r1 = set_axis LIBX52IO_AXIS_Z (uint (data ! 4)) r;
          r2 = set_axis LIBX52IO_AXIS_RX (uint (data ! 5)) r1;
          r3 = set_axis LIBX52IO_AXIS_RY (uint (data ! 6)) r2;
          r4 = set_axis LIBX52IO_AXIS_SLIDER (uint (data ! 7)) r3;
          r5 = set_axis LIBX52IO_AXIS_THUMBX (uint (data ! thumb_pos AND 0xf)) r4;
          r6 = set_axis LIBX52IO_AXIS_THUMBY (uint (drop_bit 4 (data ! thumb_pos))) r5;
          hat = drop_bit 4 (data ! (thumb_pos - 1))
      in map_hat hat (r6\<lparr>rep_hat := hat\<rparr>))"

definition button_word :: "u8 list \<Rightarrow> u64" where
  "button_word data =
     (let b = push_bit 8 (ucast (data ! 12) :: u64);
          b = push_bit 8 (b OR ucast (data ! 11));
          b = push_bit 8 (b OR ucast (data ! 10));
          b = push_bit 8 (b OR ucast (data ! 9))
      in b OR ucast (data ! 8))"

text \<open>The loop over the map, from index \<open>i\<close>; the list stands for the entries before the \<open>-1\<close>.\<close>

fun button_loop :: "u64 \<Rightarrow> nat \<Rightarrow> libx52io_button list \<Rightarrow> bool list \<Rightarrow> bool list" where
  "button_loop w i [] bs = bs"
| "button_loop w i (btn # m) bs = button_loop w (Suc i) m (bs[bt btn := (w AND push_bit i 1 \<noteq> 0)])"

definition map_buttons :: "u8 list \<Rightarrow> libx52io_button list \<Rightarrow> libx52io_report \<Rightarrow> libx52io_report" where
  "map_buttons data button_map r =
     (let bs = button_loop (button_word data) 0 button_map (rep_button r);
          r' = r\<lparr>rep_button := bs\<rparr>
      in if bs ! bt LIBX52IO_BTN_MODE_1 then r'\<lparr>rep_mode := 1\<rparr>
         else if bs ! bt LIBX52IO_BTN_MODE_2 then r'\<lparr>rep_mode := 2\<rparr>
         else if bs ! bt LIBX52IO_BTN_MODE_3 then r'\<lparr>rep_mode := 3\<rparr>
         else r')"

section \<open>The two report layouts\<close>

definition x52_button_map :: "libx52io_button list" where
  "x52_button_map =
     [LIBX52IO_BTN_TRIGGER, LIBX52IO_BTN_FIRE, LIBX52IO_BTN_A, LIBX52IO_BTN_B, LIBX52IO_BTN_C,
      LIBX52IO_BTN_PINKY, LIBX52IO_BTN_D, LIBX52IO_BTN_E, LIBX52IO_BTN_T1_UP, LIBX52IO_BTN_T1_DN,
      LIBX52IO_BTN_T2_UP, LIBX52IO_BTN_T2_DN, LIBX52IO_BTN_T3_UP, LIBX52IO_BTN_T3_DN,
      LIBX52IO_BTN_TRIGGER_2, LIBX52IO_BTN_POV_1_N, LIBX52IO_BTN_POV_1_E, LIBX52IO_BTN_POV_1_S,
      LIBX52IO_BTN_POV_1_W, LIBX52IO_BTN_POV_2_N, LIBX52IO_BTN_POV_2_E, LIBX52IO_BTN_POV_2_S,
      LIBX52IO_BTN_POV_2_W, LIBX52IO_BTN_MODE_1, LIBX52IO_BTN_MODE_2, LIBX52IO_BTN_MODE_3,
      LIBX52IO_BTN_FUNCTION, LIBX52IO_BTN_START_STOP, LIBX52IO_BTN_RESET, LIBX52IO_BTN_CLUTCH,
      LIBX52IO_BTN_MOUSE_PRIMARY, LIBX52IO_BTN_MOUSE_SECONDARY, LIBX52IO_BTN_MOUSE_SCROLL_DN,
      LIBX52IO_BTN_MOUSE_SCROLL_UP]"

definition x52pro_button_map :: "libx52io_button list" where
  "x52pro_button_map =
     [LIBX52IO_BTN_TRIGGER, LIBX52IO_BTN_FIRE, LIBX52IO_BTN_A, LIBX52IO_BTN_B, LIBX52IO_BTN_C,
      LIBX52IO_BTN_PINKY, LIBX52IO_BTN_D, LIBX52IO_BTN_E, LIBX52IO_BTN_T1_UP, LIBX52IO_BTN_T1_DN,
      LIBX52IO_BTN_T2_UP, LIBX52IO_BTN_T2_DN, LIBX52IO_BTN_T3_UP, LIBX52IO_BTN_T3_DN,
      LIBX52IO_BTN_TRIGGER_2, LIBX52IO_BTN_MOUSE_PRIMARY, LIBX52IO_BTN_MOUSE_SCROLL_DN,
      LIBX52IO_BTN_MOUSE_SCROLL_UP, LIBX52IO_BTN_MOUSE_SECONDARY, LIBX52IO_BTN_POV_1_N,
      LIBX52IO_BTN_POV_1_E, LIBX52IO_BTN_POV_1_S, LIBX52IO_BTN_POV_1_W, LIBX52IO_BTN_POV_2_N,
      LIBX52IO_BTN_POV_2_E, LIBX52IO_BTN_POV_2_S, LIBX52IO_BTN_POV_2_W, LIBX52IO_BTN_MODE_1,
      LIBX52IO_BTN_MODE_2, LIBX52IO_BTN_MODE_3, LIBX52IO_BTN_CLUTCH, LIBX52IO_BTN_FUNCTION,
      LIBX52IO_BTN_START_STOP, LIBX52IO_BTN_RESET, LIBX52IO_BTN_PG_UP, LIBX52IO_BTN_PG_DN,
      LIBX52IO_BTN_UP, LIBX52IO_BTN_DN, LIBX52IO_BTN_SELECT]"

definition axis_word :: "u8 list \<Rightarrow> u32" where
  "axis_word data = push_bit 24 (ucast (data ! 3)) OR push_bit 16 (ucast (data ! 2))
     OR push_bit 8 (ucast (data ! 1)) OR ucast (data ! 0)"

definition parse_x52 :: "u8 list \<Rightarrow> int \<Rightarrow> libx52io_report \<Rightarrow> libx52io_error_code \<times> libx52io_report" where
  "parse_x52 data len r =
     (if len \<noteq> 14 then (LIBX52IO_ERROR_IO, r)
      else
        (let axis = axis_word data;
             r1 = set_axis LIBX52IO_AXIS_X (uint (axis AND 0x7ff)) r;
             r2 = set_axis LIBX52IO_AXIS_Y (uint (drop_bit 11 axis AND 0x7ff)) r1;
             r3 = set_axis LIBX52IO_AXIS_RZ (uint (drop_bit 22 axis AND 0x3ff)) r2;
             r4 = map_axis data 13 r3
         in (LIBX52IO_SUCCESS, map_buttons data x52_button_map r4)))"

definition parse_x52pro :: "u8 list \<Rightarrow> int \<Rightarrow> libx52io_report \<Rightarrow> libx52io_error_code \<times> libx52io_report" where
  "parse_x52pro data len r =
     (if len \<noteq> 15 then (LIBX52IO_ERROR_IO, r)
      else
        (let axis = axis_word data;
             r1 = set_axis LIBX52IO_AXIS_X (uint (axis AND 0x3ff)) r;
             r2 = set_axis LIBX52IO_AXIS_Y (uint (drop_bit 10 axis AND 0x3ff)) r1;
             r3 = set_axis LIBX52IO_AXIS_RZ (uint (drop_bit 22 axis AND 0x3ff)) r2;
             r4 = map_axis data 14 r3
         in (LIBX52IO_SUCCESS, map_buttons data x52pro_button_map r4)))"

section \<open>Axis ranges\<close>

definition io_axis_min :: "int list" where
  "io_axis_min = [0, 0, 0, 0, 0, 0, 0, 0, 0, -1, -1]"

definition x52_axis_max :: "int list" where
  "x52_axis_max = [2047, 2047, 1023, 255, 255, 255, 255, 15, 15, 1, 1]"

definition x52pro_axis_max :: "int list" where
  "x52pro_axis_max = [1023, 1023, 1023, 255, 255, 255, 255, 15, 15, 1, 1]"

definition in_ranges :: "int list \<Rightarrow> int list \<Rightarrow> libx52io_report \<Rightarrow> bool" where
  "in_ranges lo hi r \<longleftrightarrow> (\<forall>i < LIBX52IO_AXIS_MAX. lo ! i \<le> rep_axis r ! i \<and> rep_axis r ! i \<le> hi ! i)"

section \<open>What a parsed report holds\<close>

lemma set_axis_simps [simp]:
  "rep_axis (set_axis a v r) = (rep_axis r)[ax a := v]"
  "rep_button (set_axis a v r) = rep_button r" "rep_mode (set_axis a v r) = rep_mode r"
  "rep_hat (set_axis a v r) = rep_hat r"
  by (simp_all add: set_axis_def)

lemma ax_simps [simp]:
  "ax LIBX52IO_AXIS_X = 0" "ax LIBX52IO_AXIS_Y = 1" "ax LIBX52IO_AXIS_RZ = 2" "ax LIBX52IO_AXIS_Z = 3"
  "ax LIBX52IO_AXIS_RX = 4" "ax LIBX52IO_AXIS_RY = 5" "ax LIBX52IO_AXIS_SLIDER = 6"
  "ax LIBX52IO_AXIS_THUMBX = 7" "ax LIBX52IO_AXIS_THUMBY = 8" "ax LIBX52IO_AXIS_HATX = 9"
  "ax LIBX52IO_AXIS_HATY = 10"
  by (simp_all add: ax_def)

lemma map_axis_axes:
  "rep_axis (map_axis data p r) =
    (rep_axis r)[3 := uint (data ! 4), 4 := uint (data ! 5), 5 := uint (data ! 6), 6 := uint (data ! 7),
      7 := uint (data ! p AND 0xf), 8 := uint (drop_bit 4 (data ! p)),
      9 := fst (hat_to_axis ! unat (drop_bit 4 (data ! (p - 1)))),
      10 := snd (hat_to_axis ! unat (drop_bit 4 (data ! (p - 1))))]"
  by (simp add: map_axis_def map_hat_def Let_def)

lemma map_axis_rest [simp]:
  "rep_button (map_axis data p r) = rep_button r"
  "rep_hat (map_axis data p r) = drop_bit 4 (data ! (p - 1))"
  by (simp_all add: map_axis_def map_hat_def Let_def)

lemma map_buttons_rest [simp]:
  "rep_axis (map_buttons data m r) = rep_axis r" "rep_hat (map_buttons data m r) = rep_hat r"
  "rep_button (map_buttons data m r) = button_loop (button_word data) 0 m (rep_button r)"
  by (simp_all add: map_buttons_def Let_def)

lemma list11_update:
  assumes "length xs = 11"
  shows "xs[0 := a0, 1 := a1, 2 := a2, 3 := a3, 4 := a4, 5 := a5, 6 := a6, 7 := a7, 8 := a8,
      9 := a9, 10 := a10] = [a0, a1, a2, a3, a4, a5, a6, a7, a8, a9, a10]"
  using assms by (auto simp: length_Suc_conv numeral_eq_Suc)

text \<open>The eleven axes of a report from its bytes, given the widths of X and Y.\<close>

definition report_axes :: "nat \<Rightarrow> u8 list \<Rightarrow> nat \<Rightarrow> int list" where
  "report_axes k data p =
     (let axis = axis_word data; hat = unat (drop_bit 4 (data ! (p - 1)))
      in [uint axis mod 2 ^ k, uint axis div 2 ^ k mod 2 ^ k, uint axis div 2 ^ 22 mod 2 ^ 10,
          uint (data ! 4), uint (data ! 5), uint (data ! 6), uint (data ! 7),
          uint (data ! p) mod 16, uint (data ! p) div 16,
          fst (hat_to_axis ! hat), snd (hat_to_axis ! hat)])"

lemma uint_and_masks:
  "uint (v AND 0x7ff) = uint v mod 2048" "uint (v AND 0x3ff) = uint v mod 1024" for v :: u32
proof -
  have "(0x7ff :: u32) = mask 11" "(0x3ff :: u32) = mask 10" by (simp_all add: mask_eq_exp_minus_1)
  then show "uint (v AND 0x7ff) = uint v mod 2048" "uint (v AND 0x3ff) = uint v mod 1024"
    by (simp_all only: uint_and_mask) simp_all
qed

lemma uint_and_0xf: "uint (v AND 0xf) = uint v mod 16" for v :: u8
proof -
  have "(0xf :: u8) = mask 4" by (simp add: mask_eq_exp_minus_1)
  then show ?thesis by (simp only: uint_and_mask) simp
qed

lemma parse_x52_axes:
  assumes "length (rep_axis r) = 11"
  shows "rep_axis (snd (parse_x52 data 14 r)) = report_axes 11 data 13"
  by (simp add: parse_x52_def Let_def map_axis_axes list11_update [OF assms] report_axes_def
      uint_and_masks uint_and_0xf uint_drop_bit_div del: One_nat_def)

lemma parse_x52pro_axes:
  assumes "length (rep_axis r) = 11"
  shows "rep_axis (snd (parse_x52pro data 15 r)) = report_axes 10 data 14"
  by (simp add: parse_x52pro_def Let_def map_axis_axes list11_update [OF assms] report_axes_def
      uint_and_masks uint_and_0xf uint_drop_bit_div del: One_nat_def)

lemma hat_to_axis_range:
  assumes "h < 16"
  shows "\<bar>fst (hat_to_axis ! h)\<bar> \<le> 1 \<and> \<bar>snd (hat_to_axis ! h)\<bar> \<le> 1"
proof -
  have "\<forall>p \<in> set hat_to_axis. \<bar>fst p\<bar> \<le> 1 \<and> \<bar>snd p\<bar> \<le> 1" by (auto simp: hat_to_axis_def)
  moreover have "length hat_to_axis = 16" by (simp add: hat_to_axis_def)
  ultimately show ?thesis using assms nth_mem by metis
qed

lemma nibble_less: "unat (drop_bit 4 x) < 16" for x :: u8
proof -
  have "uint (drop_bit 4 x) = uint x div 16" by (simp add: uint_drop_bit_div)
  also have "\<dots> < 16" using uint_lt2p [of x] by simp
  finally have "uint (drop_bit 4 x) < int 16" by simp
  then show ?thesis by (metis int_nat_eq nat_less_iff of_nat_less_iff uint_nat uint_ge_0 unat_eq_nat_uint)
qed

lemma uint_u8: "0 \<le> uint x \<and> uint x \<le> 255" for x :: u8
  using uint_lt2p [of x] by simp

lemma all_11:
  assumes "length lo = 11" and "length xs = 11" and "length hi = 11"
  shows "(\<forall>i < 11. lo ! i \<le> xs ! i \<and> xs ! i \<le> hi ! i) \<longleftrightarrow> list_all2 (\<le>) lo xs \<and> list_all2 (\<le>) xs (hi :: int list)"
  using assms by (auto simp: list_all2_conv_all_nth)

lemma report_axes_range:
  assumes "rep_axis r = report_axes k data p"
  shows "in_ranges io_axis_min [2 ^ k - 1, 2 ^ k - 1, 1023, 255, 255, 255, 255, 15, 15, 1, 1] r"
proof -
  have "uint (data ! p) div 16 \<le> 15" "0 \<le> uint (data ! p) div 16"
    using uint_u8 [of "data ! p"] by (simp_all add: pos_imp_zdiv_nonneg_iff)
  moreover have "y mod 2 ^ k \<le> 2 ^ k - 1" for y :: int
    by (simp add: zle_diff1_eq)
  moreover have "y mod 1024 \<le> 1023" "y mod 16 \<le> 15" for y :: int
    using pos_mod_bound [of 1024 y] pos_mod_bound [of 16 y] by simp_all
  ultimately have "list_all2 (\<le>) (rep_axis r) [2 ^ k - 1, 2 ^ k - 1, 1023, 255, 255, 255, 255, 15, 15, 1, 1]"
    and "list_all2 (\<le>) io_axis_min (rep_axis r)"
    using uint_u8 [of "data ! 4"] uint_u8 [of "data ! 5"] uint_u8 [of "data ! 6"] uint_u8 [of "data ! 7"]
      hat_to_axis_range [OF nibble_less, of "data ! (p - 1)"]
    by (simp_all add: assms report_axes_def io_axis_min_def Let_def abs_le_iff)
  then show ?thesis unfolding in_ranges_def
    by (subst all_11) (auto simp: assms report_axes_def io_axis_min_def Let_def)
qed

section \<open>Buttons\<close>

lemma bt_inj: "bt x = bt y \<longleftrightarrow> x = y"
  by (metis button_code_nth)

lemma button_loop_length [simp]: "length (button_loop w k m bs) = length bs"
  by (induction m arbitrary: k bs) simp_all

lemma button_loop_other: "b \<notin> set m \<Longrightarrow> button_loop w k m bs ! bt b = bs ! bt b"
  by (induction m arbitrary: k bs) (auto simp: bt_inj)

lemma button_loop_nth:
  assumes "distinct m" and "i < length m" and "length bs = LIBX52IO_BUTTON_MAX"
  shows "button_loop w k m bs ! bt (m ! i) = bit w (k + i)"
  using assms
proof (induction m arbitrary: k bs i)
  case (Cons b m)
  show ?case
  proof (cases i)
    case 0
    have "bt b < length bs" using button_code_nth [of b] Cons.prems(3) by simp
    with 0 Cons.prems show ?thesis
      by (simp add: button_loop_other bit_iff_and_push_bit_not_eq_0)
  next
    case (Suc j)
    with Cons.prems Cons.IH [of j "bs[bt b := (w AND push_bit k 1 \<noteq> 0)]" "Suc k"] show ?thesis by simp
  qed
qed simp

text \<open>Button \<open>n\<close> of a report is bit \<open>n mod 8\<close> of byte \<open>8 + n div 8\<close>.\<close>

definition report_bit :: "u8 list \<Rightarrow> nat \<Rightarrow> bool" where
  "report_bit data n = bit (data ! (8 + n div 8)) (n mod 8)"

lemma bit_button_word:
  assumes "n < 40"
  shows "bit (button_word data) n = report_bit data n"
proof -
  have b: "bit (ucast (x :: u8) :: u64) m \<longleftrightarrow> bit x m" for x m
    by (auto simp: bit_simps dest: bit_imp_le_length)
  consider "n < 8" | "8 \<le> n" "n < 16" | "16 \<le> n" "n < 24" | "24 \<le> n" "n < 32" | "32 \<le> n"
    by linarith
  then show ?thesis
  proof cases
    case 1
    then show ?thesis by (simp add: button_word_def report_bit_def Let_def bit_or_iff bit_push_bit_iff b)
  next
    case 2
    then have "n div 8 = 1" "n mod 8 = n - 8" by (auto simp: div_nat_eqI mod_if)
    with 2 show ?thesis
      by (auto simp: button_word_def report_bit_def Let_def bit_or_iff bit_push_bit_iff b
          dest: bit_imp_le_length)
  next
    case 3
    then have "n div 8 = 2" "n mod 8 = n - 16" by (auto simp: div_nat_eqI mod_if)
    with 3 show ?thesis
      by (auto simp: button_word_def report_bit_def Let_def bit_or_iff bit_push_bit_iff b
          dest: bit_imp_le_length)
  next
    case 4
    then have "n div 8 = 3" "n mod 8 = n - 24" by (auto simp: div_nat_eqI mod_if)
    with 4 show ?thesis
      by (auto simp: button_word_def report_bit_def Let_def bit_or_iff bit_push_bit_iff b
          dest: bit_imp_le_length)
  next
    case 5
    with assms have "n div 8 = 4" "n mod 8 = n - 32" by (auto simp: div_nat_eqI mod_if)
    with 5 assms show ?thesis
      by (auto simp: button_word_def report_bit_def Let_def bit_or_iff bit_push_bit_iff b
          dest: bit_imp_le_length)
  qed
qed

lemma map_buttons_nth:
  assumes "distinct m" and "length m \<le> 40" and "length (rep_button r) = LIBX52IO_BUTTON_MAX"
  shows "i < length m \<Longrightarrow> rep_button (map_buttons data m r) ! bt (m ! i) = report_bit data i"
    and "b \<notin> set m \<Longrightarrow> rep_button (map_buttons data m r) ! bt b = rep_button r ! bt b"
  using assms by (simp_all add: button_loop_nth button_loop_other bit_button_word)

lemma button_maps: "distinct x52_button_map" "length x52_button_map = 34"
    "distinct x52pro_button_map" "length x52pro_button_map = 39"
  by (simp_all add: x52_button_map_def x52pro_button_map_def)

lemma parse_reports_ranges:
  assumes "report_wf r"
  shows "parse_x52 data n r = (LIBX52IO_SUCCESS, r') \<Longrightarrow> in_ranges io_axis_min x52_axis_max r'"
    and "parse_x52pro data n r = (LIBX52IO_SUCCESS, r') \<Longrightarrow> in_ranges io_axis_min x52pro_axis_max r'"
proof -
  have l: "length (rep_axis r) = 11" using assms by (simp add: report_wf_def)
  assume p: "parse_x52 data n r = (LIBX52IO_SUCCESS, r')"
  then have "n = 14" by (simp add: parse_x52_def split: if_splits)
  with p report_axes_range [OF parse_x52_axes [OF l], of data]
  show "in_ranges io_axis_min x52_axis_max r'" by (simp add: x52_axis_max_def)
next
  have l: "length (rep_axis r) = 11" using assms by (simp add: report_wf_def)
  assume p: "parse_x52pro data n r = (LIBX52IO_SUCCESS, r')"
  then have "n = 15" by (simp add: parse_x52pro_def split: if_splits)
  with p report_axes_range [OF parse_x52pro_axes [OF l], of data]
  show "in_ranges io_axis_min x52pro_axis_max r'" by (simp add: x52pro_axis_max_def)
qed

lemma parse_reports_buttons:
  assumes "report_wf r"
  shows "i < 34 \<Longrightarrow> rep_button (snd (parse_x52 data 14 r)) ! bt (x52_button_map ! i) = report_bit data i"
    and "i < 39 \<Longrightarrow> rep_button (snd (parse_x52pro data 15 r)) ! bt (x52pro_button_map ! i) = report_bit data i"
proof -
  have l: "length (rep_button r) = 39" using assms by (simp add: report_wf_def)
  obtain r1 r2 where r: "snd (parse_x52 data 14 r) = map_buttons data x52_button_map r1"
      "snd (parse_x52pro data 15 r) = map_buttons data x52pro_button_map r2"
      "rep_button r1 = rep_button r" "rep_button r2 = rep_button r"
    by (simp add: parse_x52_def parse_x52pro_def Let_def)
  show "i < 34 \<Longrightarrow> rep_button (snd (parse_x52 data 14 r)) ! bt (x52_button_map ! i) = report_bit data i"
    using map_buttons_nth(1) [of x52_button_map r1] r l by (simp add: button_maps del: map_buttons_rest)
  show "i < 39 \<Longrightarrow> rep_button (snd (parse_x52pro data 15 r)) ! bt (x52pro_button_map ! i) = report_bit data i"
    using map_buttons_nth(1) [of x52pro_button_map r2] r l by (simp add: button_maps del: map_buttons_rest)
qed

text \<open>
  C12: a 14-byte report of the X52 and a 15-byte report of the X52 Pro are parsed
  successfully; every axis is within the range that the library advertises for the product,
  each mapped button holds its own bit of the report, and no other button changes. Any other
  length is an I/O error that leaves the report alone.
\<close>

theorem parse_reports:
  assumes "report_wf r"
  shows "fst (parse_x52 data 14 r) = LIBX52IO_SUCCESS
    \<and> in_ranges io_axis_min x52_axis_max (snd (parse_x52 data 14 r))
    \<and> (\<forall>i < 34. rep_button (snd (parse_x52 data 14 r)) ! bt (x52_button_map ! i) = report_bit data i)
    \<and> (\<forall>b. b \<notin> set x52_button_map \<longrightarrow> rep_button (snd (parse_x52 data 14 r)) ! bt b = rep_button r ! bt b)
    \<and> fst (parse_x52pro data 15 r) = LIBX52IO_SUCCESS
    \<and> in_ranges io_axis_min x52pro_axis_max (snd (parse_x52pro data 15 r))
    \<and> (\<forall>i < 39. rep_button (snd (parse_x52pro data 15 r)) ! bt (x52pro_button_map ! i) = report_bit data i)
    \<and> (\<forall>n. n \<noteq> 14 \<longrightarrow> parse_x52 data n r = (LIBX52IO_ERROR_IO, r))
    \<and> (\<forall>n. n \<noteq> 15 \<longrightarrow> parse_x52pro data n r = (LIBX52IO_ERROR_IO, r))"
proof -
  have l: "length (rep_axis r) = 11" "length (rep_button r) = 39" using assms by (auto simp: report_wf_def)
  obtain r1 where r1: "snd (parse_x52 data 14 r) = map_buttons data x52_button_map r1"
      "rep_button r1 = rep_button r" "fst (parse_x52 data 14 r) = LIBX52IO_SUCCESS"
    by (simp add: parse_x52_def Let_def)
  obtain r2 where r2: "snd (parse_x52pro data 15 r) = map_buttons data x52pro_button_map r2"
      "rep_button r2 = rep_button r" "fst (parse_x52pro data 15 r) = LIBX52IO_SUCCESS"
    by (simp add: parse_x52pro_def Let_def)
  have "in_ranges io_axis_min x52_axis_max (snd (parse_x52 data 14 r))"
    using parse_reports_ranges(1) [OF assms] r1(3) by (metis prod.collapse)
  moreover have "in_ranges io_axis_min x52pro_axis_max (snd (parse_x52pro data 15 r))"
    using parse_reports_ranges(2) [OF assms] r2(3) by (metis prod.collapse)
  moreover have "parse_x52 data n r = (LIBX52IO_ERROR_IO, r)" if "n \<noteq> 14" for n
    using that by (simp add: parse_x52_def)
  moreover have "parse_x52pro data n r = (LIBX52IO_ERROR_IO, r)" if "n \<noteq> 15" for n
    using that by (simp add: parse_x52pro_def)
  ultimately show ?thesis
    using r1 r2 l(2) map_buttons_nth [of x52_button_map r1] map_buttons_nth [of x52pro_button_map r2]
    by (simp add: button_maps del: map_buttons_rest)
qed

definition zero_report :: libx52io_report where
  "zero_report = \<lparr>rep_axis = replicate LIBX52IO_AXIS_MAX 0,
     rep_button = replicate LIBX52IO_BUTTON_MAX False, rep_mode = 0, rep_hat = 0\<rparr>"

definition full_data :: "u8 list" where
  "full_data = replicate 12 0xff @ [0x23, 0xa5]"

theorem parse_reports_witness:
  "in_ranges io_axis_min x52_axis_max (snd (parse_x52 full_data 14 zero_report))
   \<and> rep_axis (snd (parse_x52 full_data 14 zero_report)) = [2047, 2047, 1023, 255, 255, 255, 255, 5, 10, 1, -1]"
proof -
  have "report_wf zero_report" by (simp add: report_wf_def zero_report_def)
  from parse_reports [OF this, of full_data]
  have "in_ranges io_axis_min x52_axis_max (snd (parse_x52 full_data 14 zero_report))" by blast
  moreover have "rep_axis (snd (parse_x52 full_data 14 zero_report))
      = [2047, 2047, 1023, 255, 255, 255, 255, 5, 10, 1, -1]" by code_simp
  ultimately show ?thesis ..
qed

end
