(* ===== verification/Kernel_Hid.thy ===== *)
theory Kernel_Hid
  imports X52io_Parser
begin

text \<open>
  The kernel's HID drivers for the same joysticks (\<open>kernel_module/hid-saitek-x52.c\<close>) and for
  the X65 (\<open>hid-saitek-x65.c\<close>). A raw event of a driver is the list of input events it reports;
  configuring a device is the list of keys and of axes with their parameters.

  For the X52 and the X52 Pro the kernel's parser is proved to report exactly what the parser
  of libx52io reads from the same bytes.
\<close>

section \<open>Input events\<close>

datatype abs_code =
    ABS_X | ABS_Y | ABS_Z | ABS_RX | ABS_RY | ABS_RZ | ABS_THROTTLE | ABS_HAT0X | ABS_HAT0Y
  | ABS_TILT_X | ABS_TILT_Y | ABS_MISC | ABS_MISC_1

text \<open>\<open>BTN_JOYSTICK + n\<close>, and \<open>BTN_TRIGGER_HAPPY1\<close> to \<open>40\<close>.\<close>

datatype input_key = BTN_JOYSTICK nat | BTN_TRIGGER_HAPPY nat

datatype input_event = InputAbs abs_code int | InputKey input_key bool | InputSync

record input_caps =
  keybit :: "input_key list"
  absinfo :: "(abs_code \<times> int \<times> int \<times> int \<times> int) list"

definition in_caps :: "input_caps \<Rightarrow> input_event \<Rightarrow> bool" where
  "in_caps c e = (case e of
     InputAbs a v \<Rightarrow> (case map_of (absinfo c) a of
        None \<Rightarrow> False | Some (lo, hi, fuzz, flat) \<Rightarrow> lo \<le> v \<and> v \<le> hi)
   | InputKey k v \<Rightarrow> k \<in> set (keybit c)
   | InputSync \<Rightarrow> True)"

section \<open>X52 and X52 Pro\<close>

text \<open>The number \<open>n\<close> of \<open>BTN_TRIGGER_HAPPYn\<close> for each button.\<close>

abbreviation (input) X52_TRIGGER_1 :: nat where "X52_TRIGGER_1 \<equiv> 1"
abbreviation (input) X52_TRIGGER_2 :: nat where "X52_TRIGGER_2 \<equiv> 2"
abbreviation (input) X52_BTN_FIRE :: nat where "X52_BTN_FIRE \<equiv> 3"
abbreviation (input) X52_BTN_A :: nat where "X52_BTN_A \<equiv> 4"
abbreviation (input) X52_BTN_B :: nat where "X52_BTN_B \<equiv> 5"
abbreviation (input) X52_BTN_C :: nat where "X52_BTN_C \<equiv> 6"
abbreviation (input) X52_BTN_D :: nat where "X52_BTN_D \<equiv> 7"
abbreviation (input) X52_BTN_E :: nat where "X52_BTN_E \<equiv> 8"
abbreviation (input) X52_BTN_PINKIE :: nat where "X52_BTN_PINKIE \<equiv> 9"
abbreviation (input) X52_BTN_T1_UP :: nat where "X52_BTN_T1_UP \<equiv> 10"
abbreviation (input) X52_BTN_T1_DN :: nat where "X52_BTN_T1_DN \<equiv> 11"
abbreviation (input) X52_BTN_T2_UP :: nat where "X52_BTN_T2_UP \<equiv> 12"
abbreviation (input) X52_BTN_T2_DN :: nat where "X52_BTN_T2_DN \<equiv> 13"
abbreviation (input) X52_BTN_T3_UP :: nat where "X52_BTN_T3_UP \<equiv> 14"
abbreviation (input) X52_BTN_T3_DN :: nat where "X52_BTN_T3_DN \<equiv> 15"
abbreviation (input) X52_BTN_CLUTCH :: nat where "X52_BTN_CLUTCH \<equiv> 16"
abbreviation (input) X52_MOUSE_LEFT :: nat where "X52_MOUSE_LEFT \<equiv> 17"
abbreviation (input) X52_MOUSE_RIGHT :: nat where "X52_MOUSE_RIGHT \<equiv> 18"
abbreviation (input) X52_MOUSE_FORWARD :: nat where "X52_MOUSE_FORWARD \<equiv> 19"
abbreviation (input) X52_MOUSE_BACKWARD :: nat where "X52_MOUSE_BACKWARD \<equiv> 20"
abbreviation (input) X52_STICK_POV_N :: nat where "X52_STICK_POV_N \<equiv> 21"
abbreviation (input) X52_STICK_POV_E :: nat where "X52_STICK_POV_E \<equiv> 22"
abbreviation (input) X52_STICK_POV_S :: nat where "X52_STICK_POV_S \<equiv> 23"
abbreviation (input) X52_STICK_POV_W :: nat where "X52_STICK_POV_W \<equiv> 24"
abbreviation (input) X52_THROT_POV_N :: nat where "X52_THROT_POV_N \<equiv> 25"
abbreviation (input) X52_THROT_POV_E :: nat where "X52_THROT_POV_E \<equiv> 26"
abbreviation (input) X52_THROT_POV_S :: nat where "X52_THROT_POV_S \<equiv> 27"
abbreviation (input) X52_THROT_POV_W :: nat where "X52_THROT_POV_W \<equiv> 28"
abbreviation (input) X52_MODE_1 :: nat where "X52_MODE_1 \<equiv> 29"
abbreviation (input) X52_MODE_2 :: nat where "X52_MODE_2 \<equiv> 30"
abbreviation (input) X52_MODE_3 :: nat where "X52_MODE_3 \<equiv> 31"
abbreviation (input) X52_BTN_FUNCTION :: nat where "X52_BTN_FUNCTION \<equiv> 32"
abbreviation (input) X52_BTN_START_STOP :: nat where "X52_BTN_START_STOP \<equiv> 33"
abbreviation (input) X52_BTN_RESET :: nat where "X52_BTN_RESET \<equiv> 34"
abbreviation (input) X52_BTN_PG_UP :: nat where "X52_BTN_PG_UP \<equiv> 35"
abbreviation (input) X52_BTN_PG_DN :: nat where "X52_BTN_PG_DN \<equiv> 36"
abbreviation (input) X52_BTN_UP :: nat where "X52_BTN_UP \<equiv> 37"
abbreviation (input) X52_BTN_DN :: nat where "X52_BTN_DN \<equiv> 38"
abbreviation (input) X52_BTN_MFD_SELECT :: nat where "X52_BTN_MFD_SELECT \<equiv> 39"

definition hid_x52_buttons :: "nat list" where
  "hid_x52_buttons = [X52_TRIGGER_1, X52_BTN_FIRE, X52_BTN_A, X52_BTN_B, X52_BTN_C, X52_BTN_PINKIE, X52_BTN_D,
     X52_BTN_E, X52_BTN_T1_UP, X52_BTN_T1_DN, X52_BTN_T2_UP, X52_BTN_T2_DN, X52_BTN_T3_UP,
     X52_BTN_T3_DN, X52_TRIGGER_2, X52_STICK_POV_N, X52_STICK_POV_E, X52_STICK_POV_S,
     X52_STICK_POV_W, X52_THROT_POV_N, X52_THROT_POV_E, X52_THROT_POV_S, X52_THROT_POV_W,
     X52_MODE_1, X52_MODE_2, X52_MODE_3, X52_BTN_FUNCTION, X52_BTN_START_STOP, X52_BTN_RESET,
     X52_BTN_CLUTCH, X52_MOUSE_LEFT, X52_MOUSE_RIGHT, X52_MOUSE_FORWARD, X52_MOUSE_BACKWARD]"

definition hid_pro_buttons :: "nat list" where
  "hid_pro_buttons = [X52_TRIGGER_1, X52_BTN_FIRE, X52_BTN_A, X52_BTN_B, X52_BTN_C, X52_BTN_PINKIE, X52_BTN_D,
     X52_BTN_E, X52_BTN_T1_UP, X52_BTN_T1_DN, X52_BTN_T2_UP, X52_BTN_T2_DN, X52_BTN_T3_UP,
     X52_BTN_T3_DN, X52_TRIGGER_2, X52_MOUSE_LEFT, X52_MOUSE_FORWARD, X52_MOUSE_BACKWARD,
     X52_MOUSE_RIGHT, X52_STICK_POV_N, X52_STICK_POV_E, X52_STICK_POV_S, X52_STICK_POV_W,
     X52_THROT_POV_N, X52_THROT_POV_E, X52_THROT_POV_S, X52_THROT_POV_W, X52_MODE_1, X52_MODE_2,
     X52_MODE_3, X52_BTN_CLUTCH, X52_BTN_FUNCTION, X52_BTN_START_STOP, X52_BTN_RESET,
     X52_BTN_PG_UP, X52_BTN_PG_DN, X52_BTN_UP, X52_BTN_DN, X52_BTN_MFD_SELECT]"

definition hid_hat_to_axis :: "(int \<times> int) list" where
  "hid_hat_to_axis = [(0, 0), (0, -1), (1, -1), (1, 0), (1, 1), (0, 1), (-1, 1), (-1, 0), (-1, -1)]
     @ replicate 7 (0, 0)"

definition hid_x52_axis_report :: "bool \<Rightarrow> u8 list \<Rightarrow> nat \<Rightarrow> input_event list" where
  "hid_x52_axis_report is_pro data len =
     (let hat = drop_bit 4 (data ! (len - 2));
          axis = (push_bit 24 (ucast (data ! 3)) OR push_bit 16 (ucast (data ! 2))
                  OR push_bit 8 (ucast (data ! 1)) OR ucast (data ! 0) :: u32)
      in (if is_pro then
            [InputAbs ABS_X (uint (axis AND 0x3ff)), InputAbs ABS_Y (uint (drop_bit 10 axis AND 0x3ff))]
          else
            [InputAbs ABS_X (uint (axis AND 0x7ff)), InputAbs ABS_Y (uint (drop_bit 11 axis AND 0x7ff))])
         @ [InputAbs ABS_RZ (uint (drop_bit 22 axis AND 0x3ff)),
            InputAbs ABS_Z (uint (data ! 4)), InputAbs ABS_RX (uint (data ! 5)),
            InputAbs ABS_RY (uint (data ! 6)), InputAbs ABS_MISC (uint (data ! 7)),
            InputAbs ABS_TILT_X (uint (data ! (len - 1) AND 0xf)),
            InputAbs ABS_TILT_Y (uint (drop_bit 4 (data ! (len - 1)))),
            InputAbs ABS_HAT0X (fst (hid_hat_to_axis ! unat hat)),
            InputAbs ABS_HAT0Y (snd (hid_hat_to_axis ! unat hat))])"

definition hid_x52_button_report :: "bool \<Rightarrow> u8 list \<Rightarrow> nat \<Rightarrow> input_event list" where
  "hid_x52_button_report is_pro data num_buttons =
     (let btn_map = (if is_pro then hid_pro_buttons else hid_x52_buttons)
      in map (\<lambda>i. InputKey (BTN_TRIGGER_HAPPY (btn_map ! i))
                  (data ! (8 + i div 8) AND push_bit (i mod 8) 1 \<noteq> 0)) [0..<num_buttons])"

definition hid_parse_x52_report :: "u8 list \<Rightarrow> nat \<Rightarrow> int \<times> input_event list" where
  "hid_parse_x52_report data len =
     (if len \<noteq> 14 then (-1, [])
      else (0, hid_x52_axis_report False data len @ hid_x52_button_report False data 34))"

definition hid_parse_x52pro_report :: "u8 list \<Rightarrow> nat \<Rightarrow> int \<times> input_event list" where
  "hid_parse_x52pro_report data len =
     (if len \<noteq> 15 then (-1, [])
      else (0, hid_x52_axis_report True data len @ hid_x52_button_report True data 39))"

definition x52_raw_event :: "u16 \<Rightarrow> u8 list \<Rightarrow> nat \<Rightarrow> int \<times> input_event list" where
  "x52_raw_event product data len =
     (let (ret, evs) = (if product = 0x0762 then hid_parse_x52pro_report data len
                        else hid_parse_x52_report data len)
      in (ret, evs @ [InputSync]))"

definition x52_input_configured :: "u16 \<Rightarrow> input_caps" where
  "x52_input_configured product =
     (let is_pro = (product = 0x0762);
          max_btn = (if is_pro then 39 else 34);
          max_stick = (if is_pro then 1023 else 2047 :: int)
      in \<lparr>keybit = map (\<lambda>i. BTN_TRIGGER_HAPPY (1 + i)) [0..<max_btn],
          absinfo =
            [(ABS_X, 0, max_stick, drop_bit 8 max_stick, drop_bit 4 max_stick),
             (ABS_Y, 0, max_stick, drop_bit 8 max_stick, drop_bit 4 max_stick),
             (ABS_RZ, 0, 1023, 3, 63), (ABS_RX, 0, 255, 0, 15), (ABS_RY, 0, 255, 0, 15),
             (ABS_Z, 0, 255, 0, 15), (ABS_MISC, 0, 255, 0, 15), (ABS_HAT0X, -1, 1, 0, 0),
             (ABS_HAT0Y, -1, 1, 0, 0), (ABS_TILT_X, 0, 15, 0, 0), (ABS_TILT_Y, 0, 15, 0, 0)]\<rparr>)"

section \<open>Agreement with libx52io\<close>

fun key_of_button :: "libx52io_button \<Rightarrow> nat" where
  "key_of_button LIBX52IO_BTN_TRIGGER = X52_TRIGGER_1"
| "key_of_button LIBX52IO_BTN_TRIGGER_2 = X52_TRIGGER_2"
| "key_of_button LIBX52IO_BTN_FIRE = X52_BTN_FIRE"
| "key_of_button LIBX52IO_BTN_A = X52_BTN_A"
| "key_of_button LIBX52IO_BTN_B = X52_BTN_B"
| "key_of_button LIBX52IO_BTN_C = X52_BTN_C"
| "key_of_button LIBX52IO_BTN_D = X52_BTN_D"
| "key_of_button LIBX52IO_BTN_E = X52_BTN_E"
| "key_of_button LIBX52IO_BTN_PINKY = X52_BTN_PINKIE"
| "key_of_button LIBX52IO_BTN_T1_UP = X52_BTN_T1_UP"
| "key_of_button LIBX52IO_BTN_T1_DN = X52_BTN_T1_DN"
| "key_of_button LIBX52IO_BTN_T2_UP = X52_BTN_T2_UP"
| "key_of_button LIBX52IO_BTN_T2_DN = X52_BTN_T2_DN"
| "key_of_button LIBX52IO_BTN_T3_UP = X52_BTN_T3_UP"
| "key_of_button LIBX52IO_BTN_T3_DN = X52_BTN_T3_DN"
| "key_of_button LIBX52IO_BTN_CLUTCH = X52_BTN_CLUTCH"
| "key_of_button LIBX52IO_BTN_MOUSE_PRIMARY = X52_MOUSE_LEFT"
| "key_of_button LIBX52IO_BTN_MOUSE_SECONDARY = X52_MOUSE_RIGHT"
| "key_of_button LIBX52IO_BTN_MOUSE_SCROLL_DN = X52_MOUSE_FORWARD"
| "key_of_button LIBX52IO_BTN_MOUSE_SCROLL_UP = X52_MOUSE_BACKWARD"
| "key_of_button LIBX52IO_BTN_POV_1_N = X52_STICK_POV_N"
| "key_of_button LIBX52IO_BTN_POV_1_E = X52_STICK_POV_E"
| "key_of_button LIBX52IO_BTN_POV_1_S = X52_STICK_POV_S"
| "key_of_button LIBX52IO_BTN_POV_1_W = X52_STICK_POV_W"
| "key_of_button LIBX52IO_BTN_POV_2_N = X52_THROT_POV_N"
| "key_of_button LIBX52IO_BTN_POV_2_E = X52_THROT_POV_E"
| "key_of_button LIBX52IO_BTN_POV_2_S = X52_THROT_POV_S"
| "key_of_button LIBX52IO_BTN_POV_2_W = X52_THROT_POV_W"
| "key_of_button LIBX52IO_BTN_MODE_1 = X52_MODE_1"
| "key_of_button LIBX52IO_BTN_MODE_2 = X52_MODE_2"
| "key_of_button LIBX52IO_BTN_MODE_3 = X52_MODE_3"
| "key_of_button LIBX52IO_BTN_FUNCTION = X52_BTN_FUNCTION"
| "key_of_button LIBX52IO_BTN_START_STOP = X52_BTN_START_STOP"
| "key_of_button LIBX52IO_BTN_RESET = X52_BTN_RESET"
| "key_of_button LIBX52IO_BTN_PG_UP = X52_BTN_PG_UP"
| "key_of_button LIBX52IO_BTN_PG_DN = X52_BTN_PG_DN"
| "key_of_button LIBX52IO_BTN_UP = X52_BTN_UP"
| "key_of_button LIBX52IO_BTN_DN = X52_BTN_DN"
| "key_of_button LIBX52IO_BTN_SELECT = X52_BTN_MFD_SELECT"

lemma button_maps_agree:
  "hid_x52_buttons = map key_of_button x52_button_map"
  "hid_pro_buttons = map key_of_button x52pro_button_map"
  by (simp_all add: hid_x52_buttons_def hid_pro_buttons_def x52_button_map_def x52pro_button_map_def)

text \<open>The kernel's events for a report of libx52io, in the order in which the driver sends them.\<close>

definition events_of_report :: "libx52io_button list \<Rightarrow> libx52io_report \<Rightarrow> input_event list" where
  "events_of_report m r =
     map (\<lambda>(c, a). InputAbs c (rep_axis r ! ax a))
       [(ABS_X, LIBX52IO_AXIS_X), (ABS_Y, LIBX52IO_AXIS_Y), (ABS_RZ, LIBX52IO_AXIS_RZ),
        (ABS_Z, LIBX52IO_AXIS_Z), (ABS_RX, LIBX52IO_AXIS_RX), (ABS_RY, LIBX52IO_AXIS_RY),
        (ABS_MISC, LIBX52IO_AXIS_SLIDER), (ABS_TILT_X, LIBX52IO_AXIS_THUMBX),
        (ABS_TILT_Y, LIBX52IO_AXIS_THUMBY), (ABS_HAT0X, LIBX52IO_AXIS_HATX),
        (ABS_HAT0Y, LIBX52IO_AXIS_HATY)]
     @ map (\<lambda>b. InputKey (BTN_TRIGGER_HAPPY (key_of_button b)) (rep_button r ! bt b)) m
     @ [InputSync]"

lemma hat_tables: "hid_hat_to_axis = hat_to_axis"
  by (simp add: hid_hat_to_axis_def hat_to_axis_def)

lemma axis_reports:
  assumes "rep_axis r = report_axes (if pro then 10 else 11) data p" and "p = len - 1" and "2 \<le> len"
  shows "hid_x52_axis_report pro data len =
     map (\<lambda>(c, a). InputAbs c (rep_axis r ! ax a))
       [(ABS_X, LIBX52IO_AXIS_X), (ABS_Y, LIBX52IO_AXIS_Y), (ABS_RZ, LIBX52IO_AXIS_RZ),
        (ABS_Z, LIBX52IO_AXIS_Z), (ABS_RX, LIBX52IO_AXIS_RX), (ABS_RY, LIBX52IO_AXIS_RY),
        (ABS_MISC, LIBX52IO_AXIS_SLIDER), (ABS_TILT_X, LIBX52IO_AXIS_THUMBX),
        (ABS_TILT_Y, LIBX52IO_AXIS_THUMBY), (ABS_HAT0X, LIBX52IO_AXIS_HATX),
        (ABS_HAT0Y, LIBX52IO_AXIS_HATY)]"
proof -
  have p: "len - 2 = p - 1" "len - 1 = p" using assms(2,3) by simp_all
  show ?thesis unfolding assms(1) hid_x52_axis_report_def axis_word_def [symmetric] p
    by (simp add: report_axes_def Let_def hat_tables uint_and_masks uint_and_0xf uint_drop_bit_div)
qed

lemma button_reports:
  assumes "\<And>i. i < length m \<Longrightarrow> rep_button r ! bt (m ! i) = report_bit data i"
  shows "map (\<lambda>i. InputKey (BTN_TRIGGER_HAPPY (map key_of_button m ! i))
            (data ! (8 + i div 8) AND push_bit (i mod 8) 1 \<noteq> 0)) [0..<length m] =
    map (\<lambda>b. InputKey (BTN_TRIGGER_HAPPY (key_of_button b)) (rep_button r ! bt b)) m"
  using assms
  by (intro nth_equalityI) (auto simp: report_bit_def bit_iff_and_push_bit_not_eq_0)

lemma kernel_agrees_core:
  assumes "report_wf r"
  shows "x52_raw_event 0x0255 data 14 = (0, events_of_report x52_button_map (snd (parse_x52 data 14 r)))
    \<and> x52_raw_event 0x075c data 14 = (0, events_of_report x52_button_map (snd (parse_x52 data 14 r)))
    \<and> x52_raw_event 0x0762 data 15 = (0, events_of_report x52pro_button_map (snd (parse_x52pro data 15 r)))"
proof -
  have l: "length (rep_axis r) = 11" using assms by (simp add: report_wf_def)
  note pr = parse_reports_buttons [OF assms, where data = data]
  have a: "hid_x52_axis_report False data 14 = take 11 (events_of_report x52_button_map (snd (parse_x52 data 14 r)))"
    by (subst axis_reports [of "snd (parse_x52 data 14 r)" False data 13])
       (simp_all add: parse_x52_axes [OF l] events_of_report_def)
  have b: "hid_x52_axis_report True data 15 = take 11 (events_of_report x52pro_button_map (snd (parse_x52pro data 15 r)))"
    by (subst axis_reports [of "snd (parse_x52pro data 15 r)" True data 14])
       (simp_all add: parse_x52pro_axes [OF l] events_of_report_def)
  have c: "hid_x52_button_report False data 34 @ [InputSync] =
      drop 11 (events_of_report x52_button_map (snd (parse_x52 data 14 r)))"
    using button_reports [of x52_button_map "snd (parse_x52 data 14 r)" data] pr(1)
    by (simp add: hid_x52_button_report_def button_maps_agree events_of_report_def button_maps)
  have d: "hid_x52_button_report True data 39 @ [InputSync] =
      drop 11 (events_of_report x52pro_button_map (snd (parse_x52pro data 15 r)))"
    using button_reports [of x52pro_button_map "snd (parse_x52pro data 15 r)" data] pr(2)
    by (simp add: hid_x52_button_report_def button_maps_agree events_of_report_def button_maps)
  show ?thesis
    using a b c d by (simp add: x52_raw_event_def hid_parse_x52_report_def hid_parse_x52pro_report_def)
qed

text \<open>
  C15: on every report of an X52 or an X52 Pro the kernel driver reports exactly the axes and
  buttons that libx52io parses from the same bytes, under the fixed correspondence of axis and
  button names.
\<close>

theorem kernel_agrees_with_libx52io:
  assumes "report_wf r"
  shows "x52_raw_event 0x0255 data 14 = (0, events_of_report x52_button_map (snd (parse_x52 data 14 r)))
    \<and> x52_raw_event 0x075c data 14 = (0, events_of_report x52_button_map (snd (parse_x52 data 14 r)))
    \<and> x52_raw_event 0x0762 data 15 = (0, events_of_report x52pro_button_map (snd (parse_x52pro data 15 r)))"
  using kernel_agrees_core [OF assms] .

theorem kernel_agrees_with_libx52io_witness:
  "take 4 (snd (x52_raw_event 0x0255 full_data 14)) =
     [InputAbs ABS_X 2047, InputAbs ABS_Y 2047, InputAbs ABS_RZ 1023, InputAbs ABS_Z 255]
   \<and> snd (x52_raw_event 0x0255 full_data 14) = events_of_report x52_button_map (snd (parse_x52 full_data 14 zero_report))"
proof -
  have "report_wf zero_report" by (simp add: report_wf_def zero_report_def)
  from kernel_agrees_with_libx52io [OF this, of full_data]
  have "snd (x52_raw_event 0x0255 full_data 14) = events_of_report x52_button_map (snd (parse_x52 full_data 14 zero_report))"
    by simp
  moreover have "take 4 (snd (x52_raw_event 0x0255 full_data 14)) =
     [InputAbs ABS_X 2047, InputAbs ABS_Y 2047, InputAbs ABS_RZ 1023, InputAbs ABS_Z 255]"
    by code_simp
  ultimately show ?thesis by simp
qed

section \<open>X65\<close>

definition hid_x65_axis_report :: "u8 list \<Rightarrow> input_event list" where
  "hid_x65_axis_report data =
     (let hat = drop_bit 3 (data ! 14) AND 0x0f;
          axis = (push_bit 16 (ucast (data ! 2)) OR push_bit 8 (ucast (data ! 1)) OR ucast (data ! 0) :: u32);
          nine = (\<lambda>i. uint (push_bit 8 (ucast (data ! (i + 1) AND 0x1)) OR ucast (data ! i) :: u32))
      in [InputAbs ABS_X (uint (axis AND 0xfff)), InputAbs ABS_Y (uint (drop_bit 12 axis AND 0xfff)),
          InputAbs ABS_RZ (nine 3), InputAbs ABS_Z (nine 4), InputAbs ABS_RX (nine 5),
          InputAbs ABS_RY (nine 6), InputAbs ABS_THROTTLE (nine 7),
          InputAbs ABS_MISC (uint (push_bit 1 (data ! 15 AND 0x7) OR drop_bit 7 (data ! 14 AND 0x80))),
          InputAbs ABS_MISC_1 (uint (drop_bit 3 (data ! 15) AND 0xf)),
          InputAbs ABS_HAT0X (fst (hid_hat_to_axis ! unat hat)),
          InputAbs ABS_HAT0Y (snd (hid_hat_to_axis ! unat hat))])"

definition hid_x65_button_report :: "u8 list \<Rightarrow> input_event list" where
  "hid_x65_button_report data =
     (let buttons = (push_bit 47 (ucast (data ! 14)) OR push_bit 39 (ucast (data ! 13))
            OR push_bit 31 (ucast (data ! 12)) OR push_bit 23 (ucast (data ! 11))
            OR push_bit 15 (ucast (data ! 10)) OR push_bit 7 (ucast (data ! 9))
            OR drop_bit 1 (ucast (data ! 8)) :: u64)
      in map (\<lambda>i. InputKey (if i \<le> 0xf then BTN_JOYSTICK i else BTN_TRIGGER_HAPPY (1 + i - 0x10))
                  (buttons AND push_bit i 1 \<noteq> 0)) [0..<50])"

definition x65_raw_event :: "u8 list \<Rightarrow> int \<times> input_event list" where
  "x65_raw_event data = (0, hid_x65_axis_report data @ hid_x65_button_report data @ [InputSync])"

definition x65_input_configured :: input_caps where
  "x65_input_configured =
     \<lparr>keybit = map BTN_JOYSTICK [0..<0x10] @ map (\<lambda>i. BTN_TRIGGER_HAPPY (1 + i - 0x10)) [0x10..<50],
      absinfo =
        [(ABS_X, 0, 4095, 15, 255), (ABS_Y, 0, 4095, 15, 255), (ABS_RZ, 0, 511, 1, 31),
         (ABS_RX, 0, 255, 0, 15), (ABS_RY, 0, 255, 0, 15), (ABS_Z, 0, 255, 0, 15),
         (ABS_THROTTLE, 0, 255, 0, 15), (ABS_HAT0X, -1, 1, 0, 0), (ABS_HAT0Y, -1, 1, 0, 0),
         (ABS_MISC, 0, 15, 0, 0), (ABS_MISC_1, 0, 15, 0, 0)]\<rparr>"

section \<open>Reported events lie within the declared capabilities\<close>

lemma in_ranges_caps:
  assumes "in_ranges io_axis_min [m, m, 1023, 255, 255, 255, 255, 15, 15, 1, 1] r"
    and "absinfo c = [(ABS_X, 0, m, f1, g1), (ABS_Y, 0, m, f2, g2),
       (ABS_RZ, 0, 1023, 3, 63), (ABS_RX, 0, 255, 0, 15), (ABS_RY, 0, 255, 0, 15),
       (ABS_Z, 0, 255, 0, 15), (ABS_MISC, 0, 255, 0, 15), (ABS_HAT0X, -1, 1, 0, 0),
       (ABS_HAT0Y, -1, 1, 0, 0), (ABS_TILT_X, 0, 15, 0, 0), (ABS_TILT_Y, 0, 15, 0, 0)]"
    and "\<And>b. b \<in> set m' \<Longrightarrow> BTN_TRIGGER_HAPPY (key_of_button b) \<in> set (keybit c)"
  shows "\<forall>e \<in> set (events_of_report m' r). in_caps c e"
proof -
  have r: "io_axis_min ! i \<le> rep_axis r ! i \<and>
      rep_axis r ! i \<le> [m, m, 1023, 255, 255, 255, 255, 15, 15, 1, 1] ! i" if "i < 11" for i
    using assms(1) that by (simp add: in_ranges_def)
  show ?thesis
    using assms(3) r [of 0] r [of 1] r [of 2] r [of 3] r [of 4] r [of 5] r [of 6] r [of 7] r [of 8]
      r [of 9] r [of 10]
    by (auto simp: events_of_report_def in_caps_def assms(2) io_axis_min_def)
qed

lemma configured_keys:
  "BTN_TRIGGER_HAPPY n \<in> set (keybit (x52_input_configured p)) \<longleftrightarrow>
    1 \<le> n \<and> n \<le> (if p = 0x0762 then 39 else 34)"
proof -
  have "BTN_TRIGGER_HAPPY n \<in> set (map (\<lambda>i. BTN_TRIGGER_HAPPY (1 + i)) [0..<k]) \<longleftrightarrow> 1 \<le> n \<and> n \<le> k" for k
    by (auto simp: image_iff intro!: bexI [of _ "n - 1"])
  then show ?thesis by (simp add: x52_input_configured_def Let_def)
qed

text \<open>
  The X52 driver only reports keys and axes that it declared when the device was
  configured, and each axis stays within its declared range.
\<close>

lemma x52_events_declared:
  assumes "product \<in> {0x0255, 0x075c, 0x0762}" and "x52_raw_event product data len = (rc, evs)"
    and "e \<in> set evs"
  shows "in_caps (x52_input_configured product) e"
proof -
  have wf: "report_wf zero_report" by (simp add: report_wf_def zero_report_def)
  note agree = kernel_agrees_core [OF wf, of data]
  have k1: "\<forall>b \<in> set x52_button_map. 1 \<le> key_of_button b \<and> key_of_button b \<le> 34"
    by (simp add: x52_button_map_def)
  have k2: "\<forall>b \<in> set x52pro_button_map. 1 \<le> key_of_button b \<and> key_of_button b \<le> 39"
    by (simp add: x52pro_button_map_def)
  show ?thesis
  proof (cases "product = 0x0762")
    case pro: True
    show ?thesis
    proof (cases "len = 15")
      case True
      have "in_ranges io_axis_min x52pro_axis_max (snd (parse_x52pro data 15 zero_report))"
        using parse_reports_ranges(2) [OF wf, of data 15] by (simp add: parse_x52pro_def Let_def)
      then have "\<forall>e \<in> set (events_of_report x52pro_button_map (snd (parse_x52pro data 15 zero_report))).
          in_caps (x52_input_configured 0x0762) e"
        using k2 by (intro in_ranges_caps [where m = 1023])
          (auto simp: x52pro_axis_max_def configured_keys, auto simp: x52_input_configured_def Let_def)
      then show ?thesis using assms(2,3) agree True pro by simp
    qed (use pro assms(2,3) in \<open>auto simp: x52_raw_event_def hid_parse_x52pro_report_def in_caps_def\<close>)
  next
    case std: False
    show ?thesis
    proof (cases "len = 14")
      case True
      have "in_ranges io_axis_min x52_axis_max (snd (parse_x52 data 14 zero_report))"
        using parse_reports_ranges(1) [OF wf, of data 14] by (simp add: parse_x52_def Let_def)
      then have "\<forall>e \<in> set (events_of_report x52_button_map (snd (parse_x52 data 14 zero_report))).
          in_caps (x52_input_configured product) e"
        using k1 std by (intro in_ranges_caps [where m = 2047])
          (auto simp: x52_axis_max_def configured_keys, auto simp: x52_input_configured_def Let_def)
      then show ?thesis using assms agree True std by auto
    qed (use std assms(2,3) in \<open>auto simp: x52_raw_event_def hid_parse_x52_report_def in_caps_def\<close>)
  qed
qed

theorem x52_events_declared_witness:
  "in_caps (x52_input_configured 0x0762) (hd (snd (x52_raw_event 0x0762 (full_data @ [0xff]) 15)))
   \<and> hd (snd (x52_raw_event 0x0762 (full_data @ [0xff]) 15)) = InputAbs ABS_X 1023"
proof -
  have "hd (snd (x52_raw_event 0x0762 (full_data @ [0xff]) 15)) \<in> set (snd (x52_raw_event 0x0762 (full_data @ [0xff]) 15))"
    by (intro hd_in_set) (simp add: x52_raw_event_def split_beta)
  from x52_events_declared [OF _ prod.collapse [symmetric] this]
  have "in_caps (x52_input_configured 0x0762) (hd (snd (x52_raw_event 0x0762 (full_data @ [0xff]) 15)))" by simp
  moreover have "hd (snd (x52_raw_event 0x0762 (full_data @ [0xff]) 15)) = InputAbs ABS_X 1023"
    by code_simp
  ultimately show ?thesis ..
qed

text \<open>
  Button \<open>i\<close> of the X65, for all fifty of them, is bit \<open>i + 65\<close> of the report read as one
  little-endian number, as the layout in the source says.
\<close>

lemma x65_buttons:
  "hid_x65_button_report data =
     map (\<lambda>i. InputKey (if i \<le> 0xf then BTN_JOYSTICK i else BTN_TRIGGER_HAPPY (1 + i - 0x10))
            (bit (data ! ((i + 65) div 8)) ((i + 65) mod 8))) [0..<50]"
proof -
  have b: "bit (ucast (x :: u8) :: u64) m \<longleftrightarrow> bit x m" for x m
    by (auto simp: bit_simps dest: bit_imp_le_length)
  have hi: "bit (x :: u8) m \<Longrightarrow> m < 8" for x m by (auto dest: bit_imp_le_length)
  have "bit (push_bit 47 (ucast (data ! 14)) OR push_bit 39 (ucast (data ! 13))
            OR push_bit 31 (ucast (data ! 12)) OR push_bit 23 (ucast (data ! 11))
            OR push_bit 15 (ucast (data ! 10)) OR push_bit 7 (ucast (data ! 9))
            OR drop_bit 1 (ucast (data ! 8)) :: u64) i = bit (data ! ((i + 65) div 8)) ((i + 65) mod 8)"
    if "i < 50" for i
  proof -
    have bits: "bit (push_bit 47 (ucast (data ! 14)) OR push_bit 39 (ucast (data ! 13))
            OR push_bit 31 (ucast (data ! 12)) OR push_bit 23 (ucast (data ! 11))
            OR push_bit 15 (ucast (data ! 10)) OR push_bit 7 (ucast (data ! 9))
            OR drop_bit 1 (ucast (data ! 8)) :: u64) i \<longleftrightarrow>
        (47 \<le> i \<and> bit (data ! 14) (i - 47)) \<or> (39 \<le> i \<and> bit (data ! 13) (i - 39))
      \<or> (31 \<le> i \<and> bit (data ! 12) (i - 31)) \<or> (23 \<le> i \<and> bit (data ! 11) (i - 23))
      \<or> (15 \<le> i \<and> bit (data ! 10) (i - 15)) \<or> (7 \<le> i \<and> bit (data ! 9) (i - 7)) \<or> bit (data ! 8) (i + 1)"
      using that by (simp add: bit_or_iff bit_push_bit_iff bit_drop_bit_eq b)
    consider "i < 7" | "7 \<le> i" "i < 15" | "15 \<le> i" "i < 23" | "23 \<le> i" "i < 31" | "31 \<le> i" "i < 39"
      | "39 \<le> i" "i < 47" | "47 \<le> i" by linarith
    then show ?thesis
    proof cases
      case 1
      then have "(i + 65) div 8 = 8" "(i + 65) mod 8 = i + 1" by (auto simp: div_nat_eqI mod_if)
      with 1 show ?thesis unfolding bits by simp
    next
      case 2
      then have "(i + 65) div 8 = 9" "(i + 65) mod 8 = i - 7" by (auto simp: div_nat_eqI mod_if)
      with 2 show ?thesis unfolding bits by (auto dest: hi)
    next
      case 3
      then have "(i + 65) div 8 = 10" "(i + 65) mod 8 = i - 15" by (auto simp: div_nat_eqI mod_if)
      with 3 show ?thesis unfolding bits by (auto dest: hi)
    next
      case 4
      then have "(i + 65) div 8 = 11" "(i + 65) mod 8 = i - 23" by (auto simp: div_nat_eqI mod_if)
      with 4 show ?thesis unfolding bits by (auto dest: hi)
    next
      case 5
      then have "(i + 65) div 8 = 12" "(i + 65) mod 8 = i - 31" by (auto simp: div_nat_eqI mod_if)
      with 5 show ?thesis unfolding bits by (auto dest: hi)
    next
      case 6
      then have "(i + 65) div 8 = 13" "(i + 65) mod 8 = i - 39" by (auto simp: div_nat_eqI mod_if)
      with 6 show ?thesis unfolding bits by (auto dest: hi)
    next
      case 7
      with that have "(i + 65) div 8 = 14" "(i + 65) mod 8 = i - 47" by (auto simp: div_nat_eqI mod_if)
      with 7 that show ?thesis unfolding bits by (auto dest: hi)
    qed
  qed
  then show ?thesis
    unfolding hid_x65_button_report_def Let_def bit_iff_and_push_bit_not_eq_0 [symmetric]
    by (intro map_cong refl) auto
qed

text \<open>
  The axes of the X65 are not within its declared capabilities: the throttle is reported from
  nine bits, up to 511, and was declared up to 255.
\<close>

lemma x65_axis_out_of_range:
  "InputAbs ABS_THROTTLE 511 \<in> set (snd (x65_raw_event (replicate 16 0xff)))
   \<and> \<not> in_caps x65_input_configured (InputAbs ABS_THROTTLE 511)"
  by code_simp

end
