(* ===== verification/X52_Char_Map.thy ===== *)
theory X52_Char_Map
  imports X52_Prelude
begin

text \<open>
  libx52util (\<open>libx52util/x52_char_map_lookup.c\<close>, \<open>x52_char_map.h\<close>): conversion of a UTF-8
  string to the character set of the MFD through a table of tables, one level per byte of a
  UTF-8 sequence. The table itself is generated when the program is built: \<open>map_root\<close>, of 256
  entries whose pointers lead to tables of 64 entries, is a parameter.
\<close>

section \<open>The table and the conversion\<close>

text \<open>An entry with its type, its value or the next table.\<close>

datatype map_entry = TYPE_INVALID | TYPE_POINTER "map_entry list" | TYPE_ENTRY u8

definition root_entry :: "map_entry list \<Rightarrow> u8 list \<Rightarrow> map_entry" where
  "root_entry map_root input = (case input of [] \<Rightarrow> map_root ! 0 | b # _ \<Rightarrow> map_root ! unat b)"

definition is_continuation :: "u8 \<Rightarrow> bool" where
  "is_continuation b \<longleftrightarrow> 0x80 \<le> b \<and> b < 0xC0"

text \<open>
  The \<open>while\<close> loop: \<open>input\<close> from the current byte on, without its NUL, the current entry and
  the output so far. The first byte was looked up before the loop or by the iteration before.
\<close>

function convert_loop ::
  "map_entry list \<Rightarrow> nat \<Rightarrow> u8 list \<Rightarrow> map_entry \<Rightarrow> u8 list \<Rightarrow> int \<times> u8 list" where
  "convert_loop map_root len [] entry out = (0, out)"
| "convert_loop map_root len (b # input) entry out =
     (case entry of
        TYPE_ENTRY v \<Rightarrow>
          (let out' = out @ [v] in
           if len \<le> length out' then (-7, out')
           else convert_loop map_root len input (root_entry map_root input) out')
      | TYPE_POINTER table \<Rightarrow>
          (let local_index = (case input of [] \<Rightarrow> 0 | c # _ \<Rightarrow> c) in
           if \<not> is_continuation local_index then
             (let input' = dropWhile is_continuation input
              in convert_loop map_root len input' (root_entry map_root input') out)
           else convert_loop map_root len input (table ! unat (local_index AND 0x3F)) out)
      | TYPE_INVALID \<Rightarrow>
          convert_loop map_root len (dropWhile is_continuation input) TYPE_INVALID out)"
  by pat_completeness auto
termination
  by (relation "measure (\<lambda>(_, _, input, _, _). length input)")
    (auto simp: length_dropWhile_le less_Suc_eq_le)

text \<open>
  The return code, 0, -EINVAL or -E2BIG, and the bytes written; their number is \<open>*len\<close>
  afterwards. The flags tell that the pointers are not NULL.
\<close>

definition libx52util_convert_utf8_string ::
  "map_entry list \<Rightarrow> u8 list option \<Rightarrow> bool \<Rightarrow> nat option \<Rightarrow> int \<times> u8 list" where
  "libx52util_convert_utf8_string map_root input output_ok len =
     (case (input, len) of
        (Some str, Some n) \<Rightarrow>
          if \<not> output_ok \<or> n = 0 then (-22, [])
          else convert_loop map_root n str (root_entry map_root str) []
      | _ \<Rightarrow> (-22, []))"

section \<open>What the table means\<close>

text \<open>The value of a byte sequence, following the table byte by byte.\<close>

fun walk :: "map_entry \<Rightarrow> u8 list \<Rightarrow> u8 option" where
  "walk (TYPE_ENTRY v) [] = Some v"
| "walk (TYPE_POINTER table) (b # bs) =
     (if is_continuation b then walk (table ! unat (b AND 0x3F)) bs else None)"
| "walk entry bs = None"

text \<open>The character that starts with byte \<open>b\<close> and has the value \<open>v\<close>.\<close>

definition char_value :: "map_entry list \<Rightarrow> u8 list \<Rightarrow> u8 option" where
  "char_value map_root c = (case c of [] \<Rightarrow> None | b # bs \<Rightarrow> walk (map_root ! unat b) bs)"

lemma convert_char:
  "walk entry bs = Some v \<Longrightarrow> convert_loop map_root len (b # bs @ rest) entry out =
    (if len \<le> length out + 1 then (-7, out @ [v])
     else convert_loop map_root len rest (root_entry map_root rest) (out @ [v]))"
proof (induction entry bs arbitrary: b rule: walk.induct)
  case (2 table c bs)
  then show ?case by (simp split: if_splits)
qed simp_all

lemma root_entry_Cons: "root_entry map_root (b # bs) = map_root ! unat b"
  by (simp add: root_entry_def)

lemma convert_chars:
  assumes "map (char_value map_root) cs = map Some vs"
  shows "length out + length vs < len \<Longrightarrow>
    convert_loop map_root len (concat cs @ rest) (root_entry map_root (concat cs @ rest)) out =
    convert_loop map_root len rest (root_entry map_root rest) (out @ vs)"
  using assms
proof (induction cs arbitrary: vs out)
  case (Cons c cs)
  from Cons.prems obtain v ws where vs: "vs = v # ws" "char_value map_root c = Some v"
    "map (char_value map_root) cs = map Some ws" by (cases vs) auto
  then obtain b bs where c: "c = b # bs" "walk (map_root ! unat b) bs = Some v"
    by (auto simp: char_value_def split: list.splits)
  with vs Cons.prems Cons.IH [OF _ vs(3), of "out @ [v]"]
    convert_char [OF c(2), of map_root len b "concat cs @ rest" out]
  show ?case by (simp add: root_entry_Cons)
qed simp

text \<open>
  C26:
  A string of characters that are all in the table is converted to their values, in order,
  with return code 0, when the buffer has room for one byte more than there are characters;
  when it has room for exactly as many, all are converted but the code is -E2BIG.
\<close>

theorem convert_mapped_string:
  assumes "map (char_value map_root) cs = map Some vs" and "length vs \<le> n" and "0 < n"
  shows "libx52util_convert_utf8_string map_root (Some (concat cs)) True (Some n) =
    (if length vs < n then 0 else -7, vs)"
proof (cases "length vs < n")
  case True
  with convert_chars [OF assms(1), of "[]" n "[]"] assms(3) show ?thesis
    by (simp add: libx52util_convert_utf8_string_def)
next
  case False
  with assms(2,3) have len: "length vs = n" "vs \<noteq> []" by auto
  with assms(1) obtain ds d ws w where cs: "cs = ds @ [d]" "vs = ws @ [w]"
    "map (char_value map_root) ds = map Some ws" "char_value map_root d = Some w"
    by (cases cs rule: rev_cases; cases vs rule: rev_cases) auto
  then obtain b bs where d: "d = b # bs" "walk (map_root ! unat b) bs = Some w"
    by (auto simp: char_value_def split: list.splits)
  from convert_chars [OF cs(3), of "[]" n d] cs len
    convert_char [OF d(2), of map_root n b "[]" ws]
  have "convert_loop map_root n (concat cs) (root_entry map_root (concat cs)) [] = (-7, vs)"
    by (simp add: d root_entry_Cons)
  with False assms(3) show ?thesis by (simp add: libx52util_convert_utf8_string_def)
qed

text \<open>A table with the letter A and the degree sign, as in the MFD's character set.\<close>

definition demo_root :: "map_entry list" where
  "demo_root = (replicate 256 TYPE_INVALID)
     [0x41 := TYPE_ENTRY 0x41,
      0xC2 := TYPE_POINTER ((replicate 64 TYPE_INVALID) [0x30 := TYPE_ENTRY 0xDF])]"

lemma demo_values:
  "char_value demo_root [0x41] = Some 0x41" "char_value demo_root [0xC2, 0xB0] = Some 0xDF"
  by (simp_all add: char_value_def demo_root_def is_continuation_def)

lemma convert_mapped_string_witness:
  "libx52util_convert_utf8_string demo_root (Some [0x41, 0xC2, 0xB0, 0x41]) True (Some 16)
    = (0, [0x41, 0xDF, 0x41])"
  using convert_mapped_string [of demo_root "[[0x41], [0xC2, 0xB0], [0x41]]" "[0x41, 0xDF, 0x41]" 16]
  by (simp add: demo_values)

text \<open>
  A byte that no table entry starts with ends the conversion: whatever follows it is dropped
  too, although the documentation says that only unrecognised characters are.
\<close>

lemma convert_stops_at_unmapped:
  assumes "map (char_value map_root) cs = map Some vs" and "length vs < n"
    and "map_root ! unat b = TYPE_INVALID"
  shows "libx52util_convert_utf8_string map_root (Some (concat cs @ b # rest)) True (Some n) = (0, vs)"
proof -
  have stop: "convert_loop map_root n input TYPE_INVALID out = (0, out)" for input out
  proof (induction "length input" arbitrary: input rule: less_induct)
    case less
    show ?case
    proof (cases input)
      case (Cons c cs)
      have "length (dropWhile is_continuation cs) < length input"
        using length_dropWhile_le [of is_continuation cs] Cons by simp
      with less Cons show ?thesis by simp
    qed simp
  qed
  from convert_chars [OF assms(1), of "[]" n "b # rest"] assms(2,3)
  have "convert_loop map_root n (concat cs @ b # rest) (root_entry map_root (concat cs @ b # rest)) []
      = (0, vs)"
    by (simp add: root_entry_Cons stop del: convert_loop.simps)
  with assms(2) show ?thesis by (simp add: libx52util_convert_utf8_string_def)
qed

lemma convert_stops_at_unmapped_witness:
  "libx52util_convert_utf8_string demo_root (Some [0x41, 0x7E, 0x41]) True (Some 16) = (0, [0x41])"
  using convert_stops_at_unmapped [of demo_root "[[0x41]]" "[0x41]" 16 "0x7E" "[0x41]"]
  by (simp add: demo_values) (simp add: demo_root_def)

end
