(* ===== verification/Libx52_Types.thy ===== *)
theory Libx52_Types
  imports X52_Prelude
begin

text \<open>
  The types of libx52 (\<open>libx52/libx52.h\<close>, \<open>libx52/x52_common.h\<close>,
  \<open>libx52/x52_commands.h\<close>): the public enumerations with their codes, the error codes and
  their translation from libusb's, the vendor command numbers, the indicator bits of the
  update mask with the three bit helpers, and the string representations
  (\<open>x52_stringify.c\<close>, \<open>x52_strerror.c\<close>).
\<close>

section \<open>Public enumerations\<close>

datatype libx52_clock_id = LIBX52_CLOCK_1 | LIBX52_CLOCK_2 | LIBX52_CLOCK_3

fun clock_id_code :: "libx52_clock_id \<Rightarrow> int" where
  "clock_id_code LIBX52_CLOCK_1 = 0"
| "clock_id_code LIBX52_CLOCK_2 = 1"
| "clock_id_code LIBX52_CLOCK_3 = 2"

datatype libx52_clock_format = LIBX52_CLOCK_FORMAT_12HR | LIBX52_CLOCK_FORMAT_24HR

fun clock_format_code :: "libx52_clock_format \<Rightarrow> int" where
  "clock_format_code LIBX52_CLOCK_FORMAT_12HR = 0"
| "clock_format_code LIBX52_CLOCK_FORMAT_24HR = 1"

datatype libx52_date_format =
  LIBX52_DATE_FORMAT_DDMMYY | LIBX52_DATE_FORMAT_MMDDYY | LIBX52_DATE_FORMAT_YYMMDD

fun date_format_code :: "libx52_date_format \<Rightarrow> int" where
  "date_format_code LIBX52_DATE_FORMAT_DDMMYY = 0"
| "date_format_code LIBX52_DATE_FORMAT_MMDDYY = 1"
| "date_format_code LIBX52_DATE_FORMAT_YYMMDD = 2"

datatype libx52_led_id =
  LIBX52_LED_FIRE | LIBX52_LED_A | LIBX52_LED_B | LIBX52_LED_D | LIBX52_LED_E
| LIBX52_LED_T1 | LIBX52_LED_T2 | LIBX52_LED_T3 | LIBX52_LED_POV | LIBX52_LED_CLUTCH
| LIBX52_LED_THROTTLE

fun led_id_code :: "libx52_led_id \<Rightarrow> int" where
  "led_id_code LIBX52_LED_FIRE = 0x01"
| "led_id_code LIBX52_LED_A = 0x02"
| "led_id_code LIBX52_LED_B = 0x04"
| "led_id_code LIBX52_LED_D = 0x06"
| "led_id_code LIBX52_LED_E = 0x08"
| "led_id_code LIBX52_LED_T1 = 0x0a"
| "led_id_code LIBX52_LED_T2 = 0x0c"
| "led_id_code LIBX52_LED_T3 = 0x0e"
| "led_id_code LIBX52_LED_POV = 0x10"
| "led_id_code LIBX52_LED_CLUTCH = 0x12"
| "led_id_code LIBX52_LED_THROTTLE = 0x14"

datatype libx52_led_state =
  LIBX52_LED_STATE_OFF | LIBX52_LED_STATE_ON | LIBX52_LED_STATE_RED
| LIBX52_LED_STATE_AMBER | LIBX52_LED_STATE_GREEN

fun led_state_code :: "libx52_led_state \<Rightarrow> int" where
  "led_state_code LIBX52_LED_STATE_OFF = 0"
| "led_state_code LIBX52_LED_STATE_ON = 1"
| "led_state_code LIBX52_LED_STATE_RED = 2"
| "led_state_code LIBX52_LED_STATE_AMBER = 3"
| "led_state_code LIBX52_LED_STATE_GREEN = 4"

datatype libx52_feature = LIBX52_FEATURE_LED

fun feature_code :: "libx52_feature \<Rightarrow> int" where
  "feature_code LIBX52_FEATURE_LED = 0"

datatype libx52_error_code =
  LIBX52_SUCCESS | LIBX52_ERROR_INIT_FAILURE | LIBX52_ERROR_OUT_OF_MEMORY
| LIBX52_ERROR_INVALID_PARAM | LIBX52_ERROR_NOT_SUPPORTED | LIBX52_ERROR_TRY_AGAIN
| LIBX52_ERROR_OUT_OF_RANGE | LIBX52_ERROR_USB_FAILURE | LIBX52_ERROR_IO
| LIBX52_ERROR_PERM | LIBX52_ERROR_NO_DEVICE | LIBX52_ERROR_NOT_FOUND
| LIBX52_ERROR_BUSY | LIBX52_ERROR_TIMEOUT | LIBX52_ERROR_OVERFLOW
| LIBX52_ERROR_PIPE | LIBX52_ERROR_INTERRUPTED

fun error_code :: "libx52_error_code \<Rightarrow> int" where
  "error_code LIBX52_SUCCESS = 0"
| "error_code LIBX52_ERROR_INIT_FAILURE = 1"
| "error_code LIBX52_ERROR_OUT_OF_MEMORY = 2"
| "error_code LIBX52_ERROR_INVALID_PARAM = 3"
| "error_code LIBX52_ERROR_NOT_SUPPORTED = 4"
| "error_code LIBX52_ERROR_TRY_AGAIN = 5"
| "error_code LIBX52_ERROR_OUT_OF_RANGE = 6"
| "error_code LIBX52_ERROR_USB_FAILURE = 7"
| "error_code LIBX52_ERROR_IO = 8"
| "error_code LIBX52_ERROR_PERM = 9"
| "error_code LIBX52_ERROR_NO_DEVICE = 10"
| "error_code LIBX52_ERROR_NOT_FOUND = 11"
| "error_code LIBX52_ERROR_BUSY = 12"
| "error_code LIBX52_ERROR_TIMEOUT = 13"
| "error_code LIBX52_ERROR_OVERFLOW = 14"
| "error_code LIBX52_ERROR_PIPE = 15"
| "error_code LIBX52_ERROR_INTERRUPTED = 16"

text \<open>The enumerators of each type, in the source's order, for dispatching on codes.\<close>

definition clock_ids :: "libx52_clock_id list" where
  "clock_ids = [LIBX52_CLOCK_1, LIBX52_CLOCK_2, LIBX52_CLOCK_3]"

definition clock_formats :: "libx52_clock_format list" where
  "clock_formats = [LIBX52_CLOCK_FORMAT_12HR, LIBX52_CLOCK_FORMAT_24HR]"

definition date_formats :: "libx52_date_format list" where
  "date_formats =
     [LIBX52_DATE_FORMAT_DDMMYY, LIBX52_DATE_FORMAT_MMDDYY, LIBX52_DATE_FORMAT_YYMMDD]"

definition led_ids :: "libx52_led_id list" where
  "led_ids = [LIBX52_LED_FIRE, LIBX52_LED_A, LIBX52_LED_B, LIBX52_LED_D, LIBX52_LED_E,
     LIBX52_LED_T1, LIBX52_LED_T2, LIBX52_LED_T3, LIBX52_LED_POV, LIBX52_LED_CLUTCH,
     LIBX52_LED_THROTTLE]"

definition led_states :: "libx52_led_state list" where
  "led_states = [LIBX52_LED_STATE_OFF, LIBX52_LED_STATE_ON, LIBX52_LED_STATE_RED,
     LIBX52_LED_STATE_AMBER, LIBX52_LED_STATE_GREEN]"

definition error_codes :: "libx52_error_code list" where
  "error_codes = [LIBX52_SUCCESS, LIBX52_ERROR_INIT_FAILURE, LIBX52_ERROR_OUT_OF_MEMORY,
     LIBX52_ERROR_INVALID_PARAM, LIBX52_ERROR_NOT_SUPPORTED, LIBX52_ERROR_TRY_AGAIN,
     LIBX52_ERROR_OUT_OF_RANGE, LIBX52_ERROR_USB_FAILURE, LIBX52_ERROR_IO,
     LIBX52_ERROR_PERM, LIBX52_ERROR_NO_DEVICE, LIBX52_ERROR_NOT_FOUND,
     LIBX52_ERROR_BUSY, LIBX52_ERROR_TIMEOUT, LIBX52_ERROR_OVERFLOW,
     LIBX52_ERROR_PIPE, LIBX52_ERROR_INTERRUPTED]"

abbreviation clock_id_of :: "int \<Rightarrow> libx52_clock_id option" where
  "clock_id_of \<equiv> enum_of clock_id_code clock_ids"

abbreviation clock_format_of :: "int \<Rightarrow> libx52_clock_format option" where
  "clock_format_of \<equiv> enum_of clock_format_code clock_formats"

abbreviation date_format_of :: "int \<Rightarrow> libx52_date_format option" where
  "date_format_of \<equiv> enum_of date_format_code date_formats"

abbreviation led_id_of :: "int \<Rightarrow> libx52_led_id option" where
  "led_id_of \<equiv> enum_of led_id_code led_ids"

abbreviation led_state_of :: "int \<Rightarrow> libx52_led_state option" where
  "led_state_of \<equiv> enum_of led_state_code led_states"

abbreviation feature_of :: "int \<Rightarrow> libx52_feature option" where
  "feature_of \<equiv> enum_of feature_code [LIBX52_FEATURE_LED]"

abbreviation error_of :: "int \<Rightarrow> libx52_error_code option" where
  "error_of \<equiv> enum_of error_code error_codes"

interpretation clock_id: c_enum clock_id_code clock_ids
proof
  show "clock_id_code x = clock_id_code y \<Longrightarrow> x = y" for x y by (cases x; cases y) auto
  show "x \<in> set clock_ids" for x by (cases x) (auto simp: clock_ids_def)
qed

interpretation clock_format: c_enum clock_format_code clock_formats
proof
  show "clock_format_code x = clock_format_code y \<Longrightarrow> x = y" for x y by (cases x; cases y) auto
  show "x \<in> set clock_formats" for x by (cases x) (auto simp: clock_formats_def)
qed

interpretation date_format: c_enum date_format_code date_formats
proof
  show "date_format_code x = date_format_code y \<Longrightarrow> x = y" for x y by (cases x; cases y) auto
  show "x \<in> set date_formats" for x by (cases x) (auto simp: date_formats_def)
qed

interpretation led_id: c_enum led_id_code led_ids
proof
  show "led_id_code x = led_id_code y \<Longrightarrow> x = y" for x y by (cases x; cases y) auto
  show "x \<in> set led_ids" for x by (cases x) (auto simp: led_ids_def)
qed

interpretation led_state: c_enum led_state_code led_states
proof
  show "led_state_code x = led_state_code y \<Longrightarrow> x = y" for x y by (cases x; cases y) auto
  show "x \<in> set led_states" for x by (cases x) (auto simp: led_states_def)
qed

interpretation error: c_enum error_code error_codes
proof
  show "error_code x = error_code y \<Longrightarrow> x = y" for x y by (cases x; cases y) auto
  show "x \<in> set error_codes" for x by (cases x) (auto simp: error_codes_def)
qed

interpretation feature: c_enum feature_code "[LIBX52_FEATURE_LED]"
proof
  show "feature_code x = feature_code y \<Longrightarrow> x = y" for x y by (cases x; cases y) auto
  show "x \<in> set [LIBX52_FEATURE_LED]" for x by (cases x) auto
qed

section \<open>Errors of libusb\<close>

text \<open>
  libusb itself is not part of the repository. Its error codes are a datatype with the
  enumerators \<open>_x52_translate_libusb_error\<close> names; \<open>LIBUSB_RC n\<close> is any other integer.
\<close>

datatype libusb_error =
  LIBUSB_SUCCESS | LIBUSB_ERROR_IO | LIBUSB_ERROR_INVALID_PARAM | LIBUSB_ERROR_ACCESS
| LIBUSB_ERROR_NO_DEVICE | LIBUSB_ERROR_NOT_FOUND | LIBUSB_ERROR_BUSY
| LIBUSB_ERROR_TIMEOUT | LIBUSB_ERROR_OVERFLOW | LIBUSB_ERROR_PIPE
| LIBUSB_ERROR_INTERRUPTED | LIBUSB_ERROR_NO_MEM | LIBUSB_ERROR_NOT_SUPPORTED
| LIBUSB_ERROR_OTHER | LIBUSB_RC int

fun x52_translate_libusb_error :: "libusb_error \<Rightarrow> libx52_error_code" where
  "x52_translate_libusb_error LIBUSB_SUCCESS = LIBX52_SUCCESS"
| "x52_translate_libusb_error LIBUSB_ERROR_IO = LIBX52_ERROR_IO"
| "x52_translate_libusb_error LIBUSB_ERROR_INVALID_PARAM = LIBX52_ERROR_INVALID_PARAM"
| "x52_translate_libusb_error LIBUSB_ERROR_ACCESS = LIBX52_ERROR_PERM"
| "x52_translate_libusb_error LIBUSB_ERROR_NO_DEVICE = LIBX52_ERROR_NO_DEVICE"
| "x52_translate_libusb_error LIBUSB_ERROR_NOT_FOUND = LIBX52_ERROR_NOT_FOUND"
| "x52_translate_libusb_error LIBUSB_ERROR_BUSY = LIBX52_ERROR_BUSY"
| "x52_translate_libusb_error LIBUSB_ERROR_TIMEOUT = LIBX52_ERROR_TIMEOUT"
| "x52_translate_libusb_error LIBUSB_ERROR_OVERFLOW = LIBX52_ERROR_OVERFLOW"
| "x52_translate_libusb_error LIBUSB_ERROR_PIPE = LIBX52_ERROR_PIPE"
| "x52_translate_libusb_error LIBUSB_ERROR_INTERRUPTED = LIBX52_ERROR_INTERRUPTED"
| "x52_translate_libusb_error LIBUSB_ERROR_NO_MEM = LIBX52_ERROR_OUT_OF_MEMORY"
| "x52_translate_libusb_error LIBUSB_ERROR_NOT_SUPPORTED = LIBX52_ERROR_NOT_SUPPORTED"
| "x52_translate_libusb_error LIBUSB_ERROR_OTHER = LIBX52_ERROR_USB_FAILURE"
| "x52_translate_libusb_error (LIBUSB_RC _) = LIBX52_ERROR_USB_FAILURE"

lemma translate_success_iff [simp]:
  "x52_translate_libusb_error rc = LIBX52_SUCCESS \<longleftrightarrow> rc = LIBUSB_SUCCESS"
  by (cases rc) auto

lemma translate_no_device_iff [simp]:
  "x52_translate_libusb_error rc = LIBX52_ERROR_NO_DEVICE \<longleftrightarrow> rc = LIBUSB_ERROR_NO_DEVICE"
  by (cases rc) auto

section \<open>Vendor commands\<close>

definition X52_VENDOR_REQUEST :: u8 where "X52_VENDOR_REQUEST = 0x91"

abbreviation (input) X52_MFD_CLEAR_LINE :: u16 where "X52_MFD_CLEAR_LINE \<equiv> 0x08"
abbreviation (input) X52_MFD_WRITE_LINE :: u16 where "X52_MFD_WRITE_LINE \<equiv> 0x00"
abbreviation (input) X52_MFD_LINE1 :: u16 where "X52_MFD_LINE1 \<equiv> 0xd1"
abbreviation (input) X52_MFD_LINE2 :: u16 where "X52_MFD_LINE2 \<equiv> 0xd2"
abbreviation (input) X52_MFD_LINE3 :: u16 where "X52_MFD_LINE3 \<equiv> 0xd4"
abbreviation (input) X52_MFD_BRIGHTNESS :: u16 where "X52_MFD_BRIGHTNESS \<equiv> 0xb1"
abbreviation (input) X52_LED_BRIGHTNESS :: u16 where "X52_LED_BRIGHTNESS \<equiv> 0xb2"
abbreviation (input) X52_LED :: u16 where "X52_LED \<equiv> 0xb8"
abbreviation (input) X52_TIME_CLOCK1 :: u16 where "X52_TIME_CLOCK1 \<equiv> 0xc0"
abbreviation (input) X52_OFFS_CLOCK2 :: u16 where "X52_OFFS_CLOCK2 \<equiv> 0xc1"
abbreviation (input) X52_OFFS_CLOCK3 :: u16 where "X52_OFFS_CLOCK3 \<equiv> 0xc2"
abbreviation (input) X52_DATE_DDMM :: u16 where "X52_DATE_DDMM \<equiv> 0xc4"
abbreviation (input) X52_DATE_YEAR :: u16 where "X52_DATE_YEAR \<equiv> 0xc8"
abbreviation (input) X52_SHIFT_INDICATOR :: u16 where "X52_SHIFT_INDICATOR \<equiv> 0xfd"
abbreviation (input) X52_SHIFT_ON :: u16 where "X52_SHIFT_ON \<equiv> 0x51"
abbreviation (input) X52_SHIFT_OFF :: u16 where "X52_SHIFT_OFF \<equiv> 0x50"
abbreviation (input) X52_BLINK_INDICATOR :: u16 where "X52_BLINK_INDICATOR \<equiv> 0xb4"
abbreviation (input) X52_BLINK_ON :: u16 where "X52_BLINK_ON \<equiv> 0x51"
abbreviation (input) X52_BLINK_OFF :: u16 where "X52_BLINK_OFF \<equiv> 0x50"

section \<open>Indicator bits\<close>

abbreviation (input) X52_FLAG_IS_PRO :: nat where "X52_FLAG_IS_PRO \<equiv> 0"

text \<open>
  The indicators of the update mask, one per bit. The bits of the LEDs are the codes of
  \<open>libx52_led_id\<close>, the green component one above the red one.
\<close>

datatype x52_bit =
  X52_BIT_SHIFT | X52_BIT_LED_FIRE | X52_BIT_LED_A_RED | X52_BIT_LED_A_GREEN
| X52_BIT_LED_B_RED | X52_BIT_LED_B_GREEN | X52_BIT_LED_D_RED | X52_BIT_LED_D_GREEN
| X52_BIT_LED_E_RED | X52_BIT_LED_E_GREEN | X52_BIT_LED_T1_RED | X52_BIT_LED_T1_GREEN
| X52_BIT_LED_T2_RED | X52_BIT_LED_T2_GREEN | X52_BIT_LED_T3_RED | X52_BIT_LED_T3_GREEN
| X52_BIT_LED_POV_RED | X52_BIT_LED_POV_GREEN | X52_BIT_LED_I_RED | X52_BIT_LED_I_GREEN
| X52_BIT_LED_THROTTLE | X52_BIT_MFD_LINE1 | X52_BIT_MFD_LINE2 | X52_BIT_MFD_LINE3
| X52_BIT_POV_BLINK | X52_BIT_BRI_MFD | X52_BIT_BRI_LED | X52_BIT_MFD_DATE
| X52_BIT_MFD_TIME | X52_BIT_MFD_OFFS1 | X52_BIT_MFD_OFFS2

fun bit_no :: "x52_bit \<Rightarrow> nat" where
  "bit_no X52_BIT_SHIFT = 0"
| "bit_no X52_BIT_LED_FIRE = 1"
| "bit_no X52_BIT_LED_A_RED = 2"
| "bit_no X52_BIT_LED_A_GREEN = 3"
| "bit_no X52_BIT_LED_B_RED = 4"
| "bit_no X52_BIT_LED_B_GREEN = 5"
| "bit_no X52_BIT_LED_D_RED = 6"
| "bit_no X52_BIT_LED_D_GREEN = 7"
| "bit_no X52_BIT_LED_E_RED = 8"
| "bit_no X52_BIT_LED_E_GREEN = 9"
| "bit_no X52_BIT_LED_T1_RED = 10"
| "bit_no X52_BIT_LED_T1_GREEN = 11"
| "bit_no X52_BIT_LED_T2_RED = 12"
| "bit_no X52_BIT_LED_T2_GREEN = 13"
| "bit_no X52_BIT_LED_T3_RED = 14"
| "bit_no X52_BIT_LED_T3_GREEN = 15"
| "bit_no X52_BIT_LED_POV_RED = 16"
| "bit_no X52_BIT_LED_POV_GREEN = 17"
| "bit_no X52_BIT_LED_I_RED = 18"
| "bit_no X52_BIT_LED_I_GREEN = 19"
| "bit_no X52_BIT_LED_THROTTLE = 20"
| "bit_no X52_BIT_MFD_LINE1 = 21"
| "bit_no X52_BIT_MFD_LINE2 = 22"
| "bit_no X52_BIT_MFD_LINE3 = 23"
| "bit_no X52_BIT_POV_BLINK = 24"
| "bit_no X52_BIT_BRI_MFD = 25"
| "bit_no X52_BIT_BRI_LED = 26"
| "bit_no X52_BIT_MFD_DATE = 27"
| "bit_no X52_BIT_MFD_TIME = 28"
| "bit_no X52_BIT_MFD_OFFS1 = 29"
| "bit_no X52_BIT_MFD_OFFS2 = 30"

text \<open>
  \<open>set_bit\<close>, \<open>clr_bit\<close> and \<open>tst_bit\<close>. The shifted constant is a 64-bit \<open>1UL\<close>; the result
  is stored back into 32 bits, so a bit number from 32 to 63 leaves the mask unchanged, as
  it does here, where \<open>push_bit\<close> on a 32-bit word gives 0.
\<close>

definition x52_set_bit :: "u32 \<Rightarrow> nat \<Rightarrow> u32" where
  "x52_set_bit value b = value OR push_bit b 1"

definition x52_clr_bit :: "u32 \<Rightarrow> nat \<Rightarrow> u32" where
  "x52_clr_bit value b = value AND NOT (push_bit b 1)"

definition x52_tst_bit :: "u32 \<Rightarrow> nat \<Rightarrow> bool" where
  "x52_tst_bit value b \<longleftrightarrow> value AND push_bit b 1 \<noteq> 0"

lemma x52_tst_bit_iff [x52_bit_simps]: "x52_tst_bit v b \<longleftrightarrow> bit v b"
  by (simp add: x52_tst_bit_def bit_iff_and_push_bit_not_eq_0)

lemma bit_x52_set_bit [x52_bit_simps]:
  "bit (x52_set_bit v b) n \<longleftrightarrow> bit v n \<or> (n = b \<and> n < 32)"
  by (auto simp: x52_set_bit_def bit_simps)

lemma bit_x52_clr_bit [x52_bit_simps]: "bit (x52_clr_bit v b) n \<longleftrightarrow> bit v n \<and> n \<noteq> b"
  by (auto simp: x52_clr_bit_def bit_simps dest: bit_imp_le_length)

lemma u32_eqI: "(\<And>n. n < 32 \<Longrightarrow> bit v n = bit w n) \<Longrightarrow> v = w" for v w :: u32
  by (rule bit_word_eqI) simp

section \<open>String representations\<close>

text \<open>
  gettext is not part of the repository: \<open>tr\<close> is the translation that \<open>dgettext\<close> applies.
  The \<open>STRINGIFY\<close> macro: a table lookup, else the formatted fallback in a buffer of 256
  bytes.
\<close>

definition stringify :: "(string \<Rightarrow> string) \<Rightarrow> int \<Rightarrow> string \<Rightarrow> string list \<Rightarrow> int \<Rightarrow> string" where
  "stringify tr max_id errstr desc param =
     (if 0 \<le> param \<and> param \<le> max_id then tr (desc ! nat param)
      else snprintf_d 256 (tr errstr) param)"

definition libx52_clock_id_to_str :: "(string \<Rightarrow> string) \<Rightarrow> int \<Rightarrow> string" where
  "libx52_clock_id_to_str tr = stringify tr (clock_id_code LIBX52_CLOCK_3)
     ''Unknown clock ID %d'' [''primary'', ''secondary'', ''tertiary'']"

definition libx52_clock_format_to_str :: "(string \<Rightarrow> string) \<Rightarrow> int \<Rightarrow> string" where
  "libx52_clock_format_to_str tr = stringify tr (clock_format_code LIBX52_CLOCK_FORMAT_24HR)
     ''Unknown clock format %d'' [''12 hour'', ''24 hour'']"

definition libx52_date_format_to_str :: "(string \<Rightarrow> string) \<Rightarrow> int \<Rightarrow> string" where
  "libx52_date_format_to_str tr = stringify tr (date_format_code LIBX52_DATE_FORMAT_YYMMDD)
     ''Unknown date format %d'' [''DD-MM-YY'', ''MM-DD-YY'', ''YY-MM-DD'']"

definition libx52_led_state_to_str :: "(string \<Rightarrow> string) \<Rightarrow> int \<Rightarrow> string" where
  "libx52_led_state_to_str tr = stringify tr (led_state_code LIBX52_LED_STATE_GREEN)
     ''Unknown LED state %d'' [''off'', ''on'', ''red'', ''amber'', ''green'']"

definition libx52_led_id_to_str :: "(string \<Rightarrow> string) \<Rightarrow> int \<Rightarrow> string" where
  "libx52_led_id_to_str tr n = (case led_id_of n of
     Some LIBX52_LED_FIRE \<Rightarrow> tr ''Fire''
   | Some LIBX52_LED_A \<Rightarrow> tr ''A''
   | Some LIBX52_LED_B \<Rightarrow> tr ''B''
   | Some LIBX52_LED_D \<Rightarrow> tr ''D''
   | Some LIBX52_LED_E \<Rightarrow> tr ''E''
   | Some LIBX52_LED_T1 \<Rightarrow> tr ''T1''
   | Some LIBX52_LED_T2 \<Rightarrow> tr ''T2''
   | Some LIBX52_LED_T3 \<Rightarrow> tr ''T3''
   | Some LIBX52_LED_POV \<Rightarrow> tr ''POV''
   | Some LIBX52_LED_CLUTCH \<Rightarrow> tr ''Clutch''
   | Some LIBX52_LED_THROTTLE \<Rightarrow> tr ''Throttle''
   | None \<Rightarrow> snprintf_d 256 (tr ''Unknown LED ID %d'') n)"

definition error_string :: "string list" where
  "error_string = [''Success'', ''Initialization failure'', ''Insufficient memory'',
     ''Invalid parameter'', ''Operation not supported'', ''Try again'',
     ''Input parameter out of range'', ''USB transaction failure'',
     ''USB input/output error'', ''Access denied'', ''No such device'',
     ''Entity not found'', ''Resource busy'', ''Operation timeout'', ''Overflow'',
     ''Pipe error'', ''System call interrupted'']"

definition libx52_strerror :: "(string \<Rightarrow> string) \<Rightarrow> int \<Rightarrow> string" where
  "libx52_strerror tr n = (case error_of n of
     Some _ \<Rightarrow> tr (error_string ! nat n)
   | None \<Rightarrow> snprintf_d 256 (tr ''Unknown error %d'') n)"

text \<open>Every error code indexes the table of error strings, and different codes have
  different strings.\<close>

lemma error_code_indexes: "nat (error_code e) < length error_string"
  by (cases e) (simp_all add: error_string_def)

lemma libx52_strerror_inj:
  assumes "inj tr" and "libx52_strerror tr (error_code e) = libx52_strerror tr (error_code f)"
  shows "e = f"
proof -
  have "tr (error_string ! nat (error_code e)) = tr (error_string ! nat (error_code f))"
    using assms(2) by (simp add: libx52_strerror_def error.enum_of_code)
  then have "error_string ! nat (error_code e) = error_string ! nat (error_code f)"
    using assms(1) by (simp add: inj_eq)
  moreover have "distinct error_string" by (simp add: error_string_def)
  ultimately have "nat (error_code e) = nat (error_code f)"
    using error_code_indexes by (simp add: nth_eq_iff_index_eq)
  moreover have "0 \<le> error_code e" "0 \<le> error_code f" by (cases e; simp) (cases f; simp)
  ultimately show ?thesis by (simp add: error.code_inj)
qed

end
