(* ===== verification/Libx52_Device.thy ===== *)
theory Libx52_Device
  imports Libx52_Types
begin

text \<open>
  The device record of libx52 (\<open>struct libx52_device\<close> in \<open>x52_common.h\<close>) and the operations
  that prepare an update: text, LEDs, brightness, shift and blink (\<open>x52_mfd_led.c\<close>), clock,
  time zones, formats and date (\<open>x52_date_time.c\<close>), and \<open>libx52_check_feature\<close>
  (\<open>x52_core.c\<close>). An operation stores the new value and marks the indicator in the update
  mask; nothing is sent before \<open>libx52_update\<close>.

  A device pointer is a \<open>libx52_device option\<close>, with \<open>None\<close> for \<open>NULL\<close>; an operation returns
  its error code and the device. The contract these operations share is in
  \<open>Libx52_Contract\<close>.
\<close>

section \<open>The device record\<close>

record x52_mfd_line =
  mfd_text :: "u8 list"
  mfd_length :: u8

record libx52_device =
  ctx :: nat
  hdl :: "nat option"
  update_mask :: u32
  flags :: u32
  led_mask :: u32
  mfd_brightness :: u16
  led_brightness :: u16
  line :: "x52_mfd_line list"
  date_format :: int
  date_day :: int
  date_month :: int
  date_year :: int
  time_hour :: int
  time_minute :: int
  timezone :: "int list"
  time_format :: "int list"
  hotplug_handle :: int
  handle_registered :: bool

abbreviation (input) X52_MFD_LINE_SIZE :: nat where "X52_MFD_LINE_SIZE \<equiv> 16"
abbreviation (input) X52_MFD_LINES :: nat where "X52_MFD_LINES \<equiv> 3"
abbreviation (input) X52_MFD_CLOCKS :: nat where "X52_MFD_CLOCKS \<equiv> 3"

text \<open>The device that \<open>calloc\<close> returns.\<close>

definition x52_calloc :: libx52_device where
  "x52_calloc = \<lparr>ctx = 0, hdl = None, update_mask = 0, flags = 0, led_mask = 0,
     mfd_brightness = 0, led_brightness = 0,
     line = replicate X52_MFD_LINES \<lparr>mfd_text = replicate X52_MFD_LINE_SIZE 0, mfd_length = 0\<rparr>,
     date_format = 0, date_day = 0, date_month = 0, date_year = 0,
     time_hour = 0, time_minute = 0,
     timezone = replicate X52_MFD_CLOCKS 0, time_format = replicate X52_MFD_CLOCKS 0,
     hotplug_handle = 0, handle_registered = False\<rparr>"

definition mark :: "nat \<Rightarrow> libx52_device \<Rightarrow> libx52_device" where
  "mark b d = d\<lparr>update_mask := x52_set_bit (update_mask d) b\<rparr>"

text \<open>\<open>if (!x52) return LIBX52_ERROR_INVALID_PARAM\<close>, at the head of every operation.\<close>

definition with_dev ::
  "(libx52_device \<Rightarrow> libx52_error_code \<times> libx52_device) \<Rightarrow>
   libx52_device option \<Rightarrow> libx52_error_code \<times> libx52_device option" where
  "with_dev f x52 = (case x52 of
     None \<Rightarrow> (LIBX52_ERROR_INVALID_PARAM, None)
   | Some d \<Rightarrow> (let (rc, d') = f d in (rc, Some d')))"

lemma with_dev_None [simp]: "with_dev f None = (LIBX52_ERROR_INVALID_PARAM, None)"
  by (simp add: with_dev_def)

lemma with_dev_Some [simp]: "with_dev f (Some d) = (fst (f d), Some (snd (f d)))"
  by (simp add: with_dev_def split_beta)

section \<open>MFD text, LEDs and brightness\<close>

text \<open>
  \<open>text\<close> points into memory: byte \<open>i\<close> is \<open>t i\<close>. The caller's buffer has at least
  \<open>min length 16\<close> bytes.
\<close>

definition set_text_dev :: "u8 \<Rightarrow> (nat \<Rightarrow> u8) \<Rightarrow> u8 \<Rightarrow> libx52_device \<Rightarrow> libx52_error_code \<times> libx52_device" where
  "set_text_dev ln t len d =
     (if 2 < ln then (LIBX52_ERROR_INVALID_PARAM, d)
      else let len' = (if 16 < len then 16 else len);
               n = unat len';
               buf = map t [0..<n] @ replicate (X52_MFD_LINE_SIZE - n) 0x20;
               d' = d\<lparr>line := (line d)[unat ln := \<lparr>mfd_text = buf, mfd_length = len'\<rparr>]\<rparr>
           in (LIBX52_SUCCESS, mark (bit_no X52_BIT_MFD_LINE1 + unat ln) d'))"

definition libx52_set_text ::
  "libx52_device option \<Rightarrow> u8 \<Rightarrow> (nat \<Rightarrow> u8) option \<Rightarrow> u8 \<Rightarrow> libx52_error_code \<times> libx52_device option" where
  "libx52_set_text x52 ln txt len = (case txt of
     None \<Rightarrow> (LIBX52_ERROR_INVALID_PARAM, x52)
   | Some t \<Rightarrow> with_dev (set_text_dev ln t len) x52)"

definition led_bits :: "nat \<Rightarrow> bool \<Rightarrow> bool \<Rightarrow> libx52_device \<Rightarrow> libx52_device" where
  "led_bits led red green d = d\<lparr>led_mask :=
     (if green then x52_set_bit else x52_clr_bit)
       ((if red then x52_set_bit else x52_clr_bit) (led_mask d) led) (led + 1)\<rparr>"

definition x52pro_set_led_state :: "int \<Rightarrow> int \<Rightarrow> libx52_device \<Rightarrow> libx52_error_code \<times> libx52_device" where
  "x52pro_set_led_state led state d = (case led_id_of led of
     None \<Rightarrow> (LIBX52_ERROR_INVALID_PARAM, d)
   | Some lid \<Rightarrow>
      let b = nat led in
      if lid = LIBX52_LED_FIRE \<or> lid = LIBX52_LED_THROTTLE then
        (if state = led_state_code LIBX52_LED_STATE_OFF then
           (LIBX52_SUCCESS, mark b (d\<lparr>led_mask := x52_clr_bit (led_mask d) b\<rparr>))
         else if state = led_state_code LIBX52_LED_STATE_ON then
           (LIBX52_SUCCESS, mark b (d\<lparr>led_mask := x52_set_bit (led_mask d) b\<rparr>))
         else (LIBX52_ERROR_NOT_SUPPORTED, d))
      else
        (case led_state_of state of
           Some LIBX52_LED_STATE_OFF \<Rightarrow>
             (LIBX52_SUCCESS, mark (b + 1) (mark b (led_bits b False False d)))
         | Some LIBX52_LED_STATE_RED \<Rightarrow>
             (LIBX52_SUCCESS, mark (b + 1) (mark b (led_bits b True False d)))
         | Some LIBX52_LED_STATE_AMBER \<Rightarrow>
             (LIBX52_SUCCESS, mark (b + 1) (mark b (led_bits b True True d)))
         | Some LIBX52_LED_STATE_GREEN \<Rightarrow>
             (LIBX52_SUCCESS, mark (b + 1) (mark b (led_bits b False True d)))
         | Some LIBX52_LED_STATE_ON \<Rightarrow> (LIBX52_ERROR_NOT_SUPPORTED, d)
         | None \<Rightarrow> (LIBX52_ERROR_INVALID_PARAM, d)))"

definition check_feature_dev :: "int \<Rightarrow> libx52_device \<Rightarrow> libx52_error_code" where
  "check_feature_dev feature d = (case feature_of feature of
     Some LIBX52_FEATURE_LED \<Rightarrow>
       if x52_tst_bit (flags d) X52_FLAG_IS_PRO then LIBX52_SUCCESS
       else LIBX52_ERROR_NOT_SUPPORTED
   | None \<Rightarrow> LIBX52_ERROR_INVALID_PARAM)"

definition libx52_check_feature :: "libx52_device option \<Rightarrow> int \<Rightarrow> libx52_error_code" where
  "libx52_check_feature x52 feature = (case x52 of
     None \<Rightarrow> LIBX52_ERROR_INVALID_PARAM
   | Some d \<Rightarrow> check_feature_dev feature d)"

definition set_led_state_dev :: "int \<Rightarrow> int \<Rightarrow> libx52_device \<Rightarrow> libx52_error_code \<times> libx52_device" where
  "set_led_state_dev led state d =
     (let rc = check_feature_dev (feature_code LIBX52_FEATURE_LED) d in
      if rc = LIBX52_SUCCESS then x52pro_set_led_state led state d else (rc, d))"

definition libx52_set_led_state ::
  "libx52_device option \<Rightarrow> int \<Rightarrow> int \<Rightarrow> libx52_error_code \<times> libx52_device option" where
  "libx52_set_led_state x52 led state = with_dev (set_led_state_dev led state) x52"

definition set_brightness_dev :: "u8 \<Rightarrow> u16 \<Rightarrow> libx52_device \<Rightarrow> libx52_error_code \<times> libx52_device" where
  "set_brightness_dev mfd brightness d =
     (LIBX52_SUCCESS,
      if mfd \<noteq> 0 then mark (bit_no X52_BIT_BRI_MFD) (d\<lparr>mfd_brightness := brightness\<rparr>)
      else mark (bit_no X52_BIT_BRI_LED) (d\<lparr>led_brightness := brightness\<rparr>))"

definition libx52_set_brightness ::
  "libx52_device option \<Rightarrow> u8 \<Rightarrow> u16 \<Rightarrow> libx52_error_code \<times> libx52_device option" where
  "libx52_set_brightness x52 mfd brightness = with_dev (set_brightness_dev mfd brightness) x52"

definition set_shift_dev :: "u8 \<Rightarrow> libx52_device \<Rightarrow> libx52_error_code \<times> libx52_device" where
  "set_shift_dev state d =
     (LIBX52_SUCCESS, mark (bit_no X52_BIT_SHIFT)
        (d\<lparr>led_mask := (if state \<noteq> 0 then x52_set_bit else x52_clr_bit) (led_mask d)
                         (bit_no X52_BIT_SHIFT)\<rparr>))"

definition libx52_set_shift ::
  "libx52_device option \<Rightarrow> u8 \<Rightarrow> libx52_error_code \<times> libx52_device option" where
  "libx52_set_shift x52 state = with_dev (set_shift_dev state) x52"

definition set_blink_dev :: "u8 \<Rightarrow> libx52_device \<Rightarrow> libx52_error_code \<times> libx52_device" where
  "set_blink_dev state d =
     (LIBX52_SUCCESS, mark (bit_no X52_BIT_POV_BLINK)
        (d\<lparr>led_mask := (if state \<noteq> 0 then x52_set_bit else x52_clr_bit) (led_mask d)
                         (bit_no X52_BIT_POV_BLINK)\<rparr>))"

definition libx52_set_blink ::
  "libx52_device option \<Rightarrow> u8 \<Rightarrow> libx52_error_code \<times> libx52_device option" where
  "libx52_set_blink x52 state = with_dev (set_blink_dev state) x52"

section \<open>Clock, time zones and date\<close>

text \<open>
  The broken-down time of the C library. The conversions \<open>localtime_r\<close> and \<open>gmtime_r\<close>
  depend on the system's time zone data: they are the fields of a \<open>clock_env\<close>, \<open>None\<close> being
  the \<open>NULL\<close> they return when the time cannot be represented. \<open>have_gmtoff\<close> is the build
  option \<open>HAVE_STRUCT_TM_TM_GMTOFF\<close>; without it the offset is read back from \<open>strftime\<close>'s
  \<open>%z\<close>.
\<close>

record tm =
  tm_min :: int
  tm_hour :: int
  tm_mday :: int
  tm_mon :: int
  tm_year :: int
  tm_gmtoff :: int

record clock_env =
  localtime_r :: "int \<Rightarrow> tm option"
  gmtime_r :: "int \<Rightarrow> tm option"
  have_gmtoff :: bool
  strftime_z :: "tm \<Rightarrow> string"

definition x52_compute_gmtoff :: "string \<Rightarrow> int" where
  "x52_compute_gmtoff buf =
     (if length buf \<noteq> 5 then 0
      else let digit = (\<lambda>i. c_char (buf ! i) - c_char (CHR ''0''));
               offset = 600 * digit 1 + 60 * digit 2 + 10 * digit 3 + digit 4
           in if buf ! 0 = CHR ''-'' then - offset
              else if buf ! 0 \<noteq> CHR ''+'' then 0
              else offset)"

definition set_time_dev :: "u8 \<Rightarrow> u8 \<Rightarrow> libx52_device \<Rightarrow> libx52_error_code \<times> libx52_device" where
  "set_time_dev hour minute d =
     (LIBX52_SUCCESS,
      mark (bit_no X52_BIT_MFD_TIME) (d\<lparr>time_hour := uint hour, time_minute := uint minute\<rparr>))"

definition libx52_set_time ::
  "libx52_device option \<Rightarrow> u8 \<Rightarrow> u8 \<Rightarrow> libx52_error_code \<times> libx52_device option" where
  "libx52_set_time x52 hour minute = with_dev (set_time_dev hour minute) x52"

definition set_date_dev :: "u8 \<Rightarrow> u8 \<Rightarrow> u8 \<Rightarrow> libx52_device \<Rightarrow> libx52_error_code \<times> libx52_device" where
  "set_date_dev dd mm yy d =
     (LIBX52_SUCCESS,
      mark (bit_no X52_BIT_MFD_DATE)
        (d\<lparr>date_day := uint dd, date_month := uint mm, date_year := uint yy\<rparr>))"

definition libx52_set_date ::
  "libx52_device option \<Rightarrow> u8 \<Rightarrow> u8 \<Rightarrow> u8 \<Rightarrow> libx52_error_code \<times> libx52_device option" where
  "libx52_set_date x52 dd mm yy = with_dev (set_date_dev dd mm yy) x52"

text \<open>
  The offset in minutes that \<open>libx52_set_clock\<close> derives from the converted time, and its
  three comparisons, in order; each returns whether an update is required.
\<close>

definition local_tz_of :: "clock_env \<Rightarrow> tm \<Rightarrow> int" where
  "local_tz_of env t =
     (if have_gmtoff env then c_int (c_div (tm_gmtoff t) 60)
      else x52_compute_gmtoff (strftime_z env t))"

definition clock_update_date :: "tm \<Rightarrow> libx52_device \<Rightarrow> bool \<times> libx52_device" where
  "clock_update_date t d =
     (let dd = tm_mday t; mm = tm_mon t + 1; yy = c_mod (tm_year t) 100 in
      if date_day d \<noteq> dd \<or> date_month d \<noteq> mm \<or> date_year d \<noteq> yy then
        (True, snd (set_date_dev (word_of_int dd) (word_of_int mm) (word_of_int yy) d))
      else (False, d))"

definition clock_update_time :: "tm \<Rightarrow> libx52_device \<Rightarrow> bool \<times> libx52_device" where
  "clock_update_time t d =
     (let hh = tm_hour t; mi = tm_min t in
      if time_hour d \<noteq> hh \<or> time_minute d \<noteq> mi then
        (True, snd (set_time_dev (word_of_int hh) (word_of_int mi) d))
      else (False, d))"

definition clock_update_zone :: "int \<Rightarrow> libx52_device \<Rightarrow> bool \<times> libx52_device" where
  "clock_update_zone tz d =
     (let changed = (timezone d ! 0 \<noteq> tz);
          d' = (if changed then mark (bit_no X52_BIT_MFD_OFFS2) (mark (bit_no X52_BIT_MFD_OFFS1) d)
                else d)
      in (changed, d'\<lparr>timezone := (timezone d')[0 := tz]\<rparr>))"

definition set_clock_dev :: "clock_env \<Rightarrow> int \<Rightarrow> int \<Rightarrow> libx52_device \<Rightarrow> libx52_error_code \<times> libx52_device" where
  "set_clock_dev env time lcl d =
     (case (if lcl \<noteq> 0 then localtime_r env time else gmtime_r env time) of
        None \<Rightarrow> (LIBX52_ERROR_OUT_OF_RANGE, d)
      | Some t \<Rightarrow>
         let local_tz = (if lcl \<noteq> 0 then local_tz_of env t else 0);
             (u1, d1) = clock_update_date t d;
             (u2, d2) = clock_update_time t d1;
             (u3, d3) = clock_update_zone local_tz d2
         in (if u1 \<or> u2 \<or> u3 then LIBX52_SUCCESS else LIBX52_ERROR_TRY_AGAIN, d3))"

definition libx52_set_clock ::
  "clock_env \<Rightarrow> libx52_device option \<Rightarrow> int \<Rightarrow> int \<Rightarrow> libx52_error_code \<times> libx52_device option" where
  "libx52_set_clock env x52 time lcl = with_dev (set_clock_dev env time lcl) x52"

definition set_clock_timezone_dev :: "int \<Rightarrow> int \<Rightarrow> libx52_device \<Rightarrow> libx52_error_code \<times> libx52_device" where
  "set_clock_timezone_dev clock offset d =
     (if offset < -1440 \<or> offset > 1440 then (LIBX52_ERROR_OUT_OF_RANGE, d)
      else (case clock_id_of clock of
        Some LIBX52_CLOCK_2 \<Rightarrow>
          (LIBX52_SUCCESS,
           mark (bit_no X52_BIT_MFD_OFFS1) (d\<lparr>timezone := (timezone d)[nat clock := offset]\<rparr>))
      | Some LIBX52_CLOCK_3 \<Rightarrow>
          (LIBX52_SUCCESS,
           mark (bit_no X52_BIT_MFD_OFFS2) (d\<lparr>timezone := (timezone d)[nat clock := offset]\<rparr>))
      | Some LIBX52_CLOCK_1 \<Rightarrow> (LIBX52_ERROR_NOT_SUPPORTED, d)
      | None \<Rightarrow> (LIBX52_ERROR_INVALID_PARAM, d)))"

definition libx52_set_clock_timezone ::
  "libx52_device option \<Rightarrow> int \<Rightarrow> int \<Rightarrow> libx52_error_code \<times> libx52_device option" where
  "libx52_set_clock_timezone x52 clock offset = with_dev (set_clock_timezone_dev clock offset) x52"

definition set_clock_format_dev :: "int \<Rightarrow> int \<Rightarrow> libx52_device \<Rightarrow> libx52_error_code \<times> libx52_device" where
  "set_clock_format_dev clock format d =
     (if format \<noteq> clock_format_code LIBX52_CLOCK_FORMAT_12HR
         \<and> format \<noteq> clock_format_code LIBX52_CLOCK_FORMAT_24HR
      then (LIBX52_ERROR_INVALID_PARAM, d)
      else (case clock_id_of clock of
        None \<Rightarrow> (LIBX52_ERROR_INVALID_PARAM, d)
      | Some c \<Rightarrow>
          let b = (case c of LIBX52_CLOCK_1 \<Rightarrow> bit_no X52_BIT_MFD_TIME
                           | LIBX52_CLOCK_2 \<Rightarrow> bit_no X52_BIT_MFD_OFFS1
                           | LIBX52_CLOCK_3 \<Rightarrow> bit_no X52_BIT_MFD_OFFS2);
              d' = mark b d
          in (LIBX52_SUCCESS, d'\<lparr>time_format := (time_format d')[nat clock := format]\<rparr>)))"

definition libx52_set_clock_format ::
  "libx52_device option \<Rightarrow> int \<Rightarrow> int \<Rightarrow> libx52_error_code \<times> libx52_device option" where
  "libx52_set_clock_format x52 clock format = with_dev (set_clock_format_dev clock format) x52"

definition set_date_format_dev :: "int \<Rightarrow> libx52_device \<Rightarrow> libx52_error_code \<times> libx52_device" where
  "set_date_format_dev format d =
     (LIBX52_SUCCESS, mark (bit_no X52_BIT_MFD_DATE) (d\<lparr>date_format := format\<rparr>))"

definition libx52_set_date_format ::
  "libx52_device option \<Rightarrow> int \<Rightarrow> libx52_error_code \<times> libx52_device option" where
  "libx52_set_date_format x52 format = with_dev (set_date_format_dev format) x52"

section \<open>Well-formed devices\<close>

definition line_wf :: "x52_mfd_line \<Rightarrow> bool" where
  "line_wf l \<longleftrightarrow> length (mfd_text l) = X52_MFD_LINE_SIZE \<and> unat (mfd_length l) \<le> X52_MFD_LINE_SIZE"

text \<open>
  The sizes of the arrays, the lengths of the lines, and the value ranges that the
  operations enforce: a byte for the parts of date and time, one day either way for the
  zones of clocks 2 and 3, an enumerator for the clock formats.
\<close>

definition byte_range :: "int \<Rightarrow> bool" where
  "byte_range n \<longleftrightarrow> 0 \<le> n \<and> n < 256"

definition dev_wf :: "libx52_device \<Rightarrow> bool" where
  "dev_wf d \<longleftrightarrow>
     length (line d) = X52_MFD_LINES \<and> (\<forall>l \<in> set (line d). line_wf l)
   \<and> length (timezone d) = X52_MFD_CLOCKS
   \<and> \<bar>timezone d ! 1\<bar> \<le> 1440 \<and> \<bar>timezone d ! 2\<bar> \<le> 1440
   \<and> length (time_format d) = X52_MFD_CLOCKS
   \<and> (\<forall>f \<in> set (time_format d). f \<in> range clock_format_code)
   \<and> byte_range (date_day d) \<and> byte_range (date_month d) \<and> byte_range (date_year d)
   \<and> byte_range (time_hour d) \<and> byte_range (time_minute d)"

lemma byte_range_uint [simp]: "byte_range (uint w)" for w :: u8
  using uint_lt2p [of w] by (simp add: byte_range_def)

lemma range_clock_format_code: "range clock_format_code = {0, 1}"
proof -
  have "UNIV = {LIBX52_CLOCK_FORMAT_12HR, LIBX52_CLOCK_FORMAT_24HR}"
    using libx52_clock_format.exhaust by auto
  then have "range clock_format_code =
      clock_format_code ` {LIBX52_CLOCK_FORMAT_12HR, LIBX52_CLOCK_FORMAT_24HR}" by simp
  then show ?thesis by simp
qed

lemma dev_wf_calloc: "dev_wf x52_calloc"
  by (auto simp: dev_wf_def x52_calloc_def line_wf_def byte_range_def range_clock_format_code)

end
