(* ===== verification/Libusb_Interface.thy ===== *)
theory Libusb_Interface
  imports Libx52_Types
begin

text \<open>
  libusb as the sources use it. The library is not part of the repository: a value of type
  \<open>'w libusb\<close> is one implementation of its functions over a world \<open>'w\<close>, and every definition
  that calls libusb takes it as an argument. Handles, devices and contexts are numbers.

  \<open>libusb_free_device_list\<close> takes a list pointer that the caller may not have initialised;
  \<open>None\<close> is that indeterminate pointer. Handling events returns the hotplug events that are
  due, as pairs of a context and whether the device left; the caller's callback runs on each.

  The locale \<open>usb_log\<close> says what an observer of the device sees: a log of the vendor commands
  that the device has accepted.
\<close>

record 'w libusb =
  control_transfer ::
    "nat \<Rightarrow> u8 \<Rightarrow> u8 \<Rightarrow> u16 \<Rightarrow> u16 \<Rightarrow> u8 list option \<Rightarrow> nat \<Rightarrow> nat \<Rightarrow> 'w \<Rightarrow> libusb_error \<times> 'w"
  usb_close :: "nat \<Rightarrow> 'w \<Rightarrow> 'w"
  get_device_list :: "nat \<Rightarrow> 'w \<Rightarrow> (libusb_error + nat list) \<times> 'w"
  free_device_list :: "nat list option \<Rightarrow> 'w \<Rightarrow> 'w"
  get_device_descriptor :: "nat \<Rightarrow> 'w \<Rightarrow> (libusb_error + u16 \<times> u16) \<times> 'w"
  usb_open :: "nat \<Rightarrow> 'w \<Rightarrow> (libusb_error + nat) \<times> 'w"
  has_hotplug :: "'w \<Rightarrow> bool"
  hotplug_register :: "nat \<Rightarrow> u16 \<Rightarrow> u16 \<Rightarrow> 'w \<Rightarrow> libusb_error \<times> int \<times> 'w"
  kernel_driver_active :: "nat \<Rightarrow> nat \<Rightarrow> 'w \<Rightarrow> int \<times> 'w"
  handle_events :: "nat \<Rightarrow> 'w \<Rightarrow> (nat \<times> bool) list \<times> 'w"
  usb_init :: "'w \<Rightarrow> (libusb_error + nat) \<times> 'w"
  usb_exit :: "nat \<Rightarrow> 'w \<Rightarrow> 'w"
  set_log_level :: "nat \<Rightarrow> nat \<Rightarrow> 'w \<Rightarrow> 'w"

text \<open>
  The parts of a vendor request that never vary: \<open>LIBUSB_REQUEST_TYPE_VENDOR |
  LIBUSB_RECIPIENT_DEVICE | LIBUSB_ENDPOINT_OUT\<close> is \<open>0x40 | 0x00 | 0x00\<close> in the USB
  specification.
\<close>

abbreviation (input) VENDOR_OUT :: u8 where "VENDOR_OUT \<equiv> 0x40"

type_synonym vendor_cmd = "u16 \<times> u16"

locale usb_log =
  fixes U :: "'w libusb" and log :: "'w \<Rightarrow> vendor_cmd list"
  assumes accepted: "control_transfer U h VENDOR_OUT X52_VENDOR_REQUEST v ix None 0 t w = (LIBUSB_SUCCESS, w')
      \<Longrightarrow> log w' = log w @ [(ix, v)]"
    and refused: "control_transfer U h VENDOR_OUT X52_VENDOR_REQUEST v ix None 0 t w = (rc, w')
      \<Longrightarrow> rc \<noteq> LIBUSB_SUCCESS \<Longrightarrow> log w' = log w"
    and closed: "log (usb_close U h w) = log w"

text \<open>Any implementation of libusb, with the accepted commands recorded beside its world.\<close>

definition lift_w :: "('w \<Rightarrow> 'a \<times> 'w) \<Rightarrow> 'w \<times> 'l \<Rightarrow> 'a \<times> ('w \<times> 'l)" where
  "lift_w f wl = (let (r, w') = f (fst wl) in (r, (w', snd wl)))"

definition logged :: "'w libusb \<Rightarrow> ('w \<times> vendor_cmd list) libusb" where
  "logged U = \<lparr>
     control_transfer = (\<lambda>h rt rq v ix dat len t wl.
       let (rc, w') = control_transfer U h rt rq v ix dat len t (fst wl)
       in (rc, (w', if rc = LIBUSB_SUCCESS then snd wl @ [(ix, v)] else snd wl))),
     usb_close = (\<lambda>h wl. (usb_close U h (fst wl), snd wl)),
     get_device_list = (\<lambda>c. lift_w (get_device_list U c)),
     free_device_list = (\<lambda>l wl. (free_device_list U l (fst wl), snd wl)),
     get_device_descriptor = (\<lambda>dv. lift_w (get_device_descriptor U dv)),
     usb_open = (\<lambda>dv. lift_w (usb_open U dv)),
     has_hotplug = (\<lambda>wl. has_hotplug U (fst wl)),
     hotplug_register = (\<lambda>c v p wl. let (rc, n, w') = hotplug_register U c v p (fst wl)
                                   in (rc, n, (w', snd wl))),
     kernel_driver_active = (\<lambda>h i. lift_w (kernel_driver_active U h i)),
     handle_events = (\<lambda>c. lift_w (handle_events U c)),
     usb_init = lift_w (usb_init U),
     usb_exit = (\<lambda>c wl. (usb_exit U c (fst wl), snd wl)),
     set_log_level = (\<lambda>c n wl. (set_log_level U c n (fst wl), snd wl))\<rparr>"

interpretation logged: usb_log "logged U" snd for U
  by unfold_locales (auto simp: logged_def Let_def split: prod.splits)

end
