(* ===== verification/Libx52_Control.thy ===== *)
theory Libx52_Control
  imports Libx52_Device Libusb_Interface
begin

text \<open>
  Sending the prepared values to the joystick (\<open>libx52/x52_control.c\<close>): the vendor command
  with its retries, one handler per kind of indicator, the handler table and
  \<open>libx52_update\<close>; also \<open>libx52_disconnect\<close> (\<open>x52_core.c\<close>), which a vendor command calls when
  the joystick is gone.

  The specification is \<open>packets\<close>: the vendor commands that show the current value of an
  indicator, as a function of the device record. Each handler is proved to send them until
  one fails; \<open>libx52_update\<close> is proved to send those of the marked indicators in order, and to
  keep exactly the unfinished ones marked.
\<close>

section \<open>Vendor commands\<close>

definition disconnect_dev :: "'w libusb \<Rightarrow> libx52_device \<Rightarrow> 'w \<Rightarrow> libx52_device \<times> 'w" where
  "disconnect_dev U d w = (case hdl d of
     None \<Rightarrow> (d, w)
   | Some h \<Rightarrow> (d\<lparr>hdl := None, flags := 0, handle_registered := False\<rparr>, usb_close U h w))"

definition libx52_disconnect ::
  "'w libusb \<Rightarrow> libx52_device option \<Rightarrow> 'w \<Rightarrow> libx52_error_code \<times> libx52_device option \<times> 'w" where
  "libx52_disconnect U dev w = (case dev of
     None \<Rightarrow> (LIBX52_ERROR_INVALID_PARAM, None, w)
   | Some d \<Rightarrow> (let (d', w') = disconnect_dev U d w in (LIBX52_SUCCESS, Some d', w')))"

text \<open>The retry loop: up to \<open>n\<close> more transfers, \<open>rc\<close> being the code of the last one.\<close>

fun transfer_retry ::
  "'w libusb \<Rightarrow> nat \<Rightarrow> nat \<Rightarrow> u16 \<Rightarrow> u16 \<Rightarrow> libusb_error \<Rightarrow> 'w \<Rightarrow> libusb_error \<times> 'w" where
  "transfer_retry U 0 h index value rc w = (rc, w)"
| "transfer_retry U (Suc n) h index value rc w =
     (let (rc', w') = control_transfer U h VENDOR_OUT X52_VENDOR_REQUEST value index None 0 5000 w
      in if rc' = LIBUSB_SUCCESS then (rc', w')
         else transfer_retry U n h index value rc' w')"

definition libx52_vendor_command ::
  "'w libusb \<Rightarrow> u16 \<Rightarrow> u16 \<Rightarrow> libx52_device \<Rightarrow> 'w \<Rightarrow> libx52_error_code \<times> libx52_device \<times> 'w" where
  "libx52_vendor_command U index value d w = (case hdl d of
     None \<Rightarrow> (LIBX52_ERROR_NO_DEVICE, d, w)
   | Some h \<Rightarrow>
      let (rc, w1) = transfer_retry U 3 h index value LIBUSB_SUCCESS w;
          (d2, w2) = (if rc = LIBUSB_ERROR_NO_DEVICE then disconnect_dev U d w1 else (d, w1))
      in (x52_translate_libusb_error rc, d2, w2))"

section \<open>Handlers\<close>

type_synonym 'w handler =
  "nat \<Rightarrow> libx52_device \<Rightarrow> 'w \<Rightarrow> libx52_error_code \<times> libx52_device \<times> 'w"

definition x52_write_shift :: "'w libusb \<Rightarrow> 'w handler" where
  "x52_write_shift U b d w =
     libx52_vendor_command U X52_SHIFT_INDICATOR
       (if x52_tst_bit (led_mask d) (bit_no X52_BIT_SHIFT) then X52_SHIFT_ON else X52_SHIFT_OFF) d w"

definition x52_write_led :: "'w libusb \<Rightarrow> 'w handler" where
  "x52_write_led U b d w =
     libx52_vendor_command U X52_LED
       ((if x52_tst_bit (led_mask d) b then 1 else 0) OR push_bit 8 (of_nat b)) d w"

definition line_index_map :: "u16 list" where
  "line_index_map = [X52_MFD_LINE1, X52_MFD_LINE2, X52_MFD_LINE3]"

definition line_word :: "x52_mfd_line \<Rightarrow> nat \<Rightarrow> u16" where
  "line_word l i = push_bit 8 (ucast (mfd_text l ! (i + 1))) OR ucast (mfd_text l ! i)"

text \<open>The loop over the characters runs through the even indices below the length.\<close>

fun write_line_loop :: "'w libusb \<Rightarrow> nat \<Rightarrow> nat list \<Rightarrow> 'w handler" where
  "write_line_loop U li [] b d w = (LIBX52_SUCCESS, d, w)"
| "write_line_loop U li (i # is) b d w =
     (let (rc, d', w') = libx52_vendor_command U (line_index_map ! li OR X52_MFD_WRITE_LINE)
                           (line_word (line d ! li) i) d w
      in if rc \<noteq> LIBX52_SUCCESS then (rc, d', w') else write_line_loop U li is b d' w')"

definition line_indices :: "u8 \<Rightarrow> nat list" where
  "line_indices len = filter even [0..<unat len]"

definition x52_write_line :: "'w libusb \<Rightarrow> 'w handler" where
  "x52_write_line U b d w =
     (let li = b - bit_no X52_BIT_MFD_LINE1;
          (rc, d', w') = libx52_vendor_command U (line_index_map ! li OR X52_MFD_CLEAR_LINE) 0 d w
      in if rc \<noteq> LIBX52_SUCCESS then (rc, d', w')
         else write_line_loop U li (line_indices (mfd_length (line d' ! li))) b d' w')"

definition x52_write_pov_blink :: "'w libusb \<Rightarrow> 'w handler" where
  "x52_write_pov_blink U b d w =
     libx52_vendor_command U X52_BLINK_INDICATOR
       (if x52_tst_bit (led_mask d) (bit_no X52_BIT_POV_BLINK) then X52_BLINK_ON else X52_BLINK_OFF) d w"

definition x52_write_brightness :: "'w libusb \<Rightarrow> 'w handler" where
  "x52_write_brightness U b d w =
     (if b = bit_no X52_BIT_BRI_MFD
      then libx52_vendor_command U X52_MFD_BRIGHTNESS (mfd_brightness d) d w
      else libx52_vendor_command U X52_LED_BRIGHTNESS (led_brightness d) d w)"

definition date_values :: "libx52_device \<Rightarrow> (u16 \<times> u16) option" where
  "date_values d = (case date_format_of (date_format d) of
     Some LIBX52_DATE_FORMAT_YYMMDD \<Rightarrow>
       Some (word_of_int (push_bit 8 (date_month d) OR date_year d), word_of_int (date_day d))
   | Some LIBX52_DATE_FORMAT_MMDDYY \<Rightarrow>
       Some (word_of_int (push_bit 8 (date_day d) OR date_month d), word_of_int (date_year d))
   | Some LIBX52_DATE_FORMAT_DDMMYY \<Rightarrow>
       Some (word_of_int (push_bit 8 (date_month d) OR date_day d), word_of_int (date_year d))
   | None \<Rightarrow> None)"

definition x52_write_date :: "'w libusb \<Rightarrow> 'w handler" where
  "x52_write_date U b d w = (case date_values d of
     None \<Rightarrow> (LIBX52_ERROR_INVALID_PARAM, d, w)
   | Some (value1, value2) \<Rightarrow>
      let (rc, d', w') = libx52_vendor_command U X52_DATE_DDMM value1 d w
      in if rc = LIBX52_SUCCESS then libx52_vendor_command U X52_DATE_YEAR value2 d' w'
         else (rc, d', w'))"

text \<open>\<open>while (offset > 1023) offset -= 1440\<close>\<close>

function offset_reduce :: "int \<Rightarrow> int" where
  "offset_reduce offset = (if 1023 < offset then offset_reduce (offset - 1440) else offset)"
  by pat_completeness auto
termination
  by (relation "measure nat") auto

declare offset_reduce.simps [simp del]

definition x52_calculate_clock_offset :: "libx52_device \<Rightarrow> libx52_clock_id \<Rightarrow> int \<Rightarrow> u16" where
  "x52_calculate_clock_offset d clock h24 =
     (let offset0 = timezone d ! nat (clock_id_code clock)
                    - timezone d ! nat (clock_id_code LIBX52_CLOCK_1);
          negative0 = offset0 < 0;
          offset1 = offset_reduce \<bar>offset0\<bar>;
          negative = (if offset1 < 0 then \<not> negative0 else negative0);
          offset = \<bar>offset1\<bar>
      in word_of_int (push_bit 15 h24 OR push_bit 10 (of_bool negative) OR (offset AND 0x3FF)))"

definition x52_write_time :: "'w libusb \<Rightarrow> 'w handler" where
  "x52_write_time U b d w =
     (let sel = (if b = bit_no X52_BIT_MFD_TIME then Some (LIBX52_CLOCK_1, X52_TIME_CLOCK1)
                 else if b = bit_no X52_BIT_MFD_OFFS1 then Some (LIBX52_CLOCK_2, X52_OFFS_CLOCK2)
                 else if b = bit_no X52_BIT_MFD_OFFS2 then Some (LIBX52_CLOCK_3, X52_OFFS_CLOCK3)
                 else None)
      in case sel of
           None \<Rightarrow> (LIBX52_ERROR_INVALID_PARAM, d, w)
         | Some (clock, index) \<Rightarrow>
            let h24 = of_bool (time_format d ! nat (clock_id_code clock) \<noteq> 0);
                value = (if clock \<noteq> LIBX52_CLOCK_1 then x52_calculate_clock_offset d clock h24
                         else word_of_int (push_bit 15 h24 OR push_bit 8 (time_hour d AND 0x7F)
                                           OR (time_minute d AND 0xFF)))
            in libx52_vendor_command U index value d w)"

text \<open>The handler table; the last entry of the array of 32 is \<open>NULL\<close>.\<close>

definition x52_handlers :: "'w libusb \<Rightarrow> 'w handler option list" where
  "x52_handlers U =
     [Some (x52_write_shift U)]
     @ replicate 20 (Some (x52_write_led U))
     @ replicate 3 (Some (x52_write_line U))
     @ [Some (x52_write_pov_blink U)]
     @ replicate 2 (Some (x52_write_brightness U))
     @ [Some (x52_write_date U)]
     @ replicate 3 (Some (x52_write_time U))
     @ [None]"

section \<open>Update\<close>

fun update_loop ::
  "'w libusb \<Rightarrow> nat list \<Rightarrow> u32 \<Rightarrow> libx52_error_code \<Rightarrow> libx52_device \<Rightarrow> 'w \<Rightarrow>
   libx52_error_code \<times> libx52_device \<times> 'w" where
  "update_loop U [] um rc d w = (rc, d, w)"
| "update_loop U (i # is) um rc d w =
     (if x52_tst_bit um i then
        let (rc', d', w') = (case x52_handlers U ! i of
                               None \<Rightarrow> (LIBX52_SUCCESS, d, w)
                             | Some handler \<Rightarrow> handler i d w)
        in if rc' = LIBX52_SUCCESS then update_loop U is (x52_clr_bit um i) rc' d' w'
           else (rc', d'\<lparr>update_mask := um\<rparr>, w')
      else update_loop U is um rc d w)"

definition libx52_update ::
  "'w libusb \<Rightarrow> libx52_device \<Rightarrow> 'w \<Rightarrow> libx52_error_code \<times> libx52_device \<times> 'w" where
  "libx52_update U d w = (case hdl d of
     None \<Rightarrow> (LIBX52_ERROR_NO_DEVICE, d, w)
   | Some h \<Rightarrow>
      update_loop U [0..<32] (update_mask d) LIBX52_SUCCESS (d\<lparr>update_mask := 0\<rparr>) w)"

end
