(* ===== verification/Libusbx52_Stub.thy ===== *)
theory Libusbx52_Stub
  imports Libusb_Interface
begin

text \<open>
  The repository's own libusb for tests (\<open>libusbx52/usb_x52_stub.c\<close>, \<open>fopen_env.c\<close>): devices
  come from a text file of vendor and product numbers, and everything sent to a handle is
  recorded in an output file. It is a value of \<open>'w libusb\<close> over \<open>stub_world\<close>, on which the
  development runs libx52 on concrete inputs. One handle at a time is open on an output file.

  Pointers are indices: a context and a handle index the lists of the world, a device the list
  of all devices. Freed contexts and handles become \<open>None\<close>; using one, or freeing an
  uninitialised list, sets \<open>stub_undef\<close>, which stands for undefined behaviour. \<open>calloc\<close> fails
  as \<open>stub_calloc\<close> says: its head is the outcome of the next call, and calls beyond its end
  succeed. The lines of the output file are constructors with the printed values.
\<close>

section \<open>The state of the stub\<close>

datatype stub_line =
    TransferLine u8 u8 u16 u16 nat
  | DataLine nat "u8 list"
  | OpenLine u16 u16 nat int
  | CloseLine u16 u16 nat int

record stub_device =
  sd_context :: nat
  sd_index :: nat
  sd_ref_count :: int
  sd_vendor :: u16
  sd_product :: u16

record stub_context =
  sc_debug_level :: nat
  sc_devices :: "nat list"

record stub_handle =
  sh_ctx :: nat
  sh_dev :: nat
  sh_file :: string

record stub_world =
  stub_env :: "string \<Rightarrow> string option"
  stub_inputs :: "string \<Rightarrow> string option"
  stub_writable :: "string \<Rightarrow> bool"
  stub_outputs :: "string \<Rightarrow> stub_line list"
  stub_devices :: "stub_device list"
  stub_contexts :: "stub_context option list"
  stub_handles :: "stub_handle option list"
  stub_calloc :: "bool list"
  stub_undef :: bool

definition fopen_env :: "(string \<Rightarrow> string option) \<Rightarrow> string \<Rightarrow> string \<Rightarrow> string" where
  "fopen_env env name env_default = (case env name of
     None \<Rightarrow> env_default
   | Some filename \<Rightarrow> if filename = [] then env_default else filename)"

abbreviation (input) INPUT_DEVICE_LIST_ENV :: string where
  "INPUT_DEVICE_LIST_ENV \<equiv> ''LIBUSBX52_DEVICE_LIST''"
abbreviation (input) DEFAULT_INPUT_DEVICE_LIST_FILE :: string where
  "DEFAULT_INPUT_DEVICE_LIST_FILE \<equiv> ''/tmp/libusbx52_device_list''"
abbreviation (input) OUTPUT_DATA_FILE_ENV :: string where
  "OUTPUT_DATA_FILE_ENV \<equiv> ''LIBUSBX52_OUTPUT_DATA''"
abbreviation (input) DEFAULT_OUTPUT_DATA_FILE :: string where
  "DEFAULT_OUTPUT_DATA_FILE \<equiv> ''/tmp/libusbx52_output_data''"

definition calloc_ok :: "stub_world \<Rightarrow> bool \<times> stub_world" where
  "calloc_ok w = (case stub_calloc w of
     [] \<Rightarrow> (True, w)
   | ok # oks \<Rightarrow> (ok, w\<lparr>stub_calloc := oks\<rparr>))"

section \<open>Reading the device list\<close>

definition hex_val :: "char \<Rightarrow> nat option" where
  "hex_val c = (let n = (of_char c :: nat) in
     if 48 \<le> n \<and> n \<le> 57 then Some (n - 48)
     else if 97 \<le> n \<and> n \<le> 102 then Some (n - 87)
     else if 65 \<le> n \<and> n \<le> 70 then Some (n - 55)
     else None)"

fun scan_digits :: "nat \<Rightarrow> string \<Rightarrow> nat \<times> string" where
  "scan_digits acc [] = (acc, [])"
| "scan_digits acc (c # cs) = (case hex_val c of
     None \<Rightarrow> (acc, c # cs)
   | Some v \<Rightarrow> scan_digits (16 * acc + v) cs)"

text \<open>The directive \<open>%x\<close>: white space, a sign, the prefix \<open>0x\<close>, at least one digit.\<close>

definition scan_sign :: "string \<Rightarrow> bool \<times> string" where
  "scan_sign s = (case s of
     [] \<Rightarrow> (False, [])
   | c # cs \<Rightarrow> if c = CHR ''-'' then (True, cs) else if c = CHR ''+'' then (False, cs)
              else (False, c # cs))"

definition skip_0x :: "string \<Rightarrow> string" where
  "skip_0x s = (case s of
     c # d # cs \<Rightarrow> if c = CHR ''0'' \<and> (d = CHR ''x'' \<or> d = CHR ''X'') then cs else s
   | _ \<Rightarrow> s)"

definition scan_x :: "string \<Rightarrow> (u32 \<times> string) option" where
  "scan_x s =
     (let (neg, s2) = scan_sign (dropWhile isspace s);
          s3 = skip_0x s2
      in case s3 of
           [] \<Rightarrow> None
         | c # cs \<Rightarrow> if hex_val c = None then None
                    else let (v, rest) = scan_digits 0 s3
                         in Some (if neg then - of_nat v else of_nat v, rest))"

text \<open>\<open>fscanf(dev_list, "%x %x", &vid, &pid) == 2\<close>, and the loop that reads while it holds.\<close>

definition fscanf_xx :: "string \<Rightarrow> ((u32 \<times> u32) \<times> string) option" where
  "fscanf_xx s = (case scan_x s of
     None \<Rightarrow> None
   | Some (vid, s1) \<Rightarrow> (case scan_x s1 of
        None \<Rightarrow> None
      | Some (pid, s2) \<Rightarrow> Some ((vid, pid), s2)))"

lemma scan_digits_length: "length (snd (scan_digits acc s)) \<le> length s"
proof (induction s arbitrary: acc)
  case (Cons c cs)
  then show ?case by (auto split: option.splits intro: le_SucI)
qed simp

lemma scan_sign_length: "length (snd (scan_sign s)) \<le> length s"
  by (cases s) (simp_all add: scan_sign_def)

lemma scan_x_length: "scan_x s = Some (v, rest) \<Longrightarrow> length rest < length s"
proof -
  assume a: "scan_x s = Some (v, rest)"
  obtain neg s2 where s2: "scan_sign (dropWhile isspace s) = (neg, s2)" by fastforce
  from a s2 obtain c cs where s3: "skip_0x s2 = c # cs" "hex_val c \<noteq> None"
    and r: "rest = snd (scan_digits 0 (c # cs))"
    by (auto simp: scan_x_def Let_def split_beta split: list.splits if_splits)
  from s3 r have "length rest \<le> length cs"
    using scan_digits_length [of "the (hex_val c)" cs] by auto
  moreover have "length (c # cs) \<le> length s2"
    unfolding s3(1) [symmetric] by (auto simp: skip_0x_def split: list.splits)
  moreover have "length s2 \<le> length (dropWhile isspace s)"
    using scan_sign_length [of "dropWhile isspace s"] s2 by simp
  moreover have "length (dropWhile isspace s) \<le> length s" by (rule length_dropWhile_le)
  ultimately show "length rest < length s" by simp
qed

function scan_pairs :: "string \<Rightarrow> (u32 \<times> u32) list" where
  "scan_pairs s = (case fscanf_xx s of
     None \<Rightarrow> []
   | Some (p, rest) \<Rightarrow> p # scan_pairs rest)"
  by pat_completeness auto
termination
  by (relation "measure length")
     (auto simp: fscanf_xx_def split: option.splits dest!: scan_x_length)

declare scan_pairs.simps [simp del]

section \<open>Contexts and the device list\<close>

definition stub_undefined :: "stub_world \<Rightarrow> stub_world" where
  "stub_undefined w = w\<lparr>stub_undef := True\<rparr>"

definition lookup_opt :: "'a option list \<Rightarrow> nat \<Rightarrow> 'a option" where
  "lookup_opt xs i = (if i < length xs then xs ! i else None)"

definition stub_exit :: "nat \<Rightarrow> stub_world \<Rightarrow> stub_world" where
  "stub_exit c w = (case lookup_opt (stub_contexts w) c of
     None \<Rightarrow> stub_undefined w
   | Some _ \<Rightarrow> w\<lparr>stub_contexts := (stub_contexts w)[c := None]\<rparr>)"

text \<open>
  The file is read twice, once to count the devices and once to fill in their numbers. Both
  passes read the same pairs, so the second never meets a parse error.
\<close>

definition stub_init :: "stub_world \<Rightarrow> (libusb_error + nat) \<times> stub_world" where
  "stub_init w0 =
     (let (ok, w) = calloc_ok w0 in
      if \<not> ok then (Inl LIBUSB_ERROR_NO_MEM, w)
      else (case stub_inputs w (fopen_env (stub_env w) INPUT_DEVICE_LIST_ENV DEFAULT_INPUT_DEVICE_LIST_FILE) of
        None \<Rightarrow> (Inl LIBUSB_ERROR_IO, w)
      | Some contents \<Rightarrow>
          let pairs = scan_pairs contents in
          if pairs = [] then (Inl LIBUSB_ERROR_NOT_FOUND, w)
          else
            (let (ok2, w2) = calloc_ok w in
             if \<not> ok2 then (Inl LIBUSB_ERROR_NO_MEM, w2)
             else
               (let c = length (stub_contexts w2);
                    base = length (stub_devices w2);
                    devs = map (\<lambda>(i, vid, pid). \<lparr>sd_context = c, sd_index = i, sd_ref_count = 0,
                                  sd_vendor = ucast vid, sd_product = ucast pid\<rparr>)
                             (enumerate 0 pairs)
                in (Inr c,
                    w2\<lparr>stub_devices := stub_devices w2 @ devs,
                       stub_contexts := stub_contexts w2
                         @ [Some \<lparr>sc_debug_level = 0,
                                 sc_devices = [base..<base + length devs]\<rparr>]\<rparr>)))))"

definition stub_set_debug :: "nat \<Rightarrow> nat \<Rightarrow> stub_world \<Rightarrow> stub_world" where
  "stub_set_debug c level w = (case lookup_opt (stub_contexts w) c of
     None \<Rightarrow> stub_undefined w
   | Some cx \<Rightarrow> w\<lparr>stub_contexts := (stub_contexts w)[c := Some (cx\<lparr>sc_debug_level := level\<rparr>)]\<rparr>)"

definition add_ref :: "int \<Rightarrow> nat \<Rightarrow> stub_world \<Rightarrow> stub_world" where
  "add_ref n dv w = w\<lparr>stub_devices := (stub_devices w)
     [dv := (stub_devices w ! dv)\<lparr>sd_ref_count := sd_ref_count (stub_devices w ! dv) + n\<rparr>]\<rparr>"

definition stub_get_device_list :: "nat \<Rightarrow> stub_world \<Rightarrow> (libusb_error + nat list) \<times> stub_world" where
  "stub_get_device_list c w0 = (case lookup_opt (stub_contexts w0) c of
     None \<Rightarrow> (Inl LIBUSB_ERROR_OTHER, stub_undefined w0)
   | Some cx \<Rightarrow>
      (let (ok, w) = calloc_ok w0 in
       if \<not> ok then (Inl LIBUSB_ERROR_NO_MEM, w)
       else (Inr (sc_devices cx), fold (add_ref 1) (sc_devices cx) w)))"

definition stub_free_device_list :: "nat list option \<Rightarrow> stub_world \<Rightarrow> stub_world" where
  "stub_free_device_list l w = (case l of
     None \<Rightarrow> stub_undefined w
   | Some devs \<Rightarrow> fold (add_ref (- 1)) devs w)"

definition stub_get_device_descriptor :: "nat \<Rightarrow> stub_world \<Rightarrow> (libusb_error + u16 \<times> u16) \<times> stub_world" where
  "stub_get_device_descriptor dv w =
     (Inr (sd_vendor (stub_devices w ! dv), sd_product (stub_devices w ! dv)), w)"

section \<open>Handles\<close>

text \<open>\<open>LIBUSB_DUMP_LOG_FILE\<close>, and a line in an output file.\<close>

definition stub_write :: "string \<Rightarrow> stub_line \<Rightarrow> stub_world \<Rightarrow> stub_world" where
  "stub_write f l w = w\<lparr>stub_outputs := (stub_outputs w)(f := stub_outputs w f @ [l])\<rparr>"

definition dump_log :: "stub_handle \<Rightarrow> nat \<Rightarrow> stub_line \<Rightarrow> stub_world \<Rightarrow> stub_world" where
  "dump_log h level l w = (case lookup_opt (stub_contexts w) (sh_ctx h) of
     None \<Rightarrow> stub_undefined w
   | Some cx \<Rightarrow> if sc_debug_level cx \<noteq> 0 \<and> level \<le> sc_debug_level cx
                 then stub_write (sh_file h) l w else w)"

abbreviation (input) LIBUSB_LOG_LEVEL_DEBUG :: nat where "LIBUSB_LOG_LEVEL_DEBUG \<equiv> 4"

definition stub_open :: "nat \<Rightarrow> stub_world \<Rightarrow> (libusb_error + nat) \<times> stub_world" where
  "stub_open dv w0 =
     (let (ok, w) = calloc_ok w0 in
      if \<not> ok then (Inl LIBUSB_ERROR_NO_MEM, w)
      else
        (let w1 = add_ref 1 dv w;
             dev = stub_devices w1 ! dv;
             f = fopen_env (stub_env w1) OUTPUT_DATA_FILE_ENV DEFAULT_OUTPUT_DATA_FILE;
             h = \<lparr>sh_ctx = sd_context dev, sh_dev = dv, sh_file = f\<rparr>
         in if \<not> stub_writable w1 f then (Inl LIBUSB_ERROR_IO, w1)
            else
              (let w2 = w1\<lparr>stub_outputs := (stub_outputs w1)(f := [])\<rparr>;
                   w3 = dump_log h LIBUSB_LOG_LEVEL_DEBUG
                          (OpenLine (sd_vendor dev) (sd_product dev) (sd_index dev) (sd_ref_count dev)) w2
               in (Inr (length (stub_handles w3)), w3\<lparr>stub_handles := stub_handles w3 @ [Some h]\<rparr>))))"

definition stub_close :: "nat \<Rightarrow> stub_world \<Rightarrow> stub_world" where
  "stub_close hn w = (case lookup_opt (stub_handles w) hn of
     None \<Rightarrow> stub_undefined w
   | Some h \<Rightarrow>
      (let w1 = add_ref (- 1) (sh_dev h) w;
           dev = stub_devices w1 ! sh_dev h;
           w2 = dump_log h LIBUSB_LOG_LEVEL_DEBUG
                  (CloseLine (sd_vendor dev) (sd_product dev) (sd_index dev) (sd_ref_count dev)) w1
       in w2\<lparr>stub_handles := (stub_handles w2)[hn := None]\<rparr>))"

definition stub_control_transfer ::
  "nat \<Rightarrow> u8 \<Rightarrow> u8 \<Rightarrow> u16 \<Rightarrow> u16 \<Rightarrow> u8 list option \<Rightarrow> nat \<Rightarrow> nat \<Rightarrow> stub_world \<Rightarrow> libusb_error \<times> stub_world" where
  "stub_control_transfer hn rt rq v ix data len t w = (case lookup_opt (stub_handles w) hn of
     None \<Rightarrow> (LIBUSB_SUCCESS, stub_undefined w)
   | Some h \<Rightarrow>
      (let w1 = stub_write (sh_file h) (TransferLine rt rq v ix t) w
       in (LIBUSB_SUCCESS,
           case data of None \<Rightarrow> w1
           | Some bytes \<Rightarrow> stub_write (sh_file h) (DataLine len (take len bytes)) w1)))"

definition stub_kernel_driver_active :: "nat \<Rightarrow> nat \<Rightarrow> stub_world \<Rightarrow> int \<times> stub_world" where
  "stub_kernel_driver_active hn i w = (case lookup_opt (stub_handles w) hn of
     None \<Rightarrow> (0, stub_undefined w)
   | Some h \<Rightarrow> (of_bool (0 < sd_ref_count (stub_devices w ! sh_dev h)), w))"

text \<open>
  Registering a hotplug callback succeeds and leaves the handle alone, and no event is ever
  delivered: the stub has no \<open>libusb_handle_events_timeout_completed\<close> of its own, and real
  libusb's, linked in its place, has no device of the stub to report.
\<close>

definition stub_hotplug_register :: "nat \<Rightarrow> u16 \<Rightarrow> u16 \<Rightarrow> stub_world \<Rightarrow> libusb_error \<times> int \<times> stub_world" where
  "stub_hotplug_register c v p w = (LIBUSB_SUCCESS, 0, w)"

definition stub :: "stub_world libusb" where
  "stub = \<lparr>control_transfer = stub_control_transfer, usb_close = stub_close,
     get_device_list = stub_get_device_list, free_device_list = stub_free_device_list,
     get_device_descriptor = stub_get_device_descriptor, usb_open = stub_open,
     has_hotplug = (\<lambda>w. True), hotplug_register = stub_hotplug_register,
     kernel_driver_active = stub_kernel_driver_active, handle_events = (\<lambda>c w. ([], w)),
     usb_init = stub_init, usb_exit = stub_exit, set_log_level = stub_set_debug\<rparr>"

lemma stub_simps [simp]:
  "control_transfer stub = stub_control_transfer" "usb_close stub = stub_close"
  "get_device_list stub = stub_get_device_list" "free_device_list stub = stub_free_device_list"
  "get_device_descriptor stub = stub_get_device_descriptor" "usb_open stub = stub_open"
  "has_hotplug stub = (\<lambda>w. True)" "hotplug_register stub = stub_hotplug_register"
  "kernel_driver_active stub = stub_kernel_driver_active" "handle_events stub = (\<lambda>c w. ([], w))"
  "usb_init stub = stub_init" "usb_exit stub = stub_exit" "set_log_level stub = stub_set_debug"
  by (simp_all add: stub_def)

end
