(* ===== verification/Libx52_Update.thy ===== *)
theory Libx52_Update
  imports Libx52_Control Libusbx52_Stub
begin

text \<open>
  Correctness of sending. \<open>packets\<close> specifies the vendor commands that show the current value
  of an indicator; \<open>run_cmds\<close> sends a list of commands until one fails. Each handler is
  \<open>run_cmds\<close> of its packets, and \<open>libx52_update\<close> sends the packets of the marked indicators
  in ascending order.
\<close>

section \<open>Packets of an indicator\<close>

definition line_cmds :: "nat \<Rightarrow> x52_mfd_line \<Rightarrow> vendor_cmd list" where
  "line_cmds li l =
     (line_index_map ! li OR X52_MFD_CLEAR_LINE, 0)
     # map (\<lambda>i. (line_index_map ! li OR X52_MFD_WRITE_LINE, line_word l i)) (line_indices (mfd_length l))"

definition led_cmd :: "libx52_device \<Rightarrow> nat \<Rightarrow> vendor_cmd" where
  "led_cmd d b = (X52_LED, (if bit (led_mask d) b then 1 else 0) OR push_bit 8 (of_nat b))"

definition clock1_value :: "libx52_device \<Rightarrow> u16" where
  "clock1_value d = word_of_int
     (push_bit 15 (of_bool (time_format d ! 0 \<noteq> 0)) OR push_bit 8 (time_hour d AND 0x7F)
      OR (time_minute d AND 0xFF))"

definition offset_value :: "libx52_device \<Rightarrow> libx52_clock_id \<Rightarrow> u16" where
  "offset_value d c = x52_calculate_clock_offset d c
     (of_bool (time_format d ! nat (clock_id_code c) \<noteq> 0))"

definition packets :: "libx52_device \<Rightarrow> nat \<Rightarrow> vendor_cmd list option" where
  "packets d b =
     (if b = 0 then Some [(X52_SHIFT_INDICATOR, if bit (led_mask d) 0 then X52_SHIFT_ON else X52_SHIFT_OFF)]
      else if b \<le> 20 then Some [led_cmd d b]
      else if b \<le> 23 then Some (line_cmds (b - 21) (line d ! (b - 21)))
      else if b = 24 then Some [(X52_BLINK_INDICATOR, if bit (led_mask d) 24 then X52_BLINK_ON else X52_BLINK_OFF)]
      else if b = 25 then Some [(X52_MFD_BRIGHTNESS, mfd_brightness d)]
      else if b = 26 then Some [(X52_LED_BRIGHTNESS, led_brightness d)]
      else if b = 27 then map_option (\<lambda>(v1, v2). [(X52_DATE_DDMM, v1), (X52_DATE_YEAR, v2)]) (date_values d)
      else if b = 28 then Some [(X52_TIME_CLOCK1, clock1_value d)]
      else if b = 29 then Some [(X52_OFFS_CLOCK2, offset_value d LIBX52_CLOCK_2)]
      else if b = 30 then Some [(X52_OFFS_CLOCK3, offset_value d LIBX52_CLOCK_3)]
      else Some [])"

definition cmds :: "libx52_device \<Rightarrow> nat \<Rightarrow> vendor_cmd list" where
  "cmds d b = (case packets d b of None \<Rightarrow> [] | Some cs \<Rightarrow> cs)"

fun run_cmds ::
  "'w libusb \<Rightarrow> vendor_cmd list \<Rightarrow> libx52_device \<Rightarrow> 'w \<Rightarrow> libx52_error_code \<times> libx52_device \<times> 'w" where
  "run_cmds U [] d w = (LIBX52_SUCCESS, d, w)"
| "run_cmds U (c # cs) d w =
     (let (rc, d', w') = libx52_vendor_command U (fst c) (snd c) d w
      in if rc \<noteq> LIBX52_SUCCESS then (rc, d', w') else run_cmds U cs d' w')"

section \<open>What a vendor command can change\<close>

text \<open>Nothing, or it drops the connection: the handle, the flags and the hotplug registration.\<close>

definition dropped :: "libx52_device \<Rightarrow> libx52_device" where
  "dropped d = d\<lparr>hdl := None, flags := 0, handle_registered := False\<rparr>"

definition conn_step :: "libx52_device \<Rightarrow> libx52_device \<Rightarrow> bool" where
  "conn_step d d' \<longleftrightarrow> d' = d \<or> d' = dropped d"

lemma conn_step_refl [simp]: "conn_step d d"
  by (simp add: conn_step_def)

lemma conn_step_mask: "conn_step d d' \<Longrightarrow> conn_step (d\<lparr>update_mask := m\<rparr>) (d'\<lparr>update_mask := m\<rparr>)"
  by (auto simp: conn_step_def dropped_def)

lemma disconnect_dev_step: "conn_step d (fst (disconnect_dev U d w))"
  by (simp add: disconnect_dev_def conn_step_def dropped_def split: option.splits)

lemma vendor_command_cases:
  obtains rc d' w' where "libx52_vendor_command U ix v d w = (rc, d', w')"
    and "rc = LIBX52_SUCCESS \<Longrightarrow> d' = d" and "conn_step d d'"
    and "hdl d' = (if rc = LIBX52_ERROR_NO_DEVICE then None else hdl d)"
proof (cases "hdl d")
  case None
  then have "libx52_vendor_command U ix v d w = (LIBX52_ERROR_NO_DEVICE, d, w)"
    by (simp add: libx52_vendor_command_def)
  with None show ?thesis by (intro that) auto
next
  case (Some h)
  obtain rc w1 where t: "transfer_retry U 3 h ix v LIBUSB_SUCCESS w = (rc, w1)" by fastforce
  show ?thesis
  proof (cases "rc = LIBUSB_ERROR_NO_DEVICE")
    case True
    with Some t have "libx52_vendor_command U ix v d w =
        (LIBX52_ERROR_NO_DEVICE, fst (disconnect_dev U d w1), snd (disconnect_dev U d w1))"
      by (simp add: libx52_vendor_command_def split_beta)
    then show ?thesis
      by (rule that) (auto simp: disconnect_dev_step, auto simp: disconnect_dev_def Some)
  next
    case False
    with Some t have "libx52_vendor_command U ix v d w = (x52_translate_libusb_error rc, d, w1)"
      by (simp add: libx52_vendor_command_def)
    with False show ?thesis by (intro that) auto
  qed
qed

lemma vendor_command_success:
  assumes "libx52_vendor_command U ix v d w = (LIBX52_SUCCESS, d', w')"
  shows "d' = d"
  by (rule vendor_command_cases [of U ix v d w]) (use assms in auto)

lemma run_cmds_cases:
  obtains rc d' w' where "run_cmds U cs d w = (rc, d', w')"
    and "rc = LIBX52_SUCCESS \<Longrightarrow> d' = d" and "conn_step d d'"
    and "hdl d' = (if rc = LIBX52_ERROR_NO_DEVICE then None else hdl d)"
proof (induction cs arbitrary: d w thesis)
  case Nil
  show ?case by (rule Nil) auto
next
  case (Cons c cs)
  obtain rc1 d1 w1 where v: "libx52_vendor_command U (fst c) (snd c) d w = (rc1, d1, w1)"
    and s: "rc1 = LIBX52_SUCCESS \<Longrightarrow> d1 = d" and ss: "conn_step d d1"
    and h: "hdl d1 = (if rc1 = LIBX52_ERROR_NO_DEVICE then None else hdl d)"
    by (rule vendor_command_cases [of U "fst c" "snd c" d w]) blast
  show ?case
  proof (cases "rc1 = LIBX52_SUCCESS")
    case True
    with s have "d1 = d" by simp
    with v True have "run_cmds U (c # cs) d w = run_cmds U cs d w1" by simp
    then show ?thesis using Cons.IH [of d w1] Cons.prems by metis
  next
    case False
    with v have "run_cmds U (c # cs) d w = (rc1, d1, w1)" by simp
    with False ss h show ?thesis by (intro Cons.prems) auto
  qed
qed

section \<open>Handlers send their packets\<close>

lemma run_cmds_single: "run_cmds U [(ix, v)] d w = libx52_vendor_command U ix v d w"
  by (simp add: Let_def split: prod.split)

text \<open>The first command of a list, with the device unchanged when it succeeds.\<close>

lemma run_cmds_Cons:
  "run_cmds U ((ix, v) # cs) d w =
     (let (rc, d', w') = libx52_vendor_command U ix v d w
      in if rc \<noteq> LIBX52_SUCCESS then (rc, d', w') else run_cmds U cs d w')"
  by (rule vendor_command_cases [of U ix v d w]) simp

lemma write_line_loop_run:
  "write_line_loop U li is b d w =
     run_cmds U (map (\<lambda>i. (line_index_map ! li OR X52_MFD_WRITE_LINE, line_word (line d ! li) i)) is) d w"
proof (induction "is" arbitrary: w)
  case Nil
  show ?case by simp
next
  case (Cons i "is")
  show ?case
    by (rule vendor_command_cases [of U "line_index_map ! li OR X52_MFD_WRITE_LINE"
          "line_word (line d ! li) i" d w])
       (simp add: Cons.IH)
qed

lemma write_line_run:
  "x52_write_line U b d w = run_cmds U (line_cmds (b - 21) (line d ! (b - 21))) d w"
  by (rule vendor_command_cases [of U "line_index_map ! (b - 21) OR X52_MFD_CLEAR_LINE" 0 d w])
     (simp add: x52_write_line_def line_cmds_def write_line_loop_run Let_def)

definition run_packets :: "'w libusb \<Rightarrow> nat \<Rightarrow> libx52_device \<Rightarrow> 'w \<Rightarrow> libx52_error_code \<times> libx52_device \<times> 'w" where
  "run_packets U b d w = (case packets d b of
     None \<Rightarrow> (LIBX52_ERROR_INVALID_PARAM, d, w) | Some cs \<Rightarrow> run_cmds U cs d w)"

lemma run_cmds_two:
  "run_cmds U [(i1, v1), (i2, v2)] d w =
     (let (rc, d', w') = libx52_vendor_command U i1 v1 d w
      in if rc = LIBX52_SUCCESS then libx52_vendor_command U i2 v2 d' w' else (rc, d', w'))"
  by (rule vendor_command_cases [of U i1 v1 d w])
     (simp add: run_cmds_Cons [of U i1] run_cmds_single del: run_cmds.simps(2))

lemma write_date_run: "x52_write_date U b d w = run_packets U 27 d w"
  by (cases "date_values d")
     (simp_all add: x52_write_date_def run_packets_def packets_def run_cmds_two split_beta
        del: run_cmds.simps(2))

lemma write_time_run:
  "x52_write_time U 28 d w = run_packets U 28 d w"
  "x52_write_time U 29 d w = run_packets U 29 d w"
  "x52_write_time U 30 d w = run_packets U 30 d w"
  by (simp_all add: x52_write_time_def run_packets_def packets_def clock1_value_def
        offset_value_def run_cmds_single Let_def del: run_cmds.simps(2))

text \<open>The entry of the handler table for a bit sends that bit's packets; bit 31 has none.\<close>

lemma less_32_cases:
  assumes "b < (32::nat)"
  obtains "b = 0" | "1 \<le> b" "b \<le> 20" | "21 \<le> b" "b \<le> 23" | "b = 24" | "b = 25" | "b = 26"
    | "b = 27" | "b = 28" | "b = 29" | "b = 30" | "b = 31"
  using assms by linarith

lemma handlers_nth:
  "x52_handlers U ! 0 = Some (x52_write_shift U)"
  "1 \<le> b \<Longrightarrow> b \<le> 20 \<Longrightarrow> x52_handlers U ! b = Some (x52_write_led U)"
  "21 \<le> b \<Longrightarrow> b \<le> 23 \<Longrightarrow> x52_handlers U ! b = Some (x52_write_line U)"
  "x52_handlers U ! 24 = Some (x52_write_pov_blink U)"
  "x52_handlers U ! 25 = Some (x52_write_brightness U)"
  "x52_handlers U ! 26 = Some (x52_write_brightness U)"
  "x52_handlers U ! 27 = Some (x52_write_date U)"
  "x52_handlers U ! 28 = Some (x52_write_time U)"
  "x52_handlers U ! 29 = Some (x52_write_time U)"
  "x52_handlers U ! 30 = Some (x52_write_time U)"
  "x52_handlers U ! 31 = None"
  by (auto simp: x52_handlers_def nth_append nth_Cons')

lemma handler_run:
  assumes "b < 32"
  shows "(case x52_handlers U ! b of None \<Rightarrow> (LIBX52_SUCCESS, d, w) | Some f \<Rightarrow> f b d w) =
     run_packets U b d w"
  using assms
  by (cases rule: less_32_cases)
     (simp_all add: handlers_nth run_packets_def packets_def run_cmds_single write_line_run
        x52_write_shift_def x52_write_led_def led_cmd_def x52_write_pov_blink_def
        x52_write_brightness_def x52_tst_bit_iff write_date_run [unfolded run_packets_def]
        write_time_run [unfolded run_packets_def] del: run_cmds.simps(2))

section \<open>What the joystick receives\<close>

context usb_log
begin

lemma transfer_retry_log:
  assumes "transfer_retry U n h ix v rc w = (rc', w')" and "n = 0 \<Longrightarrow> rc \<noteq> LIBUSB_SUCCESS"
  shows "log w' = log w @ (if rc' = LIBUSB_SUCCESS then [(ix, v)] else [])"
  using assms
proof (induction n arbitrary: rc w)
  case 0
  then show ?case by simp
next
  case (Suc n)
  obtain rc1 w1 where t: "control_transfer U h VENDOR_OUT X52_VENDOR_REQUEST v ix None 0 5000 w = (rc1, w1)"
    by fastforce
  show ?case
  proof (cases "rc1 = LIBUSB_SUCCESS")
    case True
    with t Suc.prems(1) accepted [of h v ix 5000 w w1] show ?thesis by auto
  next
    case False
    with t have "log w1 = log w" by (intro refused)
    moreover from False t Suc.prems(1) have "transfer_retry U n h ix v rc1 w1 = (rc', w')" by simp
    then have "log w' = log w1 @ (if rc' = LIBUSB_SUCCESS then [(ix, v)] else [])"
      using False by (intro Suc.IH)
    ultimately show ?thesis by simp
  qed
qed

lemma vendor_log:
  assumes "libx52_vendor_command U ix v d w = (rc, d', w')"
  shows "log w' = log w @ (if rc = LIBX52_SUCCESS then [(ix, v)] else [])"
proof (cases "hdl d")
  case None
  with assms show ?thesis by (simp add: libx52_vendor_command_def)
next
  case (Some h)
  obtain rc1 w1 where t: "transfer_retry U 3 h ix v LIBUSB_SUCCESS w = (rc1, w1)" by fastforce
  have l: "log w1 = log w @ (if rc1 = LIBUSB_SUCCESS then [(ix, v)] else [])"
    by (rule transfer_retry_log [OF t]) simp
  show ?thesis
  proof (cases "rc1 = LIBUSB_ERROR_NO_DEVICE")
    case True
    with assms Some t l show ?thesis
      by (auto simp: libx52_vendor_command_def disconnect_dev_def closed)
  next
    case False
    with assms Some t l show ?thesis by (auto simp: libx52_vendor_command_def)
  qed
qed

lemma run_cmds_log:
  assumes "run_cmds U cs d w = (rc, d', w')"
  shows "\<exists>k. log w' = log w @ take k cs
    \<and> (if rc = LIBX52_SUCCESS then k = length cs else k < length cs)"
  using assms
proof (induction cs arbitrary: w)
  case Nil
  then show ?case by auto
next
  case (Cons c cs)
  obtain rc1 d1 w1 where v: "libx52_vendor_command U (fst c) (snd c) d w = (rc1, d1, w1)"
    and s: "rc1 = LIBX52_SUCCESS \<Longrightarrow> d1 = d"
    by (rule vendor_command_cases [of U "fst c" "snd c" d w]) blast
  note l = vendor_log [OF v]
  show ?case
  proof (cases "rc1 = LIBX52_SUCCESS")
    case True
    with v s Cons.prems have "run_cmds U cs d w1 = (rc, d', w')" by simp
    then obtain k where "log w' = log w1 @ take k cs"
      and "if rc = LIBX52_SUCCESS then k = length cs else k < length cs"
      using Cons.IH by blast
    with l True show ?thesis by (intro exI [of _ "Suc k"]) auto
  next
    case False
    with v Cons.prems l show ?thesis by (intro exI [of _ 0]) auto
  qed
qed

lemma run_packets_log:
  assumes "run_packets U b d w = (rc, d', w')"
  shows "\<exists>k. log w' = log w @ take k (cmds d b)
    \<and> (if rc = LIBX52_SUCCESS then length (cmds d b) \<le> k \<and> packets d b \<noteq> None
       else k < length (cmds d b) \<or> packets d b = None)"
proof (cases "packets d b")
  case None
  with assms show ?thesis by (auto simp: run_packets_def cmds_def)
next
  case (Some cs)
  with assms have "run_cmds U cs d w = (rc, d', w')" by (simp add: run_packets_def)
  from run_cmds_log [OF this] obtain k where "log w' = log w @ take k cs"
    and "if rc = LIBX52_SUCCESS then k = length cs else k < length cs" by blast
  with Some show ?thesis by (intro exI [of _ k]) (simp add: cmds_def split: if_splits)
qed

end

lemma run_packets_cases:
  obtains rc d' w' where "run_packets U b d w = (rc, d', w')"
    and "rc = LIBX52_SUCCESS \<Longrightarrow> d' = d" and "conn_step d d'"
    and "hdl d' = (if rc = LIBX52_ERROR_NO_DEVICE then None else hdl d)"
proof (cases "packets d b")
  case None
  then show ?thesis by (intro that [of LIBX52_ERROR_INVALID_PARAM d w]) (auto simp: run_packets_def)
next
  case (Some cs)
  show ?thesis
    by (rule run_cmds_cases [of U cs d w]) (use Some that in \<open>auto simp: run_packets_def\<close>)
qed

text \<open>The marked indicators, in the order of the update loop.\<close>

definition marked_in :: "u32 \<Rightarrow> nat list \<Rightarrow> nat list" where
  "marked_in um is = filter (bit um) is"

definition marked :: "libx52_device \<Rightarrow> nat list" where
  "marked d = marked_in (update_mask d) [0..<32]"

text \<open>
  The indicators in the order of their bits, and the set of those that are pending. In this
  order they are the marked bits, apart from bit 31, which is no indicator.
\<close>

definition x52_bits :: "x52_bit list" where
  "x52_bits = [X52_BIT_SHIFT, X52_BIT_LED_FIRE, X52_BIT_LED_A_RED, X52_BIT_LED_A_GREEN,
     X52_BIT_LED_B_RED, X52_BIT_LED_B_GREEN, X52_BIT_LED_D_RED, X52_BIT_LED_D_GREEN,
     X52_BIT_LED_E_RED, X52_BIT_LED_E_GREEN, X52_BIT_LED_T1_RED, X52_BIT_LED_T1_GREEN,
     X52_BIT_LED_T2_RED, X52_BIT_LED_T2_GREEN, X52_BIT_LED_T3_RED, X52_BIT_LED_T3_GREEN,
     X52_BIT_LED_POV_RED, X52_BIT_LED_POV_GREEN, X52_BIT_LED_I_RED, X52_BIT_LED_I_GREEN,
     X52_BIT_LED_THROTTLE, X52_BIT_MFD_LINE1, X52_BIT_MFD_LINE2, X52_BIT_MFD_LINE3,
     X52_BIT_POV_BLINK, X52_BIT_BRI_MFD, X52_BIT_BRI_LED, X52_BIT_MFD_DATE,
     X52_BIT_MFD_TIME, X52_BIT_MFD_OFFS1, X52_BIT_MFD_OFFS2]"

lemma x52_bits: "map bit_no x52_bits = [0..<31]" "set x52_bits = UNIV"
proof -
  show "map bit_no x52_bits = [0..<31]" by (simp add: x52_bits_def upt_rec)
  have "b \<in> set x52_bits" for b by (cases b) (simp_all add: x52_bits_def)
  then show "set x52_bits = UNIV" by blast
qed

lemma bit_no_inj: "inj bit_no"
proof -
  have "distinct (map bit_no x52_bits)" by (simp add: x52_bits(1))
  then show ?thesis by (simp add: distinct_map x52_bits(2))
qed

lemma range_bit_no: "range bit_no = {..<31}"
proof -
  have "range bit_no = set (map bit_no x52_bits)" by (simp add: x52_bits(2))
  then show ?thesis by (simp add: x52_bits(1) atLeast0LessThan)
qed

lemma bit_no_less [simp]: "bit_no b < 31" "bit_no b < 32"
proof -
  have "bit_no b \<in> range bit_no" by blast
  then show "bit_no b < 31" "bit_no b < 32" by (simp_all add: range_bit_no)
qed

instantiation x52_bit :: linorder
begin

definition less_eq_x52_bit :: "x52_bit \<Rightarrow> x52_bit \<Rightarrow> bool" where
  "b \<le> c \<longleftrightarrow> bit_no b \<le> bit_no c"

definition less_x52_bit :: "x52_bit \<Rightarrow> x52_bit \<Rightarrow> bool" where
  "b < c \<longleftrightarrow> bit_no b < bit_no c"

instance
  by standard (auto simp: less_eq_x52_bit_def less_x52_bit_def injD [OF bit_no_inj])

end

instance x52_bit :: finite
proof
  show "finite (UNIV :: x52_bit set)" using finite_set [of x52_bits] by (simp add: x52_bits(2))
qed

definition pending :: "libx52_device \<Rightarrow> x52_bit set" where
  "pending d = {b. bit (update_mask d) (bit_no b)}"

lemma marked_pending: "filter (\<lambda>n. n < 31) (marked d) = map bit_no (sorted_list_of_set (pending d))"
proof (rule sorted_distinct_set_unique)
  have "mono_on A bit_no" for A by (simp add: monotone_on_def less_eq_x52_bit_def)
  then show "sorted (map bit_no (sorted_list_of_set (pending d)))" by (simp add: sorted_map_mono)
  show "distinct (map bit_no (sorted_list_of_set (pending d)))"
    by (simp add: distinct_map inj_on_subset [OF bit_no_inj])
  show "sorted (filter (\<lambda>n. n < 31) (marked d))" "distinct (filter (\<lambda>n. n < 31) (marked d))"
    by (simp_all add: marked_def marked_in_def sorted_wrt_filter)
  show "set (filter (\<lambda>n. n < 31) (marked d)) = set (map bit_no (sorted_list_of_set (pending d)))"
    using range_bit_no by (auto simp: marked_def marked_in_def pending_def)
qed

lemma concat_filtered:
  "(\<And>n. n \<in> set ns \<Longrightarrow> \<not> P n \<Longrightarrow> f n = []) \<Longrightarrow> concat (map f ns) = concat (map f (filter P ns))"
  by (induction ns) auto

lemma cmds_pending: "concat (map (cmds d) (marked d)) = concat (map (\<lambda>b. cmds d (bit_no b)) (sorted_list_of_set (pending d)))"
proof -
  have "cmds d n = []" if "n \<in> set (marked d)" "\<not> n < 31" for n
  proof -
    have "n = 31" using that by (auto simp: marked_def marked_in_def)
    then show ?thesis by (simp add: cmds_def packets_def)
  qed
  then have "concat (map (cmds d) (marked d)) = concat (map (cmds d) (filter (\<lambda>n. n < 31) (marked d)))"
    by (rule concat_filtered)
  then show ?thesis by (simp add: marked_pending comp_def)
qed

lemma marked_in_clr: "i \<notin> set is \<Longrightarrow> marked_in (x52_clr_bit um i) is = marked_in um is"
  by (auto simp: marked_in_def x52_bit_simps intro!: filter_cong)

lemma set_marked: "set (marked d) = {b. bit (update_mask d) b}"
  by (auto simp: marked_def marked_in_def dest: bit_imp_le_length)

lemma update_loop_unmarked:
  "\<not> bit um i \<Longrightarrow> update_loop U (i # is) um rc d w = update_loop U is um rc d w"
  by (simp add: x52_bit_simps)

lemma update_loop_marked:
  assumes "bit um i" and "i < 32" and "run_packets U i d w = (rc', d', w')"
  shows "update_loop U (i # is) um rc d w =
    (if rc' = LIBX52_SUCCESS then update_loop U is (x52_clr_bit um i) rc' d' w'
     else (rc', d'\<lparr>update_mask := um\<rparr>, w'))"
  using assms(1,3) handler_run [OF assms(2), where U = U and d = d and w = w] by (simp add: x52_bit_simps split_beta)

text \<open>
  The outcome of the loop over a list of bits, from the mask \<open>um\<close>: either everything marked
  was sent, or the indicators in \<open>pre\<close> were sent completely, \<open>i\<close> in part, and exactly
  \<open>pre\<close> is unmarked.
\<close>

definition loop_failed ::
  "u32 \<Rightarrow> nat list \<Rightarrow> libx52_device \<Rightarrow> libx52_error_code \<Rightarrow> libx52_device \<Rightarrow> vendor_cmd list \<Rightarrow> bool" where
  "loop_failed um is d rc d' sent \<longleftrightarrow>
     (\<exists>pre i post k. marked_in um is = pre @ i # post
        \<and> sent = concat (map (cmds d) pre) @ take k (cmds d i)
        \<and> (\<forall>b \<in> set pre. packets d b \<noteq> None)
        \<and> (k < length (cmds d i) \<or> packets d i = None)
        \<and> (\<forall>n. bit (update_mask d') n \<longleftrightarrow> bit um n \<and> n \<notin> set pre))
     \<and> conn_step (d\<lparr>update_mask := update_mask d'\<rparr>) d'
     \<and> hdl d' = (if rc = LIBX52_ERROR_NO_DEVICE then None else hdl d)"

lemma loop_failed_unmarked:
  "\<not> bit um i \<Longrightarrow> loop_failed um (i # is) d rc d' sent = loop_failed um is d rc d' sent"
  by (simp add: loop_failed_def marked_in_def)

lemma loop_failed_sent:
  assumes "loop_failed (x52_clr_bit um i) is d rc d' sent" and "bit um i" and "i \<notin> set is"
    and p: "packets d i \<noteq> None"
  shows "loop_failed um (i # is) d rc d' (cmds d i @ sent)"
proof -
  have m: "marked_in um (i # is) = i # marked_in um is" using assms(2) by (simp add: marked_in_def)
  from assms(1) obtain pre j post k
    where s: "marked_in um is = pre @ j # post"
      and snt: "sent = concat (map (cmds d) pre) @ take k (cmds d j)"
      and ps: "\<forall>b \<in> set pre. packets d b \<noteq> None"
      and k: "k < length (cmds d j) \<or> packets d j = None"
      and b: "\<forall>n. bit (update_mask d') n \<longleftrightarrow> bit (x52_clr_bit um i) n \<and> n \<notin> set pre"
      and r: "conn_step (d\<lparr>update_mask := update_mask d'\<rparr>) d'"
        "hdl d' = (if rc = LIBX52_ERROR_NO_DEVICE then None else hdl d)"
    unfolding loop_failed_def marked_in_clr [OF assms(3)] by blast
  have "\<exists>pre j post k. marked_in um (i # is) = pre @ j # post
      \<and> cmds d i @ sent = concat (map (cmds d) pre) @ take k (cmds d j)
      \<and> (\<forall>b \<in> set pre. packets d b \<noteq> None)
      \<and> (k < length (cmds d j) \<or> packets d j = None)
      \<and> (\<forall>n. bit (update_mask d') n \<longleftrightarrow> bit um n \<and> n \<notin> set pre)"
    by (rule exI [of _ "i # pre"], rule exI [of _ j], rule exI [of _ post], rule exI [of _ k])
       (use m s snt ps p k b in \<open>auto simp: x52_bit_simps\<close>)
  with r show ?thesis by (simp add: loop_failed_def)
qed

lemma loop_failed_here:
  assumes "bit um i" and "k < length (cmds d i) \<or> packets d i = None" and "conn_step d e"
    and "hdl e = (if rc = LIBX52_ERROR_NO_DEVICE then None else hdl d)"
  shows "loop_failed um (i # is) d rc (e\<lparr>update_mask := um\<rparr>) (take k (cmds d i))"
proof -
  have "marked_in um (i # is) = [] @ i # marked_in um is" using assms(1) by (simp add: marked_in_def)
  moreover have "conn_step (d\<lparr>update_mask := um\<rparr>) (e\<lparr>update_mask := um\<rparr>)"
    using assms(3) by (rule conn_step_mask)
  ultimately show ?thesis
    using assms(2,4) unfolding loop_failed_def
    by (intro conjI exI [of _ "[]"] exI [of _ i] exI [of _ "marked_in um is"] exI [of _ k]) auto
qed

context usb_log
begin

lemma update_loop_log:
  assumes "set is \<subseteq> {..<32}" and "distinct is"
    and "update_loop U is um LIBX52_SUCCESS d w = (rc, d', w')"
  shows "\<exists>sent. log w' = log w @ sent
    \<and> (if rc = LIBX52_SUCCESS then d' = d \<and> sent = concat (map (cmds d) (marked_in um is))
         \<and> (\<forall>b \<in> set (marked_in um is). packets d b \<noteq> None)
       else loop_failed um is d rc d' sent)"
  using assms
proof (induction "is" arbitrary: um w)
  case Nil
  then show ?case by (auto simp: marked_in_def)
next
  case (Cons i "is")
  from Cons.prems have i: "i < 32" "i \<notin> set is" and sub: "set is \<subseteq> {..<32}" "distinct is" by auto
  show ?case
  proof (cases "bit um i")
    case False
    then have "marked_in um (i # is) = marked_in um is" by (simp add: marked_in_def)
    moreover from False Cons.prems(3) have "update_loop U is um LIBX52_SUCCESS d w = (rc, d', w')"
      by (simp only: update_loop_unmarked not_False_eq_True)
    from Cons.IH [OF sub this] have "\<exists>sent. log w' = log w @ sent
      \<and> (if rc = LIBX52_SUCCESS then d' = d \<and> sent = concat (map (cmds d) (marked_in um is))
         \<and> (\<forall>b \<in> set (marked_in um is). packets d b \<noteq> None)
         else loop_failed um is d rc d' sent)" .
    ultimately show ?thesis using False by (simp only: loop_failed_unmarked not_False_eq_True)
  next
    case True
    obtain rc1 d1 w1 where r: "run_packets U i d w = (rc1, d1, w1)"
      and s: "rc1 = LIBX52_SUCCESS \<Longrightarrow> d1 = d" and ss: "conn_step d d1"
      and h: "hdl d1 = (if rc1 = LIBX52_ERROR_NO_DEVICE then None else hdl d)"
      by (rule run_packets_cases [of U i d w]) blast
    obtain k where l: "log w1 = log w @ take k (cmds d i)"
      and k: "if rc1 = LIBX52_SUCCESS then length (cmds d i) \<le> k \<and> packets d i \<noteq> None
              else k < length (cmds d i) \<or> packets d i = None"
      using run_packets_log [OF r] by blast
    note step = update_loop_marked [OF True i(1) r, of "is" LIBX52_SUCCESS]
    have m: "marked_in um (i # is) = i # marked_in um is" using True by (simp add: marked_in_def)
    show ?thesis
    proof (cases "rc1 = LIBX52_SUCCESS")
      case ok: True
      with step s Cons.prems(3)
      have "update_loop U is (x52_clr_bit um i) LIBX52_SUCCESS d w1 = (rc, d', w')" by simp
      from Cons.IH [OF sub this] obtain sent where s1: "log w' = log w1 @ sent"
        and s2: "if rc = LIBX52_SUCCESS
                 then d' = d \<and> sent = concat (map (cmds d) (marked_in um is))
         \<and> (\<forall>b \<in> set (marked_in um is). packets d b \<noteq> None)
                 else loop_failed (x52_clr_bit um i) is d rc d' sent"
        unfolding marked_in_clr [OF i(2)] by blast
      have "log w' = log w @ cmds d i @ sent" using s1 l k ok by simp
      moreover have "rc \<noteq> LIBX52_SUCCESS \<Longrightarrow> loop_failed um (i # is) d rc d' (cmds d i @ sent)"
        using s2 k ok loop_failed_sent [OF _ True i(2)] by auto
      moreover have "rc = LIBX52_SUCCESS \<Longrightarrow>
          d' = d \<and> cmds d i @ sent = concat (map (cmds d) (marked_in um (i # is)))
          \<and> (\<forall>b \<in> set (marked_in um (i # is)). packets d b \<noteq> None)"
        using s2 m k ok by auto
      ultimately show ?thesis by (intro exI [of _ "cmds d i @ sent"]) auto
    next
      case bad: False
      with step Cons.prems(3) have e: "rc = rc1" "d' = d1\<lparr>update_mask := um\<rparr>" "w' = w1" by auto
      from bad k have "k < length (cmds d i) \<or> packets d i = None" by simp
      from loop_failed_here [OF True this ss h, of "is"] l e bad show ?thesis by auto
    qed
  qed
qed

end

section \<open>Update\<close>

lemma date_values_update_mask [simp]: "date_values (d\<lparr>update_mask := m\<rparr>) = date_values d"
  by (simp add: date_values_def split: option.split libx52_date_format.split)

lemma packets_update_mask [simp]: "packets (d\<lparr>update_mask := m\<rparr>) = packets d"
  by (rule ext) (simp add: packets_def led_cmd_def clock1_value_def offset_value_def
    x52_calculate_clock_offset_def)

lemma cmds_update_mask [simp]: "cmds (d\<lparr>update_mask := m\<rparr>) = cmds d"
  by (rule ext) (simp add: cmds_def)

lemma update_cases:
  assumes "hdl d = Some h" and "libx52_update (logged U) d w = (rc, d', w')"
  shows "\<exists>sent. snd w' = snd w @ sent
    \<and> (if rc = LIBX52_SUCCESS
       then d' = d\<lparr>update_mask := 0\<rparr> \<and> sent = concat (map (cmds d) (marked d))
         \<and> (\<forall>b \<in> set (marked d). packets d b \<noteq> None)
       else loop_failed (update_mask d) [0..<32] (d\<lparr>update_mask := 0\<rparr>) rc d' sent)"
proof -
  from assms have u: "update_loop (logged U) [0..<32] (update_mask d) LIBX52_SUCCESS
      (d\<lparr>update_mask := 0\<rparr>) w = (rc, d', w')"
    by (simp add: libx52_update_def)
  have r: "set [0..<32] \<subseteq> {..<32::nat}" "distinct [0..<32::nat]" by auto
  from logged.update_loop_log [OF r u] show ?thesis
    by (simp add: marked_def cong: if_cong)
qed

lemma failed_marked:
  assumes "loop_failed (update_mask d) [0..<32] (d\<lparr>update_mask := 0\<rparr>) rc d' sent"
  obtains pre i post k where "marked d = pre @ i # post" and "marked d' = i # post"
    and "sent = concat (map (cmds d) pre) @ take k (cmds d i)"
    and "\<forall>b \<in> set pre. packets d b \<noteq> None"
    and "k < length (cmds d i) \<or> packets d i = None"
    and "conn_step (d\<lparr>update_mask := update_mask d'\<rparr>) d'"
    and "hdl d' = (if rc = LIBX52_ERROR_NO_DEVICE then None else hdl d)"
proof -
  from assms obtain pre i post k
    where m: "marked d = pre @ i # post"
      and s: "sent = concat (map (cmds d) pre) @ take k (cmds d i)"
      and ps: "\<forall>b \<in> set pre. packets d b \<noteq> None"
      and k: "k < length (cmds d i) \<or> packets d i = None"
      and b: "\<And>n. bit (update_mask d') n \<longleftrightarrow> bit (update_mask d) n \<and> n \<notin> set pre"
      and c: "conn_step (d\<lparr>update_mask := update_mask d'\<rparr>) d'"
      and h: "hdl d' = (if rc = LIBX52_ERROR_NO_DEVICE then None else hdl d)"
    by (simp add: loop_failed_def marked_def cong: if_cong) blast
  have "marked d' = filter (\<lambda>n. n \<notin> set pre) (marked d)"
    by (simp add: marked_def marked_in_def b conj_commute cong: filter_cong)
  moreover have "distinct (marked d)" by (simp add: marked_def marked_in_def)
  ultimately have "marked d' = i # post"
    by (auto simp: m filter_empty_conv intro!: filter_True)
  from that [OF m this s ps k c h] show ?thesis .
qed

text \<open>
  C3: \<open>libx52_update\<close> returns success only if the joystick accepted, in ascending order of the
  indicators and each in full, the vendor commands of every indicator that is pending in the
  update mask, and nothing else; the mask is then clear and the device otherwise unchanged.
\<close>

theorem libx52_update_sends_marked:
  assumes "libx52_update (logged U) d w = (LIBX52_SUCCESS, d', w')"
  shows "snd w' = snd w @ concat (map (\<lambda>b. cmds d (bit_no b)) (sorted_list_of_set (pending d)))
    \<and> d' = d\<lparr>update_mask := 0\<rparr>"
proof (cases "hdl d")
  case None
  with assms show ?thesis by (simp add: libx52_update_def)
next
  case (Some h)
  from update_cases [OF this assms] show ?thesis by (auto simp: cmds_pending)
qed

text \<open>
  C4: when \<open>libx52_update\<close> fails on an open device, the marked indicators split into some that
  were sent in full, one whose commands were interrupted, and the rest; exactly the
  interrupted one and the rest stay marked, so no change is lost. The settings are untouched,
  and the connection is dropped exactly on a no-device error.
\<close>

theorem libx52_update_keeps_unfinished:
  assumes "libx52_update (logged U) d w = (rc, d', w')" and "rc \<noteq> LIBX52_SUCCESS" and "hdl d = Some h"
  shows "\<exists>pre i post k. marked d = pre @ i # post \<and> marked d' = i # post
    \<and> snd w' = snd w @ concat (map (cmds d) pre) @ take k (cmds d i)
    \<and> (k < length (cmds d i) \<or> packets d i = None)
    \<and> conn_step (d\<lparr>update_mask := update_mask d'\<rparr>) d'
    \<and> hdl d' = (if rc = LIBX52_ERROR_NO_DEVICE then None else Some h)"
proof -
  from update_cases [OF assms(3,1)] assms(2) obtain sent where l: "snd w' = snd w @ sent"
    and f: "loop_failed (update_mask d) [0..<32] (d\<lparr>update_mask := 0\<rparr>) rc d' sent" by auto
  from f obtain pre i post k where "marked d = pre @ i # post" "marked d' = i # post"
    "sent = concat (map (cmds d) pre) @ take k (cmds d i)"
    "k < length (cmds d i) \<or> packets d i = None"
    "conn_step (d\<lparr>update_mask := update_mask d'\<rparr>) d'"
    "hdl d' = (if rc = LIBX52_ERROR_NO_DEVICE then None else hdl d)"
    by (rule failed_marked)
  with l assms(3) show ?thesis by auto
qed

text \<open>The stub with the joystick unplugged: every transfer answers that there is no device.\<close>

definition unplugged :: "stub_world libusb" where
  "unplugged = stub\<lparr>control_transfer := (\<lambda>h rt rq v ix dat len t w. (LIBUSB_ERROR_NO_DEVICE, w))\<rparr>"

definition stub_opened :: stub_world where
  "stub_opened = \<lparr>stub_env = (\<lambda>_. None), stub_inputs = (\<lambda>_. None), stub_writable = (\<lambda>_. True),
     stub_outputs = (\<lambda>_. []),
     stub_devices = [\<lparr>sd_context = 0, sd_index = 0, sd_ref_count = 1, sd_vendor = 0x06a3,
                      sd_product = 0x0762\<rparr>],
     stub_contexts = [Some \<lparr>sc_debug_level = 2, sc_devices = [0]\<rparr>],
     stub_handles = [Some \<lparr>sh_ctx = 0, sh_dev = 0, sh_file = ''out''\<rparr>],
     stub_calloc = [], stub_undef = False\<rparr>"

definition opened_dev :: libx52_device where
  "opened_dev = x52_calloc\<lparr>hdl := Some 0, flags := 1, handle_registered := True\<rparr>"

definition opened_bright :: libx52_device where
  "opened_bright = snd (set_brightness_dev 0 100 (snd (set_shift_dev 1 opened_dev)))"

lemma marked_opened_bright: "marked opened_bright = [0, 26]"
  by code_simp

lemma opened_bright_run:
  "fst (libx52_update (logged stub) opened_bright (stub_opened, [])) = LIBX52_SUCCESS"
  by code_simp

lemma opened_bright_unplugged:
  "fst (libx52_update (logged unplugged) opened_bright (stub_opened, [])) = LIBX52_ERROR_NO_DEVICE"
  by code_simp

theorem libx52_update_sends_marked_witness:
  "snd (snd (snd (libx52_update (logged stub) opened_bright (stub_opened, []))))
     = [(X52_SHIFT_INDICATOR, X52_SHIFT_ON), (X52_LED_BRIGHTNESS, 100)]"
proof -
  obtain rc d' w' where r: "libx52_update (logged stub) opened_bright (stub_opened, []) = (rc, d', w')"
    by (metis prod_cases3)
  with opened_bright_run have s: "rc = LIBX52_SUCCESS" by simp
  have "concat (map (cmds opened_bright) (marked opened_bright))
      = [(X52_SHIFT_INDICATOR, X52_SHIFT_ON), (X52_LED_BRIGHTNESS, 100)]" by code_simp
  with libx52_update_sends_marked [OF r [unfolded s]] r show ?thesis unfolding cmds_pending [symmetric] by simp
qed

theorem libx52_update_keeps_unfinished_witness:
  "marked (fst (snd (libx52_update (logged unplugged) opened_bright (stub_opened, [])))) \<noteq> []
   \<and> hdl (fst (snd (libx52_update (logged unplugged) opened_bright (stub_opened, [])))) = None"
proof -
  obtain rc d' w' where r: "libx52_update (logged unplugged) opened_bright (stub_opened, []) = (rc, d', w')"
    by (metis prod_cases3)
  with opened_bright_unplugged have s: "rc = LIBX52_ERROR_NO_DEVICE" by simp
  have h: "hdl opened_bright = Some 0" by code_simp
  from libx52_update_keeps_unfinished [OF r _ h] r s show ?thesis by auto
qed

section \<open>Success when the joystick accepts\<close>

definition accepts :: "'w libusb \<Rightarrow> bool" where
  "accepts U \<longleftrightarrow> (\<forall>h v ix w. fst (control_transfer U h VENDOR_OUT X52_VENDOR_REQUEST v ix None 0 5000 w)
     = LIBUSB_SUCCESS)"

lemma accepts_vendor:
  assumes "accepts U" and "hdl d = Some h"
  shows "fst (libx52_vendor_command U ix v d w) = LIBX52_SUCCESS"
proof -
  obtain rc w1 where "control_transfer U h VENDOR_OUT X52_VENDOR_REQUEST v ix None 0 5000 w = (rc, w1)"
    by fastforce
  with assms show ?thesis
    by (auto simp: accepts_def libx52_vendor_command_def numeral_3_eq_3 split_beta
        dest!: spec [of _ h] spec [of _ v] spec [of _ ix] spec [of _ w])
qed

lemma accepts_run_cmds:
  assumes "accepts U" and "hdl d = Some h"
  shows "fst (run_cmds U cs d w) = LIBX52_SUCCESS"
proof (induction cs arbitrary: w)
  case (Cons c cs)
  obtain rc d' w' where v: "libx52_vendor_command U (fst c) (snd c) d w = (rc, d', w')"
    and s: "rc = LIBX52_SUCCESS \<Longrightarrow> d' = d"
    by (rule vendor_command_cases [of U "fst c" "snd c" d w]) blast
  with accepts_vendor [OF assms, of "fst c" "snd c" w] show ?case by (simp add: Cons.IH)
qed simp

lemma accepts_update_loop:
  assumes "accepts U" and "hdl d = Some h" and "date_values d \<noteq> None" and "set is \<subseteq> {..<32}"
  shows "fst (update_loop U is um LIBX52_SUCCESS d w) = LIBX52_SUCCESS"
  using assms(4)
proof (induction "is" arbitrary: um w)
  case (Cons i "is")
  then have i: "i < 32" and sub: "set is \<subseteq> {..<32}" by auto
  show ?case
  proof (cases "bit um i")
    case True
    obtain rc d' w' where r: "run_packets U i d w = (rc, d', w')"
      and s: "rc = LIBX52_SUCCESS \<Longrightarrow> d' = d" by (rule run_packets_cases [of U i d w]) blast
    have "packets d i \<noteq> None" using assms(3) by (auto simp: packets_def)
    then have "fst (run_packets U i d w) = LIBX52_SUCCESS"
      using accepts_run_cmds [OF assms(1,2)] by (auto simp: run_packets_def)
    with r s update_loop_marked [OF True i r, of "is" LIBX52_SUCCESS] Cons.IH [OF sub]
    show ?thesis by simp
  qed (simp only: update_loop_unmarked Cons.IH [OF sub] not_False_eq_True)
qed simp

text \<open>
  C5: on an open joystick that accepts its vendor commands, \<open>libx52_update\<close> succeeds for every
  mask and every setting, provided the date format is one of the enumerators.
\<close>

theorem libx52_update_succeeds:
  assumes "accepts U" and "hdl d = Some h" and "date_format d \<in> range date_format_code"
  shows "fst (libx52_update U d w) = LIBX52_SUCCESS"
proof -
  have "date_format_of (date_format d) \<noteq> None"
    using assms(3) by (simp add: date_format.enum_of_None)
  then have "date_values (d\<lparr>update_mask := 0\<rparr>) \<noteq> None"
    by (auto simp: date_values_def split: option.splits libx52_date_format.splits)
  moreover have "hdl (d\<lparr>update_mask := 0\<rparr>) = Some h" using assms(2) by simp
  moreover have "set [0..<32] \<subseteq> {..<32::nat}" by auto
  ultimately show ?thesis using accepts_update_loop [OF assms(1)] assms(2)
    by (simp add: libx52_update_def)
qed

theorem libx52_update_succeeds_witness:
  "fst (libx52_update stub (opened_dev\<lparr>update_mask := 0xFFFFFFFF\<rparr>) stub_opened) = LIBX52_SUCCESS"
proof (rule libx52_update_succeeds [of stub _ 0])
  show "accepts stub"
    by (simp add: accepts_def stub_control_transfer_def Let_def split: option.split)
  show "hdl (opened_dev\<lparr>update_mask := 0xFFFFFFFF\<rparr>) = Some 0" by (simp add: opened_dev_def)
  have "date_format (opened_dev\<lparr>update_mask := 0xFFFFFFFF\<rparr>) = date_format_code LIBX52_DATE_FORMAT_DDMMYY"
    by (simp add: opened_dev_def x52_calloc_def)
  then show "date_format (opened_dev\<lparr>update_mask := 0xFFFFFFFF\<rparr>) \<in> range date_format_code" by (rule range_eqI)
qed

end
