(* ===== verification/Libx52_Core.thy ===== *)
theory Libx52_Core
  imports Libx52_Update Libusbx52_Stub
begin

text \<open>
  Finding, opening and closing the joystick (\<open>libx52/x52_core.c\<close>): the device scan, the
  hotplug callback, \<open>libx52_is_connected\<close>, \<open>libx52_connect\<close>, \<open>libx52_init\<close> and
  \<open>libx52_exit\<close>. \<open>libx52_disconnect\<close> is in \<open>Libx52_Control\<close> and \<open>libx52_check_feature\<close> in
  \<open>Libx52_Device\<close>, whose operations call them.

  The invariant \<open>conn_wf\<close> ties the feature flags to the connection: without a handle no flag
  is set and no hotplug callback is registered. \<open>connect_spec\<close> states what a scan finds.
\<close>

section \<open>Supported products\<close>

abbreviation (input) VENDOR_SAITEK :: u16 where "VENDOR_SAITEK \<equiv> 0x06a3"
abbreviation (input) X52_PROD_X52PRO :: u16 where "X52_PROD_X52PRO \<equiv> 0x0762"
abbreviation (input) X52_PROD_X52_1 :: u16 where "X52_PROD_X52_1 \<equiv> 0x0255"
abbreviation (input) X52_PROD_X52_2 :: u16 where "X52_PROD_X52_2 \<equiv> 0x075C"

definition libx52_check_product :: "u16 \<Rightarrow> u16 \<Rightarrow> bool" where
  "libx52_check_product idVendor idProduct \<longleftrightarrow>
     (if idVendor = VENDOR_SAITEK then
        idProduct = X52_PROD_X52_1 \<or> idProduct = X52_PROD_X52_2 \<or> idProduct = X52_PROD_X52PRO
      else False)"

definition libx52_device_is_x52pro :: "u16 \<Rightarrow> bool" where
  "libx52_device_is_x52pro idProduct \<longleftrightarrow> idProduct = X52_PROD_X52PRO"

section \<open>Hotplug\<close>

text \<open>
  An event is the context it is for and whether the device left. The result says whether the
  callback is to be deregistered.
\<close>

definition x52_hotplug_callback ::
  "'w libusb \<Rightarrow> nat \<times> bool \<Rightarrow> libx52_device \<Rightarrow> 'w \<Rightarrow> bool \<times> libx52_device \<times> 'w" where
  "x52_hotplug_callback U ev d w =
     (if ctx d \<noteq> fst ev then (False, d, w)
      else if snd ev then
        (let (rc, dev', w') = libx52_disconnect U (Some d) w
         in (rc = LIBX52_SUCCESS, the dev', w'))
      else (False, d, w))"

definition run_callbacks ::
  "'w libusb \<Rightarrow> (nat \<times> bool) list \<Rightarrow> libx52_device \<Rightarrow> 'w \<Rightarrow> libx52_device \<times> 'w" where
  "run_callbacks U evs d w = fold (\<lambda>ev (d, w). snd (x52_hotplug_callback U ev d w)) evs (d, w)"

definition libx52_is_connected ::
  "'w libusb \<Rightarrow> libx52_device option \<Rightarrow> 'w \<Rightarrow> bool \<times> libx52_device option \<times> 'w" where
  "libx52_is_connected U dev w = (case dev of
     None \<Rightarrow> (False, None, w)
   | Some d \<Rightarrow>
      (let (evs, w1) = handle_events U (ctx d) w;
           (d2, w2) = run_callbacks U evs d w1
       in case hdl d2 of
            None \<Rightarrow> (False, Some d2, w2)
          | Some h \<Rightarrow>
              if handle_registered d2 then (True, Some d2, w2)
              else (let (rc, w3) = kernel_driver_active U h 0 w2 in (rc = 1, Some d2, w3))))"

section \<open>Connecting\<close>

text \<open>
  The loop over the device list: \<open>Inl\<close> is the return on a failed \<open>libusb_open\<close>, \<open>Inr\<close> the
  descriptor of the device it opened, if any.
\<close>

fun connect_loop ::
  "'w libusb \<Rightarrow> nat list \<Rightarrow> libx52_device \<Rightarrow> 'w \<Rightarrow>
   (libusb_error + (u16 \<times> u16) option) \<times> libx52_device \<times> 'w" where
  "connect_loop U [] d w = (Inr None, d, w)"
| "connect_loop U (device # ds) d w =
     (case get_device_descriptor U device w of
        (Inl rc, w1) \<Rightarrow> connect_loop U ds d w1
      | (Inr (vid, pid), w1) \<Rightarrow>
          if libx52_check_product vid pid then
            (case usb_open U device w1 of
               (Inl rc, w2) \<Rightarrow> (Inl rc, d, w2)
             | (Inr h, w2) \<Rightarrow>
                 (Inr (Some (vid, pid)),
                  (if libx52_device_is_x52pro pid
                   then d\<lparr>hdl := Some h, flags := x52_set_bit (flags d) X52_FLAG_IS_PRO\<rparr>
                   else d\<lparr>hdl := Some h\<rparr>), w2))
          else connect_loop U ds d w1)"

definition register_callback ::
  "'w libusb \<Rightarrow> u16 \<times> u16 \<Rightarrow> libx52_device \<Rightarrow> 'w \<Rightarrow> libx52_device \<times> 'w" where
  "register_callback U desc d w =
     (if has_hotplug U w then
        (let (rc, n, w') = hotplug_register U (ctx d) (fst desc) (snd desc) w
         in (d\<lparr>handle_registered := (rc = LIBUSB_SUCCESS), hotplug_handle := n\<rparr>, w'))
      else (d, w))"

definition connect_dev ::
  "'w libusb \<Rightarrow> libx52_device \<Rightarrow> 'w \<Rightarrow> libx52_error_code \<times> libx52_device \<times> 'w" where
  "connect_dev U d0 w0 =
     (let (d, w1) = disconnect_dev U d0 w0;
          (lst, w2) = get_device_list U (ctx d) w1;
          devices = (case lst of Inl rc \<Rightarrow> [] | Inr ds \<Rightarrow> ds);
          list_ptr = (case lst of Inl rc \<Rightarrow> None | Inr ds \<Rightarrow> Some ds)
      in case connect_loop U devices d w2 of
           (Inl rc, d3, w3) \<Rightarrow> (x52_translate_libusb_error rc, d3, w3)
         | (Inr found, d3, w3) \<Rightarrow>
            (let w4 = free_device_list U list_ptr w3 in
             case found of
               None \<Rightarrow> (LIBX52_ERROR_NO_DEVICE, d3, w4)
             | Some desc \<Rightarrow>
                 (let (d5, w5) = register_callback U desc d3 w4 in (LIBX52_SUCCESS, d5, w5))))"

definition libx52_connect ::
  "'w libusb \<Rightarrow> libx52_device option \<Rightarrow> 'w \<Rightarrow> libx52_error_code \<times> libx52_device option \<times> 'w" where
  "libx52_connect U dev w = (case dev of
     None \<Rightarrow> (LIBX52_ERROR_INVALID_PARAM, None, w)
   | Some d \<Rightarrow> (let (rc, d', w') = connect_dev U d w in (rc, Some d', w')))"

section \<open>Creating and destroying a device\<close>

text \<open>
  \<open>ptr\<close> says whether the caller's return pointer is not \<open>NULL\<close>, \<open>alloc\<close> whether \<open>calloc\<close>
  succeeds. The device is what \<open>*dev\<close> receives. \<open>bindtextdomain\<close> only selects the message
  catalogue, a parameter of the functions that translate.
\<close>

abbreviation (input) LIBUSB_LOG_LEVEL_WARNING :: nat where "LIBUSB_LOG_LEVEL_WARNING \<equiv> 2"

definition libx52_init ::
  "'w libusb \<Rightarrow> bool \<Rightarrow> bool \<Rightarrow> 'w \<Rightarrow> libx52_error_code \<times> libx52_device option \<times> 'w" where
  "libx52_init U ptr alloc w =
     (if \<not> ptr then (LIBX52_ERROR_INVALID_PARAM, None, w)
      else if \<not> alloc then (LIBX52_ERROR_OUT_OF_MEMORY, None, w)
      else case usb_init U w of
             (Inl rc, w1) \<Rightarrow> (LIBX52_ERROR_INIT_FAILURE, None, w1)
           | (Inr c, w1) \<Rightarrow>
              (let w2 = set_log_level U c LIBUSB_LOG_LEVEL_WARNING w1;
                   (rc, d, w3) = connect_dev U (x52_calloc\<lparr>ctx := c\<rparr>) w2
               in (LIBX52_SUCCESS, Some d, w3)))"

text \<open>\<open>None\<close> is the crash of \<open>libx52_exit\<close> on \<open>NULL\<close>, which reads \<open>dev->ctx\<close>.\<close>

definition libx52_exit :: "'w libusb \<Rightarrow> libx52_device option \<Rightarrow> 'w \<Rightarrow> 'w option" where
  "libx52_exit U dev w = (case libx52_disconnect U dev w of
     (rc, None, w1) \<Rightarrow> None
   | (rc, Some d, w1) \<Rightarrow> Some (usb_exit U (ctx d) w1))"

section \<open>The connection invariant\<close>

definition conn_wf :: "libx52_device \<Rightarrow> bool" where
  "conn_wf d \<longleftrightarrow> (hdl d = None \<longrightarrow> flags d = 0 \<and> \<not> handle_registered d)"

lemma conn_wf_calloc: "conn_wf (x52_calloc\<lparr>ctx := c\<rparr>)"
  by (simp add: conn_wf_def x52_calloc_def)

lemma disconnect_dev_hdl [simp]: "hdl (fst (disconnect_dev U d w)) = None"
  by (simp add: disconnect_dev_def split: option.split)

lemma disconnect_dev_ctx [simp]: "ctx (fst (disconnect_dev U d w)) = ctx d"
  by (simp add: disconnect_dev_def split: option.split)

lemma conn_wf_disconnect: "conn_wf d \<Longrightarrow> conn_wf (fst (disconnect_dev U d w))"
  by (simp add: disconnect_dev_def conn_wf_def split: option.split)

lemma disconnect_dev_flags:
  "conn_wf d \<Longrightarrow> flags (fst (disconnect_dev U d w)) = 0"
  using conn_wf_disconnect [of d U w] by (simp add: conn_wf_def)

text \<open>\<open>libusb_open\<close> reports failure by a code other than success, as libusb documents.\<close>

definition open_reports :: "'w libusb \<Rightarrow> bool" where
  "open_reports U \<longleftrightarrow> (\<forall>dv w w'. usb_open U dv w \<noteq> (Inl LIBUSB_SUCCESS, w'))"

lemma translate_success: "x52_translate_libusb_error e = LIBX52_SUCCESS \<Longrightarrow> e = LIBUSB_SUCCESS"
  by (cases e) auto

text \<open>
  The joystick an attempt to connect goes for: the first of the listed devices whose descriptor
  can be read and is of a known product, with the world after reading it.
\<close>

fun first_joystick :: "'w libusb \<Rightarrow> nat list \<Rightarrow> 'w \<Rightarrow> (nat \<times> (u16 \<times> u16) \<times> 'w) option" where
  "first_joystick U [] w = None"
| "first_joystick U (dv # ds) w =
     (case get_device_descriptor U dv w of
        (Inr (vid, pid), w1) \<Rightarrow>
          if libx52_check_product vid pid then Some (dv, (vid, pid), w1) else first_joystick U ds w1
      | (Inl rc, w1) \<Rightarrow> first_joystick U ds w1)"

definition listed_joystick ::
  "'w libusb \<Rightarrow> libx52_device \<Rightarrow> 'w \<Rightarrow> (nat \<times> (u16 \<times> u16) \<times> 'w) option" where
  "listed_joystick U d w =
     (case get_device_list U (ctx d) (snd (disconnect_dev U d w)) of
        (Inr ds, w1) \<Rightarrow> first_joystick U ds w1
      | (Inl rc, w1) \<Rightarrow> None)"

lemma first_joystick_product:
  "first_joystick U ds w = Some (dv, (vid, pid), w1) \<Longrightarrow> libx52_check_product vid pid"
  by (induction U ds w rule: first_joystick.induct) (auto split: prod.splits sum.splits if_splits)

lemma listed_joystick_product:
  "listed_joystick U d w = Some (dv, (vid, pid), w1) \<Longrightarrow> libx52_check_product vid pid"
  using first_joystick_product by (auto simp: listed_joystick_def split: prod.splits sum.splits)

lemma connect_loop_result:
  assumes "hdl d = None" and "flags d = 0"
  shows "\<exists>w'. connect_loop U ds d w =
    (case first_joystick U ds w of
       None \<Rightarrow> (Inr None, d, w')
     | Some (dv, (vid, pid), w1) \<Rightarrow>
         (case usb_open U dv w1 of
            (Inl e, _) \<Rightarrow> (Inl e, d, w')
          | (Inr h, _) \<Rightarrow> (Inr (Some (vid, pid)),
              d\<lparr>hdl := Some h, flags := (if pid = X52_PROD_X52PRO then 1 else 0)\<rparr>, w')))"
proof (induction ds arbitrary: w)
  case (Cons dv ds)
  have f: "d\<lparr>hdl := Some h\<rparr> = d\<lparr>hdl := Some h, flags := 0\<rparr>" for h using assms(2) by (cases d) simp
  have bit: "x52_set_bit 0 X52_FLAG_IS_PRO = (1 :: u32)" by (simp add: x52_set_bit_def)
  obtain desc w1 where g: "get_device_descriptor U dv w = (desc, w1)" by (rule prod.exhaust)
  show ?case
  proof (cases "\<exists>vid pid. desc = Inr (vid, pid) \<and> libx52_check_product vid pid")
    case True
    then obtain vid pid where desc: "desc = Inr (vid, pid)" "libx52_check_product vid pid" by blast
    obtain r w2 where o: "usb_open U dv w1 = (r, w2)" by (rule prod.exhaust)
    show ?thesis
      using f bit assms(2) by (cases r) (simp_all add: g desc o libx52_device_is_x52pro_def)
  next
    case False
    with g have "connect_loop U (dv # ds) d w = connect_loop U ds d w1"
      "first_joystick U (dv # ds) w = first_joystick U ds w1"
      by (auto split: sum.splits)
    with Cons.IH [of w1] show ?thesis by simp
  qed
qed simp

text \<open>What an attempt returns and leaves.\<close>

lemma connect_dev_result:
  assumes "connect_dev U d w = (rc, d', w')" and "conn_wf d"
  shows "case listed_joystick U d w of
      None \<Rightarrow> rc = LIBX52_ERROR_NO_DEVICE \<and> hdl d' = None \<and> conn_wf d'
    | Some (dv, (vid, pid), w1) \<Rightarrow>
        (case usb_open U dv w1 of
           (Inl e, _) \<Rightarrow> rc = x52_translate_libusb_error e \<and> hdl d' = None \<and> conn_wf d'
         | (Inr h, _) \<Rightarrow> rc = LIBX52_SUCCESS \<and> hdl d' = Some h
             \<and> flags d' = (if pid = X52_PROD_X52PRO then 1 else 0))"
proof -
  obtain d0 w1 where d0: "disconnect_dev U d w = (d0, w1)" by fastforce
  have e: "hdl d0 = None" "flags d0 = 0" "conn_wf d0" "ctx d0 = ctx d"
    using conn_wf_disconnect [OF assms(2), of U w] disconnect_dev_flags [OF assms(2), of U w]
      disconnect_dev_hdl [of U d w] disconnect_dev_ctx [of U d w] by (simp_all add: d0)
  obtain lst w2 where l: "get_device_list U (ctx d) w1 = (lst, w2)" by fastforce
  let ?ds = "case lst of Inl rc \<Rightarrow> [] | Inr ds \<Rightarrow> ds"
  have listed: "listed_joystick U d w = first_joystick U ?ds w2"
    by (cases lst) (simp_all add: listed_joystick_def d0 l)
  have reg: "hdl (fst (register_callback U vp x v)) = hdl x" "flags (fst (register_callback U vp x v)) = flags x"
    for vp x v by (simp_all add: register_callback_def split: prod.split)
  obtain v where loop: "connect_loop U ?ds d0 w2 =
      (case first_joystick U ?ds w2 of
         None \<Rightarrow> (Inr None, d0, v)
       | Some (dv, (vid, pid), w1) \<Rightarrow>
           (case usb_open U dv w1 of
              (Inl e, _) \<Rightarrow> (Inl e, d0, v)
            | (Inr h, _) \<Rightarrow> (Inr (Some (vid, pid)),
                d0\<lparr>hdl := Some h, flags := (if pid = X52_PROD_X52PRO then 1 else 0)\<rparr>, v)))"
    by (rule exE [OF connect_loop_result [OF e(1,2)]])
  show ?thesis
  proof (cases "first_joystick U ?ds w2")
    case None
    with assms(1) loop e show ?thesis by (auto simp: listed connect_dev_def d0 l)
  next
    case (Some x)
    obtain dv vid pid w3 where x: "x = (dv, (vid, pid), w3)" by (metis surj_pair)
    obtain r w4 where o: "usb_open U dv w3 = (r, w4)" by (rule prod.exhaust)
    let ?d4 = "\<lambda>h. d0\<lparr>hdl := Some h, flags := (if pid = X52_PROD_X52PRO then 1 else 0)\<rparr>"
    let ?c = "\<lambda>h. register_callback U (vid, pid) (?d4 h)
        (free_device_list U (case lst of Inl rc \<Rightarrow> None | Inr ds \<Rightarrow> Some ds) v)"
    have "connect_loop U ?ds d0 w2 = (case r of Inl e \<Rightarrow> (Inl e, d0, v)
        | Inr h \<Rightarrow> (Inr (Some (vid, pid)), d0\<lparr>hdl := Some h, flags := (if pid = X52_PROD_X52PRO then 1 else 0)\<rparr>, v))"
      by (simp add: loop Some x o)
    with assms(1) have "case r of Inl err \<Rightarrow> rc = x52_translate_libusb_error err \<and> d' = d0
        | Inr h \<Rightarrow> rc = LIBX52_SUCCESS \<and> d' = fst (?c h)"
      by (cases r) (simp_all add: connect_dev_def d0 l e split: prod.splits)
    with reg e show ?thesis by (cases r) (simp_all add: listed Some x o)
  qed
qed

text \<open>
  C11: connecting succeeds exactly when it leaves the device with an open handle, whatever was
  open before. The joystick it goes for is the first listed one of a known product; without one
  the attempt fails with \<open>LIBX52_ERROR_NO_DEVICE\<close>, otherwise opening that one decides: its
  handle is what the device holds and the flags are those of its product, set for the Pro only;
  a failed attempt returns the translated error of opening and leaves the device disconnected.
\<close>

theorem libx52_connect_outcome:
  assumes "open_reports U" and "connect_dev U d w = (rc, d', w')" and "conn_wf d"
  shows "(rc = LIBX52_SUCCESS \<longleftrightarrow> hdl d' \<noteq> None) \<and> conn_wf d'
    \<and> (case listed_joystick U d w of
         None \<Rightarrow> rc = LIBX52_ERROR_NO_DEVICE
       | Some (dv, (vid, pid), w1) \<Rightarrow> libx52_check_product vid pid
           \<and> (case usb_open U dv w1 of
                (Inl e, _) \<Rightarrow> rc = x52_translate_libusb_error e \<and> flags d' = 0
              | (Inr h, _) \<Rightarrow> hdl d' = Some h \<and> flags d' = (if pid = X52_PROD_X52PRO then 1 else 0)))"
proof (cases "listed_joystick U d w")
  case None
  with connect_dev_result [OF assms(2,3)] show ?thesis by simp
next
  case (Some x)
  obtain dv vid pid w1 where x: "x = (dv, (vid, pid), w1)" by (metis surj_pair)
  have p: "libx52_check_product vid pid" by (rule listed_joystick_product [OF Some [unfolded x]])
  obtain r w2 where o: "usb_open U dv w1 = (r, w2)" by (rule prod.exhaust)
  from connect_dev_result [OF assms(2,3)]
  have res: "case r of Inl e \<Rightarrow> rc = x52_translate_libusb_error e \<and> hdl d' = None \<and> conn_wf d'
      | Inr h \<Rightarrow> rc = LIBX52_SUCCESS \<and> hdl d' = Some h \<and> flags d' = (if pid = X52_PROD_X52PRO then 1 else 0)"
    by (simp add: Some x o split: sum.splits)
  show ?thesis
  proof (cases r)
    case (Inl e)
    with o assms(1) have "e \<noteq> LIBUSB_SUCCESS" by (auto simp: open_reports_def)
    with translate_success [of e] res Inl show ?thesis by (auto simp: Some x p o conn_wf_def)
  qed (use res in \<open>simp add: Some x p o conn_wf_def\<close>)
qed

text \<open>The stub with devices attached: a device list file and nothing else yet.\<close>

definition stub_plugged :: "string \<Rightarrow> stub_world" where
  "stub_plugged contents = \<lparr>stub_env = (\<lambda>_. None),
     stub_inputs = (\<lambda>f. if f = DEFAULT_INPUT_DEVICE_LIST_FILE then Some contents else None),
     stub_writable = (\<lambda>_. True), stub_outputs = (\<lambda>_. []), stub_devices = [], stub_contexts = [],
     stub_handles = [], stub_calloc = [], stub_undef = False\<rparr>"

lemma open_reports_stub: "open_reports stub"
  by (auto simp: open_reports_def stub_open_def Let_def split: prod.splits if_splits)

definition stub_dev :: "libx52_device \<times> stub_world" where
  "stub_dev = (let (r, w) = stub_init (stub_plugged ''06a3 0255\<newline>06a3 0762\<newline>'')
     in (x52_calloc, w))"

text \<open>A Pro among the devices, after one that is no joystick; it is opened and gets the flag.\<close>

definition stub_pro :: "libx52_device \<times> stub_world" where
  "stub_pro = (let (r, w) = stub_init (stub_plugged ''06a3 0002\<newline>06a3 0762\<newline>'')
     in (x52_calloc, w))"

theorem libx52_connect_outcome_witness:
  "hdl (fst (snd (connect_dev stub (fst stub_pro) (snd stub_pro)))) = Some 0
   \<and> flags (fst (snd (connect_dev stub (fst stub_pro) (snd stub_pro)))) = 1"
proof -
  obtain rc d' w' where c: "connect_dev stub (fst stub_pro) (snd stub_pro) = (rc, d', w')"
    by (metis prod_cases3)
  have wf: "conn_wf (fst stub_pro)"
    using conn_wf_calloc [of "ctx x52_calloc"] by (simp add: stub_pro_def split: prod.split)
  have l: "map_option (\<lambda>(dv, p, w). (dv, p, fst (usb_open stub dv w))) (listed_joystick stub (fst stub_pro) (snd stub_pro))
      = Some (1, (0x06a3, 0x0762), Inr 0)" by code_simp
  then obtain dv p w1 w2 where "listed_joystick stub (fst stub_pro) (snd stub_pro) = Some (dv, p, w1)"
    "p = (0x06a3, 0x0762)" "usb_open stub dv w1 = (Inr 0, w2)" by (auto simp: prod_eq_iff)
  with libx52_connect_outcome [OF open_reports_stub c wf] show ?thesis by (simp add: c)
qed

text \<open>
  When libusb cannot list its devices, \<open>libx52_connect\<close> frees a list it never received:
  \<open>libusb_free_device_list\<close> is called with the uninitialised pointer.
\<close>

lemma libx52_connect_frees_uninitialised:
  assumes "hdl d = None" and "get_device_list U (ctx d) w = (Inl e, w')"
  shows "connect_dev U d w = (LIBX52_ERROR_NO_DEVICE, d, free_device_list U None w')"
  using assms by (simp add: connect_dev_def disconnect_dev_def)

theorem libx52_connect_frees_uninitialised_witness:
  "stub_undef (snd (snd (connect_dev stub x52_calloc ((snd stub_dev)\<lparr>stub_calloc := [False]\<rparr>))))"
proof -
  let ?w = "(snd stub_dev)\<lparr>stub_calloc := [False]\<rparr>"
  have r: "fst (get_device_list stub (ctx x52_calloc) ?w) = Inl LIBUSB_ERROR_NO_MEM" by code_simp
  obtain l w' where g: "get_device_list stub (ctx x52_calloc) ?w = (l, w')" by (rule prod.exhaust)
  with r have "get_device_list stub (ctx x52_calloc) ?w = (Inl LIBUSB_ERROR_NO_MEM, w')" by simp
  moreover have "hdl x52_calloc = None" by (simp add: x52_calloc_def)
  ultimately have "connect_dev stub x52_calloc ?w =
      (LIBX52_ERROR_NO_DEVICE, x52_calloc, free_device_list stub None w')"
    by (intro libx52_connect_frees_uninitialised)
  then show ?thesis by (simp add: stub_free_device_list_def stub_undefined_def)
qed

text \<open>
  A failed \<open>libusb_open\<close> returns without freeing the device list: the references taken by the
  listing stay, here one for the stub's only joystick, although nothing is open.
\<close>

lemma libx52_connect_leaks_list:
  assumes "hdl d = None" and "get_device_list U (ctx d) w = (Inr ds, w1)"
    and "connect_loop U ds d w1 = (Inl e, d2, w2)"
  shows "connect_dev U d w = (x52_translate_libusb_error e, d2, w2)"
  using assms by (simp add: connect_dev_def disconnect_dev_def)

lemma stub_open_failure_leaks:
  "let r = connect_dev stub x52_calloc ((snd stub_dev)\<lparr>stub_calloc := [True, False]\<rparr>)
   in fst r = LIBX52_ERROR_OUT_OF_MEMORY \<and> hdl (fst (snd r)) = None
      \<and> map sd_ref_count (stub_devices (snd (snd r))) = [1, 1]"
  by code_simp

end
