(* ===== verification/Libx52_Encoding.thy ===== *)
theory Libx52_Encoding
  imports Libx52_Update
begin

text \<open>
  What the values sent to the joystick mean. For each encoded indicator a decoder reads the
  16-bit value the way the display does, and the theorems say that it yields the setting the
  device record holds: the offset of the secondary clocks, the fields of the date in the
  chosen order, the time, the text of a line and the colour of an LED.
\<close>

section \<open>Bits of encoded values\<close>

lemma bit_word_of_int: "bit (word_of_int x :: 'a::len word) n \<longleftrightarrow> n < LENGTH('a) \<and> bit x n"
  by (simp add: bit_word_of_int_iff)

lemma not_bit_small: "0 \<le> y \<Longrightarrow> y < 2 ^ k \<Longrightarrow> k \<le> n \<Longrightarrow> \<not> bit y n" for y :: int
  by (metis bit_take_bit_iff not_less take_bit_int_eq_self)

lemma and_mask_small: "0 \<le> y \<Longrightarrow> y < 2 ^ k \<Longrightarrow> y AND mask k = y" for y :: int
  by (metis take_bit_eq_mask take_bit_int_eq_self)

lemma uint_and_0x3FF: "uint (word_of_int x AND 0x3FF :: u16) = x mod 1024"
proof -
  have "(0x3FF :: u16) = mask 10" by (simp add: mask_eq_exp_minus_1)
  then have "uint (word_of_int x AND 0x3FF :: u16) = uint (word_of_int x :: u16) mod 2 ^ 10"
    by (simp only: uint_and_mask)
  also have "\<dots> = x mod 2 ^ 16 mod 2 ^ 10" by (simp add: uint_word_of_int)
  also have "\<dots> = x mod 2 ^ 10" by (rule mod_mod_cancel) simp
  finally show ?thesis by simp
qed

lemma uint_and_0xFF: "uint (word_of_int x AND 0xFF :: u16) = x mod 256"
proof -
  have "(0xFF :: u16) = mask 8" by (simp add: mask_eq_exp_minus_1)
  then have "uint (word_of_int x AND 0xFF :: u16) = uint (word_of_int x :: u16) mod 2 ^ 8"
    by (simp only: uint_and_mask)
  also have "\<dots> = x mod 2 ^ 16 mod 2 ^ 8" by (simp add: uint_word_of_int)
  also have "\<dots> = x mod 2 ^ 8" by (rule mod_mod_cancel) simp
  finally show ?thesis by simp
qed

lemma mod_1024_or_high:
  assumes "0 \<le> y" and "y < 1024"
  shows "(push_bit 15 a OR push_bit 10 b OR y AND 0x3FF) mod 1024 = (y::int)"
proof -
  have y: "take_bit 10 y = y" using assms by (intro take_bit_int_eq_self) auto
  have m: "(0x3FF::int) = mask 10" by (simp add: mask_eq_exp_minus_1)
  have "take_bit 10 (push_bit 15 a OR push_bit 10 b OR y AND 0x3FF) = y"
    unfolding m by (simp add: take_bit_or take_bit_push_bit take_bit_and y flip: take_bit_eq_mask)
  then show ?thesis by (simp add: take_bit_eq_mod)
qed

lemma mod_256_or_push:
  assumes "0 \<le> y" and "y < 256"
  shows "(push_bit 8 a OR y) mod 256 = (y::int)"
proof -
  have y: "take_bit 8 y = y" using assms by (intro take_bit_int_eq_self) auto
  have "take_bit 8 (push_bit 8 a OR y) = y" by (simp add: take_bit_or take_bit_push_bit y)
  then show ?thesis by (simp add: take_bit_eq_mod)
qed

lemma high_byte_or_push:
  assumes "0 \<le> x" and "x < 256" and "0 \<le> y" and "y < 256"
  shows "uint (drop_bit 8 (word_of_int (push_bit 8 x OR y) :: u16)) = x"
proof -
  have n: "\<not> bit y n" if "8 \<le> n" for n using assms that by (intro not_bit_small [of y 8]) auto
  have "push_bit 8 x OR y = push_bit 8 x + y"
    by (intro disjunctive_add [symmetric]) (auto simp: bit_push_bit_iff n)
  then have e: "push_bit 8 x OR y = 256 * x + y" by (simp add: push_bit_eq_mult)
  then have "uint (word_of_int (push_bit 8 x OR y) :: u16) = 256 * x + y"
    using assms unfolding e by (simp only: uint_word_of_int) simp
  then show ?thesis using assms by (simp add: uint_drop_bit_div)
qed

section \<open>Offsets of the secondary clocks\<close>

lemma offset_reduce_cong: "offset_reduce x mod 1440 = x mod 1440"
proof (induction x rule: offset_reduce.induct)
  case (1 x)
  show ?case
  proof (cases "1023 < x")
    case True
    then have "offset_reduce x mod 1440 = (x - 1440) mod 1440"
      using 1 [OF True] by (simp add: offset_reduce.simps [of x])
    then show ?thesis by simp
  next
    case False
    then show ?thesis by (simp add: offset_reduce.simps)
  qed
qed

lemma offset_reduce_bounds:
  assumes "0 \<le> x"
  shows "\<bar>offset_reduce x\<bar> \<le> 1023"
proof -
  have "- 417 < y \<Longrightarrow> \<bar>offset_reduce y\<bar> \<le> 1023" for y
  proof (induction y rule: offset_reduce.induct)
    case (1 y)
    show ?case
    proof (cases "1023 < y")
      case True
      with 1 show ?thesis by (simp add: offset_reduce.simps [of y])
    next
      case False
      with 1 show ?thesis by (simp add: offset_reduce.simps [of y])
    qed
  qed
  with assms show ?thesis by simp
qed

text \<open>Ten bits of magnitude, the sign in bit 10, the hour format in bit 15.\<close>

definition offset_of_value :: "u16 \<Rightarrow> int" where
  "offset_of_value v = (if bit v 10 then - uint (v AND 0x3FF) else uint (v AND 0x3FF))"

lemma offset_of_encoded:
  assumes "0 \<le> y" and "y < 1024" and "a \<in> {0, 1}"
  shows "offset_of_value (word_of_int (push_bit 15 a OR push_bit 10 (of_bool s) OR y AND 0x3FF)) =
    (if s then - y else y)"
proof -
  let ?x = "push_bit 15 a OR push_bit 10 (of_bool s) OR y AND 0x3FF"
  have m: "(0x3FF::int) = mask 10" by (simp add: mask_eq_exp_minus_1)
  have "bit (word_of_int ?x :: u16) 10 \<longleftrightarrow> s"
    unfolding m by (simp add: bit_word_of_int bit_or_iff bit_and_iff bit_push_bit_iff bit_mask_iff)
  moreover have "uint (word_of_int ?x AND 0x3FF :: u16) = y"
    using mod_1024_or_high [OF assms(1,2)] by (simp only: uint_and_0x3FF)
  ultimately show ?thesis by (simp only: offset_of_value_def)
qed

text \<open>
  C7: the value sent for a secondary clock decodes to an offset that differs from the
  difference of the two time zones by a whole number of days, for any zones, and bit 15 is the
  clock's hour format.
\<close>

theorem offset_value_decodes:
  "(offset_of_value (offset_value d c) - (timezone d ! nat (clock_id_code c) - timezone d ! 0)) mod 1440 = 0
   \<and> (bit (offset_value d c) 15 \<longleftrightarrow> time_format d ! nat (clock_id_code c) \<noteq> 0)"
proof -
  define o0 where "o0 = timezone d ! nat (clock_id_code c) - timezone d ! 0"
  define o1 where "o1 = offset_reduce \<bar>o0\<bar>"
  define s where "s = (if o1 < 0 then \<not> o0 < 0 else o0 < 0)"
  define h where "h = (of_bool (time_format d ! nat (clock_id_code c) \<noteq> 0) :: int)"
  have v: "offset_value d c = word_of_int (push_bit 15 h OR push_bit 10 (of_bool s) OR (\<bar>o1\<bar> AND 0x3FF))"
    by (simp add: offset_value_def x52_calculate_clock_offset_def Let_def o0_def o1_def s_def h_def)
  have b: "\<bar>o1\<bar> < 1024" using offset_reduce_bounds [of "\<bar>o0\<bar>"] by (simp add: o1_def)
  have "offset_of_value (offset_value d c) = (if s then - \<bar>o1\<bar> else \<bar>o1\<bar>)"
    unfolding v using b by (intro offset_of_encoded) (auto simp: h_def)
  also have "\<dots> = (if o0 < 0 then - o1 else o1)" by (auto simp: s_def)
  finally have e: "offset_of_value (offset_value d c) = (if o0 < 0 then - o1 else o1)" .
  have "o1 mod 1440 = \<bar>o0\<bar> mod 1440" by (simp add: o1_def offset_reduce_cong)
  then have "(o1 - \<bar>o0\<bar>) mod 1440 = 0" by (simp add: mod_eq_dvd_iff)
  then have "1440 dvd o1 - \<bar>o0\<bar>" by auto
  then have "1440 dvd (if o0 < 0 then - o1 else o1) - o0"
    by (cases "o0 < 0") (auto simp: dvd_diff_commute add.commute)
  with e have "(offset_of_value (offset_value d c) - o0) mod 1440 = 0" by simp
  moreover have "bit (offset_value d c) 15 \<longleftrightarrow> h = 1"
  proof -
    have m: "(0x3FF::int) = mask 10" by (simp add: mask_eq_exp_minus_1)
    show ?thesis unfolding v m h_def
      by (simp add: bit_word_of_int bit_or_iff bit_and_iff bit_push_bit_iff bit_mask_iff)
  qed
  ultimately show ?thesis by (simp add: o0_def h_def)
qed

section \<open>Date and time\<close>

text \<open>
  The date display shows the two bytes of the first value, low byte first, and then the second
  value; the format says which field stands where.
\<close>

definition date_fields :: "u16 \<times> u16 \<Rightarrow> int list" where
  "date_fields v = [uint (fst v AND 0xFF), uint (drop_bit 8 (fst v)), uint (snd v)]"

definition date_order :: "libx52_date_format \<Rightarrow> int \<Rightarrow> int \<Rightarrow> int \<Rightarrow> int list" where
  "date_order f dd mm yy = (case f of
     LIBX52_DATE_FORMAT_DDMMYY \<Rightarrow> [dd, mm, yy]
   | LIBX52_DATE_FORMAT_MMDDYY \<Rightarrow> [mm, dd, yy]
   | LIBX52_DATE_FORMAT_YYMMDD \<Rightarrow> [yy, mm, dd])"

lemma date_fields_values:
  assumes "byte_range lo" and "byte_range hi" and "byte_range l"
  shows "date_fields (word_of_int (push_bit 8 hi OR lo), word_of_int l) = [lo, hi, l]"
proof -
  from assms have r: "0 \<le> lo" "lo < 256" "0 \<le> hi" "hi < 256" "0 \<le> l" "l < 256"
    by (auto simp: byte_range_def)
  have "uint (word_of_int (push_bit 8 hi OR lo) AND 0xFF :: u16) = lo"
    by (simp only: uint_and_0xFF mod_256_or_push [OF r(1,2)])
  moreover have "uint (word_of_int l :: u16) = l" using r by (simp add: uint_word_of_int)
  ultimately show ?thesis using high_byte_or_push [OF r(3,4,1,2)] by (simp add: date_fields_def)
qed

text \<open>
  C8: on a well-formed device the two date values show day, month and year in the order of the
  selected date format, and there are values exactly for the three formats.
\<close>

theorem date_values_decode:
  assumes "dev_wf d"
  shows "map_option date_fields (date_values d) =
    map_option (\<lambda>f. date_order f (date_day d) (date_month d) (date_year d)) (date_format_of (date_format d))"
  using assms
  by (auto simp: date_values_def date_order_def dev_wf_def date_fields_values
      split: option.split libx52_date_format.split)

definition newyear_dev :: libx52_device where
  "newyear_dev = snd (set_date_format_dev 2 (snd (set_date_dev 31 12 99 x52_calloc)))"

theorem date_values_decode_witness:
  "map_option date_fields (date_values newyear_dev) = Some [99, 12, 31]"
proof -
  have "dev_wf newyear_dev"
    using dev_wf_calloc
    by (simp add: newyear_dev_def set_date_format_dev_def set_date_dev_def mark_def dev_wf_def byte_range_def)
  from date_values_decode [OF this] show ?thesis
    by (simp add: newyear_dev_def set_date_format_dev_def set_date_dev_def mark_def
        date_order_def enum_of_def date_formats_def)
qed

text \<open>The clock value: minutes in the low byte, seven bits of hours, the hour format.\<close>

definition time_of_value :: "u16 \<Rightarrow> bool \<times> int \<times> int" where
  "time_of_value v = (bit v 15, uint (drop_bit 8 v AND 0x7F), uint (v AND 0xFF))"

lemma uint_mask8_7: "uint (v AND 0xFF) = uint v mod 256" "uint (v AND 0x7F) = uint v mod 128" for v :: u16
proof -
  have "(0xFF :: u16) = mask 8" "(0x7F :: u16) = mask 7" by (simp_all add: mask_eq_exp_minus_1)
  then show "uint (v AND 0xFF) = uint v mod 256" "uint (v AND 0x7F) = uint v mod 128"
    by (simp_all only: uint_and_mask) simp_all
qed

text \<open>
  The value sent for the primary clock decodes to the hour format and to the time that was
  set, for every hour below 128 and every minute.
\<close>

lemma libx52_set_time_shown:
  assumes "hour < 128" and "set_time_dev hour minute d = (rc, d')"
  shows "rc = LIBX52_SUCCESS \<and> time_of_value (clock1_value d') =
    (time_format d ! 0 \<noteq> 0, uint hour, uint minute)"
proof -
  define h where "h = (of_bool (time_format d ! 0 \<noteq> 0) :: int)"
  have hr: "0 \<le> uint hour" "uint hour < 128" "0 \<le> uint minute" "uint minute < 256"
    using assms(1) uint_lt2p [of minute] by (auto simp: word_less_def)
  from assms(2) have d': "d' = mark (bit_no X52_BIT_MFD_TIME)
      (d\<lparr>time_hour := uint hour, time_minute := uint minute\<rparr>)"
    and rc: "rc = LIBX52_SUCCESS" by (auto simp: set_time_dev_def)
  have m: "(0x7F::int) = mask 7" "(0xFF::int) = mask 8" by (simp_all add: mask_eq_exp_minus_1)
  have a7: "uint hour AND 0x7F = uint hour" unfolding m using hr by (intro and_mask_small) auto
  have a8: "uint minute AND 0xFF = uint minute" unfolding m using hr by (intro and_mask_small) auto
  define H where "H = push_bit 7 h OR uint hour"
  have n: "\<not> bit (uint hour) n" if "7 \<le> n" for n
    using hr that by (intro not_bit_small [of _ 7]) auto
  have "H = push_bit 7 h + uint hour" unfolding H_def
    by (intro disjunctive_add [symmetric]) (auto simp: bit_push_bit_iff n)
  then have H: "H = 128 * h + uint hour" by (simp add: push_bit_eq_mult)
  have hb: "0 \<le> h" "h \<le> 1" by (simp_all add: h_def)
  have v: "clock1_value d' = word_of_int (push_bit 8 H OR uint minute)"
    by (simp add: clock1_value_def d' mark_def a7 a8 H_def h_def push_bit_or or.assoc)
  have Hr: "0 \<le> H" "H < 256" using H hr hb by auto
  have "uint (drop_bit 8 (clock1_value d')) = H"
    unfolding v by (rule high_byte_or_push [OF Hr hr(3,4)])
  then have "uint (drop_bit 8 (clock1_value d') AND 0x7F) = uint hour"
    using H hr by (simp add: uint_mask8_7)
  moreover have "uint (clock1_value d' AND 0xFF) = uint minute"
    unfolding v by (simp only: uint_and_0xFF mod_256_or_push [OF hr(3,4)])
  moreover have "bit (clock1_value d') 15 \<longleftrightarrow> time_format d ! 0 \<noteq> 0"
    unfolding v using n [of 7] not_bit_small [of "uint minute" 8 15] hr
    by (simp add: bit_word_of_int bit_or_iff bit_push_bit_iff H_def h_def)
  ultimately show ?thesis by (simp add: time_of_value_def rc)
qed

theorem libx52_set_time_shown_witness:
  "time_of_value (clock1_value (snd (set_time_dev 23 59 x52_calloc))) = (False, 23, 59)"
  using libx52_set_time_shown [of 23 59 x52_calloc LIBX52_SUCCESS "snd (set_time_dev 23 59 x52_calloc)"]
  by (simp add: set_time_dev_def x52_calloc_def)

section \<open>Text\<close>

text \<open>The bytes of a line, from the values written after the line is cleared.\<close>

definition line_bytes :: "vendor_cmd list \<Rightarrow> u8 list" where
  "line_bytes cs = concat (map (\<lambda>c. [ucast (snd c), ucast (drop_bit 8 (snd c))]) cs)"

lemma line_word_bytes:
  "ucast (line_word l i) = mfd_text l ! i"
  "ucast (drop_bit 8 (line_word l i)) = mfd_text l ! (i + 1)"
proof -
  show "ucast (line_word l i) = mfd_text l ! i"
    by (rule bit_word_eqI) (simp add: line_word_def bit_simps)
  show "ucast (drop_bit 8 (line_word l i)) = mfd_text l ! (i + 1)"
    by (rule bit_word_eqI) (auto simp: line_word_def bit_simps dest: bit_imp_le_length)
qed

lemma evens_pairs:
  "concat (map (\<lambda>i. [xs ! i, xs ! (i + 1)]) (filter even [0..<n])) = map ((!) xs) [0..<2 * ((n + 1) div 2)]"
proof (induction n)
  case (Suc n)
  show ?case
  proof (cases "even n")
    case True
    then obtain m where "n = 2 * m" by auto
    with Suc show ?thesis by simp
  next
    case False
    then obtain m where "n = 2 * m + 1" by (auto elim: oddE)
    with Suc show ?thesis by simp
  qed
qed simp

lemma line_bytes_cmds:
  "line_bytes (tl (line_cmds li l)) = map ((!) (mfd_text l)) [0..<2 * ((unat (mfd_length l) + 1) div 2)]"
proof -
  have "line_bytes (tl (line_cmds li l)) =
      concat (map (\<lambda>i. [mfd_text l ! i, mfd_text l ! (i + 1)]) (filter even [0..<unat (mfd_length l)]))"
    by (simp add: line_bytes_def line_cmds_def line_indices_def comp_def line_word_bytes
        del: One_nat_def add_Suc_right)
  then show ?thesis by (simp only: evens_pairs)
qed

text \<open>
  C9: after \<open>libx52_set_text\<close> succeeds, updating the line first clears it and then writes the
  text the caller gave, cut to 16 bytes and, when it has an odd number of them, followed by
  one space.
\<close>

theorem libx52_set_text_shown:
  assumes "set_text_dev ln t len d = (LIBX52_SUCCESS, d')" and "length (line d) = 3"
  defines "n \<equiv> min (unat len) 16"
  shows "\<exists>ws. cmds d' (21 + unat ln) = (line_index_map ! unat ln OR X52_MFD_CLEAR_LINE, 0) # ws
    \<and> line_bytes ws = map t [0..<n] @ (if odd n then [0x20] else [])"
proof -
  define buf where "buf = map t [0..<n] @ replicate (16 - n) 0x20"
  have len': "unat (if 16 < len then 16 else len) = n"
    by (auto simp: n_def word_less_nat_alt)
  from assms(1) have ln: "\<not> 2 < ln" and d': "d' = mark (21 + unat ln) (d\<lparr>line := (line d)
      [unat ln := \<lparr>mfd_text = buf, mfd_length = (if 16 < len then 16 else len)\<rparr>]\<rparr>)"
    by (auto simp: set_text_dev_def buf_def len' Let_def split: if_splits)
  from ln have "unat ln \<le> 2" by (simp add: word_less_nat_alt not_less)
  with assms(2) have c: "cmds d' (21 + unat ln) =
      line_cmds (unat ln) \<lparr>mfd_text = buf, mfd_length = (if 16 < len then 16 else len)\<rparr>"
    by (simp add: cmds_def packets_def d' mark_def)
  have n: "n \<le> 16" by (simp add: n_def)
  have "map ((!) buf) [0..<2 * ((n + 1) div 2)] = take (2 * ((n + 1) div 2)) buf"
  proof (rule nth_equalityI)
    have "2 * ((n + 1) div 2) \<le> length buf" using n by (simp add: buf_def)
    then show "length (map ((!) buf) [0..<2 * ((n + 1) div 2)]) = length (take (2 * ((n + 1) div 2)) buf)"
      by simp
  qed simp
  also have "\<dots> = map t [0..<n] @ (if odd n then [0x20] else [])"
  proof (cases "even n")
    case True
    then show ?thesis by (simp add: buf_def)
  next
    case False
    then obtain m where m: "n = 2 * m + 1" by (auto elim: oddE)
    from n m have "n \<le> 15" by presburger
    then have "16 - n = Suc (15 - n)" by arith
    moreover have "2 * ((n + 1) div 2) = Suc n" using m by simp
    ultimately show ?thesis using m by (simp add: buf_def)
  qed
  finally have "line_bytes (tl (cmds d' (21 + unat ln))) = map t [0..<n] @ (if odd n then [0x20] else [])"
    unfolding c line_bytes_cmds by (simp add: len')
  then show ?thesis using c by (auto simp: line_cmds_def)
qed

theorem libx52_set_text_shown_witness:
  "\<exists>ws. cmds (snd (set_text_dev 1 (\<lambda>i. of_nat (65 + i)) 3 x52_calloc)) 22 = (0xda, 0) # ws
    \<and> line_bytes ws = [65, 66, 67, 0x20]"
  using libx52_set_text_shown [of 1 "\<lambda>i. of_nat (65 + i)" 3 x52_calloc
      "snd (set_text_dev 1 (\<lambda>i. of_nat (65 + i)) 3 x52_calloc)"]
  by (simp add: set_text_dev_def x52_calloc_def line_index_map_def upt_rec Let_def)

section \<open>LEDs\<close>

text \<open>The state that the LED bits of a mask show: one bit for Fire and Throttle, else two.\<close>

definition led_shown :: "u32 \<Rightarrow> libx52_led_id \<Rightarrow> libx52_led_state" where
  "led_shown m l =
     (let b = nat (led_id_code l) in
      if l = LIBX52_LED_FIRE \<or> l = LIBX52_LED_THROTTLE
      then (if bit m b then LIBX52_LED_STATE_ON else LIBX52_LED_STATE_OFF)
      else if bit m b then (if bit m (b + 1) then LIBX52_LED_STATE_AMBER else LIBX52_LED_STATE_RED)
      else (if bit m (b + 1) then LIBX52_LED_STATE_GREEN else LIBX52_LED_STATE_OFF))"

definition led_own_bits :: "libx52_led_id \<Rightarrow> nat set" where
  "led_own_bits l = (let b = nat (led_id_code l) in
     if l = LIBX52_LED_FIRE \<or> l = LIBX52_LED_THROTTLE then {b} else {b, b + 1})"

lemma led_own_bits_disjoint: "l \<noteq> k \<Longrightarrow> led_own_bits l \<inter> led_own_bits k = {}"
  by (cases l; cases k) (auto simp: led_own_bits_def)

lemma led_shown_cong:
  "(\<And>n. n \<in> led_own_bits l \<Longrightarrow> bit m n = bit m' n) \<Longrightarrow> led_shown m l = led_shown m' l"
  by (simp add: led_shown_def led_own_bits_def Let_def split: if_splits)

lemma led_own_bits_32: "n \<in> led_own_bits l \<Longrightarrow> n < 32"
  by (cases l) (auto simp: led_own_bits_def)

text \<open>What the setter does to the two masks.\<close>

lemma set_led_state_masks:
  assumes "x52pro_set_led_state led state d = (LIBX52_SUCCESS, d')" and "led_id_of led = Some l"
  shows "led_state_code (led_shown (led_mask d') l) = state
    \<and> (\<forall>n. n \<notin> led_own_bits l \<longrightarrow> bit (led_mask d') n = bit (led_mask d) n)
    \<and> (\<forall>n. bit (update_mask d') n \<longleftrightarrow> bit (update_mask d) n \<or> n \<in> led_own_bits l)"
proof -
  have led: "led = led_id_code l" using assms(2) by (simp add: led_id.enum_of_Some)
  show ?thesis
  proof (cases "l = LIBX52_LED_FIRE \<or> l = LIBX52_LED_THROTTLE")
    case True
    with assms led show ?thesis
      by (auto simp: x52pro_set_led_state_def mark_def led_shown_def led_own_bits_def Let_def
          x52_bit_simps split: if_splits)
  next
    case False
    define b where "b = nat led"
    have b: "b < 31" using led by (cases l) (auto simp: b_def)
    have own: "led_own_bits l = {b, b + 1}"
      and shown: "\<And>m. led_shown m l = (if bit m b
         then (if bit m (b + 1) then LIBX52_LED_STATE_AMBER else LIBX52_LED_STATE_RED)
         else (if bit m (b + 1) then LIBX52_LED_STATE_GREEN else LIBX52_LED_STATE_OFF))"
      using False by (auto simp: led_own_bits_def led_shown_def b_def led Let_def)
    from assms False obtain s where s: "led_state_of state = Some s" "s \<noteq> LIBX52_LED_STATE_ON"
      by (auto simp: x52pro_set_led_state_def Let_def split: option.splits libx52_led_state.splits)
    then have "state = led_state_code s" by (simp add: led_state.enum_of_Some)
    with assms False s b show ?thesis unfolding own shown
      by (cases s) (auto simp: x52pro_set_led_state_def Let_def b_def [symmetric] mark_def led_bits_def
          x52_bit_simps)
  qed
qed

text \<open>
  C10: when \<open>libx52_set_led_state\<close> succeeds the joystick is a Pro, the LED exists, it shows
  exactly the requested state, every other LED shows what it did before, and the bits of that
  LED and of no other indicator are newly marked for the next update.
\<close>

theorem libx52_set_led_state_shown:
  assumes "set_led_state_dev led state d = (LIBX52_SUCCESS, d')"
  shows "bit (flags d) X52_FLAG_IS_PRO \<and> (\<exists>l. led = led_id_code l
    \<and> led_state_code (led_shown (led_mask d') l) = state
    \<and> (\<forall>k. k \<noteq> l \<longrightarrow> led_shown (led_mask d') k = led_shown (led_mask d) k)
    \<and> (\<forall>n. bit (update_mask d') n \<longleftrightarrow> bit (update_mask d) n \<or> n \<in> led_own_bits l))"
proof -
  from assms have pro: "bit (flags d) X52_FLAG_IS_PRO"
    and x: "x52pro_set_led_state led state d = (LIBX52_SUCCESS, d')"
    by (auto simp: set_led_state_dev_def check_feature_dev_def x52_bit_simps Let_def
        split: if_splits option.splits libx52_feature.splits)
  from x obtain l where l: "led_id_of led = Some l"
    by (auto simp: x52pro_set_led_state_def split: option.splits)
  note m = set_led_state_masks [OF x l]
  have "led_shown (led_mask d') k = led_shown (led_mask d) k" if "k \<noteq> l" for k
    using m led_own_bits_disjoint [OF that] by (intro led_shown_cong) blast
  with pro l m show ?thesis by (auto simp: led_id.enum_of_Some)
qed

theorem libx52_set_led_state_shown_witness:
  "led_shown (led_mask (snd (set_led_state_dev 0x10 3 (opened_dev\<lparr>led_mask := 0xFF\<rparr>)))) LIBX52_LED_POV
     = LIBX52_LED_STATE_AMBER
   \<and> led_shown (led_mask (snd (set_led_state_dev 0x10 3 (opened_dev\<lparr>led_mask := 0xFF\<rparr>)))) LIBX52_LED_A
     = LIBX52_LED_STATE_AMBER"
proof -
  have "set_led_state_dev 0x10 3 (opened_dev\<lparr>led_mask := 0xFF\<rparr>) =
      (LIBX52_SUCCESS, snd (set_led_state_dev 0x10 3 (opened_dev\<lparr>led_mask := 0xFF\<rparr>)))"
    by code_simp
  from libx52_set_led_state_shown [OF this] obtain l where l: "0x10 = led_id_code l"
    and s: "led_state_code (led_shown (led_mask (snd (set_led_state_dev 0x10 3
             (opened_dev\<lparr>led_mask := 0xFF\<rparr>)))) l) = 3"
    and o: "\<And>k. k \<noteq> l \<Longrightarrow> led_shown (led_mask (snd (set_led_state_dev 0x10 3
             (opened_dev\<lparr>led_mask := 0xFF\<rparr>)))) k = led_shown (led_mask (opened_dev\<lparr>led_mask := 0xFF\<rparr>)) k"
    by blast
  from l have "l = LIBX52_LED_POV" by (cases l) simp_all
  moreover from s have "led_shown (led_mask (snd (set_led_state_dev 0x10 3
      (opened_dev\<lparr>led_mask := 0xFF\<rparr>)))) l = LIBX52_LED_STATE_AMBER"
    by (cases "led_shown (led_mask (snd (set_led_state_dev 0x10 3 (opened_dev\<lparr>led_mask := 0xFF\<rparr>)))) l") simp_all
  moreover have "led_shown (led_mask (opened_dev\<lparr>led_mask := 0xFF\<rparr>)) LIBX52_LED_A = LIBX52_LED_STATE_AMBER"
    by code_simp
  ultimately show ?thesis using o [of LIBX52_LED_A] by simp
qed

end
