(* ===== verification/Libx52_Contract.thy ===== *)
theory Libx52_Contract
  imports Libx52_Core Libx52_Encoding
begin

text \<open>
  The contract of the operations that prepare an update, as the locale \<open>x52_setter\<close>: an error
  leaves the device unchanged, the connection is never touched, marks are never removed, the
  device stays well-formed, and the value shown by an indicator changes only if the indicator
  is marked. It is interpreted for every operation of \<open>Libx52_Device\<close>, and for the type of
  all calls, over which the display theorem is stated.
\<close>

section \<open>The contract\<close>

definition same_conn :: "libx52_device \<Rightarrow> libx52_device \<Rightarrow> bool" where
  "same_conn d d' \<longleftrightarrow> ctx d' = ctx d \<and> hdl d' = hdl d \<and> flags d' = flags d
     \<and> handle_registered d' = handle_registered d \<and> hotplug_handle d' = hotplug_handle d"

locale x52_setter =
  fixes f :: "libx52_device \<Rightarrow> libx52_error_code \<times> libx52_device"
  assumes error_unchanged: "fst (f d) \<noteq> LIBX52_SUCCESS \<Longrightarrow> snd (f d) = d"
    and keeps_conn: "same_conn d (snd (f d))"
    and keeps_marks: "bit (update_mask d) b \<Longrightarrow> bit (update_mask (snd (f d))) b"
    and keeps_wf: "dev_wf d \<Longrightarrow> dev_wf (snd (f d))"
    and tracked: "\<not> bit (update_mask (snd (f d))) b \<Longrightarrow> packets (snd (f d)) b = packets d b"
    and marks: "fst (f d) = LIBX52_SUCCESS \<Longrightarrow> update_mask (snd (f d)) \<noteq> 0"
begin

lemma keeps_conn_wf: "conn_wf d \<Longrightarrow> conn_wf (snd (f d))"
  using keeps_conn [of d] by (simp add: conn_wf_def same_conn_def)

lemma tracked_cmds: "\<not> bit (update_mask (snd (f d))) b \<Longrightarrow> cmds (snd (f d)) b = cmds d b"
  using tracked [of d b] by (simp add: cmds_def)

lemma marked_mono: "set (marked d) \<subseteq> set (marked (snd (f d)))"
  using keeps_marks by (auto simp: set_marked)

lemma with_dev_null: "with_dev f None = (LIBX52_ERROR_INVALID_PARAM, None)"
  by simp

end

section \<open>Packets after a record update\<close>

lemma date_values_cong:
  "date_format d = date_format e \<Longrightarrow> date_day d = date_day e \<Longrightarrow> date_month d = date_month e \<Longrightarrow>
   date_year d = date_year e \<Longrightarrow> date_values d = date_values e"
  by (simp add: date_values_def cong: option.case_cong libx52_date_format.case_cong)

lemma packets_cong:
  assumes "b \<le> 20 \<or> b = 24 \<Longrightarrow> bit (led_mask d) b = bit (led_mask e) b"
    and "21 \<le> b \<Longrightarrow> b \<le> 23 \<Longrightarrow> line d ! (b - 21) = line e ! (b - 21)"
    and "b = 25 \<Longrightarrow> mfd_brightness d = mfd_brightness e"
    and "b = 26 \<Longrightarrow> led_brightness d = led_brightness e"
    and "b = 27 \<Longrightarrow> date_format d = date_format e \<and> date_day d = date_day e
           \<and> date_month d = date_month e \<and> date_year d = date_year e"
    and "b = 28 \<Longrightarrow> time_format d ! 0 = time_format e ! 0 \<and> time_hour d = time_hour e
           \<and> time_minute d = time_minute e"
    and "b = 29 \<Longrightarrow> time_format d ! 1 = time_format e ! 1 \<and> timezone d ! 1 = timezone e ! 1
           \<and> timezone d ! 0 = timezone e ! 0"
    and "b = 30 \<Longrightarrow> time_format d ! 2 = time_format e ! 2 \<and> timezone d ! 2 = timezone e ! 2
           \<and> timezone d ! 0 = timezone e ! 0"
  shows "packets d b = packets e b"
proof -
  consider "b = 0" | "1 \<le> b" "b \<le> 20" | "21 \<le> b" "b \<le> 23" | "b = 24" | "b = 25" | "b = 26" | "b = 27" | "b = 28"
    | "b = 29" | "b = 30" | "30 < b" by linarith
  then show ?thesis
    using assms date_values_cong [of d e]
    by cases (auto simp: packets_def led_cmd_def clock1_value_def offset_value_def
        x52_calculate_clock_offset_def)
qed

lemma update_mask_mark: "update_mask (mark b d) = x52_set_bit (update_mask d) b"
  by (simp add: mark_def)

lemma packets_mark [simp]: "packets (mark b d) = packets d"
  by (simp add: mark_def)

lemma same_conn_refl [simp]: "same_conn d d"
  by (simp add: same_conn_def)

lemma same_conn_trans: "same_conn d e \<Longrightarrow> same_conn e f \<Longrightarrow> same_conn d f"
  by (simp add: same_conn_def)

lemma same_conn_mark [simp]: "same_conn d (mark b e) = same_conn d e"
  by (simp add: same_conn_def mark_def)

lemma dev_wf_mark [simp]: "dev_wf (mark b d) = dev_wf d"
  by (simp add: dev_wf_def mark_def)

lemma set_bit_nonzero: "b < 32 \<Longrightarrow> x52_set_bit m b \<noteq> 0"
  by (metis bit_0_eq bit_x52_set_bit bot_apply bot_bool_def)

section \<open>The operations meet the contract\<close>

lemmas setter_simps = update_mask_mark x52_bit_simps set_bit_nonzero

interpretation set_shift: x52_setter "set_shift_dev s" for s
proof
  fix d b
  show "\<not> bit (update_mask (snd (set_shift_dev s d))) b \<Longrightarrow> packets (snd (set_shift_dev s d)) b = packets d b"
    by (auto simp: set_shift_dev_def setter_simps intro!: packets_cong)
qed (auto simp: set_shift_dev_def setter_simps dev_wf_def mark_def same_conn_def)

interpretation set_blink: x52_setter "set_blink_dev s" for s
proof
  fix d b
  show "\<not> bit (update_mask (snd (set_blink_dev s d))) b \<Longrightarrow> packets (snd (set_blink_dev s d)) b = packets d b"
    by (auto simp: set_blink_dev_def setter_simps intro!: packets_cong)
qed (auto simp: set_blink_dev_def setter_simps dev_wf_def mark_def same_conn_def)

interpretation set_brightness: x52_setter "set_brightness_dev m v" for m v
proof
  fix d b
  show "\<not> bit (update_mask (snd (set_brightness_dev m v d))) b \<Longrightarrow>
      packets (snd (set_brightness_dev m v d)) b = packets d b"
    by (auto simp: set_brightness_dev_def setter_simps intro!: packets_cong split: if_splits)
qed (auto simp: set_brightness_dev_def setter_simps dev_wf_def mark_def same_conn_def)

interpretation set_time: x52_setter "set_time_dev h m" for h m
proof
  fix d b
  show "\<not> bit (update_mask (snd (set_time_dev h m d))) b \<Longrightarrow> packets (snd (set_time_dev h m d)) b = packets d b"
    by (auto simp: set_time_dev_def setter_simps intro!: packets_cong)
qed (auto simp: set_time_dev_def setter_simps dev_wf_def mark_def same_conn_def)

interpretation set_date: x52_setter "set_date_dev dd mm yy" for dd mm yy
proof
  fix d b
  show "\<not> bit (update_mask (snd (set_date_dev dd mm yy d))) b \<Longrightarrow>
      packets (snd (set_date_dev dd mm yy d)) b = packets d b"
    by (auto simp: set_date_dev_def setter_simps intro!: packets_cong)
qed (auto simp: set_date_dev_def setter_simps dev_wf_def mark_def same_conn_def)

interpretation set_date_format: x52_setter "set_date_format_dev f" for f
proof
  fix d b
  show "\<not> bit (update_mask (snd (set_date_format_dev f d))) b \<Longrightarrow>
      packets (snd (set_date_format_dev f d)) b = packets d b"
    by (auto simp: set_date_format_dev_def setter_simps intro!: packets_cong)
qed (auto simp: set_date_format_dev_def setter_simps dev_wf_def mark_def same_conn_def)

lemmas set_updateD = set_update_subset_insert [THEN subsetD]

interpretation set_text: x52_setter "set_text_dev ln t len" for ln t len
proof
  fix d b
  show "\<not> bit (update_mask (snd (set_text_dev ln t len d))) b \<Longrightarrow>
      packets (snd (set_text_dev ln t len d)) b = packets d b"
    by (auto simp: set_text_dev_def setter_simps Let_def word_less_nat_alt not_less nth_list_update
        intro!: packets_cong split: if_splits)
  have "unat len' \<le> 16" if "len' = (if 16 < len then 16 else len)" for len' :: u8
    using that by (auto simp: word_less_nat_alt not_less)
  then show "dev_wf d \<Longrightarrow> dev_wf (snd (set_text_dev ln t len d))"
    by (auto simp: set_text_dev_def Let_def mark_def dev_wf_def line_wf_def dest!: set_updateD
        simp del: not_less)
  show "fst (set_text_dev ln t len d) = LIBX52_SUCCESS \<Longrightarrow> update_mask (snd (set_text_dev ln t len d)) \<noteq> 0"
    by (auto simp: set_text_dev_def setter_simps Let_def word_less_nat_alt not_less split: if_splits)
qed (auto simp: set_text_dev_def setter_simps mark_def same_conn_def Let_def)

lemma clock_id_of_codes:
  "clock_id_of 0 = Some LIBX52_CLOCK_1" "clock_id_of 1 = Some LIBX52_CLOCK_2"
  "clock_id_of 2 = Some LIBX52_CLOCK_3"
  by (simp_all add: enum_of_def clock_ids_def)

lemma clock_id_cases:
  obtains "clock_id_of c = None" | "c = 0" | "c = 1" | "c = 2"
proof (cases "clock_id_of c")
  case (Some x)
  then have "c = clock_id_code x" by (simp add: clock_id.enum_of_Some)
  with that show ?thesis by (cases x) auto
qed (rule that)

lemma set_clock_timezone_cases:
  obtains rc where "rc \<noteq> LIBX52_SUCCESS" and "set_clock_timezone_dev c off d = (rc, d)"
  | i where "i \<in> {1, 2}" and "\<bar>off\<bar> \<le> 1440" and "set_clock_timezone_dev c off d =
        (LIBX52_SUCCESS, mark (28 + i) (d\<lparr>timezone := (timezone d)[i := off]\<rparr>))"
proof (cases "off < - 1440 \<or> 1440 < off")
  case True
  with that(1) show ?thesis by (simp add: set_clock_timezone_dev_def)
next
  case False
  show ?thesis
  proof (rule clock_id_cases [of c])
    assume "c = 1"
    with False show ?thesis
      by (intro that(2) [of 1]) (auto simp: set_clock_timezone_dev_def clock_id_of_codes)
  next
    assume "c = 2"
    with False show ?thesis
      by (intro that(2) [of 2]) (auto simp: set_clock_timezone_dev_def clock_id_of_codes)
  qed (use False that(1) in \<open>simp_all add: set_clock_timezone_dev_def clock_id_of_codes\<close>)
qed

interpretation set_clock_timezone: x52_setter "set_clock_timezone_dev c off" for c off
proof
  fix d b
  show "\<not> bit (update_mask (snd (set_clock_timezone_dev c off d))) b \<Longrightarrow>
      packets (snd (set_clock_timezone_dev c off d)) b = packets d b"
    by (rule set_clock_timezone_cases [of c off d]) (auto simp: setter_simps intro!: packets_cong)
  show "dev_wf d \<Longrightarrow> dev_wf (snd (set_clock_timezone_dev c off d))"
    by (rule set_clock_timezone_cases [of c off d]) (auto simp: dev_wf_def mark_def)
  show "fst (set_clock_timezone_dev c off d) \<noteq> LIBX52_SUCCESS \<Longrightarrow> snd (set_clock_timezone_dev c off d) = d"
    by (rule set_clock_timezone_cases [of c off d]) simp_all
  show "same_conn d (snd (set_clock_timezone_dev c off d))"
    by (rule set_clock_timezone_cases [of c off d]) (simp_all add: same_conn_def mark_def)
  show "bit (update_mask d) b \<Longrightarrow> bit (update_mask (snd (set_clock_timezone_dev c off d))) b"
    by (rule set_clock_timezone_cases [of c off d]) (simp_all add: setter_simps)
  show "fst (set_clock_timezone_dev c off d) = LIBX52_SUCCESS \<Longrightarrow>
      update_mask (snd (set_clock_timezone_dev c off d)) \<noteq> 0"
    by (rule set_clock_timezone_cases [of c off d]) (auto simp: setter_simps)
qed

lemma set_clock_format_cases:
  obtains rc where "rc \<noteq> LIBX52_SUCCESS" and "set_clock_format_dev c f d = (rc, d)"
  | i where "i < 3" and "f \<in> {0, 1}" and "set_clock_format_dev c f d =
        (LIBX52_SUCCESS, mark (28 + i) (d\<lparr>time_format := (time_format d)[i := f]\<rparr>))"
proof (cases "f = 0 \<or> f = 1")
  case False
  with that(1) show ?thesis by (simp add: set_clock_format_dev_def)
next
  case True
  show ?thesis
  proof (rule clock_id_cases [of c])
    assume "c = 0"
    with True that(2) [of 0] show ?thesis
      by (auto simp: set_clock_format_dev_def clock_id_of_codes mark_def Let_def)
  next
    assume "c = 1"
    with True that(2) [of 1] show ?thesis
      by (auto simp: set_clock_format_dev_def clock_id_of_codes mark_def Let_def)
  next
    assume "c = 2"
    with True that(2) [of 2] show ?thesis
      by (auto simp: set_clock_format_dev_def clock_id_of_codes mark_def Let_def)
  next
    assume "clock_id_of c = None"
    with True show ?thesis
      by (intro that(1) [of LIBX52_ERROR_INVALID_PARAM]) (auto simp: set_clock_format_dev_def)
  qed
qed

interpretation set_clock_format: x52_setter "set_clock_format_dev c f" for c f
proof
  fix d b
  show "\<not> bit (update_mask (snd (set_clock_format_dev c f d))) b \<Longrightarrow>
      packets (snd (set_clock_format_dev c f d)) b = packets d b"
    by (rule set_clock_format_cases [of c f d]) (auto simp: setter_simps intro!: packets_cong)
  show "dev_wf d \<Longrightarrow> dev_wf (snd (set_clock_format_dev c f d))"
    by (rule set_clock_format_cases [of c f d])
      (auto simp: dev_wf_def mark_def range_clock_format_code dest!: set_updateD)
  show "fst (set_clock_format_dev c f d) \<noteq> LIBX52_SUCCESS \<Longrightarrow> snd (set_clock_format_dev c f d) = d"
    by (rule set_clock_format_cases [of c f d]) simp_all
  show "same_conn d (snd (set_clock_format_dev c f d))"
    by (rule set_clock_format_cases [of c f d]) (simp_all add: same_conn_def mark_def)
  show "bit (update_mask d) b \<Longrightarrow> bit (update_mask (snd (set_clock_format_dev c f d))) b"
    by (rule set_clock_format_cases [of c f d]) (simp_all add: setter_simps)
  show "fst (set_clock_format_dev c f d) = LIBX52_SUCCESS \<Longrightarrow>
      update_mask (snd (set_clock_format_dev c f d)) \<noteq> 0"
    by (rule set_clock_format_cases [of c f d]) (auto simp: setter_simps)
qed

lemma x52pro_set_led_state_frame:
  "x52pro_set_led_state led state d = (LIBX52_SUCCESS, d') \<Longrightarrow>
   d' = d\<lparr>led_mask := led_mask d', update_mask := update_mask d'\<rparr>"
  by (auto simp: x52pro_set_led_state_def mark_def led_bits_def Let_def
      split: option.splits if_splits libx52_led_state.splits)

lemma x52pro_set_led_state_error:
  "x52pro_set_led_state led state d = (rc, d') \<Longrightarrow> rc \<noteq> LIBX52_SUCCESS \<Longrightarrow> d' = d"
  by (auto simp: x52pro_set_led_state_def Let_def split: option.splits if_splits libx52_led_state.splits)

lemma set_led_state_cases:
  obtains rc where "rc \<noteq> LIBX52_SUCCESS" and "set_led_state_dev led state d = (rc, d)"
  | l m u where "set_led_state_dev led state d = (LIBX52_SUCCESS, d\<lparr>led_mask := m, update_mask := u\<rparr>)"
      and "\<And>n. n \<notin> led_own_bits l \<Longrightarrow> bit m n = bit (led_mask d) n"
      and "\<And>n. bit u n \<longleftrightarrow> bit (update_mask d) n \<or> n \<in> led_own_bits l"
proof (cases "fst (set_led_state_dev led state d) = LIBX52_SUCCESS")
  case True
  then have x: "x52pro_set_led_state led state d = (LIBX52_SUCCESS, snd (set_led_state_dev led state d))"
    by (auto simp: set_led_state_dev_def Let_def split: if_splits)
      (metis prod.collapse)
  then obtain l where l: "led_id_of led = Some l"
    by (auto simp: x52pro_set_led_state_def split: option.splits)
  have "snd (set_led_state_dev led state d) = d\<lparr>
      led_mask := led_mask (snd (set_led_state_dev led state d)),
      update_mask := update_mask (snd (set_led_state_dev led state d))\<rparr>"
    using x by (rule x52pro_set_led_state_frame)
  then have "set_led_state_dev led state d = (LIBX52_SUCCESS, d\<lparr>
      led_mask := led_mask (snd (set_led_state_dev led state d)),
      update_mask := update_mask (snd (set_led_state_dev led state d))\<rparr>)"
    using True by (metis prod.collapse)
  from that(2) [OF this, of l] set_led_state_masks [OF x l] show ?thesis by blast
next
  case False
  obtain rc d' where r: "set_led_state_dev led state d = (rc, d')" by fastforce
  with False have "d' = d"
    by (auto simp: set_led_state_dev_def Let_def split: if_splits dest: x52pro_set_led_state_error)
  with r False that(1) show ?thesis by simp
qed

lemma led_own_bits_range: "n \<in> led_own_bits l \<Longrightarrow> 1 \<le> n \<and> n \<le> 20"
  by (cases l) (auto simp: led_own_bits_def)

interpretation set_led_state: x52_setter "set_led_state_dev led state" for led state
proof
  fix d b
  show "\<not> bit (update_mask (snd (set_led_state_dev led state d))) b \<Longrightarrow>
      packets (snd (set_led_state_dev led state d)) b = packets d b"
  proof (rule set_led_state_cases [of led state d])
    fix l m u
    assume e: "set_led_state_dev led state d = (LIBX52_SUCCESS, d\<lparr>led_mask := m, update_mask := u\<rparr>)"
      and m: "\<And>n. n \<notin> led_own_bits l \<Longrightarrow> bit m n = bit (led_mask d) n"
      and u: "\<And>n. bit u n \<longleftrightarrow> bit (update_mask d) n \<or> n \<in> led_own_bits l"
      and "\<not> bit (update_mask (snd (set_led_state_dev led state d))) b"
    then have "bit m b = bit (led_mask d) b" by simp
    with e show ?thesis by (auto intro!: packets_cong)
  qed simp
  show "fst (set_led_state_dev led state d) \<noteq> LIBX52_SUCCESS \<Longrightarrow> snd (set_led_state_dev led state d) = d"
    by (rule set_led_state_cases [of led state d]) simp_all
  show "same_conn d (snd (set_led_state_dev led state d))"
    by (rule set_led_state_cases [of led state d]) (auto simp: same_conn_def)
  show "bit (update_mask d) b \<Longrightarrow> bit (update_mask (snd (set_led_state_dev led state d))) b"
    by (rule set_led_state_cases [of led state d]) simp_all
  show "dev_wf d \<Longrightarrow> dev_wf (snd (set_led_state_dev led state d))"
    by (rule set_led_state_cases [of led state d]) (auto simp: dev_wf_def)
  show "fst (set_led_state_dev led state d) = LIBX52_SUCCESS \<Longrightarrow>
      update_mask (snd (set_led_state_dev led state d)) \<noteq> 0"
  proof (rule set_led_state_cases [of led state d])
    fix l m u
    assume e: "set_led_state_dev led state d = (LIBX52_SUCCESS, d\<lparr>led_mask := m, update_mask := u\<rparr>)"
      and u: "\<And>n. bit u n \<longleftrightarrow> bit (update_mask d) n \<or> n \<in> led_own_bits l"
    have "bit u (nat (led_id_code l))" unfolding u by (simp add: led_own_bits_def Let_def)
    then have "u \<noteq> 0" by auto
    with e show "update_mask (snd (set_led_state_dev led state d)) \<noteq> 0" by simp
  qed simp
qed

text \<open>The three comparisons of \<open>libx52_set_clock\<close>: each changes nothing or marks what it changes.\<close>

lemma clock_update_date_cases:
  obtains "clock_update_date t d = (False, d)"
  | x y z where "clock_update_date t d = (True, snd (set_date_dev x y z d))"
proof (cases "fst (clock_update_date t d)")
  case True
  then show ?thesis by (intro that(2)) (simp add: clock_update_date_def Let_def split: if_splits)
next
  case False
  then show ?thesis by (intro that(1)) (simp add: clock_update_date_def Let_def split: if_splits)
qed

lemma clock_update_time_cases:
  obtains "clock_update_time t d = (False, d)"
  | x y where "clock_update_time t d = (True, snd (set_time_dev x y d))"
proof (cases "fst (clock_update_time t d)")
  case True
  then show ?thesis by (intro that(2)) (simp add: clock_update_time_def Let_def split: if_splits)
next
  case False
  then show ?thesis by (intro that(1)) (simp add: clock_update_time_def Let_def split: if_splits)
qed

lemma clock_update_zone_cases:
  obtains "clock_update_zone tz d = (False, d)"
  | "clock_update_zone tz d = (True, (mark 30 (mark 29 d))\<lparr>timezone := (timezone d)[0 := tz]\<rparr>)"
proof (cases "timezone d ! 0 = tz")
  case True
  then have "(timezone d)[0 := tz] = timezone d" by auto
  with True that(1) show ?thesis by (simp add: clock_update_zone_def)
next
  case False
  then have "clock_update_zone tz d =
      (True, (mark 30 (mark 29 d))\<lparr>timezone := (timezone d)[0 := tz]\<rparr>)"
    by (simp add: clock_update_zone_def mark_def)
  then show ?thesis by (rule that(2))
qed

text \<open>A step that keeps the contract; steps compose.\<close>

definition setter_step :: "libx52_device \<Rightarrow> libx52_device \<Rightarrow> bool" where
  "setter_step d d' \<longleftrightarrow> same_conn d d' \<and> (\<forall>b. bit (update_mask d) b \<longrightarrow> bit (update_mask d') b)
     \<and> (dev_wf d \<longrightarrow> dev_wf d')
     \<and> (\<forall>b. \<not> bit (update_mask d') b \<longrightarrow> packets d' b = packets d b)"

lemma setter_step_refl [simp]: "setter_step d d"
  by (simp add: setter_step_def)

lemma setter_step_trans: "setter_step d e \<Longrightarrow> setter_step e f \<Longrightarrow> setter_step d f"
  by (auto simp: setter_step_def intro: same_conn_trans)

lemma setter_step_date: "setter_step d (snd (set_date_dev x y z d))"
  using set_date.keeps_conn set_date.keeps_marks set_date.keeps_wf set_date.tracked
  by (auto simp: setter_step_def)

lemma setter_step_time: "setter_step d (snd (set_time_dev x y d))"
  using set_time.keeps_conn set_time.keeps_marks set_time.keeps_wf set_time.tracked
  by (auto simp: setter_step_def)

lemma setter_step_zone:
  "setter_step d ((mark 30 (mark 29 d))\<lparr>timezone := (timezone d)[0 := tz]\<rparr>)"
  by (auto simp: setter_step_def same_conn_def mark_def x52_bit_simps dev_wf_def intro!: packets_cong)

lemma setter_step_clock:
  "setter_step d (snd (clock_update_date t d))"
  "setter_step d (snd (clock_update_time t d))"
  "setter_step d (snd (clock_update_zone tz d))"
proof -
  show "setter_step d (snd (clock_update_date t d))"
    by (rule clock_update_date_cases [of t d]) (auto intro: setter_step_date)
  show "setter_step d (snd (clock_update_time t d))"
    by (rule clock_update_time_cases [of t d]) (auto intro: setter_step_time)
  show "setter_step d (snd (clock_update_zone tz d))"
    by (rule clock_update_zone_cases [of tz d]) (auto intro: setter_step_zone)
qed

lemma clock_updates_unmarked:
  "\<not> fst (clock_update_date t d) \<Longrightarrow> snd (clock_update_date t d) = d"
  "\<not> fst (clock_update_time t d) \<Longrightarrow> snd (clock_update_time t d) = d"
  "\<not> fst (clock_update_zone tz d) \<Longrightarrow> snd (clock_update_zone tz d) = d"
  using clock_update_date_cases [of t d] clock_update_time_cases [of t d] clock_update_zone_cases [of tz d]
  by fastforce+

lemma clock_updates_marked:
  "fst (clock_update_date t d) \<Longrightarrow> bit (update_mask (snd (clock_update_date t d))) 27"
  "fst (clock_update_time t d) \<Longrightarrow> bit (update_mask (snd (clock_update_time t d))) 28"
  "fst (clock_update_zone tz d) \<Longrightarrow> bit (update_mask (snd (clock_update_zone tz d))) 29"
  by (auto simp: clock_update_date_def clock_update_time_def clock_update_zone_def Let_def
      set_date_dev_def set_time_dev_def setter_simps split: if_splits)

lemma set_clock_cases:
  obtains "set_clock_dev env time lcl d = (LIBX52_ERROR_OUT_OF_RANGE, d)"
  | "set_clock_dev env time lcl d = (LIBX52_ERROR_TRY_AGAIN, d)"
  | d' b where "set_clock_dev env time lcl d = (LIBX52_SUCCESS, d')" and "setter_step d d'"
      and "bit (update_mask d') b"
proof (cases "if lcl \<noteq> 0 then localtime_r env time else gmtime_r env time")
  case None
  with that(1) show ?thesis by (simp add: set_clock_dev_def)
next
  case (Some t)
  define tz where "tz = (if lcl \<noteq> 0 then local_tz_of env t else 0)"
  obtain u1 d1 where 1: "clock_update_date t d = (u1, d1)" by fastforce
  obtain u2 d2 where 2: "clock_update_time t d1 = (u2, d2)" by fastforce
  obtain u3 d3 where 3: "clock_update_zone tz d2 = (u3, d3)" by fastforce
  have r: "set_clock_dev env time lcl d =
      (if u1 \<or> u2 \<or> u3 then LIBX52_SUCCESS else LIBX52_ERROR_TRY_AGAIN, d3)"
    using Some 1 2 3 by (simp add: set_clock_dev_def tz_def [symmetric])
  have steps: "setter_step d d1" "setter_step d1 d2" "setter_step d2 d3"
    using setter_step_clock(1) [of d t] setter_step_clock(2) [of d1 t] setter_step_clock(3) [of d2 tz]
    by (simp_all add: 1 2 3)
  then have step: "setter_step d d3" by (blast intro: setter_step_trans)
  show ?thesis
  proof (cases "u1 \<or> u2 \<or> u3")
    case True
    have m: "u1 \<Longrightarrow> bit (update_mask d1) 27" "u2 \<Longrightarrow> bit (update_mask d2) 28"
      "u3 \<Longrightarrow> bit (update_mask d3) 29"
      using clock_updates_marked(1) [of t d] clock_updates_marked(2) [of t d1]
        clock_updates_marked(3) [of tz d2] by (simp_all add: 1 2 3)
    have "\<exists>b. bit (update_mask d3) b" using m steps True unfolding setter_step_def by blast
    with r True step that(3) show ?thesis by auto
  next
    case False
    then have "d1 = d" using clock_updates_unmarked(1) [of t d] by (simp add: 1)
    moreover have "d2 = d1" using clock_updates_unmarked(2) [of t d1] False by (simp add: 2)
    moreover have "d3 = d2" using clock_updates_unmarked(3) [of tz d2] False by (simp add: 3)
    ultimately have "d3 = d" by simp
    with r False that(2) show ?thesis by simp
  qed
qed

interpretation set_clock: x52_setter "set_clock_dev env time lcl" for env time lcl
proof
  fix d b
  show "fst (set_clock_dev env time lcl d) \<noteq> LIBX52_SUCCESS \<Longrightarrow> snd (set_clock_dev env time lcl d) = d"
    by (rule set_clock_cases [of env time lcl d]) simp_all
  show "same_conn d (snd (set_clock_dev env time lcl d))"
    by (rule set_clock_cases [of env time lcl d]) (simp_all add: setter_step_def)
  show "bit (update_mask d) b \<Longrightarrow> bit (update_mask (snd (set_clock_dev env time lcl d))) b"
    by (rule set_clock_cases [of env time lcl d]) (simp_all add: setter_step_def)
  show "dev_wf d \<Longrightarrow> dev_wf (snd (set_clock_dev env time lcl d))"
    by (rule set_clock_cases [of env time lcl d]) (simp_all add: setter_step_def)
  show "\<not> bit (update_mask (snd (set_clock_dev env time lcl d))) b \<Longrightarrow>
      packets (snd (set_clock_dev env time lcl d)) b = packets d b"
    by (rule set_clock_cases [of env time lcl d]) (simp_all add: setter_step_def)
  show "fst (set_clock_dev env time lcl d) = LIBX52_SUCCESS \<Longrightarrow>
      update_mask (snd (set_clock_dev env time lcl d)) \<noteq> 0"
    by (rule set_clock_cases [of env time lcl d]) auto
qed

section \<open>All calls\<close>

text \<open>The calls of the library's setters, with their arguments.\<close>

datatype x52_call =
    SetText u8 "nat \<Rightarrow> u8" u8
  | SetLedState int int
  | SetBrightness u8 u16
  | SetShift u8
  | SetBlink u8
  | SetClock clock_env int int
  | SetTime u8 u8
  | SetDate u8 u8 u8
  | SetClockTimezone int int
  | SetClockFormat int int
  | SetDateFormat int

fun call_dev :: "x52_call \<Rightarrow> libx52_device \<Rightarrow> libx52_error_code \<times> libx52_device" where
  "call_dev (SetText ln t len) = set_text_dev ln t len"
| "call_dev (SetLedState led state) = set_led_state_dev led state"
| "call_dev (SetBrightness mfd v) = set_brightness_dev mfd v"
| "call_dev (SetShift s) = set_shift_dev s"
| "call_dev (SetBlink s) = set_blink_dev s"
| "call_dev (SetClock env time lcl) = set_clock_dev env time lcl"
| "call_dev (SetTime h m) = set_time_dev h m"
| "call_dev (SetDate dd mm yy) = set_date_dev dd mm yy"
| "call_dev (SetClockTimezone c off) = set_clock_timezone_dev c off"
| "call_dev (SetClockFormat c f) = set_clock_format_dev c f"
| "call_dev (SetDateFormat f) = set_date_format_dev f"

interpretation call: x52_setter "call_dev c" for c
proof (cases c)
qed (simp_all add: set_text.x52_setter_axioms set_led_state.x52_setter_axioms
       set_brightness.x52_setter_axioms set_shift.x52_setter_axioms set_blink.x52_setter_axioms
       set_clock.x52_setter_axioms set_time.x52_setter_axioms set_date.x52_setter_axioms
       set_clock_timezone.x52_setter_axioms set_clock_format.x52_setter_axioms
       set_date_format.x52_setter_axioms)

text \<open>
  C6: every setter keeps its contract: on an error the device is unchanged; the connection
  is never touched; no mark is removed; a well-formed device stays well-formed; and an
  indicator that is not marked afterwards would be sent the same commands as before.
\<close>

theorem x52_call_contract:
  assumes "call_dev c d = (rc, d')"
  shows "(rc \<noteq> LIBX52_SUCCESS \<longrightarrow> d' = d) \<and> (rc = LIBX52_SUCCESS \<longrightarrow> marked d' \<noteq> [])
    \<and> same_conn d d' \<and> set (marked d) \<subseteq> set (marked d') \<and> (dev_wf d \<longrightarrow> dev_wf d')
    \<and> (\<forall>b. b \<notin> set (marked d') \<longrightarrow> packets d' b = packets d b)"
proof -
  have d': "d' = snd (call_dev c d)" and rc: "rc = fst (call_dev c d)" using assms by simp_all
  have "rc = LIBX52_SUCCESS \<Longrightarrow> \<exists>b. bit (update_mask d') b"
    using call.marks [of c d] unfolding d' rc by (metis bit_0_eq bit_eq_iff bot_apply bot_bool_def)
  then have "rc = LIBX52_SUCCESS \<Longrightarrow> set (marked d') \<noteq> {}" by (auto simp: set_marked)
  moreover have "\<forall>b. b \<notin> set (marked d') \<longrightarrow> packets d' b = packets d b"
    using call.tracked [of c d] by (simp add: set_marked d')
  ultimately show ?thesis
    using call.error_unchanged [of c d] call.keeps_conn [of d c] call.keeps_wf [of d c]
      call.marked_mono [of d c] unfolding d' rc by auto
qed

theorem x52_call_contract_witness:
  "dev_wf (snd (call_dev (SetClockTimezone 1 90) x52_calloc))
   \<and> same_conn x52_calloc (snd (call_dev (SetClockTimezone 1 90) x52_calloc))
   \<and> snd (call_dev (SetClockTimezone 1 1441) x52_calloc) = x52_calloc"
proof -
  have "fst (call_dev (SetClockTimezone 1 1441) x52_calloc) \<noteq> LIBX52_SUCCESS"
    by (simp add: set_clock_timezone_dev_def)
  with x52_call_contract [of "SetClockTimezone 1 90" x52_calloc]
    x52_call_contract [of "SetClockTimezone 1 1441" x52_calloc] dev_wf_calloc
  show ?thesis by (metis prod.collapse)
qed

end
