(* ===== verification/Libx52_Display.thy ===== *)
theory Libx52_Display
  imports Libx52_Contract
begin

text \<open>
  The end-to-end statement about libx52. \<open>apply_cmd\<close> is the joystick's side of the protocol: a
  display is a map from registers to the values they hold, a vendor command replaces the value
  of its register, and the lines of the MFD are cleared and appended to. An event is a call of
  a setter, an update, a poll of the connection or a disconnection, over a libusb whose
  transfers fail whenever its world says so. After any sequence of events an indicator that
  was ever marked is still marked or shows the setting the device record holds.
\<close>

section \<open>The display\<close>

type_synonym display = "nat \<Rightarrow> u16 list"

text \<open>The register of a command. LED commands carry the LED in the high byte of the value.\<close>

definition is_clear :: "u16 \<Rightarrow> bool" where
  "is_clear ix \<longleftrightarrow> ix = 0xd9 \<or> ix = 0xda \<or> ix = 0xdc"

definition is_append :: "u16 \<Rightarrow> bool" where
  "is_append ix \<longleftrightarrow> ix = X52_MFD_LINE1 \<or> ix = X52_MFD_LINE2 \<or> ix = X52_MFD_LINE3"

definition register :: "vendor_cmd \<Rightarrow> nat" where
  "register c = (if fst c = X52_LED then 256 + unat (drop_bit 8 (snd c))
     else if is_clear (fst c) then unat (fst c) - 8 else unat (fst c))"

definition apply_cmd :: "vendor_cmd \<Rightarrow> display \<Rightarrow> display" where
  "apply_cmd c D = D(register c :=
     (if is_clear (fst c) then []
      else if is_append (fst c) then D (register c) @ [snd c] else [snd c]))"

definition display_of :: "vendor_cmd list \<Rightarrow> display" where
  "display_of log = fold apply_cmd log (\<lambda>_. [])"

text \<open>The registers of an indicator, and what they hold when it shows the device's setting.\<close>

definition registers :: "nat \<Rightarrow> nat set" where
  "registers b =
     (if b = 0 then {0xfd} else if b \<le> 20 then {256 + b}
      else if b \<le> 23 then {unat (line_index_map ! (b - 21))}
      else if b = 24 then {0xb4} else if b = 25 then {0xb1} else if b = 26 then {0xb2}
      else if b = 27 then {0xc4, 0xc8} else if b = 28 then {0xc0} else if b = 29 then {0xc1}
      else if b = 30 then {0xc2} else {})"

definition displays :: "display \<Rightarrow> libx52_device \<Rightarrow> nat \<Rightarrow> bool" where
  "displays D d b \<longleftrightarrow> (\<forall>r \<in> registers b. D r = display_of (cmds d b) r)"

lemma led_cmd_register:
  assumes "b < 256"
  shows "unat (drop_bit 8 (snd (led_cmd d b))) = b"
proof -
  have b: "take_bit 8 b = b" using assms by (simp add: take_bit_nat_eq_self)
  have "drop_bit 8 (snd (led_cmd d b)) = (of_nat b :: u16)"
  proof (rule bit_word_eqI)
    fix n
    assume "n < LENGTH(16)"
    have "bit b n \<Longrightarrow> n < 8" by (metis b bit_take_bit_iff)
    with \<open>n < LENGTH(16)\<close> show "bit (drop_bit 8 (snd (led_cmd d b))) n = bit (of_nat b :: u16) n"
      by (auto simp: led_cmd_def bit_simps)
  qed
  then show ?thesis using assms by (simp add: unat_of_nat)
qed

text \<open>A case for every indicator that is sent in a way of its own.\<close>

lemma indicator_cases:
  obtains "b = 0" | "1 \<le> b" "b \<le> 20" | "b = 21" | "b = 22" | "b = 23" | "b = 24" | "b = 25"
    | "b = 26" | "b = 27" | "b = 28" | "b = 29" | "b = 30" | "30 < (b :: nat)"
proof (cases "b < 32")
  case True
  then show ?thesis
  proof (cases rule: less_32_cases)
    case 3
    then have "b = 21 \<or> b = 22 \<or> b = 23" by auto
    with that show ?thesis by blast
  qed (use that in simp_all)
qed (use that in simp)

lemma register_cmds: "c \<in> set (cmds d b) \<Longrightarrow> register c \<in> registers b"
proof (cases b rule: indicator_cases)
  case 2
  then have "unat (drop_bit 8 (snd (led_cmd d b))) = b" by (intro led_cmd_register) simp
  moreover assume "c \<in> set (cmds d b)"
  ultimately show ?thesis using 2
    by (simp add: cmds_def packets_def register_def registers_def led_cmd_def)
qed (auto simp: cmds_def packets_def register_def registers_def is_clear_def
      line_cmds_def line_index_map_def split: option.splits)

lemma registers_disjoint: "b \<noteq> c \<Longrightarrow> registers b \<inter> registers c = {}"
  by (cases b rule: indicator_cases; cases c rule: indicator_cases)
    (auto simp: registers_def line_index_map_def)

lemma apply_cmd_other: "register c \<noteq> r \<Longrightarrow> apply_cmd c D r = D r"
  by (simp add: apply_cmd_def)

lemma apply_cmd_same: "D r = E r \<Longrightarrow> apply_cmd c D r = apply_cmd c E r"
  by (auto simp: apply_cmd_def)

lemma fold_other_register:
  "(\<And>c. c \<in> set cs \<Longrightarrow> register c \<noteq> r) \<Longrightarrow> fold apply_cmd cs D r = D r"
  by (induction cs arbitrary: D) (simp_all add: apply_cmd_other)

lemma fold_same_register: "D r = E r \<Longrightarrow> fold apply_cmd cs D r = fold apply_cmd cs E r"
proof (induction cs arbitrary: D E)
  case (Cons c cs)
  have "apply_cmd c D r = apply_cmd c E r" using Cons.prems by (rule apply_cmd_same)
  then have "fold apply_cmd cs (apply_cmd c D) r = fold apply_cmd cs (apply_cmd c E) r"
    by (rule Cons.IH)
  then show ?case by simp
qed simp

text \<open>Sending an indicator in full determines its registers, whatever they held before.\<close>

lemma clear_determines:
  assumes "is_clear (fst c)" and "register c = r"
  shows "fold apply_cmd (c # cs) D r = fold apply_cmd (c # cs) E r"
proof -
  have "apply_cmd c D r = apply_cmd c E r" using assms by (simp add: apply_cmd_def)
  then have "fold apply_cmd cs (apply_cmd c D) r = fold apply_cmd cs (apply_cmd c E) r"
    by (rule fold_same_register)
  then show ?thesis by simp
qed

lemma line_determines:
  assumes "li < 3"
  shows "fold apply_cmd (line_cmds li l) D (unat (line_index_map ! li)) =
    fold apply_cmd (line_cmds li l) E (unat (line_index_map ! li))"
proof -
  have "li = 0 \<or> li = 1 \<or> li = 2" using assms by auto
  then show ?thesis unfolding line_cmds_def
    by (intro clear_determines) (auto simp: is_clear_def register_def line_index_map_def)
qed

lemma cmds_determine:
  assumes "packets d b \<noteq> None" and "r \<in> registers b"
  shows "fold apply_cmd (cmds d b) D r = display_of (cmds d b) r"
proof (cases "21 \<le> b \<and> b \<le> 23")
  case True
  then have "cmds d b = line_cmds (b - 21) (line d ! (b - 21))" and "r = unat (line_index_map ! (b - 21))"
    using assms by (simp_all add: cmds_def packets_def registers_def)
  moreover have "b - 21 < 3" using True by auto
  ultimately show ?thesis using line_determines by (simp only: display_of_def)
next
  case False
  then show ?thesis
  proof (cases b rule: indicator_cases)
    case 2
    then have "unat (drop_bit 8 (snd (led_cmd d b))) = b" by (intro led_cmd_register) simp
    with 2 assms show ?thesis
      by (simp add: cmds_def packets_def register_def registers_def led_cmd_def display_of_def
          apply_cmd_def is_clear_def is_append_def)
  qed (use assms in \<open>auto simp: cmds_def packets_def register_def registers_def display_of_def
        apply_cmd_def is_clear_def is_append_def split: option.splits\<close>)
qed

lemma cmds_elsewhere:
  assumes "b \<noteq> c" and "r \<in> registers b"
  shows "fold apply_cmd (take k (cmds d c)) D r = D r"
  using assms registers_disjoint [OF assms(1)]
  by (intro fold_other_register) (metis IntI empty_iff in_set_takeD register_cmds)

section \<open>What one update leaves on the display\<close>

lemma display_append: "display_of (xs @ ys) = fold apply_cmd ys (display_of xs)"
  by (simp add: display_of_def)

text \<open>A list of indicators sent in full: those in it are shown, the others keep their registers.\<close>

lemma fold_concat_elsewhere:
  "b \<notin> set bs \<Longrightarrow> r \<in> registers b \<Longrightarrow> fold apply_cmd (concat (map (cmds d) bs)) D r = D r"
proof (induction bs arbitrary: D)
  case (Cons c bs)
  then have "fold apply_cmd (cmds d c) D r = D r"
    using cmds_elsewhere [of b c r "length (cmds d c)" d D] by simp
  with Cons show ?case by simp
qed simp

lemma fold_concat_displays:
  assumes "distinct bs" and "b \<in> set bs" and "\<forall>c \<in> set bs. packets d c \<noteq> None"
  shows "displays (fold apply_cmd (concat (map (cmds d) bs)) D) d b"
  using assms
proof (induction bs arbitrary: D)
  case (Cons c bs)
  show ?case
  proof (cases "b = c")
    case True
    with Cons.prems have "fold apply_cmd (concat (map (cmds d) bs)) E r = E r"
      if "r \<in> registers b" for E r
      using that by (intro fold_concat_elsewhere [of b]) auto
    with True Cons.prems show ?thesis by (simp add: displays_def cmds_determine)
  next
    case False
    with Cons show ?thesis by simp
  qed
qed simp

lemma displays_elsewhere:
  assumes "displays D d b" and "b \<noteq> c"
  shows "displays (fold apply_cmd (take k (cmds d c)) D) d b"
  using assms cmds_elsewhere [OF assms(2)] by (simp add: displays_def)

text \<open>An indicator is in sync when it is marked or shows the device's setting.\<close>

definition synced :: "display \<Rightarrow> libx52_device \<Rightarrow> nat \<Rightarrow> bool" where
  "synced D d b \<longleftrightarrow> b \<in> set (marked d) \<or> displays D d b"

lemma packets_dropped: "packets (dropped d) b = packets d b"
  by (rule packets_cong) (simp_all add: dropped_def)

lemma conn_step_packets: "conn_step d d' \<Longrightarrow> packets d' = packets d"
  by (rule ext) (auto simp: conn_step_def packets_dropped)

lemma conn_step_marked: "conn_step d d' \<Longrightarrow> marked d' = marked d"
  by (auto simp: conn_step_def dropped_def marked_def)

lemma displays_cong: "displays D d b \<Longrightarrow> packets d' b = packets d b \<Longrightarrow> displays D d' b"
  by (simp add: displays_def cmds_def)

lemma distinct_marked [simp]: "distinct (marked d)"
  by (simp add: marked_def marked_in_def)

lemma synced_update:
  assumes "libx52_update (logged U) d w = (rc, d', w')" and "synced (display_of (snd w)) d b"
  shows "synced (display_of (snd w')) d' b"
proof (cases "hdl d")
  case None
  with assms show ?thesis by (simp add: libx52_update_def)
next
  case (Some h)
  from update_cases [OF this assms(1)] obtain sent where l: "snd w' = snd w @ sent"
    and c: "if rc = LIBX52_SUCCESS
      then d' = d\<lparr>update_mask := 0\<rparr> \<and> sent = concat (map (cmds d) (marked d))
         \<and> (\<forall>b \<in> set (marked d). packets d b \<noteq> None)
      else loop_failed (update_mask d) [0..<32] (d\<lparr>update_mask := 0\<rparr>) rc d' sent" by blast
  define D where "D = display_of (snd w)"
  have D': "display_of (snd w') = fold apply_cmd sent D" by (simp add: l display_append D_def)
  show ?thesis
  proof (cases "rc = LIBX52_SUCCESS")
    case True
    with c have d': "d' = d\<lparr>update_mask := 0\<rparr>" and s: "sent = concat (map (cmds d) (marked d))"
      and p: "\<forall>b \<in> set (marked d). packets d b \<noteq> None" by auto
    have "displays (fold apply_cmd sent D) d b"
    proof (cases "b \<in> set (marked d)")
      case True
      with p show ?thesis unfolding s by (intro fold_concat_displays) auto
    next
      case False
      with assms(2) have "displays D d b" by (simp add: synced_def D_def)
      with False show ?thesis unfolding s displays_def by (simp add: fold_concat_elsewhere)
    qed
    moreover have "packets d' b = packets d b" by (simp add: d')
    ultimately have "displays (fold apply_cmd sent D) d' b" by (rule displays_cong)
    then show ?thesis by (simp add: synced_def D')
  next
    case False
    with c have "loop_failed (update_mask d) [0..<32] (d\<lparr>update_mask := 0\<rparr>) rc d' sent" by simp
    then obtain pre i post k where m: "marked d = pre @ i # post" "marked d' = i # post"
      and s: "sent = concat (map (cmds d) pre) @ take k (cmds d i)"
      and p: "\<forall>b \<in> set pre. packets d b \<noteq> None"
      and cs: "conn_step (d\<lparr>update_mask := update_mask d'\<rparr>) d'"
      by (rule failed_marked)
    have pk: "packets d' = packets d" using conn_step_packets [OF cs] by simp
    have dist: "distinct pre" "i \<notin> set pre" using distinct_marked [of d] by (auto simp: m)
    show ?thesis
    proof (cases "b \<in> set (i # post)")
      case True
      then show ?thesis by (simp add: synced_def m)
    next
      case nm: False
      have "displays (fold apply_cmd (concat (map (cmds d) pre)) D) d b"
      proof (cases "b \<in> set pre")
        case True
        with p dist show ?thesis by (intro fold_concat_displays) auto
      next
        case False
        with nm m assms(2) have "displays D d b" by (auto simp: synced_def D_def)
        with False show ?thesis unfolding displays_def by (simp add: fold_concat_elsewhere)
      qed
      with nm have "displays (fold apply_cmd sent D) d b"
        unfolding s by (simp add: displays_elsewhere)
      moreover have "packets d' b = packets d b" by (simp add: pk)
      ultimately have "displays (fold apply_cmd sent D) d' b" by (rule displays_cong)
      then show ?thesis by (simp add: synced_def D')
    qed
  qed
qed

section \<open>Sequences of events\<close>

datatype x52_event = Call x52_call | Update | Poll | Disconnect

fun event_step :: "'w libusb \<Rightarrow> x52_event \<Rightarrow> libx52_device \<times> 'w \<Rightarrow> libx52_device \<times> 'w" where
  "event_step U (Call c) (d, w) = (snd (call_dev c d), w)"
| "event_step U Update (d, w) = snd (libx52_update U d w)"
| "event_step U Poll (d, w) =
     (let (b, d', w') = libx52_is_connected U (Some d) w in (the d', w'))"
| "event_step U Disconnect (d, w) = disconnect_dev U d w"

definition run_events :: "'w libusb \<Rightarrow> x52_event list \<Rightarrow> libx52_device \<times> 'w \<Rightarrow> libx52_device \<times> 'w" where
  "run_events U es s = fold (event_step U) es s"

text \<open>The indicators that are marked at some point of a sequence.\<close>

fun touched :: "'w libusb \<Rightarrow> x52_event list \<Rightarrow> libx52_device \<times> 'w \<Rightarrow> nat set" where
  "touched U [] s = set (marked (fst s))"
| "touched U (e # es) s = set (marked (fst s)) \<union> touched U es (event_step U e s)"

lemma disconnect_dev_log: "snd (snd (disconnect_dev (logged U) d w)) = snd w"
  by (simp add: disconnect_dev_def logged.closed split: option.split)

lemma callback_step:
  "conn_step d (fst (snd (x52_hotplug_callback (logged U) ev d w)))
   \<and> snd (snd (snd (x52_hotplug_callback (logged U) ev d w))) = snd w"
proof -
  have "conn_step d (fst (disconnect_dev (logged U) d w))" by (rule disconnect_dev_step)
  with disconnect_dev_log [of U d w] show ?thesis
    by (simp add: x52_hotplug_callback_def libx52_disconnect_def split_beta Let_def)
qed

lemma conn_step_trans: "conn_step d e \<Longrightarrow> conn_step e f \<Longrightarrow> conn_step d f"
  by (auto simp: conn_step_def dropped_def)

lemma run_callbacks_step:
  "conn_step d (fst (run_callbacks (logged U) evs d w))
   \<and> snd (snd (run_callbacks (logged U) evs d w)) = snd w"
  unfolding run_callbacks_def
proof (induction evs arbitrary: d w)
  case (Cons ev evs)
  obtain d' w' where s: "snd (x52_hotplug_callback (logged U) ev d w) = (d', w')" by (rule prod.exhaust)
  with callback_step [of d U ev w] have "conn_step d d'" "snd w' = snd w" by auto
  with Cons.IH [of d' w'] s show ?case by (auto intro: conn_step_trans)
qed simp

lemma poll_step:
  assumes "event_step (logged U) Poll (d, w) = (d', w')"
  shows "conn_step d d' \<and> snd w' = snd w"
proof -
  obtain evs w1 where h: "handle_events (logged U) (ctx d) w = (evs, w1)" by (rule prod.exhaust)
  obtain d2 w2 where r: "run_callbacks (logged U) evs d w1 = (d2, w2)" by (rule prod.exhaust)
  from h have "snd w1 = snd w" by (auto simp: logged_def lift_w_def Let_def split: prod.splits)
  moreover from run_callbacks_step [of d U evs w1] r have "conn_step d d2" "snd w2 = snd w1" by auto
  moreover have "d' = d2 \<and> snd w' = snd w2"
    using assms h r
    by (auto simp: libx52_is_connected_def logged_def lift_w_def Let_def
        split: option.splits if_splits prod.splits)
  ultimately show ?thesis by simp
qed

lemma synced_cong:
  assumes "synced D d b" and "set (marked d) \<subseteq> set (marked d')"
    and "b \<notin> set (marked d') \<Longrightarrow> packets d' b = packets d b"
  shows "synced D d' b"
  using assms displays_cong [of D d b d'] unfolding synced_def by blast

lemma synced_conn_step: "conn_step d d' \<Longrightarrow> synced D d b \<Longrightarrow> synced D d' b"
  by (erule synced_cong) (simp_all add: conn_step_marked conn_step_packets)

lemma synced_call: "synced D d b \<Longrightarrow> synced D (snd (call_dev c d)) b"
  by (erule synced_cong) (simp_all add: call.marked_mono, simp add: call.tracked set_marked)

lemma synced_event:
  assumes "event_step (logged U) e (d, w) = (d', w')" and "synced (display_of (snd w)) d b"
  shows "synced (display_of (snd w')) d' b"
proof (cases e)
  case (Call c)
  with assms show ?thesis by (auto intro: synced_call)
next
  case Update
  obtain rc d2 w2 where "libx52_update (logged U) d w = (rc, d2, w2)" by (metis prod_cases3)
  with Update assms(1) have "libx52_update (logged U) d w = (rc, d', w')" by simp
  from synced_update [OF this assms(2)] show ?thesis .
next
  case Poll
  with assms(1) have "conn_step d d'" and l: "snd w' = snd w" using poll_step by blast+
  with synced_conn_step [OF this(1) assms(2)] show ?thesis by simp
next
  case Disconnect
  with assms(1) have e: "disconnect_dev (logged U) d w = (d', w')" by simp
  have "conn_step d d'" and l: "snd w' = snd w"
    using disconnect_dev_step [of d "logged U" w] disconnect_dev_log [of U d w] by (simp_all add: e)
  with synced_conn_step [OF this(1) assms(2)] show ?thesis by simp
qed

lemma synced_events:
  assumes "run_events (logged U) es (d, w) = (d', w')"
    and "synced (display_of (snd w)) d b \<or> b \<in> touched (logged U) es (d, w)"
  shows "synced (display_of (snd w')) d' b"
  using assms
proof (induction es arbitrary: d w)
  case Nil
  then show ?case by (auto simp: run_events_def synced_def)
next
  case (Cons e es)
  obtain d1 w1 where s: "event_step (logged U) e (d, w) = (d1, w1)" by (rule prod.exhaust)
  with Cons.prems(1) have r: "run_events (logged U) es (d1, w1) = (d', w')" by (simp add: run_events_def)
  from Cons.prems(2) have "synced (display_of (snd w)) d b \<or> b \<in> touched (logged U) es (d1, w1)"
    by (auto simp: s synced_def)
  then have "synced (display_of (snd w1)) d1 b \<or> b \<in> touched (logged U) es (d1, w1)"
    using synced_event [OF s] by blast
  with Cons.IH [OF r] show ?case .
qed

text \<open>
  C2: take any sequence of setter calls, updates, connection polls and disconnections, in
  which transfers may fail at any point. If an update then succeeds, every indicator that was
  marked at any time of the sequence shows on the joystick exactly the value of the device
  record, whatever the display held in between and however many updates were cut short.
\<close>

theorem display_mirrors_device:
  assumes "run_events (logged U) es (d, w) = (d1, w1)"
    and "libx52_update (logged U) d1 w1 = (LIBX52_SUCCESS, d2, w2)"
    and "b \<in> touched (logged U) es (d, w)"
  shows "displays (display_of (snd w2)) d2 b"
proof -
  have "synced (display_of (snd w1)) d1 b" using synced_events [OF assms(1)] assms(3) by blast
  then have s: "synced (display_of (snd w2)) d2 b" by (rule synced_update [OF assms(2)])
  have "update_mask d2 = 0"
  proof (cases "hdl d1")
    case None
    with assms(2) show ?thesis by (simp add: libx52_update_def)
  next
    case (Some h)
    from update_cases [OF this assms(2)] show ?thesis by auto
  qed
  with s show ?thesis by (auto simp: synced_def set_marked)
qed

text \<open>
  A run in which the first update is cut short: \<open>flaky\<close> is the stub with a transfer timing out
  for each entry that is left in the world's list of outcomes.
\<close>

definition flaky :: "stub_world libusb" where
  "flaky = stub\<lparr>control_transfer := (\<lambda>h rt rq v ix dat len t w. case stub_calloc w of
     [] \<Rightarrow> stub_control_transfer h rt rq v ix dat len t w
   | x # xs \<Rightarrow> (LIBUSB_ERROR_TIMEOUT, w\<lparr>stub_calloc := xs\<rparr>))\<rparr>"

definition flaky_run :: "libx52_device \<times> stub_world \<times> vendor_cmd list" where
  "flaky_run = run_events (logged flaky)
     [Call (SetShift 1), Call (SetDate 31 12 99), Update, Call (SetDateFormat 2), Poll]
     (opened_dev, stub_opened\<lparr>stub_calloc := replicate 3 True\<rparr>, [])"

lemma flaky_run_marked: "marked (fst flaky_run) = [0, 27]"
  by code_simp

lemma flaky_run_update: "fst (libx52_update (logged flaky) (fst flaky_run) (snd flaky_run)) = LIBX52_SUCCESS"
  by code_simp

theorem display_mirrors_device_witness:
  "\<exists>D d2. displays D d2 27 \<and> cmds d2 27 = [(X52_DATE_DDMM, 0x0c63), (X52_DATE_YEAR, 31)]"
proof -
  let ?es = "[Call (SetShift 1), Call (SetDate 31 12 99), Update, Call (SetDateFormat 2), Poll]"
  let ?s = "(opened_dev, stub_opened\<lparr>stub_calloc := replicate 3 True\<rparr>, [])"
  obtain d1 w1 where r: "flaky_run = (d1, w1)" by (rule prod.exhaust)
  obtain rc d2 w2 where u: "libx52_update (logged flaky) d1 w1 = (rc, d2, w2)" by (metis prod_cases3)
  have "rc = LIBX52_SUCCESS" using flaky_run_update unfolding r fst_conv snd_conv u .
  note u' = u [unfolded this]
  have "27 \<in> touched (logged flaky) ?es ?s" by code_simp
  from display_mirrors_device [OF r [unfolded flaky_run_def] u' this]
  have "displays (display_of (snd w2)) d2 27" .
  moreover have "cmds (fst (snd (libx52_update (logged flaky) (fst flaky_run) (snd flaky_run)))) 27
      = [(X52_DATE_DDMM, 0x0c63), (X52_DATE_YEAR, 31)]" by code_simp
  then have "cmds d2 27 = [(X52_DATE_DDMM, 0x0c63), (X52_DATE_YEAR, 31)]" by (simp add: r u)
  ultimately show ?thesis by blast
qed

end
