(* ===== verification/X52d_Device.thy ===== *)
theory X52d_Device
  imports Libx52_Display
begin

text \<open>
  The device manager of the daemon (\<open>daemon/x52d_device.c\<close>): the wrappers around the setters of
  libx52, each under the device mutex, the update, and the thread that connects the joystick
  and updates it when \<open>device_update_needed\<close> is set. The thread is its rounds; sleeping and log
  messages are left out. A round applies the configuration through a parameter, which
  \<open>X52d_Settings\<close> instantiates.

  The last section splits the operations where they release the mutex and interleaves them.
\<close>

section \<open>State\<close>

text \<open>\<open>dm_notes\<close> lists the notifications sent, each with its arguments.\<close>

record dev_manager =
  dm_dev :: libx52_device
  dm_update_needed :: bool
  dm_notes :: "string list list"

section \<open>Wrappers\<close>

definition wrap_libx52 ::
  "(libx52_device option \<Rightarrow> libx52_error_code \<times> libx52_device option) \<Rightarrow>
   'a dev_manager_scheme \<Rightarrow> libx52_error_code \<times> 'a dev_manager_scheme" where
  "wrap_libx52 func s =
     (let (rc, x52) = func (Some (dm_dev s));
          s1 = s\<lparr>dm_dev := the x52\<rparr>
      in (rc, if rc \<noteq> LIBX52_SUCCESS then s1 else s1\<lparr>dm_update_needed := True\<rparr>))"

definition x52d_dev_set_text ::
  "u8 \<Rightarrow> (nat \<Rightarrow> u8) option \<Rightarrow> u8 \<Rightarrow> 'a dev_manager_scheme \<Rightarrow> libx52_error_code \<times> 'a dev_manager_scheme" where
  "x52d_dev_set_text ln txt len = wrap_libx52 (\<lambda>x52. libx52_set_text x52 ln txt len)"

definition x52d_dev_set_led_state ::
  "int \<Rightarrow> int \<Rightarrow> 'a dev_manager_scheme \<Rightarrow> libx52_error_code \<times> 'a dev_manager_scheme" where
  "x52d_dev_set_led_state led state s =
     (if libx52_check_feature (Some (dm_dev s)) (feature_code LIBX52_FEATURE_LED)
           \<noteq> LIBX52_ERROR_NOT_SUPPORTED
      then wrap_libx52 (\<lambda>x52. libx52_set_led_state x52 led state) s
      else (LIBX52_SUCCESS, s))"

definition x52d_dev_set_clock ::
  "clock_env \<Rightarrow> int \<Rightarrow> int \<Rightarrow> 'a dev_manager_scheme \<Rightarrow> libx52_error_code \<times> 'a dev_manager_scheme" where
  "x52d_dev_set_clock env t lcl = wrap_libx52 (\<lambda>x52. libx52_set_clock env x52 t lcl)"

definition x52d_dev_set_clock_timezone ::
  "int \<Rightarrow> int \<Rightarrow> 'a dev_manager_scheme \<Rightarrow> libx52_error_code \<times> 'a dev_manager_scheme" where
  "x52d_dev_set_clock_timezone clock offset = wrap_libx52 (\<lambda>x52. libx52_set_clock_timezone x52 clock offset)"

definition x52d_dev_set_clock_format ::
  "int \<Rightarrow> int \<Rightarrow> 'a dev_manager_scheme \<Rightarrow> libx52_error_code \<times> 'a dev_manager_scheme" where
  "x52d_dev_set_clock_format clock fmt = wrap_libx52 (\<lambda>x52. libx52_set_clock_format x52 clock fmt)"

definition x52d_dev_set_time ::
  "u8 \<Rightarrow> u8 \<Rightarrow> 'a dev_manager_scheme \<Rightarrow> libx52_error_code \<times> 'a dev_manager_scheme" where
  "x52d_dev_set_time hour minute = wrap_libx52 (\<lambda>x52. libx52_set_time x52 hour minute)"

definition x52d_dev_set_date ::
  "u8 \<Rightarrow> u8 \<Rightarrow> u8 \<Rightarrow> 'a dev_manager_scheme \<Rightarrow> libx52_error_code \<times> 'a dev_manager_scheme" where
  "x52d_dev_set_date dd mm yy = wrap_libx52 (\<lambda>x52. libx52_set_date x52 dd mm yy)"

definition x52d_dev_set_date_format ::
  "int \<Rightarrow> 'a dev_manager_scheme \<Rightarrow> libx52_error_code \<times> 'a dev_manager_scheme" where
  "x52d_dev_set_date_format fmt = wrap_libx52 (\<lambda>x52. libx52_set_date_format x52 fmt)"

definition x52d_dev_set_brightness ::
  "u8 \<Rightarrow> u16 \<Rightarrow> 'a dev_manager_scheme \<Rightarrow> libx52_error_code \<times> 'a dev_manager_scheme" where
  "x52d_dev_set_brightness mfd v = wrap_libx52 (\<lambda>x52. libx52_set_brightness x52 mfd v)"

definition x52d_dev_set_shift ::
  "u8 \<Rightarrow> 'a dev_manager_scheme \<Rightarrow> libx52_error_code \<times> 'a dev_manager_scheme" where
  "x52d_dev_set_shift state = wrap_libx52 (\<lambda>x52. libx52_set_shift x52 state)"

definition x52d_dev_set_blink ::
  "u8 \<Rightarrow> 'a dev_manager_scheme \<Rightarrow> libx52_error_code \<times> 'a dev_manager_scheme" where
  "x52d_dev_set_blink state = wrap_libx52 (\<lambda>x52. libx52_set_blink x52 state)"

section \<open>Updating\<close>

definition x52d_dev_update ::
  "'w libusb \<Rightarrow> 'a dev_manager_scheme \<Rightarrow> 'w \<Rightarrow> libx52_error_code \<times> 'a dev_manager_scheme \<times> 'w" where
  "x52d_dev_update U s w =
     (let (rc, d1, w1) = libx52_update U (dm_dev s) w;
          s1 = s\<lparr>dm_dev := d1\<rparr>
      in if rc \<noteq> LIBX52_SUCCESS then
           (if rc = LIBX52_ERROR_NO_DEVICE then
              (let (_, x52, w2) = libx52_disconnect U (Some d1) w1
               in (rc, s1\<lparr>dm_dev := the x52, dm_notes := dm_notes s @ [[''DISCONNECTED'']]\<rparr>, w2))
            else (rc, s1, w1))
         else (rc, s1\<lparr>dm_update_needed := False\<rparr>, w1))"

section \<open>The thread\<close>

text \<open>One round of \<open>x52_dev_thr\<close>; \<open>apply_config\<close> is \<open>x52d_config_apply\<close>.\<close>

definition x52_dev_round ::
  "'w libusb \<Rightarrow> ('a dev_manager_scheme \<Rightarrow> 'a dev_manager_scheme) \<Rightarrow>
   'a dev_manager_scheme \<Rightarrow> 'w \<Rightarrow> 'a dev_manager_scheme \<times> 'w" where
  "x52_dev_round U apply_config s w =
     (let (connected, x52, w1) = libx52_is_connected U (Some (dm_dev s)) w;
          s1 = s\<lparr>dm_dev := the x52\<rparr>
      in if \<not> connected then
           (let (rc, x52', w2) = libx52_connect U (Some (dm_dev s1)) w1;
                s2 = s1\<lparr>dm_dev := the x52'\<rparr>
            in if rc \<noteq> LIBX52_SUCCESS then (s2, w2)
               else (apply_config (s2\<lparr>dm_notes := dm_notes s @ [[''CONNECTED'']]\<rparr>), w2))
         else if \<not> dm_update_needed s1 then (s1, w1)
         else snd (x52d_dev_update U s1 w1))"

text \<open>The daemon leaves with status 1 when libx52 cannot be initialised.\<close>

definition x52d_dev_init :: "'w libusb \<Rightarrow> bool \<Rightarrow> 'w \<Rightarrow> (dev_manager \<times> 'w) proc" where
  "x52d_dev_init U alloc w =
     (case libx52_init U True alloc w of
        (rc, x52, w1) \<Rightarrow>
          if rc \<noteq> LIBX52_SUCCESS then Exit 1
          else Go (\<lparr>dm_dev = the x52, dm_update_needed = False, dm_notes = []\<rparr>, w1))"

definition x52d_dev_exit :: "'w libusb \<Rightarrow> 'a dev_manager_scheme \<Rightarrow> 'w \<Rightarrow> 'w option" where
  "x52d_dev_exit U s w = libx52_exit U (Some (dm_dev s)) w"

section \<open>All wrappers as one operation\<close>

fun x52d_dev_call :: "x52_call \<Rightarrow> 'a dev_manager_scheme \<Rightarrow> libx52_error_code \<times> 'a dev_manager_scheme" where
  "x52d_dev_call (SetText ln t len) = x52d_dev_set_text ln (Some t) len"
| "x52d_dev_call (SetLedState led state) = x52d_dev_set_led_state led state"
| "x52d_dev_call (SetBrightness mfd v) = x52d_dev_set_brightness mfd v"
| "x52d_dev_call (SetShift st) = x52d_dev_set_shift st"
| "x52d_dev_call (SetBlink st) = x52d_dev_set_blink st"
| "x52d_dev_call (SetClock env t lcl) = x52d_dev_set_clock env t lcl"
| "x52d_dev_call (SetTime h m) = x52d_dev_set_time h m"
| "x52d_dev_call (SetDate dd mm yy) = x52d_dev_set_date dd mm yy"
| "x52d_dev_call (SetClockTimezone c off) = x52d_dev_set_clock_timezone c off"
| "x52d_dev_call (SetClockFormat c f) = x52d_dev_set_clock_format c f"
| "x52d_dev_call (SetDateFormat f) = x52d_dev_set_date_format f"

text \<open>
  A wrapper is the setter of libx52 with the flag raised on success; setting an LED that the
  joystick does not have is a success that changes nothing.
\<close>

lemma wrap_with_dev:
  "wrap_libx52 (with_dev f) s =
     (fst (f (dm_dev s)),
      if fst (f (dm_dev s)) = LIBX52_SUCCESS
      then s\<lparr>dm_dev := snd (f (dm_dev s)), dm_update_needed := True\<rparr>
      else s\<lparr>dm_dev := snd (f (dm_dev s))\<rparr>)"
  by (simp add: wrap_libx52_def)

lemmas dev_set_defs = x52d_dev_set_text_def x52d_dev_set_clock_def x52d_dev_set_clock_timezone_def
  x52d_dev_set_clock_format_def x52d_dev_set_time_def x52d_dev_set_date_def x52d_dev_set_date_format_def
  x52d_dev_set_brightness_def x52d_dev_set_shift_def x52d_dev_set_blink_def

lemmas libx52_set_defs = libx52_set_text_def libx52_set_clock_def libx52_set_clock_timezone_def
  libx52_set_clock_format_def libx52_set_time_def libx52_set_date_def libx52_set_date_format_def
  libx52_set_brightness_def libx52_set_shift_def libx52_set_blink_def libx52_set_led_state_def

lemma check_feature_led:
  "libx52_check_feature (Some d) 0 =
     (if bit (flags d) X52_FLAG_IS_PRO then LIBX52_SUCCESS else LIBX52_ERROR_NOT_SUPPORTED)"
  using feature.enum_of_code [of LIBX52_FEATURE_LED]
  by (simp add: libx52_check_feature_def check_feature_dev_def x52_bit_simps)

lemma set_led_not_pro:
  "\<not> bit (flags d) X52_FLAG_IS_PRO \<Longrightarrow> set_led_state_dev led state d = (LIBX52_ERROR_NOT_SUPPORTED, d)"
  using check_feature_led [of d] by (simp add: set_led_state_dev_def libx52_check_feature_def)

lemma dev_same [simp]: "s\<lparr>dm_dev := dm_dev s\<rparr> = s"
  by simp

lemma dev_call_eq:
  "snd (x52d_dev_call c s) =
     (if fst (call_dev c (dm_dev s)) = LIBX52_SUCCESS
      then s\<lparr>dm_dev := snd (call_dev c (dm_dev s)), dm_update_needed := True\<rparr>
      else s\<lparr>dm_dev := snd (call_dev c (dm_dev s))\<rparr>)"
proof (cases c)
  case (SetLedState led state)
  then show ?thesis
    by (simp add: x52d_dev_set_led_state_def check_feature_led set_led_not_pro wrap_with_dev
        libx52_set_led_state_def)
qed (simp_all add: dev_set_defs libx52_set_defs wrap_with_dev)

section \<open>Marked means flagged\<close>

text \<open>
  The invariant of the device manager, for an indicator \<open>b\<close> and what the joystick shows: marked
  indicators raise the flag, and \<open>b\<close> is marked or shown.
\<close>

definition flag_ok :: "'a dev_manager_scheme \<Rightarrow> bool" where
  "flag_ok s \<longleftrightarrow> (marked (dm_dev s) \<noteq> [] \<longrightarrow> dm_update_needed s)"

definition dev_ok :: "display \<Rightarrow> nat \<Rightarrow> 'a dev_manager_scheme \<Rightarrow> bool" where
  "dev_ok D b s \<longleftrightarrow> flag_ok s \<and> synced D (dm_dev s) b"

lemma dev_ok_quiet: "dev_ok D b s \<Longrightarrow> \<not> dm_update_needed s \<Longrightarrow> displays D (dm_dev s) b"
  by (auto simp: dev_ok_def flag_ok_def synced_def)

text \<open>A change of the connection: the settings and the marks stay.\<close>

definition same_settings :: "libx52_device \<Rightarrow> libx52_device \<Rightarrow> bool" where
  "same_settings d d' \<longleftrightarrow>
     (\<exists>h f r n. d' = d\<lparr>hdl := h, flags := f, handle_registered := r, hotplug_handle := n\<rparr>)"

lemma same_settings_refl [simp]: "same_settings d d"
proof -
  have "d = d\<lparr>hdl := hdl d, flags := flags d, handle_registered := handle_registered d,
      hotplug_handle := hotplug_handle d\<rparr>" by simp
  then show ?thesis unfolding same_settings_def by blast
qed

lemma same_settings_trans: "same_settings d e \<Longrightarrow> same_settings e f \<Longrightarrow> same_settings d f"
  unfolding same_settings_def by force

lemma conn_step_settings: "conn_step d d' \<Longrightarrow> same_settings d d'"
proof -
  have "dropped d = d\<lparr>hdl := None, flags := 0, handle_registered := False,
      hotplug_handle := hotplug_handle d\<rparr>" by (simp add: dropped_def)
  then have "same_settings d (dropped d)" unfolding same_settings_def by blast
  then show "conn_step d d' \<Longrightarrow> same_settings d d'" by (auto simp: conn_step_def)
qed

lemma same_settings_marked: "same_settings d d' \<Longrightarrow> marked d' = marked d"
  by (auto simp: same_settings_def marked_def)

lemma same_settings_packets: "same_settings d d' \<Longrightarrow> packets d' b = packets d b"
  by (rule packets_cong) (auto simp: same_settings_def)

lemma dev_ok_settings:
  assumes "dev_ok D b s" and "same_settings (dm_dev s) d'"
    and "dm_dev s' = d'" and "dm_update_needed s' = dm_update_needed s"
  shows "dev_ok D b s'"
proof -
  have m: "marked d' = marked (dm_dev s)" using assms(2) by (rule same_settings_marked)
  have "synced D d' b"
    using assms(1) by (intro synced_cong [of D "dm_dev s" b d'])
      (simp_all add: dev_ok_def m same_settings_packets [OF assms(2)])
  with assms m show ?thesis by (simp add: dev_ok_def flag_ok_def)
qed

lemma connect_loop_settings:
  "connect_loop (logged U) ds d w = (r, d', w') \<Longrightarrow> same_settings d d' \<and> snd w' = snd w"
proof (induction ds arbitrary: w)
  case (Cons dv ds)
  obtain desc w1 where g: "get_device_descriptor (logged U) dv w = (desc, w1)" by (rule prod.exhaust)
  then have w1: "snd w1 = snd w" by (auto simp: logged_def lift_w_def Let_def split: prod.splits)
  obtain o' w2 where o: "usb_open (logged U) dv w1 = (o', w2)" by (rule prod.exhaust)
  then have w2: "snd w2 = snd w1" by (auto simp: logged_def lift_w_def Let_def split: prod.splits)
  have "same_settings d (d\<lparr>hdl := h, flags := f\<rparr>)" "same_settings d (d\<lparr>hdl := h\<rparr>)" for h f
  proof -
    have "d\<lparr>hdl := h, flags := f\<rparr> = d\<lparr>hdl := h, flags := f, handle_registered := handle_registered d,
        hotplug_handle := hotplug_handle d\<rparr>" for f by simp
    then show "same_settings d (d\<lparr>hdl := h, flags := f\<rparr>)" for f unfolding same_settings_def by blast
    from this [of "flags d"] show "same_settings d (d\<lparr>hdl := h\<rparr>)" by simp
  qed
  with Cons.prems Cons.IH [of w1] w1 w2 show ?case
    by (auto simp: g o split: sum.splits if_splits)
qed simp

lemma connect_settings:
  assumes "connect_dev (logged U) d w = (rc, d', w')"
  shows "same_settings d d' \<and> snd w' = snd w"
proof -
  obtain d1 w1 where d1: "disconnect_dev (logged U) d w = (d1, w1)" by (rule prod.exhaust)
  then have s1: "same_settings d d1" "snd w1 = snd w"
    using disconnect_dev_step [of d "logged U" w] disconnect_dev_log [of U d w]
    by (simp_all add: conn_step_settings)
  obtain l w2 where l: "get_device_list (logged U) (ctx d1) w1 = (l, w2)" by (rule prod.exhaust)
  then have w2: "snd w2 = snd w1" by (auto simp: logged_def lift_w_def Let_def split: prod.splits)
  obtain r d3 w3 where c: "connect_loop (logged U) (case l of Inl rc \<Rightarrow> [] | Inr ds \<Rightarrow> ds) d1 w2 = (r, d3, w3)"
    by (metis prod_cases3)
  from connect_loop_settings [OF c] have s3: "same_settings d1 d3" "snd w3 = snd w2" by auto
  have "same_settings d3 (d3\<lparr>handle_registered := r, hotplug_handle := n\<rparr>)" for r n
  proof -
    have "d3\<lparr>handle_registered := r, hotplug_handle := n\<rparr> = d3\<lparr>hdl := hdl d3, flags := flags d3,
        handle_registered := r, hotplug_handle := n\<rparr>" by simp
    then show ?thesis unfolding same_settings_def by blast
  qed
  then have "same_settings d3 d' \<and> snd w' = snd w3"
    using assms unfolding connect_dev_def d1 prod.case Let_def l c
    by (auto simp: register_callback_def logged_def Let_def split: sum.splits option.splits prod.splits if_splits)
  with s1 w2 s3 show ?thesis by (auto intro: same_settings_trans)
qed

text \<open>What the operations do to the invariant.\<close>

lemma call_ok: "dev_ok D b s \<Longrightarrow> dev_ok D b (snd (x52d_dev_call c s))"
  using synced_call [of D "dm_dev s" b c] call.error_unchanged [of c "dm_dev s"]
  by (simp add: dev_call_eq dev_ok_def flag_ok_def)

lemma update_flag:
  assumes "libx52_update (logged U) d w = (rc, d', w')"
  shows "marked d' \<noteq> [] \<Longrightarrow> rc \<noteq> LIBX52_SUCCESS \<and> marked d \<noteq> []"
proof (cases "hdl d")
  case None
  moreover assume "marked d' \<noteq> []"
  ultimately show ?thesis using assms by (auto simp: libx52_update_def)
next
  case (Some h)
  assume m: "marked d' \<noteq> []"
  from update_cases [OF Some assms] show ?thesis
  proof (cases "rc = LIBX52_SUCCESS")
    case True
    with update_cases [OF Some assms] have "update_mask d' = 0" by auto
    with m show ?thesis by (simp add: marked_def marked_in_def)
  next
    case False
    with update_cases [OF Some assms] obtain sent where
      f: "loop_failed (update_mask d) [0..<32] (d\<lparr>update_mask := 0\<rparr>) rc d' sent" by auto
    show ?thesis by (rule failed_marked [OF f]) (use False in auto)
  qed
qed

lemma update_ok:
  assumes "x52d_dev_update (logged U) s w = (rc, s', w')" and "dev_ok (display_of (snd w)) b s"
  shows "dev_ok (display_of (snd w')) b s'"
proof -
  obtain rc1 d1 w1 where u: "libx52_update (logged U) (dm_dev s) w = (rc1, d1, w1)" by (metis prod_cases3)
  obtain d2 w2 where x: "disconnect_dev (logged U) d1 w1 = (d2, w2)" by (rule prod.exhaust)
  then have c: "same_settings d1 d2" "snd w2 = snd w1"
    using disconnect_dev_step [of d1 "logged U" w1] disconnect_dev_log [of U d1 w1]
    by (simp_all add: conn_step_settings)
  have sy: "synced (display_of (snd w1)) d1 b"
    using synced_update [OF u] assms(2) by (simp add: dev_ok_def)
  show ?thesis
  proof (cases "rc1 = LIBX52_SUCCESS")
    case True
    with assms(1) u have "s' = s\<lparr>dm_dev := d1, dm_update_needed := False\<rparr>" "w' = w1"
      by (simp_all add: x52d_dev_update_def)
    moreover have "marked d1 = []" using update_flag [OF u] True by blast
    ultimately show ?thesis using sy by (simp add: dev_ok_def flag_ok_def)
  next
    case False
    let ?s1 = "s\<lparr>dm_dev := d1\<rparr>"
    have s1: "dev_ok (display_of (snd w1)) b ?s1"
      using sy assms(2) update_flag [OF u] by (auto simp: dev_ok_def flag_ok_def)
    have "s' = ?s1 \<and> w' = w1 \<or> dm_dev s' = d2 \<and> dm_update_needed s' = dm_update_needed ?s1 \<and> w' = w2"
      using assms(1) False
      by (auto simp: x52d_dev_update_def u libx52_disconnect_def x Let_def split: if_splits)
    then show ?thesis
    proof
      assume "s' = ?s1 \<and> w' = w1"
      with s1 show ?thesis by simp
    next
      assume r: "dm_dev s' = d2 \<and> dm_update_needed s' = dm_update_needed ?s1 \<and> w' = w2"
      with c(2) dev_ok_settings [OF s1, of d2 s'] c(1) show ?thesis by simp
    qed
  qed
qed

section \<open>The rounds keep the invariant\<close>

text \<open>What the thread relies on: applying the configuration keeps the invariant.\<close>

locale dev_settings =
  fixes apply_config :: "'a dev_manager_scheme \<Rightarrow> 'a dev_manager_scheme"
  assumes apply_ok: "dev_ok D b s \<Longrightarrow> dev_ok D b (apply_config s)"
begin

lemma round_ok:
  fixes s s' :: "'a dev_manager_scheme"
  assumes r: "x52_dev_round (logged U) apply_config s w = (s', w')" and ok: "dev_ok (display_of (snd w)) b s"
  shows "dev_ok (display_of (snd w')) b s'"
proof -
  obtain conn x1 w1 where p: "libx52_is_connected (logged U) (Some (dm_dev s)) w = (conn, x1, w1)"
    by (metis prod_cases3)
  then have "same_settings (dm_dev s) (the x1)" and w1: "snd w1 = snd w"
    using poll_step [of U "dm_dev s" w "the x1" w1] by (simp_all add: conn_step_settings)
  let ?s1 = "s\<lparr>dm_dev := the x1\<rparr>"
  have ok1: "dev_ok (display_of (snd w1)) b ?s1"
    using dev_ok_settings [OF ok \<open>same_settings (dm_dev s) (the x1)\<close>, of ?s1] w1 by simp
  show ?thesis
  proof (cases conn)
    case True
    obtain rc s2 w2 where u: "x52d_dev_update (logged U) ?s1 w1 = (rc, s2, w2)" by (metis prod_cases3)
    from r True have "(s', w') = (if \<not> dm_update_needed s then (?s1, w1) else (s2, w2))"
      by (auto simp: x52_dev_round_def p Let_def u split: if_splits)
    with ok1 update_ok [OF u ok1] show ?thesis by (cases "dm_update_needed s") simp_all
  next
    case False
    obtain rc d2 w2 where c: "connect_dev (logged U) (the x1) w1 = (rc, d2, w2)" by (metis prod_cases3)
    from connect_settings [OF c] have c2: "same_settings (the x1) d2" "snd w2 = snd w1" by auto
    let ?s2 = "s\<lparr>dm_dev := d2\<rparr>"
    from r False have "w' = w2" and "s' = (if rc \<noteq> LIBX52_SUCCESS then ?s2
        else apply_config (?s2\<lparr>dm_notes := dm_notes s @ [[''CONNECTED'']]\<rparr>))"
      by (auto simp: x52_dev_round_def p Let_def libx52_connect_def c split: if_splits)
    moreover have "dev_ok (display_of (snd w2)) b t"
      if "dm_dev t = d2" "dm_update_needed t = dm_update_needed s" for t :: "'a dev_manager_scheme"
      using dev_ok_settings [OF ok1, of d2 t] c2 that by simp
    ultimately show ?thesis by (simp add: apply_ok)
  qed
qed

end

text \<open>An update that succeeds clears the flag.\<close>

lemma update_clears:
  assumes "x52d_dev_update U s w = (rc, s', w')"
  shows "rc = LIBX52_SUCCESS \<Longrightarrow> \<not> dm_update_needed s'"
  using assms by (auto simp: x52d_dev_update_def Let_def split: prod.splits if_splits)

section \<open>The operations interleaved\<close>

text \<open>
  Between the release of the mutex and the assignment of the flag another thread may run. A
  state of the interleaving holds the manager, the return code of an update that has released
  the mutex but not yet looked at it, and the number of wrappers that succeeded and have not
  yet raised the flag. Disconnecting the joystick, which the update does then without the
  mutex, is part of that step.
\<close>

record 'w dev_threads =
  dt_man :: dev_manager
  dt_world :: 'w
  dt_update :: "libx52_error_code option"
  dt_raising :: nat

definition update_rest ::
  "'w libusb \<Rightarrow> libx52_error_code \<Rightarrow> dev_manager \<Rightarrow> 'w \<Rightarrow> dev_manager \<times> 'w" where
  "update_rest U rc s w =
     (if rc \<noteq> LIBX52_SUCCESS then
        (if rc = LIBX52_ERROR_NO_DEVICE then
           (let (_, x52, w') = libx52_disconnect U (Some (dm_dev s)) w
            in (s\<lparr>dm_dev := the x52, dm_notes := dm_notes s @ [[''DISCONNECTED'']]\<rparr>, w'))
         else (s, w))
      else (s\<lparr>dm_update_needed := False\<rparr>, w))"

inductive dev_step :: "'w libusb \<Rightarrow> 'w dev_threads \<Rightarrow> 'w dev_threads \<Rightarrow> bool" for U where
  set_locked: "call_dev c (dm_dev (dt_man t)) = (rc, d) \<Longrightarrow>
     dev_step U t (t\<lparr>dt_man := dt_man t\<lparr>dm_dev := d\<rparr>,
       dt_raising := dt_raising t + (if rc = LIBX52_SUCCESS then 1 else 0)\<rparr>)"
| set_raise: "0 < dt_raising t \<Longrightarrow>
     dev_step U t (t\<lparr>dt_man := dt_man t\<lparr>dm_update_needed := True\<rparr>, dt_raising := dt_raising t - 1\<rparr>)"
| update_locked: "dt_update t = None \<Longrightarrow> dm_update_needed (dt_man t) \<Longrightarrow>
     libx52_update U (dm_dev (dt_man t)) (dt_world t) = (rc, d, w) \<Longrightarrow>
     dev_step U t (t\<lparr>dt_man := dt_man t\<lparr>dm_dev := d\<rparr>, dt_world := w, dt_update := Some rc\<rparr>)"
| update_flag_step: "dt_update t = Some rc \<Longrightarrow> update_rest U rc (dt_man t) (dt_world t) = (s, w) \<Longrightarrow>
     dev_step U t (t\<lparr>dt_man := s, dt_world := w, dt_update := None\<rparr>)"

text \<open>All threads are between operations.\<close>

definition dev_idle :: "'w dev_threads \<Rightarrow> bool" where
  "dev_idle t \<longleftrightarrow> dt_update t = None \<and> dt_raising t = 0"

text \<open>The two halves of an update, and of a wrapper, without an interruption are the operations above.\<close>

lemma update_halves:
  "x52d_dev_update U s w =
     (let (rc, d, w1) = libx52_update U (dm_dev s) w
      in (rc, update_rest U rc (s\<lparr>dm_dev := d\<rparr>) w1))"
  by (simp add: x52d_dev_update_def update_rest_def libx52_disconnect_def Let_def split: prod.split)

lemma setter_halves:
  "call_dev c (dm_dev s) = (rc, d) \<Longrightarrow> snd (x52d_dev_call c s) =
     (if rc = LIBX52_SUCCESS then s\<lparr>dm_dev := d, dm_update_needed := True\<rparr> else s\<lparr>dm_dev := d\<rparr>)"
  by (simp add: dev_call_eq)

inductive_cases dev_stepE: "dev_step U t t'"

lemma update_rest_settings:
  assumes "update_rest (logged U) rc s w = (s', w')"
  shows "same_settings (dm_dev s) (dm_dev s') \<and> snd w' = snd w"
  using assms disconnect_dev_step [of "dm_dev s" "logged U" w] disconnect_dev_log [of U "dm_dev s" w]
  by (auto simp: update_rest_def libx52_disconnect_def conn_step_settings Let_def
      split: if_splits prod.splits)

lemma same_settings_synced: "same_settings d d' \<Longrightarrow> synced D d b \<Longrightarrow> synced D d' b"
  by (erule synced_cong) (simp_all add: same_settings_marked same_settings_packets)

lemma dev_step_synced:
  assumes "dev_step (logged U) t t'" and "synced (display_of (snd (dt_world t))) (dm_dev (dt_man t)) b"
  shows "synced (display_of (snd (dt_world t'))) (dm_dev (dt_man t')) b"
  using assms
proof cases
  case (set_locked c rc d)
  then show ?thesis using assms(2) synced_call [of _ "dm_dev (dt_man t)" b c] by simp
next
  case (update_locked rc d w)
  then show ?thesis using synced_update [OF update_locked(4) assms(2)] by simp
next
  case (update_flag_step rc s w)
  then show ?thesis
    using assms(2) update_rest_settings [OF update_flag_step(3)] same_settings_synced by auto
qed (use assms(2) in simp)

text \<open>
  However the wrappers and the update interleave, no mark is lost: an indicator that is marked
  or shown stays so, so that the next update that succeeds shows it.
\<close>

lemma x52d_interleaving_keeps_marks:
  assumes "(dev_step (logged U))\<^sup>*\<^sup>* t t'"
    and "synced (display_of (snd (dt_world t))) (dm_dev (dt_man t)) b"
  shows "synced (display_of (snd (dt_world t'))) (dm_dev (dt_man t')) b"
  using assms by (induction rule: rtranclp_induct) (simp_all add: dev_step_synced)

text \<open>
  C28:
  The flag does not share this. When the joystick accepted an update and another thread's
  wrapper \<open>c\<close> succeeds before the update assigns the flag, all threads end up idle with
  indicators marked and the flag clear: the thread does not send the change.
\<close>

theorem x52d_update_race:
  fixes t :: "'w dev_threads"
  assumes idle: "dev_idle t" and "dm_update_needed (dt_man t)"
    and upd: "libx52_update U (dm_dev (dt_man t)) (dt_world t) = (LIBX52_SUCCESS, d, w)"
    and c: "call_dev c d = (LIBX52_SUCCESS, d')"
  shows "\<exists>t'. (dev_step U)\<^sup>*\<^sup>* t t' \<and> dev_idle t' \<and> dm_dev (dt_man t') = d' \<and> marked d' \<noteq> []
    \<and> \<not> dm_update_needed (dt_man t')"
proof -
  define t1 where "t1 = t\<lparr>dt_man := dt_man t\<lparr>dm_dev := d\<rparr>, dt_world := w, dt_update := Some LIBX52_SUCCESS\<rparr>"
  define t2 where "t2 = t1\<lparr>dt_man := dt_man t1\<lparr>dm_dev := d'\<rparr>, dt_raising := dt_raising t1 + 1\<rparr>"
  define t3 where "t3 = t2\<lparr>dt_man := dt_man t2\<lparr>dm_update_needed := True\<rparr>, dt_raising := dt_raising t2 - 1\<rparr>"
  define t4 where "t4 = t3\<lparr>dt_man := dt_man t3\<lparr>dm_update_needed := False\<rparr>, dt_world := dt_world t3, dt_update := None\<rparr>"
  have "dev_step U t t1"
    using update_locked [of t U LIBX52_SUCCESS d w] idle assms(2) upd by (simp add: t1_def dev_idle_def)
  moreover have "dev_step U t1 t2"
    using set_locked [of c t1 LIBX52_SUCCESS d' U] c by (simp add: t2_def t1_def)
  moreover have "dev_step U t2 t3"
    using set_raise [of t2 U] by (simp add: t3_def t2_def)
  moreover have "dev_step U t3 t4"
    unfolding t4_def
    by (rule update_flag_step [of t3 LIBX52_SUCCESS]) (simp_all add: t3_def t2_def t1_def update_rest_def)
  ultimately have "(dev_step U)\<^sup>*\<^sup>* t t4" by (meson converse_rtranclp_into_rtranclp rtranclp.rtrancl_refl)
  moreover have "dev_idle t4" using idle by (simp add: t4_def t3_def t2_def t1_def dev_idle_def)
  moreover have "update_mask d' \<noteq> 0" using call.marks [of c d] c by simp
  then have "marked d' \<noteq> []" by (metis bit_0_eq bit_eq_iff bot_apply bot_bool_def empty_iff list.set(1) mem_Collect_eq set_marked)
  ultimately show ?thesis by (intro exI [of _ t4]) (simp add: t4_def t3_def t2_def)
qed

text \<open>Both at the connected stub joystick with a brightness and the shift indicator to send.\<close>

definition demo_threads :: "(stub_world \<times> vendor_cmd list) dev_threads" where
  "demo_threads = \<lparr>dt_man = \<lparr>dm_dev = opened_bright, dm_update_needed = True, dm_notes = []\<rparr>,
     dt_world = (stub_opened, []), dt_update = None, dt_raising = 0\<rparr>"

lemma x52d_interleaving_keeps_marks_witness:
  "synced (display_of []) (snd (call_dev (SetShift 0) opened_bright)) 26"
proof -
  let ?d = "snd (call_dev (SetShift 0) opened_bright)"
  let ?t = "demo_threads\<lparr>dt_man := dt_man demo_threads\<lparr>dm_dev := ?d\<rparr>,
      dt_raising := dt_raising demo_threads + 1\<rparr>"
  have "dev_step (logged stub) demo_threads ?t"
    using set_locked [of "SetShift 0" demo_threads LIBX52_SUCCESS ?d]
    by (simp add: demo_threads_def set_shift_dev_def)
  then have "(dev_step (logged stub))\<^sup>*\<^sup>* demo_threads ?t" by (rule r_into_rtranclp)
  from x52d_interleaving_keeps_marks [OF this, of 26] marked_opened_bright
  show ?thesis by (simp add: demo_threads_def synced_def)
qed

lemma x52d_update_race_witness:
  "\<exists>t'. (dev_step (logged stub))\<^sup>*\<^sup>* demo_threads t' \<and> dev_idle t' \<and> marked (dm_dev (dt_man t')) \<noteq> []
    \<and> \<not> dm_update_needed (dt_man t')"
proof -
  obtain rc d w where u: "libx52_update (logged stub) opened_bright (stub_opened, []) = (rc, d, w)"
    by (metis prod_cases3)
  with opened_bright_run have rc: "rc = LIBX52_SUCCESS" by simp
  have "call_dev (SetBlink 1) d = (LIBX52_SUCCESS, snd (call_dev (SetBlink 1) d))"
    by (simp add: set_blink_dev_def)
  moreover have "dev_idle demo_threads" "dm_update_needed (dt_man demo_threads)"
    "libx52_update (logged stub) (dm_dev (dt_man demo_threads)) (dt_world demo_threads) = (LIBX52_SUCCESS, d, w)"
    using u rc by (simp_all add: demo_threads_def dev_idle_def)
  ultimately show ?thesis
    using x52d_update_race [of demo_threads "logged stub" d w "SetBlink 1" "snd (call_dev (SetBlink 1) d)"]
    by auto
qed

end
