(* ===== verification/X52io_Device.thy ===== *)
theory X52io_Device
  imports X52io_Parser
begin

text \<open>
  The context of libx52io and its life: \<open>io_core.c\<close> (init, open, close, exit),
  \<open>io_device.c\<close> (device information), the axis ranges (\<open>io_axis.c\<close>) and reading
  (\<open>io_parser.c\<close>). hidapi is not part of the repository: a value of \<open>'w hidapi\<close> is one
  implementation of its functions over a world, and of the conversion of wide strings.

  \<open>io_ctx_wf\<close> is the invariant: an open context has the parser and the axis ranges of its
  product, a closed one has none.
\<close>

section \<open>hidapi\<close>

record hid_device_info =
  hid_path :: string
  hid_vendor_id :: u16
  hid_product_id :: u16
  hid_release_number :: u16
  hid_manufacturer_string :: "nat list option"
  hid_product_string :: "nat list option"
  hid_serial_number :: "nat list option"

text \<open>
  \<open>hid_enumerate\<close> returns the linked list in order. \<open>hid_read\<close> returns its result and what
  the 16-byte buffer then holds. \<open>mb_alloc\<close> says whether \<open>calloc\<close> of that many bytes works.
\<close>

record 'w hidapi =
  hid_init :: "'w \<Rightarrow> int \<times> 'w"
  hid_exit :: "'w \<Rightarrow> 'w"
  hid_enumerate :: "u16 \<Rightarrow> u16 \<Rightarrow> 'w \<Rightarrow> hid_device_info list \<times> 'w"
  hid_free_enumeration :: "hid_device_info list \<Rightarrow> 'w \<Rightarrow> 'w"
  hid_open_path :: "string \<Rightarrow> 'w \<Rightarrow> nat option \<times> 'w"
  hid_close :: "nat \<Rightarrow> 'w \<Rightarrow> 'w"
  hid_read_timeout :: "nat \<Rightarrow> nat \<Rightarrow> int \<Rightarrow> 'w \<Rightarrow> int \<times> u8 list \<times> 'w"
  wcstombs :: "nat list \<Rightarrow> string option"
  mb_alloc :: "nat \<Rightarrow> bool"

section \<open>The context\<close>

text \<open>
  The parser is a function pointer to one of the two parsers. The three numbers are
  \<open>int16_t\<close>; they are kept as their bit patterns, and the products that they are compared
  with are positive.
\<close>

datatype x52_parser = PARSE_X52 | PARSE_X52PRO

record libx52io_context =
  io_handle :: "nat option"
  io_min :: "int list"
  io_max :: "int list"
  io_vid :: u16
  io_pid :: u16
  io_version :: u16
  io_manufacturer :: "string option"
  io_product :: "string option"
  io_serial_number :: "string option"
  io_parser :: "x52_parser option"

definition io_calloc :: libx52io_context where
  "io_calloc = \<lparr>io_handle = None, io_min = replicate LIBX52IO_AXIS_MAX 0,
     io_max = replicate LIBX52IO_AXIS_MAX 0, io_vid = 0, io_pid = 0, io_version = 0,
     io_manufacturer = None, io_product = None, io_serial_number = None, io_parser = None\<rparr>"

abbreviation (input) IO_PROD_X52PRO :: u16 where "IO_PROD_X52PRO \<equiv> 0x0762"
abbreviation (input) IO_PROD_X52_1 :: u16 where "IO_PROD_X52_1 \<equiv> 0x0255"
abbreviation (input) IO_PROD_X52_2 :: u16 where "IO_PROD_X52_2 \<equiv> 0x075C"

definition x52io_set_axis_range :: "libx52io_context \<Rightarrow> libx52io_context" where
  "x52io_set_axis_range c =
     (if io_pid c = IO_PROD_X52_1 \<or> io_pid c = IO_PROD_X52_2
      then c\<lparr>io_min := io_axis_min, io_max := x52_axis_max\<rparr>
      else if io_pid c = IO_PROD_X52PRO
      then c\<lparr>io_min := io_axis_min, io_max := x52pro_axis_max\<rparr>
      else c)"

definition libx52io_get_axis_range ::
  "libx52io_context option \<Rightarrow> int \<Rightarrow> bool \<Rightarrow> bool \<Rightarrow> libx52io_error_code \<times> (int \<times> int) option" where
  "libx52io_get_axis_range ctx axis min_ptr max_ptr = (case ctx of
     None \<Rightarrow> (LIBX52IO_ERROR_INVALID, None)
   | Some c \<Rightarrow>
      if \<not> min_ptr \<or> \<not> max_ptr then (LIBX52IO_ERROR_INVALID, None)
      else if \<not> (0 \<le> axis \<and> axis < int LIBX52IO_AXIS_MAX) then (LIBX52IO_ERROR_INVALID, None)
      else if io_handle c = None then (LIBX52IO_ERROR_NO_DEVICE, None)
      else (LIBX52IO_SUCCESS, Some (io_min c ! nat axis, io_max c ! nat axis)))"

definition x52io_set_report_parser :: "libx52io_context \<Rightarrow> libx52io_context" where
  "x52io_set_report_parser c =
     (if io_pid c = IO_PROD_X52_1 \<or> io_pid c = IO_PROD_X52_2 then c\<lparr>io_parser := Some PARSE_X52\<rparr>
      else if io_pid c = IO_PROD_X52PRO then c\<lparr>io_parser := Some PARSE_X52PRO\<rparr>
      else c)"

definition save_string :: "'w hidapi \<Rightarrow> nat list option \<Rightarrow> string option" where
  "save_string H wcs = (case wcs of
     None \<Rightarrow> None
   | Some ws \<Rightarrow> (case wcstombs H ws of
        None \<Rightarrow> None
      | Some s \<Rightarrow> if length s = 0 then None
                  else if mb_alloc H (length s + 1) then Some s else None))"

definition x52io_save_device_info ::
  "'w hidapi \<Rightarrow> hid_device_info \<Rightarrow> libx52io_context \<Rightarrow> libx52io_context" where
  "x52io_save_device_info H dev c =
     x52io_set_report_parser (x52io_set_axis_range
       (c\<lparr>io_vid := hid_vendor_id dev, io_pid := hid_product_id dev, io_version := hid_release_number dev,
          io_manufacturer := save_string H (hid_manufacturer_string dev),
          io_product := save_string H (hid_product_string dev),
          io_serial_number := save_string H (hid_serial_number dev)\<rparr>))"

definition x52io_release_device_info :: "libx52io_context \<Rightarrow> libx52io_context" where
  "x52io_release_device_info c =
     c\<lparr>io_vid := 0, io_pid := 0, io_version := 0, io_manufacturer := None, io_product := None,
       io_serial_number := None, io_min := replicate LIBX52IO_AXIS_MAX 0,
       io_max := replicate LIBX52IO_AXIS_MAX 0, io_parser := None, io_handle := None\<rparr>"

definition libx52io_get_vendor_id :: "libx52io_context option \<Rightarrow> u16" where
  "libx52io_get_vendor_id ctx = (case ctx of None \<Rightarrow> 0 | Some c \<Rightarrow> io_vid c)"

definition libx52io_get_product_id :: "libx52io_context option \<Rightarrow> u16" where
  "libx52io_get_product_id ctx = (case ctx of None \<Rightarrow> 0 | Some c \<Rightarrow> io_pid c)"

definition libx52io_get_device_version :: "libx52io_context option \<Rightarrow> u16" where
  "libx52io_get_device_version ctx = (case ctx of None \<Rightarrow> 0 | Some c \<Rightarrow> io_version c)"

definition libx52io_get_manufacturer_string :: "libx52io_context option \<Rightarrow> string option" where
  "libx52io_get_manufacturer_string ctx = (case ctx of None \<Rightarrow> None | Some c \<Rightarrow> io_manufacturer c)"

definition libx52io_get_product_string :: "libx52io_context option \<Rightarrow> string option" where
  "libx52io_get_product_string ctx = (case ctx of None \<Rightarrow> None | Some c \<Rightarrow> io_product c)"

definition libx52io_get_serial_number_string :: "libx52io_context option \<Rightarrow> string option" where
  "libx52io_get_serial_number_string ctx = (case ctx of None \<Rightarrow> None | Some c \<Rightarrow> io_serial_number c)"

section \<open>Opening and closing\<close>

definition libx52io_init ::
  "'w hidapi \<Rightarrow> bool \<Rightarrow> bool \<Rightarrow> 'w \<Rightarrow> libx52io_error_code \<times> libx52io_context option \<times> 'w" where
  "libx52io_init H ptr alloc w =
     (if \<not> ptr then (LIBX52IO_ERROR_INVALID, None, w)
      else (let (rc, w1) = hid_init H w in
            if rc \<noteq> 0 then (LIBX52IO_ERROR_INIT_FAILURE, None, w1)
            else if \<not> alloc then (LIBX52IO_ERROR_INIT_FAILURE, None, w1)
            else (LIBX52IO_SUCCESS, Some io_calloc, w1)))"

definition close_ctx :: "'w hidapi \<Rightarrow> libx52io_context \<Rightarrow> 'w \<Rightarrow> libx52io_context \<times> 'w" where
  "close_ctx H c w =
     (x52io_release_device_info c,
      case io_handle c of None \<Rightarrow> w | Some h \<Rightarrow> hid_close H h w)"

definition libx52io_close ::
  "'w hidapi \<Rightarrow> libx52io_context option \<Rightarrow> 'w \<Rightarrow> libx52io_error_code \<times> libx52io_context option \<times> 'w" where
  "libx52io_close H ctx w = (case ctx of
     None \<Rightarrow> (LIBX52IO_ERROR_INVALID, None, w)
   | Some c \<Rightarrow> (let (c', w') = close_ctx H c w in (LIBX52IO_SUCCESS, Some c', w')))"

text \<open>The context that \<open>libx52io_exit\<close> has closed is not freed: it is returned here.\<close>

definition libx52io_exit ::
  "'w hidapi \<Rightarrow> libx52io_context option \<Rightarrow> 'w \<Rightarrow> libx52io_context option \<times> 'w" where
  "libx52io_exit H ctx w = (case ctx of
     None \<Rightarrow> (None, w)
   | Some c \<Rightarrow> (let (c', w') = close_ctx H c w in (Some c', hid_exit H w')))"

fun open_loop ::
  "'w hidapi \<Rightarrow> hid_device_info list \<Rightarrow> libx52io_context \<Rightarrow> 'w \<Rightarrow>
   libx52io_error_code \<times> libx52io_context \<times> 'w" where
  "open_loop H [] c w = (LIBX52IO_ERROR_NO_DEVICE, c, w)"
| "open_loop H (cur_dev # devs) c w =
     (if hid_product_id cur_dev = IO_PROD_X52_1 \<or> hid_product_id cur_dev = IO_PROD_X52_2
         \<or> hid_product_id cur_dev = IO_PROD_X52PRO
      then (case hid_open_path H (hid_path cur_dev) w of
              (None, w1) \<Rightarrow> (LIBX52IO_ERROR_CONN, c\<lparr>io_handle := None\<rparr>, w1)
            | (Some h, w1) \<Rightarrow>
                (LIBX52IO_SUCCESS, x52io_save_device_info H cur_dev (c\<lparr>io_handle := Some h\<rparr>), w1))
      else open_loop H devs c w)"

definition open_ctx ::
  "'w hidapi \<Rightarrow> libx52io_context \<Rightarrow> 'w \<Rightarrow> libx52io_error_code \<times> libx52io_context \<times> 'w" where
  "open_ctx H c w =
     (let (c1, w1) = close_ctx H c w;
          (devs, w2) = hid_enumerate H 0x06a3 0 w1;
          (rc, c3, w3) = open_loop H devs c1 w2
      in (rc, c3, hid_free_enumeration H devs w3))"

definition libx52io_open ::
  "'w hidapi \<Rightarrow> libx52io_context option \<Rightarrow> 'w \<Rightarrow> libx52io_error_code \<times> libx52io_context option \<times> 'w" where
  "libx52io_open H ctx w = (case ctx of
     None \<Rightarrow> (LIBX52IO_ERROR_INVALID, None, w)
   | Some c \<Rightarrow> (let (rc, c', w') = open_ctx H c w in (rc, Some c', w')))"

section \<open>Reading\<close>

definition x52io_parse_report ::
  "libx52io_context \<Rightarrow> libx52io_report \<Rightarrow> u8 list \<Rightarrow> int \<Rightarrow> libx52io_error_code \<times> libx52io_report" where
  "x52io_parse_report c r data len = (case io_parser c of
     None \<Rightarrow> (LIBX52IO_ERROR_NO_DEVICE, r)
   | Some PARSE_X52 \<Rightarrow> parse_x52 data len r
   | Some PARSE_X52PRO \<Rightarrow> parse_x52pro data len r)"

definition libx52io_read_timeout ::
  "'w hidapi \<Rightarrow> libx52io_context option \<Rightarrow> libx52io_report option \<Rightarrow> int \<Rightarrow> 'w \<Rightarrow>
   libx52io_error_code \<times> libx52io_report option \<times> 'w" where
  "libx52io_read_timeout H ctx report timeout w = (case (ctx, report) of
     (Some c, Some r) \<Rightarrow>
       (case io_handle c of
          None \<Rightarrow> (LIBX52IO_ERROR_NO_DEVICE, report, w)
        | Some h \<Rightarrow>
            (let (rc, data, w') = hid_read_timeout H h 16 timeout w in
             if rc = 0 then (LIBX52IO_ERROR_TIMEOUT, report, w')
             else if rc < 0 then (LIBX52IO_ERROR_IO, report, w')
             else (let (e, r') = x52io_parse_report c r data rc in (e, Some r', w'))))
   | _ \<Rightarrow> (LIBX52IO_ERROR_INVALID, report, w))"

definition libx52io_read ::
  "'w hidapi \<Rightarrow> libx52io_context option \<Rightarrow> libx52io_report option \<Rightarrow> 'w \<Rightarrow>
   libx52io_error_code \<times> libx52io_report option \<times> 'w" where
  "libx52io_read H ctx report w = libx52io_read_timeout H ctx report (-1) w"

section \<open>The invariant\<close>

definition io_ctx_wf :: "libx52io_context \<Rightarrow> bool" where
  "io_ctx_wf c \<longleftrightarrow> (case io_handle c of
     None \<Rightarrow> io_parser c = None \<and> io_pid c = 0
   | Some h \<Rightarrow> io_min c = io_axis_min
       \<and> (io_parser c = Some PARSE_X52 \<and> io_max c = x52_axis_max \<and> io_pid c \<in> {IO_PROD_X52_1, IO_PROD_X52_2}
        \<or> io_parser c = Some PARSE_X52PRO \<and> io_max c = x52pro_axis_max \<and> io_pid c = IO_PROD_X52PRO))"

lemma io_ctx_wf_calloc: "io_ctx_wf io_calloc"
  by (simp add: io_ctx_wf_def io_calloc_def)

lemma io_ctx_wf_close: "io_ctx_wf (fst (close_ctx H c w))"
  by (simp add: io_ctx_wf_def close_ctx_def x52io_release_device_info_def)

lemma open_loop_wf:
  assumes "open_loop H devs c w = (rc, c', w')" and "io_ctx_wf c" and "io_handle c = None"
  shows "io_ctx_wf c' \<and> (rc = LIBX52IO_SUCCESS \<longleftrightarrow> io_handle c' \<noteq> None)"
  using assms
proof (induction devs arbitrary: w)
  case Nil
  then show ?case by auto
next
  case (Cons dv devs)
  obtain o' w1 where o: "hid_open_path H (hid_path dv) w = (o', w1)" by (rule prod.exhaust)
  show ?case
  proof (cases o')
    case None
    with Cons o show ?thesis by (auto simp: io_ctx_wf_def split: if_splits)
  next
    case (Some h)
    with Cons o show ?thesis
      by (auto simp: io_ctx_wf_def x52io_save_device_info_def x52io_set_report_parser_def
          x52io_set_axis_range_def split: if_splits)
  qed
qed

lemma open_ctx_wf:
  "case open_ctx H c w of (rc, c', w') \<Rightarrow>
     io_ctx_wf c' \<and> (rc = LIBX52IO_SUCCESS \<longleftrightarrow> io_handle c' \<noteq> None)"
proof -
  obtain c1 w1 where c: "close_ctx H c w = (c1, w1)" by (rule prod.exhaust)
  obtain devs w2 where e: "hid_enumerate H 0x06a3 0 w1 = (devs, w2)" by (rule prod.exhaust)
  obtain rc c3 w3 where o: "open_loop H devs c1 w2 = (rc, c3, w3)" by (metis prod_cases3)
  have "io_ctx_wf c1" using io_ctx_wf_close [of H c w] by (simp add: c)
  moreover have "io_handle c1 = None" using c by (auto simp: close_ctx_def x52io_release_device_info_def)
  ultimately show ?thesis using open_loop_wf [OF o] by (simp add: open_ctx_def c e o)
qed

text \<open>
  C13: \<open>libx52io_open\<close> succeeds exactly when it leaves an open handle, and then the context has
  the parser and the axis ranges of the connected product, whatever it held before; after a
  failure the context is closed.
\<close>

theorem libx52io_open_invariant:
  "case open_ctx H c w of (rc, c', w') \<Rightarrow>
     io_ctx_wf c' \<and> (rc = LIBX52IO_SUCCESS \<longleftrightarrow> io_handle c' \<noteq> None)"
  by (rule open_ctx_wf)

text \<open>
  C14: a report read from an open context lies within the ranges that
  \<open>libx52io_get_axis_range\<close> gives for the same context, on every axis.
\<close>

theorem libx52io_read_in_range:
  assumes "io_ctx_wf c" and "report_wf r"
    and "libx52io_read_timeout H (Some c) (Some r) t w = (LIBX52IO_SUCCESS, Some r', w')"
  shows "\<exists>lo hi. libx52io_get_axis_range (Some c) (axis_code a) True True = (LIBX52IO_SUCCESS, Some (lo, hi))
    \<and> lo \<le> rep_axis r' ! ax a \<and> rep_axis r' ! ax a \<le> hi"
proof -
  from assms(3) obtain h rc data where h: "io_handle c = Some h"
    and p: "x52io_parse_report c r data rc = (LIBX52IO_SUCCESS, r')"
    by (auto simp: libx52io_read_timeout_def Let_def split: option.splits prod.splits if_splits)
  have "in_ranges (io_min c) (io_max c) r'"
    using assms(1) h p parse_reports_ranges [OF assms(2), of data rc]
    by (auto simp: io_ctx_wf_def x52io_parse_report_def)
  then have "io_min c ! ax a \<le> rep_axis r' ! ax a \<and> rep_axis r' ! ax a \<le> io_max c ! ax a"
    using axis_code_nth [of a] by (simp add: in_ranges_def)
  then show ?thesis using h axis_code_nth [of a] by (simp add: libx52io_get_axis_range_def)
qed

text \<open>A hidapi with one X52 attached, whose world is the list of reports still to be read.\<close>

definition hid_one :: "u8 list list hidapi" where
  "hid_one = \<lparr>hid_init = (\<lambda>w. (0, w)), hid_exit = id,
     hid_enumerate = (\<lambda>v p w. ([\<lparr>hid_path = ''a'', hid_vendor_id = 0x06a3, hid_product_id = 0x0255,
        hid_release_number = 0x0110, hid_manufacturer_string = Some [83], hid_product_string = None,
        hid_serial_number = Some []\<rparr>], w)),
     hid_free_enumeration = (\<lambda>l w. w), hid_open_path = (\<lambda>p w. (Some 0, w)), hid_close = (\<lambda>h w. w),
     hid_read_timeout = (\<lambda>h n t w. case w of [] \<Rightarrow> (0, [], []) | d # ds \<Rightarrow> (int (length d), d, ds)),
     wcstombs = (\<lambda>ws. Some (map char_of ws)), mb_alloc = (\<lambda>n. True)\<rparr>"

definition hid_one_ctx :: libx52io_context where
  "hid_one_ctx = fst (snd (open_ctx hid_one io_calloc []))"

theorem libx52io_read_in_range_witness:
  "\<exists>r' lo hi. libx52io_get_axis_range (Some hid_one_ctx) 1 True True = (LIBX52IO_SUCCESS, Some (lo, hi))
     \<and> lo \<le> rep_axis r' ! 1 \<and> rep_axis r' ! 1 \<le> hi
     \<and> r' = the (fst (snd (libx52io_read_timeout hid_one (Some hid_one_ctx) (Some zero_report) 0 [full_data])))"
proof -
  have wf: "io_ctx_wf hid_one_ctx"
    by (simp add: hid_one_ctx_def open_ctx_def close_ctx_def hid_one_def io_calloc_def
        x52io_release_device_info_def x52io_save_device_info_def x52io_set_report_parser_def
        x52io_set_axis_range_def io_ctx_wf_def)
  have rw: "report_wf zero_report" by (simp add: report_wf_def zero_report_def)
  obtain rc ro w' where r: "libx52io_read_timeout hid_one (Some hid_one_ctx) (Some zero_report) 0 [full_data]
      = (rc, ro, w')" by (metis prod_cases3)
  have "fst (libx52io_read_timeout hid_one (Some hid_one_ctx) (Some zero_report) 0 [full_data]) = LIBX52IO_SUCCESS"
    by code_simp
  moreover have "fst (snd (libx52io_read_timeout hid_one (Some hid_one_ctx) (Some zero_report) 0 [full_data])) \<noteq> None"
    by code_simp
  ultimately obtain r' where "rc = LIBX52IO_SUCCESS" "ro = Some r'" by (auto simp: r)
  with r have r2: "libx52io_read_timeout hid_one (Some hid_one_ctx) (Some zero_report) 0 [full_data]
      = (LIBX52IO_SUCCESS, Some r', w')" by simp
  from libx52io_read_in_range [OF wf rw r2, of LIBX52IO_AXIS_Y] r2 show ?thesis by auto
qed

end
