(* ===== verification/X52d_Mouse.thy ===== *)
theory X52d_Mouse
  imports X52io_Device
begin

text \<open>
  The virtual mouse of the daemon (\<open>daemon/x52d_mouse.c\<close>, \<open>daemon/x52d_mouse_evdev.c\<close>) and the
  thread that reads the joystick (\<open>daemon/x52d_io.c\<close>): the settings, the events written for a
  report, the rounds of both threads, and starting and stopping them.

  Writing to uinput is a parameter, a function of an event and the state of the input system
  that gives a return code. Creating, cancelling and sleeping threads is left out; a thread is
  its rounds. The last section splits the handling of a report where the mouse thread can
  interfere.
\<close>

section \<open>State\<close>

datatype mouse_key = BTN_LEFT | BTN_RIGHT
datatype mouse_rel = REL_X | REL_Y | REL_WHEEL
datatype mouse_event = EV_KEY mouse_key bool | EV_REL mouse_rel int | EV_SYN

type_synonym 'u uinput = "mouse_event \<Rightarrow> 'u \<Rightarrow> int \<times> 'u"

definition DEFAULT_MOUSE_DELAY :: int where "DEFAULT_MOUSE_DELAY = 70000"
definition MOUSE_DELAY_DELTA :: int where "MOUSE_DELAY_DELTA = 5000"
definition MOUSE_DELAY_MIN :: int where "MOUSE_DELAY_MIN = 10000"
definition MAX_MOUSE_MULT :: int where "MAX_MOUSE_MULT = 5"
definition MOUSE_MULT_FACTOR :: int where "MOUSE_MULT_FACTOR = 4"

lemmas mouse_consts = DEFAULT_MOUSE_DELAY_def MOUSE_DELAY_DELTA_def MOUSE_DELAY_MIN_def
  MAX_MOUSE_MULT_def MOUSE_MULT_FACTOR_def

record mouse_manager =
  mouse_delay :: int
  mouse_mult :: int
  mouse_scroll_dir :: int
  mouse_thr_enabled :: bool
  mouse_uidev_created :: bool
  old_report :: libx52io_report
  new_report :: libx52io_report

definition report_zero :: libx52io_report where
  "report_zero = \<lparr>rep_axis = replicate LIBX52IO_AXIS_MAX 0, rep_button = replicate LIBX52IO_BUTTON_MAX False,
     rep_mode = 0, rep_hat = 0\<rparr>"

definition mouse_start :: mouse_manager where
  "mouse_start = \<lparr>mouse_delay = DEFAULT_MOUSE_DELAY, mouse_mult = MOUSE_MULT_FACTOR, mouse_scroll_dir = 1,
     mouse_thr_enabled = False, mouse_uidev_created = False, old_report = report_zero,
     new_report = report_zero\<rparr>"

section \<open>Settings\<close>

definition x52d_cfg_set_Mouse_Speed :: "int \<Rightarrow> mouse_manager \<Rightarrow> mouse_manager" where
  "x52d_cfg_set_Mouse_Speed speed m =
     (let max_base_speed = c_div (DEFAULT_MOUSE_DELAY - MOUSE_DELAY_MIN) MOUSE_DELAY_DELTA;
          max_speed = max_base_speed + MAX_MOUSE_MULT * MOUSE_MULT_FACTOR
      in if speed < 0 \<or> max_speed < speed then m
         else if speed \<le> max_base_speed
         then m\<lparr>mouse_delay := DEFAULT_MOUSE_DELAY - speed * MOUSE_DELAY_DELTA,
                mouse_mult := MOUSE_MULT_FACTOR\<rparr>
         else m\<lparr>mouse_delay := MOUSE_DELAY_MIN, mouse_mult := MOUSE_MULT_FACTOR + (speed - max_base_speed)\<rparr>)"

definition x52d_cfg_set_Mouse_ReverseScroll :: "bool \<Rightarrow> mouse_manager \<Rightarrow> mouse_manager" where
  "x52d_cfg_set_Mouse_ReverseScroll enabled m = m\<lparr>mouse_scroll_dir := (if enabled then -1 else 1)\<rparr>"

definition reset_reports :: "mouse_manager \<Rightarrow> mouse_manager" where
  "reset_reports m =
     (let r = set_axis LIBX52IO_AXIS_THUMBY 8 (set_axis LIBX52IO_AXIS_THUMBX 8 report_zero)
      in m\<lparr>old_report := r, new_report := r\<rparr>)"

definition x52d_mouse_evdev_thread_control :: "bool \<Rightarrow> mouse_manager \<Rightarrow> mouse_manager" where
  "x52d_mouse_evdev_thread_control enabled m =
     (if \<not> mouse_uidev_created m then m
      else if enabled then
        (if mouse_thr_enabled m then m else (reset_reports m)\<lparr>mouse_thr_enabled := enabled\<rparr>)
      else if \<not> mouse_thr_enabled m then m
      else m\<lparr>mouse_thr_enabled := enabled\<rparr>)"

text \<open>In a build with \<open>HAVE_EVDEV\<close>.\<close>

definition x52d_cfg_set_Mouse_Enabled :: "bool \<Rightarrow> mouse_manager \<Rightarrow> mouse_manager" where
  "x52d_cfg_set_Mouse_Enabled enabled = x52d_mouse_evdev_thread_control enabled"

section \<open>Events for a report\<close>

text \<open>The return code is 1 when nothing is written.\<close>

definition report_button_change ::
  "'u uinput \<Rightarrow> mouse_key \<Rightarrow> libx52io_button \<Rightarrow> mouse_manager \<Rightarrow> 'u \<Rightarrow> int \<times> 'u" where
  "report_button_change W button index m u =
     (let old_button = rep_button (old_report m) ! bt index;
          new_button = rep_button (new_report m) ! bt index
      in if old_button \<noteq> new_button then W (EV_KEY button new_button) u else (1, u))"

definition report_wheel :: "'u uinput \<Rightarrow> mouse_manager \<Rightarrow> 'u \<Rightarrow> int \<times> 'u" where
  "report_wheel W m u =
     (let scroll_up = rep_button (new_report m) ! bt LIBX52IO_BTN_MOUSE_SCROLL_UP;
          scroll_dn = rep_button (new_report m) ! bt LIBX52IO_BTN_MOUSE_SCROLL_DN;
          wheel = (if scroll_up then 1 * mouse_scroll_dir m
                   else if scroll_dn then -1 * mouse_scroll_dir m else 0)
      in if wheel \<noteq> 0 then W (EV_REL REL_WHEEL wheel) u else (1, u))"

definition axis_event_value :: "int \<Rightarrow> int \<Rightarrow> int" where
  "axis_event_value mult axis_val = c_div (drop_bit 1 (push_bit 1 axis_val - 15) * mult) MOUSE_MULT_FACTOR"

definition report_axis ::
  "'u uinput \<Rightarrow> mouse_rel \<Rightarrow> libx52io_axis \<Rightarrow> mouse_manager \<Rightarrow> 'u \<Rightarrow> int \<times> 'u" where
  "report_axis W axis index m u =
     (let axis_val = axis_event_value (mouse_mult m) (rep_axis (new_report m) ! ax index)
      in if axis_val \<noteq> 0 then W (EV_REL axis axis_val) u else (1, u))"

definition report_sync :: "'u uinput \<Rightarrow> mouse_manager \<Rightarrow> 'u \<Rightarrow> mouse_manager \<times> 'u" where
  "report_sync W m u =
     (let (rc, u1) = W EV_SYN u in (if rc \<noteq> 0 then m else m\<lparr>old_report := new_report m\<rparr>, u1))"

text \<open>One round of \<open>x52_mouse_thr\<close>.\<close>

definition x52_mouse_round :: "'u uinput \<Rightarrow> mouse_manager \<Rightarrow> 'u \<Rightarrow> mouse_manager \<times> 'u" where
  "x52_mouse_round W m u =
     (let (rx, u1) = report_axis W REL_X LIBX52IO_AXIS_THUMBX m u;
          (ry, u2) = report_axis W REL_Y LIBX52IO_AXIS_THUMBY m u1
      in if rx = 0 \<or> ry = 0 then report_sync W m u2 else (m, u2))"

text \<open>What \<open>x52d_mouse_report_event\<close> does once the new report is stored, and the whole function.\<close>

definition report_changes :: "'u uinput \<Rightarrow> mouse_manager \<Rightarrow> 'u \<Rightarrow> mouse_manager \<times> 'u" where
  "report_changes W m u =
     (if \<not> mouse_uidev_created m \<or> \<not> mouse_thr_enabled m then (m, u)
      else
        (let (rl, u1) = report_button_change W BTN_LEFT LIBX52IO_BTN_MOUSE_PRIMARY m u;
             (rr, u2) = report_button_change W BTN_RIGHT LIBX52IO_BTN_MOUSE_SECONDARY m u1;
             (rw, u3) = report_wheel W m u2
         in if rl = 0 \<or> rr = 0 \<or> rw = 0 then report_sync W m u3 else (m, u3)))"

definition x52d_mouse_report_event ::
  "'u uinput \<Rightarrow> libx52io_report option \<Rightarrow> mouse_manager \<Rightarrow> 'u \<Rightarrow> mouse_manager \<times> 'u" where
  "x52d_mouse_report_event W report m u =
     (case report of
        Some r \<Rightarrow> report_changes W (m\<lparr>new_report := r\<rparr>) u
      | None \<Rightarrow> (reset_reports m, u))"

text \<open>The flag is whether libevdev created the device; \<open>uinput_destroy\<close> removes it.\<close>

definition x52d_mouse_evdev_init :: "bool \<Rightarrow> mouse_manager \<Rightarrow> mouse_manager" where
  "x52d_mouse_evdev_init created m = (if created then m\<lparr>mouse_uidev_created := True\<rparr> else m)"

definition x52d_mouse_evdev_exit :: "('u \<Rightarrow> 'u) \<Rightarrow> mouse_manager \<Rightarrow> 'u \<Rightarrow> mouse_manager \<times> 'u" where
  "x52d_mouse_evdev_exit uinput_destroy m u =
     ((x52d_mouse_evdev_thread_control False m)\<lparr>mouse_uidev_created := False\<rparr>, uinput_destroy u)"

section \<open>The thread that reads the joystick\<close>

record io_manager =
  io_ctx :: libx52io_context
  io_report :: libx52io_report
  io_prev_report :: libx52io_report

definition process_report ::
  "'u uinput \<Rightarrow> io_manager \<Rightarrow> mouse_manager \<Rightarrow> 'u \<Rightarrow> io_manager \<times> mouse_manager \<times> 'u" where
  "process_report W s m u =
     (let (m', u') = x52d_mouse_report_event W (Some (io_report s)) m u
      in (s\<lparr>io_prev_report := io_report s\<rparr>, m', u'))"

text \<open>One round of \<open>x52_io_thr\<close>, over the worlds of hidapi and of uinput.\<close>

definition x52_io_round ::
  "'w hidapi \<Rightarrow> 'u uinput \<Rightarrow> io_manager \<Rightarrow> mouse_manager \<Rightarrow> 'w \<Rightarrow> 'u \<Rightarrow>
   io_manager \<times> mouse_manager \<times> 'w \<times> 'u" where
  "x52_io_round H W s m w u =
     (let (rc, r, w1) = libx52io_read_timeout H (Some (io_ctx s)) (Some (io_report s)) 50 w;
          s1 = s\<lparr>io_report := the r\<rparr>
      in case rc of
           LIBX52IO_SUCCESS \<Rightarrow> (let (s2, m', u') = process_report W s1 m u in (s2, m', w1, u'))
         | LIBX52IO_ERROR_TIMEOUT \<Rightarrow> (s1, m, w1, u)
         | LIBX52IO_ERROR_NO_DEVICE \<Rightarrow>
             (let (rc', c, w2) = libx52io_open H (Some (io_ctx s1)) w1
              in (s1\<lparr>io_ctx := the c\<rparr>, m, w2, u))
         | _ \<Rightarrow>
             (let (rc', c, w2) = libx52io_close H (Some (io_ctx s1)) w1;
                  (m', u') = x52d_mouse_report_event W None m u
              in (s1\<lparr>io_ctx := the c\<rparr>, m', w2, u')))"

text \<open>The report of the thread starts uninitialised, the previous one as zero bytes.\<close>

definition x52d_io_init ::
  "'w hidapi \<Rightarrow> bool \<Rightarrow> libx52io_report \<Rightarrow> 'w \<Rightarrow> (io_manager \<times> 'w) proc" where
  "x52d_io_init H alloc uninit w =
     (case libx52io_init H True alloc w of
        (rc, c, w1) \<Rightarrow>
          if rc \<noteq> LIBX52IO_SUCCESS then Exit 1
          else Go (\<lparr>io_ctx = the c, io_report = uninit, io_prev_report = report_zero\<rparr>, w1))"

definition x52d_io_exit :: "'w hidapi \<Rightarrow> io_manager \<Rightarrow> 'w \<Rightarrow> 'w" where
  "x52d_io_exit H s w = snd (libx52io_exit H (Some (io_ctx s)) w)"

section \<open>Speed\<close>

lemma mouse_speed_value:
  "x52d_cfg_set_Mouse_Speed speed m =
     (if speed < 0 \<or> 32 < speed then m
      else if speed \<le> 12 then m\<lparr>mouse_delay := 70000 - speed * 5000, mouse_mult := 4\<rparr>
      else m\<lparr>mouse_delay := 10000, mouse_mult := speed - 8\<rparr>)"
  by (simp add: x52d_cfg_set_Mouse_Speed_def mouse_consts c_div_def)

lemma abs_c_div: "0 < b \<Longrightarrow> \<bar>c_div a b\<bar> = \<bar>a\<bar> div b"
  by (simp add: c_div_def pos_imp_zdiv_nonneg_iff)

text \<open>Thumb stick positions run from 0 to 15.\<close>

lemma axis_value_shift: "drop_bit 1 (push_bit 1 v - 15) = v - (8 :: int)"
proof -
  have "(2 * v - 15) div 2 = v - 8" by linarith
  then show ?thesis by (simp add: drop_bit_eq_div push_bit_eq_mult)
qed

text \<open>
  The speed of the virtual mouse. After any speed setting the delay is between 10 and 70
  milliseconds and the multiplier between 4 and 24, a setting from 0 to 32 takes effect and a
  higher one is faster; and the value sent for a stick position is its distance from 8 times
  the multiplier over 4, rounded towards zero: never more than 48, and zero exactly at 8. In
  particular position 7 moves the pointer.
\<close>

lemma mouse_speed_bounds:
  assumes "10000 \<le> mouse_delay m \<and> mouse_delay m \<le> 70000" and "4 \<le> mouse_mult m \<and> mouse_mult m \<le> 24"
    and "x52d_cfg_set_Mouse_Speed speed m = m'" and "0 \<le> v \<and> v \<le> 15"
  shows "10000 \<le> mouse_delay m' \<and> mouse_delay m' \<le> 70000 \<and> 4 \<le> mouse_mult m' \<and> mouse_mult m' \<le> 24
    \<and> (0 \<le> speed \<and> speed < 32 \<longrightarrow>
        (let f = x52d_cfg_set_Mouse_Speed (speed + 1) m
         in mouse_delay f < mouse_delay m' \<and> mouse_mult f = mouse_mult m'
          \<or> mouse_delay f = mouse_delay m' \<and> mouse_mult m' < mouse_mult f))
    \<and> axis_event_value (mouse_mult m') v = c_div ((v - 8) * mouse_mult m') 4
    \<and> \<bar>axis_event_value (mouse_mult m') v\<bar> \<le> 48
    \<and> (axis_event_value (mouse_mult m') v = 0 \<longleftrightarrow> v = 8)"
proof -
  let ?k = "mouse_mult m'"
  have b: "10000 \<le> mouse_delay m' \<and> mouse_delay m' \<le> 70000 \<and> 4 \<le> ?k \<and> ?k \<le> 24"
    using assms(1-3) by (auto simp: mouse_speed_value)
  have f: "0 \<le> speed \<and> speed < 32 \<longrightarrow>
        (let f = x52d_cfg_set_Mouse_Speed (speed + 1) m
         in mouse_delay f < mouse_delay m' \<and> mouse_mult f = mouse_mult m'
          \<or> mouse_delay f = mouse_delay m' \<and> mouse_mult m' < mouse_mult f)"
    using assms(3) by (auto simp: mouse_speed_value Let_def split: if_splits)
  have e: "axis_event_value ?k v = c_div ((v - 8) * ?k) 4"
    by (simp only: axis_event_value_def axis_value_shift MOUSE_MULT_FACTOR_def)
  have abs: "\<bar>axis_event_value ?k v\<bar> = \<bar>v - 8\<bar> * ?k div 4"
    using b by (simp add: e abs_c_div abs_mult)
  have "\<bar>v - 8\<bar> * ?k \<le> 8 * 24" using b assms(4) by (intro mult_mono) auto
  then have le: "\<bar>axis_event_value ?k v\<bar> \<le> 48" unfolding abs by linarith
  have "\<bar>axis_event_value ?k v\<bar> = 0 \<longleftrightarrow> v = 8"
  proof (cases "v = 8")
    case False
    then have "1 * 4 \<le> \<bar>v - 8\<bar> * ?k" using b by (intro mult_mono) auto
    then have "1 \<le> \<bar>axis_event_value ?k v\<bar>" unfolding abs by linarith
    with False show ?thesis by simp
  next
    case True
    with e show ?thesis by (simp add: c_div_def)
  qed
  with b f e le show ?thesis by (simp only: abs_eq_0)
qed

lemma mouse_speed_bounds_witness:
  "axis_event_value (mouse_mult (x52d_cfg_set_Mouse_Speed 32 mouse_start)) 7 = - 6"
proof -
  have d: "10000 \<le> mouse_delay mouse_start \<and> mouse_delay mouse_start \<le> 70000"
    and k: "4 \<le> mouse_mult mouse_start \<and> mouse_mult mouse_start \<le> 24"
    by (simp_all add: mouse_start_def mouse_consts)
  have v: "0 \<le> (7 :: int) \<and> (7 :: int) \<le> 15" by simp
  have "mouse_mult (x52d_cfg_set_Mouse_Speed 32 mouse_start) = 24" by (simp add: mouse_speed_value)
  with mouse_speed_bounds [OF d k refl [of "x52d_cfg_set_Mouse_Speed 32 mouse_start"] v]
  show ?thesis by (simp add: c_div_def)
qed

section \<open>The buttons of the virtual mouse\<close>

text \<open>
  What the input system documents: a write succeeds, and a key event sets the state of that key;
  \<open>pressed\<close> reads it.
\<close>

definition key_laws :: "'u uinput \<Rightarrow> ('u \<Rightarrow> mouse_key \<Rightarrow> bool) \<Rightarrow> bool" where
  "key_laws W pressed \<longleftrightarrow> (\<forall>e u. fst (W e u) = 0 \<and>
     pressed (snd (W e u)) = (case e of EV_KEY k v \<Rightarrow> (pressed u)(k := v) | _ \<Rightarrow> pressed u))"

fun button_of :: "libx52io_report \<Rightarrow> mouse_key \<Rightarrow> bool" where
  "button_of r BTN_LEFT = rep_button r ! bt LIBX52IO_BTN_MOUSE_PRIMARY"
| "button_of r BTN_RIGHT = rep_button r ! bt LIBX52IO_BTN_MOUSE_SECONDARY"

locale key_sink =
  fixes W :: "'u uinput" and pressed :: "'u \<Rightarrow> mouse_key \<Rightarrow> bool"
  assumes laws: "key_laws W pressed"
begin

lemma write_key: "fst (W (EV_KEY k v) u) = 0" "pressed (snd (W (EV_KEY k v) u)) = (pressed u)(k := v)"
  using laws by (simp_all add: key_laws_def)

lemma write_other:
  "fst (W (EV_REL a x) u) = 0" "pressed (snd (W (EV_REL a x) u)) = pressed u"
  "fst (W EV_SYN u) = 0" "pressed (snd (W EV_SYN u)) = pressed u"
  using laws by (simp_all add: key_laws_def)

lemma sync_ok: "report_sync W m u = (m', u') \<Longrightarrow> m' = m\<lparr>old_report := new_report m\<rparr> \<and> pressed u' = pressed u"
  using write_other(3,4) [of u] by (auto simp: report_sync_def split: prod.splits)

lemma axis_ok: "report_axis W a i m u = (rc, u') \<Longrightarrow> pressed u' = pressed u"
  using write_other(2) by (auto simp: report_axis_def Let_def split: if_splits) (metis snd_conv)+

lemma wheel_ok: "report_wheel W m u = (rc, u') \<Longrightarrow> pressed u' = pressed u"
proof -
  have "report_wheel W m u = (1, u) \<or> (\<exists>x. report_wheel W m u = W (EV_REL REL_WHEEL x) u)"
    by (auto simp: report_wheel_def Let_def)
  then show "report_wheel W m u = (rc, u') \<Longrightarrow> pressed u' = pressed u"
    using write_other(2) by (metis Pair_inject snd_conv)
qed

lemma change_pressed:
  assumes "report_button_change W k i m u = (rc, u')"
  defines "n \<equiv> rep_button (new_report m) ! bt i"
  shows "if rep_button (old_report m) ! bt i = n then rc = 1 \<and> u' = u
    else rc = 0 \<and> pressed u' = (pressed u)(k := n)"
  using assms(1) write_key [of k n u] by (auto simp: report_button_change_def n_def Let_def split: if_splits)

text \<open>A round of the mouse thread touches no key; it may take the new report for handled.\<close>

lemma round_key:
  assumes "x52_mouse_round W m u = (m', u')"
  shows "pressed u' = pressed u \<and> (m' = m \<or> m' = m\<lparr>old_report := new_report m\<rparr>)"
proof -
  obtain rx u1 where x: "report_axis W REL_X LIBX52IO_AXIS_THUMBX m u = (rx, u1)" by (rule prod.exhaust)
  obtain ry u2 where y: "report_axis W REL_Y LIBX52IO_AXIS_THUMBY m u1 = (ry, u2)" by (rule prod.exhaust)
  have p: "pressed u2 = pressed u" using axis_ok [OF x] axis_ok [OF y] by simp
  obtain m3 u3 where s: "report_sync W m u2 = (m3, u3)" by (rule prod.exhaust)
  from assms have "(m', u') = (m3, u3) \<or> (m', u') = (m, u2)"
    by (auto simp: x52_mouse_round_def x y s split: if_splits)
  with sync_ok [OF s] p show ?thesis by (elim disjE) simp_all
qed

text \<open>Handling a report sets a key to its new state when that differs from the old one.\<close>

lemma event_key:
  assumes "report_changes W m u = (m', u')" and "mouse_uidev_created m" "mouse_thr_enabled m"
  shows "pressed u' k = (if button_of (old_report m) k = button_of (new_report m) k then pressed u k
      else button_of (new_report m) k)
    \<and> button_of (old_report m') k = button_of (new_report m) k
    \<and> button_of (new_report m') k = button_of (new_report m) k
    \<and> mouse_uidev_created m' \<and> mouse_thr_enabled m'"
proof -
  let ?o = "button_of (old_report m)" and ?n = "button_of (new_report m)"
  obtain rl u1 where l: "report_button_change W BTN_LEFT LIBX52IO_BTN_MOUSE_PRIMARY m u = (rl, u1)"
    by (rule prod.exhaust)
  obtain rr u2 where r: "report_button_change W BTN_RIGHT LIBX52IO_BTN_MOUSE_SECONDARY m u1 = (rr, u2)"
    by (rule prod.exhaust)
  obtain rw u3 where w: "report_wheel W m u2 = (rw, u3)" by (rule prod.exhaust)
  obtain m4 u4 where s: "report_sync W m u3 = (m4, u4)" by (rule prod.exhaust)
  have cl: "if ?o BTN_LEFT = ?n BTN_LEFT then rl = 1 \<and> u1 = u
      else rl = 0 \<and> pressed u1 = (pressed u)(BTN_LEFT := ?n BTN_LEFT)"
    using change_pressed [OF l] by simp
  have cr: "if ?o BTN_RIGHT = ?n BTN_RIGHT then rr = 1 \<and> u2 = u1
      else rr = 0 \<and> pressed u2 = (pressed u1)(BTN_RIGHT := ?n BTN_RIGHT)"
    using change_pressed [OF r] by simp
  have p: "pressed u3 k = (if ?o k = ?n k then pressed u k else ?n k)"
    using cl cr wheel_ok [OF w] by (cases k) (simp_all split: if_splits)
  have "(m', u') = (if rl = 0 \<or> rr = 0 \<or> rw = 0 then (m4, u4) else (m, u3))"
    using assms by (auto simp: report_changes_def l r w s split: if_splits)
  moreover have "?o k = ?n k" if "\<not> (rl = 0 \<or> rr = 0 \<or> rw = 0)"
    using that cl cr by (cases k) (auto split: if_splits)
  ultimately show ?thesis
    using p sync_ok [OF s] assms(2,3) by (auto split: if_splits)
qed

end

text \<open>
  Anything that happens to the mouse once its device is created: a report of the joystick, the
  loss of the joystick, a round of the mouse thread (which is there while the mouse is enabled)
  and the settings, in any order.
\<close>

datatype mouse_input =
    Report libx52io_report | Lost | MouseRound | Speed int | ReverseScroll bool | Enable bool

fun mouse_input_step :: "'u uinput \<Rightarrow> mouse_input \<Rightarrow> mouse_manager \<times> 'u \<Rightarrow> mouse_manager \<times> 'u" where
  "mouse_input_step W (Report r) (m, u) = x52d_mouse_report_event W (Some r) m u"
| "mouse_input_step W Lost (m, u) = x52d_mouse_report_event W None m u"
| "mouse_input_step W MouseRound (m, u) = (if mouse_thr_enabled m then x52_mouse_round W m u else (m, u))"
| "mouse_input_step W (Speed n) (m, u) = (x52d_cfg_set_Mouse_Speed n m, u)"
| "mouse_input_step W (ReverseScroll b) (m, u) = (x52d_cfg_set_Mouse_ReverseScroll b m, u)"
| "mouse_input_step W (Enable b) (m, u) = (x52d_cfg_set_Mouse_Enabled b m, u)"

definition mouse_run :: "'u uinput \<Rightarrow> mouse_input list \<Rightarrow> mouse_manager \<times> 'u \<Rightarrow> mouse_manager \<times> 'u" where
  "mouse_run W = fold (mouse_input_step W)"

text \<open>
  What reaches the comparison of the buttons, by what happened in order: the reports that come
  while the mouse is enabled, and \<open>None\<close> where the reports are reset, which is the loss of the
  joystick and enabling the mouse when it is not.
\<close>

fun enabled_after :: "bool \<Rightarrow> mouse_input \<Rightarrow> bool" where
  "enabled_after b (Enable b') = b'"
| "enabled_after b i = b"

fun heard_of :: "bool \<Rightarrow> mouse_input \<Rightarrow> libx52io_report option list" where
  "heard_of on (Report r) = (if on then [Some r] else [])"
| "heard_of on Lost = [None]"
| "heard_of on (Enable b) = (if b \<and> \<not> on then [None] else [])"
| "heard_of on i = []"

fun heard :: "bool \<Rightarrow> mouse_input list \<Rightarrow> libx52io_report option list" where
  "heard on [] = []"
| "heard on (i # is) = heard_of on i @ heard (enabled_after on i) is"

definition down :: "mouse_key \<Rightarrow> libx52io_report option \<Rightarrow> bool" where
  "down k x \<longleftrightarrow> (case x of None \<Rightarrow> False | Some r \<Rightarrow> button_of r k)"

text \<open>
  A key is held when some report has its button down and the last such report is the last thing
  heard, or a reset is what was heard next.
\<close>

fun held :: "mouse_key \<Rightarrow> libx52io_report option list \<Rightarrow> bool" where
  "held k [] = False"
| "held k (x # h) =
     (if \<exists>y \<in> set h. down k y then held k h else down k x \<and> (h = [] \<or> hd h = None))"

lemma held_snoc:
  "held k (h @ [x]) = (if down k x then True
     else if h \<noteq> [] \<and> down k (last h) then x = None else held k h)"
proof (induction h)
  case (Cons y h)
  consider (down) "down k x" | (later) "\<not> down k x" "\<exists>z \<in> set h. down k z"
    | (none) "\<not> down k x" "\<not> (\<exists>z \<in> set h. down k z)" by blast
  then show ?case
  proof cases
    case down
    then have "held k ((y # h) @ [x]) = held k (h @ [x])" by simp
    with Cons down show ?thesis by simp
  next
    case later
    then have "h \<noteq> []" "held k ((y # h) @ [x]) = held k (h @ [x])" "held k (y # h) = held k h" by auto
    with Cons later show ?thesis by simp
  next
    case none
    then have "h \<noteq> [] \<Longrightarrow> \<not> down k (last h)" by simp
    with none show ?thesis by (cases h) auto
  qed
qed (simp add: down_def)

definition mouse_inv ::
  "('u \<Rightarrow> mouse_key \<Rightarrow> bool) \<Rightarrow> mouse_key \<Rightarrow> libx52io_report option list \<Rightarrow> mouse_manager \<Rightarrow> 'u \<Rightarrow> bool" where
  "mouse_inv pressed k h m u \<longleftrightarrow> mouse_uidev_created m \<and> pressed u k = held k h
     \<and> (mouse_thr_enabled m \<longrightarrow> button_of (old_report m) k = (h \<noteq> [] \<and> down k (last h))
          \<and> button_of (new_report m) k = button_of (old_report m) k)"

lemma button_off: "button_of (new_report (reset_reports m)) k = False"
proof -
  have "bt b < LIBX52IO_BUTTON_MAX" for b using button_code_nth [of b] by simp
  then show ?thesis by (cases k) (simp_all add: reset_reports_def report_zero_def Let_def)
qed

lemma reset_old_new: "old_report (reset_reports m) = new_report (reset_reports m)"
  by (simp add: reset_reports_def Let_def)

lemma reset_inv:
  assumes "pressed u k = held k h" and "mouse_uidev_created m"
  shows "mouse_inv pressed k (h @ [None]) (reset_reports m) u"
    and "mouse_inv pressed k (h @ [None]) ((reset_reports m)\<lparr>mouse_thr_enabled := b\<rparr>) u"
proof -
  have "held k (h @ [None]) = held k h"
    unfolding held_snoc by (cases h rule: rev_cases) (auto simp: down_def held_snoc)
  moreover have "mouse_uidev_created (reset_reports m)" using assms(2) by (simp add: reset_reports_def Let_def)
  ultimately show "mouse_inv pressed k (h @ [None]) (reset_reports m) u"
    "mouse_inv pressed k (h @ [None]) ((reset_reports m)\<lparr>mouse_thr_enabled := b\<rparr>) u"
    using assms(1) button_off [of m k] by (simp_all add: mouse_inv_def reset_old_new down_def)
qed

context key_sink begin

lemma report_inv:
  assumes "x52d_mouse_report_event W (Some r) m u = (m', u')" and "mouse_inv pressed k h m u"
  shows "mouse_inv pressed k (h @ heard_of (mouse_thr_enabled m) (Report r)) m' u'
    \<and> mouse_thr_enabled m' = mouse_thr_enabled m"
proof (cases "mouse_thr_enabled m")
  case False
  with assms show ?thesis by (auto simp: x52d_mouse_report_event_def report_changes_def mouse_inv_def)
next
  case True
  have "report_changes W (m\<lparr>new_report := r\<rparr>) u = (m', u')" "mouse_uidev_created m"
    using assms by (simp_all add: x52d_mouse_report_event_def mouse_inv_def)
  from event_key [OF this(1), of k] this(2) True
  have "pressed u' k = (if button_of (old_report m) k = button_of r k then pressed u k else button_of r k)"
    "button_of (old_report m') k = button_of r k" "button_of (new_report m') k = button_of r k"
    "mouse_uidev_created m'" "mouse_thr_enabled m'" by simp_all
  moreover have "held k (h @ [Some r]) =
      (if button_of (old_report m) k = button_of r k then pressed u k else button_of r k)"
    using assms(2) True unfolding held_snoc
    by (cases h rule: rev_cases) (auto simp: mouse_inv_def down_def held_snoc)
  ultimately show ?thesis by (simp add: True mouse_inv_def down_def)
qed

lemma input_inv:
  assumes "mouse_input_step W i (m, u) = (m', u')" and "mouse_inv pressed k h m u"
  shows "mouse_inv pressed k (h @ heard_of (mouse_thr_enabled m) i) m' u'
    \<and> mouse_thr_enabled m' = enabled_after (mouse_thr_enabled m) i"
proof (cases i)
  case (Report r)
  with assms report_inv [of r m u m' u' k h] show ?thesis by simp
next
  case Lost
  have "pressed u k = held k h" "mouse_uidev_created m" using assms(2) by (simp_all add: mouse_inv_def)
  from reset_inv(1) [where pressed = pressed, OF this] assms(1) Lost show ?thesis
    by (auto simp: x52d_mouse_report_event_def reset_reports_def Let_def)
next
  case MouseRound
  with assms round_key [of m u m' u'] show ?thesis by (auto simp: mouse_inv_def split: if_splits)
next
  case (Enable b)
  have "pressed u k = held k h" "mouse_uidev_created m" using assms(2) by (simp_all add: mouse_inv_def)
  from reset_inv(2) [where pressed = pressed and b = True, OF this] assms Enable show ?thesis
    by (auto simp: x52d_cfg_set_Mouse_Enabled_def x52d_mouse_evdev_thread_control_def mouse_inv_def split: if_splits)
qed (use assms in \<open>auto simp: mouse_inv_def mouse_speed_value x52d_cfg_set_Mouse_ReverseScroll_def split: if_splits\<close>)

lemma run_inv:
  "mouse_run W is (m, u) = (m', u') \<Longrightarrow> mouse_inv pressed k h m u \<Longrightarrow>
   mouse_inv pressed k (h @ heard (mouse_thr_enabled m) is) m' u'"
proof (induction "is" arbitrary: m u h)
  case (Cons i "is")
  obtain m1 u1 where s: "mouse_input_step W i (m, u) = (m1, u1)" by (rule prod.exhaust)
  from Cons.prems(1) s have "mouse_run W is (m1, u1) = (m', u')" by (simp add: mouse_run_def)
  from Cons.IH [OF this, of "h @ heard_of (mouse_thr_enabled m) i"] input_inv [OF s Cons.prems(2)] show ?case by simp
qed (simp add: mouse_run_def)

end

text \<open>The input system that keeps the state of the keys.\<close>

definition key_state :: "(mouse_key \<Rightarrow> bool) uinput" where
  "key_state e u = (0, case e of EV_KEY k v \<Rightarrow> u(k := v) | _ \<Rightarrow> u)"

interpretation keys: key_sink key_state "\<lambda>u. u"
  by unfold_locales (simp add: key_laws_def key_state_def)

text \<open>
  C29:
  The buttons of the virtual mouse over a whole run, from the creation of its device with no
  button pressed, through reports, losses of the joystick, rounds of the mouse thread and changes
  of all settings, the mouse being enabled and disabled included, in any order. A button is
  pressed exactly when it is down in some report that came while the mouse was enabled, and after
  the last such report either nothing was heard or a reset came next: a release is passed on only
  by the report that follows a press. So the button follows the reports as long as there is no
  reset between a press and its release, and stays pressed until the next press and release
  otherwise. Writing an event is taken to succeed, and a report is handled without a round of
  the mouse thread in between.
\<close>

theorem mouse_buttons_follow:
  assumes "key_laws W pressed" and "mouse_uidev_created m" and "\<not> mouse_thr_enabled m" and "\<not> pressed u k"
    and "mouse_run W is (m, u) = (m', u')"
  shows "pressed u' k \<longleftrightarrow> held k (heard False is)"
proof -
  have "mouse_inv pressed k [] m u" using assms(2-4) by (simp add: mouse_inv_def)
  from key_sink.run_inv [OF key_sink.intro [OF assms(1)] assms(5) this] assms(3) show ?thesis
    by (simp add: mouse_inv_def)
qed

text \<open>A reset, and the mouse disabled, while a button is pressed.\<close>

lemma changes_same:
  assumes "button_of (old_report m) k = button_of (new_report m) k" and "key_laws W pressed"
  shows "pressed (snd (report_changes W m u)) k = pressed u k"
proof -
  have sink: "key_sink W pressed" using assms(2) by (rule key_sink.intro)
  obtain rl u1 where l: "report_button_change W BTN_LEFT LIBX52IO_BTN_MOUSE_PRIMARY m u = (rl, u1)"
    by (rule prod.exhaust)
  obtain rr u2 where r: "report_button_change W BTN_RIGHT LIBX52IO_BTN_MOUSE_SECONDARY m u1 = (rr, u2)"
    by (rule prod.exhaust)
  obtain rw u3 where w: "report_wheel W m u2 = (rw, u3)" by (rule prod.exhaust)
  obtain m4 u4 where s: "report_sync W m u3 = (m4, u4)" by (rule prod.exhaust)
  have "pressed u1 k = pressed u k"
    using key_sink.change_pressed [OF sink l] assms(1) by (cases k) (simp_all split: if_splits)
  moreover have "pressed u2 k = pressed u1 k"
    using key_sink.change_pressed [OF sink r] assms(1) by (cases k) (simp_all split: if_splits)
  ultimately have "pressed u3 k = pressed u k" "pressed u4 k = pressed u k"
    using key_sink.wheel_ok [OF sink w] key_sink.sync_ok [OF sink s] by simp_all
  then show ?thesis by (auto simp: report_changes_def l r w s)
qed

text \<open>
  A read error resets the reports without releasing the buttons of the virtual mouse: a button
  that is pressed then stays pressed, also when the joystick comes back with the button up.
\<close>

lemma mouse_reset_sticks:
  assumes "key_laws W pressed" and "pressed u k" and "\<not> button_of r k"
    and "x52d_mouse_report_event W None m u = (m1, u1)"
    and "x52d_mouse_report_event W (Some r) m1 u1 = (m2, u2)"
  shows "pressed u2 k"
proof -
  have m1: "m1 = reset_reports m" "u1 = u" using assms(4) by (simp_all add: x52d_mouse_report_event_def)
  have "button_of (old_report m1) k = button_of (new_report (m1\<lparr>new_report := r\<rparr>)) k"
    using assms(3) button_off [of m k] by (simp add: m1 reset_old_new)
  with changes_same [of "m1\<lparr>new_report := r\<rparr>" k W pressed u1] assms(1,2,5) m1(2)
  show ?thesis by (simp add: x52d_mouse_report_event_def)
qed

text \<open>The mouse just started, with no button pressed, gets a report with the left button.\<close>

definition demo_mouse :: mouse_manager where
  "demo_mouse = x52d_mouse_evdev_thread_control True (x52d_mouse_evdev_init True mouse_start)"

definition left_report :: libx52io_report where
  "left_report = report_zero\<lparr>rep_button := (rep_button report_zero)[bt LIBX52IO_BTN_MOUSE_PRIMARY := True]\<rparr>"

lemma demo_mouse_on: "mouse_thr_enabled demo_mouse"
  by (simp add: demo_mouse_def x52d_mouse_evdev_thread_control_def x52d_mouse_evdev_init_def mouse_start_def
      reset_reports_def Let_def)

lemma left_report_button: "button_of left_report k \<longleftrightarrow> k = BTN_LEFT"
proof -
  have "bt b < LIBX52IO_BUTTON_MAX" for b using button_code_nth [of b] by simp
  then show ?thesis
    by (cases k) (simp_all add: left_report_def report_zero_def bt_inj nth_list_update)
qed

text \<open>A press and its release; and a press whose release comes while the mouse is disabled.\<close>

lemma mouse_buttons_follow_witness:
  "\<not> snd (mouse_run key_state [Enable True, Report left_report, MouseRound, Report report_zero]
       (x52d_mouse_evdev_init True mouse_start, \<lambda>_. False)) BTN_LEFT
   \<and> snd (mouse_run key_state [Enable True, Report left_report, Enable False, Report report_zero, Enable True,
       Report report_zero] (x52d_mouse_evdev_init True mouse_start, \<lambda>_. False)) BTN_LEFT"
proof -
  have "bt b < LIBX52IO_BUTTON_MAX" for b using button_code_nth [of b] by simp
  then have "\<not> button_of report_zero BTN_LEFT" by (simp add: report_zero_def)
  then have held: "\<not> held BTN_LEFT (heard False [Enable True, Report left_report, MouseRound, Report report_zero])"
    "held BTN_LEFT (heard False [Enable True, Report left_report, Enable False, Report report_zero, Enable True,
       Report report_zero])"
    using left_report_button [of BTN_LEFT] by (simp_all add: down_def)
  let ?m = "x52d_mouse_evdev_init True mouse_start"
  have start: "mouse_uidev_created ?m" "\<not> mouse_thr_enabled ?m"
    by (simp_all add: x52d_mouse_evdev_init_def mouse_start_def)
  have "snd (mouse_run key_state is (?m, \<lambda>_. False)) BTN_LEFT \<longleftrightarrow> held BTN_LEFT (heard False is)" for "is"
  proof -
    obtain m' u' where r: "mouse_run key_state is (?m, \<lambda>_. False) = (m', u')" by (rule prod.exhaust)
    from mouse_buttons_follow [OF keys.laws start _ r, of BTN_LEFT] show ?thesis by (simp add: r)
  qed
  with held show ?thesis by simp
qed

lemma mouse_reset_sticks_witness:
  "snd (case x52d_mouse_report_event key_state None demo_mouse (\<lambda>_. True) of
     (m1, u1) \<Rightarrow> x52d_mouse_report_event key_state (Some report_zero) m1 u1) BTN_LEFT"
proof -
  obtain m1 u1 where e: "x52d_mouse_report_event key_state None demo_mouse (\<lambda>_. True) = (m1, u1)"
    by (rule prod.exhaust)
  obtain m2 u2 where f: "x52d_mouse_report_event key_state (Some report_zero) m1 u1 = (m2, u2)"
    by (rule prod.exhaust)
  have "bt b < LIBX52IO_BUTTON_MAX" for b using button_code_nth [of b] by simp
  then have "\<not> button_of report_zero BTN_LEFT" by (simp add: report_zero_def)
  from mouse_reset_sticks [OF keys.laws _ this e f] show ?thesis by (simp add: e f)
qed

section \<open>The two threads interleaved\<close>

text \<open>
  The report of the joystick is stored before its buttons are compared with the old report;
  a round of the mouse thread may come in between. \<open>mt_loaded\<close> tells that the reading thread is
  there.
\<close>

record 'u mouse_threads =
  mt_man :: mouse_manager
  mt_sink :: 'u
  mt_loaded :: bool

inductive mouse_step :: "'u uinput \<Rightarrow> 'u mouse_threads \<Rightarrow> 'u mouse_threads \<Rightarrow> bool" for W where
  load: "\<not> mt_loaded t \<Longrightarrow>
     mouse_step W t (t\<lparr>mt_man := (mt_man t)\<lparr>new_report := r\<rparr>, mt_loaded := True\<rparr>)"
| changes: "mt_loaded t \<Longrightarrow> report_changes W (mt_man t) (mt_sink t) = (m, u) \<Longrightarrow>
     mouse_step W t (t\<lparr>mt_man := m, mt_sink := u, mt_loaded := False\<rparr>)"
| mouse_round: "mouse_thr_enabled (mt_man t) \<Longrightarrow> x52_mouse_round W (mt_man t) (mt_sink t) = (m, u) \<Longrightarrow>
     mouse_step W t (t\<lparr>mt_man := m, mt_sink := u\<rparr>)"

lemma event_halves:
  "x52d_mouse_report_event W (Some r) m u = report_changes W (m\<lparr>new_report := r\<rparr>) u"
  by (simp add: x52d_mouse_report_event_def)

lemma round_syncs:
  assumes "key_laws W pressed" and "x52_mouse_round W m u = (m', u')"
    and "axis_event_value (mouse_mult m) (rep_axis (new_report m) ! ax LIBX52IO_AXIS_THUMBX) \<noteq> 0"
  shows "m' = m\<lparr>old_report := new_report m\<rparr> \<and> pressed u' = pressed u"
proof -
  have sink: "key_sink W pressed" using assms(1) by (rule key_sink.intro)
  obtain rx u1 where x: "report_axis W REL_X LIBX52IO_AXIS_THUMBX m u = (rx, u1)" by (rule prod.exhaust)
  obtain ry u2 where y: "report_axis W REL_Y LIBX52IO_AXIS_THUMBY m u1 = (ry, u2)" by (rule prod.exhaust)
  obtain m3 u3 where s: "report_sync W m u2 = (m3, u3)" by (rule prod.exhaust)
  have "rx = 0"
    using x assms(3) key_sink.write_other(1) [OF sink, of REL_X _ u]
    by (auto simp: report_axis_def Let_def simp del: ax_simps) (metis fst_conv)
  with assms(2) x y s have "(m', u') = (m3, u3)" by (auto simp: x52_mouse_round_def)
  then show ?thesis
    using key_sink.axis_ok [OF sink x] key_sink.axis_ok [OF sink y] key_sink.sync_ok [OF sink s] by simp
qed

text \<open>
  A round of the mouse thread between the two halves of a report loses a button. If the stick
  of the new report is off its centre, the round copies the new report over the old one, the
  comparison then finds no change, and the button of the virtual mouse stays as it was although
  both reports have the new state.
\<close>

lemma mouse_press_lost:
  fixes t :: "'u mouse_threads"
  assumes laws: "key_laws W pressed" and "\<not> mt_loaded t" and on: "mouse_thr_enabled (mt_man t)"
    and stick: "axis_event_value (mouse_mult (mt_man t)) (rep_axis r ! ax LIBX52IO_AXIS_THUMBX) \<noteq> 0"
  shows "\<exists>t'. (mouse_step W)\<^sup>*\<^sup>* t t' \<and> \<not> mt_loaded t'
    \<and> old_report (mt_man t') = r \<and> new_report (mt_man t') = r
    \<and> pressed (mt_sink t') = pressed (mt_sink t)"
proof -
  let ?m1 = "(mt_man t)\<lparr>new_report := r\<rparr>"
  define t1 where "t1 = t\<lparr>mt_man := ?m1, mt_loaded := True\<rparr>"
  obtain m2 u2 where r2: "x52_mouse_round W ?m1 (mt_sink t) = (m2, u2)" by (rule prod.exhaust)
  have m2: "m2 = ?m1\<lparr>old_report := r\<rparr>" "pressed u2 = pressed (mt_sink t)"
    using round_syncs [OF laws r2] stick by simp_all
  define t2 where "t2 = t1\<lparr>mt_man := m2, mt_sink := u2\<rparr>"
  obtain m3 u3 where r3: "report_changes W m2 u2 = (m3, u3)" by (rule prod.exhaust)
  define t3 where "t3 = t2\<lparr>mt_man := m3, mt_sink := u3, mt_loaded := False\<rparr>"
  have "mouse_step W t t1" unfolding t1_def using assms(2) by (rule load)
  moreover have "mouse_step W t1 t2"
    unfolding t2_def by (rule mouse_round) (simp_all add: t1_def on r2)
  moreover have "mouse_step W t2 t3"
    unfolding t3_def by (rule changes) (simp_all add: t2_def t1_def r3)
  ultimately have "(mouse_step W)\<^sup>*\<^sup>* t t3"
    by (meson converse_rtranclp_into_rtranclp rtranclp.rtrancl_refl)
  moreover have "button_of (old_report m2) k = button_of (new_report m2) k" for k by (simp add: m2(1))
  from changes_same [OF this laws, of u2] have "pressed u3 = pressed u2" by (simp add: r3 fun_eq_iff)
  moreover have "old_report m3 = r \<and> new_report m3 = r"
    using r3 by (auto simp: m2(1) report_changes_def report_sync_def split: if_splits prod.splits)
  ultimately show ?thesis using m2(2) by (intro exI [of _ t3]) (simp add: t3_def)
qed

lemma mouse_press_lost_witness:
  "\<exists>t'. (mouse_step key_state)\<^sup>*\<^sup>* \<lparr>mt_man = demo_mouse, mt_sink = (\<lambda>_. False), mt_loaded = False\<rparr> t'
    \<and> button_of (new_report (mt_man t')) BTN_LEFT \<and> \<not> mt_sink t' BTN_LEFT"
proof -
  let ?t = "\<lparr>mt_man = demo_mouse, mt_sink = (\<lambda>_. False), mt_loaded = False\<rparr>"
  have on: "mouse_thr_enabled (mt_man ?t)" using demo_mouse_on by simp
  have stick: "axis_event_value (mouse_mult (mt_man ?t)) (rep_axis left_report ! ax LIBX52IO_AXIS_THUMBX) \<noteq> 0"
    by (simp add: demo_mouse_def x52d_mouse_evdev_thread_control_def x52d_mouse_evdev_init_def mouse_start_def
        reset_reports_def left_report_def report_zero_def axis_event_value_def MOUSE_MULT_FACTOR_def c_div_def Let_def)
  from mouse_press_lost [OF keys.laws _ on stick] left_report_button [of BTN_LEFT]
  show ?thesis by auto
qed

end
