(* ===== verification/C_Numbers.thy ===== *)
theory C_Numbers
  imports X52_Prelude
begin

text \<open>
  \<open>strtol\<close> and \<open>strtoul\<close> of the C library with base 0 or 10, as the daemon and the command
  line tools call them: white space, a sign, a prefix that selects the base, digits, and the
  rest of the string as \<open>endptr\<close>. \<open>long\<close> has 64 bits. Reading back a printed number gives the
  number.
\<close>

section \<open>Digits\<close>

definition digit_val :: "char \<Rightarrow> nat" where
  "digit_val c = (let n = (of_char c :: nat) in
     if 48 \<le> n \<and> n \<le> 57 then n - 48
     else if 97 \<le> n \<and> n \<le> 122 then n - 87
     else if 65 \<le> n \<and> n \<le> 90 then n - 55
     else 99)"

fun scan_base :: "nat \<Rightarrow> nat \<Rightarrow> string \<Rightarrow> nat \<times> string" where
  "scan_base base acc [] = (acc, [])"
| "scan_base base acc (c # cs) =
     (if digit_val c < base then scan_base base (base * acc + digit_val c) cs else (acc, c # cs))"

definition strto_sign :: "string \<Rightarrow> bool \<times> string" where
  "strto_sign s = (case s of
     [] \<Rightarrow> (False, [])
   | c # cs \<Rightarrow> if c = CHR ''-'' then (True, cs) else if c = CHR ''+'' then (False, cs)
              else (False, c # cs))"

text \<open>The base of base 0, and the string after its prefix.\<close>

definition strto_base :: "string \<Rightarrow> nat \<times> string" where
  "strto_base s = (case s of
     c # d # e # cs \<Rightarrow>
       if c = CHR ''0'' \<and> (d = CHR ''x'' \<or> d = CHR ''X'') \<and> digit_val e < 16 then (16, e # cs)
       else if c = CHR ''0'' then (8, s) else (10, s)
   | c # cs \<Rightarrow> if c = CHR ''0'' then (8, s) else (10, s)
   | [] \<Rightarrow> (10, s))"

text \<open>
  The value with its sign, before it is clipped, and the rest; a string with no digits has
  value 0 and is all rest. \<open>base\<close> 0 stands for detecting it.
\<close>

definition strto :: "nat \<Rightarrow> string \<Rightarrow> int \<times> string" where
  "strto base s =
     (let (neg, s1) = strto_sign (dropWhile isspace s);
          (b, s2) = (if base = 0 then strto_base s1 else (base, s1))
      in case s2 of
           [] \<Rightarrow> (0, s)
         | c # cs \<Rightarrow> if digit_val c < b then
                      (let (n, rest) = scan_base b 0 s2 in (if neg then - int n else int n, rest))
                    else (0, s))"

text \<open>\<open>strtol\<close>: the clipped value, whether \<open>errno\<close> becomes \<open>ERANGE\<close>, and \<open>endptr\<close>.\<close>

definition strtol :: "nat \<Rightarrow> string \<Rightarrow> int \<times> bool \<times> string" where
  "strtol base s =
     (let (v, rest) = strto base s in
      if v < - (2 ^ 63) then (- (2 ^ 63), True, rest)
      else if 2 ^ 63 - 1 < v then (2 ^ 63 - 1, True, rest)
      else (v, False, rest))"

text \<open>\<open>strtoul\<close>: a negative value is negated in the unsigned type.\<close>

definition strtoul :: "nat \<Rightarrow> string \<Rightarrow> int \<times> bool \<times> string" where
  "strtoul base s =
     (let (v, rest) = strto base s in
      if 2 ^ 64 - 1 < \<bar>v\<bar> then (2 ^ 64 - 1, True, rest)
      else (v mod 2 ^ 64, False, rest))"

section \<open>Reading back a printed number\<close>

lemma digit_val_digit: "n < 10 \<Longrightarrow> digit_val (char_of (48 + n)) = n"
  by (simp add: digit_val_def of_char_of Let_def)

lemma scan_base_append:
  "\<forall>c \<in> set xs. digit_val c < base \<Longrightarrow>
   scan_base base acc (xs @ ys) = scan_base base (fst (scan_base base acc xs)) ys"
  by (induction xs arbitrary: acc) simp_all

lemma nat_digits_digits: "\<forall>c \<in> set (nat_digits n). digit_val c < 10"
proof (induction n rule: nat_digits.induct)
  case (1 n)
  then show ?case by (subst nat_digits.simps) (auto simp: digit_val_digit)
qed

lemma scan_nat_digits: "scan_base 10 0 (nat_digits n) = (n, [])"
proof (induction n rule: nat_digits.induct)
  case (1 n)
  show ?case
  proof (cases "n < 10")
    case True
    then show ?thesis by (subst nat_digits.simps) (simp add: digit_val_digit)
  next
    case False
    with 1 have "scan_base 10 0 (nat_digits (n div 10)) = (n div 10, [])" by simp
    with False nat_digits_digits [of "n div 10"] show ?thesis
      by (subst nat_digits.simps) (simp add: scan_base_append digit_val_digit)
  qed
qed

lemma nat_digits_not_Nil [simp]: "nat_digits n \<noteq> []"
  by (subst nat_digits.simps) simp

lemma char_of_48: "char_of (48 :: nat) = CHR ''0''"
  by code_simp

lemma nat_digits_0: "nat_digits 0 = [CHR ''0'']"
  by (subst nat_digits.simps) (simp add: char_of_48)

lemma nat_digits_zero: "hd (nat_digits n) = CHR ''0'' \<longleftrightarrow> n = 0"
proof (induction n rule: nat_digits.induct)
  case (1 n)
  show ?case
  proof (cases "n < 10")
    case True
    then have "digit_val (char_of (48 + n)) = n" by (rule digit_val_digit)
    moreover have "digit_val (CHR ''0'') = 0" by (simp add: digit_val_def)
    ultimately show ?thesis using True char_of_48 by (subst nat_digits.simps) auto
  next
    case False
    then have "hd (nat_digits n) = hd (nat_digits (n div 10))"
      by (subst nat_digits.simps) simp
    with 1 False show ?thesis by auto
  qed
qed

lemma nat_digits_hd_digit: "digit_val (hd (nat_digits n)) < 10"
  using nat_digits_digits [of n] hd_in_set [OF nat_digits_not_Nil] by blast

lemma digit_facts:
  assumes "digit_val c < 10"
  shows "\<not> isspace c" "c \<noteq> CHR ''-''" "c \<noteq> CHR ''+''"
  using assms by (auto simp: digit_val_def isspace_def Let_def split: if_splits)

lemma strto_sign_digits: "strto_sign (nat_digits n) = (False, nat_digits n)"
  using nat_digits_hd_digit [of n] digit_facts(2,3) [of "hd (nat_digits n)"]
  by (cases "nat_digits n") (simp_all add: strto_sign_def)

lemma strto_base_digits: "strto_base (nat_digits n) = (if n = 0 then 8 else 10, nat_digits n)"
proof (cases "n = 0")
  case True
  then have "nat_digits n = [CHR ''0'']" by (simp add: nat_digits_0)
  with True show ?thesis by (simp add: strto_base_def)
next
  case False
  then have "hd (nat_digits n) \<noteq> CHR ''0''" by (simp add: nat_digits_zero)
  with False show ?thesis
    by (cases "nat_digits n") (auto simp: strto_base_def split: list.split)
qed

lemma strto_digits:
  assumes "base = 0 \<or> base = 10"
  shows "strto_sign s = (neg, nat_digits n) \<Longrightarrow> dropWhile isspace s = s \<Longrightarrow>
    strto base s = (if neg then - int n else int n, [])"
proof -
  assume s: "strto_sign s = (neg, nat_digits n)" and w: "dropWhile isspace s = s"
  define b where "b = (if base = 0 then fst (strto_base (nat_digits n)) else base)"
  have b: "(if base = 0 then strto_base (nat_digits n) else (base, nat_digits n)) = (b, nat_digits n)"
    by (simp add: b_def strto_base_digits)
  have "scan_base b 0 (nat_digits n) = (n, []) \<and> digit_val (hd (nat_digits n)) < b"
  proof (cases "n = 0")
    case True
    then have "nat_digits n = [CHR ''0'']" by (simp add: nat_digits_0)
    moreover have "digit_val (CHR ''0'') = 0" by (simp add: digit_val_def)
    ultimately show ?thesis using assms True by (auto simp: b_def strto_base_def)
  next
    case False
    with assms have "b = 10" by (auto simp: b_def strto_base_digits)
    with scan_nat_digits nat_digits_hd_digit show ?thesis by simp
  qed
  then show ?thesis using b s w
    by (cases "nat_digits n") (auto simp: strto_def)
qed

lemma strto_fmt_d: "base = 0 \<or> base = 10 \<Longrightarrow> strto base (fmt_d i) = (i, [])"
proof -
  assume b: "base = 0 \<or> base = 10"
  show ?thesis
  proof (cases "i < 0")
    case True
    have "dropWhile isspace (fmt_d i) = fmt_d i" using True by (simp add: fmt_d_def isspace_def)
    moreover have "strto_sign (fmt_d i) = (True, nat_digits (nat (- i)))"
      using True by (simp add: fmt_d_def strto_sign_def)
    ultimately have "strto base (fmt_d i) = (- int (nat (- i)), [])" using b strto_digits by simp
    with True show ?thesis by simp
  next
    case False
    have "\<not> isspace (hd (nat_digits (nat i)))" using nat_digits_hd_digit by (rule digit_facts)
    then have "dropWhile isspace (nat_digits (nat i)) = nat_digits (nat i)"
      by (cases "nat_digits (nat i)") simp_all
    with b False strto_digits [OF b strto_sign_digits] show ?thesis by (simp add: fmt_d_def)
  qed
qed

lemma strtol_fmt_d:
  assumes "base = 0 \<or> base = 10" and "- (2 ^ 63) \<le> i" and "i < 2 ^ 63"
  shows "strtol base (fmt_d i) = (i, False, [])"
  using assms(2,3) by (simp add: strtol_def strto_fmt_d [OF assms(1)])

end
