(* ===== verification/Config_Map.thy ===== *)
theory Config_Map
  imports Libx52_Types C_Numbers
begin

text \<open>
  The configuration of the daemon (\<open>daemon/x52d_config.h\<close>, \<open>x52d_config.def\<close>): the
  structure, and the table of its 27 keys. A row of the table holds a section, a key, a typed
  position in the structure and a default; the position is a \<open>config_slot\<close>, which stands for
  the pair of a parser's type and \<open>offsetof\<close> that the C table holds: a way to read the member
  and a way to write it.
\<close>

section \<open>Error numbers\<close>

abbreviation (input) EIO :: int where "EIO \<equiv> 5"
abbreviation (input) ENOMEM :: int where "ENOMEM \<equiv> 12"
abbreviation (input) EINVAL :: int where "EINVAL \<equiv> 22"
abbreviation (input) ERANGE :: int where "ERANGE \<equiv> 34"

definition NAME_MAX :: nat where "NAME_MAX = 255"

section \<open>The structure\<close>

record x52d_config =
  clock_enabled :: bool
  primary_clock_local :: bool
  clock_format :: "libx52_clock_format list"
  date_format :: libx52_date_format
  clock_2_tz :: string
  clock_3_tz :: string
  leds :: "libx52_led_state list"
  brightness :: "int list"
  mouse_enabled :: bool
  mouse_speed :: int
  mouse_reverse_scroll :: bool
  clutch_enabled :: bool
  clutch_latched :: bool
  profiles_dir :: string

text \<open>The static structure starts out as zero bytes.\<close>

definition config_zero :: x52d_config where
  "config_zero = \<lparr> clock_enabled = False, primary_clock_local = False,
     clock_format = replicate 3 LIBX52_CLOCK_FORMAT_12HR,
     date_format = LIBX52_DATE_FORMAT_DDMMYY, clock_2_tz = [], clock_3_tz = [],
     leds = replicate 21 LIBX52_LED_STATE_OFF, brightness = replicate 2 0,
     mouse_enabled = False, mouse_speed = 0, mouse_reverse_scroll = False,
     clutch_enabled = False, clutch_latched = False, profiles_dir = [] \<rparr>"

text \<open>The arrays have their lengths, numbers fit an \<open>int\<close> and strings their buffers.\<close>

definition int_ok :: "int \<Rightarrow> bool" where
  "int_ok i \<longleftrightarrow> - (2 ^ 31) \<le> i \<and> i < 2 ^ 31"

definition string_ok :: "string \<Rightarrow> bool" where
  "string_ok s \<longleftrightarrow> length s < NAME_MAX"

definition config_wf :: "x52d_config \<Rightarrow> bool" where
  "config_wf c \<longleftrightarrow> length (clock_format c) = 3 \<and> length (leds c) = 21 \<and>
     length (brightness c) = 2 \<and> list_all int_ok (brightness c) \<and> int_ok (mouse_speed c) \<and>
     string_ok (clock_2_tz c) \<and> string_ok (clock_3_tz c) \<and> string_ok (profiles_dir c)"

lemma config_zero_wf: "config_wf config_zero"
  by (simp add: config_wf_def config_zero_def int_ok_def string_ok_def NAME_MAX_def list_all_iff)

section \<open>Positions in the structure\<close>

datatype config_slot =
    BoolSlot "x52d_config \<Rightarrow> bool" "bool \<Rightarrow> x52d_config \<Rightarrow> x52d_config"
  | StringSlot "x52d_config \<Rightarrow> string" "string \<Rightarrow> x52d_config \<Rightarrow> x52d_config"
  | IntSlot "x52d_config \<Rightarrow> int" "int \<Rightarrow> x52d_config \<Rightarrow> x52d_config"
  | LedSlot "x52d_config \<Rightarrow> libx52_led_state" "libx52_led_state \<Rightarrow> x52d_config \<Rightarrow> x52d_config"
  | ClockFormatSlot "x52d_config \<Rightarrow> libx52_clock_format"
      "libx52_clock_format \<Rightarrow> x52d_config \<Rightarrow> x52d_config"
  | DateFormatSlot "x52d_config \<Rightarrow> libx52_date_format"
      "libx52_date_format \<Rightarrow> x52d_config \<Rightarrow> x52d_config"

datatype config_value =
    BoolV bool | StringV string | IntV int | LedV libx52_led_state
  | ClockFormatV libx52_clock_format | DateFormatV libx52_date_format

fun slot_read :: "config_slot \<Rightarrow> x52d_config \<Rightarrow> config_value" where
  "slot_read (BoolSlot g p) c = BoolV (g c)"
| "slot_read (StringSlot g p) c = StringV (g c)"
| "slot_read (IntSlot g p) c = IntV (g c)"
| "slot_read (LedSlot g p) c = LedV (g c)"
| "slot_read (ClockFormatSlot g p) c = ClockFormatV (g c)"
| "slot_read (DateFormatSlot g p) c = DateFormatV (g c)"

text \<open>The values a slot can hold, and storing one.\<close>

fun slot_ok :: "config_slot \<Rightarrow> config_value \<Rightarrow> bool" where
  "slot_ok (BoolSlot g p) (BoolV b) = True"
| "slot_ok (StringSlot g p) (StringV s) = string_ok s"
| "slot_ok (IntSlot g p) (IntV i) = int_ok i"
| "slot_ok (LedSlot g p) (LedV l) = True"
| "slot_ok (ClockFormatSlot g p) (ClockFormatV f) = True"
| "slot_ok (DateFormatSlot g p) (DateFormatV f) = True"
| "slot_ok s v = False"

fun slot_write :: "config_slot \<Rightarrow> config_value \<Rightarrow> x52d_config \<Rightarrow> x52d_config" where
  "slot_write (BoolSlot g p) (BoolV b) c = p b c"
| "slot_write (StringSlot g p) (StringV s) c = p s c"
| "slot_write (IntSlot g p) (IntV i) c = p i c"
| "slot_write (LedSlot g p) (LedV l) c = p l c"
| "slot_write (ClockFormatSlot g p) (ClockFormatV f) c = p f c"
| "slot_write (DateFormatSlot g p) (DateFormatV f) c = p f c"
| "slot_write s v c = c"

text \<open>\<open>offsetof\<close> of a member, and of an element of an array member.\<close>

abbreviation led_slot :: "libx52_led_id \<Rightarrow> config_slot" where
  "led_slot i \<equiv> LedSlot (\<lambda>c. leds c ! nat (led_id_code i))
                        (\<lambda>v. leds_update (\<lambda>l. l [nat (led_id_code i) := v]))"

abbreviation clock_format_slot :: "libx52_clock_id \<Rightarrow> config_slot" where
  "clock_format_slot i \<equiv> ClockFormatSlot (\<lambda>c. clock_format c ! nat (clock_id_code i))
                           (\<lambda>v. clock_format_update (\<lambda>l. l [nat (clock_id_code i) := v]))"

abbreviation brightness_slot :: "nat \<Rightarrow> config_slot" where
  "brightness_slot i \<equiv> IntSlot (\<lambda>c. brightness c ! i)
                               (\<lambda>v. brightness_update (\<lambda>l. l [i := v]))"

section \<open>The table\<close>

record config_entry =
  e_section :: string
  e_key :: string
  e_slot :: config_slot
  e_default :: string

abbreviation CFG :: "string \<Rightarrow> string \<Rightarrow> config_slot \<Rightarrow> string \<Rightarrow> config_entry" where
  "CFG s k sl d \<equiv> \<lparr> e_section = s, e_key = k, e_slot = sl, e_default = d \<rparr>"

definition config_map :: "config_entry list" where
  "config_map =
   [CFG ''Clock'' ''Enabled'' (BoolSlot clock_enabled (\<lambda>v. clock_enabled_update (\<lambda>_. v))) ''true'',
    CFG ''Clock'' ''PrimaryIsLocal''
      (BoolSlot primary_clock_local (\<lambda>v. primary_clock_local_update (\<lambda>_. v))) ''true'',
    CFG ''Clock'' ''Secondary'' (StringSlot clock_2_tz (\<lambda>v. clock_2_tz_update (\<lambda>_. v))) ''UTC'',
    CFG ''Clock'' ''Tertiary'' (StringSlot clock_3_tz (\<lambda>v. clock_3_tz_update (\<lambda>_. v))) ''UTC'',
    CFG ''Clock'' ''FormatPrimary'' (clock_format_slot LIBX52_CLOCK_1) ''12hr'',
    CFG ''Clock'' ''FormatSecondary'' (clock_format_slot LIBX52_CLOCK_2) ''12hr'',
    CFG ''Clock'' ''FormatTertiary'' (clock_format_slot LIBX52_CLOCK_3) ''12hr'',
    CFG ''Clock'' ''DateFormat'' (DateFormatSlot date_format (\<lambda>v. date_format_update (\<lambda>_. v))) ''ddmmyy'',
    CFG ''LED'' ''Fire'' (led_slot LIBX52_LED_FIRE) ''on'',
    CFG ''LED'' ''Throttle'' (led_slot LIBX52_LED_THROTTLE) ''on'',
    CFG ''LED'' ''A'' (led_slot LIBX52_LED_A) ''green'',
    CFG ''LED'' ''B'' (led_slot LIBX52_LED_B) ''green'',
    CFG ''LED'' ''D'' (led_slot LIBX52_LED_D) ''green'',
    CFG ''LED'' ''E'' (led_slot LIBX52_LED_E) ''green'',
    CFG ''LED'' ''T1'' (led_slot LIBX52_LED_T1) ''green'',
    CFG ''LED'' ''T2'' (led_slot LIBX52_LED_T2) ''green'',
    CFG ''LED'' ''T3'' (led_slot LIBX52_LED_T3) ''green'',
    CFG ''LED'' ''POV'' (led_slot LIBX52_LED_POV) ''green'',
    CFG ''LED'' ''Clutch'' (led_slot LIBX52_LED_CLUTCH) ''green'',
    CFG ''Brightness'' ''MFD'' (brightness_slot 0) ''128'',
    CFG ''Brightness'' ''LED'' (brightness_slot 1) ''128'',
    CFG ''Mouse'' ''Enabled'' (BoolSlot mouse_enabled (\<lambda>v. mouse_enabled_update (\<lambda>_. v))) ''true'',
    CFG ''Mouse'' ''Speed'' (IntSlot mouse_speed (\<lambda>v. mouse_speed_update (\<lambda>_. v))) ''0'',
    CFG ''Mouse'' ''ReverseScroll''
      (BoolSlot mouse_reverse_scroll (\<lambda>v. mouse_reverse_scroll_update (\<lambda>_. v))) ''false'',
    CFG ''Profiles'' ''Directory'' (StringSlot profiles_dir (\<lambda>v. profiles_dir_update (\<lambda>_. v)))
      ''/etc/x52d/profiles.d'',
    CFG ''Profiles'' ''ClutchEnabled''
      (BoolSlot clutch_enabled (\<lambda>v. clutch_enabled_update (\<lambda>_. v))) ''false'',
    CFG ''Profiles'' ''ClutchLatched''
      (BoolSlot clutch_latched (\<lambda>v. clutch_latched_update (\<lambda>_. v))) ''false'']"

text \<open>\<open>strcasecmp\<close> of both names of a row.\<close>

definition entry_matches :: "string \<Rightarrow> string \<Rightarrow> config_entry \<Rightarrow> bool" where
  "entry_matches section key e \<longleftrightarrow> strcaseeq (e_key e) key \<and> strcaseeq (e_section e) section"

definition config_lookup :: "string \<Rightarrow> string \<Rightarrow> config_entry option" where
  "config_lookup section key = find (entry_matches section key) config_map"

section \<open>Laws of the table\<close>

text \<open>
  What the rows promise: a written value is read back, rows do not share members, every write
  keeps the structure well formed and no two rows match the same name.
\<close>

definition slot_laws :: "config_slot \<Rightarrow> bool" where
  "slot_laws s \<longleftrightarrow> (\<forall>c v. config_wf c \<longrightarrow> slot_ok s (slot_read s c) \<and>
     (slot_ok s v \<longrightarrow> slot_read s (slot_write s v c) = v \<and> config_wf (slot_write s v c)))"

definition slots_apart :: "config_slot \<Rightarrow> config_slot \<Rightarrow> bool" where
  "slots_apart s t \<longleftrightarrow> (\<forall>c v. slot_read s (slot_write t v c) = slot_read s c)"

definition slot_of :: "nat \<Rightarrow> config_slot" where
  "slot_of i = e_slot (config_map ! i)"

lemma slot_laws_intros:
  "(\<And>c b. config_wf c \<Longrightarrow> g c = g c \<and> g (p b c) = b \<and> config_wf (p b c)) \<Longrightarrow> slot_laws (BoolSlot g p)"
  "(\<And>c s. config_wf c \<Longrightarrow> string_ok (gs c) \<and>
     (string_ok s \<longrightarrow> gs (ps s c) = s \<and> config_wf (ps s c))) \<Longrightarrow> slot_laws (StringSlot gs ps)"
  "(\<And>c i. config_wf c \<Longrightarrow> int_ok (gi c) \<and>
     (int_ok i \<longrightarrow> gi (pi' i c) = i \<and> config_wf (pi' i c))) \<Longrightarrow> slot_laws (IntSlot gi pi')"
  "(\<And>c l. config_wf c \<Longrightarrow> gl (pl l c) = l \<and> config_wf (pl l c)) \<Longrightarrow> slot_laws (LedSlot gl pl)"
  "(\<And>c f. config_wf c \<Longrightarrow> gf (pf f c) = f \<and> config_wf (pf f c)) \<Longrightarrow> slot_laws (ClockFormatSlot gf pf)"
  "(\<And>c d. config_wf c \<Longrightarrow> gd (pd d c) = d \<and> config_wf (pd d c)) \<Longrightarrow> slot_laws (DateFormatSlot gd pd)"
  unfolding slot_laws_def
  subgoal by (intro allI impI, rename_tac c v, case_tac v) auto
  subgoal by (intro allI impI, rename_tac c v, case_tac v) auto
  subgoal by (intro allI impI, rename_tac c v, case_tac v) auto
  subgoal by (intro allI impI, rename_tac c v, case_tac v) auto
  subgoal by (intro allI impI, rename_tac c v, case_tac v) auto
  subgoal by (intro allI impI, rename_tac c v, case_tac v) auto
  done

lemma list_all_int_ok_update:
  "list_all int_ok l \<Longrightarrow> int_ok i \<Longrightarrow> list_all int_ok (l [k := i])"
  unfolding list_all_iff using set_update_subset_insert [of l k i] by auto

lemma list_all_int_ok_nth: "list_all int_ok l \<Longrightarrow> k < length l \<Longrightarrow> int_ok (l ! k)"
  by (simp add: list_all_length)

lemma config_map_laws: "list_all (\<lambda>e. slot_laws (e_slot e)) config_map"
  unfolding config_map_def
  by (simp only: list.pred_inject config_entry.simps)
     (intro conjI TrueI slot_laws_intros;
      simp add: config_wf_def list_all_int_ok_update list_all_int_ok_nth)

fun all_pairs :: "('a \<Rightarrow> 'a \<Rightarrow> bool) \<Rightarrow> 'a list \<Rightarrow> bool" where
  "all_pairs P [] = True"
| "all_pairs P (x # xs) = (list_all (\<lambda>y. P x y \<and> P y x) xs \<and> all_pairs P xs)"

lemma all_pairs_nth:
  "all_pairs P xs \<Longrightarrow> i < length xs \<Longrightarrow> j < length xs \<Longrightarrow> i \<noteq> j \<Longrightarrow> P (xs ! i) (xs ! j)"
proof (induction xs arbitrary: i j)
  case (Cons x xs)
  then show ?case by (cases i; cases j) (auto simp: list_all_length)
qed simp

lemma config_value_all:
  "(\<forall>v. P v) \<longleftrightarrow> (\<forall>b. P (BoolV b)) \<and> (\<forall>s. P (StringV s)) \<and> (\<forall>i. P (IntV i)) \<and>
     (\<forall>l. P (LedV l)) \<and> (\<forall>f. P (ClockFormatV f)) \<and> (\<forall>d. P (DateFormatV d))"
  by (metis config_value.exhaust)

lemma slots_apart_iff:
  "slots_apart s (BoolSlot g p) \<longleftrightarrow> (\<forall>c b. slot_read s (p b c) = slot_read s c)"
  "slots_apart s (StringSlot gs ps) \<longleftrightarrow> (\<forall>c b. slot_read s (ps b c) = slot_read s c)"
  "slots_apart s (IntSlot gi pi') \<longleftrightarrow> (\<forall>c b. slot_read s (pi' b c) = slot_read s c)"
  "slots_apart s (LedSlot gl pl) \<longleftrightarrow> (\<forall>c b. slot_read s (pl b c) = slot_read s c)"
  "slots_apart s (ClockFormatSlot gf pf) \<longleftrightarrow> (\<forall>c b. slot_read s (pf b c) = slot_read s c)"
  "slots_apart s (DateFormatSlot gd pd) \<longleftrightarrow> (\<forall>c b. slot_read s (pd b c) = slot_read s c)"
  unfolding slots_apart_def by (subst config_value_all; simp)+

lemma config_map_apart: "all_pairs (\<lambda>d e. slots_apart (e_slot d) (e_slot e)) config_map"
  unfolding config_map_def by (simp add: slots_apart_iff)

definition entry_name :: "config_entry \<Rightarrow> string \<times> string" where
  "entry_name e = (map tolower (e_section e), map tolower (e_key e))"

lemma config_map_entry_names:
  "map entry_name config_map =
   [(''clock'', ''enabled''), (''clock'', ''primaryislocal''), (''clock'', ''secondary''),
    (''clock'', ''tertiary''), (''clock'', ''formatprimary''), (''clock'', ''formatsecondary''),
    (''clock'', ''formattertiary''), (''clock'', ''dateformat''), (''led'', ''fire''),
    (''led'', ''throttle''), (''led'', ''a''), (''led'', ''b''), (''led'', ''d''), (''led'', ''e''),
    (''led'', ''t1''), (''led'', ''t2''), (''led'', ''t3''), (''led'', ''pov''), (''led'', ''clutch''),
    (''brightness'', ''mfd''), (''brightness'', ''led''), (''mouse'', ''enabled''),
    (''mouse'', ''speed''), (''mouse'', ''reversescroll''), (''profiles'', ''directory''),
    (''profiles'', ''clutchenabled''), (''profiles'', ''clutchlatched'')]"
  by (simp add: config_map_def entry_name_def tolower_def char_of_def bit_0)

lemma config_map_names: "distinct (map entry_name config_map)"
  unfolding config_map_entry_names by simp

lemma entry_matches_name:
  "entry_matches section key e \<longleftrightarrow> entry_name e = (map tolower section, map tolower key)"
  by (auto simp: entry_matches_def entry_name_def strcaseeq_def)

lemma find_unique:
  assumes "distinct (map f xs)" and "i < length xs" and "\<And>x. P x \<longleftrightarrow> f x = f (xs ! i)"
  shows "find P xs = Some (xs ! i)"
  unfolding find_Some_iff
proof (intro exI conjI allI impI)
  show "i < length xs" by (rule assms(2))
  show "P (xs ! i)" by (simp only: assms(3))
next
  fix j assume j: "j < i"
  with assms(1,2) have "map f xs ! j \<noteq> map f xs ! i" by (simp only: nth_eq_iff_index_eq length_map)
  with j assms(2) have "f (xs ! j) \<noteq> f (xs ! i)" by simp
  then show "\<not> P (xs ! j)" by (simp only: assms(3) not_False_eq_True)
qed (rule refl)

lemma config_lookup_nth:
  assumes "i < length config_map" and "entry_matches section key (config_map ! i)"
  shows "config_lookup section key = Some (config_map ! i)"
  unfolding config_lookup_def using config_map_names assms(1)
  by (rule find_unique) (use assms(2) in \<open>simp add: entry_matches_name\<close>)

lemma config_lookup_Some:
  assumes "config_lookup section key = Some e"
  obtains i where "i < length config_map" "e = config_map ! i" "entry_matches section key e"
  using assms unfolding config_lookup_def find_Some_iff by auto

lemma config_lookup_self: "e \<in> set config_map \<Longrightarrow> config_lookup (e_section e) (e_key e) = Some e"
  by (auto simp: in_set_conv_nth entry_matches_def intro!: config_lookup_nth)

lemma slot_laws_mem: "e \<in> set config_map \<Longrightarrow> slot_laws (e_slot e)"
  using config_map_laws by (simp add: list_all_iff)

lemma slots_apart_mem:
  assumes "d \<in> set config_map" and "e \<in> set config_map" and "d \<noteq> e"
  shows "slots_apart (e_slot d) (e_slot e)"
proof -
  from assms(1) obtain i where i: "i < length config_map" "d = config_map ! i"
    by (auto simp: in_set_conv_nth)
  from assms(2) obtain j where j: "j < length config_map" "e = config_map ! j"
    by (auto simp: in_set_conv_nth)
  from i j assms(3) have "i \<noteq> j" by auto
  with config_map_apart i(1) j(1)
  have "slots_apart (e_slot (config_map ! i)) (e_slot (config_map ! j))" by (rule all_pairs_nth)
  with i j show ?thesis by simp
qed

end
