(* ===== verification/Config_Parser.thy ===== *)
theory Config_Parser
  imports Config_Map
begin

text \<open>
  The configuration parser and dumper (\<open>daemon/x52d_config_parser.c\<close>,
  \<open>daemon/x52d_config_dump.c\<close>): the parser and the dumper of each type of value, the dispatch
  of a section, key and value, the defaults and the overrides of the command line.

  A pointer that the code compares with NULL is an \<open>option\<close>. Functions return the C return
  code, 0 or an error number, and the structure after the call. \<open>tr\<close> stands for the message
  catalogue, which translates the strings of libx52.
\<close>

section \<open>Parsers\<close>

type_synonym 'a parser_put = "'a \<Rightarrow> x52d_config \<Rightarrow> x52d_config"
type_synonym parser_res = "int \<times> x52d_config option"

definition CHECK_PARAMS ::
  "(x52d_config \<Rightarrow> string \<Rightarrow> int \<times> x52d_config) \<Rightarrow> x52d_config option \<Rightarrow> string option \<Rightarrow> parser_res"
where
  "CHECK_PARAMS body cfg value =
     (case cfg of None \<Rightarrow> (EINVAL, cfg)
      | Some c \<Rightarrow> (case value of None \<Rightarrow> (EINVAL, cfg)
                  | Some v \<Rightarrow> (let (rc, c') = body c v in (rc, Some c'))))"

definition bool_parser :: "bool parser_put \<Rightarrow> x52d_config option \<Rightarrow> string option \<Rightarrow> parser_res" where
  "bool_parser put = CHECK_PARAMS (\<lambda>cfg value.
     if strcaseeq value ''yes'' \<or> strcaseeq value ''true'' then (0, put True cfg)
     else if strcaseeq value ''no'' \<or> strcaseeq value ''false'' then (0, put False cfg)
     else (EINVAL, cfg))"

definition string_parser :: "string parser_put \<Rightarrow> x52d_config option \<Rightarrow> string option \<Rightarrow> parser_res" where
  "string_parser put = CHECK_PARAMS (\<lambda>cfg value. (0, put (take (NAME_MAX - 1) value) cfg))"

text \<open>The \<open>long\<close> of \<open>strtol\<close> is stored in an \<open>int\<close>.\<close>

definition int_parser :: "int parser_put \<Rightarrow> x52d_config option \<Rightarrow> string option \<Rightarrow> parser_res" where
  "int_parser put = CHECK_PARAMS (\<lambda>cfg value.
     let (v, range_error, endptr) = strtol 0 value; retval = c_int v in
     if range_error then (ERANGE, cfg)
     else if endptr \<noteq> [] then (EINVAL, cfg)
     else (0, put retval cfg))"

definition led_parser ::
  "libx52_led_state parser_put \<Rightarrow> x52d_config option \<Rightarrow> string option \<Rightarrow> parser_res" where
  "led_parser put = CHECK_PARAMS (\<lambda>cfg value.
     if strcaseeq value ''OFF'' then (0, put LIBX52_LED_STATE_OFF cfg)
     else if strcaseeq value ''ON'' then (0, put LIBX52_LED_STATE_ON cfg)
     else if strcaseeq value ''RED'' then (0, put LIBX52_LED_STATE_RED cfg)
     else if strcaseeq value ''AMBER'' then (0, put LIBX52_LED_STATE_AMBER cfg)
     else if strcaseeq value ''GREEN'' then (0, put LIBX52_LED_STATE_GREEN cfg)
     else (EINVAL, cfg))"

definition clock_format_parser ::
  "libx52_clock_format parser_put \<Rightarrow> x52d_config option \<Rightarrow> string option \<Rightarrow> parser_res" where
  "clock_format_parser put = CHECK_PARAMS (\<lambda>cfg value.
     if strcaseeq value ''12hr'' \<or> strcaseeq value ''12'' then (0, put LIBX52_CLOCK_FORMAT_12HR cfg)
     else if strcaseeq value ''24hr'' \<or> strcaseeq value ''24''
     then (0, put LIBX52_CLOCK_FORMAT_24HR cfg)
     else (EINVAL, cfg))"

definition date_format_parser ::
  "libx52_date_format parser_put \<Rightarrow> x52d_config option \<Rightarrow> string option \<Rightarrow> parser_res" where
  "date_format_parser put = CHECK_PARAMS (\<lambda>cfg value.
     if strcaseeq value ''ddmmyy'' \<or> strcaseeq value ''dd-mm-yy''
     then (0, put LIBX52_DATE_FORMAT_DDMMYY cfg)
     else if strcaseeq value ''mmddyy'' \<or> strcaseeq value ''mm-dd-yy''
     then (0, put LIBX52_DATE_FORMAT_MMDDYY cfg)
     else if strcaseeq value ''yymmdd'' \<or> strcaseeq value ''yy-mm-dd''
     then (0, put LIBX52_DATE_FORMAT_YYMMDD cfg)
     else (EINVAL, cfg))"

text \<open>The parser of a row, called with its offset.\<close>

fun entry_parser :: "config_slot \<Rightarrow> x52d_config option \<Rightarrow> string option \<Rightarrow> parser_res" where
  "entry_parser (BoolSlot g p) = bool_parser p"
| "entry_parser (StringSlot g p) = string_parser p"
| "entry_parser (IntSlot g p) = int_parser p"
| "entry_parser (LedSlot g p) = led_parser p"
| "entry_parser (ClockFormatSlot g p) = clock_format_parser p"
| "entry_parser (DateFormatSlot g p) = date_format_parser p"

text \<open>An unknown name is reported in the log and is no error.\<close>

definition x52d_config_process_kv ::
  "x52d_config option \<Rightarrow> string \<Rightarrow> string \<Rightarrow> string option \<Rightarrow> parser_res" where
  "x52d_config_process_kv cfg section key value =
     (case config_lookup section key of
        Some e \<Rightarrow> entry_parser (e_slot e) cfg value
      | None \<Rightarrow> (0, cfg))"

fun set_defaults_loop :: "config_entry list \<Rightarrow> x52d_config option \<Rightarrow> parser_res" where
  "set_defaults_loop [] cfg = (0, cfg)"
| "set_defaults_loop (e # es) cfg =
     (let (rc, cfg') = x52d_config_process_kv cfg (e_section e) (e_key e) (Some (e_default e)) in
      if rc \<noteq> 0 then (rc, cfg') else set_defaults_loop es cfg')"

definition x52d_config_set_defaults :: "x52d_config option \<Rightarrow> parser_res" where
  "x52d_config_set_defaults cfg =
     (if cfg = None then (EINVAL, None) else set_defaults_loop config_map cfg)"

section \<open>Overrides\<close>

text \<open>
  The list from \<open>override_head\<close> to \<open>override_tail\<close>. The two allocations of a call can fail;
  \<open>strdup_errno\<close> is the error number the C library leaves then.
\<close>

record x52d_config_override =
  ov_section :: string
  ov_key :: string
  ov_value :: string

text \<open>\<open>strchr\<close>: the string before the first \<open>c\<close> and the string after it.\<close>

definition strchr_split :: "char \<Rightarrow> string \<Rightarrow> (string \<times> string) option" where
  "strchr_split c s =
     (if c \<in> set s then Some (takeWhile (\<lambda>x. x \<noteq> c) s, tl (dropWhile (\<lambda>x. x \<noteq> c) s)) else None)"

definition x52d_config_save_override ::
  "bool \<Rightarrow> int option \<Rightarrow> string \<Rightarrow> x52d_config_override list \<Rightarrow> int \<times> x52d_config_override list"
where
  "x52d_config_save_override calloc_ok strdup_errno override_str overrides =
     (if \<not> calloc_ok then (ENOMEM, overrides)
      else case strdup_errno of
        Some errno \<Rightarrow> (errno, overrides)
      | None \<Rightarrow>
        (case strchr_split (CHR ''.'') override_str of
           None \<Rightarrow> (EINVAL, overrides)
         | Some (section, rest) \<Rightarrow>
             if section = [] then (EINVAL, overrides)
             else case strchr_split (CHR ''='') rest of
               None \<Rightarrow> (EINVAL, overrides)
             | Some (key, value) \<Rightarrow>
                 if key = [] then (EINVAL, overrides)
                 else if value = [] then (EINVAL, overrides)
                 else (0, overrides @ [\<lparr> ov_section = section, ov_key = key, ov_value = value \<rparr>])))"

fun apply_overrides_loop :: "x52d_config_override list \<Rightarrow> x52d_config option \<Rightarrow> parser_res" where
  "apply_overrides_loop [] cfg = (0, cfg)"
| "apply_overrides_loop (tmp # rest) cfg =
     (let (rc, cfg') = x52d_config_process_kv cfg (ov_section tmp) (ov_key tmp) (Some (ov_value tmp)) in
      if rc \<noteq> 0 then (rc, cfg') else apply_overrides_loop rest cfg')"

definition x52d_config_apply_overrides ::
  "x52d_config_override list \<Rightarrow> x52d_config option \<Rightarrow> parser_res" where
  "x52d_config_apply_overrides overrides cfg =
     (if cfg = None then (EINVAL, None) else apply_overrides_loop overrides cfg)"

fun x52d_config_clear_overrides :: "x52d_config_override list \<Rightarrow> x52d_config_override list" where
  "x52d_config_clear_overrides [] = []"
| "x52d_config_clear_overrides (tmp # rest) = x52d_config_clear_overrides rest"

section \<open>Dumpers\<close>

definition DUMP_PARAMS ::
  "(x52d_config \<Rightarrow> string) \<Rightarrow> string option \<Rightarrow> string option \<Rightarrow> x52d_config option \<Rightarrow> string option"
where
  "DUMP_PARAMS body section key cfg =
     (case cfg of None \<Rightarrow> None
      | Some c \<Rightarrow> if section = None \<or> key = None then None else Some (body c))"

definition bool_dumper ::
  "(x52d_config \<Rightarrow> bool) \<Rightarrow> string option \<Rightarrow> string option \<Rightarrow> x52d_config option \<Rightarrow> string option" where
  "bool_dumper get = DUMP_PARAMS (\<lambda>cfg. if get cfg then ''true'' else ''false'')"

definition string_dumper ::
  "(x52d_config \<Rightarrow> string) \<Rightarrow> string option \<Rightarrow> string option \<Rightarrow> x52d_config option \<Rightarrow> string option" where
  "string_dumper get = DUMP_PARAMS get"

definition int_dumper ::
  "(x52d_config \<Rightarrow> int) \<Rightarrow> string option \<Rightarrow> string option \<Rightarrow> x52d_config option \<Rightarrow> string option" where
  "int_dumper get = DUMP_PARAMS (\<lambda>cfg. snprintf_d 256 ''%d'' (get cfg))"

definition led_dumper ::
  "(string \<Rightarrow> string) \<Rightarrow> (x52d_config \<Rightarrow> libx52_led_state) \<Rightarrow>
   string option \<Rightarrow> string option \<Rightarrow> x52d_config option \<Rightarrow> string option" where
  "led_dumper tr get = DUMP_PARAMS (\<lambda>cfg. libx52_led_state_to_str tr (led_state_code (get cfg)))"

definition clock_format_dumper ::
  "(string \<Rightarrow> string) \<Rightarrow> (x52d_config \<Rightarrow> libx52_clock_format) \<Rightarrow>
   string option \<Rightarrow> string option \<Rightarrow> x52d_config option \<Rightarrow> string option" where
  "clock_format_dumper tr get =
     DUMP_PARAMS (\<lambda>cfg. libx52_clock_format_to_str tr (clock_format_code (get cfg)))"

definition date_format_dumper ::
  "(string \<Rightarrow> string) \<Rightarrow> (x52d_config \<Rightarrow> libx52_date_format) \<Rightarrow>
   string option \<Rightarrow> string option \<Rightarrow> x52d_config option \<Rightarrow> string option" where
  "date_format_dumper tr get =
     DUMP_PARAMS (\<lambda>cfg. libx52_date_format_to_str tr (date_format_code (get cfg)))"

fun entry_dumper ::
  "(string \<Rightarrow> string) \<Rightarrow> config_slot \<Rightarrow> string option \<Rightarrow> string option \<Rightarrow> x52d_config option \<Rightarrow> string option"
where
  "entry_dumper tr (BoolSlot g p) = bool_dumper g"
| "entry_dumper tr (StringSlot g p) = string_dumper g"
| "entry_dumper tr (IntSlot g p) = int_dumper g"
| "entry_dumper tr (LedSlot g p) = led_dumper tr g"
| "entry_dumper tr (ClockFormatSlot g p) = clock_format_dumper tr g"
| "entry_dumper tr (DateFormatSlot g p) = date_format_dumper tr g"

definition x52d_config_get_param ::
  "(string \<Rightarrow> string) \<Rightarrow> x52d_config option \<Rightarrow> string \<Rightarrow> string \<Rightarrow> string option" where
  "x52d_config_get_param tr cfg section key =
     (case config_lookup section key of
        Some e \<Rightarrow> entry_dumper tr (e_slot e) (Some section) (Some key) cfg
      | None \<Rightarrow> None)"

end
