(* ===== verification/Config_Codec.thy ===== *)
theory Config_Codec
  imports Config_Parser
begin

text \<open>
  What the configuration parsers and dumpers promise. \<open>value_parser\<close> is the contract the
  dispatch relies on: a parser stores a legal value and returns 0, or returns an error and
  changes nothing. \<open>value_codec\<close> adds that the text the dumper prints is read back. All six
  parsers meet the first contract; all but the clock format meet the second, because the
  dumper prints ``12 hour'' where the parser wants ``12hr''.
\<close>

section \<open>The contracts\<close>

locale value_parser =
  fixes parser :: "'a parser_put \<Rightarrow> x52d_config option \<Rightarrow> string option \<Rightarrow> parser_res"
    and ok :: "'a \<Rightarrow> bool"
  assumes parse_outcome:
    "(\<exists>v. ok v \<and> parser put (Some c) (Some s) = (0, Some (put v c))) \<or>
     (\<exists>e. e \<noteq> 0 \<and> parser put (Some c) (Some s) = (e, Some c))"
begin

lemma parse_error_unchanged:
  "parser put (Some c) (Some s) = (rc, d) \<Longrightarrow> rc \<noteq> 0 \<Longrightarrow> d = Some c"
  using parse_outcome [of put c s] by auto

lemma parse_success_stores:
  "parser put (Some c) (Some s) = (0, d) \<Longrightarrow> \<exists>v. ok v \<and> d = Some (put v c)"
  using parse_outcome [of put c s] by auto

end

locale value_codec = value_parser parser ok
  for parser :: "'a parser_put \<Rightarrow> x52d_config option \<Rightarrow> string option \<Rightarrow> parser_res"
    and ok :: "'a \<Rightarrow> bool" +
  fixes dump :: "'a \<Rightarrow> string"
  assumes parse_dump: "ok v \<Longrightarrow> parser put (Some c) (Some (dump v)) = (0, Some (put v c))"
begin

lemma dump_inj:
  assumes "ok v" and "ok w" and "dump v = dump w"
  shows "put v (c :: x52d_config) = (put w c :: x52d_config)"
  using parse_dump [OF assms(1), of put c] parse_dump [OF assms(2), of put c] assms(3) by simp

end

section \<open>The parsers of the daemon\<close>

lemma check_params_some:
  "CHECK_PARAMS body (Some c) (Some v) = (let (rc, c') = body c v in (rc, Some c'))"
  by (simp add: CHECK_PARAMS_def)

lemma c_int_ok: "int_ok (c_int x)"
  using signed_take_bit_int_greater_eq_minus_exp [of 31 x] signed_take_bit_int_less_exp [of 31 x]
  by (simp add: int_ok_def c_int_def)

text \<open>The text of a value: what the dumper of its type prints.\<close>

definition bool_text :: "bool \<Rightarrow> string" where
  "bool_text b = (if b then ''true'' else ''false'')"

fun value_text :: "(string \<Rightarrow> string) \<Rightarrow> config_value \<Rightarrow> string" where
  "value_text tr (BoolV b) = bool_text b"
| "value_text tr (StringV s) = s"
| "value_text tr (IntV i) = snprintf_d 256 ''%d'' i"
| "value_text tr (LedV l) = libx52_led_state_to_str tr (led_state_code l)"
| "value_text tr (ClockFormatV f) = libx52_clock_format_to_str tr (clock_format_code f)"
| "value_text tr (DateFormatV f) = libx52_date_format_to_str tr (date_format_code f)"

lemma length_nat_digits: "n < 10 ^ k \<Longrightarrow> length (nat_digits n) \<le> Suc k"
proof (induction k arbitrary: n)
  case 0
  then show ?case by (subst nat_digits.simps) simp
next
  case (Suc k)
  show ?case
  proof (cases "n < 10")
    case False
    from Suc.prems have "n div 10 < 10 ^ k" by (simp add: div_less_iff_less_mult)
    with Suc.IH have "length (nat_digits (n div 10)) \<le> Suc k" by blast
    with False show ?thesis by (subst nat_digits.simps) simp
  qed (subst nat_digits.simps; simp)
qed

lemma length_fmt_d: "int_ok i \<Longrightarrow> length (fmt_d i) \<le> 12"
proof -
  assume i: "int_ok i"
  have "nat \<bar>i\<bar> < 10 ^ 10" using i by (simp add: int_ok_def nat_less_iff) arith
  then have "length (nat_digits (nat \<bar>i\<bar>)) \<le> 11" using length_nat_digits [of _ 10] by fastforce
  then show ?thesis by (auto simp: fmt_d_def abs_if split: if_splits)
qed

lemma int_text: "int_ok i \<Longrightarrow> snprintf_d 256 ''%d'' i = fmt_d i"
  using length_fmt_d [of i] by (simp add: snprintf_d_def)

interpretation bool_value: value_codec bool_parser "\<lambda>_. True" bool_text
proof
  show "(\<exists>v. True \<and> bool_parser put (Some c) (Some s) = (0, Some (put v c))) \<or>
        (\<exists>e. e \<noteq> 0 \<and> bool_parser put (Some c) (Some s) = (e, Some c))" for put c s
    by (auto simp: bool_parser_def check_params_some)
  show "bool_parser put (Some c) (Some (bool_text v)) = (0, Some (put v c))" for v put c
    by (cases v) (simp_all add: bool_parser_def check_params_some bool_text_def strcaseeq_def
        tolower_def char_of_def bit_0)
qed

interpretation string_value: value_codec string_parser string_ok "\<lambda>s. s"
  by unfold_locales
    (auto simp: string_parser_def check_params_some string_ok_def NAME_MAX_def intro!: exI)

interpretation int_value: value_codec int_parser int_ok "snprintf_d 256 ''%d''"
proof
  show "(\<exists>v. int_ok v \<and> int_parser put (Some c) (Some s) = (0, Some (put v c))) \<or>
        (\<exists>e. e \<noteq> 0 \<and> int_parser put (Some c) (Some s) = (e, Some c))" for put c s
    using c_int_ok by (auto simp: int_parser_def check_params_some Let_def split: prod.split)
  show "int_parser put (Some c) (Some (snprintf_d 256 ''%d'' i)) = (0, Some (put i c))"
    if "int_ok i" for i put c
    using that strtol_fmt_d [of 0 i]
    by (simp add: int_parser_def check_params_some int_text c_int_id int_ok_def)
qed

interpretation led_value: value_codec led_parser "\<lambda>_. True"
  "\<lambda>l. libx52_led_state_to_str (\<lambda>s. s) (led_state_code l)"
proof
  show "(\<exists>v. True \<and> led_parser put (Some c) (Some s) = (0, Some (put v c))) \<or>
        (\<exists>e. e \<noteq> 0 \<and> led_parser put (Some c) (Some s) = (e, Some c))" for put c s
    by (auto simp: led_parser_def check_params_some)
  show "led_parser put (Some c) (Some (libx52_led_state_to_str (\<lambda>s. s) (led_state_code v))) =
        (0, Some (put v c))" for v put c
    by (cases v) (simp_all add: led_parser_def check_params_some libx52_led_state_to_str_def
        stringify_def strcaseeq_def tolower_def char_of_def bit_0)
qed

interpretation date_format_value: value_codec date_format_parser "\<lambda>_. True"
  "\<lambda>f. libx52_date_format_to_str (\<lambda>s. s) (date_format_code f)"
proof
  show "(\<exists>v. True \<and> date_format_parser put (Some c) (Some s) = (0, Some (put v c))) \<or>
        (\<exists>e. e \<noteq> 0 \<and> date_format_parser put (Some c) (Some s) = (e, Some c))" for put c s
    by (auto simp: date_format_parser_def check_params_some)
  show "date_format_parser put (Some c)
          (Some (libx52_date_format_to_str (\<lambda>s. s) (date_format_code v))) = (0, Some (put v c))"
    for v put c
    by (cases v) (simp_all add: date_format_parser_def check_params_some
        libx52_date_format_to_str_def stringify_def strcaseeq_def tolower_def char_of_def bit_0)
qed

interpretation clock_format_value: value_parser clock_format_parser "\<lambda>_. True"
  by unfold_locales (auto simp: clock_format_parser_def check_params_some)

lemma clock_format_text_rejected:
  "clock_format_parser put (Some c) (Some (libx52_clock_format_to_str (\<lambda>s. s) (clock_format_code f)))
   = (EINVAL, Some c)"
  by (cases f) (simp_all add: clock_format_parser_def check_params_some strcaseeq_def tolower_def
      libx52_clock_format_to_str_def stringify_def char_of_def bit_0)

section \<open>The rows of the table\<close>

lemma entry_parser_outcome:
  "(\<exists>v. slot_ok s v \<and> entry_parser s (Some c) (Some t) = (0, Some (slot_write s v c))) \<or>
   (\<exists>e. e \<noteq> 0 \<and> entry_parser s (Some c) (Some t) = (e, Some c))"
proof (cases s)
  case (BoolSlot g p)
  then show ?thesis using bool_value.parse_outcome [of p c t]
    by simp (metis slot_ok.simps(1) slot_write.simps(1))
next
  case (StringSlot g p)
  then show ?thesis using string_value.parse_outcome [of p c t]
    by simp (metis slot_ok.simps(2) slot_write.simps(2))
next
  case (IntSlot g p)
  then show ?thesis using int_value.parse_outcome [of p c t]
    by simp (metis slot_ok.simps(3) slot_write.simps(3))
next
  case (LedSlot g p)
  then show ?thesis using led_value.parse_outcome [of p c t]
    by simp (metis slot_ok.simps(4) slot_write.simps(4))
next
  case (ClockFormatSlot g p)
  then show ?thesis using clock_format_value.parse_outcome [of p c t]
    by simp (metis slot_ok.simps(5) slot_write.simps(5))
next
  case (DateFormatSlot g p)
  then show ?thesis using date_format_value.parse_outcome [of p c t]
    by simp (metis slot_ok.simps(6) slot_write.simps(6))
qed

fun is_clock_format :: "config_slot \<Rightarrow> bool" where
  "is_clock_format (ClockFormatSlot g p) = True"
| "is_clock_format s = False"

lemma entry_parser_text:
  assumes "slot_ok s v"
  shows "entry_parser s (Some c) (Some (value_text (\<lambda>x. x) v)) =
    (if is_clock_format s then (EINVAL, Some c) else (0, Some (slot_write s v c)))"
  using assms
  by (cases "(s, v)" rule: slot_ok.cases)
     (simp_all add: bool_value.parse_dump string_value.parse_dump int_value.parse_dump
       led_value.parse_dump date_format_value.parse_dump clock_format_text_rejected)

lemma entry_dumper_text:
  "entry_dumper tr s (Some x) (Some y) (Some c) = Some (value_text tr (slot_read s c))"
  by (cases s) (simp_all add: bool_dumper_def string_dumper_def int_dumper_def led_dumper_def
      clock_format_dumper_def date_format_dumper_def DUMP_PARAMS_def bool_text_def)

end
