(* ===== verification/Config_Store.thy ===== *)
theory Config_Store
  imports Config_Codec
begin

text \<open>
  The configuration as a store addressed by sec and key: what setting, reading, resetting
  and overriding do to it. The facts hold for every row of the table, through its laws
  (\<open>Config_Map\<close>) and the contracts of the parsers (\<open>Config_Codec\<close>).
\<close>

section \<open>Setting a key\<close>

text \<open>The bundle of facts that carries the proofs about single settings.\<close>

lemma process_kv_row:
  "config_lookup sec key = Some e \<Longrightarrow>
   x52d_config_process_kv cfg sec key value = entry_parser (e_slot e) cfg value"
  by (simp add: x52d_config_process_kv_def)

lemma process_kv_unknown:
  "config_lookup sec key = None \<Longrightarrow> x52d_config_process_kv cfg sec key value = (0, cfg)"
  by (simp add: x52d_config_process_kv_def)

lemma config_lookup_mem: "config_lookup sec key = Some e \<Longrightarrow> e \<in> set config_map"
  by (erule config_lookup_Some) simp

lemma process_kv_cases:
  obtains (unknown) "config_lookup sec key = None"
      "x52d_config_process_kv (Some c) sec key (Some t) = (0, Some c)"
  | (stored) e v where "config_lookup sec key = Some e" "e \<in> set config_map"
      "slot_ok (e_slot e) v"
      "x52d_config_process_kv (Some c) sec key (Some t) = (0, Some (slot_write (e_slot e) v c))"
  | (rejected) e r where "config_lookup sec key = Some e" "e \<in> set config_map" "r \<noteq> 0"
      "x52d_config_process_kv (Some c) sec key (Some t) = (r, Some c)"
proof (cases "config_lookup sec key")
  case None
  then show thesis using unknown by (simp add: process_kv_unknown)
next
  case (Some e)
  note e = this config_lookup_mem [OF this]
  from entry_parser_outcome [of "e_slot e" c t] show thesis
    using stored [OF e] rejected [OF e] by (auto simp: process_kv_row [OF Some])
qed

lemma slot_write_laws:
  assumes "e \<in> set config_map" "config_wf c" "slot_ok (e_slot e) v"
  shows "config_wf (slot_write (e_slot e) v c)"
    and "slot_read (e_slot e) (slot_write (e_slot e) v c) = v"
  using slot_laws_mem [OF assms(1)] assms(2,3) by (simp_all add: slot_laws_def)

lemma slot_read_ok: "e \<in> set config_map \<Longrightarrow> config_wf c \<Longrightarrow> slot_ok (e_slot e) (slot_read (e_slot e) c)"
  using slot_laws_mem by (simp add: slot_laws_def)

lemma slot_write_other:
  "d \<in> set config_map \<Longrightarrow> e \<in> set config_map \<Longrightarrow> d \<noteq> e \<Longrightarrow>
   slot_read (e_slot d) (slot_write (e_slot e) v c) = slot_read (e_slot d) c"
  using slots_apart_mem by (simp add: slots_apart_def)

lemma process_kv_wf:
  "config_wf c \<Longrightarrow> x52d_config_process_kv (Some c) sec key (Some t) = (rc, Some d) \<Longrightarrow> config_wf d"
  by (cases rule: process_kv_cases [of sec key c t]) (auto intro: slot_write_laws)

text \<open>
  C18:
  Setting a key in a well-formed configuration leaves it well formed and changes at most the
  row the name selects; when it returns an error, or when no row has the name, nothing
  changes; when it succeeds on a row, the row holds a legal value.
\<close>

theorem x52d_config_process_kv_contract:
  assumes wf: "config_wf c"
  shows "\<exists>rc d. x52d_config_process_kv (Some c) sec key (Some t) = (rc, Some d) \<and>
    config_wf d \<and>
    (\<forall>e \<in> set config_map. config_lookup sec key \<noteq> Some e \<longrightarrow>
        slot_read (e_slot e) d = slot_read (e_slot e) c) \<and>
    (rc \<noteq> 0 \<or> config_lookup sec key = None \<longrightarrow> d = c) \<and>
    (config_lookup sec key = None \<longrightarrow> rc = 0)"
proof (cases rule: process_kv_cases [of sec key c t])
  case (stored e v)
  then show ?thesis using wf slot_write_laws(1) slot_write_other by fastforce
qed (use wf in simp_all)

definition config_example :: x52d_config where
  "config_example = config_zero \<lparr> clock_2_tz := ''America/New_York'', brightness := [128, -5],
     clock_format := [LIBX52_CLOCK_FORMAT_12HR, LIBX52_CLOCK_FORMAT_24HR, LIBX52_CLOCK_FORMAT_12HR],
     profiles_dir := ''/etc/x52d/profiles.d'' \<rparr>"

lemma config_example_wf: "config_wf config_example"
  by (simp add: config_wf_def config_example_def config_zero_def int_ok_def string_ok_def NAME_MAX_def)

lemma x52d_config_process_kv_contract_witness:
  "\<exists>rc d. x52d_config_process_kv (Some config_example) ''led'' ''pov'' (Some ''blue'') = (rc, Some d) \<and>
    config_wf d \<and>
    (\<forall>e \<in> set config_map. config_lookup ''led'' ''pov'' \<noteq> Some e \<longrightarrow>
        slot_read (e_slot e) d = slot_read (e_slot e) config_example) \<and>
    (rc \<noteq> 0 \<or> config_lookup ''led'' ''pov'' = None \<longrightarrow> d = config_example) \<and>
    (config_lookup ''led'' ''pov'' = None \<longrightarrow> rc = 0)"
  by (rule x52d_config_process_kv_contract [OF config_example_wf])

section \<open>Reading a key back\<close>

lemma get_param_text:
  "config_lookup sec key = Some e \<Longrightarrow>
   x52d_config_get_param tr (Some c) sec key = Some (value_text tr (slot_read (e_slot e) c))"
  by (simp add: x52d_config_get_param_def entry_dumper_text)

text \<open>
  C19:
  With untranslated messages, the text that reading a key gives, set again under the same
  name in any configuration, copies the value of that key and nothing else. The exceptions
  are the three clock format keys, whose text the parser rejects with \<open>EINVAL\<close>.
\<close>

theorem x52d_config_text_roundtrip:
  assumes "config_wf c" and "config_wf d"
    and "x52d_config_get_param (\<lambda>x. x) (Some c) sec key = Some text"
  shows "\<exists>e \<in> set config_map. entry_matches sec key e \<and>
    (if is_clock_format (e_slot e)
     then x52d_config_process_kv (Some d) sec key (Some text) = (EINVAL, Some d)
     else \<exists>d'. x52d_config_process_kv (Some d) sec key (Some text) = (0, Some d') \<and>
       slot_read (e_slot e) d' = slot_read (e_slot e) c \<and>
       (\<forall>f \<in> set config_map. f \<noteq> e \<longrightarrow> slot_read (e_slot f) d' = slot_read (e_slot f) d))"
proof -
  from assms(3) obtain e where e: "config_lookup sec key = Some e"
    by (auto simp: x52d_config_get_param_def split: option.splits)
  then have m: "e \<in> set config_map" "entry_matches sec key e"
    by (auto elim: config_lookup_Some)
  note ok = slot_read_ok [OF m(1) assms(1)]
  from assms(3) e have "text = value_text (\<lambda>x. x) (slot_read (e_slot e) c)"
    by (simp add: get_param_text)
  then have kv: "x52d_config_process_kv (Some d) sec key (Some text) =
      (if is_clock_format (e_slot e) then (EINVAL, Some d)
       else (0, Some (slot_write (e_slot e) (slot_read (e_slot e) c) d)))"
    using entry_parser_text [OF ok] by (simp add: process_kv_row [OF e])
  then show ?thesis
    using m slot_write_laws(2) [OF m(1) assms(2) ok] slot_write_other by fastforce
qed

lemma x52d_config_text_roundtrip_witness:
  "\<exists>text d'. x52d_config_get_param (\<lambda>x. x) (Some config_example) ''Brightness'' ''led'' = Some text
     \<and> x52d_config_process_kv (Some config_zero) ''Brightness'' ''led'' (Some text) = (0, Some d')
     \<and> slot_read (slot_of 20) d' = IntV (- 5)"
proof -
  have lk: "config_lookup ''Brightness'' ''led'' = Some (config_map ! 20)"
    by (rule config_lookup_nth)
      (simp_all add: config_map_def entry_matches_def strcaseeq_def tolower_def char_of_def bit_0)
  then obtain t where t: "x52d_config_get_param (\<lambda>x. x) (Some config_example) ''Brightness'' ''led'' = Some t"
    by (simp add: get_param_text)
  have only: "e = config_map ! 20" if "e \<in> set config_map" "entry_matches ''Brightness'' ''led'' e" for e
    using that lk config_lookup_nth [of _ "''Brightness''" "''led''"] by (auto simp: in_set_conv_nth)
  have v: "slot_read (e_slot (config_map ! 20)) config_example = IntV (- 5)"
    "\<not> is_clock_format (e_slot (config_map ! 20))" by (simp_all add: config_map_def config_example_def)
  from x52d_config_text_roundtrip [OF config_example_wf config_zero_wf t] only v
  have "\<exists>d'. x52d_config_process_kv (Some config_zero) ''Brightness'' ''led'' (Some t) = (0, Some d')
      \<and> slot_read (e_slot (config_map ! 20)) d' = IntV (- 5)" by (metis (no_types, lifting))
  with t show ?thesis by (auto simp: slot_of_def)
qed

section \<open>Defaults\<close>

text \<open>What each row's default means, in the order of the table.\<close>

definition default_values :: "config_value list" where
  "default_values =
    [BoolV True, BoolV True, StringV ''UTC'', StringV ''UTC'',
     ClockFormatV LIBX52_CLOCK_FORMAT_12HR, ClockFormatV LIBX52_CLOCK_FORMAT_12HR,
     ClockFormatV LIBX52_CLOCK_FORMAT_12HR, DateFormatV LIBX52_DATE_FORMAT_DDMMYY,
     LedV LIBX52_LED_STATE_ON, LedV LIBX52_LED_STATE_ON] @
    [LedV LIBX52_LED_STATE_GREEN, LedV LIBX52_LED_STATE_GREEN, LedV LIBX52_LED_STATE_GREEN,
     LedV LIBX52_LED_STATE_GREEN, LedV LIBX52_LED_STATE_GREEN, LedV LIBX52_LED_STATE_GREEN,
     LedV LIBX52_LED_STATE_GREEN, LedV LIBX52_LED_STATE_GREEN, LedV LIBX52_LED_STATE_GREEN] @
    [IntV 128, IntV 128, BoolV True, IntV 0, BoolV False,
     StringV ''/etc/x52d/profiles.d'', BoolV False, BoolV False]"

text \<open>Running a list of settings that each store a value.\<close>

fun store_all :: "(config_entry \<times> config_value) list \<Rightarrow> x52d_config \<Rightarrow> x52d_config" where
  "store_all [] c = c"
| "store_all ((e, v) # evs) c = store_all evs (slot_write (e_slot e) v c)"

lemma store_all_wf:
  "config_wf c \<Longrightarrow> \<forall>(e, v) \<in> set evs. e \<in> set config_map \<and> slot_ok (e_slot e) v \<Longrightarrow>
   config_wf (store_all evs c)"
  by (induction evs c rule: store_all.induct) (auto intro: slot_write_laws)

lemma store_all_other:
  "e \<in> set config_map \<Longrightarrow> \<forall>(d, v) \<in> set evs. d \<in> set config_map \<and> d \<noteq> e \<Longrightarrow>
   slot_read (e_slot e) (store_all evs c) = slot_read (e_slot e) c"
  by (induction evs c rule: store_all.induct) (auto simp: slot_write_other)

lemma store_all_read:
  assumes "config_wf c" "\<forall>(e, v) \<in> set evs. e \<in> set config_map \<and> slot_ok (e_slot e) v"
    and "distinct (map fst evs)" and "(e, v) \<in> set evs"
  shows "slot_read (e_slot e) (store_all evs c) = v"
  using assms
proof (induction evs c rule: store_all.induct)
  case (2 d w evs c)
  show ?case
  proof (cases "(e, v) = (d, w)")
    case True
    then have "slot_read (e_slot e) (store_all evs (slot_write (e_slot d) w c)) =
        slot_read (e_slot e) (slot_write (e_slot d) w c)"
      using "2.prems" by (intro store_all_other) (auto simp: image_iff)
    with True "2.prems" show ?thesis by (auto simp: slot_write_laws)
  next
    case False
    with "2.prems" have "slot_read (e_slot e) (store_all evs (slot_write (e_slot d) w c)) = v"
      by (intro "2.IH") (auto intro: slot_write_laws)
    then show ?thesis by simp
  qed
qed simp

lemma config_map_distinct: "distinct config_map"
  using config_map_names by (simp add: distinct_map)

lemma default_texts: "strtol 0 ''128'' = (128, False, [])" "strtol 0 ''0'' = (0, False, [])"
  by code_simp+

lemma default_parsers:
  "bool_parser p (Some c) (Some ''true'') = (0, Some (p True c))"
  "bool_parser p (Some c) (Some ''false'') = (0, Some (p False c))"
  "led_parser pl (Some c) (Some ''on'') = (0, Some (pl LIBX52_LED_STATE_ON c))"
  "led_parser pl (Some c) (Some ''green'') = (0, Some (pl LIBX52_LED_STATE_GREEN c))"
  "clock_format_parser pf (Some c) (Some ''12hr'') = (0, Some (pf LIBX52_CLOCK_FORMAT_12HR c))"
  "date_format_parser pd (Some c) (Some ''ddmmyy'') = (0, Some (pd LIBX52_DATE_FORMAT_DDMMYY c))"
  "int_parser pi' (Some c) (Some ''128'') = (0, Some (pi' 128 c))"
  "int_parser pi' (Some c) (Some ''0'') = (0, Some (pi' 0 c))"
  by (simp_all add: bool_parser_def led_parser_def clock_format_parser_def date_format_parser_def
      int_parser_def check_params_some strcaseeq_def tolower_def char_of_def bit_0 default_texts
      c_int_id)

lemma entry_parser_default:
  "list_all2 (\<lambda>e v. slot_ok (e_slot e) v \<and>
       (\<forall>c. entry_parser (e_slot e) (Some c) (Some (e_default e)) = (0, Some (slot_write (e_slot e) v c))))
     config_map default_values"
  unfolding config_map_def default_values_def
  by (simp add: default_parsers string_parser_def check_params_some NAME_MAX_def string_ok_def int_ok_def)

lemma set_defaults_loop_stores:
  assumes "list_all2 (\<lambda>e v. e \<in> set config_map \<and>
      (\<forall>c. entry_parser (e_slot e) (Some c) (Some (e_default e)) = (0, Some (slot_write (e_slot e) v c))))
    es vs"
  shows "set_defaults_loop es (Some c) = (0, Some (store_all (zip es vs) c))"
  using assms
proof (induction es vs arbitrary: c rule: list_all2_induct)
  case (Cons e es v vs)
  then show ?case by (simp add: process_kv_row [OF config_lookup_self])
qed simp

lemma set_defaults_stores:
  "x52d_config_set_defaults (Some c) = (0, Some (store_all (zip config_map default_values) c))"
proof -
  have "list_all2 (\<lambda>e v. e \<in> set config_map \<and>
      (\<forall>c. entry_parser (e_slot e) (Some c) (Some (e_default e)) = (0, Some (slot_write (e_slot e) v c))))
    config_map default_values"
    using entry_parser_default by (simp add: list_all2_conv_all_nth)
  then show ?thesis by (simp add: x52d_config_set_defaults_def set_defaults_loop_stores)
qed

lemma defaults_legal:
  "\<forall>(e, v) \<in> set (zip config_map default_values). e \<in> set config_map \<and> slot_ok (e_slot e) v"
  using entry_parser_default by (auto simp: list_all2_conv_all_nth in_set_zip)

lemma length_default_values: "length config_map = length default_values"
  using entry_parser_default by (rule list_all2_lengthD)

text \<open>
  Setting the defaults succeeds in any well-formed configuration, keeps it well formed and
  gives every key of the table its default value, whatever it held before.
\<close>

lemma x52d_config_set_defaults_values:
  assumes "config_wf c"
  shows "\<exists>d. x52d_config_set_defaults (Some c) = (0, Some d) \<and> config_wf d \<and>
    map (\<lambda>e. slot_read (e_slot e) d) config_map = default_values"
proof (intro exI conjI)
  show "x52d_config_set_defaults (Some c) = (0, Some (store_all (zip config_map default_values) c))"
    by (rule set_defaults_stores)
  show "config_wf (store_all (zip config_map default_values) c)"
    by (rule store_all_wf [OF assms defaults_legal])
  show "map (\<lambda>e. slot_read (e_slot e) (store_all (zip config_map default_values) c)) config_map
      = default_values"
  proof (rule nth_equalityI)
    fix i assume "i < length (map (\<lambda>e. slot_read (e_slot e)
        (store_all (zip config_map default_values) c)) config_map)"
    then have i: "i < length config_map" by simp
    then have "(config_map ! i, default_values ! i) \<in> set (zip config_map default_values)"
      using length_default_values by (auto simp: in_set_zip)
    moreover have "distinct (map fst (zip config_map default_values))"
      using length_default_values config_map_distinct by (simp add: map_fst_zip)
    ultimately show "map (\<lambda>e. slot_read (e_slot e)
        (store_all (zip config_map default_values) c)) config_map ! i = default_values ! i"
      using i store_all_read [OF assms defaults_legal] by simp
  qed (simp add: length_default_values)
qed

lemma x52d_config_set_defaults_values_witness:
  "\<exists>d. x52d_config_set_defaults (Some config_example) = (0, Some d) \<and> config_wf d \<and>
    map (\<lambda>e. slot_read (e_slot e) d) config_map = default_values"
  by (rule x52d_config_set_defaults_values [OF config_example_wf])

section \<open>Overrides\<close>

lemma strchr_split_Some:
  "strchr_split c s = Some (a, b) \<longleftrightarrow> s = a @ c # b \<and> c \<notin> set a"
proof
  assume "strchr_split c s = Some (a, b)"
  then have c: "c \<in> set s" "a = takeWhile (\<lambda>x. x \<noteq> c) s" "b = tl (dropWhile (\<lambda>x. x \<noteq> c) s)"
    by (auto simp: strchr_split_def split: if_splits)
  have "c \<notin> set a" unfolding c by (auto dest: set_takeWhileD)
  moreover have "dropWhile (\<lambda>x. x \<noteq> c) s \<noteq> []" using c(1) by (simp add: dropWhile_eq_Nil_conv)
  then have "dropWhile (\<lambda>x. x \<noteq> c) s = c # b"
    using hd_dropWhile [of "\<lambda>x. x \<noteq> c" s] c(3) by (cases "dropWhile (\<lambda>x. x \<noteq> c) s") auto
  then have "s = a @ c # b" using takeWhile_dropWhile_id [of "\<lambda>x. x \<noteq> c" s] c(2) by simp
  ultimately show "s = a @ c # b \<and> c \<notin> set a" by blast
next
  assume s: "s = a @ c # b \<and> c \<notin> set a"
  then have "\<forall>x \<in> set a. x \<noteq> c" by auto
  with s show "strchr_split c s = Some (a, b)"
    by (simp add: strchr_split_def takeWhile_append2 dropWhile_append2)
qed

text \<open>
  Given memory, an override string is accepted exactly when it has the form
  \<open>section.key=value\<close> with three non-empty parts, no dot in the section and no equals sign in
  the key; then it is appended to the overrides with these parts, and otherwise the call
  returns \<open>EINVAL\<close> and the overrides stay as they were.
\<close>

lemma x52d_config_save_override_accepts:
  "(x52d_config_save_override True None str ovs = (0, ovs') \<longleftrightarrow>
     (\<exists>sec key val. str = sec @ ''.'' @ key @ ''='' @ val \<and>
        sec \<noteq> [] \<and> CHR ''.'' \<notin> set sec \<and> key \<noteq> [] \<and> CHR ''='' \<notin> set key \<and> val \<noteq> [] \<and>
        ovs' = ovs @ [\<lparr> ov_section = sec, ov_key = key, ov_value = val \<rparr>])) \<and>
   (fst (x52d_config_save_override True None str ovs) = 0 \<or>
    x52d_config_save_override True None str ovs = (EINVAL, ovs))"
proof (cases "strchr_split (CHR ''.'') str")
  case None
  then have "CHR ''.'' \<notin> set str" by (simp add: strchr_split_def split: if_splits)
  with None show ?thesis by (auto simp: x52d_config_save_override_def)
next
  case (Some sr)
  obtain sec rest where sr: "sr = (sec, rest)" by (rule prod.exhaust)
  with Some have str: "str = sec @ CHR ''.'' # rest" "CHR ''.'' \<notin> set sec"
    by (simp_all add: strchr_split_Some)
  have u: "sec' = sec \<and> rest' = rest"
    if "str = sec' @ CHR ''.'' # rest'" "CHR ''.'' \<notin> set sec'" for sec' rest'
    using strchr_split_Some [THEN iffD2, OF conjI, OF that] Some sr by simp
  show ?thesis
  proof (cases "strchr_split (CHR ''='') rest")
    case None
    then have eq: "CHR ''='' \<notin> set rest" by (simp add: strchr_split_def split: if_splits)
    have "CHR ''.'' \<in> set sec'" if "str = sec' @ CHR ''.'' # key @ CHR ''='' # val" for sec' key val
    proof (rule ccontr)
      assume "CHR ''.'' \<notin> set sec'"
      with that u have "rest = key @ CHR ''='' # val" by blast
      with eq show False by simp
    qed
    moreover have "x52d_config_save_override True None str ovs = (EINVAL, ovs)"
      using None Some sr by (simp add: x52d_config_save_override_def)
    ultimately show ?thesis by auto
  next
    case (Some kv)
    obtain key val where kv: "kv = (key, val)" by (rule prod.exhaust)
    have w: "key' = key \<and> val' = val"
      if "rest = key' @ CHR ''='' # val'" "CHR ''='' \<notin> set key'" for key' val'
      using strchr_split_Some [THEN iffD2, OF conjI, OF that] Some kv by simp
    have rest: "rest = key @ CHR ''='' # val" "CHR ''='' \<notin> set key"
      using Some kv by (simp_all add: strchr_split_Some)
    let ?parts = "\<lambda>sec' key' val'. str = sec' @ ''.'' @ key' @ ''='' @ val' \<and>
        sec' \<noteq> [] \<and> CHR ''.'' \<notin> set sec' \<and> key' \<noteq> [] \<and> CHR ''='' \<notin> set key' \<and> val' \<noteq> [] \<and>
        ovs' = ovs @ [\<lparr> ov_section = sec', ov_key = key', ov_value = val' \<rparr>]"
    have only: "sec' = sec \<and> key' = key \<and> val' = val" if p: "?parts sec' key' val'" for sec' key' val'
    proof -
      from p have "sec' = sec \<and> key' @ CHR ''='' # val' = rest" by (intro u) simp_all
      with p w show ?thesis by auto
    qed
    have parts: "(\<exists>sec' key' val'. ?parts sec' key' val') = ?parts sec key val"
      using only by blast
    have "x52d_config_save_override True None str ovs =
        (if sec = [] \<or> key = [] \<or> val = [] then (EINVAL, ovs)
         else (0, ovs @ [\<lparr> ov_section = sec, ov_key = key, ov_value = val \<rparr>]))"
      using Some kv \<open>strchr_split (CHR ''.'') str = Some sr\<close> sr
      by (simp add: x52d_config_save_override_def)
    then show ?thesis unfolding parts using str rest by auto
  qed
qed

end
