(* ===== verification/Inih.thy ===== *)
theory Inih
  imports X52_Prelude
begin

text \<open>
  The INI parser the daemon is built with (\<open>lib/inih/ini.c\<close>, in its default configuration:
  multi-line values, byte order mark, inline comments, a line buffer of 200 bytes). A stream
  is whatever the reader function reads from; a line is the string the reader leaves in the
  buffer. The loop over the stream ends when the reader does, so it is a partial function,
  and every reader that consumes its stream makes it return.
\<close>

section \<open>String helpers\<close>

definition INI_MAX_LINE :: nat where "INI_MAX_LINE = 200"
definition MAX_SECTION :: nat where "MAX_SECTION = 50"
definition MAX_NAME :: nat where "MAX_NAME = 50"

abbreviation newline :: char where "newline \<equiv> CHR 0x0A"

definition rstrip :: "string \<Rightarrow> string" where
  "rstrip s = rev (dropWhile isspace (rev s))"

definition lskip :: "string \<Rightarrow> string" where
  "lskip s = dropWhile isspace s"

text \<open>
  The string up to the first of \<open>chars\<close> or an inline comment, and the string from there;
  \<open>None\<close> stands for a NULL \<open>chars\<close>.
\<close>

fun find_chars_or_comment :: "string option \<Rightarrow> bool \<Rightarrow> string \<Rightarrow> string \<times> string" where
  "find_chars_or_comment chars was_space [] = ([], [])"
| "find_chars_or_comment chars was_space (c # cs) =
     (if (case chars of None \<Rightarrow> True | Some ch \<Rightarrow> c \<notin> set ch) \<and> \<not> (was_space \<and> c = CHR '';'')
      then (let (a, b) = find_chars_or_comment chars (isspace c) cs in (c # a, b))
      else ([], c # cs))"

definition strncpy0 :: "nat \<Rightarrow> string \<Rightarrow> string" where
  "strncpy0 sz src = take (sz - 1) src"

section \<open>One line\<close>

type_synonym 'u ini_handler = "'u \<Rightarrow> string \<Rightarrow> string \<Rightarrow> string \<Rightarrow> int \<times> 'u"

record 'u ini_state =
  ini_section :: string
  prev_name :: string
  lineno :: int
  error :: int
  user :: 'u

text \<open>A handler that returns 0 has failed; the first failing line is the result.\<close>

definition note_error :: "'u ini_state \<Rightarrow> 'u ini_state" where
  "note_error st = (if error st = 0 then st \<lparr> error := lineno st \<rparr> else st)"

definition call_handler :: "'u ini_handler \<Rightarrow> string \<Rightarrow> string \<Rightarrow> 'u ini_state \<Rightarrow> 'u ini_state" where
  "call_handler handler name value st =
     (let (r, u) = handler (user st) (ini_section st) name value; st' = st \<lparr> user := u \<rparr>
      in if r = 0 then note_error st' else st')"

definition has_bom :: "string \<Rightarrow> bool" where
  "has_bom s \<longleftrightarrow> take 3 s = [CHR 0xEF, CHR 0xBB, CHR 0xBF]"

text \<open>The three kinds of line: a section header after its bracket, a pair, any line.\<close>

definition section_line :: "string \<Rightarrow> 'u ini_state \<Rightarrow> 'u ini_state" where
  "section_line cs st =
     (case find_chars_or_comment (Some '']'') False cs of (name, rest) \<Rightarrow>
        if rest \<noteq> [] \<and> hd rest = CHR '']''
        then st \<lparr> ini_section := strncpy0 MAX_SECTION name, prev_name := [] \<rparr>
        else note_error st)"

definition pair_line :: "'u ini_handler \<Rightarrow> string \<Rightarrow> 'u ini_state \<Rightarrow> 'u ini_state" where
  "pair_line handler start st =
     (case find_chars_or_comment (Some ''=:'') False start of (name0, rest) \<Rightarrow>
        if rest \<noteq> [] \<and> (hd rest = CHR ''='' \<or> hd rest = CHR '':'') then
          (let name = rstrip name0;
               value = rstrip (lskip (fst (find_chars_or_comment None False (tl rest))))
           in call_handler handler name value (st \<lparr> prev_name := strncpy0 MAX_NAME name \<rparr>))
        else note_error st)"

definition ini_line :: "'u ini_handler \<Rightarrow> string \<Rightarrow> 'u ini_state \<Rightarrow> 'u ini_state" where
  "ini_line handler line st0 =
     (let st = st0 \<lparr> lineno := lineno st0 + 1 \<rparr>;
          bom = (lineno st = 1 \<and> has_bom line);
          stripped = rstrip (if bom then drop 3 line else line);
          start = lskip stripped;
          indented = (bom \<or> length start < length stripped)
      in case start of
           [] \<Rightarrow> st
         | c # cs \<Rightarrow>
             if c = CHR '';'' \<or> c = CHR ''#'' then st
             else if prev_name st \<noteq> [] \<and> indented then call_handler handler (prev_name st) start st
             else if c = CHR ''['' then section_line cs st
             else pair_line handler start st)"

section \<open>The stream\<close>

type_synonym 's ini_reader = "nat \<Rightarrow> 's \<Rightarrow> (string \<times> 's) option"

partial_function (option) ini_lines ::
  "'s ini_reader \<Rightarrow> 'u ini_handler \<Rightarrow> 's \<Rightarrow> 'u ini_state \<Rightarrow> 'u ini_state option" where
  "ini_lines reader handler stream st =
     (case reader INI_MAX_LINE stream of
        None \<Rightarrow> Some st
      | Some (line, stream') \<Rightarrow> ini_lines reader handler stream' (ini_line handler line st))"

definition ini_parse_stream ::
  "'s ini_reader \<Rightarrow> 's \<Rightarrow> 'u ini_handler \<Rightarrow> 'u \<Rightarrow> (int \<times> 'u) option" where
  "ini_parse_stream reader stream handler u =
     map_option (\<lambda>st. (error st, user st))
       (ini_lines reader handler stream
          \<lparr> ini_section = [], prev_name = [], lineno = 0, error = 0, user = u \<rparr>)"

text \<open>At most \<open>n\<close> characters, up to and with the first newline.\<close>

fun read_line :: "nat \<Rightarrow> string \<Rightarrow> string \<times> string" where
  "read_line n [] = ([], [])"
| "read_line 0 (c # cs) = ([], c # cs)"
| "read_line (Suc n) (c # cs) =
     (if c = newline then ([c], cs) else (let (a, b) = read_line n cs in (c # a, b)))"

text \<open>\<open>fgets\<close> of the C library, on the characters a file still has.\<close>

definition fgets :: "string ini_reader" where
  "fgets num stream = (if stream = [] then None else Some (read_line (num - 1) stream))"

definition ini_reader_string :: "string ini_reader" where
  "ini_reader_string num stream =
     (if stream = [] \<or> num < 2 then None else Some (read_line (num - 1) stream))"

definition ini_parse_file :: "string \<Rightarrow> 'u ini_handler \<Rightarrow> 'u \<Rightarrow> (int \<times> 'u) option" where
  "ini_parse_file file handler u = ini_parse_stream fgets file handler u"

text \<open>\<open>None\<close> is a file that cannot be opened.\<close>

definition ini_parse :: "string option \<Rightarrow> 'u ini_handler \<Rightarrow> 'u \<Rightarrow> (int \<times> 'u) option" where
  "ini_parse file handler u =
     (case file of None \<Rightarrow> Some (-1, u) | Some content \<Rightarrow> ini_parse_file content handler u)"

definition ini_parse_string :: "string \<Rightarrow> 'u ini_handler \<Rightarrow> 'u \<Rightarrow> (int \<times> 'u) option" where
  "ini_parse_string str handler u = ini_parse_stream ini_reader_string str handler u"

section \<open>The loop ends\<close>

lemma call_handler_counts [simp]:
  "lineno (call_handler handler name val st) = lineno st"
  "0 \<le> error st \<Longrightarrow> 0 \<le> lineno st \<Longrightarrow> 0 \<le> error (call_handler handler name val st)"
  by (auto simp: call_handler_def note_error_def Let_def split: prod.split)

lemma note_error_counts [simp]:
  "lineno (note_error st) = lineno st"
  "0 \<le> error st \<Longrightarrow> 0 \<le> lineno st \<Longrightarrow> 0 \<le> error (note_error st)"
  by (auto simp: note_error_def)

lemma section_line_counts [simp]:
  "lineno (section_line cs st) = lineno st"
  "0 \<le> error st \<Longrightarrow> 0 \<le> lineno st \<Longrightarrow> 0 \<le> error (section_line cs st)"
  by (simp_all add: section_line_def split: prod.split)

lemma pair_line_counts [simp]:
  "lineno (pair_line handler start st) = lineno st"
  "0 \<le> error st \<Longrightarrow> 0 \<le> lineno st \<Longrightarrow> 0 \<le> error (pair_line handler start st)"
  by (simp_all add: pair_line_def Let_def split: prod.split)

lemma ini_line_counts:
  "0 \<le> error st \<Longrightarrow> 0 \<le> lineno st \<Longrightarrow>
   0 \<le> error (ini_line handler line st) \<and> 0 \<le> lineno (ini_line handler line st)"
  unfolding ini_line_def Let_def by (simp split: list.split del: One_nat_def)

text \<open>What every call of the handler keeps of the user data, a line keeps.\<close>

lemma ini_line_user:
  assumes "\<And>u sec name val. P u \<Longrightarrow> P (snd (handler u sec name val))" and "P (user st)"
  shows "P (user (ini_line handler line st))"
proof -
  have call: "P (user (call_handler handler name val st'))" if "P (user st')" for name val st'
    using assms(1) [OF that, of "ini_section st'" name val]
    by (auto simp: call_handler_def note_error_def Let_def split: prod.splits)
  have "P (user (section_line cs st'))" if "P (user st')" for cs st'
    using that by (simp add: section_line_def note_error_def split: prod.split)
  moreover have "P (user (pair_line handler start st'))" if "P (user st')" for start st'
    using that by (simp add: pair_line_def Let_def note_error_def call split: prod.split)
  ultimately show ?thesis using assms(2)
    by (simp add: ini_line_def Let_def call split: list.split)
qed

text \<open>What the loop needs of a reader: what it returns is gone from the stream.\<close>

locale ini_source =
  fixes reader :: "'s ini_reader" and left :: "'s \<Rightarrow> nat"
  assumes reader_consumes: "reader INI_MAX_LINE s = Some (line, s') \<Longrightarrow> left s' < left s"
begin

lemma ini_lines_returns:
  "0 \<le> error st \<Longrightarrow> 0 \<le> lineno st \<Longrightarrow>
   \<exists>st'. ini_lines reader handler s st = Some st' \<and> 0 \<le> error st'"
proof (induction "left s" arbitrary: s st rule: less_induct)
  case less
  show ?case
  proof (cases "reader INI_MAX_LINE s")
    case None
    with less show ?thesis by (simp add: ini_lines.simps)
  next
    case (Some r)
    obtain line s' where r: "r = (line, s')" by (rule prod.exhaust)
    with Some reader_consumes have "left s' < left s" by simp
    with less.hyps ini_line_counts [OF less.prems, of handler line]
    have "\<exists>st'. ini_lines reader handler s' (ini_line handler line st) = Some st' \<and> 0 \<le> error st'"
      by blast
    then show ?thesis using Some r by (subst ini_lines.simps) simp
  qed
qed

lemma ini_parse_stream_returns:
  "\<exists>rc u'. ini_parse_stream reader s handler u = Some (rc, u') \<and> 0 \<le> rc"
  using ini_lines_returns [of "\<lparr> ini_section = [], prev_name = [], lineno = 0, error = 0, user = u \<rparr>" handler s]
  by (auto simp: ini_parse_stream_def)

lemma ini_lines_user:
  assumes "\<And>u sec name val. P u \<Longrightarrow> P (snd (handler u sec name val))"
  shows "P (user st) \<Longrightarrow> ini_lines reader handler s st = Some st' \<Longrightarrow> P (user st')"
proof (induction "left s" arbitrary: s st rule: less_induct)
  case less
  show ?case
  proof (cases "reader INI_MAX_LINE s")
    case None
    with less.prems show ?thesis by (simp add: ini_lines.simps)
  next
    case (Some r)
    obtain line s' where r: "r = (line, s')" by (rule prod.exhaust)
    with Some less.prems(2) have "ini_lines reader handler s' (ini_line handler line st) = Some st'"
      by (subst (asm) ini_lines.simps) simp
    moreover have "left s' < left s" using Some r reader_consumes by simp
    moreover have "P (user (ini_line handler line st))"
      by (rule ini_line_user [where handler = handler, OF assms less.prems(1)])
    ultimately show ?thesis using less.hyps by blast
  qed
qed

lemma ini_lines_same:
  assumes "\<And>s. other INI_MAX_LINE s = reader INI_MAX_LINE s"
  shows "ini_lines other handler s st = ini_lines reader handler s st"
proof (induction "left s" arbitrary: s st rule: less_induct)
  case less
  have "ini_lines other handler s' st' = ini_lines reader handler s' st'"
    if "reader INI_MAX_LINE s = Some (line, s')" for line s' st'
    using less reader_consumes [OF that] by blast
  then show ?case by (subst (1 2) ini_lines.simps) (auto simp: assms split: option.split)
qed

end

lemma read_line_length: "read_line n s = (a, b) \<Longrightarrow> length a + length b = length s"
  by (induction n s arbitrary: a b rule: read_line.induct) (auto split: if_splits prod.splits)

lemma read_line_consumes:
  "read_line (Suc n) s = (a, b) \<Longrightarrow> s \<noteq> [] \<Longrightarrow> length b < length s"
  using read_line_length [of "Suc n" s a b] by (cases s) (auto split: if_splits prod.splits)

interpretation file_source: ini_source fgets length
  by unfold_locales
    (auto simp: fgets_def INI_MAX_LINE_def numeral_eq_Suc dest!: read_line_consumes split: if_splits)

interpretation string_source: ini_source ini_reader_string length
  by unfold_locales
    (auto simp: ini_reader_string_def INI_MAX_LINE_def numeral_eq_Suc
      dest!: read_line_consumes split: if_splits)

text \<open>
  C20:
  Parsing an INI file always returns: with -1 and the user data untouched when the file
  cannot be opened, and with 0 or the number of the first line in error otherwise. Parsing
  the same text from a string gives the same result.
\<close>

theorem ini_parse_returns:
  "ini_parse None handler u = Some (-1, u) \<and>
   (\<exists>rc u'. ini_parse (Some content) handler u = Some (rc, u') \<and> 0 \<le> rc \<and>
      ini_parse_string content handler u = Some (rc, u'))"
proof -
  have "ini_parse_string content handler u = ini_parse (Some content) handler u"
    unfolding ini_parse_string_def ini_parse_def ini_parse_file_def ini_parse_stream_def
    by (simp add: file_source.ini_lines_same [of ini_reader_string] fgets_def
        ini_reader_string_def INI_MAX_LINE_def)
  with file_source.ini_parse_stream_returns [of content handler u] show ?thesis
    by (auto simp: ini_parse_def ini_parse_file_def)
qed

section \<open>Reading what a writer prints\<close>

text \<open>A name of letters and digits, and a value that no rule of the format changes.\<close>

definition isalnum :: "char \<Rightarrow> bool" where
  "isalnum c = (let n = (of_char c :: nat) in
     (48 \<le> n \<and> n \<le> 57) \<or> (65 \<le> n \<and> n \<le> 90) \<or> (97 \<le> n \<and> n \<le> 122))"

definition plain_name :: "string \<Rightarrow> bool" where
  "plain_name k \<longleftrightarrow> k \<noteq> [] \<and> list_all isalnum k \<and> length k < MAX_NAME"

definition plain_value :: "string \<Rightarrow> bool" where
  "plain_value v \<longleftrightarrow> newline \<notin> set v \<and> fst (find_chars_or_comment None True v) = v \<and>
     (v = [] \<or> \<not> isspace (hd v) \<and> \<not> isspace (last v))"

lemma isalnum_facts:
  assumes "isalnum c"
  shows "\<not> isspace c" "c \<noteq> CHR ''=''" "c \<noteq> CHR '':''" "c \<noteq> CHR '';''" "c \<noteq> CHR ''#''"
    "c \<noteq> CHR ''[''" "c \<noteq> CHR '']''" "c \<noteq> newline" "c \<noteq> CHR 0xEF"
  using assms by (auto simp: isalnum_def isspace_def Let_def)

lemma plain_name_hd: "plain_name k \<Longrightarrow> isalnum (hd k)"
  by (cases k) (simp_all add: plain_name_def)

lemma plain_name_last: "plain_name k \<Longrightarrow> isalnum (last k)"
  by (simp add: plain_name_def list_all_iff)

lemma rstrip_snoc: "rstrip (s @ [c]) = (if isspace c then rstrip s else s @ [c])"
  by (simp add: rstrip_def)

lemma rstrip_id: "s = [] \<or> \<not> isspace (last s) \<Longrightarrow> rstrip s = s"
  by (cases s rule: rev_cases) (simp_all add: rstrip_def)

lemma lskip_id: "s = [] \<or> \<not> isspace (hd s) \<Longrightarrow> lskip s = s"
  by (cases s) (simp_all add: lskip_def)

lemma isspace_chars [simp]: "isspace newline" "isspace (CHR '' '')" "\<not> isspace (CHR ''='')"
  "\<not> isspace (CHR ''['')" "\<not> isspace (CHR '']'')"
  by (simp_all add: isspace_def)

lemma find_chars_append:
  "\<forall>c \<in> set k. c \<notin> set ch \<and> c \<noteq> CHR '';'' \<Longrightarrow>
   find_chars_or_comment (Some ch) w (k @ rest) =
     (let (a, b) = find_chars_or_comment (Some ch) (if k = [] then w else isspace (last k)) rest
      in (k @ a, b))"
proof (induction k arbitrary: w)
  case (Cons c k)
  then show ?case by (cases k) (auto split: prod.split)
qed (simp split: prod.split)

lemma plain_chars:
  "plain_name k \<Longrightarrow> \<forall>c \<in> set k. c \<notin> set ''=:'' \<and> c \<noteq> CHR '';''"
  "plain_name k \<Longrightarrow> \<forall>c \<in> set k. c \<notin> set '']'' \<and> c \<noteq> CHR '';''"
  by (auto simp: plain_name_def list_all_iff dest: isalnum_facts)

lemma pair_line_printed:
  assumes k: "plain_name k" and v: "plain_value v"
  shows "pair_line handler (rstrip (k @ '' = '' @ v)) st =
    call_handler handler k v (st \<lparr> prev_name := k \<rparr>)"
proof -
  define w where "w = (if v = [] then [] else CHR '' '' # v)"
  have s: "rstrip (k @ '' = '' @ v) = k @ '' ='' @ w"
  proof (cases "v = []")
    case True
    have "rstrip ((k @ '' ='') @ [CHR '' '']) = rstrip (k @ '' ='')"
      by (simp only: rstrip_snoc isspace_chars if_True)
    also have "\<dots> = k @ '' =''" by (rule rstrip_id) simp
    finally show ?thesis using True by (simp add: w_def)
  next
    case False
    with v have "rstrip (k @ '' = '' @ v) = k @ '' = '' @ v"
      by (intro rstrip_id) (simp add: plain_value_def)
    with False show ?thesis by (simp add: w_def)
  qed
  have f: "find_chars_or_comment (Some ''=:'') False (k @ '' ='' @ w) = (k @ '' '', CHR ''='' # w)"
    using plain_name_last [OF k, THEN isalnum_facts(1)]
    by (simp only: find_chars_append [OF plain_chars(1) [OF k]]) simp
  have n: "rstrip (k @ '' '') = k"
    using plain_name_last [OF k, THEN isalnum_facts(1)] by (simp add: rstrip_snoc rstrip_id)
  have "fst (find_chars_or_comment None False w) = w"
    using v by (auto simp: w_def plain_value_def split: prod.split)
  moreover have "rstrip (lskip w) = v"
  proof (cases "v = []")
    case True
    then show ?thesis by (simp add: w_def lskip_def rstrip_def)
  next
    case False
    then have "lskip w = lskip v" by (simp add: w_def lskip_def)
    with False v show ?thesis by (auto simp: plain_value_def lskip_id rstrip_id)
  qed
  moreover have "strncpy0 MAX_NAME k = k" using k by (auto simp: strncpy0_def plain_name_def)
  ultimately show ?thesis unfolding s pair_line_def f by (simp add: n)
qed

text \<open>A line \<open>name = value\<close> calls the handler with both; a header sets the section.\<close>

lemma ini_line_pair:
  assumes k: "plain_name k" and v: "plain_value v"
  shows "ini_line handler (k @ '' = '' @ v @ [newline]) st =
    call_handler handler k v (st \<lparr> lineno := lineno st + 1, prev_name := k \<rparr>)"
proof -
  note h = plain_name_hd [OF k]
  obtain c cs where kc: "k = c # cs" using k by (cases k) (auto simp: plain_name_def)
  with h have c: "isalnum c" by simp
  have bom: "\<not> has_bom (k @ x)" for x
    using isalnum_facts(9) [OF c] by (simp add: has_bom_def kc)
  have r: "rstrip (k @ '' = '' @ v @ [newline]) = rstrip (k @ '' = '' @ v)"
    using rstrip_snoc [of "k @ '' = '' @ v" newline] by simp
  obtain ds where ds: "rstrip (k @ '' = '' @ v) = c # ds"
  proof -
    have "rstrip (k @ '' = '' @ v) = k @ '' ='' @ (if v = [] then [] else CHR '' '' # v)"
      using v rstrip_id [of "k @ '' = '' @ v"] rstrip_snoc [of "k @ '' =''" "CHR '' ''"]
        rstrip_id [of "k @ '' =''"]
      by (cases "v = []") (simp_all add: plain_value_def)
    with that kc show thesis by simp
  qed
  have l: "lskip (c # ds) = c # ds" using isalnum_facts(1) [OF c] by (simp add: lskip_def)
  define line where "line = k @ '' = '' @ v @ [newline]"
  have "\<not> has_bom line" "rstrip line = c # ds" unfolding line_def by (rule bom) (simp only: r ds)
  then have "ini_line handler line st =
      pair_line handler (c # ds) (st \<lparr> lineno := lineno st + 1 \<rparr>)"
    by (simp add: ini_line_def Let_def l isalnum_facts [OF c])
  then show ?thesis using pair_line_printed [OF k v] ds by (simp add: line_def)
qed

lemma ini_line_header:
  assumes "plain_name k"
  shows "ini_line handler (''['' @ k @ '']'' @ [newline]) st =
    st \<lparr> lineno := lineno st + 1, ini_section := k, prev_name := [] \<rparr>"
proof -
  have r: "rstrip (''['' @ k @ '']'' @ [newline]) = ''['' @ k @ '']''"
    using rstrip_snoc [of "''['' @ k @ '']''" newline] rstrip_id [of "''['' @ k @ '']''"] by simp
  have f: "find_chars_or_comment (Some '']'') False (k @ '']'') = (k, '']'')"
    by (simp only: find_chars_append [OF plain_chars(2) [OF assms]]) simp
  have "strncpy0 MAX_SECTION k = k"
    using assms by (simp add: strncpy0_def plain_name_def MAX_SECTION_def MAX_NAME_def)
  then show ?thesis using r f
    by (simp add: ini_line_def Let_def has_bom_def lskip_def section_line_def)
qed

lemma read_line_append:
  "newline \<notin> set l \<Longrightarrow> length l < n \<Longrightarrow> read_line n (l @ newline # rest) = (l @ [newline], rest)"
proof (induction l arbitrary: n)
  case Nil
  then show ?case by (cases n) simp_all
next
  case (Cons c l)
  then show ?case by (cases n) auto
qed

lemma ini_lines_line:
  assumes "newline \<notin> set l" and "length l < INI_MAX_LINE - 1"
  shows "ini_lines fgets handler (l @ newline # rest) st =
    ini_lines fgets handler rest (ini_line handler (l @ [newline]) st)"
  by (subst ini_lines.simps) (simp add: fgets_def read_line_append [OF assms] del: One_nat_def)

lemma ini_lines_end: "ini_lines fgets handler [] st = Some st"
  by (simp add: ini_lines.simps fgets_def)

end
