(* ===== verification/Config_File.thy ===== *)
theory Config_File
  imports Config_Store Inih
begin

text \<open>
  Configuration files: \<open>x52d_config_save_file\<close> (\<open>daemon/x52d_config_dump.c\<close>) and
  \<open>x52d_config_load_file\<close> (\<open>daemon/x52d_config_parser.c\<close>), which reads through the INI parser.
  The file system is the content of the named file, \<open>None\<close> when it cannot be opened for
  reading; a file opened for writing receives the text.
\<close>

section \<open>Saving\<close>

text \<open>
  One expansion of the \<open>CFG\<close> macro per row: the section, when it differs from the one before
  (\<open>current_section\<close>), then the pair. The flag is the value of \<open>value == NULL\<close> at the end.
\<close>

fun dump_rows ::
  "(string \<Rightarrow> string) \<Rightarrow> x52d_config \<Rightarrow> string option \<Rightarrow> config_entry list \<Rightarrow> string \<Rightarrow> string \<times> bool" where
  "dump_rows tr cfg current_section [] out = (out, False)"
| "dump_rows tr cfg current_section (e # es) out =
     (let new_section = (case current_section of None \<Rightarrow> True
                         | Some s \<Rightarrow> \<not> strcaseeq s (e_section e));
          out1 = (if new_section then out @ ''['' @ e_section e @ '']'' @ [newline] else out);
          section1 = (if new_section then Some (e_section e) else current_section)
      in case entry_dumper tr (e_slot e) (Some (e_section e)) (Some (e_key e)) (Some cfg) of
           None \<Rightarrow> (out1, True)
         | Some value \<Rightarrow>
             dump_rows tr cfg section1 es (out1 @ e_key e @ '' = '' @ value @ [newline]))"

text \<open>The return code and the content of the file, when it was opened.\<close>

definition x52d_config_save_file ::
  "(string \<Rightarrow> string) \<Rightarrow> bool \<Rightarrow> x52d_config option \<Rightarrow> string option \<Rightarrow> int \<times> string option" where
  "x52d_config_save_file tr fopen_ok cfg cfg_file =
     (case (cfg, cfg_file) of
        (Some c, Some _) \<Rightarrow>
          if \<not> fopen_ok then (1, None)
          else (let (out, failed) = dump_rows tr c None config_map [] in (of_bool failed, Some out))
      | _ \<Rightarrow> (EINVAL, None))"

section \<open>Loading\<close>

definition kv_handler :: "x52d_config option ini_handler" where
  "kv_handler cfg section key value = x52d_config_process_kv cfg section key (Some value)"

text \<open>\<open>None\<close> would be a parse that does not return.\<close>

definition x52d_config_load_file ::
  "(string \<Rightarrow> string option) \<Rightarrow> x52d_config option \<Rightarrow> string option \<Rightarrow> parser_res option" where
  "x52d_config_load_file files cfg cfg_file =
     (case (cfg, cfg_file) of
        (Some c, Some f) \<Rightarrow>
          (case ini_parse (files f) kv_handler cfg of
             None \<Rightarrow> None
           | Some (rc, cfg') \<Rightarrow> Some (if rc < 0 then EIO else 0, cfg'))
      | _ \<Rightarrow> Some (EINVAL, cfg))"

section \<open>The text of a configuration\<close>

definition row_text :: "(string \<Rightarrow> string) \<Rightarrow> x52d_config \<Rightarrow> config_entry \<Rightarrow> string" where
  "row_text tr c e = value_text tr (slot_read (e_slot e) c)"

fun rows_text :: "(string \<Rightarrow> string) \<Rightarrow> x52d_config \<Rightarrow> string option \<Rightarrow> config_entry list \<Rightarrow> string" where
  "rows_text tr c cur [] = []"
| "rows_text tr c cur (e # es) =
     (let new = (case cur of None \<Rightarrow> True | Some s \<Rightarrow> \<not> strcaseeq s (e_section e)) in
      (if new then ''['' @ e_section e @ '']'' @ [newline] else []) @
      e_key e @ '' = '' @ row_text tr c e @ [newline] @
      rows_text tr c (if new then Some (e_section e) else cur) es)"

lemma dump_rows_text: "dump_rows tr c cur es out = (out @ rows_text tr c cur es, False)"
  by (induction es arbitrary: cur out)
    (simp_all add: entry_dumper_text row_text_def Let_def split: option.split)

text \<open>The texts of numbers and enumerations are plain, and so are the names of the table.\<close>

definition file_value :: "string \<Rightarrow> bool" where
  "file_value v \<longleftrightarrow> plain_value v \<and> length v \<le> 186"

lemma find_comment_none: "CHR '';'' \<notin> set v \<Longrightarrow> find_chars_or_comment None w v = (v, [])"
  by (induction v arbitrary: w) auto

lemma plain_value_word:
  assumes "list_all (\<lambda>c. \<not> isspace c \<and> c \<noteq> CHR '';'') v"
  shows "plain_value v"
proof -
  have all: "\<not> isspace x \<and> x \<noteq> CHR '';''" if "x \<in> set v" for x
    using assms that by (simp add: list_all_iff)
  have "CHR '';'' \<notin> set v" "newline \<notin> set v"
    using all [of "CHR '';''"] all [of newline] by (simp_all only: isspace_chars) blast+
  moreover have "v = [] \<or> \<not> isspace (hd v) \<and> \<not> isspace (last v)"
    using all [OF hd_in_set] all [OF last_in_set] by blast
  ultimately show ?thesis by (simp add: plain_value_def find_comment_none)
qed

lemma digit_not_special: "digit_val c < 10 \<Longrightarrow> \<not> isspace c \<and> c \<noteq> CHR '';''"
  by (auto simp: digit_val_def isspace_def Let_def split: if_splits)

lemma file_value_fmt_d: "int_ok i \<Longrightarrow> file_value (fmt_d i)"
proof -
  assume i: "int_ok i"
  have "list_all (\<lambda>c. \<not> isspace c \<and> c \<noteq> CHR '';'') (nat_digits n)" for n
    using nat_digits_digits [of n] digit_not_special by (auto simp: list_all_iff)
  then have "list_all (\<lambda>c. \<not> isspace c \<and> c \<noteq> CHR '';'') (fmt_d i)"
    by (simp add: fmt_d_def isspace_def)
  with length_fmt_d [OF i] show ?thesis by (simp add: file_value_def plain_value_word)
qed

definition strings_plain :: "x52d_config \<Rightarrow> bool" where
  "strings_plain c \<longleftrightarrow>
     file_value (clock_2_tz c) \<and> file_value (clock_3_tz c) \<and> file_value (profiles_dir c)"

lemma config_map_strings:
  assumes "e \<in> set config_map" and "e_slot e = StringSlot g p" and "strings_plain c"
  shows "file_value (g c)" and "length (e_key e) \<le> 9"
  using assms by (auto simp: config_map_def strings_plain_def)

lemma config_map_plain_names:
  assumes "e \<in> set config_map"
  shows "plain_name (e_section e)" "plain_name (e_key e)"
    "length (e_key e) \<le> 15" "length (e_section e) \<le> 10"
proof -
  have "list_all (\<lambda>e. plain_name (e_section e) \<and> plain_name (e_key e)) config_map"
    by (simp add: config_map_def plain_name_def isalnum_def MAX_NAME_def)
  moreover have "list_all (\<lambda>e. length (e_key e) \<le> 15 \<and> length (e_section e) \<le> 10) config_map"
    by (simp add: config_map_def)
  ultimately show "plain_name (e_section e)" "plain_name (e_key e)"
    "length (e_key e) \<le> 15" "length (e_section e) \<le> 10"
    using assms by (simp_all add: list_all_iff)
qed

lemma plain_enum_texts:
  "plain_value (bool_text b)" "x \<le> 15 \<Longrightarrow> x + length (bool_text b) \<le> 195"
  "plain_value (libx52_led_state_to_str (\<lambda>x. x) (led_state_code l))"
  "x \<le> 15 \<Longrightarrow> x + length (libx52_led_state_to_str (\<lambda>x. x) (led_state_code l)) \<le> 195"
  "plain_value (libx52_clock_format_to_str (\<lambda>x. x) (clock_format_code f))"
  "x \<le> 15 \<Longrightarrow> x + length (libx52_clock_format_to_str (\<lambda>x. x) (clock_format_code f)) \<le> 195"
  "plain_value (libx52_date_format_to_str (\<lambda>x. x) (date_format_code d))"
  "x \<le> 15 \<Longrightarrow> x + length (libx52_date_format_to_str (\<lambda>x. x) (date_format_code d)) \<le> 195"
  by (cases b; cases l; cases f; cases d; simp add: bool_text_def libx52_led_state_to_str_def
      libx52_clock_format_to_str_def libx52_date_format_to_str_def stringify_def plain_value_def
      isspace_def)+

text \<open>Every row is printed as a line the parser reads whole.\<close>

lemma row_text_fits:
  assumes "e \<in> set config_map" and "config_wf c" and "strings_plain c"
  shows "plain_value (row_text (\<lambda>x. x) c e)"
    and "length (e_key e) + length (row_text (\<lambda>x. x) c e) \<le> 195"
proof -
  have "plain_value (row_text (\<lambda>x. x) c e) \<and>
      length (e_key e) + length (row_text (\<lambda>x. x) c e) \<le> 195"
  proof (cases "e_slot e")
    case (StringSlot g p)
    then show ?thesis using config_map_strings [OF assms(1) StringSlot assms(3)]
      by (simp add: row_text_def file_value_def)
  next
    case (IntSlot g p)
    with slot_read_ok [OF assms(1,2)] have "int_ok (g c)" by simp
    with IntSlot file_value_fmt_d [of "g c"] length_fmt_d [of "g c"] config_map_plain_names(3) [OF assms(1)]
    show ?thesis by (simp add: row_text_def int_text file_value_def)
  qed (use config_map_plain_names(3) [OF assms(1)] in
      \<open>simp_all add: row_text_def plain_enum_texts\<close>)
  then show "plain_value (row_text (\<lambda>x. x) c e)"
    "length (e_key e) + length (row_text (\<lambda>x. x) c e) \<le> 195" by blast+
qed

section \<open>Reading a saved file\<close>

text \<open>What each printed row does when it is read.\<close>

definition read_row :: "x52d_config \<Rightarrow> config_entry \<Rightarrow> x52d_config \<Rightarrow> x52d_config" where
  "read_row c e d = (if is_clock_format (e_slot e) then d
     else slot_write (e_slot e) (slot_read (e_slot e) c) d)"

lemma kv_handler_row:
  assumes "e \<in> set config_map" and "config_wf c" and "strcaseeq sec (e_section e)"
  shows "\<exists>r. kv_handler (Some d) sec (e_key e) (row_text (\<lambda>x. x) c e) = (r, Some (read_row c e d))"
proof -
  have "entry_matches sec (e_key e) = entry_matches (e_section e) (e_key e)"
    using assms(3) by (intro ext) (simp add: entry_matches_name strcaseeq_def)
  then have "config_lookup sec (e_key e) = Some e"
    using config_lookup_self [OF assms(1)] by (simp add: config_lookup_def)
  then show ?thesis using entry_parser_text [OF slot_read_ok [OF assms(1,2)]]
    by (simp add: kv_handler_def process_kv_row row_text_def read_row_def)
qed

lemma ini_lines_row:
  assumes e: "e \<in> set config_map" and c: "config_wf c" "strings_plain c"
    and "strcaseeq (ini_section st) (e_section e)" and "user st = Some d"
    and "0 \<le> error st" and "0 \<le> lineno st"
  shows "\<exists>st'. ini_lines fgets kv_handler (e_key e @ '' = '' @ row_text (\<lambda>x. x) c e @ [newline] @ rest) st
      = ini_lines fgets kv_handler rest st' \<and> ini_section st' = ini_section st \<and>
      user st' = Some (read_row c e d) \<and> 0 \<le> error st' \<and> 0 \<le> lineno st'"
proof -
  note row = row_text_fits [OF e c] and name = config_map_plain_names(2) [OF e]
  let ?l = "e_key e @ '' = '' @ row_text (\<lambda>x. x) c e"
  have "newline \<notin> set ?l"
    using row(1) name isalnum_facts(8) by (auto simp: plain_value_def plain_name_def list_all_iff)
  moreover have "length ?l < INI_MAX_LINE - 1" using row(2) by (simp add: INI_MAX_LINE_def)
  ultimately have line: "ini_lines fgets kv_handler (?l @ newline # rest) st =
      ini_lines fgets kv_handler rest (ini_line kv_handler (?l @ [newline]) st)"
    by (rule ini_lines_line)
  have row_line: "ini_line kv_handler (?l @ [newline]) st = call_handler kv_handler (e_key e)
      (row_text (\<lambda>x. x) c e) (st \<lparr> lineno := lineno st + 1, prev_name := e_key e \<rparr>)"
    using ini_line_pair [OF name row(1), of kv_handler st] by simp
  from kv_handler_row [OF e c(1) assms(4), of d] obtain r
    where "kv_handler (Some d) (ini_section st) (e_key e) (row_text (\<lambda>x. x) c e)
      = (r, Some (read_row c e d))" ..
  moreover define st' where "st' = call_handler kv_handler (e_key e) (row_text (\<lambda>x. x) c e)
      (st \<lparr> lineno := lineno st + 1, prev_name := e_key e \<rparr>)"
  ultimately have "ini_section st' = ini_section st" "user st' = Some (read_row c e d)"
    "0 \<le> error st'" "0 \<le> lineno st'"
    using assms(5-7) by (simp_all add: call_handler_def note_error_def Let_def)
  moreover have "ini_lines fgets kv_handler (e_key e @ '' = '' @ row_text (\<lambda>x. x) c e @ [newline] @ rest) st
      = ini_lines fgets kv_handler rest st'"
    using line row_line by (simp add: st'_def)
  ultimately show ?thesis by blast
qed

lemma ini_lines_rows:
  assumes "set es \<subseteq> set config_map" and c: "config_wf c" "strings_plain c"
    and "case cur of None \<Rightarrow> True | Some s \<Rightarrow> ini_section st = s"
    and "user st = Some d" and "0 \<le> error st" and "0 \<le> lineno st"
  shows "\<exists>st'. ini_lines fgets kv_handler (rows_text (\<lambda>x. x) c cur es) st = Some st' \<and>
      0 \<le> error st' \<and> user st' = Some (fold (read_row c) es d)"
  using assms
proof (induction es arbitrary: cur st d)
  case Nil
  then show ?case by (simp add: ini_lines_end)
next
  case (Cons e es)
  from Cons.prems(1) have e: "e \<in> set config_map" "set es \<subseteq> set config_map" by simp_all
  define new where "new = (case cur of None \<Rightarrow> True | Some s \<Rightarrow> \<not> strcaseeq s (e_section e))"
  define cur' where "cur' = (if new then Some (e_section e) else cur)"
  define st1 where "st1 = (if new then st \<lparr> lineno := lineno st + 1, ini_section := e_section e,
      prev_name := [] \<rparr> else st)"
  let ?row = "e_key e @ '' = '' @ row_text (\<lambda>x. x) c e @ [newline] @ rows_text (\<lambda>x. x) c cur' es"
  have "ini_lines fgets kv_handler (rows_text (\<lambda>x. x) c cur (e # es)) st =
      ini_lines fgets kv_handler ?row st1"
  proof (cases new)
    case True
    note sec = config_map_plain_names(1,4) [OF e(1)]
    have "newline \<notin> set (''['' @ e_section e @ '']'')"
      using sec(1) isalnum_facts(8) by (auto simp: plain_name_def list_all_iff)
    moreover have "length (''['' @ e_section e @ '']'') < INI_MAX_LINE - 1"
      using sec(2) by (simp add: INI_MAX_LINE_def)
    ultimately have "ini_lines fgets kv_handler ((''['' @ e_section e @ '']'') @ newline # ?row) st =
        ini_lines fgets kv_handler ?row (ini_line kv_handler ((''['' @ e_section e @ '']'') @ [newline]) st)"
      by (rule ini_lines_line)
    then show ?thesis using True ini_line_header [OF sec(1), of kv_handler st]
      by (simp add: new_def [symmetric] cur'_def st1_def Let_def)
  next
    case False
    then show ?thesis by (simp add: new_def [symmetric] cur'_def st1_def Let_def)
  qed
  moreover have st1: "strcaseeq (ini_section st1) (e_section e)" "user st1 = Some d"
    "0 \<le> error st1" "0 \<le> lineno st1" "case cur' of None \<Rightarrow> True | Some s \<Rightarrow> ini_section st1 = s"
    using Cons.prems(4-7) by (auto simp: st1_def new_def cur'_def split: option.splits)
  from ini_lines_row [OF e(1) c st1(1-4)] obtain st2 where
    "ini_lines fgets kv_handler ?row st1 = ini_lines fgets kv_handler (rows_text (\<lambda>x. x) c cur' es) st2"
    "ini_section st2 = ini_section st1" "user st2 = Some (read_row c e d)" "0 \<le> error st2"
    "0 \<le> lineno st2" by blast
  moreover have "\<exists>st'. ini_lines fgets kv_handler (rows_text (\<lambda>x. x) c cur' es) st2 = Some st' \<and>
      0 \<le> error st' \<and> user st' = Some (fold (read_row c) es (read_row c e d))"
    using calculation(3) calculation(4-6) st1(5) by (intro Cons.IH [OF e(2) c]) (simp_all split: option.splits)
  ultimately show ?case by (simp only: fold_simps)
qed

text \<open>The rows that are read store the values they were printed from.\<close>

definition read_back :: "x52d_config \<Rightarrow> (config_entry \<times> config_value) list" where
  "read_back c = map (\<lambda>e. (e, slot_read (e_slot e) c))
     (filter (\<lambda>e. \<not> is_clock_format (e_slot e)) config_map)"

lemma fold_read_row:
  "fold (read_row c) es d = store_all (map (\<lambda>e. (e, slot_read (e_slot e) c))
     (filter (\<lambda>e. \<not> is_clock_format (e_slot e)) es)) d"
  by (induction es arbitrary: d) (simp_all add: read_row_def)

lemma read_back_legal:
  "config_wf c \<Longrightarrow> \<forall>(e, v) \<in> set (read_back c). e \<in> set config_map \<and> slot_ok (e_slot e) v"
  by (auto simp: read_back_def slot_read_ok)

lemma read_back_distinct: "distinct (map fst (read_back c))"
  by (simp add: read_back_def config_map_distinct o_def)

lemma read_back_values:
  assumes "config_wf c" and "config_wf d" and e: "e \<in> set config_map"
  shows "slot_read (e_slot e) (store_all (read_back c) d) =
    (if is_clock_format (e_slot e) then slot_read (e_slot e) d else slot_read (e_slot e) c)"
proof (cases "is_clock_format (e_slot e)")
  case True
  then have "slot_read (e_slot e) (store_all (read_back c) d) = slot_read (e_slot e) d"
    by (intro store_all_other [OF e]) (auto simp: read_back_def)
  with True show ?thesis by simp
next
  case False
  with e have "(e, slot_read (e_slot e) c) \<in> set (read_back c)" by (auto simp: read_back_def)
  with store_all_read [OF assms(2) read_back_legal [OF assms(1)] read_back_distinct] False
  show ?thesis by simp
qed

text \<open>
  C16:
  Round trip through a configuration file, with untranslated messages. A well-formed
  configuration whose three strings survive the file format is saved successfully, and
  loading the saved file into any well-formed configuration succeeds and copies every key
  except the three clock formats, which keep their values: the file spells them in a way the
  parser rejects.
\<close>

theorem config_file_roundtrip:
  assumes "config_wf c" and "strings_plain c" and "config_wf d"
  shows "\<exists>saved d'. x52d_config_save_file (\<lambda>x. x) True (Some c) (Some f) = (0, Some saved) \<and>
    x52d_config_load_file (files (f \<mapsto> saved)) (Some d) (Some f) = Some (0, Some d') \<and>
    config_wf d' \<and>
    (\<forall>e \<in> set config_map. slot_read (e_slot e) d' =
      (if is_clock_format (e_slot e) then slot_read (e_slot e) d else slot_read (e_slot e) c))"
proof -
  define saved where "saved = rows_text (\<lambda>x. x) c None config_map"
  define st where "st = \<lparr> ini_section = [], prev_name = [], lineno = 0, error = 0, user = Some d \<rparr>"
  have "x52d_config_save_file (\<lambda>x. x) True (Some c) (Some f) = (0, Some saved)"
    by (simp add: x52d_config_save_file_def dump_rows_text saved_def)
  moreover have "\<exists>st'. ini_lines fgets kv_handler (rows_text (\<lambda>x. x) c None config_map) st = Some st' \<and>
      0 \<le> error st' \<and> user st' = Some (fold (read_row c) config_map d)"
    by (rule ini_lines_rows) (use assms in \<open>simp_all add: st_def\<close>)
  then obtain st'
    where st': "ini_lines fgets kv_handler saved st = Some st'" "0 \<le> error st'"
      "user st' = Some (store_all (read_back c) d)"
    by (auto simp: saved_def fold_read_row read_back_def)
  then have "x52d_config_load_file (files (f \<mapsto> saved)) (Some d) (Some f)
      = Some (0, Some (store_all (read_back c) d))"
    by (simp add: x52d_config_load_file_def ini_parse_def ini_parse_file_def
        ini_parse_stream_def st_def)
  moreover have "config_wf (store_all (read_back c) d)"
    by (rule store_all_wf [OF assms(3) read_back_legal [OF assms(1)]])
  ultimately show ?thesis using read_back_values [OF assms(1,3)] by blast
qed

lemma config_example_plain: "strings_plain config_example"
  by (simp add: strings_plain_def config_example_def config_zero_def file_value_def
      plain_value_word plain_value_def isspace_def)

lemma config_file_roundtrip_witness:
  "\<exists>saved d'. x52d_config_save_file (\<lambda>x. x) True (Some config_example) (Some ''x52d.conf'')
      = (0, Some saved) \<and>
    x52d_config_load_file ([''x52d.conf'' \<mapsto> saved]) (Some config_zero) (Some ''x52d.conf'')
      = Some (0, Some d') \<and>
    clock_2_tz d' = ''America/New_York'' \<and> brightness d' ! 1 = -5 \<and>
    clock_format d' ! 1 = LIBX52_CLOCK_FORMAT_12HR"
proof -
  have z: "config_wf config_zero"
    by (simp add: config_wf_def config_zero_def int_ok_def string_ok_def NAME_MAX_def
        numeral_eq_Suc)
  from config_file_roundtrip [OF config_example_wf config_example_plain z,
      of "''x52d.conf''" "\<lambda>_. None"] obtain saved d' where
    s: "x52d_config_save_file (\<lambda>x. x) True (Some config_example) (Some ''x52d.conf'') = (0, Some saved)"
    "x52d_config_load_file ([''x52d.conf'' \<mapsto> saved]) (Some config_zero) (Some ''x52d.conf'')
      = Some (0, Some d')"
    and r: "\<forall>e \<in> set config_map. slot_read (e_slot e) d' =
      (if is_clock_format (e_slot e) then slot_read (e_slot e) config_zero
       else slot_read (e_slot e) config_example)" by blast
  have "clock_2_tz d' = ''America/New_York'' \<and> brightness d' ! 1 = -5 \<and>
      clock_format d' ! 1 = LIBX52_CLOCK_FORMAT_12HR"
    using r by (simp add: config_map_def config_example_def config_zero_def)
  with s show ?thesis by blast
qed

section \<open>Loading anything\<close>

lemma kv_handler_wf:
  assumes "case cfg of None \<Rightarrow> False | Some c \<Rightarrow> config_wf c"
  shows "case snd (kv_handler cfg sec key val) of None \<Rightarrow> False | Some c \<Rightarrow> config_wf c"
proof -
  from assms obtain c where c: "cfg = Some c" "config_wf c" by (auto split: option.splits)
  then show ?thesis
    by (cases rule: process_kv_cases [of sec key c val])
      (auto simp: kv_handler_def intro: slot_write_laws)
qed

lemma load_file_cases:
  assumes "config_wf c"
  shows "\<exists>rc d. x52d_config_load_file files (Some c) (Some f) = Some (rc, Some d) \<and> config_wf d \<and>
    (if files f = None then rc = EIO \<and> d = c else rc = 0)"
proof (cases "files f")
  case None
  with assms show ?thesis by (simp add: x52d_config_load_file_def ini_parse_def)
next
  case (Some content)
  let ?P = "\<lambda>u. case u of None \<Rightarrow> False | Some c \<Rightarrow> config_wf c"
  let ?st = "\<lparr> ini_section = [], prev_name = [], lineno = 0, error = 0, user = Some c \<rparr>"
  from file_source.ini_lines_returns [of ?st kv_handler content] obtain st'
    where st': "ini_lines fgets kv_handler content ?st = Some st'" "0 \<le> error st'" by auto
  have "?P (user st')"
    by (rule file_source.ini_lines_user [where P = ?P, OF kv_handler_wf _ st'(1)])
      (use assms in simp_all)
  then obtain d where "user st' = Some d" "config_wf d" by (auto split: option.splits)
  with st' Some show ?thesis
    by (simp add: x52d_config_load_file_def ini_parse_def ini_parse_file_def ini_parse_stream_def)
qed

text \<open>
  Loading a file whatever its content returns, and leaves a well-formed configuration well
  formed. It reports \<open>EIO\<close>, and changes nothing, exactly when the file cannot be opened;
  lines in error are skipped without a report.
\<close>

lemma x52d_config_load_file_safe:
  assumes "config_wf c"
  shows "\<exists>rc d. x52d_config_load_file files (Some c) (Some f) = Some (rc, Some d) \<and> config_wf d \<and>
    (if files f = None then rc = EIO \<and> d = c else rc = 0)"
  using assms by (rule load_file_cases)

lemma x52d_config_load_file_safe_witness:
  "\<exists>rc d. x52d_config_load_file [''f'' \<mapsto> ''[Mouse]''] (Some config_example) (Some ''f'') = Some (rc, Some d) \<and>
    config_wf d \<and> (if [''f'' \<mapsto> ''[Mouse]''] ''f'' = None then rc = EIO \<and> d = config_example else rc = 0)"
  by (rule x52d_config_load_file_safe [OF config_example_wf])

end
