(* ===== verification/Config_Daemon.thy ===== *)
theory Config_Daemon
  imports Config_File
begin

text \<open>
  The daemon's own configuration (\<open>daemon/x52d_config.c\<close>): the static structure, loading it at
  start-up and on a reload, saving it, the set and get of the command interface, and applying
  it through one callback per key.

  The callbacks belong to the other modules; they are a parameter, one function per row of the
  table, that acts on whatever state those modules keep.
\<close>

section \<open>State and results\<close>

record config_state =
  config :: x52d_config
  overrides :: "x52d_config_override list"

text \<open>\<open>SYSCONFDIR\<close> is set when the program is built.\<close>

definition X52D_SYS_CFG_FILE :: "string \<Rightarrow> string" where
  "X52D_SYS_CFG_FILE sysconfdir = sysconfdir @ ''/x52d/x52d.conf''"

section \<open>Loading and saving\<close>

text \<open>The outer option is the \<open>None\<close> of a file that is never read to its end.\<close>

definition x52d_config_load ::
  "string \<Rightarrow> (string \<Rightarrow> string option) \<Rightarrow> string option \<Rightarrow> config_state \<Rightarrow> config_state proc option"
where
  "x52d_config_load sysconfdir files cfg_file st =
     (let file = (case cfg_file of None \<Rightarrow> X52D_SYS_CFG_FILE sysconfdir | Some f \<Rightarrow> f)
      in case x52d_config_set_defaults (Some (config st)) of
        (rc, None) \<Rightarrow> Some (Exit 1)
      | (rc, Some c1) \<Rightarrow>
          if rc \<noteq> 0 then Some (Exit 1)
          else case x52d_config_load_file files (Some c1) (Some file) of
            None \<Rightarrow> None
          | Some (rc, None) \<Rightarrow> Some (Exit 1)
          | Some (rc, Some c2) \<Rightarrow>
              if rc \<noteq> 0 then Some (Exit 1)
              else case x52d_config_apply_overrides (overrides st) (Some c2) of
                (rc, None) \<Rightarrow> Some (Exit 1)
              | (rc, Some c3) \<Rightarrow>
                  (let st' = \<lparr> config = c3, overrides = x52d_config_clear_overrides (overrides st) \<rparr>
                   in if rc \<noteq> 0 then Some (Exit 1) else Some (Go st')))"

text \<open>The file that is written, with its new content when it was opened.\<close>

definition x52d_config_save ::
  "string \<Rightarrow> (string \<Rightarrow> string) \<Rightarrow> (string \<Rightarrow> bool) \<Rightarrow> string option \<Rightarrow> config_state \<Rightarrow>
   string \<times> string option"
where
  "x52d_config_save sysconfdir tr writable cfg_file st =
     (let file = (case cfg_file of None \<Rightarrow> X52D_SYS_CFG_FILE sysconfdir | Some f \<Rightarrow> f)
      in (file, snd (x52d_config_save_file tr (writable file) (Some (config st)) (Some file))))"

section \<open>Set and get\<close>

definition x52d_config_set ::
  "string option \<Rightarrow> string option \<Rightarrow> string option \<Rightarrow> config_state \<Rightarrow> int \<times> config_state" where
  "x52d_config_set section key value st =
     (case (section, key, value) of
        (Some s, Some k, Some v) \<Rightarrow>
          (case x52d_config_process_kv (Some (config st)) s k (Some v) of
             (rc, Some c) \<Rightarrow> (rc, st \<lparr> config := c \<rparr>)
           | (rc, None) \<Rightarrow> (rc, st))
      | _ \<Rightarrow> (EINVAL, st))"

definition x52d_config_get ::
  "(string \<Rightarrow> string) \<Rightarrow> string option \<Rightarrow> string option \<Rightarrow> config_state \<Rightarrow> string option" where
  "x52d_config_get tr section key st =
     (case (section, key) of
        (Some s, Some k) \<Rightarrow> x52d_config_get_param tr (Some (config st)) s k
      | _ \<Rightarrow> None)"

section \<open>Applying\<close>

type_synonym 'w cfg_callback = "config_entry \<Rightarrow> config_value \<Rightarrow> 'w \<Rightarrow> 'w"

definition x52d_config_apply_immediate ::
  "'w cfg_callback \<Rightarrow> string \<Rightarrow> string \<Rightarrow> config_state \<Rightarrow> 'w \<Rightarrow> 'w" where
  "x52d_config_apply_immediate cb section key st w =
     (case config_lookup section key of
        Some e \<Rightarrow> cb e (slot_read (e_slot e) (config st)) w
      | None \<Rightarrow> w)"

definition x52d_config_apply :: "'w cfg_callback \<Rightarrow> config_state \<Rightarrow> 'w \<Rightarrow> 'w" where
  "x52d_config_apply cb st w =
     fold (\<lambda>e. cb e (slot_read (e_slot e) (config st))) config_map w"

section \<open>Properties\<close>

definition state_wf :: "config_state \<Rightarrow> bool" where
  "state_wf st \<longleftrightarrow> config_wf (config st)"

lemma clear_overrides_Nil [simp]: "x52d_config_clear_overrides os = []"
  by (induction os) simp_all

text \<open>The value a text stands for in a row, if the parser of the row accepts it.\<close>

definition parsed_value :: "config_entry \<Rightarrow> string \<Rightarrow> config_value option" where
  "parsed_value e t =
     (case entry_parser (e_slot e) (Some config_zero) (Some t) of
        (rc, Some c) \<Rightarrow> if rc = 0 then Some (slot_read (e_slot e) c) else None
      | (rc, None) \<Rightarrow> None)"

text \<open>A parser stores the same value, or fails with the same error, in every configuration.\<close>

lemma entry_parser_uniform:
  "\<exists>r. (\<forall>c. entry_parser s (Some c) (Some t) =
        (case r of Inl e \<Rightarrow> (e, Some c) | Inr v \<Rightarrow> (0, Some (slot_write s v c))))
     \<and> (case r of Inl e \<Rightarrow> e \<noteq> 0 | Inr v \<Rightarrow> slot_ok s v)"
proof (cases s)
  case (BoolSlot g p)
  then show ?thesis
    by (intro exI [of _ "if strcaseeq t ''yes'' \<or> strcaseeq t ''true'' then Inr (BoolV True)
          else if strcaseeq t ''no'' \<or> strcaseeq t ''false'' then Inr (BoolV False) else Inl EINVAL"])
      (simp add: bool_parser_def check_params_some)
next
  case (StringSlot g p)
  have "string_ok (take (NAME_MAX - 1) t)" by (simp add: string_ok_def NAME_MAX_def)
  then show ?thesis
    by (intro exI [of _ "Inr (StringV (take (NAME_MAX - 1) t))"])
      (simp add: StringSlot string_parser_def check_params_some)
next
  case (IntSlot g p)
  obtain x re rest where "strtol 0 t = (x, re, rest)" by (metis prod_cases3)
  with IntSlot show ?thesis
    by (intro exI [of _ "if re then Inl ERANGE else if rest \<noteq> [] then Inl EINVAL else Inr (IntV (c_int x))"])
      (simp add: int_parser_def check_params_some c_int_ok)
next
  case (LedSlot g p)
  then show ?thesis
    by (intro exI [of _ "if strcaseeq t ''OFF'' then Inr (LedV LIBX52_LED_STATE_OFF)
          else if strcaseeq t ''ON'' then Inr (LedV LIBX52_LED_STATE_ON)
          else if strcaseeq t ''RED'' then Inr (LedV LIBX52_LED_STATE_RED)
          else if strcaseeq t ''AMBER'' then Inr (LedV LIBX52_LED_STATE_AMBER)
          else if strcaseeq t ''GREEN'' then Inr (LedV LIBX52_LED_STATE_GREEN) else Inl EINVAL"])
      (simp add: led_parser_def check_params_some)
next
  case (ClockFormatSlot g p)
  then show ?thesis
    by (intro exI [of _ "if strcaseeq t ''12hr'' \<or> strcaseeq t ''12'' then Inr (ClockFormatV LIBX52_CLOCK_FORMAT_12HR)
          else if strcaseeq t ''24hr'' \<or> strcaseeq t ''24'' then Inr (ClockFormatV LIBX52_CLOCK_FORMAT_24HR)
          else Inl EINVAL"])
      (simp add: clock_format_parser_def check_params_some)
next
  case (DateFormatSlot g p)
  then show ?thesis
    by (intro exI [of _ "if strcaseeq t ''ddmmyy'' \<or> strcaseeq t ''dd-mm-yy'' then Inr (DateFormatV LIBX52_DATE_FORMAT_DDMMYY)
          else if strcaseeq t ''mmddyy'' \<or> strcaseeq t ''mm-dd-yy'' then Inr (DateFormatV LIBX52_DATE_FORMAT_MMDDYY)
          else if strcaseeq t ''yymmdd'' \<or> strcaseeq t ''yy-mm-dd'' then Inr (DateFormatV LIBX52_DATE_FORMAT_YYMMDD)
          else Inl EINVAL"])
      (simp add: date_format_parser_def check_params_some)
qed

lemma entry_parser_parsed:
  assumes "e \<in> set config_map"
  shows "case parsed_value e t of
      None \<Rightarrow> \<exists>r. r \<noteq> 0 \<and> entry_parser (e_slot e) (Some c) (Some t) = (r, Some c)
    | Some v \<Rightarrow> slot_ok (e_slot e) v \<and>
        entry_parser (e_slot e) (Some c) (Some t) = (0, Some (slot_write (e_slot e) v c))"
proof -
  obtain r where r: "\<forall>c. entry_parser (e_slot e) (Some c) (Some t) =
        (case r of Inl e \<Rightarrow> (e, Some c) | Inr v \<Rightarrow> (0, Some (slot_write (e_slot e) v c)))"
    "case r of Inl e \<Rightarrow> e \<noteq> 0 | Inr v \<Rightarrow> slot_ok (e_slot e) v"
    using entry_parser_uniform [of "e_slot e" t] by blast
  show ?thesis
  proof (cases r)
    case (Inr v)
    with r have "parsed_value e t = Some v" "slot_ok (e_slot e) v"
      using slot_write_laws(2) [OF assms config_zero_wf] by (simp_all add: parsed_value_def)
    with Inr r show ?thesis by simp
  qed (use r in \<open>simp add: parsed_value_def\<close>)
qed

text \<open>
  The overrides that set: those of a row take the value their text stands for there, those of a
  name without a row set nothing. A row holds what its last override set.
\<close>

definition override_legal :: "x52d_config_override \<Rightarrow> bool" where
  "override_legal ov = (case config_lookup (ov_section ov) (ov_key ov) of
     None \<Rightarrow> True
   | Some e \<Rightarrow> parsed_value e (ov_value ov) \<noteq> None)"

fun row_override :: "config_entry \<Rightarrow> x52d_config_override list \<Rightarrow> config_value option" where
  "row_override e [] = None"
| "row_override e (ov # ovs) =
     (case row_override e ovs of
        Some v \<Rightarrow> Some v
      | None \<Rightarrow> if config_lookup (ov_section ov) (ov_key ov) = Some e then parsed_value e (ov_value ov) else None)"

lemma apply_overrides_result:
  assumes "config_wf c"
  shows "\<exists>rc d. apply_overrides_loop ovs (Some c) = (rc, Some d) \<and> config_wf d
    \<and> (rc = 0 \<longleftrightarrow> list_all override_legal ovs)
    \<and> (rc = 0 \<longrightarrow> (\<forall>e \<in> set config_map. slot_read (e_slot e) d =
          (case row_override e ovs of Some v \<Rightarrow> v | None \<Rightarrow> slot_read (e_slot e) c)))"
  using assms
proof (induction ovs arbitrary: c)
  case (Cons ov ovs)
  show ?case
  proof (cases "config_lookup (ov_section ov) (ov_key ov)")
    case None
    then have "row_override e (ov # ovs) = row_override e ovs" for e by (simp split: option.split)
    with Cons.IH [OF Cons.prems] None show ?thesis
      by (simp add: process_kv_unknown override_legal_def [of ov] del: row_override.simps)
  next
    case (Some e)
    note e = config_lookup_mem [OF Some]
    show ?thesis
    proof (cases "parsed_value e (ov_value ov)")
      case None
      with entry_parser_parsed [OF e, where t = "ov_value ov" and c = c] obtain r
        where "r \<noteq> 0" "entry_parser (e_slot e) (Some c) (Some (ov_value ov)) = (r, Some c)" by auto
      with Cons.prems None Some show ?thesis by (simp add: process_kv_row override_legal_def)
    next
      fix v assume v: "parsed_value e (ov_value ov) = Some v"
      let ?c = "slot_write (e_slot e) v c"
      from entry_parser_parsed [OF e, where t = "ov_value ov" and c = c] v have ok: "slot_ok (e_slot e) v"
        and run: "entry_parser (e_slot e) (Some c) (Some (ov_value ov)) = (0, Some ?c)" by simp_all
      note wf = slot_write_laws [OF e Cons.prems ok]
      from Cons.IH [OF wf(1)] obtain rc d where IH: "apply_overrides_loop ovs (Some ?c) = (rc, Some d)"
        "config_wf d" "rc = 0 \<longleftrightarrow> list_all override_legal ovs"
        "rc = 0 \<Longrightarrow> \<forall>f \<in> set config_map. slot_read (e_slot f) d =
          (case row_override f ovs of Some v \<Rightarrow> v | None \<Rightarrow> slot_read (e_slot f) ?c)" by blast
      have "slot_read (e_slot f) ?c = (if f = e then v else slot_read (e_slot f) c)" if "f \<in> set config_map" for f
        using wf(2) slot_write_other [OF that e] by simp
      with IH(4) have "rc = 0 \<Longrightarrow> \<forall>f \<in> set config_map. slot_read (e_slot f) d =
          (case row_override f (ov # ovs) of Some v \<Rightarrow> v | None \<Rightarrow> slot_read (e_slot f) c)"
        by (simp add: Some v split: option.split)
      with IH(1-3) run Some v show ?thesis
        by (simp add: process_kv_row override_legal_def [of ov] del: row_override.simps)
    qed
  qed
qed simp

lemma load_file_safe_core:
  assumes "config_wf c"
  obtains (missing) "files f = None" "x52d_config_load_file files (Some c) (Some f) = Some (EIO, Some c)"
  | (read) d where "files f \<noteq> None" "x52d_config_load_file files (Some c) (Some f) = Some (0, Some d)"
      "config_wf d"
  using load_file_cases [OF assms, of files f] by (auto split: if_splits)

lemma set_defaults_wf:
  assumes "config_wf c"
  obtains d where "x52d_config_set_defaults (Some c) = (0, Some d)" "config_wf d"
  using set_defaults_stores store_all_wf [OF assms defaults_legal] by blast

lemma load_result:
  assumes "state_wf st"
    and f: "f = (case cfg_file of None \<Rightarrow> X52D_SYS_CFG_FILE sysconfdir | Some f \<Rightarrow> f)"
  shows "\<exists>d c c'. map (\<lambda>e. slot_read (e_slot e) d) config_map = default_values
    \<and> x52d_config_load_file files (Some d) (Some f) = Some (if files f = None then EIO else 0, Some c)
    \<and> x52d_config_load sysconfdir files cfg_file st =
        Some (if files f = None \<or> \<not> list_all override_legal (overrides st) then Exit 1
              else Go \<lparr> config = c', overrides = [] \<rparr>)
    \<and> config_wf c'
    \<and> (list_all override_legal (overrides st) \<longrightarrow> (\<forall>e \<in> set config_map. slot_read (e_slot e) c' =
          (case row_override e (overrides st) of Some v \<Rightarrow> v | None \<Rightarrow> slot_read (e_slot e) c)))"
proof -
  from assms(1) obtain d where d: "x52d_config_set_defaults (Some (config st)) = (0, Some d)" "config_wf d"
    "map (\<lambda>e. slot_read (e_slot e) d) config_map = default_values"
    unfolding state_wf_def using x52d_config_set_defaults_values [of "config st"] by blast
  from load_file_cases [OF d(2), of files f] obtain rc c
    where c: "x52d_config_load_file files (Some d) (Some f) = Some (rc, Some c)" "config_wf c"
      "rc = (if files f = None then EIO else 0)" by (auto split: if_splits)
  from apply_overrides_result [OF c(2), of "overrides st"] obtain rc' c' where
    c': "apply_overrides_loop (overrides st) (Some c) = (rc', Some c')" "config_wf c'"
      "rc' = 0 \<longleftrightarrow> list_all override_legal (overrides st)"
      "rc' = 0 \<longrightarrow> (\<forall>e \<in> set config_map. slot_read (e_slot e) c' =
          (case row_override e (overrides st) of Some v \<Rightarrow> v | None \<Rightarrow> slot_read (e_slot e) c))" by blast
  have "x52d_config_load sysconfdir files cfg_file st =
      Some (if files f = None \<or> \<not> list_all override_legal (overrides st) then Exit 1
            else Go \<lparr> config = c', overrides = [] \<rparr>)"
    using c(3) c'(3) by (simp add: x52d_config_load_def f [symmetric] d(1) c(1) x52d_config_apply_overrides_def c'(1))
  with d(3) c c' show ?thesis by blast
qed

text \<open>Loading ends with status 1, or in a well-formed configuration without overrides.\<close>

lemma load_outcome:
  assumes "state_wf st"
  shows "x52d_config_load sysconfdir files cfg_file st = Some (Exit 1) \<or>
    (\<exists>st'. x52d_config_load sysconfdir files cfg_file st = Some (Go st') \<and> state_wf st' \<and> overrides st' = [])"
proof -
  from load_result [OF assms refl, where cfg_file = cfg_file and sysconfdir = sysconfdir and files = files] obtain b c' where
    "x52d_config_load sysconfdir files cfg_file st =
       Some (if b then Exit 1 else Go \<lparr> config = c', overrides = [] \<rparr>)" "config_wf c'" by blast
  then show ?thesis by (cases b) (simp_all add: state_wf_def)
qed

text \<open>
  C17:
  Starting up or reloading from a well-formed configuration always comes to an end, and its
  outcome is exactly this. It leaves the process with status 1 when the file cannot be opened or
  the text of an override is not one its row accepts, and in no other case. Otherwise it goes on
  with a well-formed configuration and the overrides used up: a row that an override names has
  the value of the last one; every other row has what reading the file into the default values
  of all rows gave it, whatever the configuration held before.
\<close>

theorem x52d_config_load_outcome:
  assumes "state_wf st"
    and "f = (case cfg_file of None \<Rightarrow> X52D_SYS_CFG_FILE sysconfdir | Some f \<Rightarrow> f)"
  shows "\<exists>d c c'. map (\<lambda>e. slot_read (e_slot e) d) config_map = default_values
    \<and> x52d_config_load_file files (Some d) (Some f) = Some (if files f = None then EIO else 0, Some c)
    \<and> x52d_config_load sysconfdir files cfg_file st =
        Some (if files f = None \<or> \<not> list_all override_legal (overrides st) then Exit 1
              else Go \<lparr> config = c', overrides = [] \<rparr>)
    \<and> config_wf c'
    \<and> (list_all override_legal (overrides st) \<longrightarrow> (\<forall>e \<in> set config_map. slot_read (e_slot e) c' =
          (case row_override e (overrides st) of Some v \<Rightarrow> v | None \<Rightarrow> slot_read (e_slot e) c)))"
  using assms by (rule load_result)

text \<open>An override of a brightness on top of a file, and a file that is missing.\<close>

definition demo_override :: "string \<Rightarrow> x52d_config_override" where
  "demo_override v = \<lparr> ov_section = ''brightness'', ov_key = ''led'', ov_value = v \<rparr>"

lemma brightness_lookup: "config_lookup ''brightness'' ''led'' = Some (config_map ! 20)"
  by (rule config_lookup_nth)
    (simp_all add: config_map_def entry_matches_def strcaseeq_def tolower_def char_of_def bit_0)

lemma brightness_values:
  "parsed_value (config_map ! 20) ''7'' = Some (IntV 7)" "parsed_value (config_map ! 20) ''x'' = None"
proof -
  have "strtol 0 ''7'' = (7, False, [])" "strtol 0 ''x'' = (0, False, ''x'')" by code_simp+
  moreover have "length (brightness config_zero) = 2" by (simp add: config_zero_def)
  ultimately show "parsed_value (config_map ! 20) ''7'' = Some (IntV 7)"
    "parsed_value (config_map ! 20) ''x'' = None"
    by (simp_all add: parsed_value_def config_map_def int_parser_def check_params_some c_int_id int_ok_def)
qed

lemma x52d_config_load_outcome_witness:
  "(\<exists>st'. x52d_config_load ''/etc'' [''f'' \<mapsto> ''[Mouse]''] (Some ''f'')
       \<lparr> config = config_example, overrides = [demo_override ''x'', demo_override ''7''] \<rparr> = Some (Exit 1)
    \<and> x52d_config_load ''/etc'' [''f'' \<mapsto> ''[Mouse]''] None
       \<lparr> config = config_example, overrides = [] \<rparr> = Some (Exit 1)
    \<and> x52d_config_load ''/etc'' [''f'' \<mapsto> ''[Mouse]''] (Some ''f'')
       \<lparr> config = config_example, overrides = [demo_override ''7''] \<rparr> = Some (Go st')
    \<and> slot_read (slot_of 20) (config st') = IntV 7)"
proof -
  have wf: "state_wf \<lparr> config = config_example, overrides = ovs \<rparr>" for ovs
    by (simp add: state_wf_def config_example_wf)
  note load = x52d_config_load_outcome [OF _ refl, where sysconfdir = "''/etc''" and files = "[''f'' \<mapsto> ''[Mouse]'']"]
  have legal: "override_legal (demo_override ''7'')" "\<not> override_legal (demo_override ''x'')"
    by (simp_all add: override_legal_def demo_override_def brightness_lookup brightness_values)
  have row: "row_override (config_map ! 20) [demo_override ''7''] = Some (IntV 7)"
    by (simp add: demo_override_def brightness_lookup brightness_values)
  have mem: "config_map ! 20 \<in> set config_map" by (rule nth_mem) (simp add: config_map_def)
  have "x52d_config_load ''/etc'' [''f'' \<mapsto> ''[Mouse]''] (Some ''f'')
       \<lparr> config = config_example, overrides = [demo_override ''x'', demo_override ''7''] \<rparr> = Some (Exit 1)"
    using load [OF wf [of "[demo_override ''x'', demo_override ''7'']"], of "Some ''f''"] legal by auto
  moreover have "x52d_config_load ''/etc'' [''f'' \<mapsto> ''[Mouse]''] None
       \<lparr> config = config_example, overrides = [] \<rparr> = Some (Exit 1)"
    using load [OF wf [of "[]"], of "None"] by (auto simp: X52D_SYS_CFG_FILE_def)
  moreover obtain c' where "x52d_config_load ''/etc'' [''f'' \<mapsto> ''[Mouse]''] (Some ''f'')
       \<lparr> config = config_example, overrides = [demo_override ''7''] \<rparr> = Some (Go \<lparr> config = c', overrides = [] \<rparr>)"
    "slot_read (e_slot (config_map ! 20)) c' = IntV 7"
    using load [OF wf [of "[demo_override ''7'']"], of "Some ''f''"] legal(1) row mem by fastforce
  ultimately show ?thesis by (auto simp: slot_of_def)
qed

end
