(* ===== verification/X52d_Settings.thy ===== *)
theory X52d_Settings
  imports X52d_Device X52d_Mouse Config_Daemon
begin

text \<open>
  The callbacks that apply the configuration (\<open>daemon/x52d_clock.c\<close>, \<open>daemon/x52d_led.c\<close>, the
  mouse callbacks of \<open>X52d_Mouse\<close>, and the empty ones of \<open>daemon/x52d_config.c\<close>), the clock
  thread, and the table of all callbacks, with which \<open>x52d_config_apply\<close> acts on the modules of
  the daemon.
\<close>

section \<open>State\<close>

text \<open>
  \<open>mod_tz\<close> is the environment variable TZ; \<open>mod_undefined\<close> is set when \<open>setenv\<close> is called with a
  NULL value.
\<close>

record modules_state = dev_manager +
  mod_clock_enabled :: bool
  mod_primary_is_local :: bool
  mod_tz :: "string option"
  mod_undefined :: bool
  mod_mouse :: mouse_manager

text \<open>
  What \<open>get_tz_offset\<close> gets from the C library: whether the two allocations succeed, the current
  time in the time zone of a value of TZ, and the variable \<open>timezone\<close> after \<open>tzset\<close>.
\<close>

record tz_env =
  tz_malloc :: bool
  tz_strdup :: bool
  tz_localtime :: "string option \<Rightarrow> tm option"
  tz_timezone :: "string option \<Rightarrow> int"
  tz_have_gmtoff :: bool

section \<open>The clock manager\<close>

definition x52d_cfg_set_Clock_Enabled :: "bool \<Rightarrow> modules_state \<Rightarrow> modules_state" where
  "x52d_cfg_set_Clock_Enabled enabled s = s\<lparr>mod_clock_enabled := enabled\<rparr>"

definition x52d_cfg_set_Clock_PrimaryIsLocal :: "bool \<Rightarrow> modules_state \<Rightarrow> modules_state" where
  "x52d_cfg_set_Clock_PrimaryIsLocal param s = s\<lparr>mod_primary_is_local := param\<rparr>"

definition tz_offset :: "tz_env \<Rightarrow> string option \<Rightarrow> int" where
  "tz_offset env tz =
     (case tz_localtime env tz of
        None \<Rightarrow> 0
      | Some t \<Rightarrow> if tz_have_gmtoff env then c_int (c_div (tm_gmtoff t) 60)
                  else c_int (c_div (tz_timezone env tz) (-60)))"

text \<open>
  The offset and TZ afterwards. When \<open>malloc\<close> fails, TZ is removed: \<open>orig_tz\<close> is still NULL. When
  \<open>strdup\<close> fails, \<open>setenv\<close> gets NULL, which is undefined: \<open>None\<close>.
\<close>

definition get_tz_offset :: "tz_env \<Rightarrow> string \<Rightarrow> string option \<Rightarrow> (int \<times> string option) option" where
  "get_tz_offset env tz orig_tz =
     (if \<not> tz_malloc env then Some (0, None)
      else case orig_tz of
        None \<Rightarrow> Some (tz_offset env (Some (CHR '':'' # tz)), None)
      | Some orig \<Rightarrow> if \<not> tz_strdup env then None
          else Some (tz_offset env (Some (CHR '':'' # tz)), Some orig))"

definition set_clock_offset ::
  "tz_env \<Rightarrow> libx52_clock_id \<Rightarrow> string \<Rightarrow> modules_state \<Rightarrow> modules_state" where
  "set_clock_offset env clock param s =
     (if mod_clock_enabled s then
        (case get_tz_offset env param (mod_tz s) of
           None \<Rightarrow> s\<lparr>mod_undefined := True\<rparr>
         | Some (offset, tz) \<Rightarrow>
             snd (x52d_dev_set_clock_timezone (clock_id_code clock) offset (s\<lparr>mod_tz := tz\<rparr>)))
      else s)"

definition x52d_cfg_set_Clock_Secondary :: "tz_env \<Rightarrow> string \<Rightarrow> modules_state \<Rightarrow> modules_state" where
  "x52d_cfg_set_Clock_Secondary env = set_clock_offset env LIBX52_CLOCK_2"

definition x52d_cfg_set_Clock_Tertiary :: "tz_env \<Rightarrow> string \<Rightarrow> modules_state \<Rightarrow> modules_state" where
  "x52d_cfg_set_Clock_Tertiary env = set_clock_offset env LIBX52_CLOCK_3"

definition set_clock_format ::
  "libx52_clock_id \<Rightarrow> libx52_clock_format \<Rightarrow> modules_state \<Rightarrow> modules_state" where
  "set_clock_format clock fmt s =
     (if mod_clock_enabled s
      then snd (x52d_dev_set_clock_format (clock_id_code clock) (clock_format_code fmt) s) else s)"

definition x52d_cfg_set_Clock_FormatPrimary :: "libx52_clock_format \<Rightarrow> modules_state \<Rightarrow> modules_state" where
  "x52d_cfg_set_Clock_FormatPrimary = set_clock_format LIBX52_CLOCK_1"

definition x52d_cfg_set_Clock_FormatSecondary :: "libx52_clock_format \<Rightarrow> modules_state \<Rightarrow> modules_state" where
  "x52d_cfg_set_Clock_FormatSecondary = set_clock_format LIBX52_CLOCK_2"

definition x52d_cfg_set_Clock_FormatTertiary :: "libx52_clock_format \<Rightarrow> modules_state \<Rightarrow> modules_state" where
  "x52d_cfg_set_Clock_FormatTertiary = set_clock_format LIBX52_CLOCK_3"

definition x52d_cfg_set_Clock_DateFormat :: "libx52_date_format \<Rightarrow> modules_state \<Rightarrow> modules_state" where
  "x52d_cfg_set_Clock_DateFormat fmt s =
     (if mod_clock_enabled s then snd (x52d_dev_set_date_format (date_format_code fmt) s) else s)"

text \<open>One round of \<open>x52_clock_thr\<close>; \<open>cur_time\<close> is \<open>None\<close> when \<open>time\<close> fails.\<close>

definition x52_clock_round :: "clock_env \<Rightarrow> int option \<Rightarrow> modules_state \<Rightarrow> modules_state" where
  "x52_clock_round env cur_time s =
     (if \<not> mod_clock_enabled s then s
      else case cur_time of
        None \<Rightarrow> s
      | Some t \<Rightarrow> snd (x52d_dev_set_clock env t (if mod_primary_is_local s then 1 else 0) s))"

section \<open>LEDs and brightness\<close>

definition SET_LED_STATE :: "libx52_led_id \<Rightarrow> libx52_led_state \<Rightarrow> modules_state \<Rightarrow> modules_state" where
  "SET_LED_STATE led state s = snd (x52d_dev_set_led_state (led_id_code led) (led_state_code state) s)"

definition SET_BRIGHTNESS :: "u8 \<Rightarrow> u16 \<Rightarrow> modules_state \<Rightarrow> modules_state" where
  "SET_BRIGHTNESS mfd v s = snd (x52d_dev_set_brightness mfd v s)"

abbreviation x52d_cfg_set_LED_Fire where
  "x52d_cfg_set_LED_Fire \<equiv> SET_LED_STATE LIBX52_LED_FIRE"
abbreviation x52d_cfg_set_LED_Throttle where
  "x52d_cfg_set_LED_Throttle \<equiv> SET_LED_STATE LIBX52_LED_THROTTLE"
abbreviation x52d_cfg_set_LED_A where
  "x52d_cfg_set_LED_A \<equiv> SET_LED_STATE LIBX52_LED_A"
abbreviation x52d_cfg_set_LED_B where
  "x52d_cfg_set_LED_B \<equiv> SET_LED_STATE LIBX52_LED_B"
abbreviation x52d_cfg_set_LED_D where
  "x52d_cfg_set_LED_D \<equiv> SET_LED_STATE LIBX52_LED_D"
abbreviation x52d_cfg_set_LED_E where
  "x52d_cfg_set_LED_E \<equiv> SET_LED_STATE LIBX52_LED_E"
abbreviation x52d_cfg_set_LED_T1 where
  "x52d_cfg_set_LED_T1 \<equiv> SET_LED_STATE LIBX52_LED_T1"
abbreviation x52d_cfg_set_LED_T2 where
  "x52d_cfg_set_LED_T2 \<equiv> SET_LED_STATE LIBX52_LED_T2"
abbreviation x52d_cfg_set_LED_T3 where
  "x52d_cfg_set_LED_T3 \<equiv> SET_LED_STATE LIBX52_LED_T3"
abbreviation x52d_cfg_set_LED_POV where
  "x52d_cfg_set_LED_POV \<equiv> SET_LED_STATE LIBX52_LED_POV"
abbreviation x52d_cfg_set_LED_Clutch where
  "x52d_cfg_set_LED_Clutch \<equiv> SET_LED_STATE LIBX52_LED_CLUTCH"

text \<open>The parameter is a \<open>uint16_t\<close>, the configured value an \<open>int\<close>.\<close>

definition x52d_cfg_set_Brightness_MFD :: "int \<Rightarrow> modules_state \<Rightarrow> modules_state" where
  "x52d_cfg_set_Brightness_MFD v = SET_BRIGHTNESS 1 (word_of_int v)"

definition x52d_cfg_set_Brightness_LED :: "int \<Rightarrow> modules_state \<Rightarrow> modules_state" where
  "x52d_cfg_set_Brightness_LED v = SET_BRIGHTNESS 0 (word_of_int v)"

section \<open>The table of callbacks\<close>

definition on_mouse :: "(mouse_manager \<Rightarrow> mouse_manager) \<Rightarrow> modules_state \<Rightarrow> modules_state" where
  "on_mouse f s = s\<lparr>mod_mouse := f (mod_mouse s)\<rparr>"

text \<open>\<open>x52d_cfg_set_<section>_<key>(x52d_config.<name>)\<close>, for a value of the type of the slot.\<close>

fun bool_cb :: "(bool \<Rightarrow> 's \<Rightarrow> 's) \<Rightarrow> config_value \<Rightarrow> 's \<Rightarrow> 's" where
  "bool_cb f (BoolV b) = f b" | "bool_cb f _ = id"
fun string_cb :: "(string \<Rightarrow> 's \<Rightarrow> 's) \<Rightarrow> config_value \<Rightarrow> 's \<Rightarrow> 's" where
  "string_cb f (StringV x) = f x" | "string_cb f _ = id"
fun int_cb :: "(int \<Rightarrow> 's \<Rightarrow> 's) \<Rightarrow> config_value \<Rightarrow> 's \<Rightarrow> 's" where
  "int_cb f (IntV i) = f i" | "int_cb f _ = id"
fun led_cb :: "(libx52_led_state \<Rightarrow> 's \<Rightarrow> 's) \<Rightarrow> config_value \<Rightarrow> 's \<Rightarrow> 's" where
  "led_cb f (LedV l) = f l" | "led_cb f _ = id"
fun clock_format_cb :: "(libx52_clock_format \<Rightarrow> 's \<Rightarrow> 's) \<Rightarrow> config_value \<Rightarrow> 's \<Rightarrow> 's" where
  "clock_format_cb f (ClockFormatV x) = f x" | "clock_format_cb f _ = id"
fun date_format_cb :: "(libx52_date_format \<Rightarrow> 's \<Rightarrow> 's) \<Rightarrow> config_value \<Rightarrow> 's \<Rightarrow> 's" where
  "date_format_cb f (DateFormatV x) = f x" | "date_format_cb f _ = id"

definition cfg_setters ::
  "tz_env \<Rightarrow> ((string \<times> string) \<times> (config_value \<Rightarrow> modules_state \<Rightarrow> modules_state)) list" where
  "cfg_setters env =
   [((''Clock'', ''Enabled''), bool_cb x52d_cfg_set_Clock_Enabled),
    ((''Clock'', ''PrimaryIsLocal''), bool_cb x52d_cfg_set_Clock_PrimaryIsLocal),
    ((''Clock'', ''Secondary''), string_cb (x52d_cfg_set_Clock_Secondary env)),
    ((''Clock'', ''Tertiary''), string_cb (x52d_cfg_set_Clock_Tertiary env)),
    ((''Clock'', ''FormatPrimary''), clock_format_cb x52d_cfg_set_Clock_FormatPrimary),
    ((''Clock'', ''FormatSecondary''), clock_format_cb x52d_cfg_set_Clock_FormatSecondary),
    ((''Clock'', ''FormatTertiary''), clock_format_cb x52d_cfg_set_Clock_FormatTertiary),
    ((''Clock'', ''DateFormat''), date_format_cb x52d_cfg_set_Clock_DateFormat),
    ((''LED'', ''Fire''), led_cb x52d_cfg_set_LED_Fire),
    ((''LED'', ''Throttle''), led_cb x52d_cfg_set_LED_Throttle),
    ((''LED'', ''A''), led_cb x52d_cfg_set_LED_A),
    ((''LED'', ''B''), led_cb x52d_cfg_set_LED_B),
    ((''LED'', ''D''), led_cb x52d_cfg_set_LED_D),
    ((''LED'', ''E''), led_cb x52d_cfg_set_LED_E),
    ((''LED'', ''T1''), led_cb x52d_cfg_set_LED_T1),
    ((''LED'', ''T2''), led_cb x52d_cfg_set_LED_T2),
    ((''LED'', ''T3''), led_cb x52d_cfg_set_LED_T3),
    ((''LED'', ''POV''), led_cb x52d_cfg_set_LED_POV),
    ((''LED'', ''Clutch''), led_cb x52d_cfg_set_LED_Clutch),
    ((''Brightness'', ''MFD''), int_cb x52d_cfg_set_Brightness_MFD),
    ((''Brightness'', ''LED''), int_cb x52d_cfg_set_Brightness_LED),
    ((''Mouse'', ''Enabled''), bool_cb (\<lambda>b. on_mouse (x52d_cfg_set_Mouse_Enabled b))),
    ((''Mouse'', ''Speed''), int_cb (\<lambda>i. on_mouse (x52d_cfg_set_Mouse_Speed i))),
    ((''Mouse'', ''ReverseScroll''), bool_cb (\<lambda>b. on_mouse (x52d_cfg_set_Mouse_ReverseScroll b))),
    ((''Profiles'', ''Directory''), string_cb (\<lambda>_ s. s)),
    ((''Profiles'', ''ClutchEnabled''), bool_cb (\<lambda>_ s. s)),
    ((''Profiles'', ''ClutchLatched''), bool_cb (\<lambda>_ s. s))]"

definition daemon_callback :: "tz_env \<Rightarrow> modules_state cfg_callback" where
  "daemon_callback env e v s =
     (case map_of (cfg_setters env) (e_section e, e_key e) of None \<Rightarrow> s | Some f \<Rightarrow> f v s)"

text \<open>The rows of the configuration and of the callbacks are the same, in the same order.\<close>

lemma cfg_setters_names: "map fst (cfg_setters env) = map (\<lambda>e. (e_section e, e_key e)) config_map"
  by (simp add: cfg_setters_def config_map_def)

section \<open>The callbacks keep the invariant of the device manager\<close>

lemma cb_cases:
  "bool_cb f v s = s \<or> (\<exists>b. bool_cb f v s = f b s)" "string_cb g v s = s \<or> (\<exists>x. string_cb g v s = g x s)"
  "int_cb h v s = s \<or> (\<exists>i. int_cb h v s = h i s)" "led_cb l v s = s \<or> (\<exists>x. led_cb l v s = l x s)"
  "clock_format_cb c v s = s \<or> (\<exists>x. clock_format_cb c v s = c x s)"
  "date_format_cb d v s = s \<or> (\<exists>x. date_format_cb d v s = d x s)"
  by (cases v; auto)+

lemma dev_ok_cong:
  "dm_dev s' = dm_dev s \<Longrightarrow> dm_update_needed s' = dm_update_needed s \<Longrightarrow> dev_ok D b s' = dev_ok D b s"
  by (simp add: dev_ok_def flag_ok_def)

named_theorems module_ok \<open>operations of the modules that keep the invariant of the device manager\<close>

lemma mods_ok [module_ok]:
  fixes s :: modules_state
  assumes "dev_ok D b s"
  shows "dev_ok D b (x52d_cfg_set_Clock_Enabled p s)" "dev_ok D b (x52d_cfg_set_Clock_PrimaryIsLocal p s)"
    "dev_ok D b (on_mouse f s)" "dev_ok D b (s\<lparr>mod_tz := tz\<rparr>)" "dev_ok D b (s\<lparr>mod_undefined := p\<rparr>)"
  using assms by (simp_all add: dev_ok_def flag_ok_def x52d_cfg_set_Clock_Enabled_def
      x52d_cfg_set_Clock_PrimaryIsLocal_def on_mouse_def)

lemma calls_ok [module_ok]:
  assumes "dev_ok D b s"
  shows "dev_ok D b (SET_LED_STATE l st s)" "dev_ok D b (SET_BRIGHTNESS m x s)"
    "dev_ok D b (set_clock_format c cf s)" "dev_ok D b (x52d_cfg_set_Clock_DateFormat df s)"
  using assms call_ok [of D b s "SetLedState (led_id_code l) (led_state_code st)"]
    call_ok [of D b s "SetBrightness m x"] call_ok [of D b s "SetClockFormat (clock_id_code c) (clock_format_code cf)"]
    call_ok [of D b s "SetDateFormat (date_format_code df)"]
  by (simp_all add: SET_LED_STATE_def SET_BRIGHTNESS_def set_clock_format_def
      x52d_cfg_set_Clock_DateFormat_def)

lemma clock_round_ok [module_ok]:
  assumes "dev_ok D b s"
  shows "dev_ok D b (x52_clock_round env t s)"
proof (cases t)
  case (Some x)
  have "dev_ok D b (snd (x52d_dev_set_clock env x l s))" for l
    using call_ok [OF assms, of "SetClock env x l"] by simp
  with Some assms show ?thesis by (simp add: x52_clock_round_def)
qed (simp add: x52_clock_round_def assms)

lemma offset_ok [module_ok]:
  assumes "dev_ok D b s"
  shows "dev_ok D b (set_clock_offset env c tz s)"
proof -
  have "dev_ok D b (snd (x52d_dev_set_clock_timezone (clock_id_code c) off (s\<lparr>mod_tz := z\<rparr>)))" for off z
    using call_ok [OF mods_ok(4) [OF assms], of "SetClockTimezone (clock_id_code c) off" z] by simp
  then show ?thesis using assms mods_ok(5) [OF assms] by (auto simp: set_clock_offset_def split: option.split)
qed

lemma setters_ok:
  assumes "(k, f) \<in> set (cfg_setters env)" and "dev_ok D b s"
  shows "dev_ok D b (f v s)"
proof -
  have "list_all (\<lambda>(k, f). dev_ok D b (f v s)) (cfg_setters env)"
    unfolding cfg_setters_def x52d_cfg_set_Clock_Secondary_def x52d_cfg_set_Clock_Tertiary_def
      x52d_cfg_set_Clock_FormatPrimary_def x52d_cfg_set_Clock_FormatSecondary_def
      x52d_cfg_set_Clock_FormatTertiary_def list.pred_inject prod.case
    using assms(2) by (intro conjI TrueI; cases v) (simp_all add: module_ok x52d_cfg_set_Brightness_MFD_def
        x52d_cfg_set_Brightness_LED_def)
  with assms(1) show ?thesis by (auto simp: list_all_iff)
qed

lemma callback_ok: "dev_ok D b s \<Longrightarrow> dev_ok D b (daemon_callback env e v s)"
  by (auto simp: daemon_callback_def split: option.split dest!: map_of_SomeD intro: setters_ok)

lemma apply_ok: "dev_ok D b s \<Longrightarrow> dev_ok D b (x52d_config_apply (daemon_callback env) st s)"
proof -
  have "dev_ok D b s \<Longrightarrow> dev_ok D b (fold (\<lambda>e. daemon_callback env e (slot_read (e_slot e) (config st))) es s)" for es
    by (induction es arbitrary: s) (simp_all add: callback_ok)
  then show "dev_ok D b s \<Longrightarrow> dev_ok D b (x52d_config_apply (daemon_callback env) st s)"
    by (simp add: x52d_config_apply_def)
qed

lemma apply_immediate_ok:
  "dev_ok D b s \<Longrightarrow> dev_ok D b (x52d_config_apply_immediate (daemon_callback env) sec key st s)"
  by (auto simp: x52d_config_apply_immediate_def callback_ok split: option.split)

interpretation modules: dev_settings "x52d_config_apply (daemon_callback env) st" for env st
  by unfold_locales (rule apply_ok)

section \<open>The daemon at work\<close>

text \<open>
  What the threads and the commands do to the modules, one operation after the other, with the
  configuration at that time.
\<close>

datatype daemon_event =
    DeviceRound tz_env config_state
  | ClockRound clock_env "int option"
  | ApplyAll tz_env config_state
  | ApplyOne tz_env string string config_state
  | DevCall x52_call

fun daemon_step :: "'w libusb \<Rightarrow> daemon_event \<Rightarrow> modules_state \<times> 'w \<Rightarrow> modules_state \<times> 'w" where
  "daemon_step U (DeviceRound env st) (s, w) = x52_dev_round U (x52d_config_apply (daemon_callback env) st) s w"
| "daemon_step U (ClockRound env t) (s, w) = (x52_clock_round env t s, w)"
| "daemon_step U (ApplyAll env st) (s, w) = (x52d_config_apply (daemon_callback env) st s, w)"
| "daemon_step U (ApplyOne env sec key st) (s, w) =
     (x52d_config_apply_immediate (daemon_callback env) sec key st s, w)"
| "daemon_step U (DevCall c) (s, w) = (snd (x52d_dev_call c s), w)"

lemma daemon_step_ok:
  assumes "daemon_step (logged U) e (s, w) = (s', w')" and "dev_ok (display_of (snd w)) b s"
  shows "dev_ok (display_of (snd w')) b s'"
  using assms by (cases e) (auto simp: apply_ok apply_immediate_ok module_ok call_ok dest: modules.round_ok)

lemma daemon_run_ok:
  "fold (daemon_step (logged U)) es (s, w) = (s', w') \<Longrightarrow> dev_ok (display_of (snd w)) b s \<Longrightarrow>
   dev_ok (display_of (snd w')) b s'"
proof (induction es arbitrary: s w)
  case (Cons e es)
  obtain s1 w1 where e: "daemon_step (logged U) e (s, w) = (s1, w1)" by (rule prod.exhaust)
  from Cons.IH [OF _ daemon_step_ok [OF e Cons.prems(2)]] Cons.prems(1) e show ?case by simp
qed simp

text \<open>
  The daemon as a whole, its operations one after the other: rounds of the device thread over
  a libusb that may fail at any transfer, lose the joystick and find it again, rounds of the
  clock thread, configurations applied as a whole or key by key, and single calls. Once an
  indicator is marked, in a state where marks have raised the flag, it stays so that whenever
  the flag is clear the joystick shows the setting of the device record; and marks keep raising
  the flag.
\<close>

lemma daemon_display_follows:
  assumes "fold (daemon_step (logged U)) es (s, w) = (s', w')"
    and "b \<in> set (marked (dm_dev s))" and "dm_update_needed s"
  shows "(\<not> dm_update_needed s' \<longrightarrow> displays (display_of (snd w')) (dm_dev s') b)
    \<and> (marked (dm_dev s') \<noteq> [] \<longrightarrow> dm_update_needed s')"
proof -
  have "dev_ok (display_of (snd w)) b s" using assms(2,3) by (simp add: dev_ok_def flag_ok_def synced_def)
  from daemon_run_ok [OF assms(1) this] dev_ok_quiet show ?thesis by (auto simp: dev_ok_def flag_ok_def)
qed

text \<open>The connected stub joystick with a brightness and the shift indicator to send, all zones being UTC.\<close>

definition demo_tz :: tz_env where
  "demo_tz = \<lparr>tz_malloc = True, tz_strdup = True, tz_localtime = (\<lambda>_. None), tz_timezone = (\<lambda>_. 0),
     tz_have_gmtoff = True\<rparr>"

definition demo_modules :: modules_state where
  "demo_modules = \<lparr>dm_dev = opened_bright, dm_update_needed = True, dm_notes = [], mod_clock_enabled = False,
     mod_primary_is_local = False, mod_tz = None, mod_undefined = False, mod_mouse = mouse_start\<rparr>"

lemma demo_connected:
  "libx52_is_connected (logged stub) (Some opened_bright) (stub_opened, []) = (True, Some opened_bright, (stub_opened, []))"
proof -
  have "hdl opened_bright = Some 0" "handle_registered opened_bright" by code_simp+
  then show ?thesis by (simp add: libx52_is_connected_def logged_def lift_w_def run_callbacks_def)
qed

theorem daemon_display_follows_witness:
  "\<exists>s' w'. fold (daemon_step (logged stub)) [DeviceRound demo_tz \<lparr>config = config_example, overrides = []\<rparr>]
      (demo_modules, (stub_opened, [])) = (s', w') \<and> \<not> dm_update_needed s'
    \<and> displays (display_of (snd w')) (dm_dev s') 26"
proof -
  obtain rc d w where u: "libx52_update (logged stub) opened_bright (stub_opened, []) = (rc, d, w)"
    by (metis prod_cases3)
  with opened_bright_run have rc: "rc = LIBX52_SUCCESS" by simp
  have run: "fold (daemon_step (logged stub)) [DeviceRound demo_tz \<lparr>config = config_example, overrides = []\<rparr>]
      (demo_modules, (stub_opened, [])) = (demo_modules\<lparr>dm_dev := d, dm_update_needed := False\<rparr>, w)"
    using u rc by (simp add: x52_dev_round_def demo_modules_def demo_connected x52d_dev_update_def)
  have "26 \<in> set (marked (dm_dev demo_modules))" "dm_update_needed demo_modules"
    using marked_opened_bright by (simp_all add: demo_modules_def)
  from daemon_display_follows [OF run this] run show ?thesis by simp
qed

lemma apply_expand:
  "x52d_config_apply (daemon_callback env) st s =
    (let c = config st in
     on_mouse (x52d_cfg_set_Mouse_ReverseScroll (mouse_reverse_scroll c))
     (on_mouse (x52d_cfg_set_Mouse_Speed (x52d_config.mouse_speed c))
     (on_mouse (x52d_cfg_set_Mouse_Enabled (mouse_enabled c))
     (x52d_cfg_set_Brightness_LED (brightness c ! 1)
     (x52d_cfg_set_Brightness_MFD (brightness c ! 0)
     (fold (\<lambda>l. SET_LED_STATE l (leds c ! nat (led_id_code l)))
       [LIBX52_LED_FIRE, LIBX52_LED_THROTTLE, LIBX52_LED_A, LIBX52_LED_B, LIBX52_LED_D, LIBX52_LED_E,
        LIBX52_LED_T1, LIBX52_LED_T2, LIBX52_LED_T3, LIBX52_LED_POV, LIBX52_LED_CLUTCH]
     (x52d_cfg_set_Clock_DateFormat (x52d_config.date_format c)
     (x52d_cfg_set_Clock_FormatTertiary (clock_format c ! 2)
     (x52d_cfg_set_Clock_FormatSecondary (clock_format c ! 1)
     (x52d_cfg_set_Clock_FormatPrimary (clock_format c ! 0)
     (x52d_cfg_set_Clock_Tertiary env (clock_3_tz c)
     (x52d_cfg_set_Clock_Secondary env (clock_2_tz c)
     (x52d_cfg_set_Clock_PrimaryIsLocal (primary_clock_local c)
     (x52d_cfg_set_Clock_Enabled (clock_enabled c) s))))))))))))))"
  by (simp add: x52d_config_apply_def config_map_def daemon_callback_def cfg_setters_def Let_def)

end
