(* ===== verification/X52d_Apply.thy ===== *)
theory X52d_Apply
  imports X52d_Settings
begin

text \<open>
  What applying a whole configuration leaves in the device record: \<open>x52d_config_apply\<close> with the
  callbacks of \<open>X52d_Settings\<close>, on a connected joystick of the Pro kind. The daemon does this
  when the joystick was just connected, so that every setting must be marked again.
\<close>

section \<open>One LED\<close>

definition led_settable :: "libx52_led_id \<Rightarrow> libx52_led_state \<Rightarrow> bool" where
  "led_settable l st \<longleftrightarrow> (if l = LIBX52_LED_FIRE \<or> l = LIBX52_LED_THROTTLE
     then st = LIBX52_LED_STATE_OFF \<or> st = LIBX52_LED_STATE_ON else st \<noteq> LIBX52_LED_STATE_ON)"

lemma set_led_settable:
  assumes "led_settable l st"
  shows "fst (x52pro_set_led_state (led_id_code l) (led_state_code st) d) = LIBX52_SUCCESS"
proof -
  have "led_id_of (led_id_code l) = Some l" "led_state_of (led_state_code st) = Some st"
    by (simp_all only: led_id.enum_of_code led_state.enum_of_code)
  with assms show ?thesis
    by (cases st) (auto simp: x52pro_set_led_state_def led_settable_def Let_def split: if_splits)
qed

text \<open>Only the masks of the device record change, and only at the bits of the LED.\<close>

definition led_frame :: "libx52_device \<Rightarrow> libx52_device \<Rightarrow> bool" where
  "led_frame d d' \<longleftrightarrow> (\<exists>m u. d' = d\<lparr>led_mask := m, update_mask := u\<rparr>) \<and> set (marked d) \<subseteq> set (marked d')"

lemma led_frame_refl [simp]: "led_frame d d"
proof -
  have "d = d\<lparr>led_mask := led_mask d, update_mask := update_mask d\<rparr>" by simp
  then show ?thesis unfolding led_frame_def by blast
qed

lemma led_frame_trans: "led_frame d e \<Longrightarrow> led_frame e f \<Longrightarrow> led_frame d f"
  unfolding led_frame_def by force

lemma led_frameD:
  assumes "led_frame d d'"
  shows "flags d' = flags d" "timezone d' = timezone d" "time_format d' = time_format d"
    "libx52_device.date_format d' = libx52_device.date_format d" "set (marked d) \<subseteq> set (marked d')"
  using assms by (auto simp: led_frame_def)

lemma led_step:
  fixes s :: modules_state and l k :: libx52_led_id and st :: libx52_led_state
  assumes pro: "bit (flags (dm_dev s)) X52_FLAG_IS_PRO"
  defines "d' \<equiv> dm_dev (SET_LED_STATE l st s)"
  shows "led_frame (dm_dev s) d'"
    and "led_settable l st \<Longrightarrow> led_shown (led_mask d') l = st \<and> led_own_bits l \<subseteq> set (marked d')"
    and "k \<noteq> l \<Longrightarrow> led_shown (led_mask d') k = led_shown (led_mask (dm_dev s)) k"
proof -
  let ?d = "dm_dev s" and ?x = "x52pro_set_led_state (led_id_code l) (led_state_code st)"
  have "set_led_state_dev (led_id_code l) (led_state_code st) ?d = ?x ?d"
    using pro check_feature_led [of ?d] by (simp add: set_led_state_dev_def libx52_check_feature_def)
  then have d': "d' = snd (?x ?d)"
    using dev_call_eq [of "SetLedState (led_id_code l) (led_state_code st)" s]
    by (simp add: d'_def SET_LED_STATE_def split: if_splits)
  have id: "led_id_of (led_id_code l) = Some l" by (simp only: led_id.enum_of_code)
  have *: "led_frame ?d d' \<and> (led_settable l st \<longrightarrow> led_shown (led_mask d') l = st \<and> led_own_bits l \<subseteq> set (marked d'))
      \<and> (k \<noteq> l \<longrightarrow> led_shown (led_mask d') k = led_shown (led_mask ?d) k)"
  proof (cases "fst (?x ?d) = LIBX52_SUCCESS")
    case True
    then have x: "?x ?d = (LIBX52_SUCCESS, d')" unfolding d' by (metis prod.collapse)
    note m = set_led_state_masks [OF x id]
    have "led_shown (led_mask d') l = st" using m led_state.code_inj by blast
    moreover have "k \<noteq> l \<Longrightarrow> led_shown (led_mask d') k = led_shown (led_mask ?d) k"
      using m led_own_bits_disjoint [of k l] by (intro led_shown_cong) blast
    moreover have "led_frame ?d d'"
      unfolding led_frame_def using x52pro_set_led_state_frame [OF x] m by (auto simp: set_marked)
    ultimately show ?thesis using m by (auto simp: set_marked)
  next
    case False
    then have "d' = ?d" unfolding d' by (metis prod.collapse x52pro_set_led_state_error)
    with False set_led_settable show ?thesis by auto
  qed
  from * show "led_frame ?d d'" by blast
  from * show "led_settable l st \<Longrightarrow> led_shown (led_mask d') l = st \<and> led_own_bits l \<subseteq> set (marked d')" by blast
  from * show "k \<noteq> l \<Longrightarrow> led_shown (led_mask d') k = led_shown (led_mask ?d) k" by blast
qed

lemma led_fold:
  fixes s :: modules_state and f :: "libx52_led_id \<Rightarrow> libx52_led_state"
  assumes "bit (flags (dm_dev s)) X52_FLAG_IS_PRO" and "distinct ls"
  defines "d' \<equiv> dm_dev (fold (\<lambda>l. SET_LED_STATE l (f l)) ls s)"
  shows "led_frame (dm_dev s) d'
    \<and> (\<forall>l \<in> set ls. led_settable l (f l) \<longrightarrow> led_shown (led_mask d') l = f l \<and> led_own_bits l \<subseteq> set (marked d'))
    \<and> (\<forall>l. l \<notin> set ls \<longrightarrow> led_shown (led_mask d') l = led_shown (led_mask (dm_dev s)) l)"
  using assms(1,2) unfolding d'_def
proof (induction ls arbitrary: s)
  case (Cons l ls)
  let ?s1 = "SET_LED_STATE l (f l) s"
  note st = led_step [OF Cons.prems(1), where l = l and st = "f l"]
  have "bit (flags (dm_dev ?s1)) X52_FLAG_IS_PRO" using led_frameD(1) [OF st(1)] Cons.prems(1) by simp
  from Cons.IH [OF this] Cons.prems(2) have ih: "led_frame (dm_dev ?s1) (dm_dev (fold (\<lambda>l. SET_LED_STATE l (f l)) ls ?s1))"
    "\<And>k. k \<in> set ls \<Longrightarrow> led_settable k (f k) \<Longrightarrow>
       led_shown (led_mask (dm_dev (fold (\<lambda>l. SET_LED_STATE l (f l)) ls ?s1))) k = f k
       \<and> led_own_bits k \<subseteq> set (marked (dm_dev (fold (\<lambda>l. SET_LED_STATE l (f l)) ls ?s1)))"
    "\<And>k. k \<notin> set ls \<Longrightarrow> led_shown (led_mask (dm_dev (fold (\<lambda>l. SET_LED_STATE l (f l)) ls ?s1))) k
       = led_shown (led_mask (dm_dev ?s1)) k"
    by simp_all
  have nl: "l \<notin> set ls" using Cons.prems(2) by simp
  show ?case
  proof (intro conjI ballI allI impI)
    show "led_frame (dm_dev s) (dm_dev (fold (\<lambda>l. SET_LED_STATE l (f l)) (l # ls) s))"
      using led_frame_trans [OF st(1) ih(1)] by simp
  next
    fix k assume "k \<in> set (l # ls)" and "led_settable k (f k)"
    then show "led_shown (led_mask (dm_dev (fold (\<lambda>l. SET_LED_STATE l (f l)) (l # ls) s))) k = f k"
      using ih(2) [of k] ih(3) [OF nl] st(2) by (cases "k = l") auto
  next
    fix k assume "k \<in> set (l # ls)" and "led_settable k (f k)"
    then show "led_own_bits k \<subseteq> set (marked (dm_dev (fold (\<lambda>l. SET_LED_STATE l (f l)) (l # ls) s)))"
      using ih(2) [of k] led_frameD(5) [OF ih(1)] st(2) by (cases "k = l") auto
  next
    fix k assume "k \<notin> set (l # ls)"
    then show "led_shown (led_mask (dm_dev (fold (\<lambda>l. SET_LED_STATE l (f l)) (l # ls) s))) k
        = led_shown (led_mask (dm_dev s)) k"
      using ih(3) [of k] st(3) [where k = k] by auto
  qed
qed simp

section \<open>The clock settings\<close>

lemma mod_call:
  fixes s :: modules_state
  shows "dm_dev (snd (x52d_dev_call c s)) = snd (call_dev c (dm_dev s))"
    "mod_clock_enabled (snd (x52d_dev_call c s)) = mod_clock_enabled s"
    "mod_tz (snd (x52d_dev_call c s)) = mod_tz s"
  by (simp_all add: dev_call_eq)

lemmas mod_calls = mod_call [of "SetClockFormat _ _", simplified] mod_call [of "SetClockTimezone _ _", simplified]
  mod_call [of "SetDateFormat _", simplified] mod_call [of "SetBrightness _ _", simplified]

text \<open>The offset that is sent for a time zone name when no allocation fails.\<close>

definition zone_offset :: "tz_env \<Rightarrow> string \<Rightarrow> int" where
  "zone_offset env tz = tz_offset env (Some (CHR '':'' # tz))"

lemma get_tz_offset_ok:
  "tz_malloc env \<Longrightarrow> tz_strdup env \<Longrightarrow> get_tz_offset env tz orig = Some (zone_offset env tz, orig)"
  by (simp add: get_tz_offset_def zone_offset_def split: option.split)

lemma set_clock_offset_call:
  fixes s :: modules_state
  assumes "mod_clock_enabled s" and "tz_malloc env" and "tz_strdup env"
  shows "set_clock_offset env c tz s = snd (x52d_dev_call (SetClockTimezone (clock_id_code c) (zone_offset env tz)) s)"
  using assms by (simp add: set_clock_offset_def get_tz_offset_ok)

lemma clock_id_codes:
  "clock_id_of 0 = Some LIBX52_CLOCK_1" "clock_id_of 1 = Some LIBX52_CLOCK_2" "clock_id_of 2 = Some LIBX52_CLOCK_3"
  using clock_id.enum_of_code [of LIBX52_CLOCK_1] clock_id.enum_of_code [of LIBX52_CLOCK_2]
    clock_id.enum_of_code [of LIBX52_CLOCK_3] by simp_all

lemma clock_format_dev:
  "set_clock_format_dev (clock_id_code c) (clock_format_code f) d =
     (LIBX52_SUCCESS, (mark (28 + nat (clock_id_code c)) d)\<lparr>time_format :=
        (time_format d)[nat (clock_id_code c) := clock_format_code f]\<rparr>)"
  by (cases c; cases f) (simp_all add: set_clock_format_dev_def clock_id_codes mark_def Let_def)

lemma clock_zone_dev:
  "\<bar>off\<bar> \<le> 1440 \<Longrightarrow> set_clock_timezone_dev 1 off d =
     (LIBX52_SUCCESS, (mark 29 d)\<lparr>timezone := (timezone d)[1 := off]\<rparr>)"
  "\<bar>off\<bar> \<le> 1440 \<Longrightarrow> set_clock_timezone_dev 2 off d =
     (LIBX52_SUCCESS, (mark 30 d)\<lparr>timezone := (timezone d)[2 := off]\<rparr>)"
  by (auto simp: set_clock_timezone_dev_def clock_id_codes mark_def)

lemma bit_mark: "bit (update_mask (mark b d)) n \<longleftrightarrow> bit (update_mask d) n \<or> n = b \<and> b < 32"
  by (auto simp: update_mask_mark x52_bit_simps)

lemma clock_stage:
  fixes s :: modules_state and f1 f2 f3 :: libx52_clock_format and df :: libx52_date_format
  assumes on: "mod_clock_enabled s" and alloc: "tz_malloc env" "tz_strdup env"
    and off: "\<bar>zone_offset env z2\<bar> \<le> 1440" "\<bar>zone_offset env z3\<bar> \<le> 1440"
  defines "d' \<equiv> dm_dev (x52d_cfg_set_Clock_DateFormat df (x52d_cfg_set_Clock_FormatTertiary f3
      (x52d_cfg_set_Clock_FormatSecondary f2 (x52d_cfg_set_Clock_FormatPrimary f1
      (x52d_cfg_set_Clock_Tertiary env z3 (x52d_cfg_set_Clock_Secondary env z2 s))))))"
  shows "timezone d' = (timezone (dm_dev s))[1 := zone_offset env z2, 2 := zone_offset env z3]"
    and "time_format d' = (time_format (dm_dev s))[0 := clock_format_code f1, 1 := clock_format_code f2,
      2 := clock_format_code f3]"
    and "libx52_device.date_format d' = date_format_code df" and "flags d' = flags (dm_dev s)"
    and "led_mask d' = led_mask (dm_dev s)" and "{27, 28, 29, 30} \<union> set (marked (dm_dev s)) \<subseteq> set (marked d')"
proof -
  let ?calls = "[SetClockTimezone 1 (zone_offset env z2), SetClockTimezone 2 (zone_offset env z3),
      SetClockFormat 0 (clock_format_code f1), SetClockFormat 1 (clock_format_code f2),
      SetClockFormat 2 (clock_format_code f3), SetDateFormat (date_format_code df)]"
  have d': "d' = fold (\<lambda>c d. snd (call_dev c d)) ?calls (dm_dev s)"
    unfolding d'_def x52d_cfg_set_Clock_Secondary_def x52d_cfg_set_Clock_Tertiary_def
      x52d_cfg_set_Clock_FormatPrimary_def x52d_cfg_set_Clock_FormatSecondary_def
      x52d_cfg_set_Clock_FormatTertiary_def x52d_cfg_set_Clock_DateFormat_def set_clock_format_def
    using on alloc by (simp add: set_clock_offset_call mod_calls)
  note dev = clock_zone_dev [OF off(1)] clock_zone_dev [OF off(2)] set_date_format_dev_def
    clock_format_dev [of LIBX52_CLOCK_1, simplified] clock_format_dev [of LIBX52_CLOCK_2, simplified]
    clock_format_dev [of LIBX52_CLOCK_3, simplified]
  show "timezone d' = (timezone (dm_dev s))[1 := zone_offset env z2, 2 := zone_offset env z3]"
    "time_format d' = (time_format (dm_dev s))[0 := clock_format_code f1, 1 := clock_format_code f2,
      2 := clock_format_code f3]" "libx52_device.date_format d' = date_format_code df"
    "flags d' = flags (dm_dev s)" "led_mask d' = led_mask (dm_dev s)"
    by (simp_all add: d' dev mark_def)
  show "{27, 28, 29, 30} \<union> set (marked (dm_dev s)) \<subseteq> set (marked d')"
    by (auto simp: d' dev set_marked bit_mark)
qed

section \<open>The whole configuration\<close>

lemma brightness_dev:
  fixes s :: modules_state and x y :: int
  defines "d' \<equiv> dm_dev (x52d_cfg_set_Brightness_LED y (x52d_cfg_set_Brightness_MFD x s))"
  shows "mfd_brightness d' = word_of_int x" "led_brightness d' = word_of_int y"
    "led_mask d' = led_mask (dm_dev s)" "timezone d' = timezone (dm_dev s)"
    "time_format d' = time_format (dm_dev s)"
    "libx52_device.date_format d' = libx52_device.date_format (dm_dev s)"
    "{25, 26} \<union> set (marked (dm_dev s)) \<subseteq> set (marked d')"
proof -
  have "d' = snd (set_brightness_dev 0 (word_of_int y) (snd (set_brightness_dev 1 (word_of_int x) (dm_dev s))))"
    by (simp add: d'_def x52d_cfg_set_Brightness_LED_def x52d_cfg_set_Brightness_MFD_def SET_BRIGHTNESS_def mod_calls)
  then have d': "d' = mark 26 ((mark 25 ((dm_dev s)\<lparr>mfd_brightness := word_of_int x\<rparr>))\<lparr>led_brightness := word_of_int y\<rparr>)"
    by (simp add: set_brightness_dev_def)
  show "mfd_brightness d' = word_of_int x" "led_brightness d' = word_of_int y"
    "led_mask d' = led_mask (dm_dev s)" "timezone d' = timezone (dm_dev s)"
    "time_format d' = time_format (dm_dev s)"
    "libx52_device.date_format d' = libx52_device.date_format (dm_dev s)"
    by (simp_all add: d' mark_def)
  show "{25, 26} \<union> set (marked (dm_dev s)) \<subseteq> set (marked d')"
    by (auto simp: d' set_marked bit_mark)
qed

lemma brightness_flag: "dm_update_needed (x52d_cfg_set_Brightness_LED y s)"
  using dev_call_eq [of "SetBrightness 0 (word_of_int y)" s]
  by (simp add: x52d_cfg_set_Brightness_LED_def SET_BRIGHTNESS_def set_brightness_dev_def)

lemma on_mouse_dev [simp]: "dm_dev (on_mouse f s) = dm_dev s" "dm_update_needed (on_mouse f s) = dm_update_needed s"
  by (simp_all add: on_mouse_def)

text \<open>
  C27:
  Applying a configuration with the clock enabled, on a Pro: afterwards the device record holds
  the configured brightness, date format, clock formats and zone offsets, each LED whose
  configured state it can show has that state, and all these indicators are marked, whether
  their settings changed or not, with the update flag raised, so that a joystick that was
  just connected gets every one of them. The zone names must convert without a failed allocation,
  to at most a day.
\<close>

theorem x52d_config_apply_sets:
  assumes pro: "bit (flags (dm_dev s)) X52_FLAG_IS_PRO" and wf: "dev_wf (dm_dev s)"
    and on: "x52d_config.clock_enabled c" and cf: "length (clock_format c) = 3"
    and alloc: "tz_malloc env" "tz_strdup env"
    and off: "\<bar>zone_offset env (clock_2_tz c)\<bar> \<le> 1440" "\<bar>zone_offset env (clock_3_tz c)\<bar> \<le> 1440"
    and s': "x52d_config_apply (daemon_callback env) \<lparr>config = c, overrides = os\<rparr> s = s'"
  shows "(\<forall>l. led_settable l (leds c ! nat (led_id_code l)) \<longrightarrow>
      led_shown (led_mask (dm_dev s')) l = leds c ! nat (led_id_code l)
      \<and> led_own_bits l \<subseteq> set (marked (dm_dev s')))
    \<and> mfd_brightness (dm_dev s') = word_of_int (brightness c ! 0)
    \<and> led_brightness (dm_dev s') = word_of_int (brightness c ! 1)
    \<and> timezone (dm_dev s') ! 1 = zone_offset env (clock_2_tz c)
    \<and> timezone (dm_dev s') ! 2 = zone_offset env (clock_3_tz c)
    \<and> time_format (dm_dev s') = map clock_format_code (clock_format c)
    \<and> libx52_device.date_format (dm_dev s') = date_format_code (x52d_config.date_format c)
    \<and> {25, 26, 27, 28, 29, 30} \<subseteq> set (marked (dm_dev s')) \<and> dm_update_needed s'"
proof -
  define s1 where "s1 = x52d_cfg_set_Clock_PrimaryIsLocal (primary_clock_local c) (x52d_cfg_set_Clock_Enabled True s)"
  have s1: "dm_dev s1 = dm_dev s" "mod_clock_enabled s1"
    by (simp_all add: s1_def x52d_cfg_set_Clock_PrimaryIsLocal_def x52d_cfg_set_Clock_Enabled_def)
  define sC where "sC = x52d_cfg_set_Clock_DateFormat (x52d_config.date_format c)
      (x52d_cfg_set_Clock_FormatTertiary (clock_format c ! 2) (x52d_cfg_set_Clock_FormatSecondary (clock_format c ! 1)
      (x52d_cfg_set_Clock_FormatPrimary (clock_format c ! 0) (x52d_cfg_set_Clock_Tertiary env (clock_3_tz c)
      (x52d_cfg_set_Clock_Secondary env (clock_2_tz c) s1)))))"
  note clk = clock_stage [OF s1(2) alloc off, of "x52d_config.date_format c" "clock_format c ! 2"
      "clock_format c ! 1" "clock_format c ! 0", folded sC_def, unfolded s1(1)]
  define sL where "sL = fold (\<lambda>l. SET_LED_STATE l (leds c ! nat (led_id_code l)))
      [LIBX52_LED_FIRE, LIBX52_LED_THROTTLE, LIBX52_LED_A, LIBX52_LED_B, LIBX52_LED_D, LIBX52_LED_E,
       LIBX52_LED_T1, LIBX52_LED_T2, LIBX52_LED_T3, LIBX52_LED_POV, LIBX52_LED_CLUTCH] sC"
  have "bit (flags (dm_dev sC)) X52_FLAG_IS_PRO" using pro clk(4) by simp
  note led = led_fold [OF this, of "[LIBX52_LED_FIRE, LIBX52_LED_THROTTLE, LIBX52_LED_A, LIBX52_LED_B,
      LIBX52_LED_D, LIBX52_LED_E, LIBX52_LED_T1, LIBX52_LED_T2, LIBX52_LED_T3, LIBX52_LED_POV,
      LIBX52_LED_CLUTCH]" "\<lambda>l. leds c ! nat (led_id_code l)", folded sL_def, simplified]
  have fr: "led_frame (dm_dev sC) (dm_dev sL)" using led by blast
  have all: "led_settable l (leds c ! nat (led_id_code l)) \<Longrightarrow>
      led_shown (led_mask (dm_dev sL)) l = leds c ! nat (led_id_code l) \<and> led_own_bits l \<subseteq> set (marked (dm_dev sL))" for l
    using led by (cases l) simp_all
  define sB where "sB = x52d_cfg_set_Brightness_LED (brightness c ! 1) (x52d_cfg_set_Brightness_MFD (brightness c ! 0) sL)"
  note bri = brightness_dev [where s = sL and x = "brightness c ! 0" and y = "brightness c ! 1", folded sB_def]
  have d': "dm_dev s' = dm_dev sB" "dm_update_needed s' = dm_update_needed sB"
    unfolding s' [symmetric] apply_expand Let_def config_state.simps sB_def sL_def sC_def s1_def
    using on by simp_all
  have "length (time_format (dm_dev s)) = 3" "length (timezone (dm_dev s)) = 3"
    using wf by (simp_all add: dev_wf_def)
  then have tf: "time_format (dm_dev sC) = map clock_format_code (clock_format c)"
    and tz: "timezone (dm_dev sC) ! 1 = zone_offset env (clock_2_tz c)" "timezone (dm_dev sC) ! 2 = zone_offset env (clock_3_tz c)"
    using clk(1,2) cf by (auto simp: list_eq_iff_nth_eq nth_list_update less_Suc_eq numeral_3_eq_3 numeral_2_eq_2)
  have mk: "{25, 26, 27, 28, 29, 30} \<subseteq> set (marked (dm_dev sB))"
    using bri(7) led_frameD(5) [OF fr] clk(6) by blast
  have flag: "dm_update_needed sB" by (simp add: sB_def brightness_flag)
  have leds: "led_shown (led_mask (dm_dev sB)) l = leds c ! nat (led_id_code l)"
    "led_own_bits l \<subseteq> set (marked (dm_dev sB))" if "led_settable l (leds c ! nat (led_id_code l))" for l
    using all [OF that] bri(3,7) by auto
  show ?thesis
    unfolding d' using leds mk flag bri(1,2,4-6) led_frameD [OF fr] clk(3) tf tz by simp
qed

lemma opened_bright_wf: "dev_wf opened_bright" "bit (flags opened_bright) X52_FLAG_IS_PRO"
proof -
  have "dev_wf opened_dev"
    using dev_wf_calloc by (simp add: opened_dev_def dev_wf_def)
  then show "dev_wf opened_bright"
    unfolding opened_bright_def by (intro set_brightness.keeps_wf set_shift.keeps_wf)
  show "bit (flags opened_bright) X52_FLAG_IS_PRO" by code_simp
qed

lemma x52d_config_apply_sets_witness:
  "{25, 26, 27, 28, 29, 30} \<subseteq> set (marked (dm_dev (x52d_config_apply (daemon_callback demo_tz)
      \<lparr>config = config_example\<lparr>x52d_config.clock_enabled := True\<rparr>, overrides = []\<rparr> demo_modules)))"
  (is "_ \<subseteq> set (marked (dm_dev (x52d_config_apply _ \<lparr>config = ?c, overrides = _\<rparr> _)))")
proof -
  have off: "zone_offset demo_tz z = 0" for z by (simp add: zone_offset_def tz_offset_def demo_tz_def)
  have "bit (flags (dm_dev demo_modules)) X52_FLAG_IS_PRO" "dev_wf (dm_dev demo_modules)"
    using opened_bright_wf by (simp_all add: demo_modules_def)
  moreover have "x52d_config.clock_enabled ?c" "length (clock_format ?c) = 3"
    by (simp_all add: config_example_def)
  moreover have "tz_malloc demo_tz" "tz_strdup demo_tz" by (simp_all add: demo_tz_def)
  ultimately show ?thesis
    using x52d_config_apply_sets [of demo_modules ?c demo_tz "[]"] off by simp
qed

end
