(* ===== verification/C_Getopt.thy ===== *)
theory C_Getopt
  imports Main
begin

text \<open>
  \<open>getopt\<close> of the GNU C library for short options, as the daemon and its controller call it in
  a loop: the options in the order in which the calls return them, each with \<open>optarg\<close>, and the
  other arguments, which \<open>getopt\<close> has then moved behind the options (so that they start at
  \<open>optind\<close>). An unknown option and a missing argument are returned as \<open>?\<close>; the messages that
  \<open>getopt\<close> prints for them are left out.
\<close>

section \<open>Options\<close>

text \<open>Whether a character is an option, and whether it takes an argument.\<close>

fun optstring_find :: "string \<Rightarrow> char \<Rightarrow> bool option" where
  "optstring_find [] c = None"
| "optstring_find [o'] c = (if o' = c \<and> c \<noteq> CHR '':'' then Some False else None)"
| "optstring_find (o' # p # os) c =
     (if o' = c \<and> c \<noteq> CHR '':'' then Some (p = CHR '':'') else optstring_find (p # os) c)"

text \<open>
  The options of one word after its dash, and whether the last one takes the next word as its
  argument.
\<close>

fun option_word :: "string \<Rightarrow> string \<Rightarrow> (char \<times> string option) list \<times> char option" where
  "option_word optstring [] = ([], None)"
| "option_word optstring (c # cs) =
     (case optstring_find optstring c of
        None \<Rightarrow> (let (os, n) = option_word optstring cs in ((CHR ''?'', None) # os, n))
      | Some False \<Rightarrow> (let (os, n) = option_word optstring cs in ((c, None) # os, n))
      | Some True \<Rightarrow> if cs \<noteq> [] then ([(c, Some cs)], None) else ([], Some c))"

fun getopt_all :: "string \<Rightarrow> string list \<Rightarrow> (char \<times> string option) list \<times> string list" where
  "getopt_all optstring [] = ([], [])"
| "getopt_all optstring (arg # args) =
     (if arg = ''--'' then ([], args)
      else if length arg < 2 \<or> hd arg \<noteq> CHR ''-'' then
        (let (os, rest) = getopt_all optstring args in (os, arg # rest))
      else case option_word optstring (tl arg) of
        (os, None) \<Rightarrow> (let (os', rest) = getopt_all optstring args in (os @ os', rest))
      | (os, Some c) \<Rightarrow>
          (case args of
             [] \<Rightarrow> (os @ [(CHR ''?'', None)], [])
           | a # args' \<Rightarrow> (let (os', rest) = getopt_all optstring args' in (os @ (c, Some a) # os', rest))))"

end
