(* ===== verification/X52d_Comm.thy ===== *)
theory X52d_Comm
  imports X52_Prelude
begin

text \<open>
  The communication library of the daemon (\<open>daemon/x52d_comm_internal.c\<close>,
  \<open>daemon/x52d_comm_client.c\<close>): socket addresses, the wire format of commands (the arguments
  one after the other, each with its NUL), splitting a message back into arguments, and the
  exchange of a command and its response.

  System calls are not code of the repository: \<open>'w posix\<close> is a record of the calls the sources
  make, each a function of the state of the world that gives an error number (\<open>Inl\<close>) or a
  value (\<open>Inr\<close>) and the state afterwards. A call repeated while it is interrupted may repeat
  for ever; then its value is \<open>None\<close>.
\<close>

section \<open>System calls\<close>

type_synonym bytes = "char list"
type_synonym ('a, 'w) sys = "'w \<Rightarrow> (int + 'a) \<times> 'w"

abbreviation NUL :: char where "NUL \<equiv> CHR 0x00"

abbreviation (input) EINTR :: int where "EINTR \<equiv> 4"
abbreviation (input) E2BIG :: int where "E2BIG \<equiv> 7"
abbreviation (input) EINVAL_errno :: int where "EINVAL_errno \<equiv> 22"

record 'w posix =
  sys_socket :: "(int, 'w) sys"
  sys_connect :: "int \<Rightarrow> string \<Rightarrow> int \<Rightarrow> (unit, 'w) sys"
  sys_bind :: "int \<Rightarrow> string \<Rightarrow> int \<Rightarrow> (unit, 'w) sys"
  sys_listen :: "int \<Rightarrow> int \<Rightarrow> (unit, 'w) sys"
  sys_accept :: "int \<Rightarrow> (int, 'w) sys"
  sys_getfl :: "int \<Rightarrow> (int, 'w) sys"
  sys_set_nonblock :: "int \<Rightarrow> int \<Rightarrow> (unit, 'w) sys"
  sys_close :: "int \<Rightarrow> (unit, 'w) sys"
  sys_unlink :: "string \<Rightarrow> (unit, 'w) sys"
  sys_send :: "int \<Rightarrow> bytes \<Rightarrow> (int, 'w) sys"
  sys_recv :: "int \<Rightarrow> nat \<Rightarrow> (bytes, 'w) sys"
  sys_read :: "int \<Rightarrow> nat \<Rightarrow> (bytes, 'w) sys"
  sys_write :: "int \<Rightarrow> bytes \<Rightarrow> (int, 'w) sys"
  sys_pipe :: "(int \<times> int, 'w) sys"
  sys_poll :: "(int \<times> u16) list \<Rightarrow> (int \<times> u16 list, 'w) sys"
  sys_so_error :: "int \<Rightarrow> (int, 'w) sys"

text \<open>Calling again after \<open>EINTR\<close>.\<close>

partial_function (option) retry_eintr :: "('a, 'w) sys \<Rightarrow> 'w \<Rightarrow> ((int + 'a) \<times> 'w) option" where
  "retry_eintr call w =
     (let (r, w') = call w in
      if r = Inl EINTR then retry_eintr call w' else Some (r, w'))"

lemma retry_eintr_inv:
  assumes "retry_eintr call w = Some x"
  shows "(\<forall>w. Q w \<longrightarrow> Q (snd (call w))) \<Longrightarrow> Q w \<Longrightarrow> Q (snd x)"
proof -
  have "(\<forall>w. Q w \<longrightarrow> Q (snd (call w))) \<longrightarrow> Q w \<longrightarrow> Q (snd x)"
    by (rule retry_eintr.raw_induct [where P = "\<lambda>call w x. (\<forall>w. Q w \<longrightarrow> Q (snd (call w))) \<longrightarrow>
        Q w \<longrightarrow> Q (snd x)", OF _ assms])
      (auto split: prod.splits if_splits, metis snd_conv)
  then show "(\<forall>w. Q w \<longrightarrow> Q (snd (call w))) \<Longrightarrow> Q w \<Longrightarrow> Q (snd x)" by blast
qed

section \<open>Socket addresses\<close>

definition X52D_BUFSZ :: nat where "X52D_BUFSZ = 1024"
definition SUN_PATH_SIZE :: nat where "SUN_PATH_SIZE = 108"

text \<open>\<open>RUNDIR\<close> is set when the program is built.\<close>

definition x52d_command_sock_path :: "string \<Rightarrow> string option \<Rightarrow> string" where
  "x52d_command_sock_path rundir sock_path =
     (case sock_path of None \<Rightarrow> rundir @ ''/x52d.cmd'' | Some p \<Rightarrow> p)"

definition x52d_notify_sock_path :: "string \<Rightarrow> string option \<Rightarrow> string" where
  "x52d_notify_sock_path rundir sock_path =
     (case sock_path of None \<Rightarrow> rundir @ ''/x52d.notify'' | Some p \<Rightarrow> p)"

text \<open>
  The address is its path; \<open>sun_family\<close> is always \<open>AF_UNIX\<close>, of two bytes. The flag tells
  whether \<open>remote\<close> is not NULL.
\<close>

definition setup_sockaddr :: "bool \<Rightarrow> string \<Rightarrow> int + (int \<times> string)" where
  "setup_sockaddr remote_ok sock_path =
     (if \<not> remote_ok then Inl EINVAL_errno
      else if SUN_PATH_SIZE \<le> length sock_path then Inl E2BIG
      else Inr (int (length sock_path) + 2, sock_path))"

definition x52d_setup_command_sock :: "string \<Rightarrow> string option \<Rightarrow> bool \<Rightarrow> int + (int \<times> string)" where
  "x52d_setup_command_sock rundir sock_path remote_ok =
     setup_sockaddr remote_ok (x52d_command_sock_path rundir sock_path)"

definition x52d_setup_notify_sock :: "string \<Rightarrow> string option \<Rightarrow> bool \<Rightarrow> int + (int \<times> string)" where
  "x52d_setup_notify_sock rundir sock_path remote_ok =
     setup_sockaddr remote_ok (x52d_notify_sock_path rundir sock_path)"

text \<open>Returns 0 or -1; a failure closes the descriptor.\<close>

definition x52d_set_socket_nonblocking :: "'w posix \<Rightarrow> int \<Rightarrow> 'w \<Rightarrow> int \<times> 'w" where
  "x52d_set_socket_nonblocking P sock_fd w =
     (case sys_getfl P sock_fd w of
        (Inl _, w1) \<Rightarrow> (-1, snd (sys_close P sock_fd w1))
      | (Inr flags, w1) \<Rightarrow>
          (case sys_set_nonblock P sock_fd flags w1 of
             (Inl _, w2) \<Rightarrow> (-1, snd (sys_close P sock_fd w2))
           | (Inr _, w2) \<Rightarrow> (0, w2)))"

definition X52D_MAX_CLIENTS :: nat where "X52D_MAX_CLIENTS = 63"

definition x52d_listen_socket :: "'w posix \<Rightarrow> string \<Rightarrow> int \<Rightarrow> int \<Rightarrow> 'w \<Rightarrow> int \<times> 'w" where
  "x52d_listen_socket P sun_path len sock_fd w =
     (let w1 = snd (sys_unlink P sun_path w) in
      case sys_bind P sock_fd sun_path len w1 of
        (Inl _, w2) \<Rightarrow> (-1, w2)
      | (Inr _, w2) \<Rightarrow>
          (case sys_listen P sock_fd (int X52D_MAX_CLIENTS) w2 of
             (Inl _, w3) \<Rightarrow> (-1, w3)
           | (Inr _, w3) \<Rightarrow> (0, w3)))"

definition setup_socket :: "'w posix \<Rightarrow> string \<Rightarrow> int \<Rightarrow> (int, 'w) sys" where
  "setup_socket P sun_path len w =
     (case sys_socket P w of
        (Inl e, w1) \<Rightarrow> (Inl e, w1)
      | (Inr sock, w1) \<Rightarrow>
          (case sys_connect P sock sun_path len w1 of
             (Inl e, w2) \<Rightarrow> (Inl e, snd (sys_close P sock w2))
           | (Inr _, w2) \<Rightarrow> (Inr sock, w2)))"

definition x52d_dial_command :: "'w posix \<Rightarrow> string \<Rightarrow> string option \<Rightarrow> (int, 'w) sys" where
  "x52d_dial_command P rundir sock_path w =
     (case x52d_setup_command_sock rundir sock_path True of
        Inl e \<Rightarrow> (Inl e, w)
      | Inr (len, addr) \<Rightarrow> setup_socket P addr len w)"

definition x52d_dial_notify :: "'w posix \<Rightarrow> string \<Rightarrow> string option \<Rightarrow> (int, 'w) sys" where
  "x52d_dial_notify P rundir sock_path w =
     (case x52d_setup_notify_sock rundir sock_path True of
        Inl e \<Rightarrow> (Inl e, w)
      | Inr (len, addr) \<Rightarrow> setup_socket P addr len w)"

section \<open>Formatting and splitting messages\<close>

text \<open>
  A string argument is copied with its NUL. The first component is the message so far, the
  part \<open>buffer[0..msglen)\<close>; the rest of the buffer is zero.
\<close>

fun format_loop :: "nat \<Rightarrow> string list \<Rightarrow> bytes \<Rightarrow> int + bytes" where
  "format_loop buflen [] msg = Inr msg"
| "format_loop buflen (arg # args) msg =
     (let arglen = length arg + 1 in
      if buflen \<le> length msg + arglen then Inl E2BIG
      else format_loop buflen args (msg @ arg @ [NUL]))"

text \<open>\<open>None\<close> is a NULL argument vector; the flag tells that the buffer is not NULL.\<close>

definition x52d_format_command ::
  "string list option \<Rightarrow> bool \<Rightarrow> nat \<Rightarrow> int + (nat \<times> bytes)" where
  "x52d_format_command argv buffer_ok buflen =
     (case argv of
        None \<Rightarrow> Inl EINVAL_errno
      | Some args \<Rightarrow>
          if args = [] \<or> \<not> buffer_ok \<or> buflen < X52D_BUFSZ then Inl EINVAL_errno
          else case format_loop buflen args [] of
            Inl e \<Rightarrow> Inl e
          | Inr msg \<Rightarrow> Inr (length msg, msg @ replicate (buflen - length msg) NUL))"

text \<open>
  The argument vector is a list of positions in the buffer. A position stands for the C
  string from there to the next NUL, which a message that fills the buffer may lack.
\<close>

function skip_arg :: "bytes \<Rightarrow> nat \<Rightarrow> nat \<Rightarrow> nat" where
  "skip_arg buffer buflen i =
     (if i < buflen \<and> buffer ! i \<noteq> NUL then skip_arg buffer buflen (i + 1) else i)"
  by pat_completeness auto
termination by (relation "measure (\<lambda>(buffer, buflen, i). buflen - i)") auto

declare skip_arg.simps [simp del]

lemma skip_arg_ge: "i \<le> skip_arg buffer buflen i"
proof (induction buffer buflen i rule: skip_arg.induct)
  case (1 buffer buflen i)
  then show ?case by (subst skip_arg.simps) auto
qed

function split_from :: "bytes \<Rightarrow> nat \<Rightarrow> nat \<Rightarrow> nat list \<Rightarrow> nat list" where
  "split_from buffer buflen i argv =
     (if i < buflen then
        if buffer ! i \<noteq> NUL then split_from buffer buflen (skip_arg buffer buflen i + 1) (argv @ [i])
        else split_from buffer buflen (i + 1) (argv @ [i])
      else argv)"
  by pat_completeness auto
termination
  by (relation "measure (\<lambda>(buffer, buflen, i, argv). buflen - i)")
    (auto simp: less_Suc_eq_le skip_arg_ge intro!: diff_less_mono2)

declare split_from.simps [simp del]

text \<open>Called with \<open>*argc\<close> of 0, the length of the result is \<open>*argc\<close> afterwards.\<close>

definition x52d_split_args :: "bytes \<Rightarrow> nat \<Rightarrow> nat list" where
  "x52d_split_args buffer buflen = split_from buffer buflen 0 []"

text \<open>The C string at a position, when the buffer terminates it.\<close>

definition cstring_at :: "bytes \<Rightarrow> nat \<Rightarrow> string option" where
  "cstring_at buffer i =
     (if NUL \<in> set (drop i buffer) then Some (takeWhile (\<lambda>c. c \<noteq> NUL) (drop i buffer)) else None)"

section \<open>Exchanging messages\<close>

definition x52d_send_command ::
  "'w posix \<Rightarrow> int \<Rightarrow> bytes \<Rightarrow> nat \<Rightarrow> 'w \<Rightarrow> ((int + bytes) \<times> 'w) option" where
  "x52d_send_command P sock_fd message bufout w =
     (case retry_eintr (sys_send P sock_fd message) w of
        None \<Rightarrow> None
      | Some (Inl e, w1) \<Rightarrow> Some (Inl e, w1)
      | Some (Inr _, w1) \<Rightarrow> retry_eintr (sys_recv P sock_fd bufout) w1)"

text \<open>
  \<open>argc\<close> is an automatic variable without an initial value, \<open>argc0\<close> here: the positions are
  stored from \<open>argv[argc0]\<close> on and the callback is told \<open>argc0\<close> more than there are.
\<close>

definition x52d_recv_notification ::
  "'w posix \<Rightarrow> int \<Rightarrow> (int \<Rightarrow> (int \<times> nat) list \<Rightarrow> bytes \<Rightarrow> int) option \<Rightarrow> int \<Rightarrow> 'w \<Rightarrow> ((int + int) \<times> 'w) option"
where
  "x52d_recv_notification P sock_fd callback argc0 w =
     (case callback of
        None \<Rightarrow> Some (Inl EINVAL_errno, w)
      | Some cb \<Rightarrow>
          (case retry_eintr (sys_recv P sock_fd X52D_BUFSZ) w of
             None \<Rightarrow> None
           | Some (Inl e, w1) \<Rightarrow> Some (Inl e, w1)
           | Some (Inr buffer, w1) \<Rightarrow>
               (let argv = x52d_split_args buffer (length buffer) in
                Some (Inr (cb (argc0 + int (length argv))
                   (zip (map (\<lambda>k. argc0 + int k) [0..<length argv]) argv) buffer), w1))))"

section \<open>The round trip\<close>

text \<open>The bytes of a message, and the positions of its arguments after \<open>n\<close> bytes.\<close>

definition wire :: "string list \<Rightarrow> bytes" where
  "wire args = concat (map (\<lambda>a. a @ [NUL]) args)"

fun arg_positions :: "nat \<Rightarrow> string list \<Rightarrow> nat list" where
  "arg_positions n [] = []"
| "arg_positions n (a # as) = n # arg_positions (n + length a + 1) as"

lemma wire_simps [simp]: "wire [] = []" "wire (a # as) = a @ NUL # wire as"
  by (simp_all add: wire_def)

lemma format_loop_wire:
  "format_loop buflen args msg =
    (if args = [] \<or> length msg + length (wire args) < buflen then Inr (msg @ wire args) else Inl E2BIG)"
  by (induction buflen args msg rule: format_loop.induct) auto

lemma x52d_format_command_wire:
  assumes "args \<noteq> []" and "X52D_BUFSZ \<le> buflen"
  shows "x52d_format_command (Some args) True buflen =
    (if length (wire args) < buflen
     then Inr (length (wire args), wire args @ replicate (buflen - length (wire args)) NUL)
     else Inl E2BIG)"
  using assms by (simp add: x52d_format_command_def format_loop_wire)

lemma skip_arg_stops:
  assumes "\<forall>c \<in> set a. c \<noteq> NUL" and "length pre + length a < n"
  shows "skip_arg (pre @ a @ NUL # post) n (length pre) = length pre + length a"
  using assms
proof (induction a arbitrary: pre)
  case Nil
  then show ?case by (subst skip_arg.simps) simp
next
  case (Cons c a)
  from Cons.IH [of "pre @ [c]"] Cons.prems show ?case
    by (subst skip_arg.simps) (simp add: nth_append)
qed

text \<open>Splitting a message of whole arguments finds each of them.\<close>

lemma split_from_wire:
  assumes "\<forall>a \<in> set args. \<forall>c \<in> set a. c \<noteq> NUL"
  shows "split_from (pre @ wire args @ post) (length pre + length (wire args)) (length pre) argv
    = argv @ arg_positions (length pre) args"
  using assms
proof (induction args arbitrary: pre argv)
  case Nil
  then show ?case by (subst split_from.simps) simp
next
  case (Cons a args)
  let ?buf = "pre @ a @ NUL # wire args @ post"
  let ?n = "length pre + length (wire (a # args))"
  have "split_from ?buf ?n (length pre) argv =
      split_from ?buf ?n (length pre + length a + 1) (argv @ [length pre])"
  proof (cases a)
    case Nil
    then show ?thesis by (subst split_from.simps) (simp add: nth_append)
  next
    case (Cons c cs)
    have "skip_arg ?buf ?n (length pre) = length pre + length a"
      by (rule skip_arg_stops) (use Cons.prems in simp_all)
    with Cons Cons.prems show ?thesis
      by (subst split_from.simps) (simp add: nth_append)
  qed
  also have "\<dots> = argv @ arg_positions (length pre) (a # args)"
    using Cons.IH [of "pre @ a @ [NUL]" "argv @ [length pre]"] Cons.prems by (simp add: ac_simps)
  finally show ?case by simp
qed

lemma cstring_at_wire:
  assumes "\<forall>a \<in> set args. \<forall>c \<in> set a. c \<noteq> NUL"
  shows "map (cstring_at (pre @ wire args @ post)) (arg_positions (length pre) args) = map Some args"
  using assms
proof (induction args arbitrary: pre)
  case (Cons a args)
  have "cstring_at (pre @ wire (a # args) @ post) (length pre) = Some a"
    using Cons.prems by (simp add: cstring_at_def takeWhile_append2)
  moreover have "map (cstring_at (pre @ wire (a # args) @ post))
      (arg_positions (length pre + length a + 1) args) = map Some args"
    using Cons.IH [of "pre @ a @ [NUL]"] Cons.prems by (simp add: ac_simps)
  ultimately show ?case by simp
qed simp

lemma format_split:
  assumes "args \<noteq> []" and "\<forall>a \<in> set args. \<forall>c \<in> set a. c \<noteq> NUL"
  shows "(if length (wire args) < X52D_BUFSZ
     then \<exists>n buf. x52d_format_command (Some args) True X52D_BUFSZ = Inr (n, buf) \<and>
       length buf = X52D_BUFSZ \<and> map (cstring_at buf) (x52d_split_args buf n) = map Some args
     else x52d_format_command (Some args) True X52D_BUFSZ = Inl E2BIG)"
proof (cases "length (wire args) < X52D_BUFSZ")
  case True
  let ?buf = "wire args @ replicate (X52D_BUFSZ - length (wire args)) NUL"
  have "x52d_split_args ?buf (length (wire args)) = arg_positions 0 args"
    using split_from_wire [OF assms(2), of "[]" _ "[]"] by (simp add: x52d_split_args_def)
  then have "map (cstring_at ?buf) (x52d_split_args ?buf (length (wire args))) = map Some args"
    using cstring_at_wire [OF assms(2), of "[]"] by simp
  with True show ?thesis using x52d_format_command_wire [OF assms(1) order_refl] by simp
next
  case False
  with x52d_format_command_wire [OF assms(1) order_refl] show ?thesis by simp
qed

text \<open>
  C21:
  Round trip of commands. Arguments without NULs, at least one, that take less than 1024 bytes
  with their NULs, are formatted, and splitting the message gives back exactly these
  arguments; a longer list is refused with \<open>E2BIG\<close>.
\<close>

theorem x52d_command_roundtrip:
  assumes "args \<noteq> []" and "\<forall>a \<in> set args. \<forall>c \<in> set a. c \<noteq> NUL"
  shows "(if length (wire args) < X52D_BUFSZ
     then \<exists>n buf. x52d_format_command (Some args) True X52D_BUFSZ = Inr (n, buf) \<and>
       length buf = X52D_BUFSZ \<and> map (cstring_at buf) (x52d_split_args buf n) = map Some args
     else x52d_format_command (Some args) True X52D_BUFSZ = Inl E2BIG)"
  using assms by (rule format_split)

lemma x52d_command_roundtrip_witness:
  "\<exists>n buf. x52d_format_command (Some [''config'', ''set'', ''clock'', ''enabled'', ''on'']) True X52D_BUFSZ
      = Inr (n, buf) \<and>
    map (cstring_at buf) (x52d_split_args buf n)
      = map Some [''config'', ''set'', ''clock'', ''enabled'', ''on'']"
  using x52d_command_roundtrip [of "[''config'', ''set'', ''clock'', ''enabled'', ''on'']"]
  by (auto simp: X52D_BUFSZ_def)

text \<open>
  Splitting any received bytes stores at most one position per byte, so the argument vector of
  1024 entries is never overrun, and the positions ascend and lie inside the message.
\<close>

lemma x52d_split_args_bounds:
  "length (x52d_split_args buffer n) \<le> n \<and> sorted_wrt (<) (x52d_split_args buffer n) \<and>
   list_all (\<lambda>i. i < n) (x52d_split_args buffer n)"
proof -
  have "sorted_wrt (<) (split_from buffer n i argv) \<and> list_all (\<lambda>i. i < n) (split_from buffer n i argv)"
    if "sorted_wrt (<) argv" "list_all (\<lambda>j. j < i \<and> j < n) argv" for i argv
    using that
  proof (induction buffer n i argv rule: split_from.induct)
    case (1 buffer n i argv)
    show ?case
    proof (cases "i < n")
      case False
      with "1.prems" show ?thesis by (subst (1 2) split_from.simps) (simp add: list_all_iff)
    next
      case True
      define k where "k = (if buffer ! i \<noteq> NUL then skip_arg buffer n i + 1 else i + 1)"
      have k: "i < k" using skip_arg_ge [of i buffer n] by (simp add: k_def)
      have "split_from buffer n i argv = split_from buffer n k (argv @ [i])"
        using True by (subst split_from.simps) (simp add: k_def)
      moreover have "sorted_wrt (<) (argv @ [i])" "list_all (\<lambda>j. j < k \<and> j < n) (argv @ [i])"
        using "1.prems" k True by (auto simp: sorted_wrt_append list_all_iff)
      ultimately show ?thesis using "1.IH" True by (auto simp: k_def split: if_splits)
    qed
  qed
  from this [of "[]" 0] have s: "sorted_wrt (<) (x52d_split_args buffer n)"
    "list_all (\<lambda>i. i < n) (x52d_split_args buffer n)" by (simp_all add: x52d_split_args_def)
  have "distinct (x52d_split_args buffer n)" using s(1) by (simp add: strict_sorted_iff)
  moreover have "set (x52d_split_args buffer n) \<subseteq> {..<n}" using s(2) by (auto simp: list_all_iff)
  ultimately have "length (x52d_split_args buffer n) \<le> n"
    by (metis card_lessThan card_mono distinct_card finite_lessThan)
  with s show ?thesis by simp
qed

end
