(* ===== verification/X52d_Client.thy ===== *)
theory X52d_Client
  imports X52d_Comm
begin

text \<open>
  The table of connected clients (\<open>daemon/x52d_client.c\<close>): registering an accepted connection,
  dropping one, polling the listening socket together with the clients, and acting on what
  the poll reports. The command server and the notification server each have such a table.

  A \<open>struct pollfd\<close> is the record below; \<open>poll\<close> gets the descriptors and their events and gives
  the number of ready ones and their \<open>revents\<close>, in the same order.
\<close>

section \<open>The table\<close>

definition MAX_CONN :: nat where "MAX_CONN = X52D_MAX_CLIENTS + 1"
definition INVALID_CLIENT :: int where "INVALID_CLIENT = -1"

definition POLLIN :: u16 where "POLLIN = 0x001"
definition POLLERR :: u16 where "POLLERR = 0x008"
definition POLLHUP :: u16 where "POLLHUP = 0x010"

record pollfd =
  pfd_fd :: int
  pfd_events :: u16
  pfd_revents :: u16

definition x52d_client_init :: "int list \<Rightarrow> int list" where
  "x52d_client_init client_fd = map (\<lambda>_. INVALID_CLIENT) client_fd"

text \<open>The first free slot gets the descriptor; \<open>None\<close> when there is none.\<close>

fun fill_slot :: "int \<Rightarrow> int list \<Rightarrow> int list option" where
  "fill_slot fd [] = None"
| "fill_slot fd (c # cs) =
     (if c = INVALID_CLIENT then Some (fd # cs) else map_option ((#) c) (fill_slot fd cs))"

definition x52d_client_register :: "'w posix \<Rightarrow> int list \<Rightarrow> int \<Rightarrow> 'w \<Rightarrow> bool \<times> int list \<times> 'w" where
  "x52d_client_register P client_fd sock_fd w =
     (case sys_accept P sock_fd w of
        (Inl _, w1) \<Rightarrow> (False, client_fd, w1)
      | (Inr fd, w1) \<Rightarrow>
          (let (rc, w2) = x52d_set_socket_nonblocking P fd w1 in
           if rc < 0 then (False, client_fd, snd (sys_close P fd w2))
           else case fill_slot fd client_fd of
             Some client_fd' \<Rightarrow> (True, client_fd', w2)
           | None \<Rightarrow> (False, client_fd, snd (sys_close P fd w2))))"

text \<open>The table without the first entry that is \<open>fd\<close>, if there is one.\<close>

fun clear_slot :: "int \<Rightarrow> int list \<Rightarrow> int list option" where
  "clear_slot fd [] = None"
| "clear_slot fd (c # cs) =
     (if c = fd then Some (INVALID_CLIENT # cs) else map_option ((#) c) (clear_slot fd cs))"

definition x52d_client_deregister :: "'w posix \<Rightarrow> int list \<Rightarrow> int \<Rightarrow> 'w \<Rightarrow> bool \<times> int list \<times> 'w" where
  "x52d_client_deregister P client_fd fd w =
     (case clear_slot fd client_fd of
        None \<Rightarrow> (False, client_fd, w)
      | Some client_fd' \<Rightarrow> (True, client_fd', snd (sys_close P fd w)))"

definition x52d_client_error :: "'w posix \<Rightarrow> int list \<Rightarrow> int \<Rightarrow> 'w \<Rightarrow> bool \<times> int list \<times> 'w" where
  "x52d_client_error P client_fd fd w =
     (let w1 = snd (sys_so_error P fd w) in x52d_client_deregister P client_fd fd w1)"

section \<open>Polling\<close>

text \<open>The entries that are polled: the listening socket, then the clients in slot order.\<close>

definition poll_set :: "int list \<Rightarrow> int \<Rightarrow> pollfd list" where
  "poll_set client_fd listen_fd =
     \<lparr> pfd_fd = listen_fd, pfd_events = POLLIN OR POLLERR, pfd_revents = 0 \<rparr> #
     map (\<lambda>fd. \<lparr> pfd_fd = fd, pfd_events = POLLIN OR POLLERR OR POLLHUP, pfd_revents = 0 \<rparr>)
       (filter (\<lambda>fd. fd \<noteq> INVALID_CLIENT) client_fd)"

definition pollfd_zero :: pollfd where
  "pollfd_zero = \<lparr> pfd_fd = 0, pfd_events = 0, pfd_revents = 0 \<rparr>"

text \<open>
  The result of \<open>poll\<close> and the array of \<open>MAX_CONN\<close> entries; \<open>None\<close> when the call is interrupted
  for ever.
\<close>

definition x52d_client_poll ::
  "'w posix \<Rightarrow> int list \<Rightarrow> int \<Rightarrow> 'w \<Rightarrow> (int \<times> pollfd list \<times> 'w) option" where
  "x52d_client_poll P client_fd listen_fd w =
     (let pfd = poll_set client_fd listen_fd;
          rest = replicate (MAX_CONN - length pfd) pollfd_zero
      in case retry_eintr (sys_poll P (map (\<lambda>p. (pfd_fd p, pfd_events p)) pfd)) w of
           None \<Rightarrow> None
         | Some (Inl _, w1) \<Rightarrow> Some (-1, pfd @ rest, w1)
         | Some (Inr (rc, revs), w1) \<Rightarrow>
             Some (rc, map2 (\<lambda>p r. p \<lparr> pfd_revents := r \<rparr>) pfd revs @ rest, w1))"

text \<open>One iteration of the loop over the array, and the loop. \<open>None\<close> is a NULL handler.\<close>

definition handle_pfd ::
  "'w posix \<Rightarrow> int \<Rightarrow> (int \<Rightarrow> 'w \<Rightarrow> 'w) option \<Rightarrow> pollfd \<Rightarrow> int list \<times> 'w \<Rightarrow> int list \<times> 'w" where
  "handle_pfd P listen_fd handler p st =
     (let (client_fd, w) = st in
      if pfd_revents p AND POLLHUP \<noteq> 0 then snd (x52d_client_deregister P client_fd (pfd_fd p) w)
      else if pfd_revents p AND POLLERR \<noteq> 0 then snd (x52d_client_error P client_fd (pfd_fd p) w)
      else if pfd_revents p AND POLLIN \<noteq> 0 then
        (if pfd_fd p = listen_fd then snd (x52d_client_register P client_fd listen_fd w)
         else case handler of None \<Rightarrow> (client_fd, w) | Some h \<Rightarrow> (client_fd, h (pfd_fd p) w))
      else (client_fd, w))"

definition x52d_client_handle ::
  "'w posix \<Rightarrow> int list \<Rightarrow> pollfd list \<Rightarrow> int \<Rightarrow> (int \<Rightarrow> 'w \<Rightarrow> 'w) option \<Rightarrow> 'w \<Rightarrow> int list \<times> 'w" where
  "x52d_client_handle P client_fd pfd listen_fd handler w =
     fold (handle_pfd P listen_fd handler) (take MAX_CONN pfd) (client_fd, w)"

section \<open>No descriptor is lost\<close>

text \<open>
  What the operating system documents about descriptors, with \<open>opens w\<close> the open descriptors of
  the process: \<open>accept\<close> opens a new one, \<open>close\<close> closes one, the other calls leave them alone.
\<close>

definition fd_laws :: "'w posix \<Rightarrow> ('w \<Rightarrow> int set) \<Rightarrow> bool" where
  "fd_laws P opens \<longleftrightarrow>
     (\<forall>s w. case sys_accept P s w of
        (Inl _, w') \<Rightarrow> opens w' = opens w
      | (Inr fd, w') \<Rightarrow> 0 \<le> fd \<and> fd \<notin> opens w \<and> opens w' = insert fd (opens w)) \<and>
     (\<forall>fd w. opens (snd (sys_close P fd w)) = opens w - {fd}) \<and>
     (\<forall>fd w. opens (snd (sys_getfl P fd w)) = opens w) \<and>
     (\<forall>fd fl w. opens (snd (sys_set_nonblock P fd fl w)) = opens w) \<and>
     (\<forall>fd w. opens (snd (sys_so_error P fd w)) = opens w) \<and>
     (\<forall>ps w. opens (snd (sys_poll P ps w)) = opens w)"

text \<open>
  The clients are distinct open descriptors, and every open descriptor is a client or one of
  the daemon's own (\<open>own\<close>).
\<close>

definition table_ok :: "('w \<Rightarrow> int set) \<Rightarrow> int set \<Rightarrow> int list \<Rightarrow> 'w \<Rightarrow> bool" where
  "table_ok opens own client_fd w \<longleftrightarrow>
     length client_fd = X52D_MAX_CLIENTS \<and>
     distinct (filter (\<lambda>fd. fd \<noteq> INVALID_CLIENT) client_fd) \<and>
     INVALID_CLIENT \<notin> own \<and> own \<inter> set client_fd = {} \<and>
     opens w = own \<union> (set client_fd - {INVALID_CLIENT})"

lemma fill_slot_Some:
  "fill_slot fd cs = Some cs' \<Longrightarrow> \<exists>as bs. cs = as @ INVALID_CLIENT # bs \<and> cs' = as @ fd # bs"
proof (induction cs arbitrary: cs')
  case (Cons c cs)
  show ?case
  proof (cases "c = INVALID_CLIENT")
    case True
    with Cons.prems have "c # cs = [] @ INVALID_CLIENT # cs" "cs' = [] @ fd # cs" by simp_all
    then show ?thesis by blast
  next
    case False
    with Cons obtain as bs where "cs = as @ INVALID_CLIENT # bs" "cs' = c # as @ fd # bs" by auto
    then have "c # cs = (c # as) @ INVALID_CLIENT # bs" "cs' = (c # as) @ fd # bs" by simp_all
    then show ?thesis by blast
  qed
qed simp

lemma fill_slot_None: "fill_slot fd cs = None \<longleftrightarrow> INVALID_CLIENT \<notin> set cs"
  by (induction cs) auto

lemma clear_slot_Some:
  "clear_slot fd cs = Some cs' \<Longrightarrow> \<exists>as bs. cs = as @ fd # bs \<and> cs' = as @ INVALID_CLIENT # bs"
proof (induction cs arbitrary: cs')
  case (Cons c cs)
  show ?case
  proof (cases "c = fd")
    case True
    with Cons.prems have "c # cs = [] @ fd # cs" "cs' = [] @ INVALID_CLIENT # cs" by simp_all
    then show ?thesis by blast
  next
    case False
    with Cons obtain as bs where "cs = as @ fd # bs" "cs' = c # as @ INVALID_CLIENT # bs" by auto
    then have "c # cs = (c # as) @ fd # bs" "cs' = (c # as) @ INVALID_CLIENT # bs" by simp_all
    then show ?thesis by blast
  qed
qed simp

lemma table_register_slot:
  assumes "table_ok opens own (as @ INVALID_CLIENT # bs) w"
    and "fd \<notin> opens w" and "0 \<le> fd" and "opens w' = insert fd (opens w)"
  shows "table_ok opens own (as @ fd # bs) w'"
  using assms by (auto simp: table_ok_def INVALID_CLIENT_def)

lemma table_deregister_slot:
  assumes "table_ok opens own (as @ fd # bs) w" and "fd \<noteq> INVALID_CLIENT"
    and "opens w' = opens w - {fd}"
  shows "table_ok opens own (as @ INVALID_CLIENT # bs) w'"
  using assms by (auto simp: table_ok_def INVALID_CLIENT_def)

lemma table_ok_opens:
  "table_ok opens own cs w \<Longrightarrow> opens w' = opens w \<Longrightarrow> table_ok opens own cs w'"
  by (simp add: table_ok_def)

lemma nonblocking_opens:
  assumes "fd_laws P opens" and "x52d_set_socket_nonblocking P fd w = (rc, w')"
  shows "(rc = 0 \<and> opens w' = opens w) \<or> (rc = -1 \<and> opens w' = opens w - {fd})"
proof -
  have laws: "opens (snd (sys_close P fd w)) = opens w - {fd}" "opens (snd (sys_getfl P fd w)) = opens w"
    "opens (snd (sys_set_nonblock P fd fl w)) = opens w" for w fl
    using assms(1) by (simp_all add: fd_laws_def)
  show ?thesis using assms(2) laws(1) laws(2) [of w] laws(3)
    unfolding x52d_set_socket_nonblocking_def
    by (auto split: prod.splits sum.splits) (metis snd_conv)+
qed

lemma register_table_ok:
  assumes laws: "fd_laws P opens" and ok: "table_ok opens own cs w"
    and reg: "x52d_client_register P cs sock w = (r, cs', w')"
  shows "table_ok opens own cs' w'"
proof -
  obtain a w1 where acc: "sys_accept P sock w = (a, w1)" by (rule prod.exhaust)
  have law: "case sys_accept P sock w of (Inl _, w') \<Rightarrow> opens w' = opens w
    | (Inr fd, w') \<Rightarrow> 0 \<le> fd \<and> fd \<notin> opens w \<and> opens w' = insert fd (opens w)"
    using laws by (simp add: fd_laws_def)
  show ?thesis
  proof (cases a)
    case (Inl e)
    with law acc have "opens w1 = opens w" by simp
    with Inl acc reg ok show ?thesis by (auto simp: x52d_client_register_def intro: table_ok_opens)
  next
    case (Inr fd)
    with law acc have w1: "0 \<le> fd" "fd \<notin> opens w" "opens w1 = insert fd (opens w)" by simp_all
    obtain rc w2 where nb: "x52d_set_socket_nonblocking P fd w1 = (rc, w2)" by (rule prod.exhaust)
    have close: "opens (snd (sys_close P fd w2)) = opens w2 - {fd}"
      using laws by (simp add: fd_laws_def)
    have closed: "table_ok opens own cs (snd (sys_close P fd w2))"
      using nonblocking_opens [OF laws nb] w1 close by (intro table_ok_opens [OF ok]) auto
    show ?thesis
    proof (cases "rc < 0")
      case True
      with reg acc Inr nb closed show ?thesis by (simp add: x52d_client_register_def)
    next
      case False
      with nonblocking_opens [OF laws nb] have w2: "opens w2 = insert fd (opens w)" using w1 by auto
      show ?thesis
      proof (cases "fill_slot fd cs")
        case None
        with reg acc Inr nb False closed show ?thesis by (simp add: x52d_client_register_def)
      next
        case (Some cs2)
        with fill_slot_Some obtain as bs where "cs = as @ INVALID_CLIENT # bs" "cs2 = as @ fd # bs"
          by blast
        with ok w1(2,1) w2 have "table_ok opens own cs2 w2" by (auto intro: table_register_slot)
        with Some reg acc Inr nb False show ?thesis by (simp add: x52d_client_register_def)
      qed
    qed
  qed
qed

lemma deregister_table_ok:
  assumes laws: "fd_laws P opens" and ok: "table_ok opens own cs w" and fd: "fd \<noteq> INVALID_CLIENT"
    and dereg: "x52d_client_deregister P cs fd w = (r, cs', w')"
  shows "table_ok opens own cs' w'"
proof (cases "clear_slot fd cs")
  case None
  with dereg ok show ?thesis by (simp add: x52d_client_deregister_def)
next
  case (Some cs2)
  with clear_slot_Some obtain as bs where cs: "cs = as @ fd # bs" "cs2 = as @ INVALID_CLIENT # bs"
    by blast
  have "opens (snd (sys_close P fd w)) = opens w - {fd}" using laws by (simp add: fd_laws_def)
  with ok cs fd have "table_ok opens own cs2 (snd (sys_close P fd w))"
    by (auto intro: table_deregister_slot)
  with Some dereg show ?thesis by (simp add: x52d_client_deregister_def)
qed

lemma handle_pfd_table_ok:
  assumes laws: "fd_laws P opens" and ok: "table_ok opens own cs w"
    and fd: "pfd_fd p \<noteq> INVALID_CLIENT"
    and h: "case handler of None \<Rightarrow> True | Some h \<Rightarrow> (\<forall>fd w. opens (h fd w) = opens w)"
    and step: "handle_pfd P listen_fd handler p (cs, w) = (cs', w')"
  shows "table_ok opens own cs' w'"
proof -
  obtain r1 cs1 w1 where d: "x52d_client_deregister P cs (pfd_fd p) w = (r1, cs1, w1)"
    by (metis prod_cases3)
  obtain r2 cs2 w2 where e: "x52d_client_deregister P cs (pfd_fd p) (snd (sys_so_error P (pfd_fd p) w))
      = (r2, cs2, w2)" by (metis prod_cases3)
  obtain r3 cs3 w3 where g: "x52d_client_register P cs listen_fd w = (r3, cs3, w3)"
    by (metis prod_cases3)
  have "opens (snd (sys_so_error P (pfd_fd p) w)) = opens w" using laws by (simp add: fd_laws_def)
  with ok have "table_ok opens own cs (snd (sys_so_error P (pfd_fd p) w))" by (rule table_ok_opens)
  note tables = deregister_table_ok [OF laws ok fd d] deregister_table_ok [OF laws this fd e]
    register_table_ok [OF laws ok g]
  show ?thesis
  proof (cases handler)
    case None
    with step ok tables d e g show ?thesis
      by (auto simp: handle_pfd_def x52d_client_error_def split: if_splits)
  next
    case (Some f)
    with h ok have "table_ok opens own cs (f (pfd_fd p) w)" by (auto intro: table_ok_opens)
    with Some step ok tables d e g show ?thesis
      by (auto simp: handle_pfd_def x52d_client_error_def split: if_splits)
  qed
qed

lemma handle_table_ok:
  assumes laws: "fd_laws P opens"
    and h: "case handler of None \<Rightarrow> True | Some h \<Rightarrow> (\<forall>fd w. opens (h fd w) = opens w)"
  shows "table_ok opens own cs w \<Longrightarrow> list_all (\<lambda>p. pfd_fd p \<noteq> INVALID_CLIENT) ps \<Longrightarrow>
    fold (handle_pfd P listen_fd handler) ps (cs, w) = (cs', w') \<Longrightarrow> table_ok opens own cs' w'"
proof (induction ps arbitrary: cs w)
  case (Cons p ps)
  obtain cs1 w1 where s: "handle_pfd P listen_fd handler p (cs, w) = (cs1, w1)"
    by (rule prod.exhaust)
  with handle_pfd_table_ok [OF laws Cons.prems(1) _ h s] Cons show ?case by simp
qed simp

lemma poll_set_valid:
  "listen_fd \<noteq> INVALID_CLIENT \<Longrightarrow> list_all (\<lambda>p. pfd_fd p \<noteq> INVALID_CLIENT) (poll_set cs listen_fd)"
  by (simp add: poll_set_def list_all_iff)

lemma poll_valid:
  assumes "listen_fd \<noteq> INVALID_CLIENT" and "x52d_client_poll P cs listen_fd w = Some (rc, pfd, w')"
  shows "list_all (\<lambda>p. pfd_fd p \<noteq> INVALID_CLIENT) pfd"
proof -
  have "list_all (\<lambda>p. pfd_fd p \<noteq> INVALID_CLIENT) (map2 (\<lambda>p r. p \<lparr> pfd_revents := r \<rparr>) ps revs)"
    if "list_all (\<lambda>p. pfd_fd p \<noteq> INVALID_CLIENT) ps" for ps :: "pollfd list" and revs
    using that by (auto simp: list_all_iff dest: set_zip_leftD)
  moreover have "pfd_fd pollfd_zero \<noteq> INVALID_CLIENT"
    by (simp add: pollfd_zero_def INVALID_CLIENT_def)
  then have "list_all (\<lambda>p. pfd_fd p \<noteq> INVALID_CLIENT) (replicate n pollfd_zero)" for n
    by (simp add: list_all_iff)
  ultimately show ?thesis using assms(2) poll_set_valid [OF assms(1), of cs]
    by (auto simp: x52d_client_poll_def Let_def split: option.splits sum.splits)
qed

lemma poll_opens:
  assumes "fd_laws P opens" and "x52d_client_poll P cs listen_fd w = Some (rc, pfd, w')"
  shows "opens w' = opens w"
proof -
  let ?call = "sys_poll P (map (\<lambda>p. (pfd_fd p, pfd_events p)) (poll_set cs listen_fd))"
  from assms(2) obtain r where r: "retry_eintr ?call w = Some (r, w')"
    by (auto simp: x52d_client_poll_def Let_def split: option.splits sum.splits)
  have "opens (snd (?call v)) = opens v" for v using assms(1) by (simp add: fd_laws_def)
  with retry_eintr_inv [OF r, of "\<lambda>v. opens v = opens w"] show ?thesis by simp
qed

text \<open>
  C22:
  One round of a client server keeps the table in order, whatever the poll reports and
  whatever fails: the clients stay distinct open descriptors, and the process has no open
  descriptor besides its own and the clients', so no connection leaks and none is lost.
\<close>

theorem x52d_client_round:
  assumes laws: "fd_laws P opens" and "table_ok opens own cs w" and "listen_fd \<noteq> INVALID_CLIENT"
    and "\<forall>fd w. opens (h fd w) = opens w"
    and "x52d_client_poll P cs listen_fd w = Some (rc, pfd, w1)"
    and "x52d_client_handle P cs pfd listen_fd (Some h) w1 = (cs', w')"
  shows "table_ok opens own cs' w'"
proof (rule handle_table_ok [OF laws])
  show "fold (handle_pfd P listen_fd (Some h)) (take MAX_CONN pfd) (cs, w1) = (cs', w')"
    using assms(6) by (simp add: x52d_client_handle_def)
  show "table_ok opens own cs w1" using assms(2) poll_opens [OF laws assms(5)] by (rule table_ok_opens)
  show "list_all (\<lambda>p. pfd_fd p \<noteq> INVALID_CLIENT) (take MAX_CONN pfd)"
    using poll_valid [OF assms(3,5)] by (auto simp: list_all_iff dest: in_set_takeD)
qed (use assms(4) in simp)

text \<open>
  A system with the open descriptors as its state: \<open>accept\<close> gives the next number, every
  other call succeeds, and \<open>poll\<close> finds the listening socket readable and the rest hung up.
\<close>

definition demo_posix :: "int list posix" where
  "demo_posix = \<lparr> sys_socket = \<lambda>w. (Inr (fold max w 0 + 1), (fold max w 0 + 1) # w),
     sys_connect = \<lambda>_ _ _ w. (Inr (), w), sys_bind = \<lambda>_ _ _ w. (Inr (), w),
     sys_listen = \<lambda>_ _ w. (Inr (), w),
     sys_accept = \<lambda>_ w. (Inr (fold max w 0 + 1), (fold max w 0 + 1) # w),
     sys_getfl = \<lambda>_ w. (Inr 0, w), sys_set_nonblock = \<lambda>_ _ w. (Inr (), w),
     sys_close = \<lambda>fd w. (Inr (), filter (\<lambda>x. x \<noteq> fd) w), sys_unlink = \<lambda>_ w. (Inr (), w),
     sys_send = \<lambda>_ m w. (Inr (int (length m)), w), sys_recv = \<lambda>_ _ w. (Inr [], w),
     sys_read = \<lambda>_ _ w. (Inr [], w), sys_write = \<lambda>_ m w. (Inr (int (length m)), w),
     sys_pipe = \<lambda>w. (Inr (fold max w 0 + 1, fold max w 0 + 2), (fold max w 0 + 1) # (fold max w 0 + 2) # w),
     sys_poll = \<lambda>ps w. (Inr (1, POLLIN # replicate (length ps - 1) POLLHUP), w),
     sys_so_error = \<lambda>_ w. (Inr 0, w) \<rparr>"

lemma fold_max_ge: "x \<in> set w \<Longrightarrow> x \<le> fold max w (a :: int)" "a \<le> fold max w a"
proof (induction w arbitrary: a)
  case (Cons y w)
  {
    case 1
    have "max y a \<le> fold max w (max y a)" by (rule Cons.IH(2))
    with 1 Cons.IH(1) [of "max y a"] show ?case by auto
  next
    case 2
    have "max y a \<le> fold max w (max y a)" by (rule Cons.IH(2))
    then show ?case by simp
  }
qed simp_all

lemma demo_fd_laws: "fd_laws demo_posix set"
proof -
  have "fold max w 0 + 1 \<notin> set w" for w :: "int list" using fold_max_ge(1) [of _ w 0] by force
  moreover have "0 \<le> fold max w 0 + 1" for w :: "int list" using fold_max_ge(2) [of 0 w] by simp
  ultimately show ?thesis by (auto simp: fd_laws_def demo_posix_def)
qed

lemma x52d_client_round_witness:
  "\<exists>rc pfd. x52d_client_poll demo_posix (5 # replicate 62 INVALID_CLIENT) 3 [3, 5] = Some (rc, pfd, [3, 5]) \<and>
    (case x52d_client_handle demo_posix (5 # replicate 62 INVALID_CLIENT) pfd 3 (Some (\<lambda>_ w. w)) [3, 5] of
       (cs', w') \<Rightarrow> table_ok set {3} cs' w')"
proof -
  let ?cs = "5 # replicate 62 INVALID_CLIENT"
  have ok: "table_ok set {3} ?cs [3, 5]"
    by (auto simp: table_ok_def X52D_MAX_CLIENTS_def INVALID_CLIENT_def)
  have "\<exists>rc pfd. x52d_client_poll demo_posix ?cs 3 [3, 5] = Some (rc, pfd, [3, 5])"
    unfolding x52d_client_poll_def Let_def
    by (subst retry_eintr.simps) (simp add: demo_posix_def)
  then obtain rc pfd where poll: "x52d_client_poll demo_posix ?cs 3 [3, 5] = Some (rc, pfd, [3, 5])"
    by blast
  obtain cs' w' where h: "x52d_client_handle demo_posix ?cs pfd 3 (Some (\<lambda>_ w. w)) [3, 5] = (cs', w')"
    by (rule prod.exhaust)
  have "table_ok set {3} cs' w'"
    by (rule x52d_client_round [OF demo_fd_laws ok _ _ poll h]) (simp_all add: INVALID_CLIENT_def)
  with poll h show ?thesis by auto
qed

end
