(* ===== verification/Pinelog.thy ===== *)
theory Pinelog
  imports X52_Prelude
begin

text \<open>
  The logging library (\<open>lib/pinelog/pinelog.c\<close>, \<open>pinelog.h\<close>): the global and the per-module
  levels, the output stream, and what a log call prints. Printing is in the unbuffered build;
  the options that show the date, the level and the source position are arguments, and so is
  the text of the date.

  An access outside the module arrays is undefined in C; a function that can make one gives
  \<open>None\<close> then. Allocation may fail, with the error number the C library leaves.
\<close>

section \<open>State\<close>

definition PINELOG_LVL_NOTSET :: int where "PINELOG_LVL_NOTSET = -2"
definition PINELOG_LVL_NONE :: int where "PINELOG_LVL_NONE = -1"
definition PINELOG_LVL_FATAL :: int where "PINELOG_LVL_FATAL = 0"
definition PINELOG_LVL_ERROR :: int where "PINELOG_LVL_ERROR = 1"
definition PINELOG_LVL_WARNING :: int where "PINELOG_LVL_WARNING = 2"
definition PINELOG_LVL_INFO :: int where "PINELOG_LVL_INFO = 3"
definition PINELOG_LVL_DEBUG :: int where "PINELOG_LVL_DEBUG = 4"
definition PINELOG_LVL_TRACE :: int where "PINELOG_LVL_TRACE = 5"
definition PINELOG_MODULE_GLOBAL :: int where "PINELOG_MODULE_GLOBAL = -1"

lemmas pinelog_levels = PINELOG_LVL_NOTSET_def PINELOG_LVL_NONE_def PINELOG_LVL_FATAL_def
  PINELOG_LVL_ERROR_def PINELOG_LVL_WARNING_def PINELOG_LVL_INFO_def PINELOG_LVL_DEBUG_def
  PINELOG_LVL_TRACE_def PINELOG_MODULE_GLOBAL_def

datatype log_stream = Stdout | Stderr | LogFile string

text \<open>
  The arrays are lists of the allocated length, empty when they are NULL or freed.
  \<open>level_freed\<close> tells that the pointer to the levels was freed and still points there.
  \<open>closed\<close> lists the streams that were closed, in order.
\<close>

record pinelog =
  output_stream :: "log_stream option"
  log_level :: int
  num_modules :: int
  module_level :: "int list"
  module_names :: "string option list"
  level_freed :: bool
  closed :: "log_stream list"

text \<open>The build options \<open>PINELOG_DEFAULT_STREAM\<close> and \<open>PINELOG_DEFAULT_LEVEL\<close> have these defaults.\<close>

definition PINELOG_DEFAULT_STREAM :: log_stream where "PINELOG_DEFAULT_STREAM = Stdout"
definition PINELOG_DEFAULT_LEVEL :: int where "PINELOG_DEFAULT_LEVEL = PINELOG_LVL_ERROR"

definition pinelog_set_defaults :: "pinelog \<Rightarrow> pinelog" where
  "pinelog_set_defaults p =
     p \<lparr> output_stream := Some PINELOG_DEFAULT_STREAM, log_level := PINELOG_DEFAULT_LEVEL \<rparr>"

section \<open>Modules and levels\<close>

text \<open>
  The arguments give the error number when an allocation fails. The function frees the old
  arrays, and frees both variables again after a failure: a second \<open>free\<close> of the old names, or
  of the levels a failed call left behind, is undefined.
\<close>

definition pinelog_init :: "int option \<Rightarrow> int option \<Rightarrow> int \<Rightarrow> pinelog \<Rightarrow> (int \<times> pinelog) option" where
  "pinelog_init level_errno name_errno count p =
     (if count \<le> 0 then Some (22, p)
      else if level_freed p then None
      else let freed = p \<lparr> num_modules := 0, module_level := [], module_names := [] \<rparr> in
        case level_errno of
          Some e \<Rightarrow> if module_names p \<noteq> [] then None else Some (e, freed)
        | None \<Rightarrow>
            (case name_errno of
               Some e \<Rightarrow> Some (e, freed \<lparr> level_freed := True \<rparr>)
             | None \<Rightarrow> Some (0, p \<lparr> num_modules := count,
                 module_level := replicate (nat count) PINELOG_LVL_NOTSET,
                 module_names := replicate (nat count) None \<rparr>)))"

definition pinelog_get_level :: "pinelog \<Rightarrow> int" where
  "pinelog_get_level p = log_level p"

definition pinelog_set_level :: "int \<Rightarrow> pinelog \<Rightarrow> int \<times> pinelog" where
  "pinelog_set_level level p =
     (if level < PINELOG_LVL_NONE \<or> PINELOG_LVL_TRACE < level then (22, p)
      else (0, p \<lparr> log_level := level \<rparr>))"

definition pinelog_get_module_level :: "int \<Rightarrow> pinelog \<Rightarrow> int" where
  "pinelog_get_module_level m p =
     (let global_level = pinelog_get_level p in
      if 0 \<le> m \<and> m < num_modules p then
        (let level = module_level p ! nat m in
         if level = PINELOG_LVL_NOTSET then global_level else level)
      else global_level)"

definition pinelog_set_module_level :: "int \<Rightarrow> int \<Rightarrow> pinelog \<Rightarrow> (int \<times> pinelog) option" where
  "pinelog_set_module_level m level p =
     (if m < 0 \<or> num_modules p < m then
        (if m = PINELOG_MODULE_GLOBAL then Some (pinelog_set_level level p) else Some (34, p))
      else if level < PINELOG_LVL_NOTSET \<or> PINELOG_LVL_TRACE < level then Some (22, p)
      else if nat m < length (module_level p)
      then Some (0, p \<lparr> module_level := (module_level p) [nat m := level] \<rparr>)
      else None)"

text \<open>A NULL name is \<open>None\<close>.\<close>

definition pinelog_setup_module :: "int \<Rightarrow> string option \<Rightarrow> pinelog \<Rightarrow> (int \<times> pinelog) option" where
  "pinelog_setup_module m name p =
     (if m < 0 \<or> num_modules p < m then Some (34, p)
      else if name = None then Some (22, p)
      else if nat m < length (module_names p)
      then Some (0, p \<lparr> module_names := (module_names p) [nat m := name] \<rparr>)
      else None)"

section \<open>Streams\<close>

definition pinelog_close_output_stream :: "pinelog \<Rightarrow> pinelog" where
  "pinelog_close_output_stream p =
     (let p1 = (case output_stream p of
                  Some s \<Rightarrow> if s \<noteq> Stdout \<and> s \<noteq> Stderr then p \<lparr> closed := closed p @ [s] \<rparr> else p
                | None \<Rightarrow> p)
      in p1 \<lparr> output_stream := Some PINELOG_DEFAULT_STREAM \<rparr>)"

definition pinelog_set_output_stream :: "log_stream option \<Rightarrow> pinelog \<Rightarrow> int \<times> pinelog" where
  "pinelog_set_output_stream stream p =
     (case stream of
        None \<Rightarrow> (22, p)
      | Some s \<Rightarrow> (0, pinelog_close_output_stream p \<lparr> output_stream := Some s \<rparr>))"

text \<open>\<open>fopen_errno\<close> is the error number when the file cannot be opened.\<close>

definition pinelog_set_output_file :: "int option \<Rightarrow> string option \<Rightarrow> pinelog \<Rightarrow> int \<times> pinelog" where
  "pinelog_set_output_file fopen_errno file p =
     (case file of
        None \<Rightarrow> (22, p)
      | Some f \<Rightarrow>
          (case fopen_errno of
             Some e \<Rightarrow> (e, p)
           | None \<Rightarrow> pinelog_set_output_stream (Some (LogFile f)) p))"

section \<open>Logging a message\<close>

record log_options =
  show_date :: "string option"
  show_level :: bool
  show_backtrace :: bool

definition level_strings :: "string list" where
  "level_strings = [''FATAL'', ''ERROR'', ''WARNING'', ''INFO'', ''DEBUG'', ''TRACE'']"

text \<open>
  The text a call prints, empty when it prints nothing; \<open>msg\<close> is the message with its
  arguments filled in.
\<close>

definition pinelog_log_message ::
  "log_options \<Rightarrow> int \<Rightarrow> int \<Rightarrow> string \<Rightarrow> int \<Rightarrow> string \<Rightarrow> pinelog \<Rightarrow> string" where
  "pinelog_log_message opts m level file line_no msg p =
     (if (m < 0 \<or> num_modules p \<le> m) \<and> m \<noteq> PINELOG_MODULE_GLOBAL then []
      else if pinelog_get_module_level m p < level \<or> level < 0 then []
      else
        (let lvl = (if PINELOG_LVL_TRACE < level then PINELOG_LVL_TRACE else level);
             date = (case show_date opts of None \<Rightarrow> [] | Some d \<Rightarrow> d);
             lvl_str = (if show_level opts then level_strings ! nat lvl @ '': '' else []);
             trace = (if show_backtrace opts then file @ '':'' @ fmt_d line_no @ '' '' else []);
             name = (if m \<noteq> PINELOG_MODULE_GLOBAL then
                       (case module_names p ! nat m of None \<Rightarrow> [] | Some s \<Rightarrow> s @ '': '')
                     else [])
         in date @ lvl_str @ trace @ name @ msg @ [CHR 0x0A]))"

section \<open>Properties\<close>

text \<open>The arrays have one element per module, and levels are legal.\<close>

definition level_legal :: "int \<Rightarrow> bool" where
  "level_legal l \<longleftrightarrow> PINELOG_LVL_NOTSET \<le> l \<and> l \<le> PINELOG_LVL_TRACE"

definition pinelog_wf :: "pinelog \<Rightarrow> bool" where
  "pinelog_wf p \<longleftrightarrow> 0 \<le> num_modules p \<and> length (module_level p) = nat (num_modules p) \<and>
     length (module_names p) = nat (num_modules p) \<and> list_all level_legal (module_level p) \<and>
     PINELOG_LVL_NONE \<le> log_level p \<and> log_level p \<le> PINELOG_LVL_TRACE"

lemma list_all_update: "list_all P xs \<Longrightarrow> P x \<Longrightarrow> list_all P (xs [i := x])"
  unfolding list_all_iff using set_update_subset_insert [of xs i x] by auto

lemma pinelog_init_wf:
  "pinelog_wf p \<Longrightarrow> pinelog_init le ne count p = Some (rc, p') \<Longrightarrow> pinelog_wf p'"
  by (auto simp: pinelog_init_def pinelog_wf_def level_legal_def pinelog_levels Let_def
      list_all_iff split: if_splits option.splits)

lemma pinelog_set_level_wf:
  "pinelog_wf p \<Longrightarrow> pinelog_set_level l p = (rc, p') \<Longrightarrow> pinelog_wf p'"
  by (auto simp: pinelog_set_level_def pinelog_wf_def split: if_splits)

lemma pinelog_set_module_level_wf:
  assumes "pinelog_wf p" and "pinelog_set_module_level m l p = Some (rc, p')"
  shows "pinelog_wf p'"
proof (cases "p' = p \<or> (\<exists>rc. pinelog_set_level l p = (rc, p'))")
  case True
  with assms(1) pinelog_set_level_wf show ?thesis by blast
next
  case False
  with assms(2) have "level_legal l" "p' = p \<lparr> module_level := (module_level p) [nat m := l] \<rparr>"
    by (auto simp: pinelog_set_module_level_def level_legal_def split: if_splits)
  with assms(1) show ?thesis by (simp add: pinelog_wf_def list_all_update)
qed

text \<open>
  Setting the level of a module in a well-formed logger works for every module and legal
  level: the module then has that level, or the global one for NOTSET, other modules keep
  theirs. The call that names the module one past the last, which the documentation excludes,
  is not refused but writes outside the array.
\<close>

lemma pinelog_module_level_bounds:
  assumes "pinelog_wf p" and "level_legal l"
  shows "(0 \<le> m \<and> m < num_modules p \<longrightarrow>
      (\<exists>p'. pinelog_set_module_level m l p = Some (0, p') \<and> pinelog_wf p' \<and>
        pinelog_get_module_level m p' = (if l = PINELOG_LVL_NOTSET then log_level p else l) \<and>
        (\<forall>k. k \<noteq> m \<longrightarrow> pinelog_get_module_level k p' = pinelog_get_module_level k p))) \<and>
    pinelog_set_module_level (num_modules p) l p = None"
proof (intro conjI impI)
  assume m: "0 \<le> m \<and> m < num_modules p"
  let ?p' = "p \<lparr> module_level := (module_level p) [nat m := l] \<rparr>"
  from assms m have "pinelog_set_module_level m l p = Some (0, ?p')"
    by (auto simp: pinelog_set_module_level_def level_legal_def pinelog_wf_def)
  moreover from this assms(1) have "pinelog_wf ?p'" by (rule pinelog_set_module_level_wf [rotated])
  moreover have "pinelog_get_module_level m ?p' = (if l = PINELOG_LVL_NOTSET then log_level p else l)"
    using assms m by (simp add: pinelog_get_module_level_def pinelog_get_level_def pinelog_wf_def)
  moreover have "pinelog_get_module_level k ?p' = pinelog_get_module_level k p" if "k \<noteq> m" for k
    using that m
    by (auto simp: pinelog_get_module_level_def pinelog_get_level_def nth_list_update Let_def)
  ultimately show "\<exists>p'. pinelog_set_module_level m l p = Some (0, p') \<and> pinelog_wf p' \<and>
      pinelog_get_module_level m p' = (if l = PINELOG_LVL_NOTSET then log_level p else l) \<and>
      (\<forall>k. k \<noteq> m \<longrightarrow> pinelog_get_module_level k p' = pinelog_get_module_level k p)" by blast
next
  show "pinelog_set_module_level (num_modules p) l p = None"
    using assms by (auto simp: pinelog_set_module_level_def level_legal_def pinelog_wf_def)
qed

definition pinelog_start :: pinelog where
  "pinelog_start = \<lparr> output_stream = None, log_level = PINELOG_DEFAULT_LEVEL, num_modules = 0,
     module_level = [], module_names = [], level_freed = False, closed = [] \<rparr>"

lemma pinelog_start_wf: "pinelog_wf pinelog_start"
  by (simp add: pinelog_start_def pinelog_wf_def PINELOG_DEFAULT_LEVEL_def pinelog_levels)

definition pinelog_modules :: "int \<Rightarrow> pinelog" where
  "pinelog_modules count = snd (the (pinelog_init None None count pinelog_start))"

lemma pinelog_modules_wf: "0 < count \<Longrightarrow> pinelog_wf (pinelog_modules count)"
  by (rule pinelog_init_wf [OF pinelog_start_wf, of None None count 0])
    (simp add: pinelog_modules_def pinelog_init_def pinelog_start_def)

lemma pinelog_module_level_bounds_witness:
  "pinelog_set_module_level (num_modules (pinelog_modules 9)) PINELOG_LVL_INFO (pinelog_modules 9) = None"
proof -
  have "level_legal PINELOG_LVL_INFO" by (simp add: level_legal_def pinelog_levels)
  with pinelog_modules_wf [of 9] show ?thesis
    by (intro pinelog_module_level_bounds [THEN conjunct2]) simp_all
qed

text \<open>
  A message is printed exactly when its module is valid and its level is not negative and at
  most the level of the module; what is printed ends with the message and a newline.
\<close>

lemma pinelog_log_filter:
  "(pinelog_log_message opts m level file line_no msg p \<noteq> [] \<longleftrightarrow>
      (m = PINELOG_MODULE_GLOBAL \<or> 0 \<le> m \<and> m < num_modules p) \<and>
      0 \<le> level \<and> level \<le> pinelog_get_module_level m p) \<and>
   (pinelog_log_message opts m level file line_no msg p = [] \<or>
    (\<exists>prefix. pinelog_log_message opts m level file line_no msg p = prefix @ msg @ [CHR 0x0A]))"
proof -
  let ?out = "pinelog_log_message opts m level file line_no msg p"
  have "(\<exists>prefix. ?out = prefix @ msg @ [CHR 0x0A])"
    if "m = PINELOG_MODULE_GLOBAL \<or> 0 \<le> m \<and> m < num_modules p" "0 \<le> level"
      "level \<le> pinelog_get_module_level m p"
    using that unfolding pinelog_log_message_def Let_def
    by (auto simp: append_assoc [symmetric] simp del: append_assoc)
  moreover have "?out = []"
    if "\<not> ((m = PINELOG_MODULE_GLOBAL \<or> 0 \<le> m \<and> m < num_modules p) \<and>
      0 \<le> level \<and> level \<le> pinelog_get_module_level m p)"
    using that by (auto simp: pinelog_log_message_def)
  ultimately show ?thesis by fastforce
qed

end
