(* ===== verification/X52d_Command.thy ===== *)
theory X52d_Command
  imports Config_Daemon X52d_Client Pinelog
begin

text \<open>
  The command server of the daemon (\<open>daemon/x52d_command.c\<close>): the responses, the commands
  \<open>config\<close> and \<open>logging\<close>, the parser, and the loop that serves the clients.

  The environment holds what the code gets from outside: the build-time directory, the
  translation, the texts of \<open>strerror\<close>, the access checks, and the callbacks that apply a
  configuration. Responses are \<open>None\<close>, and a command is \<open>Undefined\<close>, where the C code leaves its
  buffers or dereferences NULL; a command that reads an argument the message does not
  terminate counts as such whenever the message has one.
\<close>

section \<open>State\<close>

record 'w cmd_env =
  ce_sysconfdir :: string
  ce_tr :: "string \<Rightarrow> string"
  ce_strerror :: "int \<Rightarrow> string"
  ce_readable :: "string \<Rightarrow> bool"
  ce_writable :: "string \<Rightarrow> bool"
  ce_callbacks :: "'w cfg_callback"

text \<open>\<open>d_signals\<close> are the signals the daemon raised for its main loop, in order.\<close>

record 'w daemon =
  d_config :: config_state
  d_log :: pinelog
  d_files :: "string \<Rightarrow> string option"
  d_signals :: "int list"
  d_devices :: 'w

abbreviation (input) SIGHUP :: int where "SIGHUP \<equiv> 1"
abbreviation (input) SIGUSR1 :: int where "SIGUSR1 \<equiv> 10"

datatype 'a cmd_result = Undefined | Exited int | Replied 'a

section \<open>Responses\<close>

text \<open>\<open>printf\<close> with the directives \<open>%s\<close> and \<open>%d\<close>.\<close>

datatype fmt_arg = FS string | FD int

fun vsprintf :: "string \<Rightarrow> fmt_arg list \<Rightarrow> string" where
  "vsprintf [] args = []"
| "vsprintf [c] args = [c]"
| "vsprintf (c # d # cs) args =
     (if c = CHR ''%'' \<and> (d = CHR ''s'' \<or> d = CHR ''d'') then
        (case args of
           [] \<Rightarrow> vsprintf cs []
         | FS s # as \<Rightarrow> s @ vsprintf cs as
         | FD i # as \<Rightarrow> fmt_d i @ vsprintf cs as)
      else c # vsprintf (d # cs) args)"

text \<open>
  \<open>vsnprintf\<close> returns the length the text would have, which is then copied from a buffer of
  \<open>X52D_BUFSZ\<close> bytes into another of that size.
\<close>

definition response_formatted :: "string \<Rightarrow> string \<Rightarrow> fmt_arg list \<Rightarrow> bytes option" where
  "response_formatted kind fmt args =
     (let typelen = length kind + 1;
          txt = vsprintf fmt args;
          resplen = typelen + (if fmt \<noteq> [] then length txt + 1 else 0)
      in if X52D_BUFSZ < resplen then None
         else Some (kind @ [NUL] @ (if fmt \<noteq> [] then txt @ [NUL] else [])))"

fun response_loop :: "bytes \<Rightarrow> string list \<Rightarrow> bytes" where
  "response_loop response [] = response"
| "response_loop response (arg # args) =
     (if X52D_BUFSZ \<le> length arg + 1 + length response then response
      else response_loop (response @ arg @ [NUL]) args)"

definition response_strings :: "string \<Rightarrow> string list \<Rightarrow> bytes option" where
  "response_strings kind args = Some (response_loop (kind @ [NUL]) args)"

abbreviation ERR :: "string list \<Rightarrow> bytes option" where "ERR args \<equiv> response_strings ''ERR'' args"
abbreviation OK :: "string list \<Rightarrow> bytes option" where "OK args \<equiv> response_strings ''OK'' args"
abbreviation DATA :: "string list \<Rightarrow> bytes option" where "DATA args \<equiv> response_strings ''DATA'' args"
abbreviation ERR_fmt :: "string \<Rightarrow> fmt_arg list \<Rightarrow> bytes option" where
  "ERR_fmt fmt args \<equiv> response_formatted ''ERR'' fmt args"

text \<open>A response and the state, or an undefined command.\<close>

definition reply :: "bytes option \<Rightarrow> 'w daemon \<Rightarrow> (bytes \<times> 'w daemon) cmd_result" where
  "reply resp d = (case resp of None \<Rightarrow> Undefined | Some r \<Rightarrow> Replied (r, d))"

section \<open>The config command\<close>

text \<open>\<open>mode\<close> is whether the file must be readable.\<close>

definition check_file :: "'w cmd_env \<Rightarrow> string \<Rightarrow> bool \<Rightarrow> bool" where
  "check_file env file_path mode =
     (if file_path = [] then False
      else if mode \<and> \<not> ce_readable env file_path then False
      else True)"

text \<open>Loading and saving, with their effect on the daemon.\<close>

definition daemon_load :: "'w cmd_env \<Rightarrow> string option \<Rightarrow> 'w daemon \<Rightarrow> 'w daemon cmd_result" where
  "daemon_load env file d =
     (case x52d_config_load (ce_sysconfdir env) (d_files d) file (d_config d) of
        None \<Rightarrow> Undefined
      | Some (Exit n) \<Rightarrow> Exited n
      | Some (Go st) \<Rightarrow>
          Replied (d \<lparr> d_config := st,
                       d_devices := x52d_config_apply (ce_callbacks env) st (d_devices d) \<rparr>))"

definition daemon_save :: "'w cmd_env \<Rightarrow> string option \<Rightarrow> 'w daemon \<Rightarrow> 'w daemon" where
  "daemon_save env file d =
     (case x52d_config_save (ce_sysconfdir env) (ce_tr env) (ce_writable env) file (d_config d) of
        (f, None) \<Rightarrow> d
      | (f, Some content) \<Rightarrow> d \<lparr> d_files := (d_files d) (f \<mapsto> content) \<rparr>)"

text \<open>One function per subcommand, each with the whole argument vector.\<close>

definition config_load_cmd :: "'w cmd_env \<Rightarrow> string list \<Rightarrow> 'w daemon \<Rightarrow> (bytes \<times> 'w daemon) cmd_result" where
  "config_load_cmd env argv d =
     (if length argv = 3 then
        if \<not> check_file env (argv ! 2) True
        then reply (ERR_fmt ''Invalid file '%s' for 'config load' command'' [FS (argv ! 2)]) d
        else case daemon_load env (Some (argv ! 2)) d of
          Undefined \<Rightarrow> Undefined
        | Exited n \<Rightarrow> Exited n
        | Replied d' \<Rightarrow> reply (OK [''config'', ''load'', argv ! 2]) d'
      else reply (ERR_fmt ''Unexpected arguments for 'config load' command; got %d, expected 3''
                   [FD (int (length argv))]) d)"

definition config_reload_cmd :: "string list \<Rightarrow> 'w daemon \<Rightarrow> (bytes \<times> 'w daemon) cmd_result" where
  "config_reload_cmd argv d =
     (if length argv = 2
      then reply (OK [''config'', ''reload'']) (d \<lparr> d_signals := d_signals d @ [SIGHUP] \<rparr>)
      else reply (ERR_fmt ''Unexpected arguments for 'config reload' command; got %d, expected 2''
                   [FD (int (length argv))]) d)"

definition config_dump_cmd :: "'w cmd_env \<Rightarrow> string list \<Rightarrow> 'w daemon \<Rightarrow> (bytes \<times> 'w daemon) cmd_result" where
  "config_dump_cmd env argv d =
     (if length argv = 3 then
        if \<not> check_file env (argv ! 2) False
        then reply (ERR_fmt ''Invalid file '%s' for 'config dump' command'' [FS (argv ! 2)]) d
        else reply (OK [''config'', ''dump'', argv ! 2]) (daemon_save env (Some (argv ! 2)) d)
      else reply (ERR_fmt ''Unexpected arguments for 'config dump' command; got %d, expected 3''
                   [FD (int (length argv))]) d)"

definition config_save_cmd :: "string list \<Rightarrow> 'w daemon \<Rightarrow> (bytes \<times> 'w daemon) cmd_result" where
  "config_save_cmd argv d =
     (if length argv = 2
      then reply (OK [''config'', ''save'']) (d \<lparr> d_signals := d_signals d @ [SIGUSR1] \<rparr>)
      else reply (ERR_fmt ''Unexpected arguments for 'config save' command; got %d, expected 2''
                   [FD (int (length argv))]) d)"

definition config_set_cmd :: "'w cmd_env \<Rightarrow> string list \<Rightarrow> 'w daemon \<Rightarrow> (bytes \<times> 'w daemon) cmd_result" where
  "config_set_cmd env argv d =
     (if length argv = 5 then
        (let (rc, st) = x52d_config_set (Some (argv ! 2)) (Some (argv ! 3)) (Some (argv ! 4)) (d_config d);
             d1 = d \<lparr> d_config := st \<rparr>
         in if rc \<noteq> 0
            then reply (ERR_fmt ''Error %d setting '%s.%s'='%s': %s''
                   [FD rc, FS (argv ! 2), FS (argv ! 3), FS (argv ! 4), FS (ce_strerror env rc)]) d1
            else reply (OK [''config'', ''set'', argv ! 2, argv ! 3, argv ! 4])
                   (d1 \<lparr> d_devices := x52d_config_apply_immediate (ce_callbacks env) (argv ! 2) (argv ! 3)
                            st (d_devices d) \<rparr>))
      else reply (ERR_fmt ''Unexpected arguments for 'config set' command; got %d, expected 5''
                   [FD (int (length argv))]) d)"

definition config_get_cmd :: "'w cmd_env \<Rightarrow> string list \<Rightarrow> 'w daemon \<Rightarrow> (bytes \<times> 'w daemon) cmd_result" where
  "config_get_cmd env argv d =
     (if length argv = 4 then
        (case x52d_config_get (ce_tr env) (Some (argv ! 2)) (Some (argv ! 3)) (d_config d) of
           None \<Rightarrow> reply (ERR_fmt (''Error getting '%s.%s'' @ [CHR 0x27]) [FS (argv ! 2), FS (argv ! 3)]) d
         | Some rv \<Rightarrow> reply (DATA [argv ! 2, argv ! 3, rv]) d)
      else reply (ERR_fmt ''Unexpected arguments for 'config get' command; got %d, expected 4''
                   [FD (int (length argv))]) d)"

definition cmd_config :: "'w cmd_env \<Rightarrow> string list \<Rightarrow> 'w daemon \<Rightarrow> (bytes \<times> 'w daemon) cmd_result" where
  "cmd_config env argv d =
     (if length argv < 2 then reply (ERR [''Insufficient arguments for 'config' command'']) d
      else if strcaseeq (argv ! 1) ''load'' then config_load_cmd env argv d
      else if strcaseeq (argv ! 1) ''reload'' then config_reload_cmd argv d
      else if strcaseeq (argv ! 1) ''dump'' then config_dump_cmd env argv d
      else if strcaseeq (argv ! 1) ''save'' then config_save_cmd argv d
      else if strcaseeq (argv ! 1) ''set'' then config_set_cmd env argv d
      else if strcaseeq (argv ! 1) ''get'' then config_get_cmd env argv d
      else reply (ERR_fmt ''Unknown subcommand '%s' for 'config' command'' [FS (argv ! 1)]) d)"

section \<open>The logging command\<close>

type_synonym level_map = "(int \<times> string) list"

definition lmap_get_level :: "level_map \<Rightarrow> string \<Rightarrow> int \<Rightarrow> int" where
  "lmap_get_level lmap str notfound =
     (case find (\<lambda>(l, s). strcaseeq s str) lmap of None \<Rightarrow> notfound | Some (l, s) \<Rightarrow> l)"

definition lmap_get_string :: "level_map \<Rightarrow> int \<Rightarrow> string option" where
  "lmap_get_string lmap level = map_option snd (find (\<lambda>(l, s). l = level) lmap)"

fun array_find_index :: "string list \<Rightarrow> string \<Rightarrow> nat" where
  "array_find_index [] str = 0"
| "array_find_index (a # as) str = (if strcaseeq a str then 0 else Suc (array_find_index as str))"

definition X52D_MOD_MAX :: nat where "X52D_MOD_MAX = 9"

definition modules :: "string list" where
  "modules = [''config'', ''clock'', ''device'', ''io'', ''led'', ''mouse'', ''command'', ''client'', ''notify'']"

definition loglevels :: level_map where
  "loglevels = [(PINELOG_LVL_NOTSET, ''default''), (PINELOG_LVL_NONE, ''none''),
     (PINELOG_LVL_FATAL, ''fatal''), (PINELOG_LVL_ERROR, ''error''), (PINELOG_LVL_WARNING, ''warning''),
     (PINELOG_LVL_INFO, ''info''), (PINELOG_LVL_DEBUG, ''debug''), (PINELOG_LVL_TRACE, ''trace'')]"

definition INT_MAX :: int where "INT_MAX = 2147483647"

text \<open>A level without a name would be a NULL argument.\<close>

definition logging_show_cmd :: "string list \<Rightarrow> 'w daemon \<Rightarrow> (bytes \<times> 'w daemon) cmd_result" where
  "logging_show_cmd argv d =
     (if length argv = 2 then
        (case lmap_get_string loglevels (pinelog_get_level (d_log d)) of
           None \<Rightarrow> Undefined | Some s \<Rightarrow> reply (DATA [''global'', s]) d)
      else if length argv = 3 then
        (let m = array_find_index modules (argv ! 2) in
         if m = X52D_MOD_MAX then reply (ERR_fmt (''Invalid module '%s'' @ [CHR 0x27]) [FS (argv ! 2)]) d
         else case lmap_get_string loglevels (pinelog_get_module_level (int m) (d_log d)) of
           None \<Rightarrow> Undefined | Some s \<Rightarrow> reply (DATA [argv ! 2, s]) d)
      else reply (ERR_fmt ''Unexpected arguments for 'logging show' command; got %d, expected 2 or 3''
                   [FD (int (length argv))]) d)"

definition logging_set_cmd :: "string list \<Rightarrow> 'w daemon \<Rightarrow> (bytes \<times> 'w daemon) cmd_result" where
  "logging_set_cmd argv d =
     (if length argv = 3 then
        (let level = lmap_get_level loglevels (argv ! 2) INT_MAX in
         if level = INT_MAX
         then reply (ERR_fmt ''Unknown level '%s' for 'logging set' command'' [FS (argv ! 2)]) d
         else if level = PINELOG_LVL_NOTSET
         then reply (ERR [CHR 0x27 # ''default' level is not valid without a module'']) d
         else reply (OK [''logging'', ''set'', argv ! 2])
                (d \<lparr> d_log := snd (pinelog_set_level level (d_log d)) \<rparr>))
      else if length argv = 4 then
        (let level = lmap_get_level loglevels (argv ! 3) INT_MAX;
             m = array_find_index modules (argv ! 2)
         in if m = X52D_MOD_MAX
            then reply (ERR_fmt (''Invalid module '%s'' @ [CHR 0x27]) [FS (argv ! 2)]) d
            else if level = INT_MAX
            then reply (ERR_fmt ''Unknown level '%s' for 'logging set' command'' [FS (argv ! 3)]) d
            else case pinelog_set_module_level (int m) level (d_log d) of
              None \<Rightarrow> Undefined
            | Some (_, lg) \<Rightarrow>
                reply (OK [''logging'', ''set'', argv ! 2, argv ! 3]) (d \<lparr> d_log := lg \<rparr>))
      else reply (ERR_fmt ''Unexpected arguments for 'logging set' command; got %d, expected 3 or 4''
                   [FD (int (length argv))]) d)"

definition cmd_logging :: "string list \<Rightarrow> 'w daemon \<Rightarrow> (bytes \<times> 'w daemon) cmd_result" where
  "cmd_logging argv d =
     (if length argv < 2 then reply (ERR [''Insufficient arguments for 'logging' command'']) d
      else if strcaseeq (argv ! 1) ''show'' then logging_show_cmd argv d
      else if strcaseeq (argv ! 1) ''set'' then logging_set_cmd argv d
      else reply (ERR_fmt ''Unknown subcommand '%s' for 'logging' command'' [FS (argv ! 1)]) d)"

section \<open>The parser and the server\<close>

definition run_command :: "'w cmd_env \<Rightarrow> string list \<Rightarrow> 'w daemon \<Rightarrow> (bytes \<times> 'w daemon) cmd_result" where
  "run_command env argv d =
     (case argv of
        [] \<Rightarrow> Undefined
      | a # _ \<Rightarrow>
          if strcaseeq a ''config'' then cmd_config env argv d
          else if strcaseeq a ''logging'' then cmd_logging argv d
          else reply (ERR_fmt (''Unknown command '%s'' @ [CHR 0x27]) [FS a]) d)"

text \<open>\<open>buffer\<close> is the whole array, \<open>buflen\<close> the length of the message in it.\<close>

definition command_parser ::
  "'w cmd_env \<Rightarrow> bytes \<Rightarrow> nat \<Rightarrow> 'w daemon \<Rightarrow> (bytes \<times> 'w daemon) cmd_result" where
  "command_parser env buffer buflen d =
     (let args = map (cstring_at buffer) (x52d_split_args buffer buflen) in
      if None \<in> set args then Undefined else run_command env (map the args) d)"

end
