(* ===== verification/X52d_Main.thy ===== *)
theory X52d_Main
  imports C_Getopt X52d_Command
begin

text \<open>
  The main program of the daemon (\<open>daemon/x52d_main.c\<close>): the options, becoming a daemon, starting
  the modules, the loop that waits for signals, and stopping. The logger and the configuration
  are part of the state; the system calls and the start and end of the other modules are the
  operations of a record, for a state that extends the one here (\<open>X52d_Daemon\<close> gives them for
  the modules of the development). Messages on the standard error and in the log are left out.
\<close>

section \<open>State and operations\<close>

record main_state =
  ms_log :: pinelog
  ms_config :: config_state
  flag_quit :: int
  flag_reload :: bool
  flag_save_cfg :: bool

text \<open>
  The directories are set when the program is built. \<open>mo_read_pid\<close> opens the PID file, \<open>None\<close> when
  that fails, and scans a number, \<open>None\<close> when there is none; \<open>mo_kill0\<close>, \<open>mo_fopen_log\<close> and the
  allocations give the error number when they fail; \<open>mo_fork\<close> gives the result of \<open>fork\<close>; a call
  that gives a \<open>bool\<close> tells whether it succeeded. \<open>mo_close_all\<close> is \<open>umask\<close> and the closing of all
  descriptors. \<open>mo_config_write\<close> stores the text of a configuration when it could be opened.
\<close>

record 's main_ops =
  mo_sysconfdir :: string
  mo_rundir :: string
  mo_logdir :: string
  mo_gettext :: "string \<Rightarrow> string"
  mo_pinelog_alloc :: "int option \<times> int option"
  mo_override_alloc :: "bool \<times> int option"
  mo_read_pid :: "string \<Rightarrow> 's \<Rightarrow> int option option \<times> 's"
  mo_kill0 :: "int \<Rightarrow> 's \<Rightarrow> int option"
  mo_fork :: "'s \<Rightarrow> int \<times> 's"
  mo_setsid :: "'s \<Rightarrow> bool \<times> 's"
  mo_sigaction :: "int \<Rightarrow> 's \<Rightarrow> bool \<times> 's"
  mo_fopen_w :: "string \<Rightarrow> 's \<Rightarrow> bool \<times> 's"
  mo_fprintf_pid :: "'s \<Rightarrow> bool \<times> 's"
  mo_fclose :: "'s \<Rightarrow> bool \<times> 's"
  mo_chdir :: "'s \<Rightarrow> bool \<times> 's"
  mo_close_all :: "'s \<Rightarrow> 's"
  mo_fopen_log :: "string \<Rightarrow> 's \<Rightarrow> int option"
  mo_sigmask :: "bool \<Rightarrow> 's \<Rightarrow> bool \<times> 's"
  mo_unlink :: "string option \<Rightarrow> 's \<Rightarrow> 's"
  mo_files :: "'s \<Rightarrow> string \<Rightarrow> string option"
  mo_writable :: "'s \<Rightarrow> string \<Rightarrow> bool"
  mo_config_write :: "string \<times> string option \<Rightarrow> 's \<Rightarrow> 's"
  mo_config_apply :: "'s \<Rightarrow> 's"
  mo_dev_init :: "'s \<Rightarrow> 's proc"
  mo_clock_init :: "'s \<Rightarrow> 's proc"
  mo_command_init :: "string option \<Rightarrow> 's \<Rightarrow> int \<times> 's"
  mo_notify_init :: "string option \<Rightarrow> 's \<Rightarrow> 's proc"
  mo_io_init :: "'s \<Rightarrow> 's proc"
  mo_mouse_evdev_init :: "'s \<Rightarrow> 's"
  mo_clock_exit :: "'s \<Rightarrow> 's"
  mo_dev_exit :: "'s \<Rightarrow> 's"
  mo_command_exit :: "'s \<Rightarrow> 's"
  mo_notify_exit :: "'s \<Rightarrow> 's"
  mo_mouse_evdev_exit :: "'s \<Rightarrow> 's"
  mo_io_exit :: "'s \<Rightarrow> 's"

text \<open>Going on unless the process has left.\<close>

fun and_go :: "'a proc \<Rightarrow> ('a \<Rightarrow> 'b proc) \<Rightarrow> 'b proc" where
  "and_go (Exit n) f = Exit n"
| "and_go (Go x) f = f x"

text \<open>A call that leaves the process with status 1 when it fails.\<close>

definition or_exit :: "('s \<Rightarrow> bool \<times> 's) \<Rightarrow> 's \<Rightarrow> 's proc" where
  "or_exit f s = (case f s of (ok, s') \<Rightarrow> if ok then Go s' else Exit 1)"

section \<open>Signals\<close>

datatype signal = SIGINT | SIGTERM | SIGQUIT | SIGHUP | SIGUSR1

text \<open>The numbers of Linux.\<close>

fun signum :: "signal \<Rightarrow> int" where
  "signum SIGINT = 2" | "signum SIGTERM = 15" | "signum SIGQUIT = 3" | "signum SIGHUP = 1" | "signum SIGUSR1 = 10"

definition termination_handler :: "int \<Rightarrow> 'a main_state_scheme \<Rightarrow> 'a main_state_scheme" where
  "termination_handler n s = s\<lparr>flag_quit := n\<rparr>"

definition reload_handler :: "int \<Rightarrow> 'a main_state_scheme \<Rightarrow> 'a main_state_scheme" where
  "reload_handler n s = s\<lparr>flag_reload := True\<rparr>"

definition save_config_handler :: "int \<Rightarrow> 'a main_state_scheme \<Rightarrow> 'a main_state_scheme" where
  "save_config_handler n s = s\<lparr>flag_save_cfg := True\<rparr>"

definition listen_signal :: "'s main_ops \<Rightarrow> signal \<Rightarrow> 's \<Rightarrow> 's proc" where
  "listen_signal M sig = or_exit (mo_sigaction M (signum sig))"

text \<open>What \<open>start_daemon\<close> installs.\<close>

fun handle_signal :: "signal \<Rightarrow> 'a main_state_scheme \<Rightarrow> 'a main_state_scheme" where
  "handle_signal SIGHUP = reload_handler (signum SIGHUP)"
| "handle_signal SIGUSR1 = save_config_handler (signum SIGUSR1)"
| "handle_signal sig = termination_handler (signum sig)"

section \<open>Options\<close>

record main_opts =
  verbosity :: int
  quiet :: bool
  foreground :: bool
  log_file :: "string option"
  conf_file :: "string option"
  pid_file :: "string option"
  command_sock :: "string option"
  notify_sock :: "string option"

definition main_opts_start :: main_opts where
  "main_opts_start = \<lparr>verbosity = 0, quiet = False, foreground = False, log_file = None, conf_file = None,
     pid_file = None, command_sock = None, notify_sock = None\<rparr>"

definition set_level :: "int \<Rightarrow> 'a main_state_scheme \<Rightarrow> 'a main_state_scheme" where
  "set_level l s = s\<lparr>ms_log := snd (pinelog_set_level l (ms_log s))\<rparr>"

text \<open>One option; \<open>getopt\<close> gives an argument to those that take one.\<close>

definition main_option ::
  "'a main_state_scheme main_ops \<Rightarrow> char \<times> string option \<Rightarrow> main_opts \<times> 'a main_state_scheme \<Rightarrow>
   (main_opts \<times> 'a main_state_scheme) proc" where
  "main_option M oa os = (case (oa, os) of ((opt, optarg), (m, s)) \<Rightarrow>
     if opt = CHR ''f'' then Go (m\<lparr>foreground := True\<rparr>, s)
     else if opt = CHR ''v'' then
       (if \<not> quiet m then
          (if verbosity m \<le> PINELOG_LVL_TRACE
           then Go (m\<lparr>verbosity := verbosity m + 1\<rparr>, set_level (pinelog_get_level (ms_log s) + 1) s)
           else Go (m, s))
        else Go (m, s))
     else if opt = CHR ''q'' then Go (m\<lparr>quiet := True\<rparr>, set_level PINELOG_LVL_ERROR s)
     else if opt = CHR ''l'' then Go (m\<lparr>log_file := optarg\<rparr>, s)
     else if opt = CHR ''o'' then
       (let (rc, ovs) = x52d_config_save_override (fst (mo_override_alloc M)) (snd (mo_override_alloc M))
              (the optarg) (overrides (ms_config s))
        in if rc \<noteq> 0 then Exit 1 else Go (m, s\<lparr>ms_config := (ms_config s)\<lparr>overrides := ovs\<rparr>\<rparr>))
     else if opt = CHR ''c'' then Go (m\<lparr>conf_file := optarg\<rparr>, s)
     else if opt = CHR ''p'' then Go (m\<lparr>pid_file := optarg\<rparr>, s)
     else if opt = CHR ''s'' then Go (m\<lparr>command_sock := optarg\<rparr>, s)
     else if opt = CHR ''b'' then Go (m\<lparr>notify_sock := optarg\<rparr>, s)
     else if opt = CHR ''h'' then Exit 0
     else Exit 1)"

fun main_options ::
  "'a main_state_scheme main_ops \<Rightarrow> (char \<times> string option) list \<Rightarrow> main_opts \<times> 'a main_state_scheme \<Rightarrow>
   (main_opts \<times> 'a main_state_scheme) proc" where
  "main_options M [] os = Go os"
| "main_options M (oa # oas) os = and_go (main_option M oa os) (main_options M oas)"

section \<open>Becoming a daemon\<close>

definition X52D_PID_FILE :: "string \<Rightarrow> string" where
  "X52D_PID_FILE rundir = rundir @ ''/x52d.pid''"

definition X52D_LOG_FILE :: "string \<Rightarrow> string" where
  "X52D_LOG_FILE logdir = logdir @ ''/x52d.log''"

abbreviation (input) EPERM :: int where "EPERM \<equiv> 1"

definition check_running :: "'s main_ops \<Rightarrow> string \<Rightarrow> 's \<Rightarrow> 's proc" where
  "check_running M file s =
     (case mo_read_pid M file s of
        (Some (Some pid), s1) \<Rightarrow>
          (case mo_kill0 M pid s1 of
             None \<Rightarrow> Exit 1
           | Some errno \<Rightarrow> if errno = EPERM then Exit 1 else Go s1)
      | (_, s1) \<Rightarrow> Go s1)"

definition fork_child :: "'s main_ops \<Rightarrow> 's \<Rightarrow> 's proc" where
  "fork_child M s =
     (case mo_fork M s of (pid, s1) \<Rightarrow> if pid < 0 then Exit 1 else if 0 < pid then Exit 0 else Go s1)"

definition start_daemon :: "'s main_ops \<Rightarrow> bool \<Rightarrow> string option \<Rightarrow> 's \<Rightarrow> 's proc" where
  "start_daemon M fg pidf s =
     (let file = (case pidf of None \<Rightarrow> X52D_PID_FILE (mo_rundir M) | Some f \<Rightarrow> f)
      in and_go
          (and_go
            (if fg then Go s
             else and_go (and_go (check_running M file s) (fork_child M)) (or_exit (mo_setsid M)))
            (\<lambda>s1. and_go (and_go (and_go (and_go (listen_signal M SIGINT s1) (listen_signal M SIGTERM))
               (listen_signal M SIGQUIT)) (listen_signal M SIGHUP)) (listen_signal M SIGUSR1)))
          (\<lambda>s2. if fg then Go s2
             else and_go (and_go (and_go (and_go (and_go (fork_child M s2) (or_exit (mo_fopen_w M file)))
                 (or_exit (mo_fprintf_pid M))) (or_exit (mo_fclose M))) (or_exit (mo_chdir M)))
               (\<lambda>s3. Go (mo_close_all M s3))))"

definition set_log_file ::
  "'a main_state_scheme main_ops \<Rightarrow> bool \<Rightarrow> string option \<Rightarrow> 'a main_state_scheme \<Rightarrow> 'a main_state_scheme proc" where
  "set_log_file M fg file s =
     (let (rc, p) =
        (case file of
           Some f \<Rightarrow> pinelog_set_output_file (mo_fopen_log M f s) (Some f) (ms_log s)
         | None \<Rightarrow>
             if fg then pinelog_set_output_stream (Some Stdout) (ms_log s)
             else (let f = X52D_LOG_FILE (mo_logdir M)
                   in pinelog_set_output_file (mo_fopen_log M f s) (Some f) (ms_log s)))
      in if rc \<noteq> 0 then Exit 1 else Go (s\<lparr>ms_log := p\<rparr>))"

section \<open>The loop\<close>

text \<open>Loading into the state; \<open>None\<close> when reading the file never ends.\<close>

definition main_load ::
  "'a main_state_scheme main_ops \<Rightarrow> string option \<Rightarrow> 'a main_state_scheme \<Rightarrow> 'a main_state_scheme proc option" where
  "main_load M conf s =
     map_option (\<lambda>r. case r of Exit n \<Rightarrow> Exit n | Go c \<Rightarrow> Go (s\<lparr>ms_config := c\<rparr>))
       (x52d_config_load (mo_sysconfdir M) (mo_files M s) conf (ms_config s))"

definition main_save ::
  "'a main_state_scheme main_ops \<Rightarrow> string option \<Rightarrow> 'a main_state_scheme \<Rightarrow> 'a main_state_scheme" where
  "main_save M conf s =
     mo_config_write M (x52d_config_save (mo_sysconfdir M) (mo_gettext M) (mo_writable M s) conf (ms_config s)) s"

text \<open>What follows \<open>pause\<close> in a round of the loop.\<close>

definition main_round ::
  "'a main_state_scheme main_ops \<Rightarrow> string option \<Rightarrow> 'a main_state_scheme \<Rightarrow> 'a main_state_scheme proc option" where
  "main_round M conf s =
     (let save = (\<lambda>s1. Go (if flag_save_cfg s1 then (main_save M conf s1)\<lparr>flag_save_cfg := False\<rparr> else s1))
      in if flag_reload s then
           map_option (\<lambda>r. and_go r (\<lambda>s1. save ((mo_config_apply M s1)\<lparr>flag_reload := False\<rparr>))) (main_load M conf s)
         else Some (save s))"

text \<open>
  The loop, for signals that arrive only while it pauses: each element of the list is what one
  \<open>pause\<close> is woken by. \<open>Inr\<close> is the state in which it waits when there are no more.
\<close>

fun main_loop ::
  "'a main_state_scheme main_ops \<Rightarrow> string option \<Rightarrow> signal list list \<Rightarrow> 'a main_state_scheme \<Rightarrow>
   ('a main_state_scheme proc + 'a main_state_scheme) option" where
  "main_loop M conf [] s = Some (if flag_quit s \<noteq> 0 then Inl (Go s) else Inr s)"
| "main_loop M conf (sigs # bs) s =
     (if flag_quit s \<noteq> 0 then Some (Inl (Go s))
      else case main_round M conf (fold handle_signal sigs s) of
        None \<Rightarrow> None
      | Some (Exit n) \<Rightarrow> Some (Inl (Exit n))
      | Some (Go s') \<Rightarrow> main_loop M conf bs s')"

section \<open>The whole program\<close>

definition main_cleanup :: "'s main_ops \<Rightarrow> string option \<Rightarrow> 's \<Rightarrow> 's" where
  "main_cleanup M pidf s =
     mo_unlink M pidf
       (mo_io_exit M (mo_mouse_evdev_exit M (mo_notify_exit M (mo_command_exit M (mo_dev_exit M (mo_clock_exit M s))))))"

text \<open>
  From starting the modules to the loop; \<open>Inl\<close> is a failure of the command server, which goes to
  the cleanup at once. The signals that arrived while they were blocked are handled when they
  are unblocked.
\<close>

definition main_start ::
  "'a main_state_scheme main_ops \<Rightarrow> main_opts \<Rightarrow> signal list \<Rightarrow> 'a main_state_scheme \<Rightarrow>
   ('a main_state_scheme + 'a main_state_scheme) proc" where
  "main_start M m blocked s =
     and_go (and_go (and_go (or_exit (mo_sigmask M True) s) (mo_dev_init M)) (mo_clock_init M))
       (\<lambda>s1. let (rc, s2) = mo_command_init M (command_sock m) s1
         in if rc < 0 then Go (Inl s2)
            else and_go (and_go (mo_notify_init M (notify_sock m) s2) (mo_io_init M))
              (\<lambda>s3. and_go (or_exit (mo_sigmask M False) (mo_mouse_evdev_init M s3))
                (\<lambda>s4. Go (Inr ((mo_config_apply M (fold handle_signal blocked s4))\<lparr>flag_quit := 0\<rparr>)))))"

definition x52d_main ::
  "'a main_state_scheme main_ops \<Rightarrow> string list \<Rightarrow> signal list \<Rightarrow> signal list list \<Rightarrow> 'a main_state_scheme \<Rightarrow>
   ('a main_state_scheme proc + 'a main_state_scheme) option" where
  "x52d_main M argv blocked bs s =
     (case pinelog_init (fst (mo_pinelog_alloc M)) (snd (mo_pinelog_alloc M)) (int X52D_MOD_MAX) (ms_log s) of
        None \<Rightarrow> None
      | Some (_, p) \<Rightarrow>
         (case main_options M (fst (getopt_all ''fvql:o:c:p:s:b:h'' argv))
                 (main_opts_start, set_level PINELOG_LVL_WARNING (s\<lparr>ms_log := p\<rparr>)) of
            Exit n \<Rightarrow> Some (Inl (Exit n))
          | Go (m, s1) \<Rightarrow>
             (case and_go (start_daemon M (foreground m) (pid_file m) s1) (set_log_file M (foreground m) (log_file m)) of
                Exit n \<Rightarrow> Some (Inl (Exit n))
              | Go s2 \<Rightarrow>
                 (case main_load M (conf_file m) s2 of
                    None \<Rightarrow> None
                  | Some (Exit n) \<Rightarrow> Some (Inl (Exit n))
                  | Some (Go s3) \<Rightarrow>
                     (case main_start M m blocked s3 of
                        Exit n \<Rightarrow> Some (Inl (Exit n))
                      | Go (Inl s4) \<Rightarrow> Some (Inl (Go (main_cleanup M (pid_file m) s4)))
                      | Go (Inr s4) \<Rightarrow>
                          map_option (\<lambda>r. case r of
                              Inl (Go s5) \<Rightarrow> Inl (Go (main_cleanup M (pid_file m) s5))
                            | _ \<Rightarrow> r)
                            (main_loop M (conf_file m) bs s4))))))"

end
