(* ===== verification/X52d_Main_Laws.thy ===== *)
theory X52d_Main_Laws
  imports X52d_Main
begin

text \<open>
  The log level that the options of the daemon select, the loop when signals arrive only while
  it pauses, and what happens to a signal that arrives elsewhere.
\<close>

section \<open>The log level\<close>

text \<open>After \<open>n\<close> options -v.\<close>

definition level_inv :: "int \<Rightarrow> main_opts \<Rightarrow> 'a main_state_scheme \<Rightarrow> bool" where
  "level_inv n m s \<longleftrightarrow> (if quiet m then log_level (ms_log s) = 1
     else verbosity m = min 6 n \<and> log_level (ms_log s) = min 5 (2 + n))"

lemma set_level_log: "log_level (ms_log (set_level l s)) = (if - 1 \<le> l \<and> l \<le> 5 then l else log_level (ms_log s))"
  by (auto simp: set_level_def pinelog_set_level_def pinelog_levels)

lemma level_option:
  assumes "main_option M (c, a) (m, s) = Go (m', s')" and "level_inv n m s" and "0 \<le> n"
  shows "level_inv (if c = CHR ''v'' then n + 1 else n) m' s' \<and> quiet m' = (quiet m \<or> c = CHR ''q'')"
  using assms
  by (auto simp: main_option_def level_inv_def set_level_log pinelog_levels pinelog_get_level_def Let_def
      split: if_splits prod.splits)

lemma level_options:
  assumes "main_options M oas (m, s) = Go (m', s')" and "level_inv n m s" and "0 \<le> n"
  shows "log_level (ms_log s') = (if quiet m \<or> CHR ''q'' \<in> fst ` set oas then 1
    else min 5 (2 + n + int (length (filter (\<lambda>oa. fst oa = CHR ''v'') oas))))"
  using assms
proof (induction oas arbitrary: m s n)
  case Nil
  then show ?case by (auto simp: level_inv_def)
next
  case (Cons oa oas)
  obtain c a where oa: "oa = (c, a)" by (rule prod.exhaust)
  from Cons.prems(1) obtain m1 s1 where o1: "main_option M (c, a) (m, s) = Go (m1, s1)"
    and o2: "main_options M oas (m1, s1) = Go (m', s')"
    by (cases "main_option M (c, a) (m, s)") (auto simp: oa)
  note l = level_option [OF o1 Cons.prems(2,3)]
  from Cons.IH [OF o2, of "if c = CHR ''v'' then n + 1 else n"] l Cons.prems(3) show ?case
    by (auto simp: oa ac_simps)
qed

text \<open>
  The log level after the options, when none of them leaves the program: error if -q is among
  them, anywhere, else warning raised by one for every -v, up to trace.
\<close>

lemma x52d_main_log_level:
  assumes "main_options M oas (main_opts_start, s) = Go (m, s')" and "log_level (ms_log s) = PINELOG_LVL_WARNING"
  shows "log_level (ms_log s') = (if CHR ''q'' \<in> fst ` set oas then PINELOG_LVL_ERROR
    else min PINELOG_LVL_TRACE (PINELOG_LVL_WARNING + int (length (filter (\<lambda>oa. fst oa = CHR ''v'') oas))))"
proof -
  have "level_inv 0 main_opts_start s" "\<not> quiet main_opts_start"
    using assms(2) by (simp_all add: level_inv_def main_opts_start_def pinelog_levels)
  with level_options [OF assms(1)] show ?thesis by (simp add: pinelog_levels)
qed

definition demo_main :: main_state where
  "demo_main = \<lparr>ms_log = snd (pinelog_set_level PINELOG_LVL_WARNING (pinelog_modules 9)),
     ms_config = \<lparr>config = config_example, overrides = []\<rparr>, flag_quit = 0, flag_reload = False,
     flag_save_cfg = False\<rparr>"

lemma x52d_main_log_level_witness:
  "\<forall>M :: main_state main_ops. \<exists>m s'.
     main_options M [(CHR ''v'', None), (CHR ''f'', None), (CHR ''v'', None)] (main_opts_start, demo_main) = Go (m, s')
     \<and> log_level (ms_log s') = PINELOG_LVL_DEBUG"
proof
  fix M :: "main_state main_ops"
  let ?o = "[(CHR ''v'', None), (CHR ''f'', None), (CHR ''v'', None :: string option)]"
  have w: "log_level (ms_log demo_main) = PINELOG_LVL_WARNING"
    by (simp add: demo_main_def pinelog_set_level_def pinelog_levels)
  have "\<exists>m s'. main_options M ?o (main_opts_start, demo_main) = Go (m, s')"
    by (simp add: main_option_def main_opts_start_def pinelog_levels)
  then obtain m s' where o: "main_options M ?o (main_opts_start, demo_main) = Go (m, s')" by blast
  from x52d_main_log_level [OF o w] o
  show "\<exists>m s'. main_options M ?o (main_opts_start, demo_main) = Go (m, s') \<and> log_level (ms_log s') = PINELOG_LVL_DEBUG"
    by (simp add: pinelog_levels)
qed

section \<open>Signals that arrive while the loop pauses\<close>

fun terminates :: "signal \<Rightarrow> bool" where
  "terminates SIGHUP = False" | "terminates SIGUSR1 = False" | "terminates _ = True"

lemma handle_quit:
  "flag_quit (fold handle_signal sigs s) =
     (if \<exists>x \<in> set sigs. terminates x then signum (last (filter terminates sigs)) else flag_quit s)"
proof (induction sigs arbitrary: s)
  case (Cons x sigs)
  have "flag_quit (handle_signal x s) = (if terminates x then signum x else flag_quit s)"
    by (cases x) (simp_all add: termination_handler_def reload_handler_def save_config_handler_def)
  with Cons show ?case by (auto simp: filter_empty_conv)
qed simp

lemma signum_pos: "0 < signum x"
  by (cases x) simp_all

text \<open>
  What the loop relies on: applying and writing the configuration change neither the flags nor
  the configuration.
\<close>

locale loop_modules =
  fixes M :: "'a main_state_scheme main_ops"
  assumes apply_truncate: "main_state.truncate (mo_config_apply M s) = main_state.truncate s"
    and write_truncate: "main_state.truncate (mo_config_write M x s) = main_state.truncate s"

text \<open>
  What the requests of one pause ask for: a reload when a hangup is among the signals, which can
  leave the process, then saving when there is a SIGUSR1; \<open>reload\<close> and \<open>save\<close> act on what the
  daemon keeps. \<open>pend\<close> are the requests from before the first pause.
\<close>

definition serve_batch ::
  "('v \<Rightarrow> 'v proc option) \<Rightarrow> ('v \<Rightarrow> 'v) \<Rightarrow> signal list \<Rightarrow> 'v \<Rightarrow> 'v proc option" where
  "serve_batch reload save b v =
     map_option (\<lambda>r. and_go r (\<lambda>v'. Go (if SIGUSR1 \<in> set b then save v' else v')))
       (if SIGHUP \<in> set b then reload v else Some (Go v))"

fun serve_batches ::
  "('v \<Rightarrow> 'v proc option) \<Rightarrow> ('v \<Rightarrow> 'v) \<Rightarrow> signal list \<Rightarrow> signal list list \<Rightarrow> 'v \<Rightarrow> 'v proc option" where
  "serve_batches reload save pend [] v = Some (Go v)"
| "serve_batches reload save pend (b # bs) v =
     (case serve_batch reload save (pend @ b) v of
        Some (Go v') \<Rightarrow> serve_batches reload save [] bs v'
      | r \<Rightarrow> r)"

definition requests :: "'a main_state_scheme \<Rightarrow> signal list" where
  "requests s = (if flag_reload s then [SIGHUP] else []) @ (if flag_save_cfg s then [SIGUSR1] else [])"

text \<open>
  The view of the state that the requests act on: it does not show the flags, and reloading and
  saving in the program are \<open>reload\<close> and \<open>save\<close> on the view.
\<close>

locale served_modules = loop_modules M for M :: "'a main_state_scheme main_ops" +
  fixes conf :: "string option" and view :: "'a main_state_scheme \<Rightarrow> 'v"
    and reload :: "'v \<Rightarrow> 'v proc option" and save :: "'v \<Rightarrow> 'v"
  assumes view_quit: "view (s\<lparr>flag_quit := n\<rparr>) = view s"
    and view_reload: "view (s\<lparr>flag_reload := x\<rparr>) = view s"
    and view_save: "view (s\<lparr>flag_save_cfg := x\<rparr>) = view s"
    and reload_view: "reload (view s) = map_option (\<lambda>r. case r of Exit n \<Rightarrow> Exit n
        | Go s' \<Rightarrow> Go (view (mo_config_apply M s'))) (main_load M conf s)"
    and save_view: "save (view s) = view (main_save M conf s)"

lemma main_load_keeps:
  assumes "main_load M conf s = Some (Go s')"
  obtains c where "s' = s\<lparr>ms_config := c\<rparr>"
proof -
  from assms obtain r where "(case r of Exit n \<Rightarrow> Exit n | Go c \<Rightarrow> Go (s\<lparr>ms_config := c\<rparr>)) = Go s'"
    unfolding main_load_def by blast
  then show ?thesis by (cases r) (auto intro: that)
qed

lemma load_returns:
  assumes "state_wf (ms_config s)"
  shows "main_load M conf s = Some (Exit 1) \<or>
    (\<exists>c. main_load M conf s = Some (Go (s\<lparr>ms_config := c\<rparr>)) \<and> state_wf c)"
proof -
  from load_outcome [OF assms, of "mo_sysconfdir M" "mo_files M s" conf] show ?thesis
    by (elim disjE exE conjE) (auto simp: main_load_def)
qed

section \<open>The steps of a round\<close>

text \<open>
  The places of a round where a signal can arrive: before the test of \<open>flag_quit\<close>, between it
  and \<open>pause\<close>, in \<open>pause\<close>, before each request is looked at, and before its flag is cleared.
\<close>

datatype main_place = Testing | Entering | Pausing | AtReload | Reloaded | AtSave | Saved | Leaving

inductive main_step ::
  "'a main_state_scheme main_ops \<Rightarrow> string option \<Rightarrow> main_place \<times> 'a main_state_scheme \<Rightarrow>
   main_place \<times> 'a main_state_scheme \<Rightarrow> bool" for M conf where
  arrive: "p \<noteq> Leaving \<Longrightarrow>
     main_step M conf (p, s) (if p = Pausing then AtReload else p, handle_signal x s)"
| stay: "flag_quit s = 0 \<Longrightarrow> main_step M conf (Testing, s) (Entering, s)"
| leave: "flag_quit s \<noteq> 0 \<Longrightarrow> main_step M conf (Testing, s) (Leaving, s)"
| enter: "main_step M conf (Entering, s) (Pausing, s)"
| reload: "flag_reload s \<Longrightarrow> main_load M conf s = Some (Go s') \<Longrightarrow>
     main_step M conf (AtReload, s) (Reloaded, mo_config_apply M s')"
| reload_clear: "main_step M conf (Reloaded, s) (AtSave, s\<lparr>flag_reload := False\<rparr>)"
| no_reload: "\<not> flag_reload s \<Longrightarrow> main_step M conf (AtReload, s) (AtSave, s)"
| save: "flag_save_cfg s \<Longrightarrow> main_step M conf (AtSave, s) (Saved, main_save M conf s)"
| save_clear: "main_step M conf (Saved, s) (Testing, s\<lparr>flag_save_cfg := False\<rparr>)"
| no_save: "\<not> flag_save_cfg s \<Longrightarrow> main_step M conf (AtSave, s) (Testing, s)"

inductive_cases main_stepE: "main_step M conf a b"

text \<open>A round of the loop without signals elsewhere is such a sequence of steps.\<close>

lemma round_steps:
  assumes "main_round M conf s = Some (Go s')"
  shows "(main_step M conf)\<^sup>*\<^sup>* (AtReload, s) (Testing, s')"
proof -
  have sv: "(main_step M conf)\<^sup>*\<^sup>* (AtSave, t)
      (Testing, if flag_save_cfg t then (main_save M conf t)\<lparr>flag_save_cfg := False\<rparr> else t)" for t
    using save [of t M conf] save_clear [of M conf "main_save M conf t"] no_save [of t M conf]
    by (cases "flag_save_cfg t") (auto intro: r_into_rtranclp converse_rtranclp_into_rtranclp)
  show ?thesis
  proof (cases "flag_reload s")
    case False
    from assms False sv [of s] no_reload [OF False, of M conf] show ?thesis
      by (auto simp: main_round_def Let_def intro: converse_rtranclp_into_rtranclp)
  next
    case True
    then obtain s1 where l: "main_load M conf s = Some (Go s1)"
      and s': "s' = (let t = (mo_config_apply M s1)\<lparr>flag_reload := False\<rparr>
        in if flag_save_cfg t then (main_save M conf t)\<lparr>flag_save_cfg := False\<rparr> else t)"
      using assms by (cases "main_load M conf s"; cases "the (main_load M conf s)") (auto simp: main_round_def Let_def)
    let ?t = "mo_config_apply M s1"
    have "(main_step M conf)\<^sup>*\<^sup>* (AtReload, s) (AtSave, ?t\<lparr>flag_reload := False\<rparr>)"
      using reload [OF True l] reload_clear [of M conf ?t] by (meson converse_rtranclp_into_rtranclp r_into_rtranclp)
    from rtranclp_trans [OF this sv] show ?thesis unfolding s' Let_def .
  qed
qed

section \<open>Modules that keep the state of the loop\<close>

context loop_modules begin

lemma apply_keeps:
  "flag_quit (mo_config_apply M s) = flag_quit s" "flag_save_cfg (mo_config_apply M s) = flag_save_cfg s"
  "ms_config (mo_config_apply M s) = ms_config s"
  using apply_truncate [of s] by (simp_all add: main_state.truncate_def)

lemma write_keeps:
  "flag_quit (mo_config_write M x s) = flag_quit s" "flag_reload (mo_config_write M x s) = flag_reload s"
  "ms_config (mo_config_write M x s) = ms_config s"
  using write_truncate [of x s] by (simp_all add: main_state.truncate_def)

lemma signal_lost:
  assumes "flag_quit s = 0" and "\<not> flag_save_cfg s" and "flag_reload s"
    and "main_load M conf s = Some (Go s1)"
  shows "(\<exists>t. (main_step M conf)\<^sup>*\<^sup>* (Testing, s) (Pausing, t) \<and> flag_quit t \<noteq> 0)
    \<and> (\<exists>t. main_step M conf (AtReload, s) (Reloaded, t)
        \<and> main_step M conf (Reloaded, t) (Reloaded, handle_signal SIGHUP t)
        \<and> (\<exists>u. (main_step M conf)\<^sup>*\<^sup>* (Reloaded, handle_signal SIGHUP t) (Pausing, u)
            \<and> \<not> flag_reload u \<and> flag_quit u = 0 \<and> ms_config u = ms_config s1))"
proof
  have "main_step M conf (Testing, s) (Entering, s)" using assms(1) by (rule stay)
  moreover have "main_step M conf (Entering, s) (Entering, handle_signal SIGTERM s)"
    using arrive [of Entering M conf s SIGTERM] by simp
  moreover have "main_step M conf (Entering, handle_signal SIGTERM s) (Pausing, handle_signal SIGTERM s)" by (rule enter)
  ultimately have "(main_step M conf)\<^sup>*\<^sup>* (Testing, s) (Pausing, handle_signal SIGTERM s)"
    by (meson converse_rtranclp_into_rtranclp rtranclp.rtrancl_refl)
  then show "\<exists>t. (main_step M conf)\<^sup>*\<^sup>* (Testing, s) (Pausing, t) \<and> flag_quit t \<noteq> 0"
    by (intro exI [of _ "handle_signal SIGTERM s"]) (simp add: termination_handler_def)
next
  have s1: "flag_quit s1 = 0" "\<not> flag_save_cfg s1" using assms(1,2) by (auto intro: main_load_keeps [OF assms(4)])
  let ?t = "mo_config_apply M s1"
  let ?t' = "handle_signal SIGHUP ?t"
  let ?u = "?t'\<lparr>flag_reload := False\<rparr>"
  have f: "flag_quit ?u = 0" "\<not> flag_save_cfg ?u" "ms_config ?u = ms_config s1"
    using s1 by (simp_all add: reload_handler_def apply_keeps)
  have "main_step M conf (Reloaded, ?t') (AtSave, ?u)" by (rule reload_clear)
  moreover have "main_step M conf (AtSave, ?u) (Testing, ?u)" using f(2) by (rule no_save)
  moreover have "main_step M conf (Testing, ?u) (Entering, ?u)" using f(1) by (rule stay)
  moreover have "main_step M conf (Entering, ?u) (Pausing, ?u)" by (rule enter)
  ultimately have "(main_step M conf)\<^sup>*\<^sup>* (Reloaded, ?t') (Pausing, ?u)"
    by (meson converse_rtranclp_into_rtranclp rtranclp.rtrancl_refl)
  moreover have "main_step M conf (AtReload, s) (Reloaded, ?t)" using assms(3,4) by (rule reload)
  moreover have "main_step M conf (Reloaded, ?t) (Reloaded, ?t')"
    using arrive [of Reloaded M conf ?t SIGHUP] by simp
  ultimately show "\<exists>t. main_step M conf (AtReload, s) (Reloaded, t)
        \<and> main_step M conf (Reloaded, t) (Reloaded, handle_signal SIGHUP t)
        \<and> (\<exists>u. (main_step M conf)\<^sup>*\<^sup>* (Reloaded, handle_signal SIGHUP t) (Pausing, u)
            \<and> \<not> flag_reload u \<and> flag_quit u = 0 \<and> ms_config u = ms_config s1)"
    using f by (intro exI [of _ ?t] conjI exI [of _ ?u]) simp_all
qed

end

section \<open>The loop serves the requests\<close>

lemma handle_requests:
  "flag_reload (fold handle_signal sigs s) = (flag_reload s \<or> SIGHUP \<in> set sigs)"
  "flag_save_cfg (fold handle_signal sigs s) = (flag_save_cfg s \<or> SIGUSR1 \<in> set sigs)"
proof (induction sigs arbitrary: s)
  case (Cons x sigs)
  case 1
  from Cons(1) show ?case
    by (cases x) (auto simp: termination_handler_def reload_handler_def save_config_handler_def)
  case 2
  from Cons(2) show ?case
    by (cases x) (auto simp: termination_handler_def reload_handler_def save_config_handler_def)
qed simp_all

context served_modules begin

lemma view_signals: "view (fold handle_signal sigs s) = view s"
proof (induction sigs arbitrary: s)
  case (Cons x sigs)
  then show ?case
    by (cases x) (simp_all add: termination_handler_def reload_handler_def save_config_handler_def
        view_quit view_reload view_save)
qed simp

lemma round_served:
  fixes sigs s
  defines "t \<equiv> fold handle_signal sigs s"
  shows "case serve_batch reload save (requests s @ sigs) (view s) of
      None \<Rightarrow> main_round M conf t = None
    | Some (Exit n) \<Rightarrow> main_round M conf t = Some (Exit n)
    | Some (Go v) \<Rightarrow> \<exists>s'. main_round M conf t = Some (Go s') \<and> view s' = v \<and> flag_quit s' = flag_quit t
        \<and> \<not> flag_reload s' \<and> \<not> flag_save_cfg s'"
proof -
  have f: "SIGHUP \<in> set (requests s @ sigs) \<longleftrightarrow> flag_reload t" "SIGUSR1 \<in> set (requests s @ sigs) \<longleftrightarrow> flag_save_cfg t"
    by (auto simp: t_def handle_requests requests_def)
  have v: "view s = view t" by (simp add: t_def view_signals)
  have saved: "\<exists>s'. (if flag_save_cfg u then (main_save M conf u)\<lparr>flag_save_cfg := False\<rparr> else u) = s'
      \<and> view s' = (if flag_save_cfg t then save (view u) else view u) \<and> flag_quit s' = flag_quit t
      \<and> \<not> flag_reload s' \<and> \<not> flag_save_cfg s'"
    if "flag_save_cfg u = flag_save_cfg t" "flag_quit u = flag_quit t" "\<not> flag_reload u" for u
    using that by (simp add: view_save save_view main_save_def write_keeps)
  show ?thesis
  proof (cases "flag_reload t")
    case False
    with saved [of t] show ?thesis
      unfolding serve_batch_def f v by (simp add: main_round_def Let_def)
  next
    case True
    show ?thesis
    proof (cases "main_load M conf t")
      case None
      with True show ?thesis unfolding serve_batch_def f v by (simp add: main_round_def reload_view)
    next
      case (Some r)
      show ?thesis
      proof (cases r)
        case (Exit n)
        with True Some show ?thesis unfolding serve_batch_def f v by (simp add: main_round_def reload_view)
      next
        case (Go s1)
        with Some obtain c where s1: "s1 = t\<lparr>ms_config := c\<rparr>" by (blast elim: main_load_keeps)
        let ?u = "(mo_config_apply M s1)\<lparr>flag_reload := False\<rparr>"
        have "flag_save_cfg ?u = flag_save_cfg t" "flag_quit ?u = flag_quit t" "\<not> flag_reload ?u"
          by (simp_all add: apply_keeps s1)
        from saved [OF this] True Some Go show ?thesis
          unfolding serve_batch_def f v by (simp add: main_round_def reload_view view_reload Let_def)
      qed
    qed
  qed
qed

lemma batches_served:
  assumes "flag_quit s = 0"
    and "\<forall>b \<in> set bs. \<forall>x \<in> set b. \<not> terminates x" and "\<exists>x \<in> set sigs. terminates x"
  shows "case serve_batches reload save (requests s) (bs @ [sigs]) (view s) of
      None \<Rightarrow> main_loop M conf (bs @ sigs # rest) s = None
    | Some (Exit n) \<Rightarrow> main_loop M conf (bs @ sigs # rest) s = Some (Inl (Exit n))
    | Some (Go v) \<Rightarrow> \<exists>s'. main_loop M conf (bs @ sigs # rest) s = Some (Inl (Go s')) \<and> view s' = v
        \<and> flag_quit s' = signum (last (filter terminates sigs)) \<and> \<not> flag_reload s' \<and> \<not> flag_save_cfg s'"
  using assms(1,2)
proof (induction bs arbitrary: s)
  case Nil
  have q: "flag_quit (fold handle_signal sigs s) = signum (last (filter terminates sigs))"
    using assms(3) by (simp add: handle_quit)
  from round_served [where s = s and sigs = sigs] q signum_pos [of "last (filter terminates sigs)"] Nil.prems(1)
  show ?case by (cases rest) (auto split: option.splits proc.splits)
next
  case (Cons b bs)
  have q: "flag_quit (fold handle_signal b s) = 0" using Cons.prems by (simp add: handle_quit)
  note r = round_served [where s = s and sigs = b]
  show ?case
  proof (cases "serve_batch reload save (requests s @ b) (view s)")
    case None
    with r Cons.prems(1) show ?thesis by simp
  next
    case (Some p)
    show ?thesis
    proof (cases p)
      case (Exit n)
      with Some r Cons.prems(1) show ?thesis by simp
    next
      case (Go v)
      with Some r q obtain s' where s': "main_round M conf (fold handle_signal b s) = Some (Go s')" "view s' = v"
        "flag_quit s' = 0" "requests s' = []" by (auto simp: requests_def)
      have "main_loop M conf ((b # bs) @ sigs # rest) s = main_loop M conf (bs @ sigs # rest) s'"
        using s'(1) Cons.prems(1) by simp
      moreover have "serve_batches reload save (requests s) ((b # bs) @ [sigs]) (view s) =
          serve_batches reload save (requests s') (bs @ [sigs]) (view s')"
        using Some Go s'(2,4) by simp
      ultimately show ?thesis using Cons.IH [OF s'(3)] Cons.prems(2) by (simp only: list.set) blast
    qed
  qed
qed

end

end
