(* ===== verification/X52d_Command_Laws.thy ===== *)
theory X52d_Command_Laws
  imports X52d_Command
begin

text \<open>
  What the command server promises: a command whose arguments leave room for the longest
  error message is answered with a response that fits the buffer and names its kind, and
  keeps the daemon's state in order. Longer or empty commands can run past the buffers.
\<close>

section \<open>Responses fit\<close>

definition response_ok :: "bytes \<Rightarrow> bool" where
  "response_ok r \<longleftrightarrow> length r \<le> X52D_BUFSZ \<and>
     (\<exists>kind rest. (kind = ''OK'' \<or> kind = ''ERR'' \<or> kind = ''DATA'') \<and> r = kind @ NUL # rest)"

definition daemon_ok :: "'w daemon \<Rightarrow> bool" where
  "daemon_ok d \<longleftrightarrow> state_wf (d_config d) \<and> pinelog_wf (d_log d) \<and>
     num_modules (d_log d) = int X52D_MOD_MAX"

fun result_ok :: "(bytes \<times> 'w daemon) cmd_result \<Rightarrow> bool" where
  "result_ok Undefined = False"
| "result_ok (Exited n) = (n = 1)"
| "result_ok (Replied (r, d)) = (response_ok r \<and> daemon_ok d)"

lemma response_loop_prefix: "\<exists>rest. response_loop r args = r @ rest"
  by (induction args arbitrary: r) (auto, metis append_assoc)

lemma response_loop_length:
  "length r \<le> X52D_BUFSZ \<Longrightarrow> length (response_loop r args) \<le> X52D_BUFSZ"
  by (induction args arbitrary: r) auto

lemma response_strings_ok:
  assumes "kind = ''OK'' \<or> kind = ''ERR'' \<or> kind = ''DATA''"
  obtains r where "response_strings kind args = Some r" "response_ok r"
proof -
  obtain rest where rest: "response_loop (kind @ [NUL]) args = (kind @ [NUL]) @ rest"
    using response_loop_prefix by blast
  have "length (kind @ [NUL]) \<le> X52D_BUFSZ" using assms by (auto simp: X52D_BUFSZ_def)
  from response_loop_length [OF this, of args] rest assms
  have "response_ok (response_loop (kind @ [NUL]) args)" unfolding response_ok_def by (auto simp: rest)
  with that show thesis by (simp add: response_strings_def)
qed

lemma reply_strings:
  "kind = ''OK'' \<or> kind = ''ERR'' \<or> kind = ''DATA'' \<Longrightarrow> daemon_ok d \<Longrightarrow>
   result_ok (reply (response_strings kind args) d)"
  by (rule response_strings_ok [of kind args]) (simp_all add: reply_def)

fun arg_length :: "fmt_arg \<Rightarrow> nat" where
  "arg_length (FS s) = length s"
| "arg_length (FD i) = length (fmt_d i)"

lemma length_vsprintf: "length (vsprintf fmt args) \<le> length fmt + sum_list (map arg_length args)"
  by (induction fmt args rule: vsprintf.induct)
    (auto split: list.split fmt_arg.split)

lemma reply_fmt:
  assumes "length fmt + sum_list (map arg_length args) \<le> 1019" and "daemon_ok d"
  shows "result_ok (reply (ERR_fmt fmt args) d)"
proof -
  have "length (vsprintf fmt args) \<le> 1019" using length_vsprintf [of fmt args] assms(1) by simp
  with assms(2) show ?thesis
    by (auto simp: reply_def response_formatted_def X52D_BUFSZ_def response_ok_def Let_def)
qed

lemma wire_length: "length (wire argv) = sum_list (map (\<lambda>a. length a + 1) argv)"
  by (induction argv) simp_all

lemma wire_nth: "i < length argv \<Longrightarrow> length (argv ! i) < length (wire argv)"
proof (induction argv arbitrary: i)
  case (Cons a argv)
  then show ?case by (cases i) (auto, metis less_SucI trans_less_add2)
qed simp

lemma wire_count: "length argv \<le> length (wire argv)"
  by (induction argv) simp_all

lemma length_fmt_d_count: "length (wire argv) \<le> 900 \<Longrightarrow> length (fmt_d (int (length argv))) \<le> 12"
  using wire_count [of argv] by (intro length_fmt_d) (simp add: int_ok_def)

section \<open>The config command\<close>

lemma entry_parser_codes:
  "entry_parser s (Some c) (Some v) = (rc, c') \<Longrightarrow> rc = 0 \<or> rc = EINVAL \<or> rc = ERANGE"
  by (cases s) (auto simp: bool_parser_def string_parser_def int_parser_def led_parser_def
      clock_format_parser_def date_format_parser_def check_params_some Let_def
      split: if_splits prod.splits)

lemma config_set_ok:
  assumes "state_wf st"
  shows "\<exists>rc st'. x52d_config_set (Some s) (Some k) (Some v) st = (rc, st') \<and> state_wf st' \<and>
    length (fmt_d rc) \<le> 12"
proof -
  have codes: "length (fmt_d rc) \<le> 12" if "rc = 0 \<or> rc = EINVAL \<or> rc = ERANGE" for rc
    using that by (intro length_fmt_d) (auto simp: int_ok_def)
  show ?thesis
  proof (cases rule: process_kv_cases [of s k "config st" v])
    case (unknown)
    with assms show ?thesis by (simp add: x52d_config_set_def codes)
  next
    case (stored e w)
    with assms slot_write_laws(1) show ?thesis by (simp add: x52d_config_set_def codes state_wf_def)
  next
    case (rejected e r)
    then have "r = 0 \<or> r = EINVAL \<or> r = ERANGE"
      using entry_parser_codes [of "e_slot e" "config st" v r] by (simp add: process_kv_row)
    with rejected assms show ?thesis by (simp add: x52d_config_set_def codes)
  qed
qed

lemma daemon_load_ok:
  assumes "daemon_ok d"
  shows "case daemon_load env (Some f) d of Undefined \<Rightarrow> False | Exited n \<Rightarrow> n = 1 | Replied d' \<Rightarrow> daemon_ok d'"
proof -
  let ?load = "x52d_config_load (ce_sysconfdir env) (d_files d) (Some f) (d_config d)"
  have "state_wf (d_config d)" using assms by (simp add: daemon_ok_def)
  from load_outcome [OF this, of "ce_sysconfdir env" "d_files d" "Some f"] assms show ?thesis
    by (elim disjE exE conjE) (simp_all add: daemon_load_def daemon_ok_def)
qed

lemma daemon_save_ok: "daemon_ok d \<Longrightarrow> daemon_ok (daemon_save env f d)"
  by (auto simp: daemon_save_def daemon_ok_def split: prod.splits option.splits)

text \<open>A vector of a known length as its elements.\<close>

lemma length_cases:
  "length xs = 3 \<Longrightarrow> \<exists>a b c. xs = [a, b, c]"
  "length xs = 4 \<Longrightarrow> \<exists>a b c d. xs = [a, b, c, d]"
  "length xs = 5 \<Longrightarrow> \<exists>a b c d e. xs = [a, b, c, d, e]"
  by (auto simp: length_Suc_conv numeral_eq_Suc)

named_theorems cmd_ok \<open>commands whose result is in order\<close>

lemma config_load_cmd_ok [cmd_ok]:
  assumes "length (wire argv) \<le> 900" and "daemon_ok d"
  shows "result_ok (config_load_cmd env argv d)"
proof (cases "length argv = 3")
  case True
  have "length (argv ! 2) \<le> 900" using wire_nth [of 2 argv] assms(1) True by simp
  with assms True daemon_load_ok [OF assms(2), of env "argv ! 2"] show ?thesis
    by (auto simp: config_load_cmd_def reply_fmt reply_strings split: cmd_result.split)
next
  case False
  with length_fmt_d_count [OF assms(1)] assms(2) show ?thesis
    by (simp add: config_load_cmd_def reply_fmt)
qed

lemma config_reload_cmd_ok [cmd_ok]:
  assumes "length (wire argv) \<le> 900" and "daemon_ok d"
  shows "result_ok (config_reload_cmd argv d)"
  using length_fmt_d_count [OF assms(1)] assms(2)
  by (auto simp: config_reload_cmd_def reply_fmt daemon_ok_def intro!: reply_strings)

lemma config_dump_cmd_ok [cmd_ok]:
  assumes "length (wire argv) \<le> 900" and "daemon_ok d"
  shows "result_ok (config_dump_cmd env argv d)"
proof (cases "length argv = 3")
  case True
  have "length (argv ! 2) \<le> 900" using wire_nth [of 2 argv] assms(1) True by simp
  with assms True show ?thesis
    by (auto simp: config_dump_cmd_def reply_fmt daemon_save_ok intro!: reply_strings)
next
  case False
  with length_fmt_d_count [OF assms(1)] assms(2) show ?thesis
    by (simp add: config_dump_cmd_def reply_fmt)
qed

lemma config_save_cmd_ok [cmd_ok]:
  assumes "length (wire argv) \<le> 900" and "daemon_ok d"
  shows "result_ok (config_save_cmd argv d)"
  using length_fmt_d_count [OF assms(1)] assms(2)
  by (auto simp: config_save_cmd_def reply_fmt daemon_ok_def intro!: reply_strings)

lemma config_set_cmd_ok [cmd_ok]:
  assumes "length (wire argv) \<le> 900" and d: "daemon_ok d"
    and err: "\<And>e. length (ce_strerror env e) \<le> 64"
  shows "result_ok (config_set_cmd env argv d)"
proof (cases "length argv = 5")
  case True
  then obtain a b s k v where argv: "argv = [a, b, s, k, v]" using length_cases(3) by blast
  from d config_set_ok [of "d_config d" s k v] obtain rc st where
    set: "x52d_config_set (Some s) (Some k) (Some v) (d_config d) = (rc, st)" "state_wf st"
    "length (fmt_d rc) \<le> 12" by (auto simp: daemon_ok_def)
  from set(2) d have ok: "daemon_ok (d \<lparr> d_config := st \<rparr>)"
    "daemon_ok (d \<lparr> d_config := st, d_devices := w \<rparr>)" for w by (simp_all add: daemon_ok_def)
  have "length s + length k + length v \<le> 900" using assms(1) argv by simp
  with set(3) err [of rc] have "result_ok (reply (ERR_fmt ''Error %d setting '%s.%s'='%s': %s''
      [FD rc, FS s, FS k, FS v, FS (ce_strerror env rc)]) (d \<lparr> d_config := st \<rparr>))"
    by (intro reply_fmt ok) simp
  with set(1) argv ok show ?thesis
    by (simp add: config_set_cmd_def reply_strings Let_def)
next
  case False
  with length_fmt_d_count [OF assms(1)] assms(2) show ?thesis
    by (simp add: config_set_cmd_def reply_fmt)
qed

lemma config_get_cmd_ok [cmd_ok]:
  assumes "length (wire argv) \<le> 900" and "daemon_ok d"
  shows "result_ok (config_get_cmd env argv d)"
proof (cases "length argv = 4")
  case True
  then obtain a b s k where argv: "argv = [a, b, s, k]" using length_cases(2) by blast
  have "length s + length k \<le> 900" using assms(1) argv by simp
  then have "result_ok (reply (ERR_fmt (''Error getting '%s.%s'' @ [CHR 0x27]) [FS s, FS k]) d)"
    by (intro reply_fmt assms(2)) simp
  with argv assms(2) show ?thesis
    by (auto simp: config_get_cmd_def reply_strings split: option.split)
next
  case False
  with length_fmt_d_count [OF assms(1)] assms(2) show ?thesis
    by (simp add: config_get_cmd_def reply_fmt)
qed

lemma cmd_config_ok [cmd_ok]:
  assumes "length (wire argv) \<le> 900" and "daemon_ok d" and "\<And>e. length (ce_strerror env e) \<le> 64"
  shows "result_ok (cmd_config env argv d)"
proof (cases "length argv < 2")
  case True
  with assms(2) show ?thesis by (simp add: cmd_config_def reply_strings)
next
  case False
  have "length (argv ! 1) \<le> 900" using wire_nth [of 1 argv] assms(1) False by simp
  then have "result_ok (reply (ERR_fmt ''Unknown subcommand '%s' for 'config' command'' [FS (argv ! 1)]) d)"
    by (intro reply_fmt assms(2)) simp
  with False show ?thesis unfolding cmd_config_def by (simp add: cmd_ok assms del: One_nat_def)
qed

section \<open>The logging command\<close>

lemma lmap_get_string_legal:
  assumes "level_legal l"
  shows "\<exists>s. lmap_get_string loglevels l = Some s"
proof -
  have "l = -2 \<or> l = -1 \<or> l = 0 \<or> l = 1 \<or> l = 2 \<or> l = 3 \<or> l = 4 \<or> l = 5"
    using assms by (auto simp: level_legal_def pinelog_levels)
  then show ?thesis by (auto simp: lmap_get_string_def loglevels_def pinelog_levels)
qed

lemma array_find_index_le: "array_find_index as s \<le> length as"
  by (induction as) auto

lemma module_index:
  "array_find_index modules s \<noteq> X52D_MOD_MAX \<Longrightarrow> array_find_index modules s < X52D_MOD_MAX"
  using array_find_index_le [of modules s] by (simp add: modules_def X52D_MOD_MAX_def)

lemma loglevels_legal: "list_all (\<lambda>x. level_legal (fst x)) loglevels"
  by (simp add: loglevels_def pinelog_levels level_legal_def)

lemma lmap_get_level_legal:
  assumes "lmap_get_level loglevels s INT_MAX \<noteq> INT_MAX"
  shows "level_legal (lmap_get_level loglevels s INT_MAX)"
proof -
  from assms obtain l t where f: "find (\<lambda>(l, t). strcaseeq t s) loglevels = Some (l, t)"
    by (auto simp: lmap_get_level_def split: option.splits)
  then have "(l, t) \<in> set loglevels" unfolding find_Some_iff by (metis nth_mem)
  with loglevels_legal have "level_legal l" by (auto simp: list_all_iff)
  with f show ?thesis by (simp add: lmap_get_level_def)
qed

lemma pinelog_module_level_legal:
  "pinelog_wf p \<Longrightarrow> level_legal (pinelog_get_module_level m p)"
  by (auto simp: pinelog_wf_def pinelog_get_module_level_def pinelog_get_level_def level_legal_def
      pinelog_levels Let_def list_all_length nat_less_iff)

lemma pinelog_level_legal: "pinelog_wf p \<Longrightarrow> level_legal (pinelog_get_level p)"
  by (auto simp: pinelog_wf_def pinelog_get_level_def level_legal_def pinelog_levels)

lemma logging_show_cmd_ok [cmd_ok]:
  assumes "length (wire argv) \<le> 900" and "daemon_ok d"
  shows "result_ok (logging_show_cmd argv d)"
proof -
  have wf: "pinelog_wf (d_log d)" using assms(2) by (simp add: daemon_ok_def)
  from lmap_get_string_legal [OF pinelog_level_legal [OF wf]] obtain s0 where
    s0: "lmap_get_string loglevels (pinelog_get_level (d_log d)) = Some s0" ..
  consider "length argv = 2" | "length argv = 3" | "length argv \<noteq> 2" "length argv \<noteq> 3" by blast
  then show ?thesis
  proof cases
    case 1
    with s0 assms(2) show ?thesis by (simp add: logging_show_cmd_def reply_strings)
  next
    case 2
    from lmap_get_string_legal [OF pinelog_module_level_legal [OF wf]] obtain s1 where s1:
      "lmap_get_string loglevels (pinelog_get_module_level
         (int (array_find_index modules (argv ! 2))) (d_log d)) = Some s1" by blast
    have "length (argv ! 2) \<le> 900" using wire_nth [of 2 argv] assms(1) 2 by simp
    with 2 s1 assms(2) show ?thesis by (simp add: logging_show_cmd_def reply_fmt reply_strings Let_def)
  next
    case 3
    with length_fmt_d_count [OF assms(1)] assms(2) show ?thesis
      by (simp add: logging_show_cmd_def reply_fmt)
  qed
qed

lemma daemon_ok_log:
  "daemon_ok d \<Longrightarrow> pinelog_wf lg \<Longrightarrow> num_modules lg = int X52D_MOD_MAX \<Longrightarrow>
   daemon_ok (d \<lparr> d_log := lg \<rparr>)"
  by (simp add: daemon_ok_def)

lemma set_level_daemon_ok:
  assumes "daemon_ok d"
  shows "daemon_ok (d \<lparr> d_log := snd (pinelog_set_level l (d_log d)) \<rparr>)"
proof (rule daemon_ok_log [OF assms])
  obtain rc p where s: "pinelog_set_level l (d_log d) = (rc, p)" by (rule prod.exhaust)
  with assms pinelog_set_level_wf [of "d_log d" l rc p]
  show "pinelog_wf (snd (pinelog_set_level l (d_log d)))" by (simp add: daemon_ok_def)
  show "num_modules (snd (pinelog_set_level l (d_log d))) = int X52D_MOD_MAX"
    using assms by (simp add: daemon_ok_def pinelog_set_level_def)
qed

lemma set_module_level_daemon_ok:
  assumes "daemon_ok d" and "m < X52D_MOD_MAX" and "level_legal l"
  shows "\<exists>rc lg. pinelog_set_module_level (int m) l (d_log d) = Some (rc, lg) \<and>
    daemon_ok (d \<lparr> d_log := lg \<rparr>)"
proof -
  let ?p = "d_log d"
  let ?lg = "?p \<lparr> module_level := (module_level ?p) [m := l] \<rparr>"
  have wf: "pinelog_wf ?p" "num_modules ?p = int X52D_MOD_MAX" using assms(1) by (simp_all add: daemon_ok_def)
  then have "pinelog_set_module_level (int m) l ?p = Some (0, ?lg)"
    using assms(2,3) by (simp add: pinelog_set_module_level_def pinelog_wf_def level_legal_def)
  moreover from pinelog_set_module_level_wf [OF wf(1) this] wf(2)
  have "daemon_ok (d \<lparr> d_log := ?lg \<rparr>)" by (intro daemon_ok_log [OF assms(1)]) simp_all
  ultimately show ?thesis by blast
qed

lemma logging_set_cmd_ok [cmd_ok]:
  assumes "length (wire argv) \<le> 900" and "daemon_ok d"
  shows "result_ok (logging_set_cmd argv d)"
proof -
  consider "length argv = 3" | "length argv = 4" | "length argv \<noteq> 3" "length argv \<noteq> 4" by blast
  then show ?thesis
  proof cases
    case 1
    have "length (argv ! 2) \<le> 900" using wire_nth [of 2 argv] assms(1) 1 by simp
    with 1 assms(2) show ?thesis
      by (simp add: logging_set_cmd_def reply_fmt reply_strings set_level_daemon_ok Let_def)
  next
    case 2
    let ?m = "array_find_index modules (argv ! 2)" and ?l = "lmap_get_level loglevels (argv ! 3) INT_MAX"
    have "length (argv ! 2) \<le> 900" "length (argv ! 3) \<le> 900"
      using wire_nth [of 2 argv] wire_nth [of 3 argv] assms(1) 2 by simp_all
    then have errs: "result_ok (reply (ERR_fmt (''Invalid module '%s'' @ [CHR 0x27]) [FS (argv ! 2)]) d)"
      "result_ok (reply (ERR_fmt ''Unknown level '%s' for 'logging set' command'' [FS (argv ! 3)]) d)"
      by (auto intro!: reply_fmt assms(2))
    show ?thesis
    proof (cases "?m = X52D_MOD_MAX \<or> ?l = INT_MAX")
      case True
      with 2 errs show ?thesis by (auto simp: logging_set_cmd_def Let_def)
    next
      case False
      with set_module_level_daemon_ok [OF assms(2) module_index lmap_get_level_legal]
      obtain rc lg where "pinelog_set_module_level (int ?m) ?l (d_log d) = Some (rc, lg)"
        "daemon_ok (d \<lparr> d_log := lg \<rparr>)" by blast
      with False 2 show ?thesis by (simp add: logging_set_cmd_def reply_strings Let_def)
    qed
  next
    case 3
    with length_fmt_d_count [OF assms(1)] assms(2) show ?thesis
      by (simp add: logging_set_cmd_def reply_fmt)
  qed
qed

lemma cmd_logging_ok [cmd_ok]:
  assumes "length (wire argv) \<le> 900" and "daemon_ok d"
  shows "result_ok (cmd_logging argv d)"
proof (cases "length argv < 2")
  case True
  with assms(2) show ?thesis by (simp add: cmd_logging_def reply_strings)
next
  case False
  have "length (argv ! 1) \<le> 900" using wire_nth [of 1 argv] assms(1) False by simp
  then have "result_ok (reply (ERR_fmt ''Unknown subcommand '%s' for 'logging' command'' [FS (argv ! 1)]) d)"
    by (intro reply_fmt assms(2)) simp
  with False show ?thesis unfolding cmd_logging_def by (simp add: cmd_ok assms del: One_nat_def)
qed

section \<open>Serving a command\<close>

lemma run_command_ok:
  assumes "argv \<noteq> []" and "length (wire argv) \<le> 900" and "daemon_ok d"
    and "\<And>e. length (ce_strerror env e) \<le> 64"
  shows "result_ok (run_command env argv d)"
proof -
  obtain a as where argv: "argv = a # as" using assms(1) by (cases argv) simp_all
  then have "length a \<le> 900" using assms(2) by simp
  then have "result_ok (reply (ERR_fmt (''Unknown command '%s'' @ [CHR 0x27]) [FS a]) d)"
    by (intro reply_fmt assms(3)) simp
  then show ?thesis unfolding run_command_def argv list.case
    using cmd_config_ok [OF assms(2-4)] cmd_logging_ok [OF assms(2,3)] argv by simp
qed

lemma command_parser_formatted:
  assumes "args \<noteq> []" and "\<forall>a \<in> set args. \<forall>c \<in> set a. c \<noteq> NUL"
    and "x52d_format_command (Some args) True X52D_BUFSZ = Inr (n, buf)"
  shows "command_parser env buf n d = run_command env args d"
proof -
  have "map (cstring_at buf) (x52d_split_args buf n) = map Some args"
    using format_split [OF assms(1,2)] assms(3) by (auto split: if_splits)
  then show ?thesis by (auto simp: command_parser_def)
qed

text \<open>
  The commands that end the daemon: a \<open>config load\<close> of a readable file that cannot be opened after
  all, or with an override pending whose text is not legal.
\<close>

definition load_fails :: "'w cmd_env \<Rightarrow> string list \<Rightarrow> 'w daemon \<Rightarrow> bool" where
  "load_fails env args d \<longleftrightarrow> length args = 3 \<and> strcaseeq (args ! 0) ''config'' \<and> strcaseeq (args ! 1) ''load''
     \<and> check_file env (args ! 2) True
     \<and> (d_files d (args ! 2) = None \<or> \<not> list_all override_legal (overrides (d_config d)))"

lemma reply_not_exited [simp]: "reply resp d \<noteq> Exited k"
  by (simp add: reply_def split: option.split)

lemma logging_not_exited: "cmd_logging argv d \<noteq> Exited k"
  by (simp add: cmd_logging_def logging_show_cmd_def logging_set_cmd_def Let_def split: option.split prod.split)

lemma daemon_load_exited:
  assumes "daemon_ok d"
  shows "daemon_load env (Some f) d = Exited k \<longleftrightarrow>
    k = 1 \<and> (d_files d f = None \<or> \<not> list_all override_legal (overrides (d_config d)))"
proof -
  have wf: "state_wf (d_config d)" using assms by (simp add: daemon_ok_def)
  obtain c' where "x52d_config_load (ce_sysconfdir env) (d_files d) (Some f) (d_config d) =
      Some (if d_files d f = None \<or> \<not> list_all override_legal (overrides (d_config d)) then Exit 1
        else Go \<lparr> config = c', overrides = [] \<rparr>)"
    using load_result [OF wf refl, where cfg_file = "Some f"] by fastforce
  then show ?thesis by (auto simp: daemon_load_def)
qed

lemma config_exited:
  assumes "daemon_ok d" and "argv \<noteq> []" and "strcaseeq (argv ! 0) ''config''"
  shows "cmd_config env argv d = Exited k \<longleftrightarrow> k = 1 \<and> load_fails env argv d"
proof -
  have "config_load_cmd env argv d = Exited k \<longleftrightarrow> length argv = 3 \<and> check_file env (argv ! 2) True
      \<and> daemon_load env (Some (argv ! 2)) d = Exited k"
    by (auto simp: config_load_cmd_def split: cmd_result.split)
  moreover have "config_reload_cmd argv d \<noteq> Exited k" "config_dump_cmd env argv d \<noteq> Exited k"
    "config_save_cmd argv d \<noteq> Exited k" "config_set_cmd env argv d \<noteq> Exited k"
    "config_get_cmd env argv d \<noteq> Exited k"
    by (simp_all add: config_reload_cmd_def config_dump_cmd_def config_save_cmd_def config_set_cmd_def
        config_get_cmd_def Let_def split: option.split prod.split)
  ultimately show ?thesis
    using assms by (auto simp: cmd_config_def load_fails_def daemon_load_exited)
qed

lemma run_command_exited:
  assumes "daemon_ok d" and "argv \<noteq> []"
  shows "run_command env argv d = Exited k \<longleftrightarrow> k = 1 \<and> load_fails env argv d"
  using config_exited [OF assms] assms(2)
  by (cases argv) (auto simp: run_command_def load_fails_def logging_not_exited)

text \<open>
  C23:
  A command that a client formats from arguments of at most 900 bytes is answered: the
  response fits the buffer and starts with OK, ERR or DATA, and the daemon's configuration and
  log levels stay well formed. The only exception is a \<open>config load\<close> that fails: it leaves the
  process with status 1, and nothing else does. The texts of \<open>strerror\<close> are taken to have at most
  64 characters.
\<close>

theorem x52d_command_answered:
  assumes "args \<noteq> []" and "\<forall>a \<in> set args. \<forall>c \<in> set a. c \<noteq> NUL" and "length (wire args) \<le> 900"
    and "daemon_ok d" and "\<forall>e. length (ce_strerror env e) \<le> 64"
  shows "\<exists>n buf. x52d_format_command (Some args) True X52D_BUFSZ = Inr (n, buf) \<and>
    (if load_fails env args d then command_parser env buf n d = Exited 1
     else \<exists>r d'. command_parser env buf n d = Replied (r, d') \<and> response_ok r \<and> daemon_ok d')"
proof -
  have "length (wire args) < X52D_BUFSZ" using assms(3) by (simp add: X52D_BUFSZ_def)
  then obtain n buf where f: "x52d_format_command (Some args) True X52D_BUFSZ = Inr (n, buf)"
    using x52d_format_command_wire [OF assms(1) order_refl] by simp
  from run_command_ok [OF assms(1,3,4)] assms(5) have "result_ok (run_command env args d)" by blast
  with f command_parser_formatted [OF assms(1,2) f, of env d] run_command_exited [OF assms(4,1), of env]
  show ?thesis by (cases "run_command env args d") auto
qed

definition demo_env :: "nat cmd_env" where
  "demo_env = \<lparr> ce_sysconfdir = ''/etc'', ce_tr = (\<lambda>s. s), ce_strerror = (\<lambda>_. ''Invalid argument''),
     ce_readable = (\<lambda>_. True), ce_writable = (\<lambda>_. True), ce_callbacks = (\<lambda>_ _ w. w + 1) \<rparr>"

definition demo_daemon :: "nat daemon" where
  "demo_daemon = \<lparr> d_config = \<lparr> config = config_example, overrides = [] \<rparr>,
     d_log = pinelog_modules 9, d_files = (\<lambda>_. None), d_signals = [],
     d_devices = 0 \<rparr>"

lemma demo_daemon_ok: "daemon_ok demo_daemon"
proof -
  have "pinelog_wf (pinelog_modules 9)" by (rule pinelog_modules_wf) simp
  then show ?thesis
    by (simp add: daemon_ok_def demo_daemon_def state_wf_def config_example_wf X52D_MOD_MAX_def
        pinelog_init_def pinelog_modules_def pinelog_start_def)
qed

text \<open>A file that is not there ends the daemon; setting a log level, and an unknown command, do not.\<close>

lemma x52d_command_answered_witness:
  "(\<exists>n buf. x52d_format_command (Some [''config'', ''load'', ''/none'']) True X52D_BUFSZ = Inr (n, buf)
      \<and> command_parser demo_env buf n demo_daemon = Exited 1)
   \<and> (\<exists>n buf r d'. x52d_format_command (Some [''logging'', ''set'', ''info'']) True X52D_BUFSZ = Inr (n, buf)
      \<and> command_parser demo_env buf n demo_daemon = Replied (r, d') \<and> response_ok r)"
proof -
  have laws: "\<forall>e. length (ce_strerror demo_env e) \<le> 64" by (simp add: demo_env_def)
  have "strcaseeq ''config'' ''config''" "strcaseeq ''load'' ''load''" "\<not> strcaseeq ''logging'' ''config''"
    by code_simp+
  then have "load_fails demo_env [''config'', ''load'', ''/none''] demo_daemon"
    "\<not> load_fails demo_env [''logging'', ''set'', ''info''] demo_daemon"
    by (simp_all add: load_fails_def check_file_def demo_env_def demo_daemon_def)
  with x52d_command_answered [OF _ _ _ demo_daemon_ok laws, of "[''config'', ''load'', ''/none'']"]
    x52d_command_answered [OF _ _ _ demo_daemon_ok laws, of "[''logging'', ''set'', ''info'']"]
  show ?thesis by auto
qed

section \<open>A command without room for its answer\<close>

lemma reply_unknown:
  "reply (ERR_fmt (''Unknown command '%s'' @ [CHR 0x27]) [FS a]) d =
     (if 1001 < length a then Undefined
      else Replied (wire [''ERR'', ''Unknown command '' @ CHR 0x27 # a @ [CHR 0x27]], d))"
  by (simp add: reply_def response_formatted_def X52D_BUFSZ_def)

text \<open>
  C24:
  What becomes of an unknown command, whatever its arguments, as long as a client can send it:
  with a name of up to 1001 characters it is answered with the error message that quotes it. A
  longer name still fits the buffers of the client and of the server, but the message does not,
  and the server copies past the end of its buffers.
\<close>

theorem x52d_command_undefined:
  assumes "\<forall>x \<in> set (a # rest). \<forall>c \<in> set x. c \<noteq> NUL"
    and "\<not> strcaseeq a ''config''" and "\<not> strcaseeq a ''logging''"
    and "x52d_format_command (Some (a # rest)) True X52D_BUFSZ = Inr (n, buf)"
  shows "command_parser env buf n d =
    (if 1001 < length a then Undefined
     else Replied (wire [''ERR'', ''Unknown command '' @ CHR 0x27 # a @ [CHR 0x27]], d))"
proof -
  have "command_parser env buf n d = run_command env (a # rest) d"
    by (rule command_parser_formatted [OF _ assms(1,4)]) simp
  also have "\<dots> = reply (ERR_fmt (''Unknown command '%s'' @ [CHR 0x27]) [FS a]) d"
    using assms(2,3) by (simp only: run_command_def list.case if_False)
  finally show ?thesis by (simp only: reply_unknown)
qed

text \<open>A name of 1010 characters with an argument.\<close>

lemma x52d_command_undefined_witness:
  "\<exists>n buf. x52d_format_command (Some [replicate 1010 (CHR ''a''), ''b'']) True X52D_BUFSZ = Inr (n, buf)
     \<and> command_parser demo_env buf n demo_daemon = Undefined"
proof -
  define a where "a = replicate 1010 (CHR ''a'')"
  have a: "\<forall>x \<in> set [a, ''b'']. \<forall>c \<in> set x. c \<noteq> NUL" "length a = 1010" by (simp_all add: a_def)
  obtain n buf where f: "x52d_format_command (Some [a, ''b'']) True X52D_BUFSZ = Inr (n, buf)"
    using x52d_format_command_wire [of "[a, ''b'']" X52D_BUFSZ] a(2) by (simp add: X52D_BUFSZ_def)
  have "\<not> strcaseeq a ''config''" "\<not> strcaseeq a ''logging''"
    using a(2) by (auto simp: strcaseeq_def dest!: arg_cong [where f = length])
  from x52d_command_undefined [OF a(1) this f, of demo_env demo_daemon] f a(2) show ?thesis
    by (auto simp: a_def)
qed

text \<open>An empty message makes the server compare a NULL argument.\<close>

lemma x52d_empty_message: "command_parser env (replicate 1024 NUL) 0 d = Undefined"
  by (simp add: command_parser_def x52d_split_args_def split_from.simps run_command_def)

end
