(* ===== verification/X52d_Server.thy ===== *)
theory X52d_Server
  imports X52d_Command_Laws
begin

text \<open>
  The command server as a whole (\<open>client_handler\<close>, \<open>x52d_command_loop\<close>, \<open>x52d_command_init\<close> and
  \<open>x52d_command_exit\<close> of \<open>daemon/x52d_command.c\<close>): the client table of \<open>X52d_Client\<close> with the
  command parser of \<open>X52d_Command\<close> as its handler. The state pairs the operating system with
  the outcome of the commands so far; nothing happens after a command that exits or is
  undefined. Creating and cancelling the thread is left out: the loop is one of its rounds.
\<close>

section \<open>The handler\<close>

type_synonym ('w, 'd) server = "'w \<times> 'd daemon cmd_result"

text \<open>The system calls on such a pair.\<close>

definition on_os :: "('a, 'w) sys \<Rightarrow> ('a, ('w, 'd) server) sys" where
  "on_os call s = (let (r, w) = call (fst s) in (r, (w, snd s)))"

definition server_posix :: "'w posix \<Rightarrow> ('w, 'd) server posix" where
  "server_posix P = \<lparr> sys_socket = on_os (sys_socket P),
     sys_connect = (\<lambda>fd p l. on_os (sys_connect P fd p l)), sys_bind = (\<lambda>fd p l. on_os (sys_bind P fd p l)),
     sys_listen = (\<lambda>fd n. on_os (sys_listen P fd n)), sys_accept = (\<lambda>fd. on_os (sys_accept P fd)),
     sys_getfl = (\<lambda>fd. on_os (sys_getfl P fd)),
     sys_set_nonblock = (\<lambda>fd fl. on_os (sys_set_nonblock P fd fl)),
     sys_close = (\<lambda>fd. on_os (sys_close P fd)), sys_unlink = (\<lambda>p. on_os (sys_unlink P p)),
     sys_send = (\<lambda>fd m. on_os (sys_send P fd m)), sys_recv = (\<lambda>fd n. on_os (sys_recv P fd n)),
     sys_read = (\<lambda>fd n. on_os (sys_read P fd n)), sys_write = (\<lambda>fd m. on_os (sys_write P fd m)),
     sys_pipe = on_os (sys_pipe P), sys_poll = (\<lambda>ps. on_os (sys_poll P ps)),
     sys_so_error = (\<lambda>fd. on_os (sys_so_error P fd)) \<rparr>"

definition client_handler :: "'w posix \<Rightarrow> 'd cmd_env \<Rightarrow> int \<Rightarrow> ('w, 'd) server \<Rightarrow> ('w, 'd) server" where
  "client_handler P env fd s =
     (case s of (w, Replied d) \<Rightarrow>
        (case sys_recv P fd X52D_BUFSZ w of
           (Inl _, w1) \<Rightarrow> (w1, Replied d)
         | (Inr message, w1) \<Rightarrow>
             (case command_parser env (message @ replicate (X52D_BUFSZ - length message) NUL)
                     (length message) d of
                Undefined \<Rightarrow> (w1, Undefined)
              | Exited n \<Rightarrow> (w1, Exited n)
              | Replied (response, d') \<Rightarrow> (snd (sys_send P fd response w1), Replied d')))
      | _ \<Rightarrow> s)"

section \<open>The loop\<close>

text \<open>The return value, the table and the state; \<open>None\<close> when the poll never returns.\<close>

definition x52d_command_loop ::
  "'w posix \<Rightarrow> 'd cmd_env \<Rightarrow> int list \<Rightarrow> int \<Rightarrow> ('w, 'd) server \<Rightarrow>
   (int \<times> int list \<times> ('w, 'd) server) option" where
  "x52d_command_loop P env client_fd sock_fd s =
     (case x52d_client_poll (server_posix P) client_fd sock_fd s of
        None \<Rightarrow> None
      | Some (rc, pfd, s1) \<Rightarrow>
          if rc \<le> 0 then Some (-1, client_fd, s1)
          else Some (0, x52d_client_handle (server_posix P) client_fd pfd sock_fd
                           (Some (client_handler P env)) s1))"

section \<open>Start and end\<close>

record command_server =
  cs_client_fd :: "int list"
  cs_sock_fd :: int
  cs_sock_path :: "string option"

definition x52d_command_init ::
  "'w posix \<Rightarrow> string \<Rightarrow> string option \<Rightarrow> command_server \<Rightarrow> 'w \<Rightarrow> int \<times> command_server \<times> 'w" where
  "x52d_command_init P rundir sock_path cs w =
     (let cs1 = \<lparr> cs_client_fd = x52d_client_init (cs_client_fd cs), cs_sock_fd = -1,
                  cs_sock_path = sock_path \<rparr>
      in case x52d_setup_command_sock rundir sock_path True of
           Inl _ \<Rightarrow> (-1, cs1, w)
         | Inr (len, sun_path) \<Rightarrow>
             (case sys_socket P w of
                (Inl _, w1) \<Rightarrow> (-1, cs1, w1)
              | (Inr fd, w1) \<Rightarrow>
                  (let (nb, w2) = x52d_set_socket_nonblocking P fd w1 in
                   if nb < 0 then (-1, cs1, if 0 \<le> fd then snd (sys_close P fd w2) else w2)
                   else let (ls, w3) = x52d_listen_socket P sun_path len fd w2 in
                     if ls < 0 then
                       (let w4 = snd (sys_unlink P sun_path w3)
                        in (-1, cs1, if 0 \<le> fd then snd (sys_close P fd w4) else w4))
                     else (0, cs1 \<lparr> cs_sock_fd := fd \<rparr>, w3))))"

definition x52d_command_exit :: "'w posix \<Rightarrow> string \<Rightarrow> command_server \<Rightarrow> 'w \<Rightarrow> command_server \<times> 'w" where
  "x52d_command_exit P rundir cs w =
     (if 0 \<le> cs_sock_fd cs then
        (let path = x52d_command_sock_path rundir (cs_sock_path cs);
             w1 = snd (sys_close P (cs_sock_fd cs) w);
             w2 = snd (sys_unlink P path w1)
         in (cs \<lparr> cs_sock_fd := -1, cs_sock_path := None \<rparr>, w2))
      else (cs, w))"

section \<open>The table stays in order\<close>

lemma server_fd_laws:
  fixes P :: "'w posix"
  assumes "fd_laws P opens"
  shows "fd_laws (server_posix P :: ('w, 'd) server posix) (opens \<circ> fst)"
proof -
  have acc: "case sys_accept P s w of (Inl _, w') \<Rightarrow> opens w' = opens w
      | (Inr fd, w') \<Rightarrow> 0 \<le> fd \<and> fd \<notin> opens w \<and> opens w' = insert fd (opens w)" for s w
    using assms by (simp add: fd_laws_def)
  have "case sys_accept (server_posix P) s v of (Inl _, v') \<Rightarrow> (opens \<circ> fst) v' = (opens \<circ> fst) v
      | (Inr fd, v') \<Rightarrow> 0 \<le> fd \<and> fd \<notin> (opens \<circ> fst) v \<and>
          (opens \<circ> fst) v' = insert fd ((opens \<circ> fst) v)" for s and v :: "('w, 'd) server"
    using acc [of "fst v" s] by (simp add: server_posix_def on_os_def split: prod.splits sum.splits)
  then show ?thesis using assms
    unfolding fd_laws_def by (simp add: server_posix_def on_os_def split_beta)
qed

lemma client_handler_opens:
  assumes "\<And>fd n w. opens (snd (sys_recv P fd n w)) = opens w"
    and "\<And>fd m w. opens (snd (sys_send P fd m w)) = opens w"
  shows "(opens \<circ> fst) (client_handler P env fd s) = (opens \<circ> fst) s"
proof (cases "snd s")
  case (Replied d)
  obtain w where s: "s = (w, Replied d)" using Replied by (cases s) simp
  obtain r w1 where r: "sys_recv P fd X52D_BUFSZ w = (r, w1)" by (rule prod.exhaust)
  with assms(1) [of fd X52D_BUFSZ w] have "opens w1 = opens w" by simp
  with s r assms(2) show ?thesis
    by (auto simp: client_handler_def split: sum.split cmd_result.split)
qed (cases s; simp add: client_handler_def)+

text \<open>
  One round of the command loop that returns keeps the client table in order: clients stay
  distinct open descriptors and no descriptor leaks, whatever the clients send, also when a
  command exits. The operating system is assumed to open descriptors only in \<open>accept\<close> and to
  close them only in \<open>close\<close>.
\<close>

lemma x52d_command_loop_table:
  assumes "fd_laws P opens" and "\<forall>fd n w. opens (snd (sys_recv P fd n w)) = opens w"
    and "\<forall>fd m w. opens (snd (sys_send P fd m w)) = opens w"
    and "table_ok opens own cs (fst s)" and "sock_fd \<noteq> INVALID_CLIENT"
    and "x52d_command_loop P env cs sock_fd s = Some (rc, cs', s')"
  shows "table_ok opens own cs' (fst s') \<and> (rc = 0 \<or> rc = -1 \<and> cs' = cs)"
proof -
  note laws = server_fd_laws [OF assms(1)]
  have h: "\<forall>fd v. (opens \<circ> fst) (client_handler P env fd v) = (opens \<circ> fst) v"
    using client_handler_opens [of opens P] assms(2,3) by blast
  have ok: "table_ok (opens \<circ> fst) own cs s" using assms(4) by (simp add: table_ok_def)
  from assms(6) obtain n pfd s1 where poll: "x52d_client_poll (server_posix P) cs sock_fd s = Some (n, pfd, s1)"
    by (auto simp: x52d_command_loop_def split: option.splits)
  note s1 = table_ok_opens [OF ok, of s1, OF poll_opens [OF laws poll]]
  show ?thesis
  proof (cases "n \<le> 0")
    case True
    with assms(6) poll s1 show ?thesis by (auto simp: x52d_command_loop_def table_ok_def)
  next
    case False
    with assms(6) poll have "rc = 0"
      "x52d_client_handle (server_posix P) cs pfd sock_fd (Some (client_handler P env)) s1 = (cs', s')"
      by (auto simp: x52d_command_loop_def)
    moreover from this(2) have "table_ok (opens \<circ> fst) own cs' s'"
      unfolding x52d_client_handle_def
      by (rule handle_table_ok [OF laws _ s1, rotated 2])
        (use h poll_valid [OF assms(5) poll] in \<open>auto simp: list_all_iff dest: in_set_takeD\<close>)
    ultimately show ?thesis by (simp add: table_ok_def)
  qed
qed

lemma x52d_command_loop_table_witness:
  "\<exists>rc cs' s'. x52d_command_loop demo_posix demo_env (5 # replicate 62 INVALID_CLIENT) 3
      ([3, 5], Replied demo_daemon) = Some (rc, cs', s') \<and> table_ok set {3} cs' (fst s')"
proof -
  let ?cs = "5 # replicate 62 INVALID_CLIENT" and ?s = "([3, 5], Replied demo_daemon)"
  have ok: "table_ok set {3} ?cs (fst ?s)"
    by (auto simp: table_ok_def X52D_MAX_CLIENTS_def INVALID_CLIENT_def)
  have "\<exists>pfd. x52d_client_poll (server_posix demo_posix) ?cs 3 ?s = Some (1, pfd, ?s)"
    unfolding x52d_client_poll_def Let_def
    by (subst retry_eintr.simps) (simp add: demo_posix_def server_posix_def on_os_def)
  then obtain pfd where "x52d_client_poll (server_posix demo_posix) ?cs 3 ?s = Some (1, pfd, ?s)" ..
  then have "\<exists>rc cs' s'. x52d_command_loop demo_posix demo_env ?cs 3 ?s = Some (rc, cs', s')"
    by (simp add: x52d_command_loop_def) (metis prod.exhaust)
  then obtain rc cs' s' where l: "x52d_command_loop demo_posix demo_env ?cs 3 ?s = Some (rc, cs', s')"
    by blast
  have "table_ok set {3} cs' (fst s') \<and> (rc = 0 \<or> rc = -1 \<and> cs' = ?cs)"
    by (rule x52d_command_loop_table [OF demo_fd_laws _ _ ok _ l])
      (simp_all add: demo_posix_def INVALID_CLIENT_def)
  with l show ?thesis by blast
qed

end
