(* ===== verification/X52d_Notify.thy ===== *)
theory X52d_Notify
  imports X52d_Client
begin

text \<open>
  The notification manager (\<open>daemon/x52d_notify.c\<close>): sending a notification into the pipe,
  the thread that broadcasts what arrives there, and the server of the notification socket.
  Threads are their rounds. A step that reads or writes outside its buffer is \<open>Overrun\<close>; a
  system call that is interrupted, or fails, for ever makes the value \<open>None\<close>.
\<close>

section \<open>Sending\<close>

datatype 'a run = Overrun | Ran 'a

text \<open>A \<open>uint16_t\<close> in memory, low byte first.\<close>

definition u16_bytes :: "u16 \<Rightarrow> bytes" where
  "u16_bytes n = [char_of (unat n mod 256), char_of (unat n div 256)]"

definition bytes_u16 :: "bytes \<Rightarrow> u16" where
  "bytes_u16 bs = word_of_nat (of_char (bs ! 0) + 256 * of_char (bs ! 1))"

text \<open>
  The loop that writes \<open>buffer[written..bufsiz)\<close>. \<open>written\<close> is a \<open>uint16_t\<close>; a failed write is
  tried again, whatever the error.
\<close>

partial_function (option) write_loop ::
  "'w posix \<Rightarrow> int \<Rightarrow> bytes \<Rightarrow> u16 \<Rightarrow> u16 \<Rightarrow> 'w \<Rightarrow> 'w run option" where
  "write_loop P fd buffer bufsiz written w =
     (if bufsiz \<le> written then Some (Ran w)
      else if length buffer < unat bufsiz then Some Overrun
      else case sys_write P fd (take (unat (bufsiz - written)) (drop (unat written) buffer)) w of
             (Inl _, w') \<Rightarrow> write_loop P fd buffer bufsiz written w'
           | (Inr rc, w') \<Rightarrow> write_loop P fd buffer bufsiz (written + word_of_int rc) w')"

definition x52d_notify_send :: "'w posix \<Rightarrow> int \<Rightarrow> string list \<Rightarrow> 'w \<Rightarrow> 'w run option" where
  "x52d_notify_send P pipe_in argv w =
     (let (bufsiz, body) = (case x52d_format_command (Some argv) True X52D_BUFSZ of
                              Inl _ \<Rightarrow> (-1, replicate X52D_BUFSZ NUL)
                            | Inr (n, buf) \<Rightarrow> (word_of_nat n, buf))
      in write_loop P pipe_in (u16_bytes bufsiz @ body) bufsiz 0 w)"

section \<open>Broadcasting\<close>

text \<open>The automatic variables of the thread: the size and the buffer keep their old bytes.\<close>

record notify_thr =
  nt_bufsiz :: bytes
  nt_buffer :: bytes

text \<open>A read replaces the first bytes.\<close>

definition overlay :: "bytes \<Rightarrow> bytes \<Rightarrow> bytes" where
  "overlay new old = new @ drop (length new) old"

fun broadcast :: "'w posix \<Rightarrow> bytes \<Rightarrow> int list \<Rightarrow> 'w \<Rightarrow> 'w option" where
  "broadcast P message [] w = Some w"
| "broadcast P message (fd # fds) w =
     (if fd = INVALID_CLIENT then broadcast P message fds w
      else case retry_eintr (sys_write P fd message) w of
        None \<Rightarrow> None
      | Some (_, w') \<Rightarrow> broadcast P message fds w')"

text \<open>One round of \<open>x52_notify_thr\<close>.\<close>

definition notify_round ::
  "'w posix \<Rightarrow> int \<Rightarrow> int list \<Rightarrow> notify_thr \<Rightarrow> 'w \<Rightarrow> (notify_thr \<times> 'w) run option" where
  "notify_round P pipe_out client_fd t w =
     (case retry_eintr (sys_read P pipe_out 2) w of
        None \<Rightarrow> None
      | Some (Inl _, w1) \<Rightarrow> Some (Ran (t, w1))
      | Some (Inr size_bytes, w1) \<Rightarrow>
          (let t1 = t \<lparr> nt_bufsiz := overlay size_bytes (nt_bufsiz t) \<rparr>;
               bufsiz = unat (bytes_u16 (nt_bufsiz t1))
           in if X52D_BUFSZ < bufsiz then Some Overrun
              else case retry_eintr (sys_read P pipe_out bufsiz) w1 of
                None \<Rightarrow> None
              | Some (Inl _, w2) \<Rightarrow> Some (Ran (t1, w2))
              | Some (Inr data, w2) \<Rightarrow>
                  (let t2 = t1 \<lparr> nt_buffer := overlay data (nt_buffer t1) \<rparr>
                   in case broadcast P (take bufsiz (nt_buffer t2)) client_fd w2 of
                        None \<Rightarrow> None
                      | Some w3 \<Rightarrow> Some (Ran (t2, w3)))))"

section \<open>The server\<close>

definition listen_notify :: "'w posix \<Rightarrow> string \<Rightarrow> string option \<Rightarrow> 'w \<Rightarrow> (int \<times> 'w) proc" where
  "listen_notify P rundir notify_sock_path w =
     (case x52d_setup_notify_sock rundir notify_sock_path True of
        Inl _ \<Rightarrow> Go (-1, w)
      | Inr (len, sun_path) \<Rightarrow>
          (case sys_socket P w of
             (Inl _, w1) \<Rightarrow> Go (-1, w1)
           | (Inr sock_fd, w1) \<Rightarrow>
               (let (nb, w2) = x52d_set_socket_nonblocking P sock_fd w1 in
                if nb < 0 then Go (-1, w2)
                else let (ls, w3) = x52d_listen_socket P sun_path len sock_fd w2 in
                  if ls < 0 then Exit 1 else Go (sock_fd, w3))))"

definition notify_client_handler :: "'w posix \<Rightarrow> int \<Rightarrow> 'w \<Rightarrow> 'w" where
  "notify_client_handler P fd w = snd (sys_recv P fd X52D_BUFSZ w)"

text \<open>One round of \<open>x52_notify_loop\<close>.\<close>

definition notify_loop_round ::
  "'w posix \<Rightarrow> int list \<Rightarrow> int \<Rightarrow> 'w \<Rightarrow> (int list \<times> 'w) option" where
  "notify_loop_round P client_fd notify_sock w =
     (case x52d_client_poll P client_fd notify_sock w of
        None \<Rightarrow> None
      | Some (rc, pfd, w1) \<Rightarrow>
          if rc \<le> 0 then Some (client_fd, w1)
          else Some (x52d_client_handle P client_fd pfd notify_sock (Some (notify_client_handler P)) w1))"

record notify_state =
  ns_client_fd :: "int list"
  ns_pipe :: "int \<times> int"
  ns_sock :: int

definition x52d_notify_init ::
  "'w posix \<Rightarrow> string \<Rightarrow> string option \<Rightarrow> notify_state \<Rightarrow> 'w \<Rightarrow> (notify_state \<times> 'w) proc" where
  "x52d_notify_init P rundir notify_sock_path ns w =
     (case sys_pipe P w of
        (Inl _, w1) \<Rightarrow> Exit 1
      | (Inr pipe, w1) \<Rightarrow>
          (case listen_notify P rundir notify_sock_path w1 of
             Exit n \<Rightarrow> Exit n
           | Go (sock, w2) \<Rightarrow>
               Go (\<lparr> ns_client_fd = x52d_client_init (ns_client_fd ns), ns_pipe = pipe, ns_sock = sock \<rparr>, w2)))"

definition x52d_notify_exit :: "'w posix \<Rightarrow> notify_state \<Rightarrow> 'w \<Rightarrow> 'w" where
  "x52d_notify_exit P ns w =
     snd (sys_close P (ns_sock ns) (snd (sys_close P (snd (ns_pipe ns)) (snd (sys_close P (fst (ns_pipe ns)) w)))))"

section \<open>Notifications lose their last two bytes\<close>

text \<open>
  A pipe as the system documents it: what is written is appended, a read takes what is there,
  up to the size asked for. \<open>pipe w\<close> is its content.
\<close>

definition pipe_laws :: "'w posix \<Rightarrow> int \<Rightarrow> int \<Rightarrow> ('w \<Rightarrow> bytes) \<Rightarrow> bool" where
  "pipe_laws P pipe_out pipe_in pipe \<longleftrightarrow>
     (\<forall>m w. fst (sys_write P pipe_in m w) = Inr (int (length m)) \<and>
            pipe (snd (sys_write P pipe_in m w)) = pipe w @ m) \<and>
     (\<forall>n w. pipe w \<noteq> [] \<longrightarrow> fst (sys_read P pipe_out n w) = Inr (take n (pipe w)) \<and>
            pipe (snd (sys_read P pipe_out n w)) = drop n (pipe w))"

lemma length_u16_bytes [simp]: "length (u16_bytes n) = 2"
  by (simp add: u16_bytes_def)

lemma u16_bytes_inverse [simp]: "bytes_u16 (u16_bytes n) = n"
proof -
  have "unat n < 256 * 256" using unsigned_less [of n, where ?'a = nat] by simp
  then have "unat n div 256 < 256" by simp
  then have "of_char (u16_bytes n ! 0) + 256 * of_char (u16_bytes n ! 1) = unat n"
    by (simp add: u16_bytes_def)
  then show ?thesis by (simp add: bytes_u16_def)
qed

lemma word_of_length_u16:
  assumes "n \<le> 1024"
  shows "unat (word_of_nat n :: u16) = n"
  using assms by (simp add: unat_of_nat)

lemma send_writes:
  assumes laws: "pipe_laws P pipe_out pipe_in pipe" and argv: "argv \<noteq> []"
    and small: "length (wire argv) < X52D_BUFSZ"
  defines "n \<equiv> length (wire argv)"
  shows "\<exists>w'. x52d_notify_send P pipe_in argv w = Some (Ran w') \<and>
    pipe w' = pipe w @ take n (u16_bytes (word_of_nat n) @ wire argv)"
proof -
  let ?sz = "word_of_nat n :: u16"
  let ?buf = "u16_bytes ?sz @ wire argv @ replicate (X52D_BUFSZ - n) NUL"
  let ?m = "take n ?buf"
  have n: "0 < n" "n \<le> 1024" using argv small by (cases argv; simp add: X52D_BUFSZ_def n_def)+
  have sz: "unat ?sz = n" by (rule word_of_length_u16 [OF n(2)])
  have pos: "\<not> ?sz \<le> 0" using sz n(1) by (metis less_irrefl unat_0 word_le_0_iff)
  have len: "\<not> length ?buf < unat ?sz" "length ?m = n" using sz n by (simp_all add: X52D_BUFSZ_def n_def)
  obtain w' where wr: "sys_write P pipe_in ?m w = (Inr (int n), w')" and pw: "pipe w' = pipe w @ ?m"
    using laws len(2) unfolding pipe_laws_def by (metis prod.collapse)
  have fmt: "x52d_format_command (Some argv) True X52D_BUFSZ =
      Inr (n, wire argv @ replicate (X52D_BUFSZ - n) NUL)"
    using x52d_format_command_wire [OF argv order_refl] small by (simp add: n_def)
  have "write_loop P pipe_in ?buf ?sz 0 w = write_loop P pipe_in ?buf ?sz (0 + word_of_int (int n)) w'"
    by (subst write_loop.simps) (use pos len wr sz in simp)
  also have "\<dots> = Some (Ran w')" by (subst write_loop.simps) simp
  finally have "x52d_notify_send P pipe_in argv w = Some (Ran w')"
    by (simp add: x52d_notify_send_def fmt)
  moreover have "?m = take n (u16_bytes ?sz @ wire argv)" by (simp add: n_def)
  ultimately show ?thesis using pw by metis
qed

lemma round_reads:
  assumes laws: "pipe_laws P pipe_out pipe_in pipe" and p: "pipe w = u16_bytes (word_of_nat n) @ m"
    and m: "m \<noteq> []" "length m \<le> n" "n \<le> 1024" and len: "length (nt_bufsiz t) = 2"
  shows "\<exists>w'. pipe w' = [] \<and> notify_round P pipe_out fds t w =
    (case broadcast P (take n (overlay m (nt_buffer t))) fds w' of None \<Rightarrow> None
     | Some w3 \<Rightarrow> Some (Ran (\<lparr> nt_bufsiz = u16_bytes (word_of_nat n), nt_buffer = overlay m (nt_buffer t) \<rparr>, w3)))"
proof -
  let ?h = "u16_bytes (word_of_nat n)"
  have ok: "fst (sys_read P pipe_out k v) = Inr (take k (pipe v))"
    "pipe (snd (sys_read P pipe_out k v)) = drop k (pipe v)" if "pipe v \<noteq> []" for k v
    using laws that by (auto simp: pipe_laws_def)
  have "pipe w \<noteq> []" using p m(1) by simp
  then obtain w1 where r1: "sys_read P pipe_out 2 w = (Inr ?h, w1)" and p1: "pipe w1 = m"
    using ok [of w 2] p by (cases "sys_read P pipe_out 2 w") simp
  then obtain w2 where r2: "sys_read P pipe_out n w1 = (Inr m, w2)" and p2: "pipe w2 = []"
    using ok [of w1 n] m by (cases "sys_read P pipe_out n w1") simp
  have e1: "retry_eintr (sys_read P pipe_out 2) w = Some (Inr ?h, w1)"
    by (subst retry_eintr.simps) (simp add: r1)
  have e2: "retry_eintr (sys_read P pipe_out n) w1 = Some (Inr m, w2)"
    by (subst retry_eintr.simps) (simp add: r2)
  obtain b0 buf0 where t: "t = \<lparr> nt_bufsiz = b0, nt_buffer = buf0 \<rparr>" by (cases t)
  have h: "overlay ?h b0 = ?h" using len t by (simp add: overlay_def)
  have "notify_round P pipe_out fds t w =
    (case broadcast P (take n (overlay m (nt_buffer t))) fds w2 of None \<Rightarrow> None
     | Some w3 \<Rightarrow> Some (Ran (\<lparr> nt_bufsiz = ?h, nt_buffer = overlay m (nt_buffer t) \<rparr>, w3)))"
    using word_of_length_u16 [OF m(3)] m(3)
    unfolding t by (simp add: notify_round_def e1 e2 h Let_def X52D_BUFSZ_def split: option.split)
  with p2 show ?thesis by blast
qed

lemma notification_stale_bytes:
  assumes "2 < n" and "n = length m" and "n \<le> length old"
  shows "take n (overlay (take (n - 2) m) old) = take (n - 2) m @ take 2 (drop (n - 2) old)"
  using assms by (simp add: overlay_def)

text \<open>
  C25:
  What a notification becomes. On an empty pipe, sending a notification whose \<open>n\<close> bytes (more
  than two, less than 1024) the formatter accepts puts its header and only its first \<open>n - 2\<close>
  bytes into the pipe, because the loop counts the two bytes of the header in \<open>n\<close>; the next round of the
  broadcasting thread empties the pipe and gives every client these \<open>n - 2\<close> bytes followed by
  two bytes its buffer held before.
\<close>

theorem x52d_notification_truncated:
  assumes laws: "pipe_laws P pipe_out pipe_in pipe" and "pipe w = []" and "argv \<noteq> []"
    and "2 < length (wire argv)" and "length (wire argv) < X52D_BUFSZ"
    and "length (nt_bufsiz t) = 2" and "length (nt_buffer t) = X52D_BUFSZ"
  shows "\<exists>w1 w2. x52d_notify_send P pipe_in argv w = Some (Ran w1) \<and>
    pipe w1 = u16_bytes (word_of_nat (length (wire argv))) @ take (length (wire argv) - 2) (wire argv) \<and>
    pipe w2 = [] \<and>
    notify_round P pipe_out fds t w1 =
      (case broadcast P (take (length (wire argv) - 2) (wire argv) @
                         take 2 (drop (length (wire argv) - 2) (nt_buffer t))) fds w2 of
         None \<Rightarrow> None
       | Some w3 \<Rightarrow> Some (Ran (\<lparr> nt_bufsiz = u16_bytes (word_of_nat (length (wire argv))),
            nt_buffer = overlay (take (length (wire argv) - 2) (wire argv)) (nt_buffer t) \<rparr>, w3)))"
proof -
  let ?n = "length (wire argv)"
  let ?m = "take (?n - 2) (wire argv)"
  have le: "?n \<le> 1024" "?n \<le> length (nt_buffer t)" using assms(5,7) by (simp_all add: X52D_BUFSZ_def)
  obtain w1 where send: "x52d_notify_send P pipe_in argv w = Some (Ran w1)"
    and p1: "pipe w1 = u16_bytes (word_of_nat ?n) @ ?m"
    using send_writes [OF laws assms(3,5), of w] assms(2,4) by auto
  have m: "?m \<noteq> []" "length ?m \<le> ?n" using assms(3,4) by auto
  show ?thesis
    using round_reads [OF laws p1 m le(1) assms(6), of fds] send p1
    unfolding notification_stale_bytes [OF assms(4) refl le(2)] by blast
qed

text \<open>A pipe whose content is the state, for a concrete notification.\<close>

definition demo_pipe :: "bytes posix" where
  "demo_pipe = \<lparr> sys_socket = \<lambda>w. (Inl 1, w), sys_connect = \<lambda>_ _ _ w. (Inl 1, w),
     sys_bind = \<lambda>_ _ _ w. (Inl 1, w), sys_listen = \<lambda>_ _ w. (Inl 1, w), sys_accept = \<lambda>_ w. (Inl 1, w),
     sys_getfl = \<lambda>_ w. (Inl 1, w), sys_set_nonblock = \<lambda>_ _ w. (Inl 1, w), sys_close = \<lambda>_ w. (Inr (), w),
     sys_unlink = \<lambda>_ w. (Inr (), w), sys_send = \<lambda>_ m w. (Inr (int (length m)), w),
     sys_recv = \<lambda>_ _ w. (Inr [], w), sys_read = \<lambda>_ n w. (Inr (take n w), drop n w),
     sys_write = \<lambda>_ m w. (Inr (int (length m)), w @ m), sys_pipe = \<lambda>w. (Inr (3, 4), w),
     sys_poll = \<lambda>_ w. (Inl 1, w), sys_so_error = \<lambda>_ w. (Inl 1, w) \<rparr>"

lemma x52d_notification_truncated_witness:
  "\<exists>w1 w2. x52d_notify_send demo_pipe 4 [''connect''] [] = Some (Ran w1) \<and>
    w1 = u16_bytes 8 @ ''connec'' \<and> w2 = [] \<and>
    notify_round demo_pipe 3 [] \<lparr> nt_bufsiz = ''zz'', nt_buffer = replicate X52D_BUFSZ CHR ''y'' \<rparr> w1 =
      (case broadcast demo_pipe (''connec'' @ ''yy'') [] w2 of
         None \<Rightarrow> None
       | Some w3 \<Rightarrow> Some (Ran (\<lparr> nt_bufsiz = u16_bytes 8,
            nt_buffer = overlay ''connec'' (replicate X52D_BUFSZ CHR ''y'') \<rparr>, w3)))"
proof -
  have w: "wire [''connect''] = ''connect'' @ [NUL]" by simp
  have "pipe_laws demo_pipe 3 4 (\<lambda>w. w)" by (simp add: pipe_laws_def demo_pipe_def)
  moreover have "take 2 (drop 6 (replicate X52D_BUFSZ CHR ''y'')) = ''yy''"
    by (simp add: X52D_BUFSZ_def numeral_2_eq_2)
  ultimately show ?thesis
    using x52d_notification_truncated [of demo_pipe 3 4 "\<lambda>w. w" "[]" "[''connect'']"
        "\<lparr> nt_bufsiz = ''zz'', nt_buffer = replicate X52D_BUFSZ CHR ''y'' \<rparr>" "[]"]
    by (simp add: X52D_BUFSZ_def)
qed

end
