(* ===== verification/X52d_Daemon.thy ===== *)
theory X52d_Daemon
  imports X52d_Main_Laws X52d_Server X52d_Notify X52d_Settings
begin

text \<open>
  The whole daemon: the operations of the main program (\<open>X52d_Main\<close>) on the modules of the
  development, the rounds of its threads over one shared state, and the runs in which the rounds
  are interleaved. A round is one operation: the mutexes and the windows inside a round are the
  subject of \<open>X52d_Device\<close> and \<open>X52d_Mouse\<close>.
\<close>

section \<open>State\<close>

text \<open>
  What the process shares between its threads: the modules and the worlds of libusb (\<open>'w\<close>),
  POSIX (\<open>'p\<close>), hidapi (\<open>'h\<close>) and uinput (\<open>'u\<close>). \<open>xd_io\<close> is \<open>None\<close> as long as \<open>io_ctx\<close> is NULL.
  \<open>xd_files\<close> are the texts of the files.

  Signals: \<open>xd_masked\<close> is whether the main thread blocks all signals, the only mask the program
  uses besides the empty one. A thread inherits the mask of its creator and none changes its own;
  \<open>xd_command_masked\<close> is that of the command thread, the only one that raises signals. A signal
  that a thread raises goes to that thread: it is handled there at once, or is pending for it
  (\<open>xd_pending\<close>) while the thread blocks it.
\<close>

record ('w, 'p, 'h, 'u) x52d_state = main_state +
  xd_modules :: modules_state
  xd_usb :: 'w
  xd_os :: 'p
  xd_command :: command_server
  xd_notify :: notify_state
  xd_notify_thr :: notify_thr
  xd_io :: "io_manager option"
  xd_hid :: 'h
  xd_input :: 'u
  xd_files :: "string \<Rightarrow> string option"
  xd_masked :: bool
  xd_command_masked :: bool
  xd_pending :: "int set"

text \<open>
  The libraries, whether \<open>pthread_sigmask\<close> succeeds in blocking and in unblocking, and what varies
  from call to call and is not a function of these worlds:
  allocations, the time zone database, the memory a thread starts with, the texts of the C
  library.
\<close>

record ('w, 'p, 'h, 'u) x52d_env =
  xe_usb :: "'w libusb"
  xe_posix :: "'p posix"
  xe_hid :: "'h hidapi"
  xe_uinput :: "'u uinput"
  xe_uinput_created :: bool
  xe_uinput_destroy :: "'u \<Rightarrow> 'u"
  xe_dev_alloc :: bool
  xe_io_alloc :: bool
  xe_io_memory :: libx52io_report
  xe_strerror :: "int \<Rightarrow> string"
  xe_readable :: "string \<Rightarrow> bool"
  xe_writable :: "string \<Rightarrow> bool"
  xe_sigmask :: "bool \<Rightarrow> bool"

section \<open>The modules as the main program sees them\<close>

definition with_modules :: "(modules_state \<Rightarrow> modules_state) \<Rightarrow>
    ('w, 'p, 'h, 'u) x52d_state \<Rightarrow> ('w, 'p, 'h, 'u) x52d_state" where
  "with_modules f s = s\<lparr>xd_modules := f (xd_modules s)\<rparr>"

definition apply_op :: "tz_env \<Rightarrow> ('w, 'p, 'h, 'u) x52d_state \<Rightarrow> ('w, 'p, 'h, 'u) x52d_state" where
  "apply_op tz s = with_modules (x52d_config_apply (daemon_callback tz) (ms_config s)) s"

definition write_op ::
  "string \<times> string option \<Rightarrow> ('w, 'p, 'h, 'u) x52d_state \<Rightarrow> ('w, 'p, 'h, 'u) x52d_state" where
  "write_op x s = (case x of
     (f, None) \<Rightarrow> s
   | (f, Some content) \<Rightarrow> s\<lparr>xd_files := (xd_files s)(f \<mapsto> content)\<rparr>)"

text \<open>\<open>pthread_sigmask\<close> in the main thread, with the set of all signals.\<close>

definition sigmask_op ::
  "('w, 'p, 'h, 'u) x52d_env \<Rightarrow> bool \<Rightarrow> ('w, 'p, 'h, 'u) x52d_state \<Rightarrow> bool \<times> ('w, 'p, 'h, 'u) x52d_state" where
  "sigmask_op E block s =
     (if xe_sigmask E block then (True, s\<lparr>xd_masked := block\<rparr>) else (False, s))"

definition dev_init_op ::
  "('w, 'p, 'h, 'u) x52d_env \<Rightarrow> ('w, 'p, 'h, 'u) x52d_state \<Rightarrow> ('w, 'p, 'h, 'u) x52d_state proc" where
  "dev_init_op E s =
     and_go (x52d_dev_init (xe_usb E) (xe_dev_alloc E) (xd_usb s))
       (\<lambda>(d, w). Go (s\<lparr>xd_modules := (xd_modules s)\<lparr>dm_dev := dm_dev d, dm_update_needed := dm_update_needed d,
                                          dm_notes := dm_notes d\<rparr>, xd_usb := w\<rparr>))"

definition dev_exit_op ::
  "('w, 'p, 'h, 'u) x52d_env \<Rightarrow> ('w, 'p, 'h, 'u) x52d_state \<Rightarrow> ('w, 'p, 'h, 'u) x52d_state" where
  "dev_exit_op E s = (case x52d_dev_exit (xe_usb E) (xd_modules s) (xd_usb s) of
     None \<Rightarrow> s
   | Some w \<Rightarrow> s\<lparr>xd_usb := w\<rparr>)"

text \<open>When the server is up its thread is created, with the mask of the main thread.\<close>

definition command_init_op ::
  "('w, 'p, 'h, 'u) x52d_env \<Rightarrow> string \<Rightarrow> string option \<Rightarrow> ('w, 'p, 'h, 'u) x52d_state \<Rightarrow>
   int \<times> ('w, 'p, 'h, 'u) x52d_state" where
  "command_init_op E rundir sock s =
     (let (rc, cs, w) = x52d_command_init (xe_posix E) rundir sock (xd_command s) (xd_os s)
      in (rc, s\<lparr>xd_command := cs, xd_os := w,
                xd_command_masked := (if rc < 0 then xd_command_masked s else xd_masked s)\<rparr>))"

definition command_exit_op ::
  "('w, 'p, 'h, 'u) x52d_env \<Rightarrow> string \<Rightarrow> ('w, 'p, 'h, 'u) x52d_state \<Rightarrow> ('w, 'p, 'h, 'u) x52d_state" where
  "command_exit_op E rundir s =
     (let (cs, w) = x52d_command_exit (xe_posix E) rundir (xd_command s) (xd_os s)
      in s\<lparr>xd_command := cs, xd_os := w\<rparr>)"

definition notify_init_op ::
  "('w, 'p, 'h, 'u) x52d_env \<Rightarrow> string \<Rightarrow> string option \<Rightarrow> ('w, 'p, 'h, 'u) x52d_state \<Rightarrow>
   ('w, 'p, 'h, 'u) x52d_state proc" where
  "notify_init_op E rundir sock s =
     and_go (x52d_notify_init (xe_posix E) rundir sock (xd_notify s) (xd_os s))
       (\<lambda>(ns, w). Go (s\<lparr>xd_notify := ns, xd_os := w\<rparr>))"

definition notify_exit_op ::
  "('w, 'p, 'h, 'u) x52d_env \<Rightarrow> ('w, 'p, 'h, 'u) x52d_state \<Rightarrow> ('w, 'p, 'h, 'u) x52d_state" where
  "notify_exit_op E s = s\<lparr>xd_os := x52d_notify_exit (xe_posix E) (xd_notify s) (xd_os s)\<rparr>"

definition io_init_op ::
  "('w, 'p, 'h, 'u) x52d_env \<Rightarrow> ('w, 'p, 'h, 'u) x52d_state \<Rightarrow> ('w, 'p, 'h, 'u) x52d_state proc" where
  "io_init_op E s =
     and_go (x52d_io_init (xe_hid E) (xe_io_alloc E) (xe_io_memory E) (xd_hid s))
       (\<lambda>(io, w). Go (s\<lparr>xd_io := Some io, xd_hid := w\<rparr>))"

definition io_exit_op ::
  "('w, 'p, 'h, 'u) x52d_env \<Rightarrow> ('w, 'p, 'h, 'u) x52d_state \<Rightarrow> ('w, 'p, 'h, 'u) x52d_state" where
  "io_exit_op E s =
     s\<lparr>xd_hid := (case xd_io s of
        None \<Rightarrow> snd (libx52io_exit (xe_hid E) None (xd_hid s))
      | Some io \<Rightarrow> x52d_io_exit (xe_hid E) io (xd_hid s))\<rparr>"

definition mouse_init_op ::
  "('w, 'p, 'h, 'u) x52d_env \<Rightarrow> ('w, 'p, 'h, 'u) x52d_state \<Rightarrow> ('w, 'p, 'h, 'u) x52d_state" where
  "mouse_init_op E = with_modules (on_mouse (x52d_mouse_evdev_init (xe_uinput_created E)))"

definition mouse_exit_op ::
  "('w, 'p, 'h, 'u) x52d_env \<Rightarrow> ('w, 'p, 'h, 'u) x52d_state \<Rightarrow> ('w, 'p, 'h, 'u) x52d_state" where
  "mouse_exit_op E s =
     (let (m, u) = x52d_mouse_evdev_exit (xe_uinput_destroy E) (mod_mouse (xd_modules s)) (xd_input s)
      in (with_modules (on_mouse (\<lambda>_. m)) s)\<lparr>xd_input := u\<rparr>)"

text \<open>
  The operations of the main program: those of the modules, and the remaining system calls as
  they are in \<open>B\<close>. The clock manager has no state of its own to start or to end.
\<close>

definition x52d_ops ::
  "('w, 'p, 'h, 'u) x52d_state main_ops \<Rightarrow> ('w, 'p, 'h, 'u) x52d_env \<Rightarrow> tz_env \<Rightarrow>
   ('w, 'p, 'h, 'u) x52d_state main_ops" where
  "x52d_ops B E tz = B\<lparr>
     mo_files := xd_files, mo_writable := (\<lambda>_. xe_writable E), mo_config_write := write_op,
     mo_config_apply := apply_op tz, mo_sigmask := sigmask_op E, mo_dev_init := dev_init_op E, mo_clock_init := Go,
     mo_command_init := command_init_op E (mo_rundir B), mo_notify_init := notify_init_op E (mo_rundir B),
     mo_io_init := io_init_op E, mo_mouse_evdev_init := mouse_init_op E, mo_clock_exit := (\<lambda>s. s),
     mo_dev_exit := dev_exit_op E, mo_command_exit := command_exit_op E (mo_rundir B),
     mo_notify_exit := notify_exit_op E, mo_mouse_evdev_exit := mouse_exit_op E, mo_io_exit := io_exit_op E\<rparr>"

lemma x52d_ops_sel [simp]:
  "mo_config_apply (x52d_ops B E tz) = apply_op tz" "mo_config_write (x52d_ops B E tz) = write_op"
  "mo_files (x52d_ops B E tz) = xd_files" "mo_sysconfdir (x52d_ops B E tz) = mo_sysconfdir B"
  by (simp_all add: x52d_ops_def)

text \<open>The modules of the development keep the state of the loop.\<close>

interpretation xd: loop_modules "x52d_ops B E tz" for B E tz
  by unfold_locales
    (auto simp: apply_op_def with_modules_def write_op_def main_state.truncate_def split: prod.split option.split)

text \<open>What the requests of the main loop act on: the configuration, the files and the modules.\<close>

definition x52d_view ::
  "('w, 'p, 'h, 'u) x52d_state \<Rightarrow> config_state \<times> (string \<Rightarrow> string option) \<times> modules_state" where
  "x52d_view s = (ms_config s, xd_files s, xd_modules s)"

definition x52d_reload ::
  "('w, 'p, 'h, 'u) x52d_state main_ops \<Rightarrow> tz_env \<Rightarrow> string option \<Rightarrow>
   config_state \<times> (string \<Rightarrow> string option) \<times> modules_state \<Rightarrow>
   (config_state \<times> (string \<Rightarrow> string option) \<times> modules_state) proc option" where
  "x52d_reload B tz conf v = (case v of (c, files, m) \<Rightarrow>
     map_option (\<lambda>r. case r of Exit n \<Rightarrow> Exit n
         | Go c' \<Rightarrow> Go (c', files, x52d_config_apply (daemon_callback tz) c' m))
       (x52d_config_load (mo_sysconfdir B) files conf c))"

definition x52d_save ::
  "('w, 'p, 'h, 'u) x52d_state main_ops \<Rightarrow> ('w, 'p, 'h, 'u) x52d_env \<Rightarrow> string option \<Rightarrow>
   config_state \<times> (string \<Rightarrow> string option) \<times> modules_state \<Rightarrow>
   config_state \<times> (string \<Rightarrow> string option) \<times> modules_state" where
  "x52d_save B E conf v = (case v of (c, files, m) \<Rightarrow>
     (c, case x52d_config_save (mo_sysconfdir B) (mo_gettext B) (xe_writable E) conf c of
           (f, None) \<Rightarrow> files
         | (f, Some content) \<Rightarrow> files(f \<mapsto> content), m))"

text \<open>The main loop on the whole state serves the requests on this view.\<close>

interpretation xs: served_modules "x52d_ops B E tz" conf x52d_view "x52d_reload B tz conf" "x52d_save B E conf"
  for B E tz conf
  by unfold_locales
    (auto simp: x52d_view_def x52d_reload_def x52d_save_def x52d_ops_def main_load_def main_save_def apply_op_def
      with_modules_def write_op_def option.map_comp comp_def split: proc.split prod.split option.split
      intro!: option.map_cong0)

section \<open>The command thread's view\<close>

definition cmd_env_of ::
  "('w, 'p, 'h, 'u) x52d_state main_ops \<Rightarrow> ('w, 'p, 'h, 'u) x52d_env \<Rightarrow> tz_env \<Rightarrow> modules_state cmd_env" where
  "cmd_env_of B E tz = \<lparr>ce_sysconfdir = mo_sysconfdir B, ce_tr = mo_gettext B, ce_strerror = xe_strerror E,
     ce_readable = xe_readable E, ce_writable = xe_writable E, ce_callbacks = daemon_callback tz\<rparr>"

definition daemon_of :: "('w, 'p, 'h, 'u) x52d_state \<Rightarrow> modules_state daemon" where
  "daemon_of s = \<lparr>d_config = ms_config s, d_log = ms_log s, d_files = xd_files s, d_signals = [],
     d_devices = xd_modules s\<rparr>"

text \<open>The handler of a signal, where \<open>start_daemon\<close> has installed one.\<close>

definition run_handler :: "int \<Rightarrow> 'a main_state_scheme \<Rightarrow> 'a main_state_scheme" where
  "run_handler n s =
     (case find (\<lambda>x. signum x = n) [SIGINT, SIGTERM, SIGQUIT, SIGHUP, SIGUSR1] of
        None \<Rightarrow> s
      | Some x \<Rightarrow> handle_signal x s)"

text \<open>\<open>raise\<close> in the command thread.\<close>

definition raise_signal :: "int \<Rightarrow> ('w, 'p, 'h, 'u) x52d_state \<Rightarrow> ('w, 'p, 'h, 'u) x52d_state" where
  "raise_signal n s =
     (if xd_command_masked s then s\<lparr>xd_pending := insert n (xd_pending s)\<rparr> else run_handler n s)"

definition store_daemon ::
  "modules_state daemon \<Rightarrow> ('w, 'p, 'h, 'u) x52d_state \<Rightarrow> ('w, 'p, 'h, 'u) x52d_state" where
  "store_daemon d s = fold raise_signal (d_signals d)
     (s\<lparr>ms_config := d_config d, ms_log := d_log d, xd_files := d_files d, xd_modules := d_devices d\<rparr>)"

section \<open>Rounds of the threads\<close>

text \<open>
  A round is \<open>None\<close> when a system call or a file never returns, or when the behaviour is undefined
  (a command that is \<open>Undefined\<close>, a notification that overruns its buffer).
\<close>

definition from_run :: "'a run option \<Rightarrow> ('a \<Rightarrow> 'b) \<Rightarrow> 'b proc option" where
  "from_run r f = (case r of Some (Ran x) \<Rightarrow> Some (Go (f x)) | _ \<Rightarrow> None)"

text \<open>The notifications of a round of the device thread, sent one after the other.\<close>

fun send_notes :: "'p posix \<Rightarrow> int \<Rightarrow> string list list \<Rightarrow> 'p \<Rightarrow> 'p run option" where
  "send_notes P fd [] w = Some (Ran w)"
| "send_notes P fd (n # ns) w =
     (case x52d_notify_send P fd n w of
        Some (Ran w') \<Rightarrow> send_notes P fd ns w'
      | r \<Rightarrow> r)"

definition device_round ::
  "('w, 'p, 'h, 'u) x52d_env \<Rightarrow> tz_env \<Rightarrow> ('w, 'p, 'h, 'u) x52d_state \<Rightarrow>
   ('w, 'p, 'h, 'u) x52d_state proc option" where
  "device_round E tz s =
     (let (m, w) = x52_dev_round (xe_usb E) (x52d_config_apply (daemon_callback tz) (ms_config s))
            (xd_modules s) (xd_usb s);
          notes = drop (length (dm_notes (xd_modules s))) (dm_notes m)
      in from_run (send_notes (xe_posix E) (snd (ns_pipe (xd_notify s))) notes (xd_os s))
           (\<lambda>os. s\<lparr>xd_modules := m, xd_usb := w, xd_os := os\<rparr>))"

text \<open>The command thread leaves the program when its loop fails.\<close>

definition command_round ::
  "('w, 'p, 'h, 'u) x52d_state main_ops \<Rightarrow> ('w, 'p, 'h, 'u) x52d_env \<Rightarrow> tz_env \<Rightarrow>
   ('w, 'p, 'h, 'u) x52d_state \<Rightarrow> ('w, 'p, 'h, 'u) x52d_state proc option" where
  "command_round B E tz s =
     (case x52d_command_loop (xe_posix E) (cmd_env_of B E tz) (cs_client_fd (xd_command s))
             (cs_sock_fd (xd_command s)) (xd_os s, Replied (daemon_of s)) of
        None \<Rightarrow> None
      | Some (rc, fds, (w, r)) \<Rightarrow>
          (case r of
             Undefined \<Rightarrow> None
           | Exited n \<Rightarrow> Some (Exit n)
           | Replied d \<Rightarrow>
               if rc < 0 then Some (Exit 1)
               else Some (Go ((store_daemon d s)\<lparr>xd_command := (xd_command s)\<lparr>cs_client_fd := fds\<rparr>, xd_os := w\<rparr>))))"

definition notify_thread_round ::
  "('w, 'p, 'h, 'u) x52d_env \<Rightarrow> ('w, 'p, 'h, 'u) x52d_state \<Rightarrow> ('w, 'p, 'h, 'u) x52d_state proc option" where
  "notify_thread_round E s =
     from_run (notify_round (xe_posix E) (fst (ns_pipe (xd_notify s))) (ns_client_fd (xd_notify s))
         (xd_notify_thr s) (xd_os s))
       (\<lambda>(t, w). s\<lparr>xd_notify_thr := t, xd_os := w\<rparr>)"

definition notify_listen_round ::
  "('w, 'p, 'h, 'u) x52d_env \<Rightarrow> ('w, 'p, 'h, 'u) x52d_state \<Rightarrow> ('w, 'p, 'h, 'u) x52d_state proc option" where
  "notify_listen_round E s =
     map_option (\<lambda>(fds, w). Go (s\<lparr>xd_notify := (xd_notify s)\<lparr>ns_client_fd := fds\<rparr>, xd_os := w\<rparr>))
       (notify_loop_round (xe_posix E) (ns_client_fd (xd_notify s)) (ns_sock (xd_notify s)) (xd_os s))"

definition io_round ::
  "('w, 'p, 'h, 'u) x52d_env \<Rightarrow> ('w, 'p, 'h, 'u) x52d_state \<Rightarrow> ('w, 'p, 'h, 'u) x52d_state" where
  "io_round E s = (case xd_io s of
     None \<Rightarrow> s
   | Some io \<Rightarrow>
       (let (io', m, h, u) = x52_io_round (xe_hid E) (xe_uinput E) io (mod_mouse (xd_modules s))
              (xd_hid s) (xd_input s)
        in (with_modules (on_mouse (\<lambda>_. m)) s)\<lparr>xd_io := Some io', xd_hid := h, xd_input := u\<rparr>))"

text \<open>The mouse thread is there while it is enabled.\<close>

definition mouse_round ::
  "('w, 'p, 'h, 'u) x52d_env \<Rightarrow> ('w, 'p, 'h, 'u) x52d_state \<Rightarrow> ('w, 'p, 'h, 'u) x52d_state" where
  "mouse_round E s =
     (if mouse_thr_enabled (mod_mouse (xd_modules s)) then
        (let (m, u) = x52_mouse_round (xe_uinput E) (mod_mouse (xd_modules s)) (xd_input s)
         in (with_modules (on_mouse (\<lambda>_. m)) s)\<lparr>xd_input := u\<rparr>)
      else s)"

section \<open>Interleaved rounds\<close>

text \<open>
  A round of the main thread is one pause with the signals that end it, which come from outside
  the process; there is none any more once it has been asked to quit.
\<close>

datatype x52d_event =
    DeviceThread tz_env
  | ClockThread clock_env "int option"
  | CommandThread tz_env
  | NotifyThread
  | NotifyListener
  | IoThread
  | MouseThread
  | MainThread tz_env "signal list"

fun x52d_round ::
  "('w, 'p, 'h, 'u) x52d_state main_ops \<Rightarrow> ('w, 'p, 'h, 'u) x52d_env \<Rightarrow> string option \<Rightarrow> x52d_event \<Rightarrow>
   ('w, 'p, 'h, 'u) x52d_state \<Rightarrow> ('w, 'p, 'h, 'u) x52d_state proc option" where
  "x52d_round B E conf (DeviceThread tz) s = device_round E tz s"
| "x52d_round B E conf (ClockThread env t) s = Some (Go (with_modules (x52_clock_round env t) s))"
| "x52d_round B E conf (CommandThread tz) s = command_round B E tz s"
| "x52d_round B E conf NotifyThread s = notify_thread_round E s"
| "x52d_round B E conf NotifyListener s = notify_listen_round E s"
| "x52d_round B E conf IoThread s = Some (Go (io_round E s))"
| "x52d_round B E conf MouseThread s = Some (Go (mouse_round E s))"
| "x52d_round B E conf (MainThread tz sigs) s =
     (if flag_quit s \<noteq> 0 then Some (Go s)
      else main_round (x52d_ops B E tz) conf (fold handle_signal sigs s))"

fun x52d_run ::
  "('w, 'p, 'h, 'u) x52d_state main_ops \<Rightarrow> ('w, 'p, 'h, 'u) x52d_env \<Rightarrow> string option \<Rightarrow> x52d_event list \<Rightarrow>
   ('w, 'p, 'h, 'u) x52d_state \<Rightarrow> ('w, 'p, 'h, 'u) x52d_state proc option" where
  "x52d_run B E conf [] s = Some (Go s)"
| "x52d_run B E conf (e # es) s =
     (case x52d_round B E conf e s of
        Some (Go s') \<Rightarrow> x52d_run B E conf es s'
      | r \<Rightarrow> r)"

lemma x52d_run_inv:
  assumes "x52d_run B E conf es s = Some (Go s')" and "P s"
    and "\<And>e s s'. e \<in> set es \<Longrightarrow> P s \<Longrightarrow> x52d_round B E conf e s = Some (Go s') \<Longrightarrow> P s'"
  shows "P s'"
  using assms
proof (induction es arbitrary: s)
  case (Cons e es)
  obtain t where "x52d_round B E conf e s = Some (Go t)" "x52d_run B E conf es t = Some (Go s')"
    using Cons.prems(1) by (auto split: option.splits proc.splits)
  with Cons.IH [of t] Cons.prems(2,3) show ?case by (meson list.set_intros)
qed simp

end
