(* ===== verification/X52d_Daemon_Laws.thy ===== *)
theory X52d_Daemon_Laws
  imports X52d_Daemon
begin

text \<open>
  Properties of the daemon as a whole: what every interleaving of the rounds of its threads keeps,
  what becomes of the signals that a command raises, and how the main loop ends.
\<close>

section \<open>What a command keeps\<close>

text \<open>A property \<open>Q\<close> of the daemon after a command that is answered.\<close>

definition answer_keeps :: "('w daemon \<Rightarrow> bool) \<Rightarrow> (bytes \<times> 'w daemon) cmd_result \<Rightarrow> bool" where
  "answer_keeps Q r \<longleftrightarrow> (case r of Replied (b, d) \<Rightarrow> Q d | _ \<Rightarrow> True)"

lemma answer_reply [intro]: "Q d \<Longrightarrow> answer_keeps Q (reply resp d)"
  by (simp add: answer_keeps_def reply_def split: option.split)

lemma answer_none [simp]: "answer_keeps Q Undefined" "answer_keeps Q (Exited n)"
  by (simp_all add: answer_keeps_def)

text \<open>The configuration and the log in order, and a property \<open>P\<close> of the modules.\<close>

definition daemon_inv :: "('w \<Rightarrow> bool) \<Rightarrow> 'w daemon \<Rightarrow> bool" where
  "daemon_inv P d \<longleftrightarrow> daemon_ok d \<and> P (d_devices d)"

lemma logging_keeps:
  assumes "daemon_inv P d"
  shows "answer_keeps (daemon_inv P) (cmd_logging argv d)"
proof -
  have lev: "daemon_inv P (d \<lparr> d_log := snd (pinelog_set_level l (d_log d)) \<rparr>)" for l
    using assms set_level_daemon_ok [of d l] by (simp add: daemon_inv_def)
  have mod: "daemon_inv P (d \<lparr> d_log := lg \<rparr>)"
    if "pinelog_set_module_level (int m) l (d_log d) = Some (rc, lg)" for m l rc lg
    using that assms pinelog_set_module_level_wf [of "d_log d" "int m" l rc lg]
    by (auto simp: daemon_inv_def daemon_ok_def pinelog_set_module_level_def pinelog_set_level_def split: if_splits)
  have "answer_keeps (daemon_inv P) (logging_show_cmd argv d)"
    using assms by (auto simp: logging_show_cmd_def Let_def split: option.split)
  moreover have "answer_keeps (daemon_inv P) (logging_set_cmd argv d)"
    using assms lev mod by (auto simp: logging_set_cmd_def Let_def split: option.split)
  ultimately show ?thesis using assms by (auto simp: cmd_logging_def)
qed

lemma load_keeps:
  assumes "daemon_inv P d" and cb: "\<And>e v w. P w \<Longrightarrow> P (ce_callbacks env e v w)"
    and "daemon_load env (Some f) d = Replied d'"
  shows "daemon_inv P d'"
proof -
  have P: "P w \<Longrightarrow> P (x52d_config_apply (ce_callbacks env) st w)" for st w
  proof -
    have "P w \<Longrightarrow> P (fold (\<lambda>e. ce_callbacks env e (slot_read (e_slot e) (config st))) es w)" for es
      by (induction es arbitrary: w) (simp_all add: cb)
    then show "P w \<Longrightarrow> P (x52d_config_apply (ce_callbacks env) st w)" by (simp add: x52d_config_apply_def)
  qed
  have "daemon_ok d'" using daemon_load_ok [of d env f] assms(1,3) by (simp add: daemon_inv_def)
  moreover have "P (d_devices d')"
    using assms(1,3) P by (auto simp: daemon_load_def daemon_inv_def split: option.splits proc.splits)
  ultimately show ?thesis by (simp add: daemon_inv_def)
qed

lemma config_keeps:
  assumes inv: "daemon_inv P d" and cb: "\<And>e v w. P w \<Longrightarrow> P (ce_callbacks env e v w)"
  shows "answer_keeps (daemon_inv P) (cmd_config env argv d)"
proof -
  have "answer_keeps (daemon_inv P) (config_load_cmd env argv d)"
    using inv load_keeps [OF inv cb] by (auto simp: config_load_cmd_def split: cmd_result.split)
  moreover have sig: "daemon_inv P (d \<lparr> d_signals := x \<rparr>)" for x
    using inv by (simp add: daemon_inv_def daemon_ok_def)
  then have "answer_keeps (daemon_inv P) (config_reload_cmd argv d)"
    "answer_keeps (daemon_inv P) (config_save_cmd argv d)"
    using inv by (auto simp: config_reload_cmd_def config_save_cmd_def)
  moreover have "daemon_inv P (daemon_save env f d)" for f
    using inv daemon_save_ok [of d env f]
    by (auto simp: daemon_inv_def daemon_save_def split: prod.split option.split)
  then have "answer_keeps (daemon_inv P) (config_dump_cmd env argv d)"
    using inv by (auto simp: config_dump_cmd_def)
  moreover have "answer_keeps (daemon_inv P) (config_get_cmd env argv d)"
    using inv by (auto simp: config_get_cmd_def split: option.split)
  moreover have "answer_keeps (daemon_inv P) (config_set_cmd env argv d)"
  proof -
    let ?set = "x52d_config_set (Some (argv ! 2)) (Some (argv ! 3)) (Some (argv ! 4)) (d_config d)"
    obtain rc st where set: "?set = (rc, st)" by (rule prod.exhaust)
    have "state_wf st"
      using config_set_ok [of "d_config d" "argv ! 2" "argv ! 3" "argv ! 4"] inv set
      by (auto simp: daemon_inv_def daemon_ok_def)
    then have "daemon_inv P (d \<lparr> d_config := st \<rparr>)"
      "daemon_inv P (d \<lparr> d_config := st,
         d_devices := x52d_config_apply_immediate (ce_callbacks env) (argv ! 2) (argv ! 3) st (d_devices d) \<rparr>)"
      using inv cb by (auto simp: daemon_inv_def daemon_ok_def x52d_config_apply_immediate_def split: option.split)
    with inv set show ?thesis by (auto simp: config_set_cmd_def Let_def)
  qed
  ultimately show ?thesis using inv by (auto simp: cmd_config_def)
qed

lemma parser_keeps:
  assumes "daemon_inv P d" and "\<And>e v w. P w \<Longrightarrow> P (ce_callbacks env e v w)"
  shows "answer_keeps (daemon_inv P) (command_parser env buf n d)"
  using logging_keeps [OF assms(1)] config_keeps [OF assms] assms(1)
  by (auto simp: command_parser_def run_command_def Let_def split: list.split)

section \<open>The command server on the whole state\<close>

text \<open>The system calls leave the outcome of the commands alone.\<close>

lemma on_os_snd [simp]: "snd (snd (on_os call v)) = snd v"
  by (simp add: on_os_def split: prod.split)

lemma server_posix_snd:
  "snd (snd (x52d_client_register (server_posix P) cs fd v)) = (a, r) \<Longrightarrow> r = snd v"
  "snd (snd (x52d_client_deregister (server_posix P) cs fd v)) = (a, r) \<Longrightarrow> r = snd v"
  "snd (snd (x52d_client_error (server_posix P) cs fd v)) = (a, r) \<Longrightarrow> r = snd v"
  by (auto simp: x52d_client_register_def x52d_client_deregister_def x52d_client_error_def
      x52d_set_socket_nonblocking_def server_posix_def on_os_def Let_def
      split: prod.splits sum.splits option.splits if_splits)

definition served :: "('d daemon \<Rightarrow> bool) \<Rightarrow> ('w, 'd) server \<Rightarrow> bool" where
  "served Q v \<longleftrightarrow> (case snd v of Replied d \<Rightarrow> Q d | _ \<Rightarrow> True)"

lemma served_cong: "snd v = snd v' \<Longrightarrow> served Q v = served Q v'"
  by (simp add: served_def)

lemma handler_served:
  assumes "\<And>buf n d. Q d \<Longrightarrow> answer_keeps Q (command_parser env buf n d)" and "served Q v"
  shows "served Q (client_handler P env fd v)"
proof (cases "snd v")
  case (Replied d)
  then obtain w where v: "v = (w, Replied d)" by (cases v) simp
  obtain b w1 where r: "sys_recv P fd X52D_BUFSZ w = (b, w1)" by (rule prod.exhaust)
  from v assms(2) have "Q d" by (simp add: served_def)
  then have "Q d'" if "command_parser env buf n d = Replied (x, d')" for buf n x d'
    using assms(1) [of d buf n] that by (simp add: answer_keeps_def)
  with \<open>Q d\<close> show ?thesis
    by (cases b) (auto simp: v r client_handler_def served_def split: cmd_result.split prod.splits)
qed (cases v; simp add: client_handler_def served_def)+

lemma handle_pfd_served:
  fixes v :: "('w, 'd) server"
  assumes "\<And>fd v. served Q v \<Longrightarrow> served Q (h fd v)" and "served Q v"
  shows "served Q (snd (handle_pfd (server_posix P) lfd (Some h) p (cs, v)))"
proof -
  have "served Q (snd (snd x))" if "\<And>a r. snd (snd x) = (a, r) \<Longrightarrow> r = snd v" for x :: "bool \<times> int list \<times> ('w, 'd) server"
    using that [of "fst (snd (snd x))" "snd (snd (snd x))"] assms(2) by (simp add: served_def)
  from this [OF server_posix_snd(1)] this [OF server_posix_snd(2)] this [OF server_posix_snd(3)] assms
  show ?thesis by (simp add: handle_pfd_def)
qed

lemma loop_served:
  assumes "x52d_command_loop P env cs fd v = Some (rc, cs', v')" and "served Q v"
    and "\<And>buf n d. Q d \<Longrightarrow> answer_keeps Q (command_parser env buf n d)"
  shows "served Q v'"
proof -
  from assms(1) obtain n pfd v1 where poll: "x52d_client_poll (server_posix P) cs fd v = Some (n, pfd, v1)"
    by (auto simp: x52d_command_loop_def split: option.splits)
  let ?call = "on_os (sys_poll P (map (\<lambda>p. (pfd_fd p, pfd_events p)) (poll_set cs fd)))"
  have "\<exists>r. retry_eintr ?call v = Some (r, v1)"
    using poll by (auto simp: x52d_client_poll_def server_posix_def Let_def split: option.splits sum.splits)
  then obtain r where "retry_eintr ?call v = Some (r, v1)" ..
  from retry_eintr_inv [OF this, of "\<lambda>x. snd x = snd v"] have v1: "served Q v1"
    using assms(2) served_cong [of v1 v Q] by simp
  have fold: "served Q (snd (fold (handle_pfd (server_posix P) fd (Some (client_handler P env))) ps (c, u)))"
    if "served Q u" for ps c u
    using that
  proof (induction ps arbitrary: c u)
    case (Cons p ps)
    obtain c' u' where s: "handle_pfd (server_posix P) fd (Some (client_handler P env)) p (c, u) = (c', u')"
      by (rule prod.exhaust)
    have "served Q u'"
      using handle_pfd_served [where h = "client_handler P env", OF handler_served [OF assms(3)] Cons.prems,
          of P fd p c] s by simp
    with Cons.IH s show ?case by simp
  qed simp
  from assms(1) poll v1 fold [OF v1, of "take MAX_CONN pfd" cs] show ?thesis
    by (auto simp: x52d_command_loop_def x52d_client_handle_def split: if_splits)
qed

section \<open>Descriptors of the whole process\<close>

text \<open>What the operating system documents about all calls of the threads.\<close>

definition os_laws :: "'p posix \<Rightarrow> ('p \<Rightarrow> int set) \<Rightarrow> bool" where
  "os_laws P opens \<longleftrightarrow> fd_laws P opens \<and>
     (\<forall>fd n w. opens (snd (sys_recv P fd n w)) = opens w) \<and> (\<forall>fd m w. opens (snd (sys_send P fd m w)) = opens w) \<and>
     (\<forall>fd n w. opens (snd (sys_read P fd n w)) = opens w) \<and> (\<forall>fd m w. opens (snd (sys_write P fd m w)) = opens w)"

lemma os_lawsD:
  assumes "os_laws P opens"
  shows "fd_laws P opens" "opens (snd (sys_recv P fd n w)) = opens w" "opens (snd (sys_send P fd m w)) = opens w"
    "opens (snd (sys_read P fd n w)) = opens w" "opens (snd (sys_write P fd m w)) = opens w"
  using assms unfolding os_laws_def by blast+

lemma retry_opens:
  assumes "retry_eintr call w = Some (r, w')" and "\<And>w. opens (snd (call w)) = opens w"
  shows "opens w' = opens w"
  using retry_eintr_inv [OF assms(1), of "\<lambda>v. opens v = opens w"] assms(2) by simp

lemma write_loop_opens:
  assumes laws: "os_laws P opens" and "write_loop P fd buf n k w = Some (Ran w')"
  shows "opens w' = opens w"
proof -
  have w: "opens v' = opens v" if "sys_write P f m v = (r, v')" for f m v r v'
    using os_lawsD(5) [OF laws, of f m v] that by simp
  have "(\<lambda>(((((Q, f), buf), n), k), w) r. Q = P \<longrightarrow> (\<forall>w'. r = Ran w' \<longrightarrow> opens w' = opens w))
      (((((P, fd), buf), n), k), w) (Ran w')"
    by (rule write_loop.raw_induct [OF _ assms(2)])
      (auto split: if_splits prod.splits sum.splits dest: w)
  then show ?thesis by simp
qed

lemma send_notes_opens:
  assumes laws: "os_laws P opens"
  shows "send_notes P fd ns w = Some (Ran w') \<Longrightarrow> opens w' = opens w"
proof (induction ns arbitrary: w)
  case (Cons n ns)
  then obtain w1 where s: "x52d_notify_send P fd n w = Some (Ran w1)" "send_notes P fd ns w1 = Some (Ran w')"
    by (auto split: option.splits run.splits)
  from s(1) have "opens w1 = opens w"
    by (auto simp: x52d_notify_send_def Let_def split: prod.splits sum.splits dest: write_loop_opens [OF laws])
  with Cons.IH [OF s(2)] show ?case by simp
qed simp

lemma broadcast_opens:
  assumes laws: "os_laws P opens"
  shows "broadcast P m fds w = Some w' \<Longrightarrow> opens w' = opens w"
proof (induction fds arbitrary: w)
  case (Cons fd fds)
  have "opens v' = opens v" if "retry_eintr (sys_write P fd m) v = Some (r, v')" for v r v'
    by (rule retry_opens [OF that]) (rule os_lawsD [OF laws])
  with Cons show ?case by (auto split: if_splits option.splits)
qed simp

lemma notify_round_opens:
  assumes laws: "os_laws P opens" and "notify_round P fd fds t w = Some (Ran (t', w'))"
  shows "opens w' = opens w"
proof -
  have rd: "opens v' = opens v" if "retry_eintr (sys_read P fd n) v = Some (r, v')" for n v r v'
    by (rule retry_opens [OF that]) (rule os_lawsD [OF laws])
  from assms(2) obtain r1 w1 where r1: "retry_eintr (sys_read P fd 2) w = Some (r1, w1)"
    by (auto simp: notify_round_def split: option.splits)
  show ?thesis
  proof (cases r1)
    case (Inl e)
    with assms(2) r1 rd [OF r1] show ?thesis by (simp add: notify_round_def)
  next
    case (Inr bs)
    let ?n = "unat (bytes_u16 (overlay bs (nt_bufsiz t)))"
    from assms(2) r1 Inr obtain r2 w2 where r2: "retry_eintr (sys_read P fd ?n) w1 = Some (r2, w2)"
      by (auto simp: notify_round_def Let_def split: if_splits option.splits)
    show ?thesis
    proof (cases r2)
      case (Inl e)
      with assms(2) r1 Inr r2 rd [OF r1] rd [OF r2] show ?thesis
        by (simp add: notify_round_def Let_def split: if_splits)
    next
      case (Inr ds)
      with assms(2) r1 \<open>r1 = Inr bs\<close> r2 obtain m where "broadcast P m fds w2 = Some w'"
        by (auto simp: notify_round_def Let_def split: if_splits option.splits)
      from broadcast_opens [OF laws this] rd [OF r1] rd [OF r2] show ?thesis by simp
    qed
  qed
qed

text \<open>
  The process has two tables of clients: the descriptors that are its own for one table are the
  listening sockets, pipes and files, and the clients of the other.
\<close>

abbreviation clients :: "int list \<Rightarrow> int set" where
  "clients cs \<equiv> set cs - {INVALID_CLIENT}"

definition tables_ok :: "('p \<Rightarrow> int set) \<Rightarrow> int set \<Rightarrow> int list \<Rightarrow> int list \<Rightarrow> 'p \<Rightarrow> bool" where
  "tables_ok opens own cs ns w \<longleftrightarrow>
     table_ok opens (own \<union> clients ns) cs w \<and> table_ok opens (own \<union> clients cs) ns w"

lemma tables_swap: "tables_ok opens own cs ns w = tables_ok opens own ns cs w"
  by (auto simp: tables_ok_def)

lemma tables_cong: "opens w = opens w' \<Longrightarrow> tables_ok opens own cs ns w = tables_ok opens own cs ns w'"
  by (simp add: tables_ok_def table_ok_def)

lemma tables_step:
  assumes "tables_ok opens own cs ns w" and "table_ok opens (own \<union> clients ns) cs' w'"
  shows "tables_ok opens own cs' ns w'"
  using assms by (auto simp: tables_ok_def table_ok_def)

section \<open>What every interleaving keeps\<close>

lemma signals_flags:
  obtains q r v where "fold handle_signal sigs s = s\<lparr>flag_quit := q, flag_reload := r, flag_save_cfg := v\<rparr>"
proof -
  have "\<exists>q r v. fold handle_signal sigs s = s\<lparr>flag_quit := q, flag_reload := r, flag_save_cfg := v\<rparr>"
  proof (induction sigs arbitrary: s)
    case Nil
    have "s = s\<lparr>flag_quit := flag_quit s, flag_reload := flag_reload s, flag_save_cfg := flag_save_cfg s\<rparr>" by simp
    then show ?case unfolding fold_simps(1) id_apply by blast
  next
    case (Cons x sigs)
    obtain q r v where "handle_signal x s = s\<lparr>flag_quit := q, flag_reload := r, flag_save_cfg := v\<rparr>"
    proof -
      have "handle_signal x s = s\<lparr>flag_quit := flag_quit (handle_signal x s),
          flag_reload := flag_reload (handle_signal x s), flag_save_cfg := flag_save_cfg (handle_signal x s)\<rparr>"
        by (cases x) (simp_all add: termination_handler_def reload_handler_def save_config_handler_def)
      then show thesis by (rule that)
    qed
    moreover obtain q' r' v' where "fold handle_signal sigs (handle_signal x s) =
        (handle_signal x s)\<lparr>flag_quit := q', flag_reload := r', flag_save_cfg := v'\<rparr>" using Cons by blast
    ultimately have "fold handle_signal (x # sigs) s = s\<lparr>flag_quit := q', flag_reload := r', flag_save_cfg := v'\<rparr>"
      by simp
    then show ?case by blast
  qed
  then show thesis by (blast intro: that)
qed

text \<open>
  The daemon in order: marked indicators of the joystick are flagged and indicator \<open>b\<close> is marked or
  shown, the configuration and the log levels are well formed, and the client tables hold
  distinct open descriptors with no descriptor lost. \<open>own\<close> are the descriptors besides the
  clients.
\<close>

definition x52d_ok ::
  "('p \<Rightarrow> int set) \<Rightarrow> int set \<Rightarrow> nat \<Rightarrow> ('w \<times> vendor_cmd list, 'p, 'h, 'u) x52d_state \<Rightarrow> bool" where
  "x52d_ok opens own b s \<longleftrightarrow> dev_ok (display_of (snd (xd_usb s))) b (xd_modules s) \<and>
     daemon_ok (daemon_of s) \<and>
     tables_ok opens own (cs_client_fd (xd_command s)) (ns_client_fd (xd_notify s)) (xd_os s) \<and>
     cs_sock_fd (xd_command s) \<noteq> INVALID_CLIENT \<and> ns_sock (xd_notify s) \<noteq> INVALID_CLIENT"

lemma daemon_ok_of: "daemon_ok (daemon_of s) \<longleftrightarrow>
    state_wf (ms_config s) \<and> pinelog_wf (ms_log s) \<and> num_modules (ms_log s) = int X52D_MOD_MAX"
  by (simp add: daemon_ok_def daemon_of_def)

lemma x52d_ok_tables:
  assumes "x52d_ok opens own b s" and "xd_usb s' = xd_usb s" and "xd_modules s' = xd_modules s"
    and "daemon_of s' = daemon_of s" and "tables_ok opens own (cs_client_fd (xd_command s'))
      (ns_client_fd (xd_notify s')) (xd_os s')"
    and "cs_sock_fd (xd_command s') = cs_sock_fd (xd_command s)" and "ns_sock (xd_notify s') = ns_sock (xd_notify s)"
  shows "x52d_ok opens own b s'"
  using assms by (simp add: x52d_ok_def)

lemma device_round_ok:
  assumes laws: "os_laws (xe_posix E) opens" and E: "xe_usb E = logged U"
    and ok: "x52d_ok opens own b s" and r: "device_round E tz s = Some (Go s')"
  shows "x52d_ok opens own b s'"
proof -
  obtain m w where d: "x52_dev_round (logged U) (x52d_config_apply (daemon_callback tz) (ms_config s))
      (xd_modules s) (xd_usb s) = (m, w)" by (rule prod.exhaust)
  let ?notes = "drop (length (dm_notes (xd_modules s))) (dm_notes m)"
  from r d obtain os where n: "send_notes (xe_posix E) (snd (ns_pipe (xd_notify s))) ?notes (xd_os s) = Some (Ran os)"
    and s': "s' = s\<lparr>xd_modules := m, xd_usb := w, xd_os := os\<rparr>"
    by (auto simp: device_round_def E from_run_def split: option.splits run.splits)
  have "dev_ok (display_of (snd w)) b m"
    using modules.round_ok [OF d] ok by (simp add: x52d_ok_def)
  moreover have "opens os = opens (xd_os s)" by (rule send_notes_opens [OF laws n])
  ultimately show ?thesis
    using ok s' tables_cong [of opens os "xd_os s"] by (simp add: x52d_ok_def daemon_ok_of)
qed

lemma modules_ok:
  assumes "x52d_ok opens own b s" and "\<And>D. dev_ok D b (xd_modules s) \<Longrightarrow> dev_ok D b m"
  shows "x52d_ok opens own b (s\<lparr>xd_modules := m\<rparr>)"
  using assms by (simp add: x52d_ok_def daemon_ok_of)

text \<open>Storing the state of a command, with the signals it raised blocked, and in general.\<close>

lemma raise_one: "xd_command_masked s \<Longrightarrow> raise_signal n s = s\<lparr>xd_pending := insert n (xd_pending s)\<rparr>"
  by (simp add: raise_signal_def)

lemma raise_blocked:
  "xd_command_masked s \<Longrightarrow> fold raise_signal ns s = s\<lparr>xd_pending := set ns \<union> xd_pending s\<rparr>"
  by (induction ns arbitrary: s) (simp_all add: raise_one)

lemma raise_flags:
  obtains q r v p where "fold raise_signal ns s =
    s\<lparr>flag_quit := q, flag_reload := r, flag_save_cfg := v, xd_pending := p\<rparr>"
proof -
  have same: "s = s\<lparr>flag_quit := flag_quit s, flag_reload := flag_reload s, flag_save_cfg := flag_save_cfg s,
      xd_pending := xd_pending s\<rparr>" for s by simp
  have one: "\<exists>q r v p. raise_signal n s =
      s\<lparr>flag_quit := q, flag_reload := r, flag_save_cfg := v, xd_pending := p\<rparr>" for n s
  proof -
    obtain x where "raise_signal n s = s \<or> raise_signal n s = fold handle_signal [x] s
        \<or> raise_signal n s = s\<lparr>xd_pending := insert n (xd_pending s)\<rparr>"
    proof (cases "find (\<lambda>x. signum x = n) [SIGINT, SIGTERM, SIGQUIT, SIGHUP, SIGUSR1]")
      case None
      then have "raise_signal n s = s \<or> raise_signal n s = s\<lparr>xd_pending := insert n (xd_pending s)\<rparr>"
        by (simp only: raise_signal_def run_handler_def option.case) simp
      then show thesis using that by blast
    next
      case (Some a)
      then have "raise_signal n s = handle_signal a s \<or> raise_signal n s = s\<lparr>xd_pending := insert n (xd_pending s)\<rparr>"
        by (simp only: raise_signal_def run_handler_def option.case) simp
      then show thesis using that [of a] by (simp only: fold_simps id_apply) blast
    qed
    moreover obtain q r v where "fold handle_signal [x] s = s\<lparr>flag_quit := q, flag_reload := r, flag_save_cfg := v\<rparr>"
      by (rule signals_flags)
    moreover have "s\<lparr>flag_quit := q, flag_reload := r, flag_save_cfg := v\<rparr> =
        s\<lparr>flag_quit := q, flag_reload := r, flag_save_cfg := v, xd_pending := xd_pending s\<rparr>" by simp
    moreover have "s\<lparr>xd_pending := insert n (xd_pending s)\<rparr> = s\<lparr>flag_quit := flag_quit s,
        flag_reload := flag_reload s, flag_save_cfg := flag_save_cfg s, xd_pending := insert n (xd_pending s)\<rparr>" by simp
    ultimately show ?thesis using same [of s] by metis
  qed
  have "\<exists>q r v p. fold raise_signal ns s =
      s\<lparr>flag_quit := q, flag_reload := r, flag_save_cfg := v, xd_pending := p\<rparr>"
  proof (induction ns arbitrary: s)
    case Nil
    show ?case unfolding fold_simps(1) id_apply using same [of s] by blast
  next
    case (Cons n ns)
    obtain q r v p where "raise_signal n s =
        s\<lparr>flag_quit := q, flag_reload := r, flag_save_cfg := v, xd_pending := p\<rparr>" using one by blast
    moreover obtain q' r' v' p' where "fold raise_signal ns (raise_signal n s) =
        (raise_signal n s)\<lparr>flag_quit := q', flag_reload := r', flag_save_cfg := v', xd_pending := p'\<rparr>"
      using Cons by blast
    ultimately have "fold raise_signal (n # ns) s =
        s\<lparr>flag_quit := q', flag_reload := r', flag_save_cfg := v', xd_pending := p'\<rparr>" by simp
    then show ?case by blast
  qed
  then show thesis by (blast intro: that)
qed

lemma store_daemon_keeps:
  "ms_config (store_daemon d s) = d_config d" "ms_log (store_daemon d s) = d_log d"
  "xd_files (store_daemon d s) = d_files d" "xd_modules (store_daemon d s) = d_devices d"
  "xd_usb (store_daemon d s) = xd_usb s" "xd_command (store_daemon d s) = xd_command s"
  "xd_notify (store_daemon d s) = xd_notify s" "xd_os (store_daemon d s) = xd_os s"
  "xd_command_masked (store_daemon d s) = xd_command_masked s"
  by (rule raise_flags [of "d_signals d" "s\<lparr>ms_config := d_config d, ms_log := d_log d, xd_files := d_files d,
        xd_modules := d_devices d\<rparr>"], simp add: store_daemon_def)+

lemma command_round_ok:
  assumes laws: "os_laws (xe_posix E) opens" and ok: "x52d_ok opens own b s"
    and r: "command_round B E tz s = Some (Go s')"
  shows "x52d_ok opens own b s'"
proof -
  let ?cs = "cs_client_fd (xd_command s)" and ?ns = "ns_client_fd (xd_notify s)"
  let ?D = "display_of (snd (xd_usb s))"
  from r obtain rc fds w d where l: "x52d_command_loop (xe_posix E) (cmd_env_of B E tz) ?cs
      (cs_sock_fd (xd_command s)) (xd_os s, Replied (daemon_of s)) = Some (rc, fds, (w, Replied d))"
    and s': "s' = (store_daemon d s)\<lparr>xd_command := (xd_command s)\<lparr>cs_client_fd := fds\<rparr>, xd_os := w\<rparr>"
    by (auto simp: command_round_def split: option.splits cmd_result.splits if_splits)
  have cb: "dev_ok ?D b m \<Longrightarrow> dev_ok ?D b (ce_callbacks (cmd_env_of B E tz) e v m)" for e v m
    by (simp add: cmd_env_of_def callback_ok)
  have "served (daemon_inv (dev_ok ?D b)) (xd_os s, Replied (daemon_of s))"
    using ok by (simp add: served_def daemon_inv_def x52d_ok_def daemon_of_def)
  from loop_served [OF l this parser_keeps] cb have d: "daemon_inv (dev_ok ?D b) d"
    by (simp add: served_def)
  have "table_ok opens (own \<union> clients ?ns) fds w"
    using x52d_command_loop_table [OF os_lawsD(1) [OF laws] _ _ _ _ l, of "own \<union> clients ?ns"]
      os_lawsD [OF laws] ok by (simp add: x52d_ok_def tables_ok_def)
  then have "tables_ok opens own fds ?ns w"
    using ok tables_step by (auto simp: x52d_ok_def)
  moreover have "state_wf (d_config d)" "pinelog_wf (d_log d)" "num_modules (d_log d) = int X52D_MOD_MAX"
    "dev_ok ?D b (d_devices d)" using d by (simp_all add: daemon_inv_def daemon_ok_def)
  ultimately show ?thesis
    using ok unfolding s' by (simp add: x52d_ok_def daemon_ok_of store_daemon_keeps)
qed

lemma listen_round_ok:
  assumes laws: "os_laws (xe_posix E) opens" and ok: "x52d_ok opens own b s"
    and r: "notify_listen_round E s = Some (Go s')"
  shows "x52d_ok opens own b s'"
proof -
  let ?P = "xe_posix E" and ?cs = "cs_client_fd (xd_command s)" and ?ns = "ns_client_fd (xd_notify s)"
  let ?fd = "ns_sock (xd_notify s)"
  from r obtain fds w where l: "notify_loop_round ?P ?ns ?fd (xd_os s) = Some (fds, w)"
    and s': "s' = s\<lparr>xd_notify := (xd_notify s)\<lparr>ns_client_fd := fds\<rparr>, xd_os := w\<rparr>"
    by (auto simp: notify_listen_round_def)
  have tab: "table_ok opens (own \<union> clients ?cs) ?ns (xd_os s)" and sock: "?fd \<noteq> INVALID_CLIENT"
    using ok by (simp_all add: x52d_ok_def tables_ok_def)
  from l obtain rc pfd w1 where p: "x52d_client_poll ?P ?ns ?fd (xd_os s) = Some (rc, pfd, w1)"
    by (auto simp: notify_loop_round_def split: option.splits)
  have w1: "table_ok opens (own \<union> clients ?cs) ?ns w1"
    by (rule table_ok_opens [OF tab poll_opens [OF os_lawsD(1) [OF laws] p]])
  have "opens (notify_client_handler ?P fd v) = opens v" for fd v
    by (simp add: notify_client_handler_def os_lawsD [OF laws])
  then have "table_ok opens (own \<union> clients ?cs) fds w"
    if "x52d_client_handle ?P ?ns pfd ?fd (Some (notify_client_handler ?P)) w1 = (fds, w)"
    using that poll_valid [OF sock p]
    by (intro handle_table_ok [OF os_lawsD(1) [OF laws] _ w1])
      (auto simp: x52d_client_handle_def list_all_iff dest: in_set_takeD)
  with l p w1 have "table_ok opens (own \<union> clients ?cs) fds w"
    by (auto simp: notify_loop_round_def split: if_splits)
  moreover have "tables_ok opens own ?ns ?cs (xd_os s)"
    using ok tables_swap [of opens own ?cs ?ns "xd_os s"] by (simp add: x52d_ok_def)
  ultimately have "tables_ok opens own fds ?cs w" by (rule tables_step [rotated])
  then have "tables_ok opens own ?cs fds w" by (simp add: tables_swap [of opens own ?cs])
  then show ?thesis unfolding s' by (intro x52d_ok_tables [OF ok]) (simp_all add: daemon_of_def)
qed

lemma notify_thread_ok:
  assumes laws: "os_laws (xe_posix E) opens" and ok: "x52d_ok opens own b s"
    and r: "notify_thread_round E s = Some (Go s')"
  shows "x52d_ok opens own b s'"
proof -
  from r obtain t w where n: "notify_round (xe_posix E) (fst (ns_pipe (xd_notify s)))
        (ns_client_fd (xd_notify s)) (xd_notify_thr s) (xd_os s) = Some (Ran (t, w))"
    and s': "s' = s\<lparr>xd_notify_thr := t, xd_os := w\<rparr>"
    by (auto simp: notify_thread_round_def from_run_def split: option.splits run.splits)
  from notify_round_opens [OF laws n] have "opens w = opens (xd_os s)" .
  then show ?thesis unfolding s' using ok tables_cong [of opens w "xd_os s"]
    by (intro x52d_ok_tables [OF ok]) (simp_all add: daemon_of_def x52d_ok_def)
qed

lemma on_mouse_ok: "dev_ok D b m \<Longrightarrow> dev_ok D b (on_mouse f m)"
  by (rule mods_ok(3))

lemma mouse_rounds_ok:
  assumes ok: "x52d_ok opens own b s"
  shows "x52d_ok opens own b (io_round E s)" "x52d_ok opens own b (mouse_round E s)"
proof -
  have *: "x52d_ok opens own b ((with_modules (on_mouse f) s)\<lparr>xd_io := i, xd_hid := h, xd_input := u\<rparr>)" for f i h u
    using modules_ok [OF ok on_mouse_ok [where f = f]] by (simp add: x52d_ok_def with_modules_def daemon_of_def)
  have "(with_modules (on_mouse f) s)\<lparr>xd_input := u\<rparr> = (with_modules (on_mouse f) s)\<lparr>xd_io := xd_io s,
      xd_hid := xd_hid s, xd_input := u\<rparr>" for f u by (simp add: with_modules_def)
  then show "x52d_ok opens own b (mouse_round E s)"
    using ok * by (simp add: mouse_round_def split: prod.split)
  show "x52d_ok opens own b (io_round E s)"
    using ok * by (auto simp: io_round_def Let_def split: option.split prod.split)
qed

text \<open>A round of the main loop changes the configuration, the modules, the files and the flags.\<close>

lemma main_round_ok:
  fixes s :: "('w \<times> vendor_cmd list, 'p, 'h, 'u) x52d_state"
  assumes ok: "x52d_ok opens own b s" and r: "main_round (x52d_ops B E tz) conf s = Some (Go s')"
  shows "x52d_ok opens own b s'"
proof -
  let ?M = "x52d_ops B E tz"
  have save: "x52d_ok opens own b (main_save ?M conf t)" if "x52d_ok opens own b t" for t
    using that by (auto simp: main_save_def write_op_def x52d_ok_def daemon_ok_of split: prod.split option.split)
  have flags: "x52d_ok opens own b (t\<lparr>flag_save_cfg := v\<rparr>)" "x52d_ok opens own b (t\<lparr>flag_reload := v\<rparr>)"
    if "x52d_ok opens own b t" for t :: "('w \<times> vendor_cmd list, 'p, 'h, 'u) x52d_state" and v
    using that by (simp_all add: x52d_ok_def daemon_ok_of)
  define fin where "fin t = (if flag_save_cfg t then (main_save ?M conf t)\<lparr>flag_save_cfg := False\<rparr> else t)" for t
  have fin: "x52d_ok opens own b (fin t)" if "x52d_ok opens own b t" for t
    using that save flags by (simp add: fin_def)
  show ?thesis
  proof (cases "flag_reload s")
    case False
    with r have "s' = fin s" by (simp add: main_round_def fin_def Let_def)
    with fin ok show ?thesis by simp
  next
    case True
    have wf: "state_wf (ms_config s)" using ok by (simp add: x52d_ok_def daemon_ok_of)
    from r True load_returns [OF wf, of ?M conf] obtain c where c: "main_load ?M conf s = Some (Go (s\<lparr>ms_config := c\<rparr>))"
      "state_wf c" by (auto simp: main_round_def Let_def)
    let ?t = "apply_op tz (s\<lparr>ms_config := c\<rparr>)"
    have "x52d_ok opens own b (s\<lparr>ms_config := c\<rparr>)" using ok c(2) by (simp add: x52d_ok_def daemon_ok_of)
    from modules_ok [OF this apply_ok] have "x52d_ok opens own b ?t" by (simp add: apply_op_def with_modules_def)
    moreover have "s' = fin (?t\<lparr>flag_reload := False\<rparr>)"
      using r True c(1) by (simp add: main_round_def fin_def Let_def)
    ultimately show ?thesis using fin flags by blast
  qed
qed

lemma thread_round_ok:
  assumes "os_laws (xe_posix E) opens" and "xe_usb E = logged U"
    and ok: "x52d_ok opens own b s" and r: "x52d_round B E conf e s = Some (Go s')"
  shows "x52d_ok opens own b s'"
proof (cases e)
  case (ClockThread env t)
  with r modules_ok [OF ok clock_round_ok] show ?thesis by (auto simp: with_modules_def)
next
  case (MainThread tz sigs)
  obtain q l v where f: "fold handle_signal sigs s = s\<lparr>flag_quit := q, flag_reload := l, flag_save_cfg := v\<rparr>"
    by (rule signals_flags)
  have "x52d_ok opens own b (fold handle_signal sigs s)" unfolding f using ok by (simp add: x52d_ok_def daemon_ok_of)
  with MainThread r ok main_round_ok show ?thesis by (auto split: if_splits)
next
  case (DeviceThread tz)
  with r device_round_ok [OF assms(1-3)] show ?thesis by simp
next
  case (CommandThread tz)
  with r command_round_ok [OF assms(1,3)] show ?thesis by simp
next
  case NotifyThread
  with r notify_thread_ok [OF assms(1,3)] show ?thesis by simp
next
  case NotifyListener
  with r listen_round_ok [OF assms(1,3)] show ?thesis by simp
qed (use r mouse_rounds_ok [OF ok] in auto)

text \<open>
  C1:
  The whole daemon, its eight threads taking rounds in any order, over a libusb that may fail, lose
  the joystick and find it again, clients that send anything, and signals at any pause. As long
  as it runs: an indicator that was once marked is, whenever the update flag is clear, shown by
  the joystick as the device record says, and marks raise the flag; the configuration and the
  log levels stay well formed; both client tables hold distinct open descriptors, and none is lost.
\<close>

theorem x52d_system_invariant:
  assumes "os_laws (xe_posix E) opens" and "xe_usb E = logged U"
    and "x52d_ok opens own b s" and "x52d_run B E conf es s = Some (Go s')"
  shows "(\<not> dm_update_needed (xd_modules s') \<longrightarrow>
       displays (display_of (snd (xd_usb s'))) (dm_dev (xd_modules s')) b)
    \<and> (marked (dm_dev (xd_modules s')) \<noteq> [] \<longrightarrow> dm_update_needed (xd_modules s'))
    \<and> state_wf (ms_config s') \<and> pinelog_wf (ms_log s')
    \<and> tables_ok opens own (cs_client_fd (xd_command s')) (ns_client_fd (xd_notify s')) (xd_os s')"
proof -
  have "x52d_ok opens own b s'"
    by (rule x52d_run_inv [OF assms(4), of "x52d_ok opens own b", OF assms(3)]) (rule thread_round_ok [OF assms(1,2)])
  then show ?thesis
    using dev_ok_quiet by (auto simp: x52d_ok_def dev_ok_def flag_ok_def daemon_ok_of)
qed

section \<open>A reload or a save that a client asks for\<close>

text \<open>No request to reload or to save comes from outside the process.\<close>

fun unasked :: "x52d_event \<Rightarrow> bool" where
  "unasked (MainThread tz sigs) = (SIGHUP \<notin> set sigs \<and> SIGUSR1 \<notin> set sigs)"
| "unasked _ = True"

fun serves :: "x52d_event \<Rightarrow> bool" where
  "serves (CommandThread tz) = True" | "serves _ = False"

lemma unasked_flags:
  "SIGHUP \<notin> set sigs \<Longrightarrow> SIGUSR1 \<notin> set sigs \<Longrightarrow>
   \<exists>q. fold handle_signal sigs s = s\<lparr>flag_quit := q\<rparr>"
proof (induction sigs arbitrary: s)
  case Nil
  have "s = s\<lparr>flag_quit := flag_quit s\<rparr>" by simp
  then show ?case unfolding fold_simps(1) id_apply by blast
next
  case (Cons x sigs)
  then obtain q where "handle_signal x s = s\<lparr>flag_quit := q\<rparr>"
    by (cases x) (auto simp: termination_handler_def)
  moreover from Cons obtain q' where
    "fold handle_signal sigs (handle_signal x s) = (handle_signal x s)\<lparr>flag_quit := q'\<rparr>" by force
  ultimately have "fold handle_signal (x # sigs) s = s\<lparr>flag_quit := q'\<rparr>" by simp
  then show ?case ..
qed

lemma unasked_round:
  assumes r: "x52d_round B E conf e s = Some (Go s')" and u: "unasked e"
    and f: "\<not> flag_reload s" "\<not> flag_save_cfg s" and m: "xd_command_masked s"
  shows "\<not> flag_reload s' \<and> \<not> flag_save_cfg s' \<and> xd_pending s \<subseteq> xd_pending s'
    \<and> (\<not> serves e \<longrightarrow> ms_config s' = ms_config s \<and> xd_files s' = xd_files s)"
proof -
  have main: "s' = s \<or> (\<exists>q. s' = s\<lparr>flag_quit := q\<rparr>)" if e: "e = MainThread tz sigs" for tz sigs
  proof -
    obtain q where fq: "fold handle_signal sigs s = s\<lparr>flag_quit := q\<rparr>" using unasked_flags [of sigs s] u e by auto
    have "s' = s \<or> s' = s\<lparr>flag_quit := q\<rparr>"
      using r f by (simp add: e fq main_round_def Let_def split: if_splits)
    then show ?thesis by blast
  qed
  show ?thesis
  proof (cases e)
    case (MainThread tz sigs)
    from main [OF this] f show ?thesis by auto
  qed (use r f in \<open>auto simp: device_round_def command_round_def notify_thread_round_def notify_listen_round_def
      io_round_def mouse_round_def with_modules_def store_daemon_def raise_blocked m from_run_def Let_def
      split: option.splits run.splits prod.splits cmd_result.splits if_splits\<close>)
qed

text \<open>No thread changes the mask of the command thread.\<close>

lemma main_round_mask:
  assumes "main_round (x52d_ops B E tz) conf s = Some (Go s')"
  shows "xd_command_masked s' = xd_command_masked s"
proof -
  have a: "xd_command_masked (apply_op tz s) = xd_command_masked s" for s by (simp add: apply_op_def with_modules_def)
  have w: "xd_command_masked (main_save (x52d_ops B E tz) conf s) = xd_command_masked s" for s
    by (simp add: main_save_def write_op_def split: prod.split option.split)
  have l: "main_load (x52d_ops B E tz) conf s = Some (Go t) \<Longrightarrow> xd_command_masked t = xd_command_masked s" for t
    by (erule main_load_keeps) simp
  show ?thesis
  proof (cases "flag_reload s")
    case True
    with assms obtain t where "main_load (x52d_ops B E tz) conf s = Some (Go t)"
      by (cases "main_load (x52d_ops B E tz) conf s"; cases "the (main_load (x52d_ops B E tz) conf s)")
        (auto simp: main_round_def)
    with assms True l [OF this] show ?thesis by (auto simp: main_round_def a w Let_def split: if_splits)
  qed (use assms in \<open>auto simp: main_round_def w Let_def split: if_splits\<close>)
qed

lemma round_mask:
  assumes r: "x52d_round B E conf e s = Some (Go s')"
  shows "xd_command_masked s' = xd_command_masked s"
proof (cases e)
  case (MainThread tz sigs)
  obtain q f v where "fold handle_signal sigs s = s\<lparr>flag_quit := q, flag_reload := f, flag_save_cfg := v\<rparr>"
    by (rule signals_flags)
  with r main_round_mask [of B E tz conf "fold handle_signal sigs s" s'] show ?thesis
    by (auto simp: MainThread split: if_splits)
qed (use r in \<open>auto simp: device_round_def command_round_def notify_thread_round_def notify_listen_round_def
      io_round_def mouse_round_def with_modules_def store_daemon_keeps from_run_def Let_def
      split: option.splits run.splits prod.splits cmd_result.splits if_splits\<close>)

lemma run_mask:
  assumes "x52d_run B E conf es s = Some (Go s')"
  shows "xd_command_masked s' = xd_command_masked s"
  by (rule x52d_run_inv [OF assms, of "\<lambda>t. xd_command_masked t = xd_command_masked s"]) (simp_all add: round_mask)

lemma run_unasked:
  assumes "x52d_run B E conf es s = Some (Go s')" and "\<forall>e \<in> set es. unasked e"
    and "\<not> flag_reload s" "\<not> flag_save_cfg s" and "xd_command_masked s"
  shows "\<not> flag_reload s' \<and> \<not> flag_save_cfg s' \<and> xd_pending s \<subseteq> xd_pending s'
    \<and> ((\<forall>e \<in> set es. \<not> serves e) \<longrightarrow> ms_config s' = ms_config s \<and> xd_files s' = xd_files s)"
proof -
  let ?P = "\<lambda>t. xd_command_masked t \<and> \<not> flag_reload t \<and> \<not> flag_save_cfg t \<and> xd_pending s \<subseteq> xd_pending t
    \<and> ((\<forall>e \<in> set es. \<not> serves e) \<longrightarrow> ms_config t = ms_config s \<and> xd_files t = xd_files s)"
  have "?P s'"
  proof (rule x52d_run_inv [OF assms(1)])
    fix e t t'
    assume e: "e \<in> set es" and r: "x52d_round B E conf e t = Some (Go t')" and inv: "?P t"
    have "unasked e" using e assms(2) by blast
    with unasked_round [OF r this] round_mask [OF r] inv e show "?P t'" by auto
  qed (use assms in auto)
  then show ?thesis by blast
qed

text \<open>
  The threads are created while the main thread blocks all signals, which it then unblocks for
  itself.
\<close>

lemma and_go_Go: "and_go r f = Go y \<longleftrightarrow> (\<exists>x. r = Go x \<and> f x = Go y)"
  by (cases r) auto

lemma start_masked:
  assumes "main_start (x52d_ops B E tz) m blocked s = Go (Inr s')"
  shows "xd_command_masked s'"
proof -
  have dev: "dev_init_op E s = Go t \<Longrightarrow> xd_masked t = xd_masked s" for s t
    by (auto simp: dev_init_op_def and_go_Go)
  have late: "notify_init_op E r k s = Go t \<Longrightarrow> xd_command_masked t = xd_command_masked s"
    "io_init_op E s = Go t \<Longrightarrow> xd_command_masked t = xd_command_masked s"
    "xd_command_masked (mouse_init_op E s) = xd_command_masked s"
    "xd_command_masked (apply_op tz s) = xd_command_masked s" for r k s t
    by (auto simp: notify_init_op_def io_init_op_def mouse_init_op_def apply_op_def with_modules_def and_go_Go)
  have sigs: "xd_command_masked (fold handle_signal blocked s) = xd_command_masked s" for s
    by (rule signals_flags [of blocked s]) simp
  let ?s0 = "s\<lparr>xd_masked := True\<rparr>"
  obtain s1 where mask: "xe_sigmask E True" and d: "dev_init_op E ?s0 = Go s1"
    using assms by (auto simp: main_start_def x52d_ops_def or_exit_def sigmask_op_def and_go_Go split: if_splits)
  obtain rc s2 where c: "command_init_op E (mo_rundir B) (command_sock m) s1 = (rc, s2)" by (rule prod.exhaust)
  have rc: "\<not> rc < 0"
    using assms mask d c by (auto simp: main_start_def x52d_ops_def or_exit_def sigmask_op_def)
  with c have m2: "xd_command_masked s2" using dev [OF d]
    by (auto simp: command_init_op_def split: prod.splits)
  obtain s3 s4 where n: "notify_init_op E (mo_rundir B) (notify_sock m) s2 = Go s3" and i: "io_init_op E s3 = Go s4"
    and s': "s' = (apply_op tz (fold handle_signal blocked ((mouse_init_op E s4)\<lparr>xd_masked := False\<rparr>)))\<lparr>flag_quit := 0\<rparr>"
    using assms mask d c rc
    by (auto simp: main_start_def x52d_ops_def or_exit_def sigmask_op_def and_go_Go split: if_splits)
  show ?thesis using m2 late(1) [OF n] late(2) [OF i] by (simp add: s' late(3,4) sigs)
qed

lemma subcommand_words:
  "\<not> strcaseeq ''reload'' ''load''" "\<not> strcaseeq ''save'' ''load''" "\<not> strcaseeq ''save'' ''reload''"
  "\<not> strcaseeq ''save'' ''dump''"
  by code_simp+

lemma request_answer:
  assumes "cmd = (''reload'', 1 :: int) \<or> cmd = (''save'', 10)"
    and "x52d_format_command (Some [''config'', fst cmd]) True X52D_BUFSZ = Inr (n, buf)"
  shows "command_parser (cmd_env_of B E tz) buf n (daemon_of s) =
    Replied (wire [''OK'', ''config'', fst cmd], (daemon_of s)\<lparr>d_signals := [snd cmd]\<rparr>)"
proof -
  have "command_parser (cmd_env_of B E tz) buf n (daemon_of s) =
      run_command (cmd_env_of B E tz) [''config'', fst cmd] (daemon_of s)"
    using assms by (intro command_parser_formatted) auto
  also have "\<dots> = Replied (wire [''OK'', ''config'', fst cmd], (daemon_of s)\<lparr>d_signals := [snd cmd]\<rparr>)"
    using assms(1) by (auto simp: run_command_def cmd_config_def config_reload_cmd_def config_save_cmd_def reply_def
        response_strings_def X52D_BUFSZ_def daemon_of_def wire_def subcommand_words)
  finally show ?thesis .
qed

text \<open>
  C30:
  A client that sends \<open>config reload\<close> or \<open>config save\<close> to a started daemon is answered OK, but
  nothing is done. Starting creates the command thread while all signals are blocked, so that it
  blocks them for good, and the signal that the command raises goes to that thread. Whatever
  rounds the threads took before the command and take after it: as long as no signal comes from
  outside, the request stays pending for the command thread, the flags of the main loop stay
  clear, and without further commands neither the configuration nor any file changes.
\<close>

theorem x52d_request_unheard:
  assumes start: "main_start (x52d_ops B E tz0) m blocked s0 = Go (Inr s1)"
    and before: "x52d_run B E conf es0 s1 = Some (Go s)"
    and clear: "\<not> flag_reload s" "\<not> flag_save_cfg s"
    and cmd: "cmd = (''reload'', 1 :: int) \<or> cmd = (''save'', 10)"
    and msg: "x52d_format_command (Some [''config'', fst cmd]) True X52D_BUFSZ = Inr (n, buf)"
    and parse: "command_parser (cmd_env_of B E tz) buf n (daemon_of s) = Replied (r, d)"
    and run: "x52d_run B E conf es (store_daemon d s) = Some (Go s')"
    and es: "\<forall>e \<in> set es. unasked e"
  shows "r = wire [''OK'', ''config'', fst cmd] \<and> snd cmd \<in> xd_pending s'
    \<and> \<not> flag_reload s' \<and> \<not> flag_save_cfg s'
    \<and> ((\<forall>e \<in> set es. \<not> serves e) \<longrightarrow> ms_config s' = ms_config s \<and> xd_files s' = xd_files s)"
proof -
  from request_answer [OF cmd msg, of B E tz s] parse
  have r: "r = wire [''OK'', ''config'', fst cmd]" and d: "d = (daemon_of s)\<lparr>d_signals := [snd cmd]\<rparr>" by simp_all
  have m: "xd_command_masked s" using start_masked [OF start] run_mask [OF before] by simp
  let ?t = "store_daemon d s"
  have t: "\<not> flag_reload ?t" "\<not> flag_save_cfg ?t" "snd cmd \<in> xd_pending ?t"
    "ms_config ?t = ms_config s" "xd_files ?t = xd_files s" "xd_command_masked ?t"
    using clear m by (simp_all add: store_daemon_def raise_one d daemon_of_def)
  from run_unasked [OF run es t(1,2,6)] t r show ?thesis by auto
qed

text \<open>If the command thread did not block them, the same commands would set the flags.\<close>

lemma run_handler_requests: "run_handler 1 s = s\<lparr>flag_reload := True\<rparr>" "run_handler 10 s = s\<lparr>flag_save_cfg := True\<rparr>"
  by (simp_all add: run_handler_def reload_handler_def save_config_handler_def)

lemma request_heard_unblocked:
  assumes "\<not> xd_command_masked s"
  shows "d_signals d = [1] \<Longrightarrow> flag_reload (store_daemon d s)"
    and "d_signals d = [10] \<Longrightarrow> flag_save_cfg (store_daemon d s)"
  using assms by (simp_all add: store_daemon_def raise_signal_def run_handler_requests)

section \<open>The end of the main loop\<close>

text \<open>The outcome of serving the requests of the main loop.\<close>

lemma save_files:
  "\<exists>files'. x52d_save B E conf (c, files, m) = (c, files', m) \<and> (files' g = None \<longrightarrow> files g = None)"
  by (simp add: x52d_save_def split: prod.split option.split)

lemma served_outcome:
  assumes "state_wf c"
  shows "case serve_batches (x52d_reload B tz conf) (x52d_save B E conf) pend bs (c, files, m) of
      None \<Rightarrow> False
    | Some (Exit n) \<Rightarrow> n = 1 \<and> (\<exists>b \<in> set (pend # bs). SIGHUP \<in> set b)
        \<and> (files (case conf of None \<Rightarrow> X52D_SYS_CFG_FILE (mo_sysconfdir B) | Some f \<Rightarrow> f) = None
           \<or> \<not> list_all override_legal (overrides c))
    | Some (Go v) \<Rightarrow> state_wf (fst v)"
  using assms
proof (induction bs arbitrary: pend c files m)
  case (Cons b bs)
  let ?f = "case conf of None \<Rightarrow> X52D_SYS_CFG_FILE (mo_sysconfdir B) | Some f \<Rightarrow> f"
  let ?bad = "files ?f = None \<or> \<not> list_all override_legal (overrides c)"
  let ?req = "SIGHUP \<in> set (pend @ b)"
  let ?rest = "serve_batches (x52d_reload B tz conf) (x52d_save B E conf) [] bs"
  obtain c' where c': "x52d_config_load (mo_sysconfdir B) files conf c =
      Some (if ?bad then Exit 1 else Go \<lparr>config = c', overrides = []\<rparr>)" "config_wf c'"
    using load_result [OF Cons.prems refl, where cfg_file = conf] by blast
  show ?case
  proof (cases "?req \<and> ?bad")
    case True
    then have "serve_batch (x52d_reload B tz conf) (x52d_save B E conf) (pend @ b) (c, files, m) = Some (Exit 1)"
      using c'(1) by (simp add: serve_batch_def x52d_reload_def)
    with True show ?thesis by auto
  next
    case False
    define c1 where "c1 = (if ?req then \<lparr>config = c', overrides = []\<rparr> else c)"
    obtain m1 where m1: "(if ?req then x52d_reload B tz conf (c, files, m) else Some (Go (c, files, m)))
        = Some (Go (c1, files, m1))"
      using False c'(1) by (cases ?req) (auto simp: x52d_reload_def c1_def)
    obtain files2 where "x52d_save B E conf (c1, files, m1) = (c1, files2, m1) \<and> (files2 ?f = None \<longrightarrow> files ?f = None)"
      by (rule exE [OF save_files])
    with m1 have "\<exists>m1 files1. serve_batch (x52d_reload B tz conf) (x52d_save B E conf) (pend @ b) (c, files, m)
        = Some (Go (c1, files1, m1)) \<and> (files1 ?f = None \<longrightarrow> files ?f = None)"
      unfolding serve_batch_def by simp
    then obtain m1 files1 where s: "serve_batch (x52d_reload B tz conf) (x52d_save B E conf) (pend @ b) (c, files, m)
        = Some (Go (c1, files1, m1))" and f1: "files1 ?f = None \<longrightarrow> files ?f = None" by (elim exE conjE)
    have "state_wf c1" using c'(2) Cons.prems by (simp add: c1_def state_wf_def)
    note IH = Cons.IH [OF this, of "[]" files1 m1]
    have o: "list_all override_legal (overrides c) \<Longrightarrow> list_all override_legal (overrides c1)"
      by (simp add: c1_def)
    show ?thesis
    proof (cases "?rest (c1, files1, m1)")
      case None
      with IH show ?thesis by simp
    next
      case (Some r)
      with IH s f1 o show ?thesis by (cases r) auto
    qed
  qed
qed simp

text \<open>
  C31:
  When signals arrive only while the loop pauses, the first pause that is woken by a termination
  signal is the last: the loop leaves with that signal, the last one if there are several. By
  then it has served the requests of every pause up to that one, in order, and of the time before
  the first: each hangup by loading the configuration and applying it to the modules, and each
  SIGUSR1 by writing the configuration to its file; the configuration, the files and the modules
  are what this makes of those at the start. The daemon ends before, with status 1 and without
  the cleanup, only when such a reload fails: some pause was woken by a hangup, and the file does
  not exist at the start or an override that is not legal was pending.
\<close>

theorem x52d_main_leaves:
  assumes "state_wf (ms_config s)" and "flag_quit s = 0"
    and "\<forall>b \<in> set bs. \<forall>x \<in> set b. \<not> terminates x" and "\<exists>x \<in> set sigs. terminates x"
  shows "case serve_batches (x52d_reload B tz conf) (x52d_save B E conf) (requests s) (bs @ [sigs]) (x52d_view s) of
      None \<Rightarrow> False
    | Some (Exit n) \<Rightarrow> n = 1
        \<and> main_loop (x52d_ops B E tz) conf (bs @ sigs # rest) s = Some (Inl (Exit 1))
        \<and> (\<exists>b \<in> set (requests s # bs @ [sigs]). SIGHUP \<in> set b)
        \<and> (xd_files s (case conf of None \<Rightarrow> X52D_SYS_CFG_FILE (mo_sysconfdir B) | Some f \<Rightarrow> f) = None
           \<or> \<not> list_all override_legal (overrides (ms_config s)))
    | Some (Go (c, files, m)) \<Rightarrow> state_wf c \<and>
        (\<exists>s'. main_loop (x52d_ops B E tz) conf (bs @ sigs # rest) s = Some (Inl (Go s'))
          \<and> ms_config s' = c \<and> xd_files s' = files \<and> xd_modules s' = m
          \<and> flag_quit s' = signum (last (filter terminates sigs)) \<and> \<not> flag_reload s' \<and> \<not> flag_save_cfg s')"
proof -
  let ?r = "serve_batches (x52d_reload B tz conf) (x52d_save B E conf) (requests s) (bs @ [sigs]) (x52d_view s)"
  note out = served_outcome [OF assms(1), where B = B and tz = tz and conf = conf and E = E and pend = "requests s"
      and bs = "bs @ [sigs]" and files = "xd_files s" and m = "xd_modules s", folded x52d_view_def]
  note run = xs.batches_served [OF assms(2-4), where B = B and tz = tz and conf = conf and E = E and rest = rest]
  show ?thesis
  proof (cases ?r)
    case None
    with out show ?thesis by simp
  next
    case (Some p)
    show ?thesis
    proof (cases p)
      case (Exit n)
      with Some out run show ?thesis by simp
    next
      case (Go v)
      obtain c files m where v: "v = (c, files, m)" by (rule prod_cases3)
      with Some Go out run show ?thesis by (auto simp: x52d_view_def)
    qed
  qed
qed

text \<open>
  Two windows in which a signal is lost. A termination signal between the test of \<open>flag_quit\<close>
  and \<open>pause\<close> leaves the daemon pausing although it was asked to quit. A hangup after the
  configuration was loaded and before the flag is cleared is forgotten: the loop pauses with no
  request pending and the configuration that was loaded before the signal.
\<close>

lemma x52d_main_lost_signal:
  assumes "flag_quit s = 0" and "\<not> flag_save_cfg s" and "flag_reload s"
    and "main_load (x52d_ops B E tz) conf s = Some (Go s1)"
  shows "(\<exists>t. (main_step (x52d_ops B E tz) conf)\<^sup>*\<^sup>* (Testing, s) (Pausing, t) \<and> flag_quit t \<noteq> 0)
    \<and> (\<exists>t. main_step (x52d_ops B E tz) conf (AtReload, s) (Reloaded, t)
        \<and> main_step (x52d_ops B E tz) conf (Reloaded, t) (Reloaded, handle_signal SIGHUP t)
        \<and> (\<exists>u. (main_step (x52d_ops B E tz) conf)\<^sup>*\<^sup>* (Reloaded, handle_signal SIGHUP t) (Pausing, u)
            \<and> \<not> flag_reload u \<and> flag_quit u = 0 \<and> ms_config u = ms_config s1))"
  using assms by (rule xd.signal_lost)

lemma go_right: "and_go r (\<lambda>x. and_go (f x) (\<lambda>y. Go (Inr (g y)))) \<noteq> Go (Inl z)"
proof (cases r)
  case (Go x)
  then show ?thesis by (cases "f x") simp_all
qed simp

text \<open>
  When the command server cannot be started, the cleanup ends modules that were never started:
  the notification manager, whose descriptors are still the zeros of its static variables,
  closes descriptor 0 three times, whatever it is.
\<close>

lemma x52d_failed_start:
  assumes mask: "xe_sigmask E True"
    and start: "main_start (x52d_ops B E tz) m blocked s = Go (Inl s1)"
    and zero: "ns_pipe (xd_notify s) = (0, 0)" "ns_sock (xd_notify s) = 0"
  shows "\<exists>t. main_cleanup (x52d_ops B E tz) pidf s1 = mo_unlink B pidf t \<and>
    xd_os t = (snd \<circ> sys_close (xe_posix E) 0 \<circ> snd \<circ> sys_close (xe_posix E) 0 \<circ> snd \<circ> sys_close (xe_posix E) 0)
      (xd_os s1)"
proof -
  let ?s = "s\<lparr>xd_masked := True\<rparr>"
  obtain s0 where d: "dev_init_op E ?s = Go s0"
    using start mask
    by (cases "dev_init_op E ?s") (simp_all add: main_start_def or_exit_def x52d_ops_def sigmask_op_def)
  then have n: "xd_notify s0 = xd_notify s"
    by (cases "x52d_dev_init (xe_usb E) (xe_dev_alloc E) (xd_usb s)") (auto simp: dev_init_op_def)
  obtain rc cs w where c: "x52d_command_init (xe_posix E) (mo_rundir B) (command_sock m) (xd_command s0) (xd_os s0)
      = (rc, cs, w)" by (metis prod_cases3)
  note defs = main_start_def or_exit_def x52d_ops_def command_init_op_def sigmask_op_def
  have rc: "rc < 0 \<and> s1 = s0\<lparr>xd_command := cs, xd_os := w\<rparr>"
  proof (cases "rc < 0")
    case True
    with start mask d c show ?thesis by (simp add: defs)
  next
    case False
    with start mask d c show ?thesis by (simp add: defs go_right)
  qed
  then have rc: "rc < 0" and s1: "s1 = s0\<lparr>xd_command := cs, xd_os := w\<rparr>" by simp_all
  have "cs_sock_fd cs = - 1"
    using c rc by (auto simp: x52d_command_init_def Let_def split: sum.splits prod.splits if_splits)
  then have "xd_os (notify_exit_op E (command_exit_op E (mo_rundir B) (dev_exit_op E s1))) =
      (snd \<circ> sys_close (xe_posix E) 0 \<circ> snd \<circ> sys_close (xe_posix E) 0 \<circ> snd \<circ> sys_close (xe_posix E) 0) w"
    using n zero by (simp add: s1 notify_exit_op_def command_exit_op_def dev_exit_op_def x52d_notify_exit_def
        x52d_command_exit_def split: option.split)
  then show ?thesis
    by (intro exI [of _ "io_exit_op E (mouse_exit_op E (notify_exit_op E (command_exit_op E (mo_rundir B)
            (dev_exit_op E s1))))"])
      (simp add: main_cleanup_def x52d_ops_def s1 io_exit_op_def mouse_exit_op_def with_modules_def split: prod.split)
qed

section \<open>The properties at a concrete daemon\<close>

text \<open>The connected stub joystick, a hidapi with one joystick, and no client.\<close>

definition demo_xe :: "(stub_world \<times> vendor_cmd list, int list, u8 list list, mouse_key \<Rightarrow> bool) x52d_env" where
  "demo_xe = \<lparr>xe_usb = logged stub, xe_posix = demo_posix, xe_hid = hid_one, xe_uinput = key_state,
     xe_uinput_created = True, xe_uinput_destroy = (\<lambda>u. u), xe_dev_alloc = True, xe_io_alloc = True,
     xe_io_memory = report_zero, xe_strerror = (\<lambda>_. []), xe_readable = (\<lambda>_. True), xe_writable = (\<lambda>_. True),
     xe_sigmask = (\<lambda>_. True)\<rparr>"

definition demo_xs ::
  "(stub_world \<times> vendor_cmd list, int list, u8 list list, mouse_key \<Rightarrow> bool) x52d_state" where
  "demo_xs = \<lparr>ms_log = pinelog_modules 9, ms_config = \<lparr>config = config_example, overrides = []\<rparr>,
     flag_quit = 0, flag_reload = False, flag_save_cfg = False,
     xd_modules = demo_modules, xd_usb = (stub_opened, []), xd_os = [3, 4],
     xd_command = \<lparr>cs_client_fd = replicate 63 INVALID_CLIENT, cs_sock_fd = 3, cs_sock_path = None\<rparr>,
     xd_notify = \<lparr>ns_client_fd = replicate 63 INVALID_CLIENT, ns_pipe = (0, 0), ns_sock = 4\<rparr>,
     xd_notify_thr = \<lparr>nt_bufsiz = [], nt_buffer = []\<rparr>, xd_io = None, xd_hid = [], xd_input = (\<lambda>_. False),
     xd_files = [''f'' \<mapsto> ''[Mouse]''], xd_masked = False, xd_command_masked = True, xd_pending = {}\<rparr>"

lemma demo_xs_ok: "x52d_ok set {3, 4} 26 demo_xs"
proof -
  have "daemon_ok (daemon_of demo_xs)"
    using demo_daemon_ok by (simp add: daemon_ok_def demo_daemon_def daemon_of_def demo_xs_def)
  moreover have "dev_ok (display_of []) 26 demo_modules"
    using marked_opened_bright by (simp add: dev_ok_def flag_ok_def synced_def demo_modules_def)
  ultimately show ?thesis
    by (simp add: x52d_ok_def demo_xs_def tables_ok_def table_ok_def X52D_MAX_CLIENTS_def INVALID_CLIENT_def)
qed

lemma demo_os_laws: "os_laws demo_posix set"
  using demo_fd_laws by (simp add: os_laws_def demo_posix_def)

lemma demo_device_round:
  "\<exists>s'. device_round demo_xe demo_tz demo_xs = Some (Go s') \<and> \<not> dm_update_needed (xd_modules s')
     \<and> flag_quit s' = 0 \<and> \<not> flag_reload s' \<and> \<not> flag_save_cfg s'"
proof -
  obtain rc d w where u: "libx52_update (logged stub) opened_bright (stub_opened, []) = (rc, d, w)"
    by (metis prod_cases3)
  with opened_bright_run have rc: "rc = LIBX52_SUCCESS" by simp
  show ?thesis
    using u rc by (simp add: device_round_def demo_xs_def demo_xe_def x52_dev_round_def demo_modules_def
        demo_connected x52d_dev_update_def from_run_def)
qed

lemma x52d_system_invariant_witness:
  "\<forall>B. \<exists>s'. x52d_run B demo_xe None [DeviceThread demo_tz, MainThread demo_tz [SIGTERM]] demo_xs = Some (Go s')
     \<and> displays (display_of (snd (xd_usb s'))) (dm_dev (xd_modules s')) 26"
proof
  fix B
  obtain s1 where s1: "device_round demo_xe demo_tz demo_xs = Some (Go s1)" "\<not> dm_update_needed (xd_modules s1)"
    "flag_quit s1 = 0" "\<not> flag_reload s1" "\<not> flag_save_cfg s1" using demo_device_round by blast
  have run: "x52d_run B demo_xe None [DeviceThread demo_tz, MainThread demo_tz [SIGTERM]] demo_xs
      = Some (Go (s1\<lparr>flag_quit := 15\<rparr>))"
    using s1 by (simp add: main_round_def termination_handler_def Let_def)
  have "os_laws (xe_posix demo_xe) set" "xe_usb demo_xe = logged stub"
    using demo_os_laws by (simp_all add: demo_xe_def)
  from x52d_system_invariant [OF this demo_xs_ok run] s1(2)
  have "displays (display_of (snd (xd_usb (s1\<lparr>flag_quit := 15\<rparr>)))) (dm_dev (xd_modules (s1\<lparr>flag_quit := 15\<rparr>))) 26"
    by simp
  with run show "\<exists>s'. x52d_run B demo_xe None [DeviceThread demo_tz, MainThread demo_tz [SIGTERM]] demo_xs
      = Some (Go s') \<and> displays (display_of (snd (xd_usb s'))) (dm_dev (xd_modules s')) 26" by blast
qed

text \<open>A libusb that starts, and with it a daemon that starts.\<close>

definition demo_boot :: "(stub_world \<times> vendor_cmd list, int list, u8 list list, mouse_key \<Rightarrow> bool) x52d_env" where
  "demo_boot = demo_xe\<lparr>xe_usb := (logged stub)\<lparr>usb_init := (\<lambda>w. (Inr 0, w))\<rparr>\<rparr>"

lemma demo_dev_init:
  "\<exists>x w. x52d_dev_init ((logged stub)\<lparr>usb_init := (\<lambda>w. (Inr 0, w))\<rparr>) True v =
     Go (\<lparr>dm_dev = x, dm_update_needed = False, dm_notes = []\<rparr>, w)"
proof -
  let ?U = "(logged stub)\<lparr>usb_init := (\<lambda>w. (Inr 0, w))\<rparr>"
  obtain rc x w where "connect_dev ?U (x52_calloc\<lparr>ctx := 0\<rparr>) (set_log_level ?U 0 2 v) = (rc, x, w)"
    by (metis prod_cases3)
  then show ?thesis by (simp add: x52d_dev_init_def libx52_init_def Let_def)
qed

lemma demo_sockets:
  "\<exists>fd w'. x52d_command_init demo_posix ''/run'' None cs w = (0, \<lparr>cs_client_fd = x52d_client_init (cs_client_fd cs),
     cs_sock_fd = fd, cs_sock_path = None\<rparr>, w')"
  "\<exists>ns' w'. x52d_notify_init demo_posix ''/run'' None ns w = Go (ns', w')"
  by (simp_all add: x52d_command_init_def x52d_notify_init_def listen_notify_def x52d_setup_command_sock_def
      x52d_setup_notify_sock_def setup_sockaddr_def x52d_command_sock_path_def x52d_notify_sock_path_def
      SUN_PATH_SIZE_def x52d_set_socket_nonblocking_def x52d_listen_socket_def demo_posix_def Let_def)

lemma demo_start:
  "\<exists>s1. main_start (x52d_ops (B\<lparr>mo_rundir := ''/run''\<rparr>) demo_boot demo_tz) main_opts_start [] demo_xs = Go (Inr s1)
     \<and> flag_quit s1 = 0 \<and> \<not> flag_reload s1 \<and> \<not> flag_save_cfg s1"
proof -
  obtain x w where d: "x52d_dev_init ((logged stub)\<lparr>usb_init := (\<lambda>w. (Inr 0, w))\<rparr>) True (xd_usb demo_xs) =
     Go (\<lparr>dm_dev = x, dm_update_needed = False, dm_notes = []\<rparr>, w)" using demo_dev_init by blast
  obtain fd w1 where c: "x52d_command_init demo_posix ''/run'' None (xd_command demo_xs) (xd_os demo_xs) =
     (0, \<lparr>cs_client_fd = x52d_client_init (cs_client_fd (xd_command demo_xs)), cs_sock_fd = fd, cs_sock_path = None\<rparr>, w1)"
    using demo_sockets(1) by blast
  obtain ns w2 where n: "x52d_notify_init demo_posix ''/run'' None (xd_notify demo_xs) w1 = Go (ns, w2)"
    using demo_sockets(2) by blast
  have io: "x52d_io_init hid_one True report_zero v =
      Go (\<lparr>io_ctx = io_calloc, io_report = report_zero, io_prev_report = report_zero\<rparr>, v)" for v
    by (simp add: x52d_io_init_def libx52io_init_def hid_one_def)
  have env: "xe_usb demo_boot = (logged stub)\<lparr>usb_init := (\<lambda>w. (Inr 0, w))\<rparr>" "xe_dev_alloc demo_boot" "xe_posix demo_boot = demo_posix"
    "xe_hid demo_boot = hid_one" "xe_io_alloc demo_boot" "xe_io_memory demo_boot = report_zero" "xe_sigmask demo_boot b" for b
    by (simp_all add: demo_boot_def demo_xe_def)
  have flags: "flag_quit demo_xs = 0" "\<not> flag_reload demo_xs" "\<not> flag_save_cfg demo_xs" by (simp_all add: demo_xs_def)
  show ?thesis
    by (simp add: main_start_def or_exit_def x52d_ops_def sigmask_op_def dev_init_op_def command_init_op_def
        notify_init_op_def io_init_op_def mouse_init_op_def apply_op_def with_modules_def main_opts_start_def
        env d c n io flags)
qed

lemma x52d_request_unheard_witness:
  "\<forall>B. \<exists>d s1 s'. main_start (x52d_ops (B\<lparr>mo_rundir := ''/run''\<rparr>) demo_boot demo_tz) main_opts_start [] demo_xs
       = Go (Inr s1)
     \<and> x52d_run (B\<lparr>mo_rundir := ''/run''\<rparr>) demo_boot None [MainThread demo_tz []] (store_daemon d s1) = Some (Go s')
     \<and> 1 \<in> xd_pending s' \<and> \<not> flag_reload s' \<and> ms_config s' = ms_config s1"
proof
  fix B :: "(stub_world \<times> vendor_cmd list, int list, u8 list list, mouse_key \<Rightarrow> bool) x52d_state main_ops"
  let ?B = "B\<lparr>mo_rundir := ''/run''\<rparr>" and ?es = "[MainThread demo_tz []]"
  obtain s1 where start: "main_start (x52d_ops ?B demo_boot demo_tz) main_opts_start [] demo_xs = Go (Inr s1)"
    and f: "flag_quit s1 = 0" "\<not> flag_reload s1" "\<not> flag_save_cfg s1" using demo_start by blast
  define d where "d = (daemon_of s1)\<lparr>d_signals := [1]\<rparr>"
  have "flag_quit (store_daemon d s1) = 0" "\<not> flag_reload (store_daemon d s1)" "\<not> flag_save_cfg (store_daemon d s1)"
    using f start_masked [OF start] by (simp_all add: store_daemon_def raise_one d_def)
  then have run: "x52d_run ?B demo_boot None ?es (store_daemon d s1) = Some (Go (store_daemon d s1))"
    by (simp add: main_round_def Let_def)
  have none: "x52d_run ?B demo_boot None [] s1 = Some (Go s1)" by simp
  obtain n buf where msg: "x52d_format_command (Some [''config'', fst (''reload'', 1 :: int)]) True X52D_BUFSZ = Inr (n, buf)"
    using x52d_format_command_wire [of "[''config'', ''reload'']" X52D_BUFSZ] by (simp add: X52D_BUFSZ_def)
  have "command_parser (cmd_env_of ?B demo_boot demo_tz) buf n (daemon_of s1) =
      Replied (wire [''OK'', ''config'', fst (''reload'', 1 :: int)], d)"
    using request_answer [OF _ msg, of ?B demo_boot demo_tz s1] by (simp add: d_def)
  from x52d_request_unheard [OF start none f(2,3) disjI1 [OF refl] msg this run]
  have "1 \<in> xd_pending (store_daemon d s1) \<and> \<not> flag_reload (store_daemon d s1)
      \<and> ms_config (store_daemon d s1) = ms_config s1" by simp
  with start run show "\<exists>d s1 s'. main_start (x52d_ops ?B demo_boot demo_tz) main_opts_start [] demo_xs = Go (Inr s1)
     \<and> x52d_run ?B demo_boot None ?es (store_daemon d s1) = Some (Go s')
     \<and> 1 \<in> xd_pending s' \<and> \<not> flag_reload s' \<and> ms_config s' = ms_config s1" by blast
qed

lemma demo_config_wf: "state_wf (ms_config demo_xs)"
  by (simp add: demo_xs_def state_wf_def config_example_wf)

text \<open>
  A hangup and a termination signal: with the file there, the loop leaves with the signal and the
  loaded configuration; without the file, it does not get that far.
\<close>

lemma x52d_main_leaves_witness:
  "\<forall>B. (\<exists>s' st. main_loop (x52d_ops B demo_xe demo_tz) (Some ''f'') ([[SIGHUP]] @ [SIGTERM] # []) demo_xs
         = Some (Inl (Go s'))
       \<and> x52d_config_load (mo_sysconfdir B) (xd_files demo_xs) (Some ''f'') (ms_config demo_xs) = Some (Go st)
       \<and> flag_quit s' = 15 \<and> ms_config s' = st)
     \<and> main_loop (x52d_ops B demo_xe demo_tz) (Some ''g'') ([[SIGHUP]] @ [SIGTERM] # []) demo_xs
         = Some (Inl (Exit 1))"
proof
  fix B :: "(stub_world \<times> vendor_cmd list, int list, u8 list list, mouse_key \<Rightarrow> bool) x52d_state main_ops"
  have q: "flag_quit demo_xs = 0" and r: "requests demo_xs = []" by (simp_all add: demo_xs_def requests_def)
  have b: "\<forall>b \<in> set [[SIGHUP]]. \<forall>x \<in> set b. \<not> terminates x" "\<exists>x \<in> set [SIGTERM]. terminates x" by simp_all
  note main = x52d_main_leaves [OF demo_config_wf q b, where B = B and tz = demo_tz and E = demo_xe and rest = "[]"]
  have o: "overrides (ms_config demo_xs) = []" and f: "xd_files demo_xs ''f'' \<noteq> None" "xd_files demo_xs ''g'' = None"
    by (simp_all add: demo_xs_def)
  obtain st where st: "x52d_config_load (mo_sysconfdir B) (xd_files demo_xs) (Some ''f'') (ms_config demo_xs) = Some (Go st)"
    using load_result [OF demo_config_wf refl, where cfg_file = "Some ''f''" and sysconfdir = "mo_sysconfdir B" and files = "xd_files demo_xs"] f(1) o by fastforce
  have "serve_batches (x52d_reload B demo_tz (Some ''f'')) (x52d_save B demo_xe (Some ''f'')) (requests demo_xs)
      ([[SIGHUP]] @ [[SIGTERM]]) (x52d_view demo_xs) = Some (Go (st, xd_files demo_xs,
        x52d_config_apply (daemon_callback demo_tz) st (xd_modules demo_xs)))"
    by (simp add: r serve_batch_def x52d_reload_def x52d_view_def st)
  with main [where conf = "Some ''f''"] have go: "\<exists>s'. main_loop (x52d_ops B demo_xe demo_tz) (Some ''f'')
      ([[SIGHUP]] @ [SIGTERM] # []) demo_xs = Some (Inl (Go s')) \<and> flag_quit s' = 15 \<and> ms_config s' = st"
    by (auto simp del: main_loop.simps)
  have "x52d_config_load (mo_sysconfdir B) (xd_files demo_xs) (Some ''g'') (ms_config demo_xs) = Some (Exit 1)"
    using load_result [OF demo_config_wf refl, where cfg_file = "Some ''g''" and sysconfdir = "mo_sysconfdir B" and files = "xd_files demo_xs"] f(2) by auto
  then have "serve_batches (x52d_reload B demo_tz (Some ''g'')) (x52d_save B demo_xe (Some ''g'')) (requests demo_xs)
      ([[SIGHUP]] @ [[SIGTERM]]) (x52d_view demo_xs) = Some (Exit 1)"
    by (simp add: r serve_batch_def x52d_reload_def x52d_view_def)
  with main [where conf = "Some ''g''"] have "main_loop (x52d_ops B demo_xe demo_tz) (Some ''g'')
      ([[SIGHUP]] @ [SIGTERM] # []) demo_xs = Some (Inl (Exit 1))" by (simp del: main_loop.simps)
  with go st show "(\<exists>s' st. main_loop (x52d_ops B demo_xe demo_tz) (Some ''f'') ([[SIGHUP]] @ [SIGTERM] # []) demo_xs
         = Some (Inl (Go s'))
       \<and> x52d_config_load (mo_sysconfdir B) (xd_files demo_xs) (Some ''f'') (ms_config demo_xs) = Some (Go st)
       \<and> flag_quit s' = 15 \<and> ms_config s' = st)
     \<and> main_loop (x52d_ops B demo_xe demo_tz) (Some ''g'') ([[SIGHUP]] @ [SIGTERM] # []) demo_xs
         = Some (Inl (Exit 1))" by blast
qed

lemma load_present:
  assumes "state_wf st" and "overrides st = []" and "files f \<noteq> None"
  obtains st' where "x52d_config_load dir files (Some f) st = Some (Go st')"
  using load_result [OF assms(1) refl, where cfg_file = "Some f" and sysconfdir = dir and files = files] assms(2,3) by fastforce

lemma x52d_main_lost_signal_witness:
  "\<forall>B. \<exists>t u. main_step (x52d_ops B demo_xe demo_tz) (Some ''f'') (AtReload, demo_xs\<lparr>flag_reload := True\<rparr>) (Reloaded, t)
     \<and> (main_step (x52d_ops B demo_xe demo_tz) (Some ''f''))\<^sup>*\<^sup>* (Reloaded, handle_signal SIGHUP t) (Pausing, u)
     \<and> \<not> flag_reload u"
proof
  fix B
  let ?s = "demo_xs\<lparr>flag_reload := True\<rparr>" and ?M = "x52d_ops B demo_xe demo_tz"
  have f: "flag_quit ?s = 0" "\<not> flag_save_cfg ?s" "flag_reload ?s" by (simp_all add: demo_xs_def)
  have o: "overrides (ms_config demo_xs) = []" and p: "xd_files demo_xs ''f'' \<noteq> None" by (simp_all add: demo_xs_def)
  obtain st where "x52d_config_load (mo_sysconfdir B) (xd_files demo_xs) (Some ''f'') (ms_config demo_xs) = Some (Go st)"
    by (rule load_present [where files = "xd_files demo_xs", OF demo_config_wf o p])
  then have "main_load ?M (Some ''f'') ?s = Some (Go (?s\<lparr>ms_config := st\<rparr>))" by (simp add: main_load_def)
  from x52d_main_lost_signal [OF f this]
  show "\<exists>t u. main_step ?M (Some ''f'') (AtReload, ?s) (Reloaded, t)
     \<and> (main_step ?M (Some ''f''))\<^sup>*\<^sup>* (Reloaded, handle_signal SIGHUP t) (Pausing, u) \<and> \<not> flag_reload u"
    by blast
qed

text \<open>A POSIX without sockets, whose world is the list of the descriptors closed.\<close>

definition demo_fail :: "(stub_world \<times> vendor_cmd list, int list, u8 list list, mouse_key \<Rightarrow> bool) x52d_env" where
  "demo_fail = demo_boot\<lparr>xe_posix := demo_posix\<lparr>sys_socket := (\<lambda>w. (Inl 24, w)),
     sys_close := (\<lambda>fd w. (Inr (), w @ [fd]))\<rparr>\<rparr>"

definition demo_zero ::
  "(stub_world \<times> vendor_cmd list, int list, u8 list list, mouse_key \<Rightarrow> bool) x52d_state" where
  "demo_zero = demo_xs\<lparr>xd_os := [], xd_notify := (xd_notify demo_xs)\<lparr>ns_sock := 0\<rparr>\<rparr>"

lemma x52d_failed_start_witness:
  "\<forall>B. \<exists>s1 t. main_start (x52d_ops (B\<lparr>mo_rundir := ''/run''\<rparr>) demo_fail demo_tz) main_opts_start [] demo_zero
       = Go (Inl s1)
     \<and> main_cleanup (x52d_ops (B\<lparr>mo_rundir := ''/run''\<rparr>) demo_fail demo_tz) None s1 = mo_unlink B None t
     \<and> xd_os t = [0, 0, 0]"
proof
  fix B :: "(stub_world \<times> vendor_cmd list, int list, u8 list list, mouse_key \<Rightarrow> bool) x52d_state main_ops"
  let ?B = "B\<lparr>mo_rundir := ''/run''\<rparr>"
  obtain x w where "x52d_dev_init ((logged stub)\<lparr>usb_init := (\<lambda>w. (Inr 0, w))\<rparr>) True (xd_usb demo_zero) =
      Go (\<lparr>dm_dev = x, dm_update_needed = False, dm_notes = []\<rparr>, w)" using demo_dev_init by blast
  then have d: "x52d_dev_init (xe_usb demo_fail) True (xd_usb demo_zero) =
      Go (\<lparr>dm_dev = x, dm_update_needed = False, dm_notes = []\<rparr>, w)" by (simp add: demo_fail_def demo_boot_def)
  have c: "x52d_command_init (xe_posix demo_fail) ''/run'' None cs [] =
      (-1, \<lparr>cs_client_fd = x52d_client_init (cs_client_fd cs), cs_sock_fd = -1, cs_sock_path = None\<rparr>, [])" for cs
    by (simp add: x52d_command_init_def demo_fail_def x52d_setup_command_sock_def setup_sockaddr_def
        x52d_command_sock_path_def SUN_PATH_SIZE_def)
  have env: "xe_dev_alloc demo_fail" "xd_os demo_zero = []" "xe_sigmask demo_fail True"
    by (simp_all add: demo_fail_def demo_boot_def demo_xe_def demo_zero_def)
  have "\<exists>s1. main_start (x52d_ops ?B demo_fail demo_tz) main_opts_start [] demo_zero = Go (Inl s1) \<and> xd_os s1 = []"
    by (simp add: main_start_def or_exit_def x52d_ops_def sigmask_op_def dev_init_op_def command_init_op_def
        d c env main_opts_start_def)
  then obtain s1 where s1: "main_start (x52d_ops ?B demo_fail demo_tz) main_opts_start [] demo_zero = Go (Inl s1)"
    "xd_os s1 = []" by blast
  have "ns_pipe (xd_notify demo_zero) = (0, 0)" "ns_sock (xd_notify demo_zero) = 0"
    by (simp_all add: demo_zero_def demo_xs_def)
  from x52d_failed_start [OF env(3) s1(1) this, of None] obtain t where
    "main_cleanup (x52d_ops ?B demo_fail demo_tz) None s1 = mo_unlink B None t" "xd_os t = [0, 0, 0]"
    using s1(2) by (auto simp: demo_fail_def)
  with s1(1) show "\<exists>s1 t. main_start (x52d_ops ?B demo_fail demo_tz) main_opts_start [] demo_zero = Go (Inl s1)
     \<and> main_cleanup (x52d_ops ?B demo_fail demo_tz) None s1 = mo_unlink B None t \<and> xd_os t = [0, 0, 0]" by blast
qed

end
