(* ===== verification/X52_Cli.thy ===== *)
theory X52_Cli
  imports C_Numbers X52d_Device
begin

text \<open>
  The command line tool (\<open>cli/x52_cli.c\<close>): the maps of argument words, the handlers, the table
  of commands, and \<open>main\<close> over a parameter libusb, with the lines it prints. The handlers are
  sequences of setter calls of libx52, which is what the last section rests on.
\<close>

section \<open>Arguments\<close>

text \<open>A map is a list of keys with their values, without its terminator.\<close>

type_synonym string_map = "(string \<times> int) list"

text \<open>The pointers in \<open>args\<close>: null, the value of a map, or an argument of the command line.\<close>

datatype cli_arg = CNull | CInt int | CStr string

abbreviation (input) MAX_ARGS :: nat where "MAX_ARGS \<equiv> 4"

text \<open>
  Each handler reads a value where its row of the table has a map and a string where it has
  none; a null pointer converts to 0.
\<close>

fun PARSE_ARGUMENT :: "cli_arg \<Rightarrow> int" where
  "PARSE_ARGUMENT (CInt n) = n"
| "PARSE_ARGUMENT _ = 0"

fun arg_string :: "cli_arg \<Rightarrow> string" where
  "arg_string (CStr s) = s"
| "arg_string _ = []"

fun map_lookup :: "string_map \<Rightarrow> string \<Rightarrow> int option" where
  "map_lookup [] str = None"
| "map_lookup ((key, v) # m) str = (if strcaseeq str key then Some v else map_lookup m str)"

definition led_state_map :: string_map where
  "led_state_map = [(''OFF'', led_state_code LIBX52_LED_STATE_OFF), (''ON'', led_state_code LIBX52_LED_STATE_ON),
     (''RED'', led_state_code LIBX52_LED_STATE_RED), (''AMBER'', led_state_code LIBX52_LED_STATE_AMBER),
     (''GREEN'', led_state_code LIBX52_LED_STATE_GREEN)]"

definition led_id_map :: string_map where
  "led_id_map = [(''FIRE'', led_id_code LIBX52_LED_FIRE), (''A'', led_id_code LIBX52_LED_A),
     (''B'', led_id_code LIBX52_LED_B), (''D'', led_id_code LIBX52_LED_D), (''E'', led_id_code LIBX52_LED_E),
     (''T1'', led_id_code LIBX52_LED_T1), (''T2'', led_id_code LIBX52_LED_T2), (''T3'', led_id_code LIBX52_LED_T3),
     (''POV'', led_id_code LIBX52_LED_POV), (''CLUTCH'', led_id_code LIBX52_LED_CLUTCH),
     (''THROTTLE'', led_id_code LIBX52_LED_THROTTLE)]"

definition date_format_map :: string_map where
  "date_format_map = [(''DDMMYY'', date_format_code LIBX52_DATE_FORMAT_DDMMYY),
     (''MMDDYY'', date_format_code LIBX52_DATE_FORMAT_MMDDYY),
     (''YYMMDD'', date_format_code LIBX52_DATE_FORMAT_YYMMDD)]"

definition brightness_targets_map :: string_map where
  "brightness_targets_map = [(''mfd'', 1), (''led'', 0)]"

definition on_off_map :: string_map where
  "on_off_map = [(''off'', 0), (''on'', 1)]"

definition clock0_timezone_map :: string_map where
  "clock0_timezone_map = [(''gmt'', 0), (''local'', 1)]"

definition clocks_map :: string_map where
  "clocks_map = [(''1'', clock_id_code LIBX52_CLOCK_1), (''2'', clock_id_code LIBX52_CLOCK_2),
     (''3'', clock_id_code LIBX52_CLOCK_3)]"

definition time_format_map :: string_map where
  "time_format_map = [(''12HR'', clock_format_code LIBX52_CLOCK_FORMAT_12HR),
     (''24HR'', clock_format_code LIBX52_CLOCK_FORMAT_24HR)]"

section \<open>Handlers\<close>

text \<open>
  What the program gets from its surroundings: the conversions of the C library, \<open>time\<close>, whether
  the allocation in \<open>libx52_init\<close> succeeds, and the translation of messages.
\<close>

record cli_env = clock_env +
  cli_time :: int
  cli_calloc :: bool
  cli_gettext :: "string \<Rightarrow> string"

type_synonym 'w cli_handler =
  "'w libusb \<Rightarrow> cli_env \<Rightarrow> cli_arg list \<Rightarrow> libx52_device \<Rightarrow> 'w \<Rightarrow> libx52_error_code \<times> libx52_device \<times> 'w"

text \<open>A setter as a part of a handler, and \<open>if (!rc)\<close>.\<close>

definition cli_set ::
  "(libx52_device option \<Rightarrow> libx52_error_code \<times> libx52_device option) \<Rightarrow> libx52_device \<Rightarrow> 'w \<Rightarrow>
   libx52_error_code \<times> libx52_device \<times> 'w" where
  "cli_set f x52 w = (case f (Some x52) of (rc, x) \<Rightarrow> (rc, the x, w))"

definition if_ok ::
  "libx52_error_code \<times> libx52_device \<times> 'w \<Rightarrow>
   (libx52_device \<Rightarrow> 'w \<Rightarrow> libx52_error_code \<times> libx52_device \<times> 'w) \<Rightarrow>
   libx52_error_code \<times> libx52_device \<times> 'w" where
  "if_ok r f = (case r of (rc, x52, w) \<Rightarrow> if rc = LIBX52_SUCCESS then f x52 w else (rc, x52, w))"

text \<open>The bytes at a string, its terminator included.\<close>

definition cstr_bytes :: "string \<Rightarrow> nat \<Rightarrow> u8" where
  "cstr_bytes s i = (if i < length s then of_char (s ! i) else 0)"

definition update_led :: "'w cli_handler" where
  "update_led U env args = cli_set (\<lambda>x52. libx52_set_led_state x52
     (PARSE_ARGUMENT (args ! 0)) (PARSE_ARGUMENT (args ! 1)))"

definition update_bri :: "'w cli_handler" where
  "update_bri U env args =
     (let (brightness, _, _) = strtoul 0 (arg_string (args ! 1))
      in cli_set (\<lambda>x52. libx52_set_brightness x52
           (word_of_int (PARSE_ARGUMENT (args ! 0))) (word_of_int brightness)))"

definition update_mfd :: "'w cli_handler" where
  "update_mfd U env args =
     (let (n, _, _) = strtoul 0 (arg_string (args ! 0));
          ln = word_of_int n :: u8;
          len = of_nat (length (arg_string (args ! 1))) :: u8
      in cli_set (\<lambda>x52. libx52_set_text x52 ln (Some (cstr_bytes (arg_string (args ! 1)))) len))"

definition update_blink :: "'w cli_handler" where
  "update_blink U env args = cli_set (\<lambda>x52. libx52_set_blink x52 (word_of_int (PARSE_ARGUMENT (args ! 0))))"

definition update_shift :: "'w cli_handler" where
  "update_shift U env args = cli_set (\<lambda>x52. libx52_set_shift x52 (word_of_int (PARSE_ARGUMENT (args ! 0))))"

definition update_clock :: "'w cli_handler" where
  "update_clock U env args x52 w =
     if_ok (if_ok (cli_set (\<lambda>x52. libx52_set_clock (clock_env.truncate env) x52 (cli_time env)
         (PARSE_ARGUMENT (args ! 0))) x52 w)
       (cli_set (\<lambda>x52. libx52_set_clock_format x52 (clock_id_code LIBX52_CLOCK_1) (PARSE_ARGUMENT (args ! 1)))))
       (cli_set (\<lambda>x52. libx52_set_date_format x52 (PARSE_ARGUMENT (args ! 2))))"

definition update_offset :: "'w cli_handler" where
  "update_offset U env args x52 w =
     (let (v, _, _) = strtol 0 (arg_string (args ! 1));
          offset = c_int v;
          clock = PARSE_ARGUMENT (args ! 0)
      in if_ok (cli_set (\<lambda>x52. libx52_set_clock_timezone x52 clock offset) x52 w)
           (cli_set (\<lambda>x52. libx52_set_clock_format x52 clock (PARSE_ARGUMENT (args ! 2)))))"

text \<open>\<open>strtol\<close> to \<open>int\<close>, and that to the \<open>uint8_t\<close> of the setter.\<close>

definition arg_byte :: "cli_arg \<Rightarrow> u8" where
  "arg_byte a = (let (v, _, _) = strtol 0 (arg_string a) in word_of_int (c_int v))"

definition update_time :: "'w cli_handler" where
  "update_time U env args x52 w =
     if_ok (cli_set (\<lambda>x52. libx52_set_time x52 (arg_byte (args ! 0)) (arg_byte (args ! 1))) x52 w)
       (cli_set (\<lambda>x52. libx52_set_clock_format x52 (clock_id_code LIBX52_CLOCK_1) (PARSE_ARGUMENT (args ! 2))))"

definition update_date :: "'w cli_handler" where
  "update_date U env args x52 w =
     if_ok (cli_set (\<lambda>x52. libx52_set_date x52 (arg_byte (args ! 0)) (arg_byte (args ! 1))
         (arg_byte (args ! 2))) x52 w)
       (cli_set (\<lambda>x52. libx52_set_date_format x52 (PARSE_ARGUMENT (args ! 3))))"

definition update_raw :: "'w cli_handler" where
  "update_raw U env args x52 w =
     (let (wIndex, _, _) = strtoul 0 (arg_string (args ! 0));
          (wValue, _, _) = strtoul 0 (arg_string (args ! 1))
      in libx52_vendor_command U (word_of_int wIndex) (word_of_int wValue) x52 w)"

section \<open>The table of commands\<close>

record 'w command_handler =
  ch_handler :: "'w cli_handler"
  num_args :: nat
  ch_maps :: "string_map option list"
  ch_help :: string

text \<open>\<open>COMMANDS\<close>, in the order of the \<open>X52_CTL_CMD\<close> constants.\<close>

definition handlers :: "'w command_handler list" where
  "handlers =
    [\<lparr>ch_handler = update_led, num_args = 2, ch_maps = [Some led_id_map, Some led_state_map],
      ch_help = ''led <led-id> <state>''\<rparr>,
     \<lparr>ch_handler = update_bri, num_args = 2, ch_maps = [Some brightness_targets_map, None],
      ch_help = ''bri {mfd | led} <brightness level>''\<rparr>,
     \<lparr>ch_handler = update_mfd, num_args = 2, ch_maps = [None, None],
      ch_help = ''mfd <line> <text in quotes>''\<rparr>,
     \<lparr>ch_handler = update_blink, num_args = 1, ch_maps = [Some on_off_map], ch_help = ''blink { on | off }''\<rparr>,
     \<lparr>ch_handler = update_shift, num_args = 1, ch_maps = [Some on_off_map], ch_help = ''shift { on | off }''\<rparr>,
     \<lparr>ch_handler = update_clock, num_args = 3,
      ch_maps = [Some clock0_timezone_map, Some time_format_map, Some date_format_map],
      ch_help = ''clock {local | gmt} {12hr | 24hr} {ddmmyy | mmddyy | yymmdd}''\<rparr>,
     \<lparr>ch_handler = update_offset, num_args = 3, ch_maps = [Some clocks_map, None, Some time_format_map],
      ch_help = ''offset {2 | 3} <offset from clock 1 in minutes> {12hr | 24hr}''\<rparr>,
     \<lparr>ch_handler = update_time, num_args = 3, ch_maps = [None, None, Some time_format_map],
      ch_help = ''time <hour> <minute> {12hr | 24hr}''\<rparr>,
     \<lparr>ch_handler = update_date, num_args = 4, ch_maps = [None, None, None, Some date_format_map],
      ch_help = ''date <dd> <mm> <yy> {ddmmyy | mmddyy | yymmdd}''\<rparr>,
     \<lparr>ch_handler = update_raw, num_args = 2, ch_maps = [None, None], ch_help = ''raw <wIndex> <wValue>''\<rparr>]"

definition command_map :: string_map where
  "command_map = [(''led'', 0), (''bri'', 1), (''mfd'', 2), (''blink'', 3), (''shift'', 4), (''clock'', 5),
     (''offset'', 6), (''time'', 7), (''date'', 8), (''raw'', 9)]"

section \<open>The main program\<close>

datatype cli_line = Stdout string | Stderr string

definition do_help :: "'w command_handler option \<Rightarrow> cli_line list" where
  "do_help cmd = (case cmd of
     Some c \<Rightarrow> [Stderr (''Command usage: '' @ ch_help c @ ''\<newline>'')]
   | None \<Rightarrow> [Stdout ''\<newline>Commands:\<newline>'']
       @ map (\<lambda>h. Stdout (CHR 0x09 # ch_help h @ ''\<newline>'')) (handlers :: 'w command_handler list)
       @ [Stdout ''\<newline>WARNING: raw command may damage your device\<newline>\<newline>''])"

text \<open>The loop over the arguments of the command: the word that no map has, or the values.\<close>

fun parse_args :: "string_map option list \<Rightarrow> string list \<Rightarrow> string + cli_arg list" where
  "parse_args (m # ms) (arg # argv) =
     (case (case m of Some tbl \<Rightarrow> map_option CInt (map_lookup tbl arg) | None \<Rightarrow> Some (CStr arg)) of
        None \<Rightarrow> Inl arg
      | Some v \<Rightarrow> (case parse_args ms argv of Inl e \<Rightarrow> Inl e | Inr vs \<Rightarrow> Inr (v # vs)))"
| "parse_args _ _ = Inr []"

text \<open>Up to \<open>libx52_init\<close>: the output before leaving with status 1, or the command and \<open>args\<close>.\<close>

definition cli_command :: "string list \<Rightarrow> cli_line list + ('w command_handler \<times> cli_arg list)" where
  "cli_command argv =
     (if length argv < 2 then
        Inl (Stderr (''Usage: '' @ (if argv = [] then ''(null)'' else hd argv) @ '' <command> [arguments]\<newline>'')
          # do_help (None :: 'w command_handler option))
      else case map_lookup command_map (argv ! 1) of
        None \<Rightarrow> Inl (Stderr (''Unsupported command '' @ argv ! 1 @ ''\<newline>'')
          # do_help (None :: 'w command_handler option))
      | Some n \<Rightarrow>
          (let cmd = handlers ! nat n
           in if num_args cmd > length argv - 2 then
                Inl (Stderr (''Insufficient arguments for command '' @ argv ! 1 @ ''\<newline>'') # do_help (Some cmd))
              else case parse_args (take (num_args cmd) (ch_maps cmd)) (drop 2 argv) of
                Inl arg \<Rightarrow> Inl [Stderr (''Invalid argument '' @ arg @ ''\<newline>'')]
              | Inr args \<Rightarrow> Inr (cmd, args @ replicate (MAX_ARGS - length args) CNull)))"

text \<open>The exit status, the output and the world; \<open>None\<close> is the crash of \<open>libx52_exit\<close> on null.\<close>

definition run_main ::
  "'w libusb \<Rightarrow> cli_env \<Rightarrow> string list \<Rightarrow> 'w \<Rightarrow> (int \<times> cli_line list \<times> 'w) option" where
  "run_main U env argv w =
     (let strerror = (\<lambda>rc. libx52_strerror (cli_gettext env) (error_code rc))
      in case cli_command argv of
        Inl out \<Rightarrow> Some (1, out, w)
      | Inr (cmd, args) \<Rightarrow>
         (case libx52_init U True (cli_calloc env) w of (rc0, x0, w0) \<Rightarrow>
            if rc0 \<noteq> LIBX52_SUCCESS
            then Some (1, [Stderr (''Error initializing X52 library: '' @ strerror rc0 @ ''\<newline>'')], w0)
            else case libx52_connect U x0 w0 of (rc1, x1, w1) \<Rightarrow>
              if rc1 \<noteq> LIBX52_SUCCESS
              then Some (1, [Stderr (''Error connecting to joystick: '' @ strerror rc1 @ ''\<newline>'')], w1)
              else case ch_handler cmd U env args (the x1) w1 of (rc2, x2, w2) \<Rightarrow>
                let out = (if rc2 \<noteq> LIBX52_SUCCESS then [Stderr (''Error: '' @ strerror rc2 @ ''\<newline>'')] else []);
                    rc = (if rc2 \<noteq> LIBX52_SUCCESS then 1 else 0);
                    (_, x3, w3) = libx52_update U x2 w2
                in map_option (\<lambda>w4. (rc, out, w4)) (libx52_exit U (Some x3) w3)))"

end
