(* ===== verification/Libx52_Session.thy ===== *)
theory Libx52_Session
  imports X52d_Device
begin

text \<open>
  What the programs that use libx52 for one session share: running setter calls in order, a
  fresh connected device, an update that the joystick accepts, and the end of the session.
\<close>

section \<open>Running calls\<close>

text \<open>Calls in order, until the first error.\<close>

fun run_calls :: "x52_call list \<Rightarrow> libx52_device \<Rightarrow> libx52_error_code \<times> libx52_device" where
  "run_calls [] d = (LIBX52_SUCCESS, d)"
| "run_calls (c # cs) d =
     (let (rc, d') = call_dev c d in if rc = LIBX52_SUCCESS then run_calls cs d' else (rc, d'))"

definition date_format_ok :: "x52_call \<Rightarrow> bool" where
  "date_format_ok c \<longleftrightarrow> (case c of SetDateFormat f \<Rightarrow> f \<in> range date_format_code | _ \<Rightarrow> True)"

lemma clock_update_date_format:
  "libx52_device.date_format (snd (clock_update_date t d)) = libx52_device.date_format d"
  "libx52_device.date_format (snd (clock_update_time t d)) = libx52_device.date_format d"
  "libx52_device.date_format (snd (clock_update_zone tz d)) = libx52_device.date_format d"
  by (rule clock_update_date_cases [of t d], simp_all add: set_date_dev_def mark_def)
    (rule clock_update_time_cases [of t d], simp_all add: set_time_dev_def mark_def,
     rule clock_update_zone_cases [of tz d], simp_all add: mark_def)

lemma call_date_format:
  assumes "date_format_ok c" and "libx52_device.date_format d \<in> range date_format_code"
  shows "libx52_device.date_format (snd (call_dev c d)) \<in> range date_format_code"
proof -
  have "libx52_device.date_format (snd (call_dev c d)) = libx52_device.date_format d
      \<or> (\<exists>f. c = SetDateFormat f \<and> libx52_device.date_format (snd (call_dev c d)) = f)"
  proof (cases c)
    case (SetLedState led state)
    then show ?thesis by (simp) (rule set_led_state_cases [of led state d], simp_all)
  next
    case (SetClock env time lcl)
    then show ?thesis
      by (auto simp: set_clock_dev_def split_beta Let_def clock_update_date_format split: option.split)
  next
    case (SetClockTimezone k off)
    then show ?thesis by (simp) (rule set_clock_timezone_cases [of k off d], simp_all add: mark_def)
  next
    case (SetClockFormat k f)
    then show ?thesis by (simp) (rule set_clock_format_cases [of k f d], simp_all add: mark_def)
  qed (simp_all add: set_text_dev_def set_brightness_dev_def set_shift_dev_def set_blink_dev_def set_time_dev_def
      set_date_dev_def set_date_format_dev_def mark_def Let_def)
  then show ?thesis
  proof (elim disjE exE conjE)
    fix f assume c: "c = SetDateFormat f" and f: "libx52_device.date_format (snd (call_dev c d)) = f"
    from assms(1) c have "f \<in> range date_format_code" by (simp add: date_format_ok_def)
    with f show ?thesis by (simp only:)
  qed (use assms(2) in simp)
qed

lemma run_calls_keeps:
  assumes "run_calls cs d = (rc, d')"
  shows "hdl d' = hdl d"
    and "\<forall>c \<in> set cs. date_format_ok c \<Longrightarrow> libx52_device.date_format d \<in> range date_format_code \<Longrightarrow>
      libx52_device.date_format d' \<in> range date_format_code"
proof -
  have "hdl (snd (run_calls cs d)) = hdl d" for cs d
    using call.keeps_conn by (induction cs arbitrary: d) (auto simp: split_beta same_conn_def)
  then show "hdl d' = hdl d" using assms by (metis snd_conv)
  have "\<forall>c \<in> set cs. date_format_ok c \<Longrightarrow> libx52_device.date_format d \<in> range date_format_code \<Longrightarrow>
      libx52_device.date_format (snd (run_calls cs d)) \<in> range date_format_code" for cs d
    by (induction cs arbitrary: d) (auto simp: split_beta call_date_format simp del: call_dev.simps)
  then show "\<forall>c \<in> set cs. date_format_ok c \<Longrightarrow> libx52_device.date_format d \<in> range date_format_code \<Longrightarrow>
      libx52_device.date_format d' \<in> range date_format_code" using assms by (metis snd_conv)
qed

section \<open>From init to exit\<close>

lemma accepts_logged: "accepts U \<Longrightarrow> accepts (logged U)"
  by (auto simp: accepts_def logged_def Let_def split: prod.split) (metis fst_conv)

lemma init_settings:
  assumes "libx52_init (logged U) True alloc w = (rc, Some d, w')"
  shows "\<exists>c. same_settings (x52_calloc\<lparr>ctx := c\<rparr>) d \<and> snd w' = snd w"
proof -
  obtain r w1 where i: "usb_init (logged U) w = (r, w1)" by (rule prod.exhaust)
  then have w1: "snd w1 = snd w" by (auto simp: logged_def lift_w_def split: prod.splits)
  have lg: "snd (set_log_level (logged U) c n w1) = snd w1" for c n by (simp add: logged_def)
  obtain c where r: "r = Inr c" using assms i by (cases r) (auto simp: libx52_init_def split: if_splits)
  obtain rc2 d2 w2 where k: "connect_dev (logged U) (x52_calloc\<lparr>ctx := c\<rparr>)
      (set_log_level (logged U) c 2 w1) = (rc2, d2, w2)" by (metis prod_cases3)
  have "d = d2" "w' = w2" using assms i r k by (auto simp: libx52_init_def split: if_splits)
  with connect_settings [OF k] lg w1 show ?thesis by auto
qed

text \<open>After connecting, nothing is marked and all settings are those of \<open>calloc\<close>.\<close>

lemma connected_fresh:
  assumes "libx52_init (logged U) True alloc w = (rc0, Some d0, w1)"
    and "libx52_connect (logged U) (Some d0) w1 = (rc1, Some d, w2)"
  shows "marked d = []" and "libx52_device.date_format d \<in> range date_format_code" and "snd w2 = snd w"
proof -
  obtain c where s: "same_settings (x52_calloc\<lparr>ctx := c\<rparr>) d0" "snd w1 = snd w"
    using init_settings [OF assms(1)] by blast
  obtain r x w3 where k: "connect_dev (logged U) d0 w1 = (r, x, w3)" by (metis prod_cases3)
  with assms(2) have "x = d" "w3 = w2" by (auto simp: libx52_connect_def)
  with connect_settings [OF k] s have d: "same_settings (x52_calloc\<lparr>ctx := c\<rparr>) d" and "snd w2 = snd w"
    by (auto intro: same_settings_trans)
  then show "snd w2 = snd w" by simp
  show "marked d = []" unfolding same_settings_marked [OF d] by (simp add: marked_def marked_in_def x52_calloc_def)
  have "libx52_device.date_format d = date_format_code LIBX52_DATE_FORMAT_DDMMYY"
    using d by (auto simp: same_settings_def x52_calloc_def)
  then show "libx52_device.date_format d \<in> range date_format_code" by (rule range_eqI)
qed

lemma exit_log: "libx52_exit (logged U) (Some d) w = Some w' \<Longrightarrow> snd w' = snd w"
  using disconnect_dev_log [of U d w]
  by (auto simp: libx52_exit_def libx52_disconnect_def logged_def split: prod.splits)

lemma update_accepted:
  assumes "accepts U" and "hdl d = Some h" and "libx52_device.date_format d \<in> range date_format_code"
    and "libx52_update (logged U) d w = (rc, d', w')"
  shows "rc = LIBX52_SUCCESS \<and> d' = d\<lparr>update_mask := 0\<rparr>
    \<and> snd w' = snd w @ concat (map (cmds d) (marked d)) \<and> (\<forall>b \<in> set (marked d). packets d b \<noteq> None)"
proof -
  have "date_format_of (libx52_device.date_format d) \<noteq> None"
    using assms(3) by (simp add: date_format.enum_of_None)
  then have "date_values (d\<lparr>update_mask := 0\<rparr>) \<noteq> None"
    by (auto simp: date_values_def split: option.splits libx52_date_format.splits)
  moreover have "set [0..<32] \<subseteq> {..<32::nat}" by auto
  ultimately have "fst (update_loop (logged U) [0..<32] (update_mask d) LIBX52_SUCCESS (d\<lparr>update_mask := 0\<rparr>) w)
      = LIBX52_SUCCESS"
    using accepts_update_loop [OF accepts_logged [OF assms(1)], of "d\<lparr>update_mask := 0\<rparr>" h] assms(2) by simp
  with assms(2,4) have "rc = LIBX52_SUCCESS" by (auto simp: libx52_update_def)
  with update_cases [OF assms(2,4)] show ?thesis by auto
qed

lemma exit_some: "\<exists>w'. libx52_exit U (Some d) w = Some w'"
  by (auto simp: libx52_exit_def libx52_disconnect_def split: prod.split)

text \<open>A libusb with a Pro that accepts everything.\<close>

definition demo_usb :: "unit libusb" where
  "demo_usb = \<lparr>control_transfer = (\<lambda>h rt rq v ix dat len t w. (LIBUSB_SUCCESS, w)), usb_close = (\<lambda>h w. w),
     get_device_list = (\<lambda>c w. (Inr [0], w)), free_device_list = (\<lambda>l w. w),
     get_device_descriptor = (\<lambda>dv w. (Inr (0x06a3, 0x0762), w)), usb_open = (\<lambda>dv w. (Inr 0, w)),
     has_hotplug = (\<lambda>w. True), hotplug_register = (\<lambda>c v p w. (LIBUSB_SUCCESS, 1, w)),
     kernel_driver_active = (\<lambda>h i w. (1, w)), handle_events = (\<lambda>c w. ([], w)), usb_init = (\<lambda>w. (Inr 0, w)),
     usb_exit = (\<lambda>c w. w), set_log_level = (\<lambda>c n w. w)\<rparr>"

definition demo_init :: "libx52_error_code \<times> libx52_device option \<times> unit \<times> vendor_cmd list" where
  "demo_init = libx52_init (logged demo_usb) True True ((), [])"

lemma accepts_demo: "accepts demo_usb"
  by (simp add: accepts_def demo_usb_def)

end
