(* ===== verification/X52_Cli_Laws.thy ===== *)
theory X52_Cli_Laws
  imports X52_Cli Libx52_Session
begin

text \<open>
  What the command line tool does: which command lines it accepts, what the joystick receives
  for an accepted one, and what becomes of a text argument.
\<close>

section \<open>The command lines\<close>

text \<open>
  The documented commands (the page \<open>x52cli\<close> and the help of \<open>do_help\<close>) with the words each
  argument allows, \<open>None\<close> for a number or a text; further arguments are ignored. Numbers out of
  range, and states that an LED does not have, are not the business of the grammar: libx52
  refuses them.
\<close>

type_synonym grammar = "(string \<times> string list option list) list"

definition cli_grammar :: grammar where
  "cli_grammar =
    [(''led'', [Some [''fire'', ''a'', ''b'', ''d'', ''e'', ''t1'', ''t2'', ''t3'', ''pov'', ''clutch'', ''throttle''],
       Some [''off'', ''on'', ''red'', ''amber'', ''green'']]),
     (''bri'', [Some [''mfd'', ''led''], None]),
     (''mfd'', [None, None]),
     (''blink'', [Some [''off'', ''on'']]),
     (''shift'', [Some [''off'', ''on'']]),
     (''clock'', [Some [''gmt'', ''local''], Some [''12hr'', ''24hr''], Some [''ddmmyy'', ''mmddyy'', ''yymmdd'']]),
     (''offset'', [Some [''2'', ''3''], None, Some [''12hr'', ''24hr'']]),
     (''time'', [None, None, Some [''12hr'', ''24hr'']]),
     (''date'', [None, None, None, Some [''ddmmyy'', ''mmddyy'', ''yymmdd'']]),
     (''raw'', [None, None])]"

text \<open>The words in the tables of the code: those of the documentation, and a clock 1 for \<open>offset\<close>.\<close>

definition cli_words :: grammar where
  "cli_words = cli_grammar[6 := (''offset'', [Some [''1'', ''2'', ''3''], None, Some [''12hr'', ''24hr'']])]"

fun word_allowed :: "string list option \<Rightarrow> string \<Rightarrow> bool" where
  "word_allowed None arg = True"
| "word_allowed (Some ws) arg = (\<exists>x \<in> set ws. strcaseeq arg x)"

text \<open>A command line with the name of a row and an allowed word for each of its arguments.\<close>

definition in_row :: "string list \<Rightarrow> string \<times> string list option list \<Rightarrow> bool" where
  "in_row argv row = (case row of (name, spec) \<Rightarrow>
     strcaseeq (argv ! 1) name \<and> length spec \<le> length argv - 2
     \<and> list_all2 word_allowed spec (take (length spec) (drop 2 argv)))"

definition in_grammar :: "grammar \<Rightarrow> string list \<Rightarrow> bool" where
  "in_grammar g argv \<longleftrightarrow> 2 \<le> length argv \<and> (\<exists>row \<in> set g. in_row argv row)"

definition cli_valid :: "string list \<Rightarrow> bool" where
  "cli_valid argv \<longleftrightarrow> in_grammar cli_grammar argv"

text \<open>An \<open>offset\<close> for clock 1 that is in order otherwise.\<close>

definition offset_clock_1 :: "string list \<Rightarrow> bool" where
  "offset_clock_1 argv \<longleftrightarrow> 5 \<le> length argv \<and> strcaseeq (argv ! 1) ''offset'' \<and> argv ! 2 = ''1''
     \<and> (strcaseeq (argv ! 4) ''12hr'' \<or> strcaseeq (argv ! 4) ''24hr'')"

lemma strcaseeq_1: "strcaseeq s ''1'' \<longleftrightarrow> s = ''1''"
proof -
  have "tolower c = CHR ''1'' \<longleftrightarrow> c = CHR ''1''" for c
  proof
    assume t: "tolower c = CHR ''1''"
    have "(of_char (CHR ''1'') :: nat) = 49" by simp
    then have "of_char (tolower c) = (49 :: nat)" unfolding t .
    then have "of_char c = (49 :: nat)" by (auto simp: tolower_def Let_def split: if_splits)
    then show "c = CHR ''1''" by (metis char_of_char \<open>of_char (CHR ''1'') = 49\<close>)
  qed (simp add: tolower_def)
  note one = this
  have "strcaseeq s ''1'' \<longleftrightarrow> map tolower s = [CHR ''1'']"
    by (simp only: strcaseeq_def list.map one [of "CHR ''1''", THEN iffD2, OF refl])
  also have "\<dots> \<longleftrightarrow> (\<exists>c. s = [c] \<and> c = CHR ''1'')"
    unfolding map_eq_Cons_conv one by blast
  finally show ?thesis by blast
qed

lemma offset_row:
  "2 \<le> length argv \<and> in_row argv (''offset'', [Some [''1'', ''2'', ''3''], None, Some [''12hr'', ''24hr'']]) \<longleftrightarrow>
   2 \<le> length argv \<and> in_row argv (''offset'', [Some [''2'', ''3''], None, Some [''12hr'', ''24hr'']]) \<or> offset_clock_1 argv"
proof (cases "5 \<le> length argv")
  case True
  then obtain p c k v f rest where argv: "argv = p # c # k # v # f # rest"
    by (auto simp: numeral_eq_Suc Suc_le_length_iff)
  show ?thesis by (auto simp: argv in_row_def offset_clock_1_def strcaseeq_1)
qed (auto simp: in_row_def offset_clock_1_def)

lemma words_grammar: "in_grammar cli_words argv \<longleftrightarrow> cli_valid argv \<or> offset_clock_1 argv"
proof -
  let ?others = "take 6 cli_grammar @ drop 7 cli_grammar"
  have "set cli_words = insert (''offset'', [Some [''1'', ''2'', ''3''], None, Some [''12hr'', ''24hr'']]) (set ?others)"
    "set cli_grammar = insert (''offset'', [Some [''2'', ''3''], None, Some [''12hr'', ''24hr'']]) (set ?others)"
    by (auto simp: cli_words_def cli_grammar_def)
  then show ?thesis using offset_row [of argv] by (auto simp: in_grammar_def cli_valid_def)
qed

lemma map_lookup_cong: "strcaseeq s t \<Longrightarrow> map_lookup m s = map_lookup m t"
  by (induction m) (auto simp: strcaseeq_def)

lemma map_lookup_iff: "map_lookup m s \<noteq> None \<longleftrightarrow> (\<exists>k \<in> set (map fst m). strcaseeq s k)"
  by (induction m) auto

lemma word_allowed_iff:
  "map (map tolower \<circ> fst) tbl = map (map tolower) ws \<Longrightarrow>
   word_allowed (Some ws) arg \<longleftrightarrow> map_lookup tbl arg \<noteq> None"
proof -
  assume e: "map (map tolower \<circ> fst) tbl = map (map tolower) ws"
  have "(\<exists>x \<in> set ws. strcaseeq arg x) \<longleftrightarrow> map tolower arg \<in> set (map (map tolower) ws)"
    by (auto simp: strcaseeq_def)
  also have "\<dots> \<longleftrightarrow> (\<exists>k \<in> set (map fst tbl). strcaseeq arg k)"
    unfolding e [symmetric] by (auto simp: strcaseeq_def)
  finally show ?thesis by (simp only: word_allowed.simps map_lookup_iff)
qed

text \<open>A row of the table of commands and its row of the grammar.\<close>

definition same_words :: "string_map option \<Rightarrow> string list option \<Rightarrow> bool" where
  "same_words m ws = (map_option (map (map tolower \<circ> fst)) m = map_option (map (map tolower)) ws)"

lemma same_words_allowed:
  "same_words m ws \<Longrightarrow> word_allowed ws arg \<longleftrightarrow> (case m of None \<Rightarrow> True | Some tbl \<Rightarrow> map_lookup tbl arg \<noteq> None)"
  using word_allowed_iff by (cases m; cases ws) (simp_all add: same_words_def)

lemma parse_args_iff:
  assumes "list_all2 same_words ms spec" and "length spec \<le> length argv"
  shows "(\<exists>vs. parse_args ms argv = Inr vs) \<longleftrightarrow> list_all2 word_allowed spec (take (length spec) argv)"
  using assms
proof (induction arbitrary: argv rule: list_all2_induct)
  case (Cons m ms ws spec)
  then obtain arg rest where argv: "argv = arg # rest" by (cases argv) auto
  have "word_allowed ws arg \<longleftrightarrow> (case m of None \<Rightarrow> True | Some tbl \<Rightarrow> map_lookup tbl arg \<noteq> None)"
    using Cons.hyps(1) by (rule same_words_allowed)
  moreover have "(\<exists>vs. parse_args ms rest = Inr vs) \<longleftrightarrow> list_all2 word_allowed spec (take (length spec) rest)"
    using Cons.IH Cons.prems by (simp add: argv)
  ultimately show ?case
    by (auto simp: argv split: option.split sum.split)
qed simp

lemma less_10_cases: "n < 10 \<Longrightarrow> n = 0 \<or> n = 1 \<or> n = 2 \<or> n = 3 \<or> n = 4 \<or> n = 5 \<or> n = 6 \<or> n = 7 \<or> n = 8 \<or> n = (9 :: nat)"
  by presburger

lemma words_agree:
  "same_words None None"
  "same_words (Some led_id_map)
     (Some [''fire'', ''a'', ''b'', ''d'', ''e'', ''t1'', ''t2'', ''t3'', ''pov'', ''clutch'', ''throttle''])"
  "same_words (Some led_state_map) (Some [''off'', ''on'', ''red'', ''amber'', ''green''])"
  "same_words (Some brightness_targets_map) (Some [''mfd'', ''led''])"
  "same_words (Some on_off_map) (Some [''off'', ''on''])"
  "same_words (Some clock0_timezone_map) (Some [''gmt'', ''local''])"
  "same_words (Some time_format_map) (Some [''12hr'', ''24hr''])"
  "same_words (Some date_format_map) (Some [''ddmmyy'', ''mmddyy'', ''yymmdd''])"
  "same_words (Some clocks_map) (Some [''1'', ''2'', ''3''])"
  by code_simp+

lemma table_rows:
  assumes "n < 10"
  shows "list_all2 same_words (ch_maps (handlers ! n :: 'w command_handler)) (snd (cli_words ! n))"
    and "num_args (handlers ! n :: 'w command_handler) = length (snd (cli_words ! n))"
    and "map_lookup command_map (fst (cli_words ! n)) = Some (int n)"
proof -
  show "num_args (handlers ! n :: 'w command_handler) = length (snd (cli_words ! n))"
    using less_10_cases [OF assms] by (elim disjE) (simp_all add: handlers_def cli_words_def cli_grammar_def)
  show "list_all2 same_words (ch_maps (handlers ! n :: 'w command_handler)) (snd (cli_words ! n))"
    using less_10_cases [OF assms]
    by (elim disjE) (simp_all add: handlers_def cli_words_def cli_grammar_def words_agree)
  show "map_lookup command_map (fst (cli_words ! n)) = Some (int n)"
    using less_10_cases [OF assms]
    by (elim disjE) (simp_all add: cli_words_def cli_grammar_def command_map_def strcaseeq_def tolower_def)
qed

lemma table_maps:
  "n < 10 \<Longrightarrow> take (length (snd (cli_words ! n))) (ch_maps (handlers ! n :: 'w command_handler)) =
     ch_maps (handlers ! n :: 'w command_handler)"
  by (simp add: list_all2_lengthD [OF table_rows(1)])

lemma command_map_row:
  assumes "map_lookup command_map c = Some v"
  shows "\<exists>n < 10. v = int n \<and> strcaseeq c (fst (cli_words ! n))"
proof -
  have "map_lookup m c = Some v \<Longrightarrow> \<exists>(k, x) \<in> set m. x = v \<and> strcaseeq c k" for m
    by (induction m) (auto split: if_splits)
  from this [OF assms] obtain k where k: "(k, v) \<in> set command_map" "strcaseeq c k" by auto
  have "\<forall>(k, v) \<in> set command_map. k = fst (cli_words ! nat v) \<and> 0 \<le> v \<and> v < 10" by code_simp
  with k show ?thesis by (intro exI [of _ "nat v"]) auto
qed

lemma in_words_row:
  "in_grammar cli_words argv \<longleftrightarrow> 2 \<le> length argv \<and> (\<exists>n < 10. map_lookup command_map (argv ! 1) = Some (int n)
     \<and> length (snd (cli_words ! n)) \<le> length argv - 2
     \<and> list_all2 word_allowed (snd (cli_words ! n)) (take (length (snd (cli_words ! n))) (drop 2 argv)))"
proof -
  have len: "length cli_words = 10" by (simp add: cli_words_def cli_grammar_def)
  have set: "set cli_words = (!) cli_words ` {..<10}" by (auto simp: set_conv_nth len)
  have ex: "(\<exists>row \<in> set cli_words. case row of (name, spec) \<Rightarrow> P name spec) \<longleftrightarrow>
      (\<exists>n < 10. P (fst (cli_words ! n)) (snd (cli_words ! n)))" for P
    unfolding set by (auto simp: split_beta)
  have row: "strcaseeq (argv ! 1) (fst (cli_words ! n)) \<longleftrightarrow> map_lookup command_map (argv ! 1) = Some (int n)"
    if "n < 10" for n
    using table_rows(3) [OF that] map_lookup_cong [of "argv ! 1" "fst (cli_words ! n)" command_map]
      command_map_row [of "argv ! 1"] by auto
  show ?thesis
    unfolding in_grammar_def in_row_def ex using row by blast
qed

lemma cli_command_valid:
  "(\<exists>(cmd :: 'w command_handler) args. cli_command argv = Inr (cmd, args)) \<longleftrightarrow> in_grammar cli_words argv"
proof (cases "2 \<le> length argv \<and> (\<exists>n < 10. map_lookup command_map (argv ! 1) = Some (int n))")
  case False
  then show ?thesis
    using command_map_row [of "argv ! 1"] by (auto simp: cli_command_def in_words_row split: option.split)
next
  case True
  then obtain n where n: "n < 10" "map_lookup command_map (argv ! 1) = Some (int n)" and len: "2 \<le> length argv"
    by blast
  show ?thesis
    using parse_args_iff [OF table_rows(1) [where ?'w = 'w, OF n(1)], of "drop 2 argv"] n len
    by (auto simp: cli_command_def in_words_row Let_def table_maps [OF n(1)] table_rows(2) [OF n(1)]
        split: sum.split)
qed

lemma cli_command_message: "cli_command argv = Inl out \<Longrightarrow> out \<noteq> []"
  by (auto simp: cli_command_def Let_def split: if_splits option.splits sum.splits)

lemma cli_set_with_dev: "cli_set (with_dev f) d w = (fst (f d), snd (f d), w)"
  by (simp add: cli_set_def)

text \<open>An \<open>offset\<close> for clock 1, which libx52 refuses.\<close>

lemma offset_clock_1_handler:
  assumes "cli_command argv = Inr (cmd :: 'w command_handler, args)" and "offset_clock_1 argv"
  shows "fst (ch_handler cmd U env args d w) \<noteq> LIBX52_SUCCESS"
proof -
  have "map_lookup command_map ''offset'' = Some 6" by code_simp
  then have lk: "map_lookup command_map (argv ! 1) = Some 6"
    using assms(2) map_lookup_cong [of "argv ! 1" "''offset''" command_map] by (simp add: offset_clock_1_def)
  have len: "5 \<le> length argv" using assms(2) by (simp add: offset_clock_1_def)
  then obtain p c k v f rest where argv: "argv = p # c # k # v # f # rest"
    by (auto simp: numeral_eq_Suc Suc_le_length_iff)
  have "map_lookup clocks_map ''1'' = Some (clock_id_code LIBX52_CLOCK_1)" by code_simp
  then have k: "map_lookup clocks_map k = Some (clock_id_code LIBX52_CLOCK_1)"
    using assms(2) by (simp add: argv offset_clock_1_def)
  obtain x where "cmd = handlers ! 6" "args = [CInt (clock_id_code LIBX52_CLOCK_1), CStr v, x, CNull]"
    using assms(1) lk k by (auto simp: cli_command_def argv handlers_def Let_def split: option.splits)
  moreover have "clock_id_of (clock_id_code LIBX52_CLOCK_1) = Some LIBX52_CLOCK_1" by code_simp
  then have "fst (set_clock_timezone_dev (clock_id_code LIBX52_CLOCK_1) offset d) \<noteq> LIBX52_SUCCESS" for offset
    by (simp add: set_clock_timezone_dev_def del: clock_id_code.simps)
  then have "fst (cli_set (\<lambda>x52. libx52_set_clock_timezone x52 (clock_id_code LIBX52_CLOCK_1) offset) d w)
      \<noteq> LIBX52_SUCCESS" for offset
    by (simp add: libx52_set_clock_timezone_def cli_set_with_dev del: clock_id_code.simps)
  ultimately show ?thesis
    by (simp add: handlers_def update_offset_def if_ok_def Let_def split: prod.split del: clock_id_code.simps)
      (metis fst_conv)
qed

lemma run_main_rejects:
  assumes "cli_command argv = Inr (cmd :: 'w command_handler, args)"
    and "\<And>d w. fst (ch_handler cmd U env args d w) \<noteq> LIBX52_SUCCESS"
  shows "\<exists>line out w'. run_main U env argv w = Some (1, line # out, w')"
proof -
  obtain rc0 x0 w0 where i: "libx52_init U True (cli_calloc env) w = (rc0, x0, w0)" by (metis prod_cases3)
  show ?thesis
  proof (cases "rc0 = LIBX52_SUCCESS")
    case True
    with i obtain d0 where x0: "x0 = Some d0"
      by (auto simp: libx52_init_def Let_def split: if_splits prod.splits sum.splits)
    obtain rc1 d1 w1 where c: "libx52_connect U x0 w0 = (rc1, Some d1, w1)"
      by (cases "connect_dev U d0 w0") (simp add: x0 libx52_connect_def)
    obtain rc2 d2 w2 where h: "ch_handler cmd U env args d1 w1 = (rc2, d2, w2)" by (metis prod_cases3)
    obtain rc3 d3 w3 where u: "libx52_update U d2 w2 = (rc3, d3, w3)" by (metis prod_cases3)
    obtain w4 where "libx52_exit U (Some d3) w3 = Some w4" using exit_some [of U d3 w3] by blast
    with assms(2) [of d1 w1] show ?thesis by (auto simp: run_main_def assms(1) i True c h u Let_def)
  qed (simp add: run_main_def assms(1) i)
qed

lemma valid_no_clock_1: "cli_valid argv \<Longrightarrow> \<not> offset_clock_1 argv"
proof
  assume "cli_valid argv" and o: "offset_clock_1 argv"
  then obtain row where row: "row \<in> set cli_grammar" "in_row argv row"
    by (auto simp: cli_valid_def in_grammar_def)
  have "\<forall>row \<in> set cli_grammar. strcaseeq (fst row) ''offset'' \<longrightarrow>
      row = (''offset'', [Some [''2'', ''3''], None, Some [''12hr'', ''24hr'']])" by code_simp
  moreover have "strcaseeq (fst row) ''offset''"
    using row(2) o by (auto simp: in_row_def offset_clock_1_def strcaseeq_def split: prod.splits)
  ultimately have "in_row argv (''offset'', [Some [''2'', ''3''], None, Some [''12hr'', ''24hr'']])"
    using row by blast
  moreover obtain p c v f rest where "argv = p # c # ''1'' # v # f # rest"
    using o by (auto simp: offset_clock_1_def numeral_eq_Suc Suc_le_length_iff)
  moreover have "\<not> strcaseeq ''1'' ''2''" "\<not> strcaseeq ''1'' ''3''" by code_simp+
  ultimately show False by (simp add: in_row_def)
qed

text \<open>
  C32:
  The command lines the tool accepts are those of the documented grammar, in any case of
  letters, and one kind more: \<open>offset\<close> for clock 1 with words that are allowed otherwise. Whatever
  is not in the documented grammar makes the tool leave with status 1 and a message; except for
  that offset, which libx52 refuses, it has not touched libusb then.
\<close>

theorem x52cli_grammar:
  fixes U :: "'w libusb"
  shows "((\<exists>(cmd :: 'w command_handler) args. cli_command argv = Inr (cmd, args)) \<longleftrightarrow>
      cli_valid argv \<or> offset_clock_1 argv)
   \<and> \<not> (cli_valid argv \<and> offset_clock_1 argv)
   \<and> (\<not> cli_valid argv \<longrightarrow> (\<exists>line out w'. run_main U env argv w = Some (1, line # out, w')
        \<and> (\<not> offset_clock_1 argv \<longrightarrow> w' = w)))"
proof -
  note acc = cli_command_valid [where ?'w = 'w, of argv, unfolded words_grammar]
  have "\<exists>line out w'. run_main U env argv w = Some (1, line # out, w') \<and> (\<not> offset_clock_1 argv \<longrightarrow> w' = w)"
    if v: "\<not> cli_valid argv"
  proof (cases "offset_clock_1 argv")
    case True
    with acc obtain cmd :: "'w command_handler" and args where c: "cli_command argv = Inr (cmd, args)" by blast
    from run_main_rejects [OF c offset_clock_1_handler [OF c True]] True show ?thesis by blast
  next
    case False
    with v acc obtain out
      where c: "(cli_command argv :: cli_line list + 'w command_handler \<times> cli_arg list) = Inl out"
      by (metis sum.exhaust surj_pair)
    with cli_command_message [OF c] show ?thesis by (cases out) (auto simp: run_main_def)
  qed
  with acc valid_no_clock_1 show ?thesis by blast
qed

theorem x52cli_grammar_witness:
  "\<forall>env w. (\<exists>line out. run_main stub env [''x52cli'', ''led'', ''fire'', ''blue''] w = Some (1, line # out, w))
     \<and> (\<exists>line out w'. run_main stub env [''x52cli'', ''offset'', ''1'', ''60'', ''24hr''] w = Some (1, line # out, w'))"
proof (intro allI)
  fix env w
  have "\<not> cli_valid [''x52cli'', ''led'', ''fire'', ''blue'']" "\<not> offset_clock_1 [''x52cli'', ''led'', ''fire'', ''blue'']"
    "\<not> cli_valid [''x52cli'', ''offset'', ''1'', ''60'', ''24hr'']" by code_simp+
  with x52cli_grammar [of "[''x52cli'', ''led'', ''fire'', ''blue'']" stub env w]
    x52cli_grammar [of "[''x52cli'', ''offset'', ''1'', ''60'', ''24hr'']" stub env w]
  show "(\<exists>line out. run_main stub env [''x52cli'', ''led'', ''fire'', ''blue''] w = Some (1, line # out, w))
     \<and> (\<exists>line out w'. run_main stub env [''x52cli'', ''offset'', ''1'', ''60'', ''24hr''] w = Some (1, line # out, w'))"
    by blast
qed

section \<open>The settings of a command\<close>

text \<open>The setter calls a command stands for, by its number, up to the raw command.\<close>

definition cli_calls :: "cli_env \<Rightarrow> nat \<Rightarrow> cli_arg list \<Rightarrow> x52_call list" where
  "cli_calls env n args =
    [[SetLedState (PARSE_ARGUMENT (args ! 0)) (PARSE_ARGUMENT (args ! 1))],
     [SetBrightness (word_of_int (PARSE_ARGUMENT (args ! 0))) (word_of_int (fst (strtoul 0 (arg_string (args ! 1)))))],
     [SetText (word_of_int (fst (strtoul 0 (arg_string (args ! 0))))) (cstr_bytes (arg_string (args ! 1)))
        (of_nat (length (arg_string (args ! 1))))],
     [SetBlink (word_of_int (PARSE_ARGUMENT (args ! 0)))],
     [SetShift (word_of_int (PARSE_ARGUMENT (args ! 0)))],
     [SetClock (clock_env.truncate env) (cli_time env) (PARSE_ARGUMENT (args ! 0)),
      SetClockFormat 0 (PARSE_ARGUMENT (args ! 1)), SetDateFormat (PARSE_ARGUMENT (args ! 2))],
     [SetClockTimezone (PARSE_ARGUMENT (args ! 0)) (c_int (fst (strtol 0 (arg_string (args ! 1))))),
      SetClockFormat (PARSE_ARGUMENT (args ! 0)) (PARSE_ARGUMENT (args ! 2))],
     [SetTime (arg_byte (args ! 0)) (arg_byte (args ! 1)), SetClockFormat 0 (PARSE_ARGUMENT (args ! 2))],
     [SetDate (arg_byte (args ! 0)) (arg_byte (args ! 1)) (arg_byte (args ! 2)),
      SetDateFormat (PARSE_ARGUMENT (args ! 3))]] ! n"

lemmas cli_handler_defs = update_led_def update_bri_def update_mfd_def update_blink_def update_shift_def
  update_clock_def update_offset_def update_time_def update_date_def

lemma handler_calls:
  assumes "n < 9"
  shows "ch_handler (handlers ! n) U env args d w =
    (fst (run_calls (cli_calls env n args) d), snd (run_calls (cli_calls env n args) d), w)"
proof -
  have "n = 0 \<or> n = 1 \<or> n = 2 \<or> n = 3 \<or> n = 4 \<or> n = 5 \<or> n = 6 \<or> n = 7 \<or> n = 8"
    using assms by presburger
  then show ?thesis
    by (elim disjE) (auto simp: handlers_def cli_calls_def cli_handler_defs libx52_set_defs cli_set_def
        if_ok_def arg_byte_def split: prod.split)
qed

lemma parse_args_nth:
  assumes "parse_args ms argv = Inr vs" and "length ms \<le> length argv"
  shows "length vs = length ms
    \<and> (\<forall>i < length ms. \<forall>tbl. ms ! i = Some tbl \<longrightarrow> PARSE_ARGUMENT (vs ! i) \<in> snd ` set tbl)"
  using assms
proof (induction ms argv arbitrary: vs rule: parse_args.induct)
  case (1 m ms arg argv)
  have lk: "map_lookup tbl arg = Some v \<Longrightarrow> v \<in> snd ` set tbl" for tbl v
    by (induction tbl) (auto split: if_splits)
  from "1.prems" obtain v vs' where v: "(case m of Some tbl \<Rightarrow> map_option CInt (map_lookup tbl arg)
      | None \<Rightarrow> Some (CStr arg)) = Some v" and vs: "parse_args ms argv = Inr vs'" "vs = v # vs'"
    by (auto split: option.splits sum.splits)
  from v lk have "m = Some tbl \<Longrightarrow> PARSE_ARGUMENT v \<in> snd ` set tbl" for tbl by auto
  with 1(1) [OF v vs(1)] "1.prems"(2) vs(2) show ?case by (auto simp: nth_Cons split: nat.split)
qed simp_all

text \<open>The date format of a command is one of the three.\<close>

lemma cli_command_row:
  assumes "cli_command argv = Inr (cmd :: 'w command_handler, args)"
    and "map_lookup command_map (argv ! 1) = Some (int n)" and "n < 10"
  shows "cmd = handlers ! n \<and> (\<forall>i < length (ch_maps cmd). \<forall>tbl. ch_maps cmd ! i = Some tbl \<longrightarrow>
    PARSE_ARGUMENT (args ! i) \<in> snd ` set tbl)"
proof -
  have maps: "take (num_args (handlers ! n :: 'w command_handler)) (ch_maps (handlers ! n :: 'w command_handler)) =
      ch_maps (handlers ! n :: 'w command_handler)"
    by (simp add: table_rows(2) [OF assms(3)] table_maps [OF assms(3)])
  let ?p = "parse_args (ch_maps (handlers ! n :: 'w command_handler)) (drop 2 argv)"
  have two: "\<not> length argv < 2" and len: "\<not> num_args (handlers ! n :: 'w command_handler) > length argv - 2"
    using assms(1,2) by (auto simp: cli_command_def Let_def split: if_splits)
  have c: "cli_command argv = (case ?p of Inl arg \<Rightarrow> Inl [Stderr (''Invalid argument '' @ arg @ ''\<newline>'')]
      | Inr args \<Rightarrow> Inr (handlers ! n :: 'w command_handler, args @ replicate (MAX_ARGS - length args) CNull))"
    using two len assms(2) by (simp only: cli_command_def Let_def maps if_False option.case nat_int)
  obtain vs where vs: "?p = Inr vs" and args: "args = vs @ replicate (MAX_ARGS - length vs) CNull"
    and cmd: "cmd = handlers ! n"
    using assms(1) unfolding c by (cases ?p) simp_all
  have "length (ch_maps (handlers ! n :: 'w command_handler)) \<le> length (drop 2 argv)"
    using len by (simp add: table_rows(2) [OF assms(3)] list_all2_lengthD [OF table_rows(1) [OF assms(3)]])
  from parse_args_nth [OF vs this] show ?thesis by (auto simp: cmd args nth_append)
qed

lemma cli_calls_date_format:
  assumes "cli_command argv = Inr (cmd, args)" and "map_lookup command_map (argv ! 1) = Some (int n)" and "n < 9"
  shows "\<forall>c \<in> set (cli_calls env n args). date_format_ok c"
proof -
  have tbl: "snd ` set date_format_map \<subseteq> range date_format_code" by (auto simp: date_format_map_def simp del: date_format_code.simps)
  note row = cli_command_row [OF assms(1,2)]
  have "n = 0 \<or> n = 1 \<or> n = 2 \<or> n = 3 \<or> n = 4 \<or> n = 5 \<or> n = 6 \<or> n = 7 \<or> n = 8"
    using assms(3) by presburger
  moreover have "PARSE_ARGUMENT (args ! 2) \<in> range date_format_code" if "n = 5"
    using row that tbl by (auto simp: handlers_def)
  moreover have "PARSE_ARGUMENT (args ! 3) \<in> range date_format_code" if "n = 8"
    using row that tbl by (auto simp: handlers_def)
  ultimately show ?thesis by (elim disjE) (simp_all add: cli_calls_def date_format_ok_def)
qed

section \<open>A whole run\<close>

text \<open>
  C33:
  A command other than raw, on a joystick that can be connected and accepts its commands. The
  tool leaves with status 0 exactly when all setter calls of the command succeed. In either
  case the joystick has received exactly the vendor commands of the indicators that the calls
  marked, with the new settings, and shows them.
\<close>

theorem x52cli_sends_settings:
  fixes U :: "'w libusb" and cmd :: "('w \<times> vendor_cmd list) command_handler"
  assumes acc: "accepts U" and n: "map_lookup command_map (argv ! 1) = Some (int n)" "n < 9"
    and cmd: "cli_command argv = Inr (cmd, args)"
    and init: "libx52_init (logged U) True (cli_calloc env) w = (LIBX52_SUCCESS, Some d0, w1)"
    and conn: "libx52_connect (logged U) (Some d0) w1 = (LIBX52_SUCCESS, Some d, w2)" and h: "hdl d = Some h"
    and calls: "run_calls (cli_calls env n args) d = (rc, d')"
  shows "\<exists>out w'. run_main (logged U) env argv w = Some (if rc = LIBX52_SUCCESS then 0 else 1, out, w')
    \<and> snd w' = snd w @ concat (map (cmds d') (marked d'))
    \<and> (\<forall>b \<in> set (marked d'). displays (display_of (snd w')) d' b)"
proof -
  note fresh = connected_fresh [OF init conn]
  have ok: "\<forall>c \<in> set (cli_calls env n args). date_format_ok c" using cli_calls_date_format [OF cmd n] .
  have h': "hdl d' = Some h" and df: "libx52_device.date_format d' \<in> range date_format_code"
    using run_calls_keeps [OF calls] ok fresh(2) h by auto
  obtain rcu d2 w3 where u: "libx52_update (logged U) d' w2 = (rcu, d2, w3)" by (metis prod_cases3)
  obtain w' where x: "libx52_exit (logged U) (Some d2) w3 = Some w'" using exit_some [of "logged U" d2 w3] by blast
  have log: "snd w' = snd w @ concat (map (cmds d') (marked d'))"
    and pk: "\<forall>b \<in> set (marked d'). packets d' b \<noteq> None"
    using update_accepted [OF acc h' df u] exit_log [OF x] fresh(3) by auto
  have "n < 10" using n(2) by simp
  from cli_command_row [OF cmd n(1) this] have c: "cmd = handlers ! n" by blast
  have hd: "ch_handler cmd (logged U) env args d w2 = (rc, d', w2)"
    by (simp add: c handler_calls [OF n(2)] calls)
  have "\<exists>out. run_main (logged U) env argv w = Some (if rc = LIBX52_SUCCESS then 0 else 1, out, w')"
    by (simp add: run_main_def cmd init conn hd u x Let_def)
  moreover have "displays (display_of (snd w')) d' b" if "b \<in> set (marked d')" for b
    using fold_concat_displays [OF distinct_marked that pk] by (simp add: log display_append)
  ultimately show ?thesis using log by blast
qed

text \<open>The T1 LED set to amber.\<close>

definition demo_cli :: cli_env where
  "demo_cli = \<lparr>localtime_r = (\<lambda>_. None), gmtime_r = (\<lambda>_. None), have_gmtoff = True, strftime_z = (\<lambda>_. []),
     cli_time = 0, cli_calloc = True, cli_gettext = (\<lambda>s. s)\<rparr>"

definition demo_argv :: "string list" where
  "demo_argv = [''x52cli'', ''LED'', ''t1'', ''Amber'']"

definition demo_conn :: "libx52_error_code \<times> libx52_device option \<times> unit \<times> vendor_cmd list" where
  "demo_conn = libx52_connect (logged demo_usb) (fst (snd demo_init)) (snd (snd demo_init))"

definition demo_args :: "cli_arg list" where
  "demo_args = [CInt (led_id_code LIBX52_LED_T1), CInt (led_state_code LIBX52_LED_STATE_AMBER), CNull, CNull]"

lemma demo_cli_run:
  "fst demo_init = LIBX52_SUCCESS" "fst (snd demo_init) \<noteq> None" "fst demo_conn = LIBX52_SUCCESS"
  "map_option hdl (fst (snd demo_conn)) = Some (Some 0)"
  "fst (run_calls (cli_calls demo_cli 0 demo_args) (the (fst (snd demo_conn)))) = LIBX52_SUCCESS"
  "(let d = snd (run_calls (cli_calls demo_cli 0 demo_args) (the (fst (snd demo_conn))))
    in concat (map (cmds d) (marked d))) = [(X52_LED, 0x0a01), (X52_LED, 0x0b01)]"
  by code_simp+

theorem x52cli_sends_settings_witness:
  "\<exists>out w'. run_main (logged demo_usb) demo_cli demo_argv ((), []) = Some (0, out, w')
    \<and> snd w' = [(X52_LED, 0x0a01), (X52_LED, 0x0b01)]"
proof -
  let ?cmd = "handlers ! 0 :: (unit \<times> vendor_cmd list) command_handler"
  obtain d0 where d0: "fst (snd demo_init) = Some d0" using demo_cli_run(2) by auto
  obtain d where d: "fst (snd demo_conn) = Some d" "hdl d = Some 0" using demo_cli_run(4) by auto
  have init: "libx52_init (logged demo_usb) True (cli_calloc demo_cli) ((), [])
      = (LIBX52_SUCCESS, Some d0, snd (snd demo_init))"
    using demo_cli_run(1) d0 by (simp add: demo_init_def demo_cli_def prod_eq_iff)
  have conn: "libx52_connect (logged demo_usb) (Some d0) (snd (snd demo_init)) = (LIBX52_SUCCESS, Some d, snd (snd demo_conn))"
    using demo_cli_run(3) d(1) d0 by (simp add: demo_conn_def prod_eq_iff)
  have lk: "map_lookup command_map (demo_argv ! 1) = Some (int 0)" by code_simp
  have "parse_args [Some led_id_map, Some led_state_map] [''t1'', ''Amber''] =
      Inr [CInt (led_id_code LIBX52_LED_T1), CInt (led_state_code LIBX52_LED_STATE_AMBER)]" by code_simp
  then have "cli_command demo_argv = Inr (?cmd, demo_args)"
    using lk by (simp add: cli_command_def demo_argv_def demo_args_def handlers_def numeral_2_eq_2)
  from x52cli_sends_settings [OF accepts_demo lk _ this init conn d(2) prod.collapse [symmetric]] demo_cli_run(5,6) d(1)
  show ?thesis by (auto simp: Let_def)
qed

section \<open>The text of a line\<close>

text \<open>
  C34:
  The mfd command stores the first 16 characters of its text, padded with spaces, only up to
  255 characters: the length wraps at 256, so that of a text of \<open>n\<close> characters only \<open>n mod 256\<close>
  are taken into account. The line number wraps as well, and is refused above 2.
\<close>

theorem x52cli_mfd_text:
  assumes "length (line d) = 3"
    and "update_mfd U env [CStr ln, CStr txt, CNull, CNull] d w = (rc, d', w')"
  shows "w' = w \<and> (let l = nat (fst (strtoul 0 ln) mod 256); k = min 16 (length txt mod 256)
    in (rc = LIBX52_SUCCESS \<longleftrightarrow> l \<le> 2)
     \<and> (rc = LIBX52_SUCCESS \<longrightarrow> line d' ! l =
          \<lparr>mfd_text = map of_char (take k txt) @ replicate (16 - k) 0x20, mfd_length = of_nat k\<rparr>))"
proof -
  define ln8 :: u8 where "ln8 = word_of_int (fst (strtoul 0 ln))"
  define len8 :: u8 where "len8 = of_nat (length txt)"
  define k where "k = min 16 (length txt mod 256)"
  have l: "unat ln8 = nat (fst (strtoul 0 ln) mod 256)"
    by (simp add: ln8_def unat_eq_nat_uint uint_word_of_int)
  have n: "unat len8 = length txt mod 256" by (simp add: len8_def unat_of_nat)
  let ?len = "if 16 < len8 then 16 else len8"
  have k: "unat ?len = k" using n by (auto simp: k_def word_less_nat_alt)
  have "k \<le> length txt" using mod_less_eq_dividend [of "length txt" 256] unfolding k_def by linarith
  then have bytes: "map (cstr_bytes txt) [0..<k] = map of_char (take k txt)"
    by (intro nth_equalityI) (simp_all add: cstr_bytes_def)
  have le: "2 < ln8 \<longleftrightarrow> \<not> unat ln8 \<le> 2" by (simp add: word_less_nat_alt not_le)
  have len: "?len = of_nat k" unfolding k [symmetric] by (simp add: word_unat_eq_iff)
  have kk: "unat (of_nat k :: u8) = k" using k len by metis
  have "(rc, d', w') = (fst (set_text_dev ln8 (cstr_bytes txt) len8 d), snd (set_text_dev ln8 (cstr_bytes txt) len8 d), w)"
    using assms(2) by (simp add: update_mfd_def ln8_def len8_def libx52_set_text_def cli_set_with_dev split_beta Let_def)
  then show ?thesis
    using assms(1) le by (auto simp: set_text_dev_def Let_def l [symmetric] k_def [symmetric] kk bytes len mark_def)
qed

theorem x52cli_mfd_text_witness:
  "line (fst (snd (update_mfd demo_usb demo_cli [CStr ''256'', CStr (replicate 256 CHR ''A''), CNull, CNull]
      x52_calloc ()))) ! 0 = \<lparr>mfd_text = replicate 16 0x20, mfd_length = 0\<rparr>"
proof -
  obtain rc d' w' where u: "update_mfd demo_usb demo_cli [CStr ''256'', CStr (replicate 256 CHR ''A''), CNull, CNull]
      x52_calloc () = (rc, d', w')" by (metis prod_cases3)
  have "fst (strtoul 0 ''256'') = 256" by code_simp
  moreover have "length (line x52_calloc) = 3" by (simp add: x52_calloc_def)
  ultimately show ?thesis using x52cli_mfd_text [OF _ u] by (simp add: u Let_def)
qed

end
