(* ===== verification/X52ctl.thy ===== *)
theory X52ctl
  imports X52d_Comm Inih C_Getopt
begin

text \<open>
  The controller of the daemon (\<open>daemon/x52ctl.c\<close>): its options, breaking a line into arguments
  in place, sending a command and writing the response, and the interactive loop. A line of
  the loop is one result of \<open>fgets\<close> on the standard input.
\<close>

section \<open>Output\<close>

text \<open>
  What is printed besides the responses, which are written with \<open>write\<close>: \<open>fputs\<close> to the standard
  output, messages on the standard error, and \<open>perror\<close> with the error number.
\<close>

datatype ctl_out = Fputs string | Message string | Perror string int

text \<open>The exit status or return code, the output, and the world; \<open>None\<close> when a call is interrupted for ever.\<close>

type_synonym 'w ctl_res = "(int \<times> ctl_out list \<times> 'w) option"

definition ctl_usage :: "ctl_out list" where
  "ctl_usage = [Message ''Usage: x52ctl [-i] [-s socket-path] [command]\<newline>'']"

section \<open>Sending a command\<close>

definition send_command :: "'w posix \<Rightarrow> int \<Rightarrow> string list \<Rightarrow> 'w \<Rightarrow> 'w ctl_res" where
  "send_command P sock_fd argv w =
     (case x52d_format_command (Some argv) True 1024 of
        Inl e \<Rightarrow> Some (-1, if e = E2BIG then [Message ''Argument length too long\<newline>''] else [], w)
      | Inr (buflen, buffer) \<Rightarrow>
          (case x52d_send_command P sock_fd (take buflen buffer) 1024 w of
             None \<Rightarrow> None
           | Some (Inl e, w1) \<Rightarrow> Some (-1, [Perror ''x52d_send_command'' e], w1)
           | Some (Inr response, w1) \<Rightarrow>
               (case sys_write P 1 response w1 of
                  (Inl e, w2) \<Rightarrow> Some (-1, [Perror ''write'' e], w2)
                | (Inr _, w2) \<Rightarrow> Some (0, [], w2))))"

section \<open>Breaking a line\<close>

text \<open>The inner loop: the position of the next white space or NUL.\<close>

function skip_word :: "bytes \<Rightarrow> nat \<Rightarrow> nat" where
  "skip_word buffer pos =
     (if pos < length buffer \<and> buffer ! pos \<noteq> NUL \<and> \<not> isspace (buffer ! pos)
      then skip_word buffer (pos + 1) else pos)"
  by pat_completeness auto
termination by (relation "measure (\<lambda>(buffer, pos). length buffer - pos)") auto

declare skip_word.simps [simp del]

lemma skip_word_ge: "pos \<le> skip_word buffer pos"
proof (induction buffer pos rule: skip_word.induct)
  case (1 buffer pos)
  then show ?case by (subst skip_word.simps) auto
qed

lemma skip_word_greater:
  "pos < length buffer \<Longrightarrow> buffer ! pos \<noteq> NUL \<Longrightarrow> \<not> isspace (buffer ! pos) \<Longrightarrow> pos < skip_word buffer pos"
  using skip_word_ge [of "Suc pos" buffer] by (subst skip_word.simps) simp

text \<open>
  The outer loop, over the buffer and the positions in \<open>sargv\<close>. The buffer has a NUL, where the
  loop ends; the test of the position only makes the function total.
\<close>

function break_line :: "bytes \<Rightarrow> nat \<Rightarrow> nat list \<Rightarrow> bytes \<times> nat list" where
  "break_line buffer pos sargv =
     (if pos < length buffer \<and> buffer ! pos \<noteq> NUL then
        (if isspace (buffer ! pos) then break_line (buffer[pos := NUL]) (pos + 1) sargv
         else break_line buffer (skip_word buffer pos) (sargv @ [pos]))
      else (buffer, sargv))"
  by pat_completeness auto
termination
proof (relation "measure (\<lambda>(buffer, pos, sargv). length buffer - pos)", goal_cases)
  case (3 buffer pos sargv)
  then show ?case using skip_word_greater [of pos buffer] by (simp add: diff_less_mono2)
qed auto

declare break_line.simps [simp del]

text \<open>The strings in \<open>sargv\<close>; a position before the last NUL always has one.\<close>

definition line_args :: "bytes \<Rightarrow> string list" where
  "line_args buffer = (let (b, sargv) = break_line buffer 0 [] in map (\<lambda>i. the (cstring_at b i)) sargv)"

section \<open>The interactive loop\<close>

text \<open>\<open>fgets\<close> fills \<open>line\<close> and a NUL; what the buffer holds behind that is not looked at.\<close>

fun ctl_loop :: "'w posix \<Rightarrow> int \<Rightarrow> string list \<Rightarrow> 'w \<Rightarrow> 'w ctl_res" where
  "ctl_loop P sock_fd [] w = Some (0, [], w)"
| "ctl_loop P sock_fd (ln # lns) w =
     (let buffer = ln @ [NUL] in
      if strcaseeq (the (cstring_at buffer 0)) ''quit\<newline>'' then Some (0, [], w)
      else case send_command P sock_fd (line_args buffer) w of
        None \<Rightarrow> None
      | Some (rc, out, w1) \<Rightarrow>
          if rc \<noteq> 0 then Some (1, out, w1)
          else (case ctl_loop P sock_fd lns w1 of
                  None \<Rightarrow> None
                | Some (rc', out', w2) \<Rightarrow> Some (rc', out @ Fputs ''\<newline>> '' # out', w2)))"

text \<open>The results of \<open>fgets\<close> until the end of the input.\<close>

function fgets_lines :: "string \<Rightarrow> string list" where
  "fgets_lines stdin = (case fgets 1024 stdin of None \<Rightarrow> [] | Some (ln, rest) \<Rightarrow> ln # fgets_lines rest)"
  by pat_completeness auto
termination
  by (relation "measure length") (auto simp: fgets_def numeral_eq_Suc dest!: read_line_consumes split: if_splits)

declare fgets_lines.simps [simp del]

section \<open>The main program\<close>

text \<open>The options: \<open>Inl\<close> when one of them leaves the program.\<close>

fun ctl_options :: "(char \<times> string option) list \<Rightarrow> bool \<Rightarrow> string option \<Rightarrow> int + bool \<times> string option" where
  "ctl_options [] interactive socket_path = Inr (interactive, socket_path)"
| "ctl_options ((opt, optarg) # os) interactive socket_path =
     (if opt = CHR ''i'' then ctl_options os True socket_path
      else if opt = CHR ''s'' then ctl_options os interactive optarg
      else if opt = CHR ''h'' then Inl 0
      else Inl 1)"

text \<open>\<open>argv\<close> is without the name of the program; \<open>rundir\<close> is set when the program is built.\<close>

definition ctl_main :: "'w posix \<Rightarrow> string \<Rightarrow> string \<Rightarrow> string list \<Rightarrow> 'w \<Rightarrow> 'w ctl_res" where
  "ctl_main P rundir stdin argv w =
     (let (opts, rest) = getopt_all ''is:h'' argv in
      case ctl_options opts False None of
        Inl status \<Rightarrow> Some (status, ctl_usage, w)
      | Inr (interactive, socket_path) \<Rightarrow>
          if \<not> interactive \<and> rest = [] then Some (1, ctl_usage, w)
          else case x52d_dial_command P rundir socket_path w of
            (Inl e, w1) \<Rightarrow> Some (1, [Perror ''x52d_dial_command'' e], w1)
          | (Inr sock_fd, w1) \<Rightarrow>
              let (pre, res) =
                (if interactive then
                   ((if rest \<noteq> [] then [Message ''Running in interactive mode, ignoring extra arguments\<newline>''] else [])
                      @ [Fputs ''> ''],
                    ctl_loop P sock_fd (fgets_lines stdin) w1)
                 else ([], map_option (\<lambda>(rc, out, w2). (if rc \<noteq> 0 then 1 else 0, out, w2))
                             (send_command P sock_fd rest w1)))
              in map_option (\<lambda>(rc, out, w2). (rc, pre @ out, snd (sys_close P sock_fd w2))) res)"

section \<open>The words of a line\<close>

text \<open>The reference: the pieces between white space that are not empty.\<close>

fun pieces :: "string \<Rightarrow> string list" where
  "pieces [] = [[]]"
| "pieces (c # cs) = (if isspace c then [] # pieces cs else (c # hd (pieces cs)) # tl (pieces cs))"

definition line_words :: "string \<Rightarrow> string list" where
  "line_words s = filter (\<lambda>w. w \<noteq> []) (pieces s)"

lemma pieces_not_Nil [simp]: "pieces s \<noteq> []"
  by (cases s) simp_all

lemma pieces_word:
  "pieces s = takeWhile (\<lambda>c. \<not> isspace c) s #
     (case dropWhile (\<lambda>c. \<not> isspace c) s of [] \<Rightarrow> [] | c # cs \<Rightarrow> pieces cs)"
  by (induction s) simp_all

lemma pieces_space: "dropWhile (\<lambda>c. \<not> isspace c) s = c # cs \<Longrightarrow> isspace c"
  by (metis hd_dropWhile list.distinct(1) list.sel(1))

lemma words_space: "isspace c \<Longrightarrow> line_words (c # cs) = line_words cs"
  by (simp add: line_words_def)

lemma words_word:
  assumes "\<not> isspace c"
  shows "line_words (c # cs) = takeWhile (\<lambda>c. \<not> isspace c) (c # cs) # line_words (dropWhile (\<lambda>c. \<not> isspace c) (c # cs))"
proof -
  let ?w = "takeWhile (\<lambda>c. \<not> isspace c) (c # cs)" and ?r = "dropWhile (\<lambda>c. \<not> isspace c) (c # cs)"
  have "?w \<noteq> []" using assms by simp
  moreover have "line_words (c # cs) = filter (\<lambda>w. w \<noteq> []) (?w # (case ?r of [] \<Rightarrow> [] | d # ds \<Rightarrow> pieces ds))"
    unfolding line_words_def by (subst pieces_word) (rule refl)
  moreover have "filter (\<lambda>w. w \<noteq> []) (case ?r of [] \<Rightarrow> [] | d # ds \<Rightarrow> pieces ds) = line_words ?r"
  proof (cases ?r)
    case (Cons d ds)
    with pieces_space [OF Cons] show ?thesis by (simp add: line_words_def del: dropWhile.simps)
  next
    case Nil
    show ?thesis unfolding Nil by (simp add: line_words_def)
  qed
  ultimately show ?thesis by (simp del: dropWhile.simps takeWhile.simps)
qed

lemma words_snoc: "isspace c \<Longrightarrow> line_words (s @ [c]) = line_words s"
proof -
  assume "isspace c"
  then have "pieces (s @ [c]) = pieces s @ [[]]"
    by (induction s) simp_all
  then show ?thesis by (simp add: line_words_def)
qed

lemma words_length: "2 * length (line_words s) \<le> length s + (if hd (pieces s) = [] then 0 else 1)"
proof (induction s)
  case (Cons c cs)
  obtain w ws where "pieces cs = w # ws" by (meson list.exhaust pieces_not_Nil)
  with Cons show ?case by (auto simp: line_words_def split: if_splits)
qed (simp add: line_words_def)

lemma words_wire: "length (wire (line_words s)) \<le> length s + (if hd (pieces s) = [] then 0 else 1)"
proof (induction s)
  case (Cons c cs)
  obtain w ws where "pieces cs = w # ws" by (meson list.exhaust pieces_not_Nil)
  with Cons show ?case by (auto simp: line_words_def split: if_splits)
qed (simp add: line_words_def)

lemma skip_word_length:
  assumes "NUL \<notin> set s"
  shows "skip_word (before @ s @ [NUL]) (length before) =
    length before + length (takeWhile (\<lambda>c. \<not> isspace c) s)"
  using assms
proof (induction s arbitrary: before)
  case Nil
  then show ?case by (subst skip_word.simps) simp
next
  case (Cons c cs)
  show ?case
  proof (cases "isspace c")
    case True
    then show ?thesis by (subst skip_word.simps) simp
  next
    case False
    moreover have "c \<noteq> NUL" using Cons.prems by auto
    ultimately show ?thesis
      using Cons.prems Cons.IH [of "before @ [c]"] by (subst skip_word.simps) simp
  qed
qed

text \<open>Breaking the rest of a line: the white space becomes NUL, and the positions are those of the words.\<close>

definition blanked :: "string \<Rightarrow> string" where
  "blanked s = map (\<lambda>c. if isspace c then NUL else c) s"

lemma blanked_word:
  "blanked s = takeWhile (\<lambda>c. \<not> isspace c) s @ blanked (dropWhile (\<lambda>c. \<not> isspace c) s)"
  by (induction s) (simp_all add: blanked_def)

lemma break_line_words:
  assumes "NUL \<notin> set s"
  shows "\<exists>ps. break_line (before @ s @ [NUL]) (length before) sargv = (before @ blanked s @ [NUL], sargv @ ps)
    \<and> map (cstring_at (before @ blanked s @ [NUL])) ps = map Some (line_words s)"
  using assms
proof (induction "length s" arbitrary: s before sargv rule: less_induct)
  case less
  show ?case
  proof (cases s)
    case Nil
    then show ?thesis by (subst break_line.simps) (simp add: blanked_def line_words_def)
  next
    case (Cons c cs)
    then have c: "c \<noteq> NUL" using less.prems by auto
    show ?thesis
    proof (cases "isspace c")
      case True
      with less(1) [of cs "before @ [NUL]" sargv] less.prems c show ?thesis
        by (subst break_line.simps) (simp add: Cons words_space blanked_def)
    next
      case False
      let ?w = "takeWhile (\<lambda>c. \<not> isspace c) s" and ?r = "dropWhile (\<lambda>c. \<not> isspace c) s"
      have s: "s = ?w @ ?r" by simp
      have "length ?r < length s" using False by (simp add: Cons le_imp_less_Suc length_dropWhile_le)
      moreover have "NUL \<notin> set ?r" using less.prems by (metis Un_iff s set_append)
      ultimately obtain ps where
        ps: "break_line ((before @ ?w) @ ?r @ [NUL]) (length (before @ ?w)) (sargv @ [length before])
          = ((before @ ?w) @ blanked ?r @ [NUL], (sargv @ [length before]) @ ps)"
          "map (cstring_at ((before @ ?w) @ blanked ?r @ [NUL])) ps = map Some (line_words ?r)"
        using less(1) by blast
      have buf: "before @ s @ [NUL] = (before @ ?w) @ ?r @ [NUL]" by simp
      have bl: "before @ blanked s @ [NUL] = (before @ ?w) @ blanked ?r @ [NUL]"
        using blanked_word [of s] by simp
      have run: "break_line (before @ s @ [NUL]) (length before) sargv
          = break_line (before @ s @ [NUL]) (length (before @ ?w)) (sargv @ [length before])"
        using False c skip_word_length [OF less.prems, of before]
        by (subst break_line.simps) (simp add: Cons)
      have "takeWhile (\<lambda>c. c \<noteq> NUL) (?w @ blanked ?r @ [NUL]) = ?w"
      proof -
        have "\<forall>c \<in> set ?w. c \<noteq> NUL" using less.prems set_takeWhileD by fastforce
        moreover have "takeWhile (\<lambda>c. c \<noteq> NUL) (blanked ?r @ [NUL]) = []"
        proof (cases ?r)
          case Nil
          show ?thesis unfolding Nil by (simp add: blanked_def)
        next
          case (Cons d ds)
          show ?thesis using pieces_space [OF Cons] unfolding Cons by (simp add: blanked_def)
        qed
        ultimately show ?thesis by (simp add: takeWhile_append)
      qed
      then have "cstring_at (before @ blanked s @ [NUL]) (length before) = Some ?w"
        unfolding bl by (simp add: cstring_at_def)
      moreover have "line_words s = ?w # line_words ?r" using words_word [OF False] by (simp add: Cons)
      ultimately show ?thesis using run ps unfolding buf bl by (intro exI [of _ "length before # ps"]) simp
    qed
  qed
qed

text \<open>The words of a line are found, and \<open>sargv\<close> has room for all of them: \<open>fgets\<close> gives at most 1023 bytes.\<close>

lemma line_args_words:
  assumes "NUL \<notin> set ln"
  shows "line_args (ln @ [NUL]) = line_words ln \<and> 2 * length (line_args (ln @ [NUL])) \<le> length ln + 1"
proof -
  obtain ps where ps: "break_line (ln @ [NUL]) 0 [] = (blanked ln @ [NUL], ps)"
    "map (cstring_at (blanked ln @ [NUL])) ps = map Some (line_words ln)"
    using break_line_words [OF assms, of "[]" "[]"] by auto
  have "line_args (ln @ [NUL]) = map the (map (cstring_at (blanked ln @ [NUL])) ps)"
    by (simp add: line_args_def ps(1))
  then have "line_args (ln @ [NUL]) = line_words ln" unfolding ps(2) by (simp add: o_def)
  with words_length [of ln] show ?thesis by (auto split: if_splits)
qed

lemma words_no_NUL: "NUL \<notin> set ln \<Longrightarrow> \<forall>a \<in> set (line_words ln). \<forall>c \<in> set a. c \<noteq> NUL"
proof -
  have "a \<in> set (pieces s) \<Longrightarrow> set a \<subseteq> set s" for a s
  proof (induction s arbitrary: a)
    case (Cons c cs)
    obtain w ws where "pieces cs = w # ws" by (meson list.exhaust pieces_not_Nil)
    with Cons.prems Cons.IH [of w] Cons.IH [of a] show ?case by (auto split: if_splits)
  qed simp
  then show "NUL \<notin> set ln \<Longrightarrow> \<forall>a \<in> set (line_words ln). \<forall>c \<in> set a. c \<noteq> NUL"
    by (auto simp: line_words_def)
qed

text \<open>
  C35:
  A whole line typed to the controller, of at most 1022 characters and not blank, is sent to the
  daemon as a message that the daemon splits into exactly the words of the line.
\<close>

theorem x52ctl_line_received:
  assumes "ln = s @ ''\<newline>''" and "length s \<le> 1022" and "NUL \<notin> set s" and "line_words s \<noteq> []"
  shows "\<exists>n buf. x52d_format_command (Some (line_args (ln @ [NUL]))) True 1024 = Inr (n, buf)
    \<and> map (cstring_at buf) (x52d_split_args buf n) = map Some (line_words s)"
proof -
  have "isspace newline" by code_simp
  with words_snoc have w: "line_words ln = line_words s" by (simp add: assms(1))
  have "NUL \<notin> set ln" using assms(1,3) by simp
  then have a: "line_args (ln @ [NUL]) = line_words s" using line_args_words w by simp
  have "length (wire (line_words s)) < X52D_BUFSZ"
    using words_wire [of s] assms(2) by (auto simp: X52D_BUFSZ_def split: if_splits)
  with format_split [OF assms(4) words_no_NUL [OF assms(3)]] show ?thesis
    unfolding a by (auto simp: X52D_BUFSZ_def)
qed

theorem x52ctl_line_received_witness:
  "\<exists>n buf. x52d_format_command (Some (line_args ('' logging  show\<newline>'' @ [NUL]))) True 1024 = Inr (n, buf)
    \<and> map (cstring_at buf) (x52d_split_args buf n) = [Some ''logging'', Some ''show'']"
proof -
  have "line_words '' logging  show'' = [''logging'', ''show'']" by code_simp
  with x52ctl_line_received [of "'' logging  show\<newline>''" "'' logging  show''"] show ?thesis by simp
qed

text \<open>
  An empty or blank line ends the interactive session with status 1, without a message and
  without asking the daemon: \<open>x52d_format_command\<close> refuses no arguments with \<open>EINVAL\<close>, which is
  only reported for \<open>E2BIG\<close>.
\<close>

lemma x52ctl_blank_line:
  assumes "list_all isspace ln"
  shows "ctl_loop P sock_fd (ln # lns) w = Some (1, [], w)"
proof -
  have nul: "NUL \<notin> set ln" using assms by (auto simp: list_all_iff isspace_def)
  have "list_all isspace s \<Longrightarrow> line_words s = []" for s
    by (induction s) (simp_all add: words_space, simp add: line_words_def)
  with assms have a: "line_args (ln @ [NUL]) = []" using line_args_words [OF nul] by simp
  have q: "\<not> strcaseeq ln ''quit\<newline>''"
  proof
    assume "strcaseeq ln ''quit\<newline>''"
    then have "map tolower ln = ''quit\<newline>''" by (simp add: strcaseeq_def) (code_simp)
    then obtain c cs where "ln = c # cs" "tolower c = CHR ''q''" by (cases ln) auto
    moreover have "isspace c" using assms calculation(1) by simp
    ultimately show False by (auto simp: isspace_def tolower_def Let_def split: if_splits)
  qed
  have "takeWhile (\<lambda>c. c \<noteq> NUL) (ln @ [NUL]) = ln" 
  proof -
    have "\<forall>c \<in> set ln. c \<noteq> NUL" using nul by auto
    then show ?thesis by (simp add: takeWhile_append)
  qed
  then have "cstring_at (ln @ [NUL]) 0 = Some ln" by (simp add: cstring_at_def)
  with q show ?thesis by (simp add: a send_command_def x52d_format_command_def)
qed

theorem x52ctl_blank_line_witness:
  "ctl_loop P 5 [''\<newline>'', ''logging show\<newline>''] w = Some (1, [], w)"
proof -
  have "list_all isspace ''\<newline>''" by code_simp
  then show ?thesis by (rule x52ctl_blank_line)
qed

end
