(* ===== verification/X52_Evtest.thy ===== *)
theory X52_Evtest
  imports X52io_Device
begin

text \<open>
  The two programs that only read from the joystick: \<open>evtest/ev_test.c\<close>, which prints the
  changes of the reports, and \<open>bugreport/bugreport.c\<close>, which prints what is known of the system
  and of the device. Both are functions of an implementation of hidapi and its world.

  A line about the device is the call that prints it with its arguments; the words around the
  arguments and their translation are left out. A string that the library does not have is
  passed to \<open>%s\<close> as a null pointer and stays \<open>None\<close>.

  The last section shows what the printed changes say of the joystick.
\<close>

section \<open>Output\<close>

datatype ev_line =
    EvError string
  | EvDeviceId u16 u16 u16
  | EvDeviceName "string option" "string option"
  | EvSerial "string option"
  | EvTesting
  | EvEvent "int \<times> int" "string option" int
  | EvBlank

section \<open>The event tester\<close>

text \<open>
  The surroundings of a run: the value of \<open>exit_loop\<close> when the loop reads it, which the signal
  handler sets, the time of day, \<open>calloc\<close> in \<open>libx52io_init\<close> and the translations of libx52io.
\<close>

record 'w ev_env =
  ev_exit_loop :: "'w \<Rightarrow> bool"
  ev_gettimeofday :: "'w \<Rightarrow> int \<times> int"
  ev_calloc :: bool
  ev_gettext :: "string \<Rightarrow> string"

definition denoise :: bool where
  "denoise = True"

text \<open>The loop that sets up the masks, with the code of the first failure.\<close>

fun init_denoise :: "libx52io_context option \<Rightarrow> nat list \<Rightarrow> int list \<Rightarrow> libx52io_error_code \<times> int list" where
  "init_denoise ctx [] masks = (LIBX52IO_SUCCESS, masks)"
| "init_denoise ctx (i # idx) masks =
     (case libx52io_get_axis_range ctx (int i) True True of
        (rc, rng) \<Rightarrow>
          if rc \<noteq> LIBX52IO_SUCCESS then (rc, masks)
          else init_denoise ctx idx (masks[i := NOT (drop_bit 6 (snd (the rng)))]))"

definition axis_events ::
  "bool \<Rightarrow> int list \<Rightarrow> int \<times> int \<Rightarrow> libx52io_report \<Rightarrow> libx52io_report \<Rightarrow> ev_line list" where
  "axis_events dn masks tv prev cur =
     concat (map (\<lambda>axis.
       if rep_axis prev ! axis \<noteq> rep_axis cur ! axis then
         (if dn \<and> (rep_axis prev ! axis AND masks ! axis) = (rep_axis cur ! axis AND masks ! axis) then []
          else [EvEvent tv (libx52io_axis_to_str (int axis)) (rep_axis cur ! axis)])
       else []) [0..<LIBX52IO_AXIS_MAX])"

definition button_events ::
  "int \<times> int \<Rightarrow> libx52io_report \<Rightarrow> libx52io_report \<Rightarrow> ev_line list" where
  "button_events tv prev cur =
     concat (map (\<lambda>btn.
       if rep_button prev ! btn \<noteq> rep_button cur ! btn then
         [EvEvent tv (libx52io_button_to_str (int btn)) (of_bool (rep_button cur ! btn))]
       else []) [0..<LIBX52IO_BUTTON_MAX])"

record ev_state =
  ev_last :: libx52io_report
  ev_curr :: libx52io_report
  ev_out :: "ev_line list"

text \<open>
  The body of the loop, and whether the loop goes on. The padding of the reports is zero in
  both, so \<open>memcmp\<close> compares their fields.
\<close>

definition ev_round ::
  "'w hidapi \<Rightarrow> 'w ev_env \<Rightarrow> libx52io_context option \<Rightarrow> bool \<Rightarrow> int list \<Rightarrow> ev_state \<Rightarrow> 'w \<Rightarrow>
   bool \<times> ev_state \<times> 'w" where
  "ev_round H E ctx dn masks s w =
     (case libx52io_read_timeout H ctx (Some (ev_curr s)) 1000 w of
        (rc, cur, w') \<Rightarrow>
          let s1 = s\<lparr>ev_curr := the cur\<rparr>
          in if rc = LIBX52IO_ERROR_TIMEOUT then (True, s1, w')
             else if rc \<noteq> LIBX52IO_SUCCESS then (False, s1, w')
             else if ev_last s1 = ev_curr s1 then (True, s1, w')
             else
               (let tv = ev_gettimeofday E w';
                    events = axis_events dn masks tv (ev_last s1) (ev_curr s1)
                      @ button_events tv (ev_last s1) (ev_curr s1);
                    printed = (events \<noteq> [])
                in (True, s1\<lparr>ev_last := ev_curr s1,
                      ev_out := ev_out s1 @ events @ (if printed then [EvBlank] else [])\<rparr>, w')))"

partial_function (option) ev_loop ::
  "'w hidapi \<Rightarrow> 'w ev_env \<Rightarrow> libx52io_context option \<Rightarrow> bool \<Rightarrow> int list \<Rightarrow> ev_state \<Rightarrow> 'w \<Rightarrow>
   (ev_state \<times> 'w) option" where
  "ev_loop H E ctx dn masks s w =
     (if ev_exit_loop E w then Some (s, w)
      else case ev_round H E ctx dn masks s w of
        (go, s', w') \<Rightarrow> if go then ev_loop H E ctx dn masks s' w' else Some (s', w'))"

declare ev_loop.simps [code]

definition device_lines :: "libx52io_context option \<Rightarrow> ev_line list" where
  "device_lines ctx =
     [EvDeviceId (libx52io_get_vendor_id ctx) (libx52io_get_product_id ctx) (libx52io_get_device_version ctx),
      EvDeviceName (libx52io_get_manufacturer_string ctx) (libx52io_get_product_string ctx),
      EvSerial (libx52io_get_serial_number_string ctx)]"

text \<open>The end of both programs.\<close>

definition close_and_exit :: "'w hidapi \<Rightarrow> libx52io_context option \<Rightarrow> 'w \<Rightarrow> 'w" where
  "close_and_exit H ctx w =
     (case libx52io_close H ctx w of (_, ctx', w') \<Rightarrow> snd (libx52io_exit H ctx' w'))"

text \<open>The exit status, the output and the world; \<open>None\<close> when the loop never ends.\<close>

definition ev_main :: "'w hidapi \<Rightarrow> 'w ev_env \<Rightarrow> 'w \<Rightarrow> (int \<times> ev_line list \<times> 'w) option" where
  "ev_main H E w =
     (let check = (\<lambda>rc w. Some (io_error_code rc,
            [EvError (libx52io_strerror (ev_gettext E) (io_error_code rc))], w))
      in case libx52io_init H True (ev_calloc E) w of (rc, ctx, w1) \<Rightarrow>
        if rc \<noteq> LIBX52IO_SUCCESS then check rc w1
        else case libx52io_open H ctx w1 of (rc, ctx, w2) \<Rightarrow>
          if rc \<noteq> LIBX52IO_SUCCESS then check rc w2
          else case (if denoise then init_denoise ctx [0..<LIBX52IO_AXIS_MAX] (replicate LIBX52IO_AXIS_MAX 0)
                     else (LIBX52IO_SUCCESS, replicate LIBX52IO_AXIS_MAX 0)) of (rc, masks) \<Rightarrow>
            if rc \<noteq> LIBX52IO_SUCCESS then check rc w2
            else
              map_option (\<lambda>(s, w3). (0, ev_out s, close_and_exit H ctx w3))
              (ev_loop H E ctx denoise masks
                 \<lparr>ev_last = zero_report, ev_curr = zero_report, ev_out = device_lines ctx @ [EvTesting]\<rparr> w2))"

section \<open>The bug report\<close>

text \<open>
  A line of text, or one of the lines about the device. What the build fixes (\<open>version-info.h\<close> is
  generated) and what libusb, hidapi and \<open>uname\<close> report is given; a failed \<open>uname\<close> gives the text
  of its error.
\<close>

datatype bug_line = BugText string | BugDevice ev_line

record bug_env =
  VERSION :: string
  BUILD_VERSION :: string
  BUILD_HOST :: string
  BUILD_COMPILER :: string
  BUILD_DATE :: string
  BUILD_VERSION_INFO_IDENT :: string
  LIBUSB_API_VERSION :: u32
  HID_API_VERSION_STR :: "string option"
  libusb_get_version :: "(nat \<times> nat \<times> nat \<times> nat) \<times> string \<times> string"
  hid_version_str :: string
  bug_uname :: "string + (string \<times> string \<times> string \<times> string)"
  bug_gettext :: "string \<Rightarrow> string"
  bug_calloc :: bool

definition print_sysinfo :: "bug_env \<Rightarrow> bug_line list" where
  "print_sysinfo E = [BugText '''', BugText ''System info:'', BugText ''============''] @
     (case bug_uname E of
        Inl err \<Rightarrow> [BugText (''Unable to get system info: '' @ err)]
      | Inr (sysname, release, machine, version) \<Rightarrow>
          [BugText (sysname @ '' '' @ release @ '' '' @ machine @ '' ('' @ version @ '')'')])"

definition print_devinfo :: "'w hidapi \<Rightarrow> bug_env \<Rightarrow> 'w \<Rightarrow> bug_line list \<times> 'w" where
  "print_devinfo H E w =
     (let out = [BugText '''', BugText ''Device info:'', BugText ''============''];
          failed = (\<lambda>rc. out @ [BugText (libx52io_strerror (bug_gettext E) (io_error_code rc))])
      in case libx52io_init H True (bug_calloc E) w of (rc, ctx, w1) \<Rightarrow>
        if rc \<noteq> LIBX52IO_SUCCESS then (failed rc, w1)
        else case libx52io_open H ctx w1 of (rc, ctx, w2) \<Rightarrow>
          if rc \<noteq> LIBX52IO_SUCCESS then (failed rc, snd (libx52io_exit H ctx w2))
          else (out @ map BugDevice (device_lines ctx), close_and_exit H ctx w2))"

definition print_versions :: "bug_env \<Rightarrow> bug_line list" where
  "print_versions E = map BugText
     ([''libx52 bugreport'', ''================'',
       ''Package version: '' @ VERSION E, ''Build version: '' @ BUILD_VERSION E, ''Built on: '' @ BUILD_HOST E,
       ''Compiler: '' @ BUILD_COMPILER E, ''Build date: '' @ BUILD_DATE E,
       ''version-info '' @ BUILD_VERSION_INFO_IDENT E,
       '''', ''Built against:'', ''=============='',
       ''libusb API version: 0x'' @ fmt_0x 8 (unat (LIBUSB_API_VERSION E))]
      @ (case HID_API_VERSION_STR E of None \<Rightarrow> [] | Some v \<Rightarrow> [''hidapi version: '' @ v])
      @ ['''', ''System versions:'', ''================'',
         (case libusb_get_version E of ((major, minor, micro, nano), rc, describe) \<Rightarrow>
            ''libusb: '' @ fmt_d (int major) @ ''.'' @ fmt_d (int minor) @ ''.'' @ fmt_d (int micro)
            @ ''.'' @ fmt_d (int nano) @ rc @ '' ('' @ describe @ '')'')]
      @ (case HID_API_VERSION_STR E of None \<Rightarrow> [] | Some _ \<Rightarrow> [''hidapi: '' @ hid_version_str E]))"

definition bugreport_main :: "'w hidapi \<Rightarrow> bug_env \<Rightarrow> 'w \<Rightarrow> int \<times> bug_line list \<times> 'w" where
  "bugreport_main H E w = (case print_devinfo H E w of
     (out, w') \<Rightarrow> (0, print_versions E @ print_sysinfo E @ out, w'))"

text \<open>
  Without a joystick the report is still complete: it ends with the message of the error, and
  what \<open>libx52io_init\<close> set up is released.
\<close>

lemma bugreport_without_joystick:
  assumes "libx52io_init H True (bug_calloc E) w = (LIBX52IO_SUCCESS, Some c, w1)"
    and "libx52io_open H (Some c) w1 = (rc, ctx, w2)" and "rc \<noteq> LIBX52IO_SUCCESS"
  shows "\<exists>out. bugreport_main H E w = (0, out, snd (libx52io_exit H ctx w2))
    \<and> last out = BugText (libx52io_strerror (bug_gettext E) (io_error_code rc))"
  using assms by (simp add: bugreport_main_def print_devinfo_def Let_def)

section \<open>What the events show\<close>

text \<open>The last value printed under a name, or what was known before.\<close>

fun shown :: "ev_line list \<Rightarrow> string option \<Rightarrow> int \<Rightarrow> int" where
  "shown [] name v = v"
| "shown (EvEvent tv n x # ls) name v = shown ls name (if n = name then x else v)"
| "shown (_ # ls) name v = shown ls name v"

lemma shown_append [simp]: "shown (xs @ ys) name v = shown ys name (shown xs name v)"
  by (induction xs name v rule: shown.induct) simp_all

text \<open>Events chosen by index, whose names are distinct.\<close>

lemma shown_events:
  fixes P :: "nat \<Rightarrow> bool" and nm :: "nat \<Rightarrow> string option" and x :: "nat \<Rightarrow> int"
  fixes tv :: "int \<times> int"
  defines "ev \<equiv> \<lambda>idx. concat (map (\<lambda>i. if P i then [EvEvent tv (nm i) (x i)] else []) idx)"
  assumes "inj_on nm (set idx)" and "distinct idx"
  shows "i \<in> set idx \<Longrightarrow> shown (ev idx) (nm i) v = (if P i then x i else v)"
    and "n \<notin> nm ` set idx \<Longrightarrow> shown (ev idx) n v = v"
proof -
  have other: "shown (ev idx) n v = v" if "n \<notin> nm ` set idx" for n v idx
    using that by (induction idx arbitrary: v) (auto simp: ev_def)
  then show "n \<notin> nm ` set idx \<Longrightarrow> shown (ev idx) n v = v" .
  show "i \<in> set idx \<Longrightarrow> shown (ev idx) (nm i) v = (if P i then x i else v)"
    using assms(2,3)
  proof (induction idx arbitrary: v)
    case (Cons j js)
    have split: "ev (j # js) = (if P j then [EvEvent tv (nm j) (x j)] else []) @ ev js" by (simp add: ev_def)
    show ?case
    proof (cases "i = j")
      case True
      with Cons.prems have "nm i \<notin> nm ` set js" by (auto simp: inj_on_def)
      with True show ?thesis by (simp add: split other)
    next
      case False
      with Cons.prems have "nm j \<noteq> nm i" "i \<in> set js" by (auto simp: inj_on_def)
      with Cons.IH [of v] Cons.prems show ?thesis by (simp add: split inj_on_def)
    qed
  qed simp
qed

lemma names_distinct: "distinct (x52io_axis_str @ x52io_button_str)"
  by code_simp

lemma names_length: "length x52io_axis_str = LIBX52IO_AXIS_MAX" "length x52io_button_str = LIBX52IO_BUTTON_MAX"
  by (simp_all add: x52io_axis_str_def x52io_button_str_def)

lemma axis_name_inj: "inj_on (\<lambda>i. libx52io_axis_to_str (int i)) (set [0..<LIBX52IO_AXIS_MAX])"
  using names_distinct names_length
  by (auto simp: inj_on_def libx52io_axis_to_str_def nth_eq_iff_index_eq simp del: upt_rec_numeral)

lemma button_name_inj: "inj_on (\<lambda>i. libx52io_button_to_str (int i)) (set [0..<LIBX52IO_BUTTON_MAX])"
  using names_distinct names_length
  by (auto simp: inj_on_def libx52io_button_to_str_def nth_eq_iff_index_eq simp del: upt_rec_numeral)

lemma name_kinds:
  "i < LIBX52IO_AXIS_MAX \<Longrightarrow> libx52io_axis_to_str (int i) \<notin> (\<lambda>i. libx52io_button_to_str (int i)) ` set [0..<LIBX52IO_BUTTON_MAX]"
  "i < LIBX52IO_BUTTON_MAX \<Longrightarrow> libx52io_button_to_str (int i) \<notin> (\<lambda>i. libx52io_axis_to_str (int i)) ` set [0..<LIBX52IO_AXIS_MAX]"
proof -
  have ne: "x52io_axis_str ! i \<noteq> x52io_button_str ! j"
    if "i < LIBX52IO_AXIS_MAX" "j < LIBX52IO_BUTTON_MAX" for i j
    using names_distinct names_length that nth_mem by (metis disjoint_iff distinct_append)
  show "i < LIBX52IO_AXIS_MAX \<Longrightarrow> libx52io_axis_to_str (int i) \<notin> (\<lambda>i. libx52io_button_to_str (int i)) ` set [0..<LIBX52IO_BUTTON_MAX]"
    using ne by (auto simp: libx52io_axis_to_str_def libx52io_button_to_str_def simp del: upt_rec_numeral)
  show "i < LIBX52IO_BUTTON_MAX \<Longrightarrow> libx52io_button_to_str (int i) \<notin> (\<lambda>i. libx52io_axis_to_str (int i)) ` set [0..<LIBX52IO_AXIS_MAX]"
    using ne [of _ i] by (force simp: libx52io_axis_to_str_def libx52io_button_to_str_def simp del: upt_rec_numeral)
qed

lemma init_denoise_masks:
  assumes "io_handle c = Some h" and "set idx \<subseteq> {..<LIBX52IO_AXIS_MAX}" and "distinct idx"
    and "length masks = LIBX52IO_AXIS_MAX"
  shows "\<exists>masks'. init_denoise (Some c) idx masks = (LIBX52IO_SUCCESS, masks') \<and> length masks' = LIBX52IO_AXIS_MAX
    \<and> (\<forall>i < LIBX52IO_AXIS_MAX. masks' ! i = (if i \<in> set idx then NOT (drop_bit 6 (io_max c ! i)) else masks ! i))"
  using assms(2-)
proof (induction idx arbitrary: masks)
  case (Cons i idx)
  let ?m = "masks[i := NOT (drop_bit 6 (io_max c ! i))]"
  have "length ?m = LIBX52IO_AXIS_MAX" using Cons.prems by simp
  with Cons.IH [of ?m] Cons.prems obtain masks' where
    "init_denoise (Some c) idx ?m = (LIBX52IO_SUCCESS, masks')" "length masks' = LIBX52IO_AXIS_MAX"
    "\<forall>j < LIBX52IO_AXIS_MAX. masks' ! j = (if j \<in> set idx then NOT (drop_bit 6 (io_max c ! j)) else ?m ! j)"
    by auto
  with Cons.prems assms(1) show ?case
    by (auto simp: libx52io_get_axis_range_def nth_list_update)
qed simp

lemma and_not_mask_int: "v AND NOT (mask k) = v - v mod 2 ^ k" for v :: int
proof -
  have "v AND NOT (mask k) = push_bit k (drop_bit k v)"
    by (rule bit_eqI) (auto simp: bit_simps not_less)
  also have "\<dots> = v - take_bit k v"
    using bits_ident [of k v] by linarith
  finally show ?thesis by (simp add: take_bit_eq_mod)
qed

lemma same_bucket:
  fixes v w :: int
  assumes "v AND NOT (mask k) = w AND NOT (mask k)"
  shows "\<bar>v - w\<bar> \<le> 2 ^ k - 1"
proof -
  have "v - w = v mod 2 ^ k - w mod 2 ^ k" using assms by (simp add: and_not_mask_int)
  moreover have "0 \<le> u mod 2 ^ k \<and> u mod 2 ^ k \<le> 2 ^ k - 1" for u :: int by (simp add: zle_diff1_eq)
  ultimately show ?thesis by (smt (verit))
qed

text \<open>What was printed last agrees with the last report, on the bits that the masks keep.\<close>

definition ev_follows :: "bool \<Rightarrow> int list \<Rightarrow> ev_state \<Rightarrow> bool" where
  "ev_follows dn masks s \<longleftrightarrow>
     (\<forall>i < LIBX52IO_AXIS_MAX.
        let v = shown (ev_out s) (libx52io_axis_to_str (int i)) 0; x = rep_axis (ev_last s) ! i
        in v = x \<or> dn \<and> (v AND masks ! i) = (x AND masks ! i))
   \<and> (\<forall>i < LIBX52IO_BUTTON_MAX.
        shown (ev_out s) (libx52io_button_to_str (int i)) 0 = of_bool (rep_button (ev_last s) ! i))"

lemma axis_events_shown:
  assumes "i < LIBX52IO_AXIS_MAX"
  shows "shown (axis_events dn masks tv prev cur) (libx52io_axis_to_str (int i)) v =
    (if rep_axis prev ! i \<noteq> rep_axis cur ! i
        \<and> \<not> (dn \<and> (rep_axis prev ! i AND masks ! i) = (rep_axis cur ! i AND masks ! i))
     then rep_axis cur ! i else v)"
proof -
  let ?P = "\<lambda>i. rep_axis prev ! i \<noteq> rep_axis cur ! i
        \<and> \<not> (dn \<and> (rep_axis prev ! i AND masks ! i) = (rep_axis cur ! i AND masks ! i))"
  have "axis_events dn masks tv prev cur = concat (map (\<lambda>i. if ?P i then
      [EvEvent tv (libx52io_axis_to_str (int i)) (rep_axis cur ! i)] else []) [0..<LIBX52IO_AXIS_MAX])"
    unfolding axis_events_def by (intro arg_cong [where f = concat] map_cong) auto
  with shown_events(1) [OF axis_name_inj distinct_upt, where i = i and tv = tv and P = ?P] assms show ?thesis by simp
qed

lemma button_events_shown:
  assumes "i < LIBX52IO_BUTTON_MAX"
  shows "shown (button_events tv prev cur) (libx52io_button_to_str (int i)) v =
    (if rep_button prev ! i \<noteq> rep_button cur ! i then of_bool (rep_button cur ! i) else v)"
  using shown_events(1) [OF button_name_inj distinct_upt, where i = i and tv = tv
      and P = "\<lambda>i. rep_button prev ! i \<noteq> rep_button cur ! i"] assms
  unfolding button_events_def by simp

lemma events_shown_others:
  "i < LIBX52IO_AXIS_MAX \<Longrightarrow> shown (button_events tv prev cur) (libx52io_axis_to_str (int i)) v = v"
  "i < LIBX52IO_BUTTON_MAX \<Longrightarrow> shown (axis_events dn masks tv prev cur) (libx52io_button_to_str (int i)) v = v"
proof -
  have *: "(if a then if b then [] else e else []) = (if a \<and> \<not> b then e else [])" for a b and e :: "ev_line list"
    by simp
  show "i < LIBX52IO_AXIS_MAX \<Longrightarrow> shown (button_events tv prev cur) (libx52io_axis_to_str (int i)) v = v"
    unfolding button_events_def by (rule shown_events(2) [OF button_name_inj distinct_upt name_kinds(1)])
  show "i < LIBX52IO_BUTTON_MAX \<Longrightarrow> shown (axis_events dn masks tv prev cur) (libx52io_button_to_str (int i)) v = v"
    unfolding axis_events_def * by (rule shown_events(2) [OF axis_name_inj distinct_upt name_kinds(2)])
qed

lemma ev_round_follows:
  assumes "ev_follows dn masks s" and "ev_round H E ctx dn masks s w = (go, s', w')"
  shows "ev_follows dn masks s'"
proof -
  obtain rc cur w1 where r: "libx52io_read_timeout H ctx (Some (ev_curr s)) 1000 w = (rc, cur, w1)"
    by (metis prod_cases3)
  let ?c = "the cur" and ?tv = "ev_gettimeofday E w1"
  let ?out = "axis_events dn masks ?tv (ev_last s) ?c @ button_events ?tv (ev_last s) ?c"
  have same: "ev_follows dn masks (s\<lparr>ev_curr := x\<rparr>)" for x using assms(1) by (simp add: ev_follows_def)
  have "ev_follows dn masks (s\<lparr>ev_curr := ?c, ev_last := ?c, ev_out := ev_out s @ ?out @ b\<rparr>)"
    if "\<And>n v. shown b n v = v" for b
    using assms(1) unfolding ev_follows_def
    by (auto simp: Let_def that axis_events_shown button_events_shown events_shown_others)
  from this [of "[]"] this [of "[EvBlank]"] same assms(2) show ?thesis
    by (auto simp: ev_round_def r Let_def split: if_splits)
qed

lemma ev_loop_follows:
  assumes "ev_loop H E ctx dn masks s w = Some (s', w')" and "ev_follows dn masks s"
  shows "ev_follows dn masks s'"
proof -
  have "ev_follows dn masks s \<longrightarrow> ev_follows dn masks (fst (s', w'))"
    by (rule ev_loop.raw_induct [where P = "\<lambda>H E ctx dn masks s w x. ev_follows dn masks s \<longrightarrow>
        ev_follows dn masks (fst x)", OF _ assms(1)])
      (auto split: prod.splits if_splits dest: ev_round_follows)
  with assms(2) show ?thesis by simp
qed

text \<open>The shifted maximum of every axis is a mask, that of the thumb stick and the hat empty.\<close>

lemma axis_max_masks:
  assumes "io_ctx_wf c" and "io_handle c = Some h" and "i < LIBX52IO_AXIS_MAX"
  shows "\<exists>k. drop_bit 6 (io_max c ! i) = mask k \<and> io_max c ! i div 64 = 2 ^ k - 1"
proof -
  have "\<forall>m \<in> set x52_axis_max \<union> set x52pro_axis_max. m \<in> {2047, 1023, 255, 15, 1}"
    by (simp add: x52_axis_max_def x52pro_axis_max_def)
  moreover have "io_max c ! i \<in> set x52_axis_max \<union> set x52pro_axis_max"
    using assms by (auto simp: io_ctx_wf_def x52_axis_max_def x52pro_axis_max_def simp del: set_simps intro!: nth_mem)
  ultimately have "io_max c ! i \<in> {2047, 1023, 255, 15, 1}" by blast
  then consider "io_max c ! i = 2047" | "io_max c ! i = 1023" | "io_max c ! i = 255" | "io_max c ! i \<in> {15, 1}"
    by auto
  then show ?thesis
  proof cases
    case 1 then show ?thesis by (intro exI [of _ 5]) (simp add: drop_bit_eq_div mask_eq_exp_minus_1)
  next
    case 2 then show ?thesis by (intro exI [of _ 4]) (simp add: drop_bit_eq_div mask_eq_exp_minus_1)
  next
    case 3 then show ?thesis by (intro exI [of _ 2]) (simp add: drop_bit_eq_div mask_eq_exp_minus_1)
  next
    case 4 then show ?thesis by (intro exI [of _ 0]) (auto simp: drop_bit_eq_div)
  qed
qed

lemma ev_follows_bound:
  assumes "ev_follows dn masks s" and "io_ctx_wf c" and "io_handle c = Some h" and "i < LIBX52IO_AXIS_MAX"
    and "masks ! i = NOT (drop_bit 6 (io_max c ! i))"
  shows "\<bar>shown (ev_out s) (libx52io_axis_to_str (int i)) 0 - rep_axis (ev_last s) ! i\<bar> \<le> io_max c ! i div 64"
proof -
  obtain k where k: "drop_bit 6 (io_max c ! i) = mask k" "io_max c ! i div 64 = 2 ^ k - 1"
    using axis_max_masks [OF assms(2-4)] by blast
  let ?v = "shown (ev_out s) (libx52io_axis_to_str (int i)) 0" and ?x = "rep_axis (ev_last s) ! i"
  have "?v = ?x \<or> (?v AND NOT (mask k)) = (?x AND NOT (mask k))"
    using assms(1,4,5) k(1) by (auto simp: ev_follows_def Let_def)
  then show ?thesis
  proof
    assume "?v = ?x"
    then show ?thesis by (simp add: k(2))
  next
    assume "(?v AND NOT (mask k)) = (?x AND NOT (mask k))"
    then show ?thesis unfolding k(2) by (rule same_bucket)
  qed
qed

text \<open>The state of the loop after some of its rounds.\<close>

fun ev_after ::
  "'w hidapi \<Rightarrow> 'w ev_env \<Rightarrow> libx52io_context option \<Rightarrow> bool \<Rightarrow> int list \<Rightarrow> nat \<Rightarrow> ev_state \<Rightarrow> 'w \<Rightarrow> ev_state \<times> 'w" where
  "ev_after H E ctx dn masks 0 s w = (s, w)"
| "ev_after H E ctx dn masks (Suc n) s w =
     (case ev_round H E ctx dn masks s w of (_, s', w') \<Rightarrow> ev_after H E ctx dn masks n s' w')"

text \<open>After so many rounds the loop ends: a signal has come, or the next round stops.\<close>

definition ev_ends ::
  "'w hidapi \<Rightarrow> 'w ev_env \<Rightarrow> libx52io_context option \<Rightarrow> bool \<Rightarrow> int list \<Rightarrow> nat \<Rightarrow> ev_state \<Rightarrow> 'w \<Rightarrow> bool" where
  "ev_ends H E ctx dn masks n s w =
     (case ev_after H E ctx dn masks n s w of (s', w') \<Rightarrow>
        ev_exit_loop E w' \<or> \<not> fst (ev_round H E ctx dn masks s' w'))"

lemma ev_loop_ends: "ev_ends H E ctx dn masks n s w \<Longrightarrow> \<exists>x. ev_loop H E ctx dn masks s w = Some x"
proof (induction n arbitrary: s w)
  case 0
  then show ?case by (subst ev_loop.simps) (auto simp: ev_ends_def split: prod.splits)
next
  case (Suc n)
  then show ?case by (subst ev_loop.simps) (auto simp: ev_ends_def split: prod.splits)
qed

lemma read_error_keeps:
  assumes "libx52io_read_timeout H ctx (Some r) t w = (rc, r', w')" and "rc \<noteq> LIBX52IO_SUCCESS"
  shows "r' = Some r"
  using assms
  by (auto simp: libx52io_read_timeout_def x52io_parse_report_def parse_x52_def parse_x52pro_def Let_def
      split: option.splits x52_parser.splits prod.splits if_splits)

lemma ev_loop_last:
  assumes "ev_loop H E ctx dn masks s w = Some (s', w')" and "ev_last s = ev_curr s"
  shows "ev_last s' = ev_curr s'"
proof -
  have round: "ev_last x = ev_curr x \<Longrightarrow> ev_round H E ctx dn masks x w = (go, x', w') \<Longrightarrow> ev_last x' = ev_curr x'"
    for H :: "'a hidapi" and E ctx dn masks x w go x' w'
    by (auto simp: ev_round_def Let_def split: prod.splits if_splits dest: read_error_keeps)
  have "ev_last s = ev_curr s \<longrightarrow> ev_last (fst (s', w')) = ev_curr (fst (s', w'))"
    by (rule ev_loop.raw_induct [where P = "\<lambda>H E ctx dn masks s w x. ev_last s = ev_curr s \<longrightarrow>
        ev_last (fst x) = ev_curr (fst x)", OF _ assms(1)])
      (auto split: prod.splits if_splits dest: round)
  with assms(2) show ?thesis by simp
qed

definition ev_start :: "libx52io_context \<Rightarrow> ev_state" where
  "ev_start c = \<lparr>ev_last = zero_report, ev_curr = zero_report, ev_out = device_lines (Some c) @ [EvTesting]\<rparr>"

lemma ev_follows_start: "ev_follows dn masks (ev_start c)"
  by (simp add: ev_follows_def ev_start_def device_lines_def zero_report_def)

lemma open_ok:
  assumes "libx52io_open H (Some c0) w = (LIBX52IO_SUCCESS, Some c, w')"
  obtains h where "io_ctx_wf c" and "io_handle c = Some h"
  using assms open_ctx_wf [of H c0 w] by (auto simp: libx52io_open_def split: prod.splits)

definition ev_masks :: "libx52io_context \<Rightarrow> int list" where
  "ev_masks c = map (\<lambda>m. NOT (drop_bit 6 m)) (io_max c)"

lemma ev_main_opened:
  assumes "libx52io_init H True (ev_calloc E) w = (LIBX52IO_SUCCESS, Some c0, w1)"
    and opn: "libx52io_open H (Some c0) w1 = (LIBX52IO_SUCCESS, Some c, w2)"
  shows "ev_main H E w = map_option (\<lambda>(s, w3). (0, ev_out s, close_and_exit H (Some c) w3))
      (ev_loop H E (Some c) denoise (ev_masks c) (ev_start c) w2)"
proof -
  obtain h where c: "io_ctx_wf c" "io_handle c = Some h" using open_ok [OF opn] by blast
  then have l: "length (io_max c) = LIBX52IO_AXIS_MAX"
    by (auto simp: io_ctx_wf_def x52_axis_max_def x52pro_axis_max_def)
  from init_denoise_masks [OF c(2) _ distinct_upt length_replicate, of 0 LIBX52IO_AXIS_MAX 0]
  obtain masks where m: "init_denoise (Some c) [0..<LIBX52IO_AXIS_MAX] (replicate LIBX52IO_AXIS_MAX 0) = (LIBX52IO_SUCCESS, masks)"
    and ms: "length masks = LIBX52IO_AXIS_MAX" "\<forall>i < LIBX52IO_AXIS_MAX. masks ! i = NOT (drop_bit 6 (io_max c ! i))"
    by (auto simp: lessThan_atLeast0 simp del: upt_rec_numeral)
  have "masks = ev_masks c" using ms l by (intro nth_equalityI) (simp_all add: ev_masks_def)
  with m have "init_denoise (Some c) [0..<LIBX52IO_AXIS_MAX] (replicate LIBX52IO_AXIS_MAX 0) = (LIBX52IO_SUCCESS, ev_masks c)"
    by simp
  then show ?thesis
    unfolding ev_main_def assms Let_def prod.case ev_start_def by (simp add: denoise_def del: upt_rec_numeral)
qed

text \<open>
  C36:
  The output of the event tester follows the joystick. When the loop ends, by a signal or a read
  error, the last value printed for every axis, or 0, is within a 64th of its maximum of the last
  report, so exact for the thumb stick and the hat, and the last value printed for every button
  is its state.
\<close>

theorem evtest_log_follows:
  assumes "libx52io_init H True (ev_calloc E) w = (LIBX52IO_SUCCESS, Some c0, w1)"
    and "libx52io_open H (Some c0) w1 = (LIBX52IO_SUCCESS, Some c, w2)"
    and "ev_ends H E (Some c) denoise (ev_masks c) n (ev_start c) w2"
  shows "\<exists>s out w'. ev_main H E w = Some (0, out, w')
    \<and> map_option fst (ev_loop H E (Some c) denoise (ev_masks c) (ev_start c) w2) = Some s
    \<and> out = ev_out s \<and> ev_last s = ev_curr s
    \<and> (\<forall>a. \<bar>shown out (libx52io_axis_to_str (axis_code a)) 0 - rep_axis (ev_curr s) ! ax a\<bar> \<le> io_max c ! ax a div 64)
    \<and> (\<forall>b. shown out (libx52io_button_to_str (button_code b)) 0 = of_bool (rep_button (ev_curr s) ! bt b))"
proof -
  obtain h where c: "io_ctx_wf c" "io_handle c = Some h" using open_ok [OF assms(2)] by blast
  then have l: "length (io_max c) = LIBX52IO_AXIS_MAX"
    by (auto simp: io_ctx_wf_def x52_axis_max_def x52pro_axis_max_def)
  obtain s w3 where s: "ev_loop H E (Some c) denoise (ev_masks c) (ev_start c) w2 = Some (s, w3)"
    using ev_loop_ends [OF assms(3)] by auto
  have f: "ev_follows denoise (ev_masks c) s" by (rule ev_loop_follows [OF s ev_follows_start])
  have last: "ev_last s = ev_curr s" by (rule ev_loop_last [OF s]) (simp add: ev_start_def)
  have "\<bar>shown (ev_out s) (libx52io_axis_to_str (axis_code a)) 0 - rep_axis (ev_curr s) ! ax a\<bar> \<le> io_max c ! ax a div 64" for a
    using ev_follows_bound [OF f c, of "ax a"] axis_code_nth [of a] l by (simp add: last ev_masks_def)
  moreover have "shown (ev_out s) (libx52io_button_to_str (button_code b)) 0 = of_bool (rep_button (ev_curr s) ! bt b)" for b
    using f button_code_nth [of b] by (simp add: ev_follows_def last)
  ultimately show ?thesis
    using s last unfolding ev_main_opened [OF assms(1,2)] by simp
qed

definition demo_ev :: "u8 list list ev_env" where
  "demo_ev = \<lparr>ev_exit_loop = (\<lambda>w. w = []), ev_gettimeofday = (\<lambda>w. (0, int (length w))), ev_calloc = True,
     ev_gettext = (\<lambda>s. s)\<rparr>"

definition demo_reads :: "u8 list list" where
  "demo_reads = [full_data, full_data[0 := 0xf0]]"

lemma demo_ev_run:
  "libx52io_init hid_one True (ev_calloc demo_ev) demo_reads = (LIBX52IO_SUCCESS, Some io_calloc, demo_reads)"
  "libx52io_open hid_one (Some io_calloc) demo_reads = (LIBX52IO_SUCCESS, Some hid_one_ctx, demo_reads)"
  "ev_ends hid_one demo_ev (Some hid_one_ctx) denoise (ev_masks hid_one_ctx) 2 (ev_start hid_one_ctx) demo_reads"
  "map_option (\<lambda>(rc, out, w). (shown out (Some ''ABS_X'') 0, shown out (Some ''BTN_TRIGGER'') 0))
     (ev_main hid_one demo_ev demo_reads) = Some (2047, 1)"
  "map_option (\<lambda>(s, w). rep_axis (ev_curr s) ! 0)
     (ev_loop hid_one demo_ev (Some hid_one_ctx) denoise (ev_masks hid_one_ctx) (ev_start hid_one_ctx) demo_reads) = Some 2032"
  "io_max hid_one_ctx ! 0 = 2047"
  by code_simp+

theorem evtest_log_follows_witness:
  "\<exists>out w'. ev_main hid_one demo_ev demo_reads = Some (0, out, w') \<and> shown out (Some ''ABS_X'') 0 = 2047
    \<and> \<bar>shown out (libx52io_axis_to_str 0) 0 - 2032\<bar> \<le> 31"
proof -
  from evtest_log_follows [OF demo_ev_run(1-3)] demo_ev_run(4)
  obtain s out w' where m: "ev_main hid_one demo_ev demo_reads = Some (0, out, w')" "shown out (Some ''ABS_X'') 0 = 2047"
    and s: "map_option fst (ev_loop hid_one demo_ev (Some hid_one_ctx) denoise (ev_masks hid_one_ctx)
        (ev_start hid_one_ctx) demo_reads) = Some s"
    and b: "\<forall>a. \<bar>shown out (libx52io_axis_to_str (axis_code a)) 0 - rep_axis (ev_curr s) ! ax a\<bar>
        \<le> io_max hid_one_ctx ! ax a div 64" by auto
  have "rep_axis (ev_curr s) ! 0 = 2032" using s demo_ev_run(5) by auto
  with spec [OF b, of LIBX52IO_AXIS_X] demo_ev_run(6) m show ?thesis by auto
qed

text \<open>A read error ends the program with status 0 and without a message.\<close>

lemma ev_read_error:
  assumes "libx52io_init H True (ev_calloc E) w = (LIBX52IO_SUCCESS, Some c0, w1)"
    and "libx52io_open H (Some c0) w1 = (LIBX52IO_SUCCESS, Some c, w2)"
    and "\<not> ev_exit_loop E w2"
    and "libx52io_read_timeout H (Some c) (Some zero_report) 1000 w2 = (rc, r, w3)"
    and "rc \<noteq> LIBX52IO_SUCCESS" and "rc \<noteq> LIBX52IO_ERROR_TIMEOUT"
  shows "ev_main H E w = Some (0, device_lines (Some c) @ [EvTesting], close_and_exit H (Some c) w3)"
proof -
  have "fst (ev_round H E (Some c) denoise (ev_masks c) (ev_start c) w2) = False"
    "snd (ev_round H E (Some c) denoise (ev_masks c) (ev_start c) w2) = (ev_start c\<lparr>ev_curr := the r\<rparr>, w3)"
    using assms(4-6) by (simp_all add: ev_round_def ev_start_def Let_def)
  then have "ev_loop H E (Some c) denoise (ev_masks c) (ev_start c) w2 = Some (ev_start c\<lparr>ev_curr := the r\<rparr>, w3)"
    using assms(3) by (subst ev_loop.simps) (simp add: split_beta)
  then show ?thesis unfolding ev_main_opened [OF assms(1,2)] by (simp add: ev_start_def)
qed

end
