(* ===== verification/X52test.thy ===== *)
theory X52test
  imports Libx52_Session
begin

text \<open>
  The test program \<open>x52test\<close> (\<open>joytest\<close>): the six tests of \<open>x52_test_mfd.c\<close>,
  \<open>x52_test_led.c\<close> and \<open>x52_test_clock.c\<close>, the macro \<open>TEST\<close> of \<open>x52_test_common.h\<close>, and the
  selection of tests, the cleanup and \<open>main\<close> of \<open>x52_test.c\<close>.

  A test is the list of its steps: a message, a delay, or a setting that is sent with an update.
  The global device, the output and the time slept are the state. The signal handler runs at any
  time; what it stored is seen where \<open>test_exit\<close> is read, and the surroundings give the signal
  that each reading finds. Messages are those of the source, before translation.
\<close>

section \<open>State and output\<close>

datatype test_line = TestOut string | TestErr string

record test_env = clock_env +
  te_time :: int
  te_signal :: "nat \<Rightarrow> nat"
  te_nodelay :: bool
  te_calloc :: bool
  te_gettext :: "string \<Rightarrow> string"
  te_strsignal :: "nat \<Rightarrow> string"

record 'w test_state =
  ts_dev :: libx52_device
  ts_reads :: nat
  ts_slept :: nat
  ts_out :: "test_line list"
  ts_world :: 'w

text \<open>The value of \<open>test_exit\<close> at its next reading: 0, or the negated signal.\<close>

definition signal_handler :: "nat \<Rightarrow> int" where
  "signal_handler sig = - int sig"

definition read_test_exit :: "test_env \<Rightarrow> 'w test_state \<Rightarrow> int \<times> 'w test_state" where
  "read_test_exit E s = (signal_handler (te_signal E (ts_reads s)), s\<lparr>ts_reads := Suc (ts_reads s)\<rparr>)"

definition say :: "test_line \<Rightarrow> 'w test_state \<Rightarrow> 'w test_state" where
  "say l s = s\<lparr>ts_out := ts_out s @ [l]\<rparr>"

section \<open>The macro TEST\<close>

text \<open>The setter that \<open>libx52_set_ ## tst\<close> names.\<close>

fun libx52_set :: "x52_call \<Rightarrow> libx52_device option \<Rightarrow> libx52_error_code \<times> libx52_device option" where
  "libx52_set (SetText ln txt len) dev = libx52_set_text dev ln (Some txt) len"
| "libx52_set (SetLedState led state) dev = libx52_set_led_state dev led state"
| "libx52_set (SetBrightness mfd v) dev = libx52_set_brightness dev mfd v"
| "libx52_set (SetShift state) dev = libx52_set_shift dev state"
| "libx52_set (SetBlink state) dev = libx52_set_blink dev state"
| "libx52_set (SetClock env time lcl) dev = libx52_set_clock env dev time lcl"
| "libx52_set (SetTime h m) dev = libx52_set_time dev h m"
| "libx52_set (SetDate dd mm yy) dev = libx52_set_date dev dd mm yy"
| "libx52_set (SetClockTimezone c off) dev = libx52_set_clock_timezone dev c off"
| "libx52_set (SetClockFormat c f) dev = libx52_set_clock_format dev c f"
| "libx52_set (SetDateFormat f) dev = libx52_set_date_format dev f"

lemma libx52_set_call: "libx52_set c (Some d) = (fst (call_dev c d), Some (snd (call_dev c d)))"
  by (cases c) (simp_all add: libx52_set_defs del: call_dev.simps, simp_all)

text \<open>A setter on the global device.\<close>

definition set_dev :: "x52_call \<Rightarrow> 'w test_state \<Rightarrow> libx52_error_code \<times> 'w test_state" where
  "set_dev c s = (case libx52_set c (Some (ts_dev s)) of (rc, x) \<Rightarrow> (rc, s\<lparr>ts_dev := the x\<rparr>))"

definition update_dev :: "'w libusb \<Rightarrow> 'w test_state \<Rightarrow> libx52_error_code \<times> 'w test_state" where
  "update_dev U s = (case libx52_update U (ts_dev s) (ts_world s) of
     (rc, d, w) \<Rightarrow> (rc, s\<lparr>ts_dev := d, ts_world := w\<rparr>))"

definition failed_text :: "test_env \<Rightarrow> string \<Rightarrow> libx52_error_code \<Rightarrow> string" where
  "failed_text E what rc = ''\<newline>'' @ what @ '' failed with '' @ fmt_d (error_code rc) @ ''(''
     @ libx52_strerror (te_gettext E) (error_code rc) @ '')\<newline>''"

text \<open>The result 0 goes on; \<open>call\<close> is the text \<open>tst(args)\<close> of the macro's arguments.\<close>

definition TEST :: "'w libusb \<Rightarrow> test_env \<Rightarrow> string \<Rightarrow> x52_call \<Rightarrow> 'w test_state \<Rightarrow> int \<times> 'w test_state" where
  "TEST U E txt c s =
     (case set_dev c s of (rc, s1) \<Rightarrow>
        if rc \<noteq> LIBX52_SUCCESS then (error_code rc, say (TestErr (failed_text E txt rc)) s1)
        else case read_test_exit E s1 of (x1, s2) \<Rightarrow>
          if x1 \<noteq> 0 then (x1, s2)
          else case update_dev U s2 of (rc, s3) \<Rightarrow>
            if rc \<noteq> LIBX52_SUCCESS then (error_code rc, say (TestErr (failed_text E ''update'' rc)) s3)
            else read_test_exit E s3)"

section \<open>Tests\<close>

datatype test_step = Say string | Delay nat | Test string x52_call

fun run_steps :: "'w libusb \<Rightarrow> test_env \<Rightarrow> test_step list \<Rightarrow> 'w test_state \<Rightarrow> int \<times> 'w test_state" where
  "run_steps U E [] s = (0, s)"
| "run_steps U E (Say m # ss) s = run_steps U E ss (say (TestOut m) s)"
| "run_steps U E (Delay us # ss) s =
     run_steps U E ss (if te_nodelay E then s else s\<lparr>ts_slept := ts_slept s + us\<rparr>)"
| "run_steps U E (Test txt c # ss) s =
     (case TEST U E txt c s of (rc, s') \<Rightarrow> if rc \<noteq> 0 then (rc, s') else run_steps U E ss s')"

definition print_banner :: "string \<Rightarrow> test_step list" where
  "print_banner message =
     (let rule = CHR 0x09 # replicate (length message + 2) CHR ''='' @ ''\<newline>''
      in [Say ''\<newline>'', Say rule, Say (CHR 0x09 # '' '' @ message @ ''\<newline>''), Say rule])"

definition brightness_loop :: "string \<Rightarrow> u8 \<Rightarrow> test_step list" where
  "brightness_loop txt mfd = concat (map (\<lambda>i.
     (if i mod 4 = 0 then [Say ''#''] else [])
     @ [Test txt (SetBrightness mfd (of_nat i)), Delay 250000]) [0..<129])"

definition brightness_steps :: "test_step list" where
  "brightness_steps = print_banner ''Brightness''
     @ [Say ''This test cycles through the MFD and LED brightness scales\<newline>'',
        Say ''\<newline>    |+---+---+---+---+---+---+---+---+|'', Say ''\<newline>MFD: '']
     @ brightness_loop ''brightness(1, i)'' 1
     @ [Say ''\<newline>LED: ''] @ brightness_loop ''brightness(0, i)'' 0
     @ [Say ''\<newline>\<newline>'']"

definition test_brightness :: "'w libusb \<Rightarrow> test_env \<Rightarrow> 'w test_state \<Rightarrow> int \<times> 'w test_state" where
  "test_brightness U E = run_steps U E brightness_steps"

text \<open>The range that \<open>test_mfd_text\<close> prints into 16 characters.\<close>

definition text_range :: "nat \<Rightarrow> string" where
  "text_range i = take 15 (''0x'' @ fmt_0x 2 i @ '' - 0x'' @ fmt_0x 2 (i + 15))"

definition text_cells :: "nat \<Rightarrow> u8 list" where
  "text_cells i = concat (map (\<lambda>j. [of_nat (i + j), 0x20]) [0..<16])"

definition mfd_text_steps :: "test_step list" where
  "mfd_text_steps = print_banner ''MFD text''
     @ [Say ''This test tests the character displays of the MFD\<newline>\<newline>'']
     @ concat (map (\<lambda>k.
         let i = 16 * k; str = text_range i
         in [Say (''Writing characters '' @ str @ ''\<newline>''),
             Test ''text(0, str, j)'' (SetText 0 (\<lambda>n. of_char (str ! n)) (of_nat (length str))),
             Test ''text(1, str, 16)'' (SetText 1 (\<lambda>n. text_cells i ! n) 16),
             Test ''text(2, str + 16, 16)'' (SetText 2 (\<lambda>n. text_cells i ! (16 + n)) 16),
             Delay 2000000]) [0..<16])"

definition test_mfd_text :: "'w libusb \<Rightarrow> test_env \<Rightarrow> 'w test_state \<Rightarrow> int \<times> 'w test_state" where
  "test_mfd_text U E = run_steps U E mfd_text_steps"

definition mfd_display_steps :: "test_step list" where
  "mfd_display_steps = print_banner ''MFD display''
     @ [Say (''This test checks if the display elements can display all characters\<newline>''
          @ ''You should see the display cycling through each character, with every\<newline>''
          @ ''cell displaying the same character\<newline>\<newline>'')]
     @ concat (map (\<lambda>i.
         [Say (''Testing character 0x'' @ fmt_0x 2 i @ ''...''),
          Test ''text(0, str, 16)'' (SetText 0 (\<lambda>_. of_nat i) 16),
          Test ''text(1, str, 16)'' (SetText 1 (\<lambda>_. of_nat i) 16),
          Test ''text(2, str, 16)'' (SetText 2 (\<lambda>_. of_nat i) 16),
          Say ''OK\<newline>'', Delay 500000]) [0..<256])"

definition test_mfd_display :: "'w libusb \<Rightarrow> test_env \<Rightarrow> 'w test_state \<Rightarrow> int \<times> 'w test_state" where
  "test_mfd_display U E = run_steps U E mfd_display_steps"

definition TEST_LED :: "string \<times> libx52_led_id \<Rightarrow> string \<times> libx52_led_state \<Rightarrow> test_step list" where
  "TEST_LED led state =
     [Say (''LED '' @ fst led @ '' - '' @ fst state @ ''\<newline>''),
      Test (''led_state(LIBX52_LED_'' @ fst led @ '', LIBX52_LED_STATE_'' @ fst state @ '')'')
        (SetLedState (led_id_code (snd led)) (led_state_code (snd state))),
      Delay 500000]"

definition test_led_head :: "string \<times> libx52_led_id \<Rightarrow> test_step list" where
  "test_led_head led = [Say (''\<newline>Testing LED '' @ fst led @ ''\<newline>''), Delay 2000000]"

definition TEST_LED_MONO :: "string \<times> libx52_led_id \<Rightarrow> test_step list" where
  "TEST_LED_MONO led = test_led_head led
     @ TEST_LED led (''OFF'', LIBX52_LED_STATE_OFF) @ TEST_LED led (''ON'', LIBX52_LED_STATE_ON)"

definition TEST_LED_COLOR :: "string \<times> libx52_led_id \<Rightarrow> test_step list" where
  "TEST_LED_COLOR led = test_led_head led
     @ TEST_LED led (''OFF'', LIBX52_LED_STATE_OFF) @ TEST_LED led (''RED'', LIBX52_LED_STATE_RED)
     @ TEST_LED led (''AMBER'', LIBX52_LED_STATE_AMBER) @ TEST_LED led (''GREEN'', LIBX52_LED_STATE_GREEN)"

definition led_steps :: "test_step list" where
  "led_steps = [Say ''This cycles the LEDs through all possible states\<newline>'']
     @ TEST_LED_MONO (''FIRE'', LIBX52_LED_FIRE)
     @ concat (map TEST_LED_COLOR
         [(''A'', LIBX52_LED_A), (''B'', LIBX52_LED_B), (''D'', LIBX52_LED_D), (''E'', LIBX52_LED_E),
          (''T1'', LIBX52_LED_T1), (''T2'', LIBX52_LED_T2), (''T3'', LIBX52_LED_T3), (''POV'', LIBX52_LED_POV),
          (''CLUTCH'', LIBX52_LED_CLUTCH)])
     @ TEST_LED_MONO (''THROTTLE'', LIBX52_LED_THROTTLE)"

definition test_leds :: "'w libusb \<Rightarrow> test_env \<Rightarrow> 'w test_state \<Rightarrow> int \<times> 'w test_state" where
  "test_leds U E s =
     (case run_steps U E (print_banner ''LEDs'') s of (_, s) \<Rightarrow>
        let rc = libx52_check_feature (Some (ts_dev s)) (feature_code LIBX52_FEATURE_LED)
        in if rc = LIBX52_ERROR_NOT_SUPPORTED
           then run_steps U E [Say ''Skipping LED tests since the device does not support LED control\<newline>''] s
           else if rc \<noteq> LIBX52_SUCCESS then (error_code rc, s)
           else run_steps U E led_steps s)"

definition TEST_BLINK_OR_SHIFT :: "string \<Rightarrow> (u8 \<Rightarrow> x52_call) \<Rightarrow> test_step list" where
  "TEST_BLINK_OR_SHIFT txt type =
     [Say (''\<newline>Testing '' @ txt @ ''\<newline>''), Delay 1000000,
      Say (txt @ '' ON\<newline>''), Test (txt @ ''(1)'') (type 1), Delay 2000000,
      Say (txt @ '' OFF\<newline>''), Test (txt @ ''(0)'') (type 0)]"

definition blink_steps :: "test_step list" where
  "blink_steps = print_banner ''Blink & Shift''
     @ [Say ''This tests the blink indicator and shift functionality\<newline>'']
     @ TEST_BLINK_OR_SHIFT ''blink'' SetBlink @ TEST_BLINK_OR_SHIFT ''shift'' SetShift"

definition test_blink_n_shift :: "'w libusb \<Rightarrow> test_env \<Rightarrow> 'w test_state \<Rightarrow> int \<times> 'w test_state" where
  "test_blink_n_shift U E = run_steps U E blink_steps"

text \<open>The loop \<open>for (i = start; i < end; i += bump)\<close>, whose bounds are multiples of the step apart.\<close>

abbreviation (input) clock_start :: int where "clock_start \<equiv> 1420070400"

definition TEST_CLOCK_LOOP :: "clock_env \<Rightarrow> nat \<Rightarrow> nat \<Rightarrow> test_step list" where
  "TEST_CLOCK_LOOP env len bump = concat (map (\<lambda>k.
     [Test ''clock(i, 0)'' (SetClock env (clock_start + int (k * bump)) 0), Delay 250000])
     [0..<(len + bump - 1) div bump])"

definition clock_steps :: "clock_env \<Rightarrow> test_step list" where
  "clock_steps env = print_banner ''Clock''
     @ [Say ''This tests the clock display\<newline>'',
        Say ''\<newline>Testing clock time minute display for 90 minutes\<newline>'',
        Test ''clock_format(LIBX52_CLOCK_1, LIBX52_CLOCK_FORMAT_12HR)''
          (SetClockFormat (clock_id_code LIBX52_CLOCK_1) (clock_format_code LIBX52_CLOCK_FORMAT_12HR))]
     @ TEST_CLOCK_LOOP env (90 * 60) 60
     @ [Say ''\<newline>Testing clock time hour display for 36 hours, 12 hour mode\<newline>'']
     @ TEST_CLOCK_LOOP env (36 * 60 * 60) 3600
     @ [Say ''\<newline>Testing clock time hour display for 36 hours, 24 hour mode\<newline>'',
        Test ''clock_format(LIBX52_CLOCK_1, LIBX52_CLOCK_FORMAT_24HR)''
          (SetClockFormat (clock_id_code LIBX52_CLOCK_1) (clock_format_code LIBX52_CLOCK_FORMAT_24HR))]
     @ TEST_CLOCK_LOOP env (36 * 60 * 60) 3600
     @ [Say ''\<newline>Testing clock date display for 31 days, dd-mm-yy\<newline>'',
        Test ''date_format(LIBX52_DATE_FORMAT_DDMMYY)'' (SetDateFormat (date_format_code LIBX52_DATE_FORMAT_DDMMYY))]
     @ TEST_CLOCK_LOOP env (31 * 24 * 60 * 60) 86400
     @ [Say ''\<newline>Testing clock date display for 31 days, mm-dd-yy\<newline>'',
        Test ''date_format(LIBX52_DATE_FORMAT_MMDDYY)'' (SetDateFormat (date_format_code LIBX52_DATE_FORMAT_MMDDYY))]
     @ TEST_CLOCK_LOOP env (31 * 24 * 60 * 60) 86400
     @ [Say ''\<newline>Testing clock date display for 31 days, yy-mm-dd\<newline>'',
        Test ''date_format(LIBX52_DATE_FORMAT_YYMMDD)'' (SetDateFormat (date_format_code LIBX52_DATE_FORMAT_YYMMDD))]
     @ TEST_CLOCK_LOOP env (31 * 24 * 60 * 60) 86400"

definition test_clock :: "'w libusb \<Rightarrow> test_env \<Rightarrow> 'w test_state \<Rightarrow> int \<times> 'w test_state" where
  "test_clock U E = run_steps U E (clock_steps (clock_env.truncate E))"

section \<open>Cleanup\<close>

definition str_bytes :: "string \<Rightarrow> nat \<Rightarrow> u8" where
  "str_bytes str n = (if n < length str then of_char (str ! n) else 0)"

text \<open>The setters that \<open>test_cleanup\<close> calls, on a Pro, on others, and on all.\<close>

definition cleanup_pro :: "x52_call list" where
  "cleanup_pro =
     [SetText 0 (str_bytes '' Saitek X52 Pro '') 16, SetText 1 (str_bytes ''     Flight     '') 16,
      SetText 2 (str_bytes '' Control System '') 16,
      SetLedState (led_id_code LIBX52_LED_FIRE) (led_state_code LIBX52_LED_STATE_ON),
      SetLedState (led_id_code LIBX52_LED_THROTTLE) (led_state_code LIBX52_LED_STATE_ON)]
     @ map (\<lambda>led. SetLedState (led_id_code led) (led_state_code LIBX52_LED_STATE_GREEN))
         [LIBX52_LED_A, LIBX52_LED_B, LIBX52_LED_D, LIBX52_LED_E, LIBX52_LED_T1, LIBX52_LED_T2,
          LIBX52_LED_T3, LIBX52_LED_POV, LIBX52_LED_CLUTCH]"

definition cleanup_other :: "x52_call list" where
  "cleanup_other =
     [SetText 0 (str_bytes ''     Saitek     '') 16, SetText 1 (str_bytes ''   X52 Flight   '') 16,
      SetText 2 (str_bytes '' Control System '') 16]"

definition cleanup_all :: "test_env \<Rightarrow> x52_call list" where
  "cleanup_all E =
     [SetBlink 0, SetShift 0,
      SetClock (clock_env.truncate E) (te_time E) 1,
      SetClockTimezone (clock_id_code LIBX52_CLOCK_2) 0, SetClockTimezone (clock_id_code LIBX52_CLOCK_3) 330,
      SetClockFormat (clock_id_code LIBX52_CLOCK_1) (clock_format_code LIBX52_CLOCK_FORMAT_24HR),
      SetClockFormat (clock_id_code LIBX52_CLOCK_2) (clock_format_code LIBX52_CLOCK_FORMAT_24HR),
      SetClockFormat (clock_id_code LIBX52_CLOCK_3) (clock_format_code LIBX52_CLOCK_FORMAT_24HR),
      SetDateFormat (date_format_code LIBX52_DATE_FORMAT_MMDDYY),
      SetBrightness 1 128, SetBrightness 0 128]"

text \<open>No result is looked at.\<close>

definition test_cleanup :: "'w libusb \<Rightarrow> test_env \<Rightarrow> 'w test_state \<Rightarrow> 'w test_state" where
  "test_cleanup U E s =
     (let calls = (if libx52_check_feature (Some (ts_dev s)) (feature_code LIBX52_FEATURE_LED) = LIBX52_SUCCESS
                   then cleanup_pro else cleanup_other) @ cleanup_all E
      in snd (update_dev U (fold (\<lambda>c s. snd (set_dev c s)) calls s)))"

section \<open>Selecting and running tests\<close>

definition TESTS :: "(string \<times> int \<times> string) list" where
  "TESTS =
     [(''bri'', 1, ''Test brightness scale (~ 1m)''), (''led'', 2, ''Test LED states (~ 45s)''),
      (''mfd1'', 4, ''Test MFD string display (~ 30s)''),
      (''mfd2'', 8, ''Test MFD displays all characters (~ 2m 15s)''),
      (''blink'', 16, ''Test the blink and shift commands (< 10s)''),
      (''clock'', 32, ''Test the clock commands (~1m)'')]"

definition TEST_ALL :: int where
  "TEST_ALL = foldr (\<lambda>(kw, b, desc) acc. b OR acc) TESTS 0"

definition test_functions ::
  "'w libusb \<Rightarrow> test_env \<Rightarrow> (int \<times> ('w test_state \<Rightarrow> int \<times> 'w test_state)) list" where
  "test_functions U E = zip (map (fst \<circ> snd) TESTS)
     [test_brightness U E, test_leds U E, test_mfd_text U E, test_mfd_display U E, test_blink_n_shift U E,
      test_clock U E]"

text \<open>The sequence of \<open>RUN_TEST\<close>, left at the first result that is not 0.\<close>

fun run_selected ::
  "int \<Rightarrow> (int \<times> ('w test_state \<Rightarrow> int \<times> 'w test_state)) list \<Rightarrow> 'w test_state \<Rightarrow> int \<times> 'w test_state" where
  "run_selected test_set [] s = (0, s)"
| "run_selected test_set ((b, test) # ts) s =
     (if test_set AND b \<noteq> 0 then (case test s of
        (rc, s') \<Rightarrow> if rc \<noteq> 0 then (rc, s') else run_selected test_set ts s')
      else run_selected test_set ts s)"

definition run_intro :: "int \<Rightarrow> test_line list" where
  "run_intro test_set =
     [TestOut (''x52test is a suite of tests to write to the X52 Pro device\<newline>''
        @ ''and test the extra functionality available in the LEDs and MFD\<newline>\<newline>'')]
     @ (if test_set = TEST_ALL then [TestOut ''These tests take roughly 6 minutes to run\<newline>''] else [])
     @ [TestOut ''Press Enter to begin the tests, press Ctrl-C to abort anytime\<newline>'']"

definition run_result :: "test_env \<Rightarrow> int \<Rightarrow> test_line" where
  "run_result E rc =
     (if rc = 0 then TestOut ''All tests completed successfully\<newline>''
      else if rc > 0 then TestErr (''Got error '' @ libx52_strerror (te_gettext E) rc @ ''\<newline>'')
      else TestErr (''Received '' @ te_strsignal E (nat (- rc)) @ '' signal, quitting...\<newline>''))"

text \<open>The status, the output and the world; \<open>None\<close> is the crash of \<open>libx52_exit\<close> on null.\<close>

definition run_tests :: "'w libusb \<Rightarrow> test_env \<Rightarrow> int \<Rightarrow> 'w \<Rightarrow> (int \<times> test_line list \<times> 'w) option" where
  "run_tests U E test_set w =
     (case libx52_init U True (te_calloc E) w of (rc, dev, w1) \<Rightarrow>
        if rc \<noteq> LIBX52_SUCCESS
        then Some (1, run_intro test_set @ [TestErr (''Unable to initialize X52 library: ''
               @ libx52_strerror (te_gettext E) (error_code rc) @ ''\<newline>'')], w1)
        else
          (let s = \<lparr>ts_dev = the dev, ts_reads = 0, ts_slept = 0, ts_out = run_intro test_set, ts_world = w1\<rparr>;
               (rc, s1) = run_selected test_set (test_functions U E) s;
               s2 = say (run_result E rc) s1;
               s3 = (if rc \<le> 0 then test_cleanup U E s2 else s2)
           in map_option (\<lambda>w'. (0, ts_out s3, w')) (libx52_exit U (Some (ts_dev s3)) (ts_world s3))))"

definition test_usage :: "test_line list" where
  "test_usage =
     [TestOut (''These are the available tests with a description and\<newline>''
        @ ''approximate runtime. Not specifying any tests will run\<newline>'' @ ''all the tests\<newline>\<newline>''),
      TestOut ''List of tests:\<newline>'', TestOut (replicate 14 CHR ''='' @ ''\<newline>'')]
     @ map (\<lambda>(kw, b, desc). TestOut (CHR 0x09 # kw @ [CHR 0x09] @ desc @ ''\<newline>'')) TESTS
     @ [TestOut ''\<newline>'']"

definition find_test :: "string \<Rightarrow> int option" where
  "find_test arg = map_option (fst \<circ> snd) (find (\<lambda>(kw, b, desc). arg = kw) TESTS)"

text \<open>The loop over the arguments: the status and output it leaves with, or the list of tests.\<close>

fun parse_test_args :: "string \<Rightarrow> string list \<Rightarrow> int \<Rightarrow> (int \<times> test_line list) + int" where
  "parse_test_args prog [] test_list = Inr test_list"
| "parse_test_args prog (arg # argv) test_list =
     (if arg = ''help'' \<or> arg = ''--help''
      then Inl (0, TestOut (''Usage: '' @ prog @ '' [list of tests]\<newline>\<newline>'') # test_usage)
      else case find_test arg of
        None \<Rightarrow> Inl (1, TestOut (''Unrecognized test identifier: '' @ arg @ ''\<newline>\<newline>'') # test_usage)
      | Some b \<Rightarrow> parse_test_args prog argv (test_list OR b))"

definition test_main ::
  "'w libusb \<Rightarrow> test_env \<Rightarrow> string list \<Rightarrow> 'w \<Rightarrow> (int \<times> test_line list \<times> 'w) option" where
  "test_main U E argv w =
     (case parse_test_args (if argv = [] then [] else hd argv) (tl argv) (if length argv = 1 then TEST_ALL else 0) of
        Inl (rc, out) \<Rightarrow> Some (rc, out, w)
      | Inr test_list \<Rightarrow>
          if test_list \<noteq> 0 then run_tests U E test_list w
          else Some (max 1 (int (length argv)), [TestOut ''Not running any tests\<newline>''], w))"

end
