(* ===== verification/X52test_Laws.thy ===== *)
theory X52test_Laws
  imports X52test
begin

text \<open>
  What \<open>x52test\<close> does: which tests a command line selects, and that on a joystick that accepts
  its commands no test can fail and the cleanup leaves the documented display, whenever a signal
  ends the tests.
\<close>

section \<open>Steps that cannot fail\<close>

text \<open>The minute of a time is what the clock shows of it.\<close>

definition clock_end :: int where
  "clock_end = clock_start + 31 * 86400"

text \<open>
  A setting that succeeds on every device, or on every Pro, and that leaves the clock alone; and
  a list of steps whose other settings set the clock in January 2015, to another minute each
  time. The result is the time that the clock shows at the end.
\<close>

fun sure :: "bool \<Rightarrow> x52_call \<Rightarrow> bool" where
  "sure pro (SetText ln t len) = (ln \<le> 2)"
| "sure pro (SetLedState led state) = (pro \<and> (case (led_id_of led, led_state_of state) of
     (Some l, Some st) \<Rightarrow> (if l \<in> {LIBX52_LED_FIRE, LIBX52_LED_THROTTLE}
        then st \<in> {LIBX52_LED_STATE_OFF, LIBX52_LED_STATE_ON} else st \<noteq> LIBX52_LED_STATE_ON) | _ \<Rightarrow> False))"
| "sure pro (SetBrightness mfd v) = True"
| "sure pro (SetShift v) = True"
| "sure pro (SetBlink v) = True"
| "sure pro (SetClockFormat c f) = (0 \<le> c \<and> c \<le> 2 \<and> 0 \<le> f \<and> f \<le> 1)"
| "sure pro (SetDateFormat f) = (0 \<le> f \<and> f \<le> 2)"
| "sure pro c = False"

fun steps_ok :: "bool \<Rightarrow> int option \<Rightarrow> test_step list \<Rightarrow> int option option" where
  "steps_ok pro t [] = Some t"
| "steps_ok pro t (Test txt (SetClock env u lcl) # ss) =
     (if lcl = 0 \<and> clock_start \<le> u \<and> u < clock_end
         \<and> (case t of None \<Rightarrow> True | Some v \<Rightarrow> u div 60 \<noteq> v div 60)
      then steps_ok pro (Some u) ss else None)"
| "steps_ok pro t (Test txt c # ss) = (if sure pro c then steps_ok pro t ss else None)"
| "steps_ok pro t (Say m # ss) = steps_ok pro t ss"
| "steps_ok pro t (Delay n # ss) = steps_ok pro t ss"

definition sure_step :: "bool \<Rightarrow> test_step \<Rightarrow> bool" where
  "sure_step pro st = (case st of Test txt c \<Rightarrow> sure pro c | _ \<Rightarrow> True)"

lemma sure_step_simps [simp]:
  "sure_step pro (Say m)" "sure_step pro (Delay n)" "sure_step pro (Test txt c) = sure pro c"
  by (simp_all add: sure_step_def)

lemma steps_ok_sure: "list_all (sure_step pro) ss \<Longrightarrow> steps_ok pro t ss = Some t"
  by (induction pro t ss rule: steps_ok.induct) auto

lemma steps_ok_append:
  "steps_ok pro t (xs @ ys) = (case steps_ok pro t xs of None \<Rightarrow> None | Some u \<Rightarrow> steps_ok pro u ys)"
  by (induction pro t xs rule: steps_ok.induct) (auto split: option.splits)

lemma list_all_concat_map: "list_all P (concat (map f xs)) \<longleftrightarrow> (\<forall>x \<in> set xs. list_all P (f x))"
  by (auto simp: list_all_iff)

lemma banner_sure: "list_all (sure_step pro) (print_banner m)"
  by (simp add: print_banner_def Let_def)

lemma suite_ok:
  "list_all (sure_step pro) brightness_steps"
  "list_all (sure_step pro) mfd_text_steps"
  "list_all (sure_step pro) mfd_display_steps"
  "list_all (sure_step pro) blink_steps"
  "list_all (sure_step True) led_steps"
proof -
  show "list_all (sure_step pro) brightness_steps"
    unfolding brightness_steps_def brightness_loop_def by (simp add: banner_sure list_all_concat_map)
  show "list_all (sure_step pro) mfd_text_steps"
    unfolding mfd_text_steps_def by (simp add: banner_sure list_all_concat_map Let_def)
  show "list_all (sure_step pro) mfd_display_steps"
    unfolding mfd_display_steps_def by (simp add: banner_sure list_all_concat_map)
  show "list_all (sure_step pro) blink_steps"
    unfolding blink_steps_def TEST_BLINK_OR_SHIFT_def by (simp add: banner_sure)
  show "list_all (sure_step True) led_steps"
    unfolding led_steps_def TEST_LED_COLOR_def TEST_LED_MONO_def test_led_head_def TEST_LED_def
    by (simp add: led_id.enum_of_code led_state.enum_of_code del: led_id_code.simps led_state_code.simps)
qed

lemma clock_loop_ok:
  assumes "60 \<le> bump" and "0 < n" and "(n - 1) * bump < 31 * 86400"
    and "\<forall>v. t = Some v \<longrightarrow> clock_start div 60 \<noteq> v div 60"
  shows "steps_ok pro t (concat (map (\<lambda>k. [Test txt (SetClock env (clock_start + int (k * bump)) 0), Delay us]) [0..<n]))
    = Some (Some (clock_start + int ((n - 1) * bump)))"
  using assms
proof (induction n)
  case (Suc n)
  let ?L = "\<lambda>n. concat (map (\<lambda>k. [Test txt (SetClock env (clock_start + int (k * bump)) 0), Delay us]) [0..<n])"
  have L: "?L (Suc n) = ?L n @ [Test txt (SetClock env (clock_start + int (n * bump)) 0), Delay us]" by simp
  have last: "int (n * bump) < 31 * 86400" using Suc.prems(3) by (simp del: of_nat_mult)
  show ?case
  proof (cases n)
    case 0
    with Suc.prems show ?thesis by (auto simp: clock_end_def split: option.split)
  next
    case (Suc m)
    have "m * bump \<le> n * bump" using Suc by simp
    with Suc.prems(3) have "(n - 1) * bump < 31 * 86400" using Suc by simp
    with Suc.IH Suc.prems Suc have ih: "steps_ok pro t (?L n) = Some (Some (clock_start + int ((n - 1) * bump)))"
      by blast
    have "int (n * bump) = int ((n - 1) * bump) + int bump" using Suc by (simp add: algebra_simps)
    with assms(1) have "(clock_start + int (n * bump)) div 60 \<noteq> (clock_start + int ((n - 1) * bump)) div 60"
      by linarith
    with last show ?thesis
      unfolding L steps_ok_append ih by (simp add: clock_end_def del: of_nat_mult)
  qed
qed simp

lemma clock_loop_step:
  assumes "60 \<le> bump" and "0 < (len + bump - 1) div bump"
    and "((len + bump - 1) div bump - 1) * bump < 31 * 86400"
    and "\<forall>v. t = Some v \<longrightarrow> clock_start div 60 \<noteq> v div 60"
  shows "steps_ok pro t (TEST_CLOCK_LOOP env len bump @ ss) =
    steps_ok pro (Some (clock_start + int (((len + bump - 1) div bump - 1) * bump))) ss"
  unfolding TEST_CLOCK_LOOP_def steps_ok_append clock_loop_ok [OF assms] by simp

lemma banner_step: "steps_ok pro t (print_banner m @ ss) = steps_ok pro t ss"
  by (simp add: steps_ok_append steps_ok_sure [OF banner_sure])

lemma clock_steps_ok: "\<exists>t. steps_ok pro None (clock_steps env) = Some t"
  using clock_loop_step [of 86400 "31 * 24 * 60 * 60" _ pro env "[]"]
  by (simp add: clock_steps_def banner_step clock_loop_step)

section \<open>The clock in January 2015\<close>

text \<open>What \<open>gmtime_r\<close> gives for that month.\<close>

definition gmtime_2015 :: "clock_env \<Rightarrow> bool" where
  "gmtime_2015 env \<longleftrightarrow> (\<forall>t. clock_start \<le> t \<longrightarrow> t < clock_end \<longrightarrow>
     (\<exists>b. gmtime_r env t = Some b \<and> tm_min b = t div 60 mod 60 \<and> tm_hour b = t div 3600 mod 24
        \<and> tm_mday b = 1 + (t - clock_start) div 86400 \<and> tm_mon b = 0 \<and> tm_year b = 115))"

text \<open>The device has not been given a date, or shows a time of that month.\<close>

fun clock_at :: "int option \<Rightarrow> libx52_device \<Rightarrow> bool" where
  "clock_at None d = (date_day d = 0)"
| "clock_at (Some t) d = (clock_start \<le> t \<and> t < clock_end \<and> date_day d = 1 + (t - clock_start) div 86400
     \<and> time_hour d = t div 3600 mod 24 \<and> time_minute d = t div 60 mod 60)"

lemma clock_at_cong:
  "date_day d' = date_day d \<Longrightarrow> time_hour d' = time_hour d \<Longrightarrow> time_minute d' = time_minute d \<Longrightarrow>
   clock_at t d' = clock_at t d"
  by (cases t) auto

lemma minute_parts:
  fixes t u :: int
  assumes "(t - clock_start) div 86400 = (u - clock_start) div 86400"
    and "t div 3600 mod 24 = u div 3600 mod 24" and "t div 60 mod 60 = u div 60 mod 60"
  shows "t div 60 = u div 60"
proof -
  have day: "(x - clock_start) div 86400 = x div 3600 div 24 - 16436" for x :: int
    using div_mult_self1 [of 86400 "x - clock_start" 16436] zdiv_zmult2_eq [of 24 x 3600] by simp
  have "x div 3600 = 24 * (x div 3600 div 24) + x div 3600 mod 24" for x :: int by simp
  with assms(1,2) have "t div 3600 = u div 3600" unfolding day by (metis add_right_cancel diff_add_cancel)
  moreover have "x div 60 = 60 * (x div 3600) + x div 60 mod 60" for x :: int
    using zdiv_zmult2_eq [of 60 x 60] by simp
  ultimately show ?thesis using assms(3) by metis
qed

lemma uint_small: "0 \<le> x \<Longrightarrow> x < 256 \<Longrightarrow> uint (word_of_int x :: u8) = x"
  by (simp add: uint_word_of_int_eq take_bit_int_eq_self)

lemma set_clock_ok:
  assumes "gmtime_2015 env" and "clock_start \<le> u" and "u < clock_end" and "clock_at t d"
    and "case t of None \<Rightarrow> True | Some v \<Rightarrow> u div 60 \<noteq> v div 60"
  shows "fst (set_clock_dev env u 0 d) = LIBX52_SUCCESS \<and> clock_at (Some u) (snd (set_clock_dev env u 0 d))"
proof -
  obtain b where b: "gmtime_r env u = Some b" "tm_min b = u div 60 mod 60" "tm_hour b = u div 3600 mod 24"
    "tm_mday b = 1 + (u - clock_start) div 86400" "tm_mon b = 0" "tm_year b = 115"
    using assms(1-3) unfolding gmtime_2015_def by blast
  have r: "0 \<le> tm_min b" "tm_min b < 60" "0 \<le> tm_hour b" "tm_hour b < 24" "1 \<le> tm_mday b" "tm_mday b < 32"
  proof -
    have "0 \<le> (u - clock_start) div 86400" using assms(2) by (simp add: pos_imp_zdiv_nonneg_iff)
    moreover have "(u - clock_start) div 86400 < 31"
      using assms(3) zdiv_mono1 [of "u - clock_start" "31 * 86400 - 1" 86400] by (simp add: clock_end_def)
    ultimately show "1 \<le> tm_mday b" "tm_mday b < 32" by (simp_all add: b)
  qed (simp_all add: b)
  have new: "\<not> (date_day d = tm_mday b \<and> time_hour d = tm_hour b \<and> time_minute d = tm_min b)"
  proof (cases t)
    case None
    with assms(4) r(5) show ?thesis by auto
  next
    case (Some v)
    with assms(5) have "u div 60 \<noteq> v div 60" by (simp only: option.case simp_thms)
    with minute_parts [of u v] have "\<not> ((u - clock_start) div 86400 = (v - clock_start) div 86400
      \<and> u div 3600 mod 24 = v div 3600 mod 24 \<and> u div 60 mod 60 = v div 60 mod 60)" by blast
    moreover have "date_day d = 1 + (v - clock_start) div 86400" "time_hour d = v div 3600 mod 24"
      "time_minute d = v div 60 mod 60" using assms(4) Some by simp_all
    ultimately show ?thesis unfolding b by (metis add_left_imp_eq)
  qed
  obtain u1 d1 where d1: "clock_update_date b d = (u1, d1)" by (rule prod.exhaust)
  obtain u2 d2 where d2: "clock_update_time b d1 = (u2, d2)" by (rule prod.exhaust)
  obtain u3 d3 where d3: "clock_update_zone 0 d2 = (u3, d3)" by (rule prod.exhaust)
  have 1: "date_day d1 = tm_mday b" "time_hour d1 = time_hour d" "time_minute d1 = time_minute d"
      "\<not> u1 \<Longrightarrow> date_day d = tm_mday b"
    using d1 r by (auto simp: clock_update_date_def Let_def set_date_dev_def mark_def uint_small split: if_splits)
  have 2: "date_day d2 = date_day d1" "time_hour d2 = tm_hour b" "time_minute d2 = tm_min b"
      "\<not> u2 \<Longrightarrow> time_hour d1 = tm_hour b \<and> time_minute d1 = tm_min b"
    using d2 r by (auto simp: clock_update_time_def Let_def set_time_dev_def mark_def uint_small split: if_splits)
  have 3: "date_day d3 = date_day d2" "time_hour d3 = time_hour d2" "time_minute d3 = time_minute d2"
    using d3 by (auto simp: clock_update_zone_def Let_def mark_def split: if_splits)
  have "set_clock_dev env u 0 d = (if u1 \<or> u2 \<or> u3 then LIBX52_SUCCESS else LIBX52_ERROR_TRY_AGAIN, d3)"
    by (simp add: set_clock_dev_def b(1) d1 d2 d3 Let_def)
  with new 1 2 3 assms(2,3) show ?thesis by (auto simp: b)
qed

section \<open>Running the steps\<close>

lemma sure_call:
  assumes "sure pro c" and "x52_tst_bit (flags d) X52_FLAG_IS_PRO = pro"
  shows "fst (call_dev c d) = LIBX52_SUCCESS \<and> date_format_ok c"
    and "clock_at t (snd (call_dev c d)) = clock_at t d"
proof -
  let ?same = "\<lambda>e. date_day e = date_day d \<and> time_hour e = time_hour d \<and> time_minute e = time_minute d"
  have cases: "fst (call_dev c d) = LIBX52_SUCCESS \<and> date_format_ok c \<and> ?same (snd (call_dev c d))"
  proof (cases c)
    case (SetText ln str len)
    with assms(1) show ?thesis
      by (auto simp: set_text_dev_def mark_def date_format_ok_def Let_def not_less)
  next
    case (SetLedState led state)
    from assms(1) SetLedState obtain l st where l: "led_id_of led = Some l" "led_state_of state = Some st"
      and ok: "if l \<in> {LIBX52_LED_FIRE, LIBX52_LED_THROTTLE} then st \<in> {LIBX52_LED_STATE_OFF, LIBX52_LED_STATE_ON}
        else st \<noteq> LIBX52_LED_STATE_ON" and pro: pro by (auto split: option.splits)
    have st: "state = led_state_code st" using l(2) by (simp add: led_state.enum_of_Some)
    have "fst (set_led_state_dev led state d) = LIBX52_SUCCESS"
      using assms(2) pro l ok
      by (cases st) (auto simp: set_led_state_dev_def check_feature_dev_def feature.enum_of_code
          x52pro_set_led_state_def Let_def st led_state.enum_of_code
          simp del: feature_code.simps split: if_splits)
    moreover have "?same (snd (set_led_state_dev led state d))"
      by (rule set_led_state_cases [of led state d]) (auto simp: mark_def led_bits_def)
    ultimately show ?thesis by (simp add: SetLedState date_format_ok_def)
  next
    case (SetClockFormat k f)
    with assms(1) have "k = 0 \<or> k = 1 \<or> k = 2" "f = 0 \<or> f = 1" by auto
    with SetClockFormat show ?thesis
      by (auto simp: set_clock_format_dev_def clock_id_of_codes Let_def mark_def date_format_ok_def)
  next
    case (SetDateFormat f)
    with assms(1) have "f = 0 \<or> f = 1 \<or> f = 2" by auto
    then have "f \<in> range date_format_code"
      using date_format_code.simps by (metis rangeI)
    with SetDateFormat show ?thesis
      by (auto simp: set_date_format_dev_def mark_def date_format_ok_def)
  qed (use assms in \<open>auto simp: set_brightness_dev_def set_shift_dev_def set_blink_dev_def mark_def date_format_ok_def\<close>)
  then show "fst (call_dev c d) = LIBX52_SUCCESS \<and> date_format_ok c"
    and "clock_at t (snd (call_dev c d)) = clock_at t d"
    using clock_at_cong [of "snd (call_dev c d)" d t] by (simp_all only:)
qed

text \<open>The state between two steps, on a connected joystick.\<close>

definition no_error :: "test_line list \<Rightarrow> bool" where
  "no_error out \<longleftrightarrow> (\<forall>m. TestErr m \<notin> set out)"

definition ready :: "nat \<Rightarrow> bool \<Rightarrow> libx52_device \<Rightarrow> bool" where
  "ready h pro d \<longleftrightarrow> hdl d = Some h \<and> x52_tst_bit (flags d) X52_FLAG_IS_PRO = pro \<and> dev_wf d
     \<and> libx52_device.date_format d \<in> range date_format_code"

definition test_inv :: "nat \<Rightarrow> bool \<Rightarrow> int option \<Rightarrow> 'w test_state \<Rightarrow> bool" where
  "test_inv h pro t s \<longleftrightarrow> ready h pro (ts_dev s) \<and> clock_at t (ts_dev s) \<and> no_error (ts_out s)"

definition silent :: "test_env \<Rightarrow> bool" where
  "silent E \<longleftrightarrow> (\<forall>k. te_signal E k = 0)"

lemma ready_call: "ready h pro d \<Longrightarrow> date_format_ok c \<Longrightarrow> ready h pro (snd (call_dev c d))"
  using call.keeps_conn [of d c] call.keeps_wf [of d c] call_date_format [of c d]
  by (simp add: ready_def same_conn_def del: call_dev.simps)

lemma ready_mask: "ready h pro (d\<lparr>update_mask := m\<rparr>) = ready h pro d"
  by (simp add: ready_def dev_wf_def)

lemma TEST_ok:
  assumes "accepts U" and "ready h pro (ts_dev s)" and "no_error (ts_out s)"
    and c: "fst (call_dev c (ts_dev s)) = LIBX52_SUCCESS" "date_format_ok c" "clock_at t (snd (call_dev c (ts_dev s)))"
    and T: "TEST (logged U) E txt c s = (rc, s')"
  shows "test_inv h pro t s'" and "rc \<le> 0" and "silent E \<Longrightarrow> rc = 0"
proof -
  let ?d = "snd (call_dev c (ts_dev s))"
  have r: "ready h pro ?d" using assms(2) c(2) by (rule ready_call)
  obtain rc1 d1 w1 where u: "libx52_update (logged U) ?d (ts_world s) = (rc1, d1, w1)" by (metis prod_cases3)
  with r update_accepted [OF assms(1) _ _ u] have ud: "rc1 = LIBX52_SUCCESS" "d1 = ?d\<lparr>update_mask := 0\<rparr>"
    by (auto simp: ready_def)
  have at: "clock_at t (?d\<lparr>update_mask := 0\<rparr>)" using c(3) by (subst clock_at_cong [of _ ?d]) simp_all
  let ?s1 = "s\<lparr>ts_dev := ?d, ts_reads := Suc (ts_reads s)\<rparr>"
  have set: "set_dev c s = (LIBX52_SUCCESS, s\<lparr>ts_dev := ?d\<rparr>)" using c(1) by (simp add: set_dev_def libx52_set_call)
  have upd: "update_dev (logged U) ?s1 = (LIBX52_SUCCESS, ?s1\<lparr>ts_dev := ?d\<lparr>update_mask := 0\<rparr>, ts_world := w1\<rparr>)"
    using u ud by (simp add: update_dev_def)
  have "(rc = signal_handler (te_signal E (ts_reads s)) \<and> s' = ?s1)
      \<or> (rc = signal_handler (te_signal E (Suc (ts_reads s)))
         \<and> s' = ?s1\<lparr>ts_dev := ?d\<lparr>update_mask := 0\<rparr>, ts_world := w1, ts_reads := Suc (Suc (ts_reads s))\<rparr>)"
    using T unfolding TEST_def set read_test_exit_def prod.case
    by (auto simp: upd split: if_splits)
  then show "test_inv h pro t s'" "rc \<le> 0" "silent E \<Longrightarrow> rc = 0"
    using r c(3) at assms(3)
    by (auto simp: test_inv_def ready_mask signal_handler_def silent_def simp del: call_dev.simps)
qed

text \<open>The times of the steps are converted by the program's own surroundings.\<close>

definition uses_env :: "clock_env \<Rightarrow> test_step list \<Rightarrow> bool" where
  "uses_env env ss \<longleftrightarrow> (\<forall>txt e u l. Test txt (SetClock e u l) \<in> set ss \<longrightarrow> e = env)"

lemma steps_ok_call:
  "\<nexists>e u l. c = SetClock e u l \<Longrightarrow>
   steps_ok pro t (Test what c # ss) = (if sure pro c then steps_ok pro t ss else None)"
  by (cases c) auto

lemma run_steps_ok:
  assumes "accepts U" and "gmtime_2015 env" and "uses_env env ss" and "steps_ok pro t ss = Some t'"
    and "test_inv h pro t s" and "run_steps (logged U) E ss s = (rc, s')"
  shows "(\<exists>v. test_inv h pro v s' \<and> (rc = 0 \<longrightarrow> v = t')) \<and> rc \<le> 0 \<and> (silent E \<longrightarrow> rc = 0)"
  using assms(3-)
proof (induction ss arbitrary: t s)
  case Nil
  then show ?case by auto
next
  case (Cons x ss)
  have env: "uses_env env ss" using Cons.prems(1) by (auto simp: uses_env_def)
  have skip: ?case if "test_inv h pro t s1" "steps_ok pro t ss = Some t'" "run_steps (logged U) E ss s1 = (rc, s')" for s1
    using Cons.IH [OF env that(2,1,3)] .
  have inv: "ready h pro (ts_dev s)" "no_error (ts_out s)" "clock_at t (ts_dev s)"
    using Cons.prems(3) by (auto simp: test_inv_def)
  then have pro: "x52_tst_bit (flags (ts_dev s)) X52_FLAG_IS_PRO = pro" by (simp add: ready_def)
  show ?case
  proof (cases x)
    case (Say m)
    with Cons.prems show ?thesis
      by (intro skip [of "say (TestOut m) s"]) (auto simp: test_inv_def say_def no_error_def)
  next
    case (Delay n)
    with Cons.prems show ?thesis
      by (intro skip [of "if te_nodelay E then s else s\<lparr>ts_slept := ts_slept s + n\<rparr>"])
        (auto simp: test_inv_def)
  next
    case (Test what c)
    obtain rc1 s1 where T: "TEST (logged U) E what c s = (rc1, s1)" by (rule prod.exhaust)
    have "\<exists>v. steps_ok pro v ss = Some t' \<and> fst (call_dev c (ts_dev s)) = LIBX52_SUCCESS \<and> date_format_ok c
        \<and> clock_at v (snd (call_dev c (ts_dev s)))"
    proof (cases "\<exists>e u l. c = SetClock e u l")
      case True
      then obtain e u l where c: "c = SetClock e u l" by blast
      with Cons.prems(1) have "e = env" by (auto simp: uses_env_def Test)
      from Cons.prems(2) have "l = 0 \<and> clock_start \<le> u \<and> u < clock_end
          \<and> (case t of None \<Rightarrow> True | Some v \<Rightarrow> u div 60 \<noteq> v div 60)" and ss: "steps_ok pro (Some u) ss = Some t'"
        unfolding Test c steps_ok.simps by (metis option.distinct(1))+
      with set_clock_ok [OF assms(2) _ _ inv(3)]
      have "l = 0" "fst (set_clock_dev env u 0 (ts_dev s)) = LIBX52_SUCCESS
          \<and> clock_at (Some u) (snd (set_clock_dev env u 0 (ts_dev s)))" by blast+
      with ss \<open>e = env\<close> show ?thesis
        by (intro exI [of _ "Some u"]) (simp only: c call_dev.simps date_format_ok_def x52_call.case simp_thms)
    next
      case False
      with Cons.prems(2) have "sure pro c" "steps_ok pro t ss = Some t'"
        by (simp_all add: Test steps_ok_call split: if_splits)
      with sure_call [OF _ pro, of c] inv(3) show ?thesis by auto
    qed
    then obtain v where v: "steps_ok pro v ss = Some t'" "fst (call_dev c (ts_dev s)) = LIBX52_SUCCESS"
        "date_format_ok c" "clock_at v (snd (call_dev c (ts_dev s)))" by blast
    note ok = TEST_ok [OF assms(1) inv(1,2) v(2-4) T]
    show ?thesis
    proof (cases "rc1 = 0")
      case True
      with Cons.prems(4) T have "run_steps (logged U) E ss s1 = (rc, s')" by (simp add: Test)
      with Cons.IH [OF env v(1) ok(1)] show ?thesis by blast
    next
      case False
      with Cons.prems(4) T have "rc = rc1" "s' = s1" by (simp_all add: Test)
      with ok False show ?thesis by blast
    qed
  qed
qed

section \<open>The tests\<close>

text \<open>A test that cannot fail when the clock has not been set, and one that leaves it so.\<close>

definition cannot_fail ::
  "test_env \<Rightarrow> nat \<Rightarrow> bool \<Rightarrow> ('w test_state \<Rightarrow> int \<times> 'w test_state) \<Rightarrow> bool" where
  "cannot_fail E h pro f \<longleftrightarrow> (\<forall>s rc s'. test_inv h pro None s \<longrightarrow> f s = (rc, s') \<longrightarrow>
     (\<exists>v. test_inv h pro v s') \<and> rc \<le> 0 \<and> (silent E \<longrightarrow> rc = 0))"

definition keeps_clock :: "nat \<Rightarrow> bool \<Rightarrow> ('w test_state \<Rightarrow> int \<times> 'w test_state) \<Rightarrow> bool" where
  "keeps_clock h pro f \<longleftrightarrow> (\<forall>s s'. test_inv h pro None s \<longrightarrow> f s = (0, s') \<longrightarrow> test_inv h pro None s')"

lemma run_selected_ok:
  assumes "\<forall>(b, f) \<in> set ts. cannot_fail E h pro f" and "\<forall>(b, f) \<in> set (butlast ts). keeps_clock h pro f"
    and "test_inv h pro None s" and "run_selected test_set ts s = (rc, s')"
  shows "(\<exists>v. test_inv h pro v s') \<and> rc \<le> 0 \<and> (silent E \<longrightarrow> rc = 0)"
  using assms
proof (induction ts arbitrary: s)
  case (Cons x ts)
  obtain b f where x: "x = (b, f)" by (rule prod.exhaust)
  have f: "cannot_fail E h pro f" using Cons.prems(1) by (simp add: x)
  have rest: ?case if "test_inv h pro None s1" "run_selected test_set ts s1 = (rc, s')" for s1
    using Cons.IH [OF _ _ that] Cons.prems(1,2) by (cases ts) (auto split: if_splits)
  show ?case
  proof (cases "test_set AND b = 0")
    case True
    with Cons.prems(3,4) rest show ?thesis by (simp add: x)
  next
    case False
    obtain rc1 s1 where r: "f s = (rc1, s1)" by (rule prod.exhaust)
    with f Cons.prems(3) have ok: "\<exists>v. test_inv h pro v s1" "rc1 \<le> 0" "silent E \<longrightarrow> rc1 = 0"
      unfolding cannot_fail_def by blast+
    show ?thesis
    proof (cases "rc1 = 0 \<and> ts \<noteq> []")
      case True
      with Cons.prems(2) have "keeps_clock h pro f" by (simp add: x)
      with True r Cons.prems(3) have "test_inv h pro None s1" unfolding keeps_clock_def by blast
      with rest Cons.prems(4) False True r show ?thesis by (simp add: x)
    next
      case False': False
      with Cons.prems(4) False r ok show ?thesis by (auto simp: x split: if_splits)
    qed
  qed
qed auto

lemma sure_steps_test:
  assumes "accepts U" and "gmtime_2015 env" and "list_all (sure_step pro) ss"
  shows "cannot_fail E h pro (run_steps (logged U) E ss) \<and> keeps_clock h pro (run_steps (logged U) E ss)"
proof -
  have "uses_env env ss"
    using assms(3) unfolding uses_env_def list_all_iff by (metis sure.simps(8) sure_step_simps(3))
  note run = run_steps_ok [OF assms(1,2) this steps_ok_sure [OF assms(3)]]
  show ?thesis unfolding cannot_fail_def keeps_clock_def using run by blast
qed

lemma test_feature_led:
  "libx52_check_feature (Some d) (feature_code LIBX52_FEATURE_LED) =
     (if x52_tst_bit (flags d) X52_FLAG_IS_PRO then LIBX52_SUCCESS else LIBX52_ERROR_NOT_SUPPORTED)"
  by (simp add: libx52_check_feature_def check_feature_dev_def feature.enum_of_code del: feature_code.simps)

lemma leds_test:
  assumes "accepts U" and "gmtime_2015 env"
  shows "cannot_fail E h pro (test_leds (logged U) E) \<and> keeps_clock h pro (test_leds (logged U) E)"
proof -
  let ?run = "\<lambda>ss. run_steps (logged U) E ss"
  have *: "(\<exists>v. test_inv h pro v s') \<and> rc \<le> 0 \<and> (silent E \<longrightarrow> rc = 0) \<and> (rc = 0 \<longrightarrow> test_inv h pro None s')"
    if s: "test_inv h pro None s" and r: "test_leds (logged U) E s = (rc, s')" for s rc s'
  proof -
    obtain rc1 s1 where b: "?run (print_banner ''LEDs'') s = (rc1, s1)" by (rule prod.exhaust)
    have s1: "test_inv h pro None s1" and rc1: "rc1 = 0"
      using b s by (auto simp: print_banner_def Let_def test_inv_def say_def no_error_def)
    let ?ss = "if pro then led_steps
      else [Say ''Skipping LED tests since the device does not support LED control\<newline>'']"
    have "x52_tst_bit (flags (ts_dev s1)) X52_FLAG_IS_PRO = pro" using s1 by (simp add: test_inv_def ready_def)
    then have "?run ?ss s1 = (rc, s')"
      using r unfolding test_leds_def b prod.case Let_def test_feature_led by (simp split: if_splits)
    moreover have "list_all (sure_step pro) ?ss" using suite_ok(5) by simp
    ultimately show ?thesis
      using sure_steps_test [OF assms] s1 unfolding cannot_fail_def keeps_clock_def by blast
  qed
  then show ?thesis unfolding cannot_fail_def keeps_clock_def by blast
qed

section \<open>The cleanup\<close>

definition calls_dev :: "x52_call list \<Rightarrow> libx52_device \<Rightarrow> libx52_device" where
  "calls_dev cs d = fold (\<lambda>c d. snd (call_dev c d)) cs d"

lemma calls_dev_simps [simp]:
  "calls_dev [] d = d" "calls_dev (c # cs) d = calls_dev cs (snd (call_dev c d))"
  "calls_dev (cs @ cs') d = calls_dev cs' (calls_dev cs d)"
  by (simp_all add: calls_dev_def)

lemma fold_set_dev: "fold (\<lambda>c s. snd (set_dev c s)) cs s = s\<lparr>ts_dev := calls_dev cs (ts_dev s)\<rparr>"
  by (induction cs arbitrary: s) (simp_all add: set_dev_def libx52_set_call)

text \<open>The part of the record that a call changes.\<close>

fun call_group :: "x52_call \<Rightarrow> nat" where
  "call_group (SetText ln t n) = 0"
| "call_group (SetLedState l s) = 1"
| "call_group (SetBlink v) = 1"
| "call_group (SetShift v) = 1"
| "call_group (SetBrightness m v) = 2"
| "call_group (SetClockTimezone k z) = 4"
| "call_group (SetClockFormat k f) = 5"
| "call_group (SetDateFormat f) = 6"
| "call_group c = 3"

lemma clock_updates_keep:
  "line (snd (clock_update_date t d)) = line d \<and> led_mask (snd (clock_update_date t d)) = led_mask d
   \<and> mfd_brightness (snd (clock_update_date t d)) = mfd_brightness d
   \<and> led_brightness (snd (clock_update_date t d)) = led_brightness d
   \<and> timezone (snd (clock_update_date t d)) = timezone d \<and> time_format (snd (clock_update_date t d)) = time_format d"
  "line (snd (clock_update_time t d)) = line d \<and> led_mask (snd (clock_update_time t d)) = led_mask d
   \<and> mfd_brightness (snd (clock_update_time t d)) = mfd_brightness d
   \<and> led_brightness (snd (clock_update_time t d)) = led_brightness d
   \<and> timezone (snd (clock_update_time t d)) = timezone d \<and> time_format (snd (clock_update_time t d)) = time_format d"
  "line (snd (clock_update_zone z d)) = line d \<and> led_mask (snd (clock_update_zone z d)) = led_mask d
   \<and> mfd_brightness (snd (clock_update_zone z d)) = mfd_brightness d
   \<and> led_brightness (snd (clock_update_zone z d)) = led_brightness d
   \<and> timezone (snd (clock_update_zone z d)) = (timezone d)[0 := z] \<and> time_format (snd (clock_update_zone z d)) = time_format d"
  by (simp_all add: clock_update_date_def clock_update_time_def clock_update_zone_def set_date_dev_def set_time_dev_def
      mark_def Let_def)

lemma call_keeps:
  shows "call_group c \<noteq> 0 \<Longrightarrow> line (snd (call_dev c d)) = line d"
    and "call_group c \<noteq> 1 \<Longrightarrow> led_mask (snd (call_dev c d)) = led_mask d"
    and "call_group c \<noteq> 2 \<Longrightarrow> mfd_brightness (snd (call_dev c d)) = mfd_brightness d"
    and "call_group c \<noteq> 2 \<Longrightarrow> led_brightness (snd (call_dev c d)) = led_brightness d"
    and "call_group c \<noteq> 4 \<Longrightarrow> tl (timezone (snd (call_dev c d))) = tl (timezone d)"
    and "call_group c \<noteq> 5 \<Longrightarrow> time_format (snd (call_dev c d)) = time_format d"
    and "call_group c \<noteq> 6 \<Longrightarrow> libx52_device.date_format (snd (call_dev c d)) = libx52_device.date_format d"
proof -
  have tl0: "tl (xs[0 := z]) = tl xs" for xs :: "int list" and z by (cases xs) simp_all
  have "(call_group c \<noteq> 0 \<longrightarrow> line (snd (call_dev c d)) = line d)
    \<and> (call_group c \<noteq> 1 \<longrightarrow> led_mask (snd (call_dev c d)) = led_mask d)
    \<and> (call_group c \<noteq> 2 \<longrightarrow> mfd_brightness (snd (call_dev c d)) = mfd_brightness d)
    \<and> (call_group c \<noteq> 2 \<longrightarrow> led_brightness (snd (call_dev c d)) = led_brightness d)
    \<and> (call_group c \<noteq> 4 \<longrightarrow> tl (timezone (snd (call_dev c d))) = tl (timezone d))
    \<and> (call_group c \<noteq> 5 \<longrightarrow> time_format (snd (call_dev c d)) = time_format d)
    \<and> (call_group c \<noteq> 6 \<longrightarrow> libx52_device.date_format (snd (call_dev c d)) = libx52_device.date_format d)"
  proof (cases c)
    case (SetLedState led state)
    then show ?thesis by simp (rule set_led_state_cases [of led state d], simp_all)
  next
    case (SetClock env time lcl)
    then show ?thesis
      by (simp add: set_clock_dev_def split_beta Let_def clock_updates_keep clock_update_date_format tl0
          split: option.split)
  next
    case (SetClockTimezone k off)
    then show ?thesis by simp (rule set_clock_timezone_cases [of k off d], simp_all add: mark_def)
  next
    case (SetClockFormat k f)
    then show ?thesis by simp (rule set_clock_format_cases [of k f d], simp_all add: mark_def)
  qed (simp_all add: set_text_dev_def set_brightness_dev_def set_shift_dev_def set_blink_dev_def set_time_dev_def
      set_date_dev_def set_date_format_dev_def mark_def Let_def)
  then show "call_group c \<noteq> 0 \<Longrightarrow> line (snd (call_dev c d)) = line d"
    and "call_group c \<noteq> 1 \<Longrightarrow> led_mask (snd (call_dev c d)) = led_mask d"
    and "call_group c \<noteq> 2 \<Longrightarrow> mfd_brightness (snd (call_dev c d)) = mfd_brightness d"
    and "call_group c \<noteq> 2 \<Longrightarrow> led_brightness (snd (call_dev c d)) = led_brightness d"
    and "call_group c \<noteq> 4 \<Longrightarrow> tl (timezone (snd (call_dev c d))) = tl (timezone d)"
    and "call_group c \<noteq> 5 \<Longrightarrow> time_format (snd (call_dev c d)) = time_format d"
    and "call_group c \<noteq> 6 \<Longrightarrow> libx52_device.date_format (snd (call_dev c d)) = libx52_device.date_format d"
    by blast+
qed

lemma calls_keep:
  shows "\<forall>c \<in> set cs. call_group c \<noteq> 0 \<Longrightarrow> line (calls_dev cs d) = line d"
    and "\<forall>c \<in> set cs. call_group c \<noteq> 1 \<Longrightarrow> led_mask (calls_dev cs d) = led_mask d"
    and "\<forall>c \<in> set cs. call_group c \<noteq> 2 \<Longrightarrow> mfd_brightness (calls_dev cs d) = mfd_brightness d"
    and "\<forall>c \<in> set cs. call_group c \<noteq> 2 \<Longrightarrow> led_brightness (calls_dev cs d) = led_brightness d"
    and "\<forall>c \<in> set cs. call_group c \<noteq> 4 \<Longrightarrow> tl (timezone (calls_dev cs d)) = tl (timezone d)"
    and "\<forall>c \<in> set cs. call_group c \<noteq> 5 \<Longrightarrow> time_format (calls_dev cs d) = time_format d"
    and "\<forall>c \<in> set cs. call_group c \<noteq> 6 \<Longrightarrow> libx52_device.date_format (calls_dev cs d) = libx52_device.date_format d"
  by (induction cs arbitrary: d) (simp_all add: call_keeps del: call_dev.simps)

lemma calls_marked: "b \<in> set (marked d) \<Longrightarrow> b \<in> set (marked (calls_dev cs d))"
  using call.marked_mono by (induction cs arbitrary: d) (auto simp del: call_dev.simps)

lemma calls_marked_set: "A \<subseteq> set (marked d) \<Longrightarrow> A \<subseteq> set (marked (calls_dev cs d))"
  using calls_marked by blast

lemma calls_ready: "ready h pro d \<Longrightarrow> \<forall>c \<in> set cs. date_format_ok c \<Longrightarrow> ready h pro (calls_dev cs d)"
  by (induction cs arbitrary: d) (simp_all add: ready_call del: call_dev.simps)

lemma bit_marked: "b \<in> set (marked d) \<longleftrightarrow> bit (update_mask d) b"
  by (simp add: set_marked)

text \<open>The texts, the lights and the rest of the cleanup.\<close>

definition text_line :: "string \<Rightarrow> x52_mfd_line" where
  "text_line str = \<lparr>mfd_text = map of_char str, mfd_length = 16\<rparr>"

lemma text_call:
  assumes "length t = 16" and "ln \<le> 2"
  shows "call_dev (SetText ln (str_bytes t) 16) d =
    (LIBX52_SUCCESS, mark (21 + unat ln) (d\<lparr>line := (line d)[unat ln := text_line t]\<rparr>))"
proof -
  have "map (str_bytes t) [0..<16] = map of_char t"
    using assms(1) by (intro nth_equalityI) (simp_all add: str_bytes_def del: upt_rec_numeral)
  with assms(2) show ?thesis by (simp add: set_text_dev_def Let_def text_line_def not_less del: upt_rec_numeral)
qed

lemma cleanup_texts:
  assumes "length (line d) = 3" and "length t0 = 16" and "length t1 = 16" and "length t2 = 16"
  defines "d' \<equiv> calls_dev [SetText 0 (str_bytes t0) 16, SetText 1 (str_bytes t1) 16, SetText 2 (str_bytes t2) 16] d"
  shows "line d' = [text_line t0, text_line t1, text_line t2] \<and> {21, 22, 23} \<subseteq> set (marked d')"
proof -
  obtain a b c where l: "line d = [a, b, c]" using assms(1) by (auto simp: length_Suc_conv numeral_eq_Suc)
  have d': "d' = mark 23 (mark 22 (mark 21 (d\<lparr>line := ((line d)[0 := text_line t0, 1 := text_line t1, 2 := text_line t2])\<rparr>)))"
    unfolding d'_def by (simp add: text_call assms mark_def del: call_dev.simps)
  have "[a, b, c][0 := text_line t0, 1 := text_line t1, 2 := text_line t2] = [text_line t0, text_line t1, text_line t2]"
    by (simp add: numeral_2_eq_2)
  with l show ?thesis by (simp add: d' set_marked update_mask_mark bit_x52_set_bit) (simp add: mark_def)
qed

definition colour_leds :: "libx52_led_id list" where
  "colour_leds = [LIBX52_LED_A, LIBX52_LED_B, LIBX52_LED_D, LIBX52_LED_E, LIBX52_LED_T1, LIBX52_LED_T2,
     LIBX52_LED_T3, LIBX52_LED_POV, LIBX52_LED_CLUTCH]"

lemma led_call:
  assumes "bit (flags d) X52_FLAG_IS_PRO"
  shows "led \<in> {LIBX52_LED_FIRE, LIBX52_LED_THROTTLE} \<Longrightarrow>
      call_dev (SetLedState (led_id_code led) (led_state_code LIBX52_LED_STATE_ON)) d =
        (LIBX52_SUCCESS, mark (nat (led_id_code led))
           (d\<lparr>led_mask := x52_set_bit (led_mask d) (nat (led_id_code led))\<rparr>))"
    and "led \<notin> {LIBX52_LED_FIRE, LIBX52_LED_THROTTLE} \<Longrightarrow>
      call_dev (SetLedState (led_id_code led) (led_state_code LIBX52_LED_STATE_GREEN)) d =
        (LIBX52_SUCCESS, mark (nat (led_id_code led) + 1) (mark (nat (led_id_code led))
           (led_bits (nat (led_id_code led)) False True d)))"
  using assms
  by (simp_all add: set_led_state_dev_def check_feature_dev_def feature.enum_of_code x52_tst_bit_iff
      x52pro_set_led_state_def led_id.enum_of_code led_state.enum_of_code Let_def
      del: led_id_code.simps led_state_code.simps feature_code.simps, auto)

definition green_led :: "libx52_device \<Rightarrow> libx52_led_id \<Rightarrow> bool" where
  "green_led d led \<longleftrightarrow> \<not> bit (led_mask d) (nat (led_id_code led)) \<and> bit (led_mask d) (nat (led_id_code led) + 1)"

lemma green_calls:
  assumes "set leds \<subseteq> set colour_leds" and "bit (flags d) X52_FLAG_IS_PRO"
  defines "d' \<equiv> calls_dev (map (\<lambda>led. SetLedState (led_id_code led) (led_state_code LIBX52_LED_STATE_GREEN)) leds) d"
  shows "(\<forall>led \<in> set leds. green_led d' led
      \<and> {nat (led_id_code led), nat (led_id_code led) + 1} \<subseteq> set (marked d'))
    \<and> (\<forall>b. (\<forall>led \<in> set leds. b \<noteq> nat (led_id_code led) \<and> b \<noteq> nat (led_id_code led) + 1) \<longrightarrow>
        bit (led_mask d') b = bit (led_mask d) b)"
  using assms(1,2) unfolding d'_def
proof (induction leds arbitrary: d)
  case (Cons led leds)
  let ?n = "\<lambda>l. nat (led_id_code l)"
  let ?call = "\<lambda>led. SetLedState (led_id_code led) (led_state_code LIBX52_LED_STATE_GREEN)"
  have c: "led \<notin> {LIBX52_LED_FIRE, LIBX52_LED_THROTTLE}" using Cons.prems(1) by (auto simp: colour_leds_def)
  define d1 where "d1 = snd (call_dev (?call led) d)"
  have d1: "d1 = mark (?n led + 1) (mark (?n led) (led_bits (?n led) False True d))"
    unfolding d1_def led_call(2) [OF Cons.prems(2) c] by simp
  have n: "?n led + 1 < 32" "\<And>l. ?n l = ?n led \<Longrightarrow> l = led" "\<And>l. l \<in> set colour_leds \<Longrightarrow> ?n l \<noteq> ?n led + 1"
      "\<And>l. l \<in> set colour_leds \<Longrightarrow> ?n l + 1 \<noteq> ?n led"
  proof -
    show "?n led + 1 < 32" by (cases led) simp_all
    show "?n l = ?n led \<Longrightarrow> l = led" for l by (cases l; cases led) simp_all
    show "l \<in> set colour_leds \<Longrightarrow> ?n l \<noteq> ?n led + 1" for l
      using c by (cases led) (auto simp: colour_leds_def)
    show "l \<in> set colour_leds \<Longrightarrow> ?n l + 1 \<noteq> ?n led" for l
      using c by (cases led) (auto simp: colour_leds_def)
  qed
  have fl: "bit (flags d1) X52_FLAG_IS_PRO" using Cons.prems(2) by (simp add: d1 mark_def led_bits_def)
  have here: "green_led d1 led" "{?n led, ?n led + 1} \<subseteq> set (marked d1)"
    using n(1) by (auto simp: d1 green_led_def mark_def led_bits_def x52_bit_simps set_marked)
  have other: "b \<noteq> ?n led \<Longrightarrow> b \<noteq> ?n led + 1 \<Longrightarrow> bit (led_mask d1) b = bit (led_mask d) b" for b
    by (auto simp: d1 mark_def led_bits_def x52_bit_simps)
  have sub: "set leds \<subseteq> set colour_leds" using Cons.prems(1) by simp
  note ih = Cons.IH [OF sub fl]
  have mk: "{?n led, ?n led + 1} \<subseteq> set (marked (calls_dev (map ?call leds) d1))"
    using here(2) calls_marked by blast
  have gr: "green_led (calls_dev (map ?call leds) d1) led"
  proof (cases "led \<in> set leds")
    case True
    with ih show ?thesis by blast
  next
    case False
    have "\<forall>l \<in> set leds. b \<noteq> ?n l \<and> b \<noteq> ?n l + 1" if "b = ?n led \<or> b = ?n led + 1" for b
      using False n sub that by (metis add_right_cancel subsetD)
    with ih here(1) show ?thesis unfolding green_led_def by blast
  qed
  have step: "calls_dev (map ?call (led # leds)) d = calls_dev (map ?call leds) d1"
    by (simp only: list.map calls_dev_simps d1_def)
  show ?case
    unfolding step using ih gr mk other by simp
qed simp

lemma cleanup_leds:
  assumes "bit (flags d) X52_FLAG_IS_PRO"
  defines "d' \<equiv> calls_dev
     ([SetLedState (led_id_code LIBX52_LED_FIRE) (led_state_code LIBX52_LED_STATE_ON),
       SetLedState (led_id_code LIBX52_LED_THROTTLE) (led_state_code LIBX52_LED_STATE_ON)]
      @ map (\<lambda>led. SetLedState (led_id_code led) (led_state_code LIBX52_LED_STATE_GREEN)) colour_leds) d"
  shows "bit (led_mask d') 1 \<and> bit (led_mask d') 20 \<and> (\<forall>led \<in> set colour_leds. green_led d' led)
    \<and> {1..20} \<subseteq> set (marked d')"
proof -
  let ?on = "\<lambda>led. SetLedState (led_id_code led) (led_state_code LIBX52_LED_STATE_ON)"
  let ?greens = "map (\<lambda>led. SetLedState (led_id_code led) (led_state_code LIBX52_LED_STATE_GREEN)) colour_leds"
  define d1 where "d1 = calls_dev [?on LIBX52_LED_FIRE, ?on LIBX52_LED_THROTTLE] d"
  have d1: "d1 = mark 20 (mark 1 (d\<lparr>led_mask := x52_set_bit (x52_set_bit (led_mask d) 1) 20\<rparr>))"
    using assms(1) led_call(1) [of d LIBX52_LED_FIRE]
      led_call(1) [of "mark 1 (d\<lparr>led_mask := x52_set_bit (led_mask d) 1\<rparr>)" LIBX52_LED_THROTTLE]
    by (simp add: d1_def mark_def)
  have d': "d' = calls_dev ?greens d1" by (simp add: d'_def d1_def del: call_dev.simps)
  have "bit (flags d1) X52_FLAG_IS_PRO" using assms(1) by (simp add: d1 mark_def)
  note g = green_calls [OF subset_refl this, folded d']
  have on: "bit (led_mask d1) 1" "bit (led_mask d1) 20" "{1, 20} \<subseteq> set (marked d1)"
    by (simp_all add: d1 mark_def set_marked x52_bit_simps)
  have kept: "bit (led_mask d') b = bit (led_mask d1) b" if "b = 1 \<or> b = 20" for b
    using g that by (auto simp: colour_leds_def)
  have m1: "{1, 20} \<subseteq> set (marked d')" using on(3) calls_marked unfolding d' by blast
  have m2: "{2..19} \<subseteq> set (marked d')"
  proof
    have "\<forall>b \<in> set [2..<20]. b \<in> (\<lambda>l. nat (led_id_code l)) ` set colour_leds
        \<or> b \<in> (\<lambda>l. nat (led_id_code l) + 1) ` set colour_leds" by code_simp
    moreover fix b :: nat assume "b \<in> {2..19}"
    then have "b \<in> set [2..<20]" by (simp del: upt_rec_numeral)
    ultimately have "b \<in> (\<lambda>l. nat (led_id_code l)) ` set colour_leds
        \<or> b \<in> (\<lambda>l. nat (led_id_code l) + 1) ` set colour_leds" by (rule bspec)
    with g show "b \<in> set (marked d')" by blast
  qed
  have "{1..20} = {1, 20} \<union> {2..19 :: nat}" by auto
  with m1 m2 have "{1..20} \<subseteq> set (marked d')" by (simp only: Un_subset_iff)
  moreover have "\<forall>led \<in> set colour_leds. green_led d' led" using g by blast
  moreover have "bit (led_mask d') 1" "bit (led_mask d') 20" using kept [of 1] kept [of 20] on(1,2) by simp_all
  ultimately show ?thesis by (intro conjI)
qed

text \<open>The settings the cleanup leaves, but for the time.\<close>

definition restored :: "bool \<Rightarrow> libx52_device \<Rightarrow> bool" where
  "restored pro d \<longleftrightarrow>
     line d = map text_line (if pro then ['' Saitek X52 Pro '', ''     Flight     '', '' Control System '']
       else [''     Saitek     '', ''   X52 Flight   '', '' Control System ''])
   \<and> (pro \<longrightarrow> bit (led_mask d) 1 \<and> bit (led_mask d) 20 \<and> (\<forall>led \<in> set colour_leds. green_led d led))
   \<and> \<not> bit (led_mask d) 0 \<and> \<not> bit (led_mask d) 24
   \<and> mfd_brightness d = 128 \<and> led_brightness d = 128
   \<and> timezone d ! 1 = 0 \<and> timezone d ! 2 = 330
   \<and> time_format d = replicate 3 (clock_format_code LIBX52_CLOCK_FORMAT_24HR)
   \<and> libx52_device.date_format d = date_format_code LIBX52_DATE_FORMAT_MMDDYY"

lemma cleanup_rest:
  fixes E :: test_env
  assumes "ready h pro d"
  defines "d' \<equiv> calls_dev (cleanup_all E) d"
  shows "line d' = line d"
    and "bit (led_mask d') b \<longleftrightarrow> bit (led_mask d) b \<and> b \<noteq> 0 \<and> b \<noteq> 24"
    and "mfd_brightness d' = 128 \<and> led_brightness d' = 128"
    and "timezone d' ! 1 = 0 \<and> timezone d' ! 2 = 330"
    and "time_format d' = replicate 3 (clock_format_code LIBX52_CLOCK_FORMAT_24HR)"
    and "libx52_device.date_format d' = date_format_code LIBX52_DATE_FORMAT_MMDDYY"
    and "{0, 24, 25, 26, 27, 28, 29, 30} \<subseteq> set (marked d')"
    and "ready h pro d'"
proof -
  define lights where "lights = [SetBlink 0, SetShift 0]"
  define clock where "clock = [SetClock (clock_env.truncate E) (te_time E) 1]"
  define zones where "zones = [SetClockTimezone 1 0, SetClockTimezone 2 330]"
  define formats where "formats = [SetClockFormat 0 1, SetClockFormat 1 1, SetClockFormat 2 1]"
  define dates where "dates = [SetDateFormat (date_format_code LIBX52_DATE_FORMAT_MMDDYY)]"
  define bri where "bri = [SetBrightness 1 128, SetBrightness 0 128]"
  note parts = lights_def clock_def zones_def formats_def dates_def bri_def
  have all: "cleanup_all E = lights @ clock @ zones @ formats @ dates @ bri" by (simp add: cleanup_all_def parts)
  define d1 where "d1 = calls_dev lights d"
  define d2 where "d2 = calls_dev clock d1"
  define d3 where "d3 = calls_dev zones d2"
  define d4 where "d4 = calls_dev formats d3"
  define d5 where "d5 = calls_dev dates d4"
  note steps = d1_def d2_def d3_def d4_def d5_def
  have d': "d' = calls_dev bri d5" by (simp add: d'_def all steps del: call_dev.simps)
  have fmt: "\<forall>c \<in> set (lights @ clock @ zones @ formats @ dates @ bri). date_format_ok c"
    by (simp add: parts date_format_ok_def del: date_format_code.simps)
  have r: "ready h pro d1" "ready h pro d2" "ready h pro d3" "ready h pro d4" "ready h pro d5"
    unfolding steps using assms(1) fmt by (auto intro!: calls_ready simp del: calls_dev_simps)
  show "ready h pro d'" unfolding d' using r(5) fmt by (auto intro: calls_ready)
  show "line d' = line d" unfolding d'_def by (rule calls_keep(1)) (simp add: cleanup_all_def)
  have "led_mask d' = led_mask d1" unfolding d' steps
    by (simp add: calls_keep(2) parts del: calls_dev_simps call_dev.simps)
  then show "bit (led_mask d') b \<longleftrightarrow> bit (led_mask d) b \<and> b \<noteq> 0 \<and> b \<noteq> 24"
    by (auto simp: d1_def lights_def set_blink_dev_def set_shift_dev_def mark_def x52_bit_simps)
  show "mfd_brightness d' = 128 \<and> led_brightness d' = 128"
    by (simp add: d' bri_def set_brightness_dev_def mark_def)
  have "libx52_device.date_format d' = libx52_device.date_format d5" unfolding d'
    by (simp add: calls_keep(7) bri_def del: calls_dev_simps call_dev.simps)
  then show "libx52_device.date_format d' = date_format_code LIBX52_DATE_FORMAT_MMDDYY"
    by (simp add: d5_def dates_def set_date_format_dev_def mark_def)
  have "length (time_format d3) = 3" using r(3) by (simp add: ready_def dev_wf_def)
  then obtain x y z where tf: "time_format d3 = [x, y, z]" by (auto simp: length_Suc_conv numeral_eq_Suc)
  have "time_format d' = time_format d4" unfolding d' d5_def
    by (simp add: calls_keep(6) bri_def dates_def del: calls_dev_simps call_dev.simps)
  moreover have "d4 = mark 30 (mark 29 (mark 28 (d3\<lparr>time_format := (time_format d3)[0 := 1, 1 := 1, 2 := 1]\<rparr>)))"
    by (simp add: d4_def formats_def set_clock_format_dev_def clock_id_of_codes mark_def Let_def)
  moreover have "[x, y, z][0 := 1, 1 := 1, 2 := 1] = replicate 3 (1 :: int)" by (simp add: numeral_2_eq_2 numeral_3_eq_3)
  ultimately show "time_format d' = replicate 3 (clock_format_code LIBX52_CLOCK_FORMAT_24HR)"
    by (simp add: mark_def tf)
  have "length (timezone d2) = 3" using r(2) by (simp add: ready_def dev_wf_def)
  then obtain u v w where tz: "timezone d2 = [u, v, w]" by (auto simp: length_Suc_conv numeral_eq_Suc)
  have d3: "d3 = mark 30 (mark 29 (d2\<lparr>timezone := (timezone d2)[1 := 0, 2 := 330]\<rparr>))"
    by (simp add: d3_def zones_def set_clock_timezone_dev_def clock_id_of_codes mark_def)
  have "tl (timezone d') = tl (timezone d3)" unfolding d' d5_def d4_def
    by (simp add: calls_keep(5) parts del: calls_dev_simps call_dev.simps)
  then have "tl (timezone d') = [0, 330]" by (simp add: d3 mark_def tz numeral_2_eq_2)
  then show "timezone d' ! 1 = 0 \<and> timezone d' ! 2 = 330" by (cases "timezone d'") (simp_all add: numeral_2_eq_2)
  have m: "{0, 24} \<subseteq> set (marked d1)" "{29, 30} \<subseteq> set (marked d3)" "{28} \<subseteq> set (marked d4)" "{27} \<subseteq> set (marked d5)"
      "{25, 26} \<subseteq> set (marked d')"
    by (simp_all add: d1_def lights_def set_blink_dev_def set_shift_dev_def d3 d4_def formats_def d5_def dates_def d' bri_def
        set_brightness_dev_def set_date_format_dev_def set_clock_format_dev_def clock_id_of_codes Let_def
        set_marked x52_bit_simps mark_def)
  show "{0, 24, 25, 26, 27, 28, 29, 30} \<subseteq> set (marked d')"
  proof -
    have "{0, 24} \<subseteq> set (marked d')" unfolding d' d5_def d4_def d3_def d2_def by (intro calls_marked_set m(1))
    moreover have "{29, 30} \<subseteq> set (marked d')" unfolding d' d5_def d4_def by (intro calls_marked_set m(2))
    moreover have "{28} \<subseteq> set (marked d')" unfolding d' d5_def by (intro calls_marked_set m(3))
    moreover have "{27} \<subseteq> set (marked d')" unfolding d' by (intro calls_marked_set m(4))
    ultimately show ?thesis using m(5) by (simp only: insert_subset)
  qed
qed

text \<open>The indicators of a joystick: only a Pro has the LEDs.\<close>

definition indicator :: "bool \<Rightarrow> nat \<Rightarrow> bool" where
  "indicator pro b \<longleftrightarrow> b \<le> 30 \<and> (pro \<or> b = 0 \<or> 21 \<le> b)"

lemma indicator_cover:
  "indicator pro b \<Longrightarrow> b \<in> {0, 24, 25, 26, 27, 28, 29, 30} \<union> {21, 22, 23} \<union> (if pro then {1..20} else {})"
proof -
  have "b = 0 \<or> 1 \<le> b \<and> b \<le> 20 \<or> b = 21 \<or> b = 22 \<or> b = 23 \<or> b = 24 \<or> b = 25 \<or> b = 26 \<or> b = 27
      \<or> b = 28 \<or> b = 29 \<or> b = 30" if "b \<le> 30" using that by presburger
  then show "indicator pro b \<Longrightarrow> ?thesis" unfolding indicator_def by (cases pro) auto
qed

lemma cleanup_sets:
  fixes E :: test_env
  assumes "ready h pro d"
  defines "d' \<equiv> calls_dev ((if pro then cleanup_pro else cleanup_other) @ cleanup_all E) d"
  shows "restored pro d'" and "ready h pro d'" and "indicator pro b \<Longrightarrow> b \<in> set (marked d')"
proof -
  let ?t = "if pro then ['' Saitek X52 Pro '', ''     Flight     '', '' Control System '']
       else [''     Saitek     '', ''   X52 Flight   '', '' Control System '']"
  let ?text = "[SetText 0 (str_bytes (?t ! 0)) 16, SetText 1 (str_bytes (?t ! 1)) 16, SetText 2 (str_bytes (?t ! 2)) 16]"
  let ?leds = "if pro then [SetLedState (led_id_code LIBX52_LED_FIRE) (led_state_code LIBX52_LED_STATE_ON),
       SetLedState (led_id_code LIBX52_LED_THROTTLE) (led_state_code LIBX52_LED_STATE_ON)]
      @ map (\<lambda>led. SetLedState (led_id_code led) (led_state_code LIBX52_LED_STATE_GREEN)) colour_leds else []"
  define d1 where "d1 = calls_dev ?text d"
  define d2 where "d2 = calls_dev ?leds d1"
  have "(if pro then cleanup_pro else cleanup_other) = ?text @ ?leds"
    by (simp add: cleanup_pro_def cleanup_other_def colour_leds_def numeral_2_eq_2
        del: led_id_code.simps led_state_code.simps)
  then have d': "d' = calls_dev (cleanup_all E) d2" unfolding d'_def d2_def d1_def by (simp only: calls_dev_simps append_assoc)
  have "length (line d) = 3" using assms(1) by (simp add: ready_def dev_wf_def)
  from cleanup_texts [OF this, of "?t ! 0" "?t ! 1" "?t ! 2"]
  have t: "line d1 = map text_line ?t" "{21, 22, 23} \<subseteq> set (marked d1)"
    unfolding d1_def [symmetric] by (simp_all add: numeral_2_eq_2)
  have r1: "ready h pro d1" unfolding d1_def using assms(1) by (rule calls_ready) (simp add: date_format_ok_def)
  have r2: "ready h pro d2" unfolding d2_def using r1 by (rule calls_ready) (auto simp: date_format_ok_def)
  have l2: "line d2 = line d1" unfolding d2_def by (rule calls_keep(1)) auto
  have leds: "pro \<longrightarrow> bit (led_mask d2) 1 \<and> bit (led_mask d2) 20 \<and> (\<forall>led \<in> set colour_leds. green_led d2 led)
      \<and> {1..20} \<subseteq> set (marked d2)"
    using cleanup_leds [of d1] r1 unfolding d2_def by (simp add: ready_def x52_tst_bit_iff)
  note rest = cleanup_rest [OF r2, where E = E, folded d']
  have "\<forall>led \<in> set colour_leds. nat (led_id_code led) \<noteq> 0 \<and> nat (led_id_code led) \<noteq> 24
      \<and> nat (led_id_code led) + 1 \<noteq> 0 \<and> nat (led_id_code led) + 1 \<noteq> 24" by code_simp
  with rest(2) have green: "\<forall>led \<in> set colour_leds. green_led d' led = green_led d2 led"
    unfolding green_led_def by blast
  have "line d' = map text_line ?t" using rest(1) l2 t(1) by (simp only:)
  moreover have "pro \<longrightarrow> bit (led_mask d') 1 \<and> bit (led_mask d') 20 \<and> (\<forall>led \<in> set colour_leds. green_led d' led)"
    using leds rest(2) [of 1] rest(2) [of 20] green by simp
  moreover have "\<not> bit (led_mask d') 0" "\<not> bit (led_mask d') 24" using rest(2) by simp_all
  ultimately show "restored pro d'" using rest(3-6) unfolding restored_def by (intro conjI) simp_all
  show "ready h pro d'" by (rule rest(8))
  have m: "{21, 22, 23} \<subseteq> set (marked d')" unfolding d' d2_def by (intro calls_marked_set t(2))
  have "pro \<longrightarrow> {1..20} \<subseteq> set (marked d')" unfolding d' using leds by (intro impI calls_marked_set) simp
  with m rest(7) show "b \<in> set (marked d')" if "indicator pro b"
    using indicator_cover [OF that] by (auto split: if_splits)
qed

lemma cleanup_ok:
  assumes "accepts U" and "ready h pro (ts_dev s)" and "test_cleanup (logged U) E s = s'"
  shows "\<exists>d. restored pro d \<and> ts_dev s' = d\<lparr>update_mask := 0\<rparr> \<and> ts_out s' = ts_out s
    \<and> (\<forall>b. indicator pro b \<longrightarrow> displays (display_of (snd (ts_world s'))) d b)"
proof -
  let ?calls = "(if pro then cleanup_pro else cleanup_other) @ cleanup_all E"
  let ?d = "calls_dev ?calls (ts_dev s)"
  note c = cleanup_sets [OF assms(2), where E = E]
  obtain rc d2 w2 where u: "libx52_update (logged U) ?d (ts_world s) = (rc, d2, w2)" by (metis prod_cases3)
  have "libx52_check_feature (Some (ts_dev s)) (feature_code LIBX52_FEATURE_LED) = LIBX52_SUCCESS \<longleftrightarrow> pro"
    using assms(2) by (simp add: test_feature_led ready_def del: feature_code.simps)
  then have s': "s' = s\<lparr>ts_dev := d2, ts_world := w2\<rparr>"
    using assms(3) u by (auto simp: test_cleanup_def fold_set_dev update_dev_def Let_def simp del: calls_dev_simps)
  have up: "d2 = ?d\<lparr>update_mask := 0\<rparr>" "snd w2 = snd (ts_world s) @ concat (map (cmds ?d) (marked ?d))"
      "\<forall>b \<in> set (marked ?d). packets ?d b \<noteq> None"
    using update_accepted [OF assms(1) _ _ u] c(2) by (auto simp: ready_def)
  have "displays (display_of (snd w2)) ?d b" if "indicator pro b" for b
    using fold_concat_displays [OF distinct_marked c(3) [OF that] up(3)] by (simp add: up(2) display_append)
  with c(1) up(1) show ?thesis by (intro exI [of _ ?d]) (simp add: s' del: calls_dev_simps)
qed

section \<open>A whole run\<close>

lemma clock_test:
  assumes "accepts U" and "gmtime_2015 (clock_env.truncate E)"
  shows "cannot_fail E h pro (test_clock (logged U) E)"
proof -
  have "uses_env (clock_env.truncate E) (clock_steps (clock_env.truncate E))"
    by (auto simp: uses_env_def clock_steps_def print_banner_def TEST_CLOCK_LOOP_def Let_def)
  moreover obtain t where "steps_ok pro None (clock_steps (clock_env.truncate E)) = Some t"
    using clock_steps_ok by blast
  ultimately show ?thesis
    using run_steps_ok [OF assms, of "clock_steps (clock_env.truncate E)" pro None]
    unfolding cannot_fail_def test_clock_def by blast
qed

lemma suite_cannot_fail:
  assumes "accepts U" and "gmtime_2015 (clock_env.truncate E)"
  shows "(\<forall>(b, f) \<in> set (test_functions (logged U) E). cannot_fail E h pro f)
    \<and> (\<forall>(b, f) \<in> set (butlast (test_functions (logged U) E)). keeps_clock h pro f)"
proof -
  have fs: "test_functions (logged U) E =
      [(1, test_brightness (logged U) E), (2, test_leds (logged U) E), (4, test_mfd_text (logged U) E),
       (8, test_mfd_display (logged U) E), (16, test_blink_n_shift (logged U) E), (32, test_clock (logged U) E)]"
    by (simp add: test_functions_def TESTS_def)
  show ?thesis
    using sure_steps_test [OF assms suite_ok(1)] sure_steps_test [OF assms suite_ok(2)]
      sure_steps_test [OF assms suite_ok(3)] sure_steps_test [OF assms suite_ok(4)]
      leds_test [OF assms] clock_test [OF assms]
    by (simp add: fs test_brightness_def test_mfd_text_def test_mfd_display_def test_blink_n_shift_def)
qed

lemma start_inv:
  assumes "libx52_init (logged U) True alloc w = (LIBX52_SUCCESS, Some d, w1)" and "hdl d = Some h"
    and "no_error out"
  shows "test_inv h (x52_tst_bit (flags d) X52_FLAG_IS_PRO) None
    \<lparr>ts_dev = d, ts_reads = n, ts_slept = m, ts_out = out, ts_world = w1\<rparr>"
proof -
  obtain c where s: "same_settings (x52_calloc\<lparr>ctx := c\<rparr>) d" using init_settings [OF assms(1)] by blast
  have "dev_wf d" using s dev_wf_calloc by (auto simp: same_settings_def dev_wf_def)
  moreover have "date_day d = 0" using s by (auto simp: same_settings_def x52_calloc_def)
  moreover have "libx52_device.date_format d = date_format_code LIBX52_DATE_FORMAT_DDMMYY"
    using s by (auto simp: same_settings_def x52_calloc_def)
  then have "libx52_device.date_format d \<in> range date_format_code" by (rule range_eqI)
  ultimately show ?thesis using assms(2,3) by (simp add: test_inv_def ready_def)
qed

text \<open>
  C37:
  On a joystick that is found and accepts its commands no test of \<open>x52test\<close> can fail, whichever
  are selected: the tests end successfully or with a signal, whenever that comes, and without a
  signal successfully. In every case the cleanup then leaves its texts, lights, brightness, time
  zones and formats, and every indicator of the joystick shows what the device record holds.
\<close>

theorem x52test_restores:
  assumes "accepts U" and "gmtime_2015 (clock_env.truncate E)"
    and init: "libx52_init (logged U) True (te_calloc E) w = (LIBX52_SUCCESS, Some d0, w1)" and "hdl d0 = Some h"
  defines "pro \<equiv> x52_tst_bit (flags d0) X52_FLAG_IS_PRO"
  shows "\<exists>d out rc w'. run_tests (logged U) E test_set w = Some (0, out @ [run_result E rc], w')
    \<and> no_error out \<and> rc \<le> 0 \<and> (silent E \<longrightarrow> rc = 0) \<and> restored pro d
    \<and> (\<forall>b. indicator pro b \<longrightarrow> displays (display_of (snd w')) d b)"
proof -
  let ?s = "\<lparr>ts_dev = d0, ts_reads = 0, ts_slept = 0, ts_out = run_intro test_set, ts_world = w1\<rparr>"
  have "no_error (run_intro test_set)" by (auto simp: no_error_def run_intro_def)
  then have inv: "test_inv h pro None ?s" unfolding pro_def by (rule start_inv [OF init assms(4)])
  obtain rc s1 where r: "run_selected test_set (test_functions (logged U) E) ?s = (rc, s1)" by (rule prod.exhaust)
  from suite_cannot_fail [OF assms(1,2)] run_selected_ok [OF _ _ inv r]
  obtain v where s1: "test_inv h pro v s1" and rc: "rc \<le> 0" "silent E \<longrightarrow> rc = 0" by blast
  let ?s2 = "say (run_result E rc) s1"
  have "ready h pro (ts_dev ?s2)" using s1 by (simp add: test_inv_def say_def)
  from cleanup_ok [OF assms(1) this refl, of E]
  obtain d where d: "restored pro d" "ts_out (test_cleanup (logged U) E ?s2) = ts_out ?s2"
    "\<forall>b. indicator pro b \<longrightarrow> displays (display_of (snd (ts_world (test_cleanup (logged U) E ?s2)))) d b" by blast
  obtain w' where x: "libx52_exit (logged U) (Some (ts_dev (test_cleanup (logged U) E ?s2)))
      (ts_world (test_cleanup (logged U) E ?s2)) = Some w'"
    using exit_some [of "logged U" "ts_dev (test_cleanup (logged U) E ?s2)" "ts_world (test_cleanup (logged U) E ?s2)"]
    by blast
  have "run_tests (logged U) E test_set w = Some (0, ts_out s1 @ [run_result E rc], w')"
    using d(2) x rc(1) by (simp add: run_tests_def init r Let_def say_def)
  moreover have "no_error (ts_out s1)" using s1 by (simp add: test_inv_def)
  moreover have "snd w' = snd (ts_world (test_cleanup (logged U) E ?s2))" using exit_log [OF x] .
  ultimately show ?thesis using d(1,3) rc by metis
qed

text \<open>All tests on a Pro, without a signal.\<close>

definition demo_te :: test_env where
  "demo_te = \<lparr>localtime_r = (\<lambda>_. None),
     gmtime_r = (\<lambda>t. Some \<lparr>tm_min = t div 60 mod 60, tm_hour = t div 3600 mod 24,
       tm_mday = 1 + (t - clock_start) div 86400, tm_mon = 0, tm_year = 115, tm_gmtoff = 0\<rparr>),
     have_gmtoff = True, strftime_z = (\<lambda>_. []), te_time = 0, te_signal = (\<lambda>_. 0), te_nodelay = True,
     te_calloc = True, te_gettext = (\<lambda>s. s), te_strsignal = (\<lambda>_. [])\<rparr>"

theorem x52test_restores_witness:
  "\<exists>d out w'. run_tests (logged demo_usb) demo_te TEST_ALL ((), []) =
      Some (0, out @ [TestOut ''All tests completed successfully\<newline>''], w')
    \<and> no_error out \<and> restored True d \<and> displays (display_of (snd w')) d 20"
proof -
  have run: "fst demo_init = LIBX52_SUCCESS" "map_option (\<lambda>d. (hdl d, x52_tst_bit (flags d) 0)) (fst (snd demo_init)) = Some (Some 0, True)"
    by code_simp+
  then obtain d0 where d0: "fst (snd demo_init) = Some d0" "hdl d0 = Some 0" "x52_tst_bit (flags d0) X52_FLAG_IS_PRO"
    by auto
  have init: "libx52_init (logged demo_usb) True (te_calloc demo_te) ((), []) = (LIBX52_SUCCESS, Some d0, snd (snd demo_init))"
    using run(1) d0(1) by (simp add: demo_init_def demo_te_def prod_eq_iff)
  have gm: "gmtime_2015 (clock_env.truncate demo_te)"
    by (simp add: gmtime_2015_def demo_te_def clock_env.truncate_def)
  have "silent demo_te" by (simp add: silent_def demo_te_def)
  with x52test_restores [OF accepts_demo gm init d0(2), of TEST_ALL] d0(3) obtain d out rc w'
    where r: "run_tests (logged demo_usb) demo_te TEST_ALL ((), []) = Some (0, out @ [run_result demo_te rc], w')"
      "rc = 0" "no_error out" "restored True d" and ds: "\<forall>b. indicator True b \<longrightarrow> displays (display_of (snd w')) d b"
    by auto
  from ds have "displays (display_of (snd w')) d 20" by (simp add: indicator_def)
  moreover have "run_result demo_te rc = TestOut ''All tests completed successfully\<newline>''"
    using r(2) by (simp add: run_result_def)
  ultimately show ?thesis using r(1,3,4) by (metis (no_types))
qed

text \<open>
  The status does not tell a failed test: once libx52 is initialised, which needs no joystick, it
  is 0.
\<close>

lemma run_tests_status:
  assumes "libx52_init U True (te_calloc E) w = (LIBX52_SUCCESS, Some d, w1)"
  shows "\<exists>out w'. run_tests U E test_set w = Some (0, out, w')"
proof -
  let ?s = "\<lparr>ts_dev = d, ts_reads = 0, ts_slept = 0, ts_out = run_intro test_set, ts_world = w1\<rparr>"
  obtain rc s1 where r: "run_selected test_set (test_functions U E) ?s = (rc, s1)" by (rule prod.exhaust)
  define s3 where "s3 = (if rc \<le> 0 then test_cleanup U E (say (run_result E rc) s1) else say (run_result E rc) s1)"
  obtain w' where "libx52_exit U (Some (ts_dev s3)) (ts_world s3) = Some w'" using exit_some by metis
  then show ?thesis by (simp add: run_tests_def assms r s3_def Let_def)
qed

section \<open>The selection\<close>

definition test_names :: "string set" where
  "test_names = fst ` set TESTS"

lemma find_test_names: "find_test arg = None \<longleftrightarrow> arg \<notin> test_names"
  by (auto simp: find_test_def test_names_def find_None_iff image_iff split: prod.splits)

lemma help_no_test: "''help'' \<notin> test_names" "''--help'' \<notin> test_names"
  by (simp_all add: test_names_def TESTS_def)

definition test_words :: "(string \<times> int) list" where
  "test_words = [(''bri'', 1), (''led'', 2), (''mfd1'', 4), (''mfd2'', 8), (''blink'', 16), (''clock'', 32)]"

lemma test_words: "map (\<lambda>(kw, b, desc). (kw, b)) TESTS = test_words"
  by (simp add: TESTS_def test_words_def)

lemma test_words_mem: "(kw, b, desc) \<in> set TESTS \<Longrightarrow> (kw, b) \<in> set test_words"
  unfolding test_words [symmetric] by force

lemma test_words_bits: "\<forall>(kw, c) \<in> set test_words. \<forall>(arg, b) \<in> set test_words. (b AND c \<noteq> 0) = (kw = arg)"
  by (simp add: test_words_def)

lemma test_bits:
  "find_test arg = Some b \<Longrightarrow> (kw, c, desc) \<in> set TESTS \<Longrightarrow> b AND c \<noteq> 0 \<longleftrightarrow> kw = arg"
proof -
  assume "find_test arg = Some b" and c: "(kw, c, desc) \<in> set TESTS"
  then obtain d where "(arg, b, d) \<in> set TESTS"
    by (auto simp: find_test_def find_Some_iff) (metis nth_mem)
  with c test_words_bits show "b AND c \<noteq> 0 \<longleftrightarrow> kw = arg"
    using test_words_mem by blast
qed

lemma or_and_nonzero: "(x OR y) AND z \<noteq> 0 \<longleftrightarrow> x AND z \<noteq> 0 \<or> y AND z \<noteq> 0" for x y z :: int
  by (simp add: bit.conj_disj_distrib2 or_eq_0_iff)

lemma parse_test_args_names:
  "set args \<subseteq> test_names \<Longrightarrow> \<exists>n. parse_test_args prog args test_list = Inr n
    \<and> (\<forall>(kw, b, desc) \<in> set TESTS. n AND b \<noteq> 0 \<longleftrightarrow> kw \<in> set args \<or> test_list AND b \<noteq> 0)"
proof (induction args arbitrary: test_list)
  case Nil
  then show ?case by auto
next
  case (Cons arg args)
  then obtain b where b: "find_test arg = Some b" using find_test_names [of arg] by auto
  have "set args \<subseteq> test_names" using Cons.prems by simp
  from Cons.IH [OF this] obtain n where n: "parse_test_args prog args (test_list OR b) = Inr n"
    "\<forall>(kw, c, desc) \<in> set TESTS. n AND c \<noteq> 0 \<longleftrightarrow> kw \<in> set args \<or> (test_list OR b) AND c \<noteq> 0" by blast
  have bits: "n AND c \<noteq> 0 \<longleftrightarrow> kw \<in> set (arg # args) \<or> test_list AND c \<noteq> 0"
    if m: "(kw, c, desc) \<in> set TESTS" for kw c desc
  proof -
    from bspec [OF n(2) m] have "n AND c \<noteq> 0 \<longleftrightarrow> kw \<in> set args \<or> (test_list OR b) AND c \<noteq> 0" by simp
    then show ?thesis unfolding or_and_nonzero test_bits [OF b m] by auto
  qed
  then have "\<forall>(kw, c, desc) \<in> set TESTS. n AND c \<noteq> 0 \<longleftrightarrow> kw \<in> set (arg # args) \<or> test_list AND c \<noteq> 0"
    by (intro ballI) (simp only: split_beta, metis prod.collapse)
  moreover have "arg \<noteq> ''help''" "arg \<noteq> ''--help''" using Cons.prems help_no_test by auto
  ultimately show ?case using n(1) b by (intro exI [of _ n]) simp
qed

lemma parse_test_args_other:
  assumes "\<not> set args \<subseteq> test_names"
  defines "arg \<equiv> hd (dropWhile (\<lambda>a. a \<in> test_names) args)"
  shows "\<exists>line out. parse_test_args prog args test_list =
    Inl (if arg = ''help'' \<or> arg = ''--help'' then 0 else 1, TestOut line # out)"
  using assms(1) unfolding arg_def
proof (induction args arbitrary: test_list)
  case (Cons x args)
  show ?case
  proof (cases "x \<in> test_names")
    case True
    then have "x \<noteq> ''help''" "x \<noteq> ''--help''" using help_no_test by auto
    moreover obtain b where "find_test x = Some b" using True find_test_names [of x] by auto
    ultimately show ?thesis using True Cons by simp
  next
    case False
    then show ?thesis using find_test_names [of x] by auto
  qed
qed simp

text \<open>
  C38:
  If all arguments are names of tests, exactly the named tests are selected, whatever their order
  and repetition, and all of them without arguments; the branch that runs no tests is dead. Else
  the first other argument decides: the help with status 0, or an error with status 1, and libusb
  is not touched.
\<close>

theorem x52test_selects:
  "if set args \<subseteq> test_names
   then \<exists>n. test_main U E (prog # args) w = run_tests U E n w
      \<and> (\<forall>(kw, b, desc) \<in> set TESTS. n AND b \<noteq> 0 \<longleftrightarrow> kw \<in> set args \<or> args = [])
   else \<exists>line out. test_main U E (prog # args) w =
      Some (if hd (dropWhile (\<lambda>a. a \<in> test_names) args) \<in> {''help'', ''--help''} then 0 else 1, TestOut line # out, w)"
proof (cases "set args \<subseteq> test_names")
  case True
  let ?t = "if args = [] then TEST_ALL else 0"
  obtain n where n: "parse_test_args prog args ?t = Inr n"
    "\<forall>(kw, b, desc) \<in> set TESTS. n AND b \<noteq> 0 \<longleftrightarrow> kw \<in> set args \<or> ?t AND b \<noteq> 0"
    using parse_test_args_names [OF True] by blast
  have all: "\<forall>(kw, b, desc) \<in> set TESTS. TEST_ALL AND b \<noteq> 0" by code_simp
  then have bits: "\<forall>(kw, b, desc) \<in> set TESTS. n AND b \<noteq> 0 \<longleftrightarrow> kw \<in> set args \<or> args = []"
    using n(2) by (cases "args = []") auto
  have "\<exists>(kw, b, desc) \<in> set TESTS. n AND b \<noteq> 0"
  proof (cases args)
    case Nil
    with bits show ?thesis by (simp add: TESTS_def)
  next
    case (Cons arg rest)
    with True have "arg \<in> fst ` set TESTS" by (simp add: test_names_def)
    with bits Cons show ?thesis by force
  qed
  then have "n \<noteq> 0" by auto
  with n(1) have "test_main U E (prog # args) w = run_tests U E n w" by (simp add: test_main_def)
  with True bits show ?thesis by auto
next
  case False
  then show ?thesis
    using parse_test_args_other [OF False, of prog "if args = [] then TEST_ALL else 0"] by (auto simp: test_main_def)
qed

theorem x52test_selects_witness:
  "\<forall>U E w. \<exists>n. test_main U E [''x52test'', ''led'', ''bri'', ''led''] w = run_tests U E n w
    \<and> n AND 1 \<noteq> 0 \<and> n AND 2 \<noteq> 0 \<and> n AND 4 = 0"
proof (intro allI)
  fix U :: "'w libusb" and E w
  have "set [''led'', ''bri'', ''led''] \<subseteq> test_names" by (simp add: test_names_def TESTS_def)
  with x52test_selects [of "[''led'', ''bri'', ''led'']" U E "''x52test''" w]
  obtain n where "test_main U E [''x52test'', ''led'', ''bri'', ''led''] w = run_tests U E n w"
    "\<forall>(kw, b, desc) \<in> set TESTS. n AND b \<noteq> 0 \<longleftrightarrow> kw \<in> set [''led'', ''bri'', ''led'']" by auto
  then show "\<exists>n. test_main U E [''x52test'', ''led'', ''bri'', ''led''] w = run_tests U E n w
    \<and> n AND 1 \<noteq> 0 \<and> n AND 2 \<noteq> 0 \<and> n AND 4 = 0" by (intro exI [of _ n]) (simp add: TESTS_def)
qed

end
