(* ===== verification/Stub_Tools.thy ===== *)
theory Stub_Tools
  imports Libx52_Core
begin

text \<open>
  The two tools of the test suite over the stub libusb: \<open>create_device_list.c\<close> writes the file
  of devices that the stub reads, and \<open>log_actions.c\<close> sends the vendor commands of its command
  line, so that its output file is the one a correct libx52 must produce.

  Both are functions of the stub's world. Closing or writing the null \<open>FILE\<close> of an output that
  cannot be opened is undefined behaviour.
\<close>

section \<open>The list of devices\<close>

definition device_list_file :: "stub_world \<Rightarrow> string" where
  "device_list_file w = fopen_env (stub_env w) INPUT_DEVICE_LIST_ENV DEFAULT_INPUT_DEVICE_LIST_FILE"

text \<open>The loop over pairs of arguments, with what has been written to the file.\<close>

definition device_line :: "u32 \<Rightarrow> u32 \<Rightarrow> string" where
  "device_line vid pid = fmt_0x 4 (unat vid) @ '' '' @ fmt_0x 4 (unat pid) @ ''\<newline>''"

fun create_loop :: "string list \<Rightarrow> string \<Rightarrow> string" where
  "create_loop (a # b # args) data = (case scan_x a of
     None \<Rightarrow> data
   | Some (vid, _) \<Rightarrow> (case scan_x b of
        None \<Rightarrow> data
      | Some (pid, _) \<Rightarrow> create_loop args (data @ device_line vid pid)))"
| "create_loop _ data = data"

definition create_device_list :: "string list \<Rightarrow> stub_world \<Rightarrow> int \<times> stub_world" where
  "create_device_list argv w =
     (let f = device_list_file w
      in if stub_writable w f
         then (0, w\<lparr>stub_inputs := (stub_inputs w)(f := Some (create_loop (tl argv) []))\<rparr>)
         else (0, stub_undefined w))"

section \<open>The log of the commands\<close>

definition send_command_usb :: "'w libusb \<Rightarrow> nat \<Rightarrow> u16 \<Rightarrow> u16 \<Rightarrow> 'w \<Rightarrow> libusb_error \<times> 'w" where
  "send_command_usb U h index value w =
     control_transfer U h VENDOR_OUT X52_VENDOR_REQUEST value index None 0 5000 w"

abbreviation (input) LIBUSB_LOG_LEVEL_ERROR :: nat where "LIBUSB_LOG_LEVEL_ERROR \<equiv> 1"

definition free_handle :: "nat \<Rightarrow> stub_world \<Rightarrow> stub_world" where
  "free_handle h w = w\<lparr>stub_handles := (stub_handles w)[h := None]\<rparr>"

text \<open>
  The loop over the devices. It opens every Pro and goes on, so that with several of them the
  last one is used and the others stay open.
\<close>

fun open_devices :: "nat list \<Rightarrow> nat option \<Rightarrow> stub_world \<Rightarrow> nat option \<times> stub_world" where
  "open_devices [] h w = (h, w)"
| "open_devices (dv # devs) h w = (case stub_get_device_descriptor dv w of
     (Inl _, w1) \<Rightarrow> open_devices devs h w1
   | (Inr (vid, pid), w1) \<Rightarrow>
       if vid = 0x06a3 \<and> pid = 0x0762 then
         (case stub_open dv w1 of
            (Inl _, w2) \<Rightarrow> (None, case h of None \<Rightarrow> w2 | Some n \<Rightarrow> free_handle n w2)
          | (Inr n, w2) \<Rightarrow> open_devices devs (Some n) w2)
       else open_devices devs h w1)"

text \<open>
  Without a device list, the list is still the one on the stack with a single entry and no end
  mark, and freeing it is undefined.
\<close>

definition libusbx52_init :: "stub_world \<Rightarrow> nat option \<times> stub_world" where
  "libusbx52_init w = (case stub_init w of
     (Inl _, w1) \<Rightarrow> (None, w1)
   | (Inr c, w1) \<Rightarrow>
      (case stub_get_device_list c (stub_set_debug c LIBUSB_LOG_LEVEL_ERROR w1) of
         (Inl _, w2) \<Rightarrow> (None, stub_free_device_list None w2)
       | (Inr devs, w2) \<Rightarrow> (case open_devices devs None w2 of
            (h, w3) \<Rightarrow> (h, stub_free_device_list (Some devs) w3))))"

fun log_loop :: "nat \<Rightarrow> string list \<Rightarrow> stub_world \<Rightarrow> stub_world" where
  "log_loop h (a # b # args) w = (case scan_x a of
     None \<Rightarrow> w
   | Some (index, _) \<Rightarrow> (case scan_x b of
        None \<Rightarrow> w
      | Some (value, _) \<Rightarrow> log_loop h args (snd (send_command_usb stub h (ucast index) (ucast value) w))))"
| "log_loop h _ w = w"

definition log_actions :: "string list \<Rightarrow> stub_world \<Rightarrow> int \<times> stub_world" where
  "log_actions argv w = (case libusbx52_init w of
     (None, w1) \<Rightarrow> (1, w1)
   | (Some h, w1) \<Rightarrow>
      (case lookup_opt (stub_handles w1) h of
         None \<Rightarrow> (1, stub_undefined w1)
       | Some hh \<Rightarrow> (0, stub_exit (sh_ctx hh) (stub_close h (log_loop h (tl argv) w1)))))"

section \<open>The list is read back\<close>

text \<open>The pairs of numbers on a command line, up to the first that is not one.\<close>

fun arg_pairs :: "string list \<Rightarrow> (u32 \<times> u32) list" where
  "arg_pairs (a # b # args) = (case (scan_x a, scan_x b) of
     (Some (x, _), Some (y, _)) \<Rightarrow> (x, y) # arg_pairs args | _ \<Rightarrow> [])"
| "arg_pairs _ = []"

definition is_hex :: "char \<Rightarrow> bool" where
  "is_hex c \<longleftrightarrow> hex_val c \<noteq> None"

definition hex_fold :: "nat \<Rightarrow> string \<Rightarrow> nat" where
  "hex_fold = foldl (\<lambda>acc c. 16 * acc + the (hex_val c))"

lemma hex_val_digit: "n < 16 \<Longrightarrow> hex_val (hex_digit n) = Some n"
  by (simp add: hex_val_def hex_digit_def Let_def)

lemma fmt_hex_digits: "list_all is_hex (fmt_hex n)"
proof (induction n rule: fmt_hex.induct)
  case (1 n)
  have "is_hex (hex_digit k)" if "k < 16" for k using that by (simp add: is_hex_def hex_val_digit)
  with 1 show ?case by (subst fmt_hex.simps) simp
qed

lemma fmt_hex_fold: "hex_fold 0 (fmt_hex n) = n"
proof (induction n rule: fmt_hex.induct)
  case (1 n)
  then show ?case by (subst fmt_hex.simps) (simp add: hex_fold_def hex_val_digit)
qed

lemma fmt_0x_digits: "list_all is_hex (fmt_0x k n)"
  using fmt_hex_digits [of n] by (simp add: fmt_0x_def Let_def list_all_iff is_hex_def) (auto simp: hex_val_def)

lemma fmt_0x_fold: "hex_fold 0 (fmt_0x k n) = n"
proof -
  have "hex_fold 0 (replicate m CHR ''0'') = 0" for m
    by (induction m) (simp_all add: hex_fold_def hex_val_def)
  then show ?thesis using fmt_hex_fold [of n] by (simp add: fmt_0x_def Let_def hex_fold_def)
qed

lemma fmt_0x_length: "k \<le> length (fmt_0x k n)"
  by (simp add: fmt_0x_def Let_def)

lemma scan_digits_append:
  "list_all is_hex xs \<Longrightarrow> ys = [] \<or> \<not> is_hex (hd ys) \<Longrightarrow> scan_digits acc (xs @ ys) = (hex_fold acc xs, ys)"
proof (induction xs arbitrary: acc)
  case Nil
  then show ?case by (cases ys) (auto simp: hex_fold_def is_hex_def)
next
  case (Cons c xs)
  then show ?case by (auto simp: hex_fold_def is_hex_def)
qed

lemma hex_chars:
  assumes "is_hex c"
  shows "\<not> isspace c" "c \<noteq> CHR ''-''" "c \<noteq> CHR ''+''" "c \<noteq> CHR ''x''" "c \<noteq> CHR ''X''"
  using assms by (auto simp: is_hex_def hex_val_def isspace_def Let_def split: if_splits)

lemma scan_x_hex:
  assumes "list_all isspace sp" and "list_all is_hex xs" and "2 \<le> length xs" and "ys = [] \<or> \<not> is_hex (hd ys)"
  shows "scan_x (sp @ xs @ ys) = Some (of_nat (hex_fold 0 xs), ys)"
proof -
  obtain c d zs where xs: "xs = c # d # zs"
    using assms(3) by (metis Suc_le_length_iff numeral_2_eq_2)
  with assms(2) have c: "is_hex c" "is_hex d" by simp_all
  have "dropWhile isspace (sp @ xs @ ys) = xs @ ys"
    using assms(1) hex_chars(1) [OF c(1)] by (simp add: xs dropWhile_append2 list_all_iff)
  then have "scan_sign (dropWhile isspace (sp @ xs @ ys)) = (False, xs @ ys)"
    using hex_chars(2,3) [OF c(1)] by (simp add: scan_sign_def xs)
  moreover have "skip_0x (xs @ ys) = xs @ ys"
    using hex_chars(4,5) [OF c(2)] by (simp add: skip_0x_def xs)
  moreover have "hex_val c \<noteq> None" using c(1) by (simp add: is_hex_def)
  ultimately show ?thesis
    using scan_digits_append [OF assms(2,4), of 0] by (simp add: scan_x_def Let_def xs)
qed

lemma scan_x_printed:
  assumes "list_all isspace sp" and "ys = [] \<or> \<not> is_hex (hd ys)"
  shows "scan_x (sp @ fmt_0x 4 (unat v) @ ys) = Some (v, ys)"
  using scan_x_hex [OF assms(1) fmt_0x_digits _ assms(2), of 4 "unat v"] fmt_0x_length [of 4 "unat v"]
  by (simp add: fmt_0x_fold)

lemma scan_device_lines:
  "list_all isspace sp \<Longrightarrow> scan_pairs (sp @ concat (map (\<lambda>(x, y). device_line x y) ps)) = ps"
proof (induction ps arbitrary: sp)
  case Nil
  then have d: "dropWhile isspace sp = []" by (simp add: list_all_iff)
  have "fscanf_xx sp = None" unfolding fscanf_xx_def scan_x_def d by (simp add: scan_sign_def skip_0x_def)
  then show ?case by (subst scan_pairs.simps) simp
next
  case (Cons p ps)
  obtain x y where p: "p = (x, y)" by (rule prod.exhaust)
  let ?rest = "concat (map (\<lambda>(x, y). device_line x y) ps)"
  have sep: "list_all isspace '' ''" "list_all isspace ''\<newline>''" "\<not> is_hex CHR '' ''" "\<not> is_hex (CHR ''\<newline>'')"
    by (simp_all add: isspace_def is_hex_def hex_val_def)
  have "scan_x (sp @ fmt_0x 4 (unat x) @ '' '' @ fmt_0x 4 (unat y) @ ''\<newline>'' @ ?rest)
      = Some (x, '' '' @ fmt_0x 4 (unat y) @ ''\<newline>'' @ ?rest)"
    using sep by (intro scan_x_printed [OF Cons.prems]) simp
  moreover have "scan_x ('' '' @ fmt_0x 4 (unat y) @ ''\<newline>'' @ ?rest) = Some (y, ''\<newline>'' @ ?rest)"
    using sep by (intro scan_x_printed) simp_all
  ultimately have "fscanf_xx (sp @ device_line x y @ ?rest) = Some ((x, y), ''\<newline>'' @ ?rest)"
    by (simp add: fscanf_xx_def device_line_def)
  then show ?case using Cons.IH [OF sep(2)] by (subst scan_pairs.simps) (simp add: p)
qed

lemma create_loop_pairs: "create_loop args data = data @ concat (map (\<lambda>(x, y). device_line x y) (arg_pairs args))"
  by (induction args data rule: create_loop.induct) (auto split: option.splits)

lemma create_loop_scanned: "scan_pairs (create_loop args []) = arg_pairs args"
  using scan_device_lines [of "[]" "arg_pairs args"] by (simp add: create_loop_pairs)

text \<open>Vendor and product of the devices of a context.\<close>

definition listed_devices :: "nat \<Rightarrow> stub_world \<Rightarrow> (u16 \<times> u16) list" where
  "listed_devices c w = (case lookup_opt (stub_contexts w) c of
     None \<Rightarrow> []
   | Some cx \<Rightarrow> map (\<lambda>dv. (sd_vendor (stub_devices w ! dv), sd_product (stub_devices w ! dv))) (sc_devices cx))"

lemma listed_appended:
  assumes "length devs = n"
  shows "map (\<lambda>dv. (sd_vendor ((old @ devs) ! dv), sd_product ((old @ devs) ! dv))) [length old..<length old + n]
    = map (\<lambda>d. (sd_vendor d, sd_product d)) devs"
  using assms by (intro nth_equalityI) (simp_all add: nth_append)

lemma map_enumerate:
  "(\<And>i x. f (i, x) = g x) \<Longrightarrow> map f (enumerate k xs) = map g xs"
  by (induction xs arbitrary: k) simp_all

lemma enumerated_numbers:
  "map ((\<lambda>d. (sd_vendor d, sd_product d)) \<circ> (\<lambda>(i, vid :: u32, pid :: u32). \<lparr>sd_context = c, sd_index = i,
      sd_ref_count = 0, sd_vendor = ucast vid, sd_product = ucast pid\<rparr>)) (enumerate k ps)
    = map (\<lambda>(vid, pid). (ucast vid, ucast pid)) ps"
  by (intro map_enumerate) (simp split: prod.split)

lemma stub_init_listed:
  assumes "stub_init w = (Inr c, w')"
  shows "listed_devices c w' = map (\<lambda>(vid, pid). (ucast vid, ucast pid))
    (scan_pairs (the (stub_inputs w (device_list_file w))))"
  using assms
  by (auto simp: stub_init_def calloc_ok_def Let_def device_list_file_def listed_devices_def lookup_opt_def
      listed_appended enumerated_numbers split: list.splits if_splits option.splits)

section \<open>The log is that of libx52\<close>

definition output_file :: "stub_world \<Rightarrow> string" where
  "output_file w = fopen_env (stub_env w) OUTPUT_DATA_FILE_ENV DEFAULT_OUTPUT_DATA_FILE"

text \<open>What the operations of the stub keep, apart from reference counts, handles and output.\<close>

definition device_numbers :: "stub_device \<Rightarrow> nat \<times> u16 \<times> u16" where
  "device_numbers d = (sd_context d, sd_vendor d, sd_product d)"

definition same_setup :: "stub_world \<Rightarrow> stub_world \<Rightarrow> bool" where
  "same_setup w w' \<longleftrightarrow> stub_contexts w' = stub_contexts w \<and> stub_env w' = stub_env w
     \<and> stub_undef w' = stub_undef w \<and> stub_writable w' = stub_writable w
     \<and> (stub_calloc w = [] \<longrightarrow> stub_calloc w' = [])
     \<and> map device_numbers (stub_devices w') = map device_numbers (stub_devices w)"

lemma same_setup_refl [simp]: "same_setup w w"
  by (simp add: same_setup_def)

lemma same_setup_trans: "same_setup v w \<Longrightarrow> same_setup u v \<Longrightarrow> same_setup u w"
  by (simp add: same_setup_def)

lemma same_setup_file: "same_setup w w' \<Longrightarrow> output_file w' = output_file w"
  by (simp add: same_setup_def output_file_def)

lemma same_setup_device:
  assumes "same_setup w w'"
  shows "length (stub_devices w') = length (stub_devices w)"
    and "dv < length (stub_devices w) \<Longrightarrow> device_numbers (stub_devices w' ! dv) = device_numbers (stub_devices w ! dv)"
proof -
  have m: "map device_numbers (stub_devices w') = map device_numbers (stub_devices w)"
    using assms by (simp add: same_setup_def)
  then show l: "length (stub_devices w') = length (stub_devices w)" by (rule map_eq_imp_length_eq)
  show "dv < length (stub_devices w) \<Longrightarrow> device_numbers (stub_devices w' ! dv) = device_numbers (stub_devices w ! dv)"
    using arg_cong [OF m, of "\<lambda>l. l ! dv"] l by simp
qed

text \<open>A context that logs errors only, and devices that are its own.\<close>

definition quiet :: "nat \<Rightarrow> nat list \<Rightarrow> stub_world \<Rightarrow> bool" where
  "quiet c devs w \<longleftrightarrow> (\<exists>cx. lookup_opt (stub_contexts w) c = Some cx \<and> sc_debug_level cx = LIBUSB_LOG_LEVEL_ERROR)
     \<and> (\<forall>dv \<in> set devs. dv < length (stub_devices w) \<and> sd_context (stub_devices w ! dv) = c)"

lemma quiet_same: "same_setup w w' \<Longrightarrow> quiet c devs w \<Longrightarrow> quiet c devs w'"
  using same_setup_device [of w w'] by (auto simp: quiet_def device_numbers_def) (simp add: same_setup_def)

definition is_pro :: "stub_world \<Rightarrow> nat \<Rightarrow> bool" where
  "is_pro w dv \<longleftrightarrow> sd_vendor (stub_devices w ! dv) = 0x06a3 \<and> sd_product (stub_devices w ! dv) = 0x0762"

lemma is_pro_same: "same_setup w w' \<Longrightarrow> dv < length (stub_devices w) \<Longrightarrow> is_pro w' dv = is_pro w dv"
  using same_setup_device(2) [of w w' dv] by (simp add: is_pro_def device_numbers_def)

text \<open>Every allocation succeeds, and the output file can be written.\<close>

definition able :: "stub_world \<Rightarrow> bool" where
  "able w \<longleftrightarrow> stub_calloc w = [] \<and> stub_writable w (output_file w)"

lemma able_same: "same_setup w w' \<Longrightarrow> able w \<Longrightarrow> able w'"
  using same_setup_file [of w w'] by (simp add: able_def same_setup_def)

lemma able_calloc: "able w \<Longrightarrow> calloc_ok w = (True, w)"
  by (simp add: able_def calloc_ok_def)

text \<open>An open handle of the context on the output file, which holds these lines.\<close>

definition logging :: "nat \<Rightarrow> stub_line list \<Rightarrow> nat \<Rightarrow> stub_world \<Rightarrow> bool" where
  "logging c ls n w \<longleftrightarrow> (\<exists>hh. lookup_opt (stub_handles w) n = Some hh \<and> sh_ctx hh = c \<and> sh_file hh = output_file w)
     \<and> stub_outputs w (output_file w) = ls"

lemma add_ref_devices:
  "map device_numbers (stub_devices (add_ref k dv w)) = map device_numbers (stub_devices w)"
  by (cases "dv < length (stub_devices w)")
     (simp_all add: add_ref_def map_update device_numbers_def list_update_same_conv list_update_beyond)

lemma add_ref_same: "same_setup w (add_ref k dv w)" "logging c ls n (add_ref k dv w) = logging c ls n w"
proof -
  show "same_setup w (add_ref k dv w)"
    unfolding same_setup_def add_ref_devices by (simp add: add_ref_def)
  show "logging c ls n (add_ref k dv w) = logging c ls n w"
    by (simp add: add_ref_def logging_def output_file_def)
qed

lemma add_refs_same:
  "same_setup w (fold (add_ref k) devs w) \<and> logging c ls n (fold (add_ref k) devs w) = logging c ls n w"
proof (induction devs arbitrary: w)
  case (Cons dv devs)
  from Cons [of "add_ref k dv w"] show ?case by (auto intro: same_setup_trans add_ref_same(1) simp: add_ref_same(2))
qed simp

lemma dump_log_quiet: "quiet (sh_ctx h) devs w \<Longrightarrow> dump_log h LIBUSB_LOG_LEVEL_DEBUG l w = w"
  by (auto simp: dump_log_def quiet_def)

lemma stub_open_logging:
  assumes "able w" and "quiet c devs w" and "dv \<in> set devs"
  shows "\<exists>n w'. stub_open dv w = (Inr n, w') \<and> same_setup w w' \<and> logging c [] n w'"
proof -
  let ?w1 = "add_ref 1 dv w"
  let ?f = "output_file ?w1"
  let ?h = "\<lparr>sh_ctx = sd_context (stub_devices ?w1 ! dv), sh_dev = dv, sh_file = ?f\<rparr>"
  let ?w2 = "?w1\<lparr>stub_outputs := (stub_outputs ?w1)(?f := [])\<rparr>"
  have q1: "quiet c devs ?w1" by (rule quiet_same [OF add_ref_same(1) assms(2)])
  then have c: "sh_ctx ?h = c" using assms(3) by (simp add: quiet_def)
  have "quiet (sh_ctx ?h) devs ?w2" using q1 unfolding c by (simp add: quiet_def)
  note quiet = dump_log_quiet [OF this]
  have "stub_writable ?w1 ?f" using able_same [OF add_ref_same(1) assms(1)] by (simp add: able_def)
  then have "stub_open dv w = (Inr (length (stub_handles ?w2)), ?w2\<lparr>stub_handles := stub_handles ?w2 @ [Some ?h]\<rparr>)"
    using quiet by (simp add: stub_open_def able_calloc [OF assms(1)] Let_def output_file_def)
  moreover have "same_setup w (?w2\<lparr>stub_handles := stub_handles ?w2 @ [Some ?h]\<rparr>)"
    using add_ref_same(1) [of w 1 dv] by (simp add: same_setup_def)
  ultimately show ?thesis using c
    by (simp add: logging_def output_file_def lookup_opt_def nth_append)
qed

lemma open_devices_logging:
  assumes "able w" and "quiet c devs w" and "\<forall>n. h = Some n \<longrightarrow> logging c [] n w"
  shows "case open_devices devs h w of (r, w') \<Rightarrow> same_setup w w' \<and> (\<forall>n. r = Some n \<longrightarrow> logging c [] n w')
    \<and> (r = None \<longleftrightarrow> h = None \<and> (\<forall>dv \<in> set devs. \<not> is_pro w dv))"
  using assms
proof (induction devs arbitrary: h w)
  case (Cons dv devs)
  have tail: "quiet c devs v" if "same_setup w v" for v
    using quiet_same [OF that Cons.prems(2)] by (simp add: quiet_def)
  have pros: "(\<forall>dv \<in> set devs. \<not> is_pro v dv) \<longleftrightarrow> (\<forall>dv \<in> set devs. \<not> is_pro w dv)" if "same_setup w v" for v
    using is_pro_same [OF that] Cons.prems(2) by (auto simp: quiet_def)
  show ?case
  proof (cases "is_pro w dv")
    case False
    with Cons.IH [OF Cons.prems(1) tail [OF same_setup_refl] Cons.prems(3)] show ?thesis
      by (auto simp: stub_get_device_descriptor_def is_pro_def)
  next
    case True
    obtain m v where o: "stub_open dv w = (Inr m, v)" "same_setup w v" "logging c [] m v"
      using stub_open_logging [OF Cons.prems(1,2), of dv] by auto
    with True have "open_devices (dv # devs) h w = open_devices devs (Some m) v"
      by (simp add: stub_get_device_descriptor_def is_pro_def)
    with True o(3) Cons.IH [OF able_same [OF o(2) Cons.prems(1)] tail [OF o(2)], of "Some m"]
    show ?thesis by (auto intro: same_setup_trans [OF _ o(2)])
  qed
qed simp

text \<open>What a start of the stub leaves, with the devices of its new context.\<close>

lemma stub_init_context:
  assumes "able w" and "stub_init w = (Inr c, w')"
  obtains cx where "lookup_opt (stub_contexts w') c = Some cx" and "able w'"
    and "\<forall>dv \<in> set (sc_devices cx). dv < length (stub_devices w') \<and> sd_context (stub_devices w' ! dv) = c"
    and "stub_undef w' = stub_undef w" and "output_file w' = output_file w"
proof -
  obtain lst where w: "c = length (stub_contexts w)" "stub_env w' = stub_env w" "stub_undef w' = stub_undef w"
    "stub_writable w' = stub_writable w" "stub_calloc w' = []"
    "stub_contexts w' = stub_contexts w @ [Some \<lparr>sc_debug_level = 0,
       sc_devices = [length (stub_devices w)..<length (stub_devices w) + length (scan_pairs lst)]\<rparr>]"
    "stub_devices w' = stub_devices w @ map (\<lambda>(i, vid, pid). \<lparr>sd_context = c, sd_index = i, sd_ref_count = 0,
       sd_vendor = ucast vid, sd_product = ucast pid\<rparr>) (enumerate 0 (scan_pairs lst))"
    using assms by (auto simp: stub_init_def able_calloc able_def Let_def split: option.splits if_splits)
  show thesis
  proof (rule that)
    show "lookup_opt (stub_contexts w') c = Some \<lparr>sc_debug_level = 0,
       sc_devices = [length (stub_devices w)..<length (stub_devices w) + length (scan_pairs lst)]\<rparr>"
      by (simp add: w lookup_opt_def)
    show "able w'" "output_file w' = output_file w" "stub_undef w' = stub_undef w"
      using assms(1) by (simp_all add: able_def output_file_def w)
  qed (auto simp: w nth_append split: prod.split)
qed

lemma is_pro_listed:
  assumes "lookup_opt (stub_contexts w) c = Some cx"
  shows "(\<exists>dv \<in> set (sc_devices cx). is_pro w dv) \<longleftrightarrow> (0x06a3, 0x0762) \<in> set (listed_devices c w)"
  using assms by (auto simp: listed_devices_def is_pro_def)

lemma libusbx52_init_logging:
  assumes "able w" and "stub_inputs w (device_list_file w) = Some lst"
  shows "case libusbx52_init w of (r, w') \<Rightarrow>
    stub_undef w' = stub_undef w \<and> output_file w' = output_file w
    \<and> (\<forall>n. r = Some n \<longrightarrow> (\<exists>c. quiet c [] w' \<and> logging c [] n w'))
    \<and> (r \<noteq> None \<longleftrightarrow> (0x06a3, 0x0762) \<in> set (map (\<lambda>(x, y). (ucast x, ucast y)) (scan_pairs lst) :: (u16 \<times> u16) list))"
proof (cases "scan_pairs lst = []")
  case True
  then have "stub_init w = (Inl LIBUSB_ERROR_NOT_FOUND, w)"
    using assms(2) by (simp add: stub_init_def able_calloc [OF assms(1)] device_list_file_def)
  with True show ?thesis by (simp add: libusbx52_init_def)
next
  case False
  then obtain c w1 where i: "stub_init w = (Inr c, w1)"
    using assms(2) by (auto simp: stub_init_def able_calloc [OF assms(1)] device_list_file_def Let_def)
  from stub_init_context [OF assms(1) i] obtain cx where cx: "lookup_opt (stub_contexts w1) c = Some cx" "able w1"
    "\<forall>dv \<in> set (sc_devices cx). dv < length (stub_devices w1) \<and> sd_context (stub_devices w1 ! dv) = c"
    "stub_undef w1 = stub_undef w" "output_file w1 = output_file w" .
  let ?cx = "cx\<lparr>sc_debug_level := LIBUSB_LOG_LEVEL_ERROR\<rparr>"
  define w2 where "w2 = stub_set_debug c LIBUSB_LOG_LEVEL_ERROR w1"
  then have w2: "w2 = w1\<lparr>stub_contexts := (stub_contexts w1)[c := Some ?cx]\<rparr>" by (simp add: stub_set_debug_def cx(1))
  have l2: "lookup_opt (stub_contexts w2) c = Some ?cx"
    using cx(1) unfolding w2 by (simp add: lookup_opt_def split: if_splits)
  have a2: "able w2" "output_file w2 = output_file w1"
    using cx(2) unfolding w2 by (simp_all add: able_def output_file_def)
  have q2: "quiet c (sc_devices cx) w2" using l2 cx(3) unfolding quiet_def w2 by simp
  define w3 where "w3 = fold (add_ref 1) (sc_devices cx) w2"
  have s3: "same_setup w2 w3" unfolding w3_def using add_refs_same by blast
  have q3: "quiet c (sc_devices cx) w3" by (rule quiet_same [OF s3 q2])
  obtain r w4 where o: "open_devices (sc_devices cx) None w3 = (r, w4)" by (rule prod.exhaust)
  from open_devices_logging [OF able_same [OF s3 a2(1)] q3, of None]
  have w4: "same_setup w3 w4" "\<forall>n. r = Some n \<longrightarrow> logging c [] n w4"
    "r = None \<longleftrightarrow> (\<forall>dv \<in> set (sc_devices cx). \<not> is_pro w3 dv)" by (simp_all add: o)
  let ?w5 = "fold (add_ref (- 1)) (sc_devices cx) w4"
  have l: "libusbx52_init w = (r, ?w5)"
    using l2 o unfolding libusbx52_init_def i sum.case prod.case w2_def [symmetric] w3_def
    by (simp add: stub_get_device_list_def able_calloc [OF a2(1)] stub_free_device_list_def)
  have s5: "same_setup w2 ?w5" using same_setup_trans [OF _ same_setup_trans [OF w4(1) s3]] add_refs_same by blast
  have "quiet c [] ?w5" using quiet_same [OF s5 q2] by (simp add: quiet_def)
  moreover have "\<forall>n. r = Some n \<longrightarrow> logging c [] n ?w5" using w4(2) add_refs_same by blast
  moreover have "stub_undef ?w5 = stub_undef w" using s5 cx(4) unfolding same_setup_def w2 by simp
  moreover have "output_file ?w5 = output_file w" using same_setup_file [OF s5] a2(2) cx(5) by (rule trans [OF _ trans])
  moreover have "r \<noteq> None \<longleftrightarrow> (0x06a3, 0x0762) \<in> set (listed_devices c w1)"
  proof -
    have "is_pro w3 dv = is_pro w1 dv" if "dv \<in> set (sc_devices cx)" for dv
      using is_pro_same [OF s3, of dv] q2 that unfolding quiet_def is_pro_def w2 by simp
    with w4(3) is_pro_listed [OF cx(1)] show ?thesis by blast
  qed
  ultimately show ?thesis using stub_init_listed [OF i] assms(2) unfolding l by auto
qed

section \<open>The commands\<close>

text \<open>The line of a vendor command, and the commands of a command line.\<close>

definition vendor_line :: "u16 \<times> u16 \<Rightarrow> stub_line" where
  "vendor_line cmd = TransferLine VENDOR_OUT X52_VENDOR_REQUEST (snd cmd) (fst cmd) 5000"

definition arg_commands :: "string list \<Rightarrow> (u16 \<times> u16) list" where
  "arg_commands args = map (\<lambda>(x, y). (ucast x, ucast y)) (arg_pairs args)"

lemma send_command_line:
  assumes "lookup_opt (stub_handles w) h = Some hh"
  shows "send_command_usb stub h index value w = (LIBUSB_SUCCESS, stub_write (sh_file hh) (vendor_line (index, value)) w)"
  using assms by (simp add: send_command_usb_def stub_control_transfer_def vendor_line_def)

lemma log_loop_lines:
  assumes "logging c ls h w"
  shows "same_setup w (log_loop h args w) \<and> logging c (ls @ map vendor_line (arg_commands args)) h (log_loop h args w)"
  using assms
proof (induction h args w arbitrary: ls rule: log_loop.induct)
  case (1 h a b args w)
  obtain hh where hh: "lookup_opt (stub_handles w) h = Some hh" "sh_ctx hh = c" "sh_file hh = output_file w"
    "stub_outputs w (output_file w) = ls" using "1.prems" by (auto simp: logging_def)
  have step: "same_setup w v \<and> logging c (ls @ [vendor_line (i, x)]) h v"
    if "v = snd (send_command_usb stub h i x w)" for i x v
    using hh by (simp add: that send_command_line [OF hh(1)] stub_write_def same_setup_def logging_def output_file_def)
  show ?case
  proof (cases "scan_x a = None \<or> scan_x b = None")
    case True
    with "1.prems" show ?thesis by (auto simp: arg_commands_def split: option.splits)
  next
    case False
    then obtain i ir x xr where s: "scan_x a = Some (i, ir)" "scan_x b = Some (x, xr)" by auto
    let ?v = "snd (send_command_usb stub h (ucast i) (ucast x) w)"
    from step [OF refl, of "ucast i" "ucast x"]
    have v: "same_setup w ?v" "logging c (ls @ [vendor_line (ucast i, ucast x)]) h ?v" by blast+
    from "1.IH" [OF s(1) refl s(2) refl v(2)] v(1) show ?thesis
      by (auto simp: s arg_commands_def intro: same_setup_trans)
  qed
qed (simp_all add: arg_commands_def)

lemma log_end_keeps:
  assumes "quiet c [] w" and "logging c ls h w" and "lookup_opt (stub_handles w) h = Some hh"
  shows "stub_undef (stub_exit (sh_ctx hh) (stub_close h w)) = stub_undef w"
    and "stub_outputs (stub_exit (sh_ctx hh) (stub_close h w)) = stub_outputs w"
proof -
  have c: "sh_ctx hh = c" using assms(2,3) by (simp add: logging_def)
  let ?w1 = "add_ref (- 1) (sh_dev hh) w"
  have q: "quiet (sh_ctx hh) [] ?w1" unfolding c by (rule quiet_same [OF add_ref_same(1) assms(1)])
  have "stub_close h w = ?w1\<lparr>stub_handles := (stub_handles ?w1)[h := None]\<rparr>"
    using dump_log_quiet [OF q] by (simp add: stub_close_def assms(3) Let_def)
  moreover obtain cx where "lookup_opt (stub_contexts ?w1) c = Some cx" using q c by (auto simp: quiet_def)
  ultimately show "stub_undef (stub_exit (sh_ctx hh) (stub_close h w)) = stub_undef w"
    "stub_outputs (stub_exit (sh_ctx hh) (stub_close h w)) = stub_outputs w"
    unfolding c by (simp_all add: stub_exit_def add_ref_def)
qed

text \<open>What libx52 does with a sequence of vendor commands.\<close>

fun vendor_commands :: "(u16 \<times> u16) list \<Rightarrow> libx52_device \<Rightarrow> stub_world \<Rightarrow> libx52_device \<times> stub_world" where
  "vendor_commands [] d w = (d, w)"
| "vendor_commands ((index, value) # cs) d w = (case libx52_vendor_command stub index value d w of
     (rc, d', w') \<Rightarrow> vendor_commands cs d' w')"

lemma vendor_commands_lines:
  assumes "hdl d = Some h" and "lookup_opt (stub_handles w) h = Some hh"
  shows "stub_outputs (snd (vendor_commands cs d w)) (sh_file hh) = stub_outputs w (sh_file hh) @ map vendor_line cs"
  using assms
proof (induction cs arbitrary: w)
  case (Cons cmd cs)
  obtain index x where cmd: "cmd = (index, x)" by (rule prod.exhaust)
  let ?w = "stub_write (sh_file hh) (vendor_line cmd) w"
  have "transfer_retry stub 3 h index x LIBUSB_SUCCESS w = (LIBUSB_SUCCESS, ?w)"
    using send_command_line [OF Cons.prems(2), of index x] unfolding send_command_usb_def cmd
    by (simp add: numeral_3_eq_3)
  then have "libx52_vendor_command stub index x d w = (LIBX52_SUCCESS, d, ?w)"
    using Cons.prems(1) by (simp add: libx52_vendor_command_def)
  with Cons.IH [OF Cons.prems(1), of ?w] Cons.prems(2) show ?case
    by (simp add: cmd stub_write_def)
qed simp

text \<open>
  C39:
  The devices that the stub finds are those on the command line of \<open>create_device_list\<close>: what it
  prints is read back as the same numbers, cut to 16 bits and in the same order, up to the first
  pair that is not two numbers. Without a pair there is no device and the start of libusb fails.
\<close>

theorem device_list_roundtrip:
  assumes "stub_writable w (device_list_file w)" and "stub_calloc w = []"
  shows "case stub_init (snd (create_device_list argv w)) of
      (Inl e, w') \<Rightarrow> e = LIBUSB_ERROR_NOT_FOUND \<and> arg_pairs (tl argv) = []
    | (Inr c, w') \<Rightarrow> arg_pairs (tl argv) \<noteq> [] \<and>
        listed_devices c w' = map (\<lambda>(vid, pid). (ucast vid, ucast pid)) (arg_pairs (tl argv))"
proof -
  let ?w = "snd (create_device_list argv w)"
  have f: "device_list_file ?w = device_list_file w" "stub_calloc ?w = []"
    using assms by (simp_all add: create_device_list_def Let_def device_list_file_def)
  have i: "stub_inputs ?w (device_list_file ?w) = Some (create_loop (tl argv) [])"
    using assms(1) unfolding f by (simp add: create_device_list_def Let_def)
  obtain r w' where r: "stub_init ?w = (r, w')" by (rule prod.exhaust)
  show ?thesis
  proof (cases r)
    case (Inl e)
    with r f i show ?thesis
      by (auto simp: stub_init_def calloc_ok_def Let_def device_list_file_def create_loop_scanned
          split: if_splits option.splits)
  next
    case (Inr c)
    have "scan_pairs (create_loop (tl argv) []) \<noteq> []"
      using r f i unfolding Inr
      by (auto simp: stub_init_def calloc_ok_def Let_def device_list_file_def split: if_splits)
    with stub_init_listed [OF r [unfolded Inr]] i r Inr show ?thesis by (simp add: create_loop_scanned)
  qed
qed

definition tools_world :: stub_world where
  "tools_world = stub_plugged ''''"

theorem device_list_roundtrip_witness:
  "\<exists>c w'. stub_init (snd (create_device_list [''create'', ''06a3'', ''0x762'', ''6A3'', ''10255'', ''stop''] tools_world)) = (Inr c, w')
    \<and> listed_devices c w' = [(0x06a3, 0x0762), (0x06a3, 0x0255)]"
proof -
  let ?argv = "[''create'', ''06a3'', ''0x762'', ''6A3'', ''10255'', ''stop'']"
  have a: "map (\<lambda>(vid, pid). (ucast vid, ucast pid)) (arg_pairs (tl ?argv)) = [(0x06a3, 0x0762), (0x06a3, 0x0255) :: u16 \<times> u16]"
    by (simp add: scan_x_def scan_sign_def skip_0x_def isspace_def hex_val_def Let_def)
  then have "arg_pairs (tl ?argv) \<noteq> []" by auto
  with a device_list_roundtrip [of tools_world ?argv] show ?thesis
    by (auto simp: tools_world_def stub_plugged_def split: prod.splits sum.splits)
qed

text \<open>
  C40:
  The output file of \<open>log_actions\<close> is the one that libx52 writes when it sends the same vendor
  commands over the stub: line for line the same. The tool succeeds exactly when the list of
  devices has an X52 Pro, and does nothing undefined, wherever its arguments end.
\<close>

theorem log_actions_matches_libx52:
  assumes "able w" and "stub_inputs w (device_list_file w) = Some lst"
    and "hdl d = Some h" and "lookup_opt (stub_handles v) h = Some hh"
  shows "case log_actions argv w of (rc, w') \<Rightarrow>
    stub_undef w' = stub_undef w
    \<and> rc = (if (0x06a3, 0x0762) \<in> set (map (\<lambda>(x, y). (ucast x, ucast y)) (scan_pairs lst) :: (u16 \<times> u16) list) then 0 else 1)
    \<and> (rc = 0 \<longrightarrow> stub_outputs (snd (vendor_commands (arg_commands (tl argv)) d v)) (sh_file hh) =
        stub_outputs v (sh_file hh) @ stub_outputs w' (output_file w))"
proof -
  obtain r w1 where i: "libusbx52_init w = (r, w1)" by (rule prod.exhaust)
  note init = libusbx52_init_logging [OF assms(1,2), unfolded i prod.case]
  show ?thesis
  proof (cases r)
    case None
    with init show ?thesis by (simp add: log_actions_def i)
  next
    case (Some n)
    with init obtain c where c: "quiet c [] w1" "logging c [] n w1" by blast
    then obtain nh where nh: "lookup_opt (stub_handles w1) n = Some nh" "sh_ctx nh = c" by (auto simp: logging_def)
    let ?w2 = "log_loop n (tl argv) w1"
    from log_loop_lines [OF c(2), of "tl argv"]
    have w2: "same_setup w1 ?w2" "logging c (map vendor_line (arg_commands (tl argv))) n ?w2" by simp_all
    then obtain mh where mh: "lookup_opt (stub_handles ?w2) n = Some mh" "sh_ctx mh = c" by (auto simp: logging_def)
    note keeps = log_end_keeps [OF quiet_same [OF w2(1) c(1)] w2(2) mh(1), unfolded mh(2)]
    have l: "log_actions argv w = (0, stub_exit c (stub_close n ?w2))" by (simp add: log_actions_def i Some nh)
    have "stub_outputs ?w2 (output_file w) = map vendor_line (arg_commands (tl argv))"
      using w2(2) same_setup_file [OF w2(1)] init by (simp add: logging_def)
    moreover have "stub_undef ?w2 = stub_undef w" using w2(1) init by (simp add: same_setup_def)
    ultimately show ?thesis
      using init Some vendor_commands_lines [OF assms(3,4)] unfolding l by (simp add: keeps)
  qed
qed

definition demo_handle :: stub_handle where
  "demo_handle = \<lparr>sh_ctx = 0, sh_dev = 0, sh_file = ''out''\<rparr>"

theorem log_actions_matches_libx52_witness:
  "\<exists>w'. log_actions [''log'', ''b8'', ''51''] (stub_plugged (device_line 0x06a3 0x0762)) = (0, w')
    \<and> stub_outputs (snd (vendor_commands [(0xb8, 0x51)] (x52_calloc\<lparr>hdl := Some 0\<rparr>)
        (tools_world\<lparr>stub_handles := [Some demo_handle]\<rparr>))) ''out'' = stub_outputs w' DEFAULT_OUTPUT_DATA_FILE"
proof -
  let ?w = "stub_plugged (device_line 0x06a3 0x0762)"
  let ?v = "tools_world\<lparr>stub_handles := [Some demo_handle]\<rparr>"
  have pairs: "scan_pairs (device_line 0x06a3 0x0762) = [(0x06a3, 0x0762)]"
    using scan_device_lines [of "[]" "[(0x06a3, 0x0762)]"] by simp
  have w: "able ?w" "stub_inputs ?w (device_list_file ?w) = Some (device_line 0x06a3 0x0762)"
    "output_file ?w = DEFAULT_OUTPUT_DATA_FILE"
    by (simp_all add: able_def stub_plugged_def device_list_file_def fopen_env_def output_file_def)
  have v: "hdl (x52_calloc\<lparr>hdl := Some 0\<rparr>) = Some 0" "lookup_opt (stub_handles ?v) 0 = Some demo_handle"
    "stub_outputs ?v ''out'' = []" "sh_file demo_handle = ''out''"
    by (simp_all add: lookup_opt_def demo_handle_def tools_world_def stub_plugged_def)
  have cs: "arg_commands (tl [''log'', ''b8'', ''51'']) = [(0xb8, 0x51)]"
    by (simp add: arg_commands_def scan_x_def scan_sign_def skip_0x_def isspace_def hex_val_def Let_def)
  obtain rc w' where l: "log_actions [''log'', ''b8'', ''51''] ?w = (rc, w')" by (rule prod.exhaust)
  from log_actions_matches_libx52 [OF w(1,2) v(1,2), of "[''log'', ''b8'', ''51'']"] l
  have "rc = 0" "stub_outputs (snd (vendor_commands [(0xb8, 0x51)] (x52_calloc\<lparr>hdl := Some 0\<rparr>) ?v)) ''out''
      = stub_outputs w' DEFAULT_OUTPUT_DATA_FILE"
    unfolding cs w(3) v(3,4) by (simp_all add: pairs)
  with l show ?thesis by blast
qed

section \<open>Several joysticks\<close>

text \<open>
  With two Pros in the list the first handle is never closed: it is still open when the tool ends,
  and its device keeps a reference.
\<close>

lemma log_actions_leaks:
  "let w' = snd (log_actions [''log''] (stub_plugged (device_line 0x06a3 0x0762 @ device_line 0x06a3 0x0762)))
   in map (\<lambda>h. h \<noteq> None) (stub_handles w') = [True, False] \<and> map sd_ref_count (stub_devices w') = [1, 0]"
proof -
  have "scan_pairs (device_line 0x06a3 0x0762 @ device_line 0x06a3 0x0762) = [(0x06a3, 0x0762), (0x06a3, 0x0762)]"
    using scan_device_lines [of "[]" "[(0x06a3, 0x0762), (0x06a3, 0x0762)]"] by simp
  then show ?thesis
    by (simp add: log_actions_def libusbx52_init_def stub_plugged_def stub_init_def calloc_ok_def fopen_env_def Let_def
        stub_set_debug_def stub_get_device_list_def lookup_opt_def add_ref_def stub_get_device_descriptor_def
        stub_open_def dump_log_def stub_free_device_list_def stub_close_def stub_exit_def upt_rec)
qed

text \<open>An output that cannot be opened is written and closed all the same.\<close>

lemma create_device_list_undefined:
  "\<not> stub_writable w (device_list_file w) \<Longrightarrow> stub_undef (snd (create_device_list argv w))"
  by (simp add: create_device_list_def Let_def stub_undefined_def)

end
