(* ===== verification/Spec2Isabelle.thy ===== *)
theory Spec2Isabelle
  imports Kernel_Hid X52_Char_Map X52d_Apply X52d_Daemon_Laws X52_Cli_Laws X52ctl
    X52_Evtest X52test_Laws Stub_Tools
begin

text \<open>
  Verification development of libx52, the driver of the Saitek X52 and X52 Pro joysticks.

  \<^bold>\<open>The program.\<close> A joystick has LEDs, a three line display (MFD), three clocks and brightness
  settings, which a program sets with USB vendor requests. \<open>src/libx52\<close> keeps what should be shown
  in a device record, marks what changed in a bit mask and sends the marked part in
  \<open>libx52_update\<close>. \<open>src/libx52io\<close> reads axes and buttons through hidapi, \<open>src/libx52util\<close>
  converts UTF-8 to the character set of the MFD, \<open>src/kernel_module\<close> holds the HID drivers of the
  kernel, and \<open>src/libusbx52\<close> a libusb for tests with the tools that write and check its files.
  \<open>src/cli\<close> is a command line tool over libx52.
  The daemon \<open>x52d\<close> (\<open>src/daemon\<close>) has a main thread that loads a configuration and waits for
  signals, a device thread that connects and updates the joystick, a clock thread, a thread that
  serves commands on a socket, two threads that pass notifications on, and two for a virtual
  mouse; \<open>x52ctl\<close> is the client of its command socket. \<open>x52test\<close> (\<open>src/joytest\<close>) tries every
  indicator, \<open>src/evtest\<close> prints the changes of axes and buttons, and \<open>src/bugreport\<close> a
  description of the system and the device. pinelog (logging) and inih (INI files) are libraries in \<open>src/lib\<close>.

  \<^bold>\<open>Theories and code.\<close> C names are kept; a suffix \<open>_dev\<close> is a function on a device that is not
  NULL.

  \<^item> \<open>X52_Prelude\<close>, \<open>C_Numbers\<close>, \<open>C_Getopt\<close>: C integers and strings, \<open>strtol\<close>, \<open>getopt\<close>, the
    type \<open>proc\<close> of computations that may leave the process, the collections of lemmas, and the
    locale \<open>c_enum\<close> of the enumerations.
  \<^item> \<open>Libx52_Types\<close> (\<open>libx52.h\<close>, \<open>x52_common.h\<close>, \<open>x52_commands.h\<close>, \<open>x52_stringify.c\<close>,
    \<open>x52_strerror.c\<close>), \<open>Libx52_Device\<close> (\<open>x52_mfd_led.c\<close>, \<open>x52_date_time.c\<close>), \<open>Libx52_Control\<close>
    (\<open>x52_control.c\<close>), \<open>Libx52_Core\<close> (\<open>x52_core.c\<close>), \<open>Libusb_Interface\<close> (the functions of libusb
    the code calls, with a log of the accepted commands), \<open>Libusbx52_Stub\<close> (\<open>usb_x52_stub.c\<close>),
    \<open>Stub_Tools\<close> (\<open>libusbx52/util\<close>).
  \<^item> \<open>Libx52_Contract\<close>, \<open>Libx52_Update\<close>, \<open>Libx52_Encoding\<close>, \<open>Libx52_Display\<close>: the contract of
    all setters as a locale interpreted for each; what an update sends; what the values sent mean;
    and the simulation between device record and display, over failing transfers.
  \<^item> \<open>X52io_Types\<close>, \<open>X52io_Parser\<close>, \<open>X52io_Device\<close> (\<open>libx52io\<close>), \<open>Kernel_Hid\<close>
    (\<open>kernel_module\<close>): parsing of reports, the context and its invariant, and the agreement of the
    two parsers of the repository.
  \<^item> \<open>X52_Char_Map\<close> (\<open>libx52util\<close>), \<open>Inih\<close>, \<open>Pinelog\<close> (\<open>lib\<close>).
  \<^item> \<open>Config_Map\<close>, \<open>Config_Parser\<close>, \<open>Config_Codec\<close>, \<open>Config_Store\<close>, \<open>Config_File\<close>,
    \<open>Config_Daemon\<close> (\<open>x52d_config.h\<close>, \<open>.def\<close>, \<open>.c\<close>, \<open>_parser.c\<close>, \<open>_dump.c\<close>): the table of keys, the
    parsers and dumpers with their contracts, the configuration as a store, files, loading.
  \<^item> \<open>X52d_Comm\<close> (\<open>x52d_comm_internal.c\<close>, \<open>x52d_comm_client.c\<close>), \<open>X52d_Client\<close>
    (\<open>x52d_client.c\<close>), \<open>X52d_Command\<close>, \<open>X52d_Command_Laws\<close>, \<open>X52d_Server\<close> (\<open>x52d_command.c\<close>),
    \<open>X52d_Notify\<close> (\<open>x52d_notify.c\<close>).
  \<^item> \<open>X52d_Device\<close> (\<open>x52d_device.c\<close>), \<open>X52d_Mouse\<close> (\<open>x52d_mouse.c\<close>, \<open>x52d_mouse_evdev.c\<close>,
    \<open>x52d_io.c\<close>), \<open>X52d_Settings\<close> (\<open>x52d_clock.c\<close>, \<open>x52d_led.c\<close>, the callbacks of the
    configuration), \<open>X52d_Apply\<close>.
  \<^item> \<open>X52d_Main\<close>, \<open>X52d_Main_Laws\<close> (\<open>x52d_main.c\<close>), \<open>X52d_Daemon\<close>, \<open>X52d_Daemon_Laws\<close> (all
    threads of the daemon over one state).
  \<^item> \<open>Libx52_Session\<close>: what the programs that own a device share, sequences of setters with the
    updates they end in and the log of a device that accepts. \<open>X52_Cli\<close>, \<open>X52_Cli_Laws\<close>
    (\<open>x52_cli.c\<close>), \<open>X52ctl\<close> (\<open>x52ctl.c\<close>), \<open>X52test\<close>, \<open>X52test_Laws\<close> (\<open>joytest\<close>), \<open>X52_Evtest\<close>
    (\<open>ev_test.c\<close>, \<open>bugreport.c\<close>).

  \<^bold>\<open>State.\<close> A struct or the static variables of a file are a \<open>record\<close> (\<open>libx52_device\<close>,
  \<open>libx52io_context\<close>, \<open>x52d_config\<close>, \<open>dev_manager\<close>, \<open>modules_state\<close>, \<open>mouse_manager\<close>,
  \<open>command_server\<close>, \<open>notify_state\<close>, \<open>pinelog\<close>, \<open>main_state\<close>); an operation takes and returns it. Code
  that is not in the repository is an argument: a record of functions over a world (\<open>libusb\<close>,
  \<open>hidapi\<close>, \<open>posix\<close>, \<open>uinput\<close>, \<open>main_ops\<close>), or a function (time zones, translation, the
  generated character map). What is assumed of it is a named predicate or locale (\<open>accepts\<close>,
  \<open>fd_laws\<close>, \<open>os_laws\<close>, \<open>pipe_laws\<close>, \<open>key_laws\<close>), each met by a concrete instance in the witnesses.
  Undefined behaviour of C and calls that never return are values (\<open>None\<close>, \<open>Undefined\<close>, \<open>Overrun\<close>),
  and leaving the process is \<open>Exit\<close>.

  \<^bold>\<open>What is shown.\<close> For libx52: setters keep their contract; an update sends exactly the commands
  of the marked indicators, keeps what it could not send, succeeds on a joystick that accepts;
  values decode to the settings; and after any sequence of events a marked indicator stays marked
  until the display shows it. For libx52io and the kernel: reports are parsed within the axis
  ranges and alike; what the event tester printed last of an axis or button is its state. No test
  of \<open>x52test\<close> fails on a joystick that accepts its commands, and its cleanup is shown whenever a
  signal ends the tests. What the tools of the stub write is what the stub reads and what libx52
  writes. For the daemon: configurations survive being written and read (but for the clock
  formats), loading always ends, commands are answered within their buffers, client tables
  lose no descriptor, and the buttons of the virtual mouse are determined over whole runs. The
  composition of all this is \<open>X52d_Daemon_Laws\<close>: every interleaving of the rounds of the eight
  threads keeps display, configuration, log and tables in order, and the main loop serves the
  requests of its signals as the functions \<open>x52d_reload\<close> and \<open>x52d_save\<close> on configuration, files
  and modules say (locale \<open>served_modules\<close>). The outcomes of connecting, loading a configuration
  and serving a command are exact, with the conditions of each failure. Where the code does not do what it means to, the
  theorem says what it does: the race of the update flag, lost button changes, truncated
  notifications, commands past the buffers, requests to reload that no thread hears, signals lost
  by the main loop, a failed start that closes descriptors of others.

  \<^bold>\<open>Loops.\<close> Loops over data are structural recursion or \<open>function\<close> with a measure. Retrying loops
  (\<open>retry_eintr\<close>, \<open>write_loop\<close>, the reader of \<open>Inih\<close>) are \<open>partial_function (option)\<close>; for the
  files \<open>ini_parse_returns\<close> shows that they end. The loop of the event tester is one too, and ends
  with a signal or a read error (\<open>ev_ends\<close>). The retries of a vendor command are bounded as in the
  code. There is no fuel. Endless loops of threads are their rounds, and runs are lists of
  rounds.

  \<^bold>\<open>Signals.\<close> The mask of the main thread and the one the command thread inherits from it are part
  of the state (\<open>xd_masked\<close>, \<open>xd_command_masked\<close>); \<open>raise\<close> in the command thread runs the handler or
  leaves the signal pending (\<open>raise_signal\<close>). The masks of the other threads play no part, since
  none of them raises a signal, and signals from outside are taken by the main thread.

  \<^bold>\<open>Limits of the model.\<close> A round of a thread in \<open>X52d_Daemon\<close> is one step; interference inside a
  round is modelled in \<open>X52d_Device\<close> (the window after the device mutex is released),
  \<open>X52d_Mouse\<close> (between storing and comparing a report; \<open>mouse_buttons_follow\<close> is about reports
  handled without it, and about writes that succeed) and \<open>X52d_Main_Laws\<close> (signals between the
  statements of the loop). The display theorems take the joystick to keep its registers while it
  is unplugged; \<open>x52d_config_apply_sets\<close> covers that the daemon marks every setting again
  when it was found. Allocation failures are modelled where the code looks at them.

  \<^bold>\<open>Not modelled.\<close> Log and error messages beyond those returned, sleeping, creating and cancelling
  threads; the unit tests and the benchmark of pinelog. \<open>gettext.h\<close>, the
  generated character map, device tables and module registration of the kernel drivers are not
  the program's own code; \<open>x52dcomm.h\<close> holds declarations and documentation.
\<close>

end
